(* ===== verification/Prelude.thy ===== *)
theory Prelude
  imports Main "HOL-Library.Word" "HOL-Library.AList"
begin

text \<open>
  The shared layer of the development: the machine integers of the Rust sources, the result
  type, the collections of facts that the component proofs add to the simplifier, and the
  generic lemmas on lists, association lists and words that several components use.
  A Rust byte (\<open>u8\<close> in a slice) and a byte of a Rust string are both HOL's \<open>char\<close>, which
  has exactly 256 values; a Rust \<open>str\<close> is the list of its UTF-8 bytes.
\<close>

unbundle bit_operations_syntax

type_synonym u16 = "16 word"
type_synonym u32 = "32 word"
type_synonym u64 = "64 word"
type_synonym u128 = "128 word"
type_synonym byte = char
type_synonym bytes = "char list"

named_theorems text_simps "facts on the modelled operations of str"
named_theorems frame_simps "fields an operation leaves alone"
named_theorems counter_simps "what one operation does to the counters"
named_theorems store_simps "what one operation does to the session table"

section \<open>Results\<close>

text \<open>\<open>Result<T, E>\<close> is \<open>E + T\<close>; \<open>bind_result\<close> is the question mark operator.\<close>

type_synonym ('e, 'a) result = "'e + 'a"

abbreviation Ok :: "'a \<Rightarrow> ('e, 'a) result" where
  "Ok \<equiv> Inr"

abbreviation Err :: "'e \<Rightarrow> ('e, 'a) result" where
  "Err \<equiv> Inl"

fun bind_result :: "('e, 'a) result \<Rightarrow> ('a \<Rightarrow> ('e, 'b) result) \<Rightarrow> ('e, 'b) result" where
  "bind_result (Inl e) f = Inl e"
| "bind_result (Inr x) f = f x"

definition ok_or :: "'e \<Rightarrow> 'a option \<Rightarrow> ('e, 'a) result" where
  "ok_or e x = (case x of None \<Rightarrow> Inl e | Some a \<Rightarrow> Inr a)"

definition ensure :: "bool \<Rightarrow> 'e \<Rightarrow> ('e, unit) result" where
  "ensure b e = (if b then Inr () else Inl e)"

text \<open>\<open>map_err(f)\<close>; with a constant \<open>f\<close> it is \<open>with_context\<close>, whose text is what \<open>Display\<close> shows.\<close>

definition map_err :: "('e \<Rightarrow> 'f) \<Rightarrow> ('e, 'a) result \<Rightarrow> ('f, 'a) result" where
  "map_err f r = (case r of Inl e \<Rightarrow> Inl (f e) | Inr a \<Rightarrow> Inr a)"

fun is_ok :: "('e, 'a) result \<Rightarrow> bool" where
  "is_ok (Inl e) = False"
| "is_ok (Inr x) = True"

text \<open>\<open>iter.map(f).collect::<Result<_, _>>()\<close>: the first error wins.\<close>

fun map_result :: "('a \<Rightarrow> ('e, 'b) result) \<Rightarrow> 'a list \<Rightarrow> ('e, 'b list) result" where
  "map_result f [] = Inr []"
| "map_result f (x # xs) =
     bind_result (f x) (\<lambda>y. bind_result (map_result f xs) (\<lambda>ys. Inr (y # ys)))"

lemma bind_result_Inr_iff [simp]:
  "bind_result r f = Inr y \<longleftrightarrow> (\<exists>x. r = Inr x \<and> f x = Inr y)"
  by (cases r) auto

lemma bind_result_Inl_iff:
  "bind_result r f = Inl e \<longleftrightarrow> r = Inl e \<or> (\<exists>x. r = Inr x \<and> f x = Inl e)"
  by (cases r) auto

lemma bind_result_assoc:
  "bind_result (bind_result r f) g = bind_result r (\<lambda>x. bind_result (f x) g)"
  by (cases r) auto

lemma ok_or_simps [simp]: "ok_or e None = Inl e" "ok_or e (Some a) = Inr a"
  by (simp_all add: ok_or_def)

lemma ok_or_Inr_iff [simp]: "ok_or e x = Inr a \<longleftrightarrow> x = Some a"
  by (cases x) auto

lemma ensure_Inr_iff [simp]: "ensure b e = Inr u \<longleftrightarrow> b"
  by (simp add: ensure_def)

lemma ensure_True [simp]: "ensure True e = Inr ()"
  by (simp add: ensure_def)

lemma map_err_simps [simp]:
  "map_err f (Inl e) = Inl (f e)" "map_err f (Inr a) = Inr a"
  "map_err f r = Inr a \<longleftrightarrow> r = Inr a"
  by (auto simp: map_err_def split: sum.splits)

lemma map_result_length: "map_result f xs = Inr ys \<Longrightarrow> length ys = length xs"
  by (induction xs arbitrary: ys) auto

lemma map_result_all:
  "map_result f xs = Inr ys \<Longrightarrow> (\<And>x y. f x = Inr y \<Longrightarrow> P y) \<Longrightarrow> y \<in> set ys \<Longrightarrow> P y"
  by (induction xs arbitrary: ys) auto

lemma map_result_fixed:
  "(\<And>x. x \<in> set xs \<Longrightarrow> f x = Inr x) \<Longrightarrow> map_result f xs = Inr xs"
  by (induction xs) auto

text \<open>A handler that fails changes nothing.\<close>

lemma handler_cases:
  assumes "(case r of Inl e \<Rightarrow> (Inl e, db) | Inr p \<Rightarrow> g p) = (x, db')"
  obtains (refused) e where "x = Inl e" "db' = db" | (answered) p where "r = Inr p" "g p = (x, db')"
  using assms by (cases r) auto

section \<open>Options\<close>

text \<open>\<open>opt.filter(p)\<close> and \<open>opt.is_some_and(p)\<close>.\<close>

definition filter_option :: "('a \<Rightarrow> bool) \<Rightarrow> 'a option \<Rightarrow> 'a option" where
  "filter_option p x = (case x of None \<Rightarrow> None | Some a \<Rightarrow> if p a then Some a else None)"

definition is_some_and :: "('a \<Rightarrow> bool) \<Rightarrow> 'a option \<Rightarrow> bool" where
  "is_some_and p x = (case x of None \<Rightarrow> False | Some a \<Rightarrow> p a)"

definition unwrap_or :: "'a \<Rightarrow> 'a option \<Rightarrow> 'a" where
  "unwrap_or d x = (case x of None \<Rightarrow> d | Some a \<Rightarrow> a)"

definition or_option :: "'a option \<Rightarrow> 'a option \<Rightarrow> 'a option" where
  "or_option x y = (case x of None \<Rightarrow> y | Some a \<Rightarrow> Some a)"

lemma filter_option_simps [simp]:
  "filter_option p None = None"
  "filter_option p (Some a) = (if p a then Some a else None)"
  by (simp_all add: filter_option_def)

lemma filter_option_Some_iff: "filter_option p x = Some a \<longleftrightarrow> x = Some a \<and> p a"
  by (cases x) auto

lemma is_some_and_simps [simp]: "is_some_and p None = False" "is_some_and p (Some a) = p a"
  by (simp_all add: is_some_and_def)

lemma unwrap_or_simps [simp]: "unwrap_or d None = d" "unwrap_or d (Some a) = a"
  by (simp_all add: unwrap_or_def)

lemma or_option_simps [simp]: "or_option None y = y" "or_option (Some a) y = Some a"
  by (simp_all add: or_option_def)

section \<open>Mutexes\<close>

text \<open>A \<open>Mutex<T>\<close> that is never held across two operations: its value and its poison flag.\<close>

datatype 'a mutex = Healthy 'a | Poisoned 'a

fun lock_value :: "'a mutex \<Rightarrow> 'a option" where
  "lock_value (Healthy a) = Some a"
| "lock_value (Poisoned a) = None"

fun set_locked :: "'a \<Rightarrow> 'a mutex \<Rightarrow> 'a mutex" where
  "set_locked v (Healthy a) = Healthy v"
| "set_locked v (Poisoned a) = Poisoned a"

lemma lock_value_set [simp]: "lock_value (set_locked v m) = map_option (\<lambda>_. v) (lock_value m)"
  by (cases m) auto

section \<open>Machine integers\<close>

text \<open>
  \<open>saturating_add\<close>, \<open>saturating_sub\<close> and \<open>abs_diff\<close> of \<open>u64\<close>, and \<open>checked_add\<close> of
  \<open>usize\<close>, which is 64 bits wide on the targets the build produces. Lengths and offsets are
  \<open>nat\<close>; where the code can overflow, the bound is written out.
\<close>

definition saturating_add :: "u64 \<Rightarrow> u64 \<Rightarrow> u64" where
  "saturating_add a b = (if unat a + unat b < 2 ^ 64 then a + b else - 1)"

definition saturating_sub :: "u64 \<Rightarrow> u64 \<Rightarrow> u64" where
  "saturating_sub a b = (if a < b then 0 else a - b)"

definition abs_diff :: "u64 \<Rightarrow> u64 \<Rightarrow> u64" where
  "abs_diff a b = (if a < b then b - a else a - b)"

definition checked_add_usize :: "nat \<Rightarrow> nat \<Rightarrow> nat option" where
  "checked_add_usize a b = (if a + b < 2 ^ 64 then Some (a + b) else None)"

lemma unat_saturating_add: "unat (saturating_add a b) = min (unat a + unat b) (2 ^ 64 - 1)"
proof (cases "unat a + unat b < 2 ^ 64")
  case True
  then show ?thesis
    by (simp add: saturating_add_def unat_word_ariths)
next
  case False
  then show ?thesis
    by (simp add: saturating_add_def unsigned_minus_1_eq_mask mask_eq_exp_minus_1)
qed

lemma saturating_add_mono: "a \<le> saturating_add a b"
proof -
  have "unat a < 2 ^ 64" using unsigned_less [of a] by simp
  then show ?thesis
    by (simp add: word_le_nat_alt unat_saturating_add)
qed

lemma saturating_sub_le: "saturating_sub a b \<le> a"
  by (auto simp: saturating_sub_def word_le_nat_alt unat_sub not_less)

lemma checked_add_usize_small: "a + b < 2 ^ 64 \<Longrightarrow> checked_add_usize a b = Some (a + b)"
  by (simp add: checked_add_usize_def)

section \<open>Lists\<close>

lemma set_takeWhile_all: "x \<in> set (takeWhile P xs) \<Longrightarrow> P x"
  by (induction xs) (auto split: if_splits)

lemma takeWhile_dropWhile_stop:
  "(\<And>x. x \<in> set xs \<Longrightarrow> P x) \<Longrightarrow> \<not> P y \<Longrightarrow> takeWhile P (xs @ y # ys) = xs"
  "(\<And>x. x \<in> set xs \<Longrightarrow> P x) \<Longrightarrow> \<not> P y \<Longrightarrow> dropWhile P (xs @ y # ys) = y # ys"
  by (induction xs) auto

lemma take_drop_split: "n \<le> length xs \<Longrightarrow> take n xs @ drop n xs = xs"
  by simp

lemma find_Some_first:
  "find p xs = Some x \<Longrightarrow> x \<in> set xs \<and> p x"
  by (induction xs) (auto split: if_splits)

section \<open>Association lists with distinct keys\<close>

text \<open>A \<open>HashMap\<close> is an association list with distinct keys; only \<open>retain\<close> and \<open>len\<close> see all of it.\<close>

abbreviation distinct_keys :: "('k \<times> 'v) list \<Rightarrow> bool" where
  "distinct_keys m \<equiv> distinct (map fst m)"

lemma distinct_keys_filter: "distinct_keys m \<Longrightarrow> distinct_keys (filter p m)"
  by (rule distinct_map_filter)

lemma map_of_filter_value:
  "distinct_keys m \<Longrightarrow>
   map_of (filter (\<lambda>kv. p (snd kv)) m) k = filter_option p (map_of m k)"
proof (induction m)
  case Nil
  then show ?case by simp
next
  case (Cons kv m)
  obtain k' v where [simp]: "kv = (k', v)" by (cases kv)
  have "map_of m k' = None"
    using Cons.prems by (simp add: map_of_eq_None_iff)
  with Cons show ?case by (cases "k = k'") auto
qed

lemma map_of_filter_None:
  "map_of m k = None \<Longrightarrow> map_of (filter p m) k = None"
  by (auto simp: map_of_eq_None_iff)

end
