(* ===== verification/Rust_Text.thy ===== *)
theory Rust_Text
  imports Prelude
begin

text \<open>
  The operations of Rust's \<open>str\<close> that the sources use, on the UTF-8 bytes of the string:
  \<open>trim\<close>, ASCII case folding, \<open>split\<close>, \<open>split_once\<close>, \<open>rsplit_once\<close>, \<open>contains\<close>,
  \<open>replace\<close>, \<open>chars().count()\<close>, \<open>chars().take(n)\<close>, \<open>from_utf8\<close>, and the printing and
  parsing of unsigned integers.
\<close>

definition code_of :: "byte \<Rightarrow> nat" where
  "code_of c = of_char c"

lemma code_of_less [simp]: "code_of c < 256"
  by (simp add: code_of_def)

lemma code_of_char_of [simp]: "code_of (char_of n) = n mod 256"
  by (simp add: code_of_def)

lemma char_of_code_of [simp]: "char_of (code_of c) = c"
  by (simp add: code_of_def)

lemma code_of_inject [simp]: "code_of c = code_of d \<longleftrightarrow> c = d"
  by (simp add: code_of_def)

section \<open>White space\<close>

text \<open>
  \<open>str::trim\<close> removes characters with the Unicode property \<open>White_Space\<close>: one byte for
  U+0009 to U+000D and U+0020, two for U+0085 and U+00A0, three for U+1680, U+2000 to
  U+200A, U+2028, U+2029, U+202F, U+205F and U+3000.
\<close>

definition ws1 :: "byte \<Rightarrow> bool" where
  "ws1 a = (code_of a = 32 \<or> (9 \<le> code_of a \<and> code_of a \<le> 13))"

definition ws2 :: "byte \<Rightarrow> byte \<Rightarrow> bool" where
  "ws2 a b = (code_of a = 0xC2 \<and> (code_of b = 0x85 \<or> code_of b = 0xA0))"

definition ws3 :: "byte \<Rightarrow> byte \<Rightarrow> byte \<Rightarrow> bool" where
  "ws3 a b c =
     (code_of a = 0xE1 \<and> code_of b = 0x9A \<and> code_of c = 0x80 \<or>
      code_of a = 0xE2 \<and> code_of b = 0x80 \<and>
        (0x80 \<le> code_of c \<and> code_of c \<le> 0x8A \<or> code_of c = 0xA8 \<or> code_of c = 0xA9 \<or>
         code_of c = 0xAF) \<or>
      code_of a = 0xE2 \<and> code_of b = 0x81 \<and> code_of c = 0x9F \<or>
      code_of a = 0xE3 \<and> code_of b = 0x80 \<and> code_of c = 0x80)"

fun strip_front ::
  "(byte \<Rightarrow> bool) \<Rightarrow> (byte \<Rightarrow> byte \<Rightarrow> bool) \<Rightarrow> (byte \<Rightarrow> byte \<Rightarrow> byte \<Rightarrow> bool) \<Rightarrow> string \<Rightarrow> string"
where
  "strip_front p1 p2 p3 (a # b # c # s) =
     (if p1 a then strip_front p1 p2 p3 (b # c # s)
      else if p2 a b then strip_front p1 p2 p3 (c # s)
      else if p3 a b c then strip_front p1 p2 p3 s
      else a # b # c # s)"
| "strip_front p1 p2 p3 [a, b] =
     (if p1 a then strip_front p1 p2 p3 [b] else if p2 a b then [] else [a, b])"
| "strip_front p1 p2 p3 [a] = (if p1 a then [] else [a])"
| "strip_front p1 p2 p3 [] = []"

definition trim_start :: "string \<Rightarrow> string" where
  "trim_start s = strip_front ws1 ws2 ws3 s"

definition trim_end :: "string \<Rightarrow> string" where
  "trim_end s = rev (strip_front ws1 (\<lambda>b a. ws2 a b) (\<lambda>c b a. ws3 a b c) (rev s))"

definition trim :: "string \<Rightarrow> string" where
  "trim s = trim_end (trim_start s)"

fun starts_with_ws ::
  "(byte \<Rightarrow> bool) \<Rightarrow> (byte \<Rightarrow> byte \<Rightarrow> bool) \<Rightarrow> (byte \<Rightarrow> byte \<Rightarrow> byte \<Rightarrow> bool) \<Rightarrow> string \<Rightarrow> bool"
where
  "starts_with_ws p1 p2 p3 (a # b # c # s) = (p1 a \<or> p2 a b \<or> p3 a b c)"
| "starts_with_ws p1 p2 p3 [a, b] = (p1 a \<or> p2 a b)"
| "starts_with_ws p1 p2 p3 [a] = p1 a"
| "starts_with_ws p1 p2 p3 [] = False"

lemma strip_front_stops: "\<not> starts_with_ws p1 p2 p3 (strip_front p1 p2 p3 s)"
  by (induction p1 p2 p3 s rule: strip_front.induct) auto

lemma strip_front_id: "\<not> starts_with_ws p1 p2 p3 s \<Longrightarrow> strip_front p1 p2 p3 s = s"
  by (induction p1 p2 p3 s rule: strip_front.induct) auto

lemma strip_front_suffix: "\<exists>w. s = w @ strip_front p1 p2 p3 s"
proof (induction p1 p2 p3 s rule: strip_front.induct)
  case (1 p1 p2 p3 a b c s)
  consider "p1 a" | "\<not> p1 a" "p2 a b" | "\<not> p1 a" "\<not> p2 a b" "p3 a b c"
    | "\<not> p1 a" "\<not> p2 a b" "\<not> p3 a b c" by blast
  then show ?case
  proof cases
    case 1
    with "1.IH"(1) obtain w where "b # c # s = w @ strip_front p1 p2 p3 (b # c # s)" by blast
    with 1 have "a # b # c # s = (a # w) @ strip_front p1 p2 p3 (a # b # c # s)" by simp
    then show ?thesis by blast
  next
    case 2
    with "1.IH"(2) obtain w where "c # s = w @ strip_front p1 p2 p3 (c # s)" by blast
    with 2 have "a # b # c # s = (a # b # w) @ strip_front p1 p2 p3 (a # b # c # s)" by simp
    then show ?thesis by blast
  next
    case 3
    with "1.IH"(3) obtain w where "s = w @ strip_front p1 p2 p3 s" by blast
    with 3 have "a # b # c # s = (a # b # c # w) @ strip_front p1 p2 p3 (a # b # c # s)"
      by simp
    then show ?thesis by blast
  qed auto
qed auto

lemma starts_with_ws_append:
  "starts_with_ws p1 p2 p3 s \<Longrightarrow> starts_with_ws p1 p2 p3 (s @ t)"
proof (induction p1 p2 p3 s rule: starts_with_ws.induct)
  case (2 p1 p2 p3 a b)
  then show ?case by (cases t) auto
next
  case (3 p1 p2 p3 a)
  then show ?case by (cases t rule: remdups_adj.cases) auto
qed auto

lemma trim_end_prefix: "\<exists>w. s = trim_end s @ w"
proof -
  obtain w where "rev s = w @ rev (trim_end s)"
    using strip_front_suffix [of "rev s" ws1 "\<lambda>b a. ws2 a b" "\<lambda>c b a. ws3 a b c"]
    by (auto simp: trim_end_def)
  then have "s = trim_end s @ rev w"
    by (metis rev_append rev_rev_ident)
  then show ?thesis by blast
qed

lemma trim_end_idem [simp]: "trim_end (trim_end s) = trim_end s"
  by (simp add: trim_end_def strip_front_id strip_front_stops)

lemma trim_start_trim: "trim_start (trim s) = trim s"
proof -
  obtain w where w: "trim_start s = trim s @ w"
    using trim_end_prefix [of "trim_start s"] by (auto simp: trim_def)
  have "\<not> starts_with_ws ws1 ws2 ws3 (trim s @ w)"
    using strip_front_stops [of ws1 ws2 ws3 s] w by (simp add: trim_start_def)
  then have "\<not> starts_with_ws ws1 ws2 ws3 (trim s)"
    using starts_with_ws_append by blast
  then show ?thesis
    by (simp add: trim_start_def strip_front_id)
qed

lemma trim_idem [simp]: "trim (trim s) = trim s"
  using trim_start_trim [of s] by (simp add: trim_def)

lemma trim_subset: "set (trim s) \<subseteq> set s"
proof -
  obtain v w where "s = v @ trim_start s" "trim_start s = trim s @ w"
    using strip_front_suffix [of s ws1 ws2 ws3] trim_end_prefix [of "trim_start s"]
    by (auto simp: trim_start_def trim_def)
  then have "s = v @ trim s @ w" by simp
  then show ?thesis by (metis Un_subset_iff order_refl set_append)
qed

lemma length_trim_le: "length (trim s) \<le> length s"
proof -
  obtain v w where "s = v @ trim_start s" "trim_start s = trim s @ w"
    using strip_front_suffix [of s ws1 ws2 ws3] trim_end_prefix [of "trim_start s"]
    by (auto simp: trim_start_def trim_def)
  then have "s = v @ trim s @ w" by simp
  then have "length s = length (v @ trim s @ w)" by (rule arg_cong)
  then show ?thesis by simp
qed

lemma trim_empty [simp]: "trim [] = []"
  by (simp add: trim_def trim_start_def trim_end_def)

section \<open>Printable texts\<close>

definition printable :: "string \<Rightarrow> bool" where
  "printable s \<longleftrightarrow> (\<forall>c \<in> set s. 33 \<le> code_of c \<and> code_of c \<le> 126)"

lemma printable_simps [simp]:
  "printable []" "printable (c # s) \<longleftrightarrow> 33 \<le> code_of c \<and> code_of c \<le> 126 \<and> printable s"
  "printable (s @ t) \<longleftrightarrow> printable s \<and> printable t" "printable (rev s) \<longleftrightarrow> printable s"
  by (auto simp: printable_def)

lemma trim_printable [simp]: "printable s \<Longrightarrow> trim s = s"
proof -
  have front: "strip_front p1 p2 p3 t = t"
    if "\<And>c. 33 \<le> code_of c \<Longrightarrow> code_of c \<le> 126 \<Longrightarrow> \<not> p1 c"
      "\<And>c d. 33 \<le> code_of c \<Longrightarrow> code_of c \<le> 126 \<Longrightarrow> \<not> p2 c d"
      "\<And>c d e. 33 \<le> code_of c \<Longrightarrow> code_of c \<le> 126 \<Longrightarrow> \<not> p3 c d e" "printable t"
    for p1 p2 p3 t
    using that by (intro strip_front_id, cases t rule: remdups_adj.cases) (auto split: list.splits elim!: starts_with_ws.elims)
  assume s: "printable s"
  then have "trim_start s = s"
    unfolding trim_start_def by (intro front) (auto simp: ws1_def ws2_def ws3_def)
  moreover have "trim_end s = s"
    unfolding trim_end_def using s by (subst front) (auto simp: ws1_def ws2_def ws3_def)
  ultimately show ?thesis by (simp add: trim_def)
qed

section \<open>ASCII case\<close>

definition ascii_lower :: "byte \<Rightarrow> byte" where
  "ascii_lower c = (if 65 \<le> code_of c \<and> code_of c \<le> 90 then char_of (code_of c + 32) else c)"

definition to_ascii_lowercase :: "string \<Rightarrow> string" where
  "to_ascii_lowercase s = map ascii_lower s"

definition eq_ignore_ascii_case :: "string \<Rightarrow> string \<Rightarrow> bool" where
  "eq_ignore_ascii_case s t = (map ascii_lower s = map ascii_lower t)"

lemma ascii_lower_idem [simp]: "ascii_lower (ascii_lower c) = ascii_lower c"
  by (auto simp: ascii_lower_def)

lemma to_ascii_lowercase_idem [simp]:
  "to_ascii_lowercase (to_ascii_lowercase s) = to_ascii_lowercase s"
  by (simp add: to_ascii_lowercase_def)

lemma eq_ignore_ascii_case_refl [simp]: "eq_ignore_ascii_case s s"
  by (simp add: eq_ignore_ascii_case_def)

lemma eq_ignore_ascii_case_sym: "eq_ignore_ascii_case s t = eq_ignore_ascii_case t s"
  by (auto simp: eq_ignore_ascii_case_def)

lemma eq_ignore_lower [simp]:
  "eq_ignore_ascii_case (to_ascii_lowercase s) t = eq_ignore_ascii_case s t"
  "eq_ignore_ascii_case s (to_ascii_lowercase t) = eq_ignore_ascii_case s t"
  by (simp_all add: eq_ignore_ascii_case_def to_ascii_lowercase_def comp_def)

lemma length_to_ascii_lowercase [simp]: "length (to_ascii_lowercase s) = length s"
  by (simp add: to_ascii_lowercase_def)

text \<open>Case folding leaves white space alone, so it commutes with trimming.\<close>

lemma code_of_ascii_lower:
  "code_of (ascii_lower c) = (if 65 \<le> code_of c \<and> code_of c \<le> 90 then code_of c + 32 else code_of c)"
  by (simp add: ascii_lower_def)

lemma ws_ascii_lower [simp]:
  "ws1 (ascii_lower a) = ws1 a"
  "ws2 (ascii_lower a) (ascii_lower b) = ws2 a b"
  "ws3 (ascii_lower a) (ascii_lower b) (ascii_lower c) = ws3 a b c"
  by (auto simp: ws1_def ws2_def ws3_def code_of_ascii_lower)

lemma strip_front_map:
  assumes "\<And>a. p1 (f a) = p1 a" "\<And>a b. p2 (f a) (f b) = p2 a b"
    and "\<And>a b c. p3 (f a) (f b) (f c) = p3 a b c"
  shows "strip_front p1 p2 p3 (map f s) = map f (strip_front p1 p2 p3 s)"
  using assms by (induction p1 p2 p3 s rule: strip_front.induct) simp_all

lemma trim_to_ascii_lowercase: "trim (to_ascii_lowercase s) = to_ascii_lowercase (trim s)"
  by (simp add: trim_def trim_start_def trim_end_def to_ascii_lowercase_def strip_front_map
      rev_map)

section \<open>Splitting and searching\<close>

fun split_on :: "byte \<Rightarrow> string \<Rightarrow> string list" where
  "split_on d [] = [[]]"
| "split_on d (c # s) =
     (if c = d then [] # split_on d s
      else (case split_on d s of [] \<Rightarrow> [[c]] | x # xs \<Rightarrow> (c # x) # xs))"

definition split_once :: "byte \<Rightarrow> string \<Rightarrow> (string \<times> string) option" where
  "split_once d s =
     (case dropWhile (\<lambda>c. c \<noteq> d) s of
        [] \<Rightarrow> None
      | _ # r \<Rightarrow> Some (takeWhile (\<lambda>c. c \<noteq> d) s, r))"

definition rsplit_once :: "byte \<Rightarrow> string \<Rightarrow> (string \<times> string) option" where
  "rsplit_once d s =
     map_option (\<lambda>(l, r). (rev r, rev l)) (split_once d (rev s))"

fun starts_with :: "string \<Rightarrow> string \<Rightarrow> bool" where
  "starts_with s [] = True"
| "starts_with [] (p # ps) = False"
| "starts_with (c # s) (p # ps) = (c = p \<and> starts_with s ps)"

fun contains :: "string \<Rightarrow> string \<Rightarrow> bool" where
  "contains [] p = (p = [])"
| "contains (c # s) p = (starts_with (c # s) p \<or> contains s p)"

definition strip_prefix :: "string \<Rightarrow> string \<Rightarrow> string option" where
  "strip_prefix p s = (if starts_with s p then Some (drop (length p) s) else None)"

definition replace_char :: "byte \<Rightarrow> byte \<Rightarrow> string \<Rightarrow> string" where
  "replace_char a b s = map (\<lambda>c. if c = a then b else c) s"

definition trim_end_matches :: "byte \<Rightarrow> string \<Rightarrow> string" where
  "trim_end_matches d s = rev (dropWhile (\<lambda>c. c = d) (rev s))"

lemma split_on_nonempty [simp]: "split_on d s \<noteq> []"
  by (induction s) (auto split: list.splits)

lemma split_on_plain: "d \<notin> set s \<Longrightarrow> split_on d s = [s]"
  by (induction s) auto

lemma split_on_append:
  "d \<notin> set p \<Longrightarrow> split_on d (p @ d # s) = p # split_on d s"
  by (induction p) (auto split: list.splits)

lemma split_on_no_sep: "x \<in> set (split_on d s) \<Longrightarrow> d \<notin> set x"
proof (induction s arbitrary: x)
  case (Cons c s)
  then show ?case
    by (cases "split_on d s") (auto split: if_splits)
qed auto

fun join_on :: "byte \<Rightarrow> string list \<Rightarrow> string" where
  "join_on d [] = []"
| "join_on d [x] = x"
| "join_on d (x # y # xs) = x @ d # join_on d (y # xs)"

lemma join_on_Cons: "xs \<noteq> [] \<Longrightarrow> join_on d (x # xs) = x @ d # join_on d xs"
  by (cases xs) auto

lemma join_split_on [simp]: "join_on d (split_on d s) = s"
proof (induction s)
  case (Cons c s)
  obtain x xs where x: "split_on d s = x # xs" by (cases "split_on d s") auto
  with Cons show ?case
    by (cases xs) (auto simp: join_on_Cons)
qed simp

lemma starts_with_iff: "starts_with s p \<longleftrightarrow> (\<exists>r. s = p @ r)"
  by (induction s p rule: starts_with.induct) auto

lemma starts_with_append [simp]: "starts_with (p @ s) p"
  by (auto simp: starts_with_iff)

lemma split_once_Some_iff:
  "split_once d s = Some (l, r) \<longleftrightarrow> s = l @ d # r \<and> d \<notin> set l"
proof
  let ?P = "\<lambda>c. c \<noteq> d"
  assume "split_once d s = Some (l, r)"
  then obtain x where dw: "dropWhile ?P s = x # r" and l: "l = takeWhile ?P s"
    by (auto simp: split_once_def split: list.splits)
  from dw have "x = d" by (simp add: dropWhile_eq_Cons_conv)
  moreover have "s = l @ dropWhile ?P s"
    unfolding l by (rule takeWhile_dropWhile_id [symmetric])
  moreover have "d \<notin> set l" unfolding l using set_takeWhile_all by fastforce
  ultimately show "s = l @ d # r \<and> d \<notin> set l" unfolding dw by simp
next
  assume *: "s = l @ d # r \<and> d \<notin> set l"
  then have "\<And>x. x \<in> set l \<Longrightarrow> x \<noteq> d" by blast
  with * show "split_once d s = Some (l, r)"
    by (simp add: split_once_def takeWhile_dropWhile_stop)
qed

lemma replace_char_notin: "a \<noteq> b \<Longrightarrow> a \<notin> set (replace_char a b s)"
  by (auto simp: replace_char_def)

lemma replace_char_keeps: "c \<notin> set s \<Longrightarrow> c \<noteq> b \<Longrightarrow> c \<notin> set (replace_char a b s)"
  by (auto simp: replace_char_def)

lemma trim_end_matches_last: "trim_end_matches d s = [] \<or> last (trim_end_matches d s) \<noteq> d"
proof -
  have "dropWhile (\<lambda>c. c = d) (rev s) = [] \<or> hd (dropWhile (\<lambda>c. c = d) (rev s)) \<noteq> d"
    using hd_dropWhile [of "\<lambda>c. c = d" "rev s"] by blast
  then show ?thesis
    by (auto simp: trim_end_matches_def last_rev)
qed

lemma trim_end_matches_idem [simp]:
  "trim_end_matches d (trim_end_matches d s) = trim_end_matches d s"
proof -
  have "dropWhile P (dropWhile P xs) = dropWhile P xs" for P :: "byte \<Rightarrow> bool" and xs
    by (induction xs) auto
  then show ?thesis by (simp add: trim_end_matches_def)
qed

section \<open>Lines\<close>

text \<open>\<open>str::lines\<close>: the texts between line feeds, without the carriage return before one.\<close>

definition line_feed :: byte where "line_feed = char_of (10::nat)"

definition carriage_return :: byte where "carriage_return = char_of (13::nat)"

definition strip_return :: "string \<Rightarrow> string" where
  "strip_return l = (if l \<noteq> [] \<and> last l = carriage_return then butlast l else l)"

definition text_lines :: "string \<Rightarrow> string list" where
  "text_lines s =
     (let parts = split_on line_feed s
      in map strip_return (butlast parts) @ (if last parts = [] then [] else [last parts]))"

lemma split_join_line:
  "ls \<noteq> [] \<Longrightarrow> \<forall>l \<in> set ls. d \<notin> set l \<Longrightarrow> split_on d (join_on d ls @ [d]) = ls @ [[]]"
proof (induction ls)
  case (Cons l ls)
  then show ?case
    by (cases "ls = []") (simp_all add: join_on_Cons split_on_append)
qed simp

lemma text_lines_join:
  assumes "ls \<noteq> []" "\<forall>l \<in> set ls. line_feed \<notin> set l \<and> carriage_return \<notin> set l"
  shows "text_lines (join_on line_feed ls @ [line_feed]) = ls"
proof -
  have "strip_return l = l" if "l \<in> set ls" for l
    using assms(2) that by (metis strip_return_def last_in_set)
  then show ?thesis
    using split_join_line [of ls line_feed] assms by (simp add: text_lines_def map_idI)
qed

lemma split_on_chars: "x \<in> set (split_on d s) \<Longrightarrow> set x \<subseteq> set s"
proof (induction s arbitrary: x)
  case (Cons c s)
  then show ?case
    by (cases "split_on d s") (fastforce split: if_splits)+
qed simp

lemma text_lines_chars:
  assumes "l \<in> set (text_lines s)"
  shows "line_feed \<notin> set l \<and> set l \<subseteq> set s"
proof -
  have "\<exists>x \<in> set (split_on line_feed s). set l \<subseteq> set x"
    using assms
    by (auto simp: text_lines_def strip_return_def Let_def split: if_splits dest!: in_set_butlastD)
  then show ?thesis using split_on_no_sep split_on_chars by blast
qed

end
