(* ===== verification/Rust_Numbers.thy ===== *)
theory Rust_Numbers
  imports Rust_Text
begin

text \<open>
  UTF-8 validation (\<open>str::from_utf8\<close>), characters of a string, and the decimal and
  hexadecimal text of unsigned integers: \<open>Display\<close>, \<open>LowerHex\<close> and \<open>parse::<uN>()\<close>.
\<close>

section \<open>UTF-8\<close>

definition is_cont :: "byte \<Rightarrow> bool" where
  "is_cont c = (0x80 \<le> code_of c \<and> code_of c < 0xC0)"

definition utf8_second :: "byte \<Rightarrow> byte \<Rightarrow> bool" where
  "utf8_second a b =
     (if code_of a = 0xE0 then 0xA0 \<le> code_of b \<and> code_of b < 0xC0
      else if code_of a = 0xED then 0x80 \<le> code_of b \<and> code_of b < 0xA0
      else if code_of a = 0xF0 then 0x90 \<le> code_of b \<and> code_of b < 0xC0
      else if code_of a = 0xF4 then 0x80 \<le> code_of b \<and> code_of b < 0x90
      else is_cont b)"

fun utf8_valid :: "bytes \<Rightarrow> bool" where
  "utf8_valid [] = True"
| "utf8_valid (a # s) =
     (if code_of a < 0x80 then utf8_valid s
      else if 0xC2 \<le> code_of a \<and> code_of a < 0xE0 then
        (case s of b # s' \<Rightarrow> is_cont b \<and> utf8_valid s' | _ \<Rightarrow> False)
      else if 0xE0 \<le> code_of a \<and> code_of a < 0xF0 then
        (case s of b # c # s' \<Rightarrow> utf8_second a b \<and> is_cont c \<and> utf8_valid s' | _ \<Rightarrow> False)
      else if 0xF0 \<le> code_of a \<and> code_of a < 0xF5 then
        (case s of b # c # d # s' \<Rightarrow>
           utf8_second a b \<and> is_cont c \<and> is_cont d \<and> utf8_valid s' | _ \<Rightarrow> False)
      else False)"

definition from_utf8 :: "bytes \<Rightarrow> string option" where
  "from_utf8 b = (if utf8_valid b then Some b else None)"

text \<open>A byte string of ASCII characters only.\<close>

definition is_ascii :: "string \<Rightarrow> bool" where
  "is_ascii s = list_all (\<lambda>c. code_of c < 128) s"

lemma is_ascii_simps [simp]:
  "is_ascii []" "is_ascii (c # s) = (code_of c < 128 \<and> is_ascii s)"
  "is_ascii (s @ t) = (is_ascii s \<and> is_ascii t)"
  by (auto simp: is_ascii_def)

lemma utf8_valid_ascii: "is_ascii s \<Longrightarrow> utf8_valid s"
  by (induction s) auto

lemma from_utf8_Some_iff: "from_utf8 b = Some s \<longleftrightarrow> utf8_valid b \<and> s = b"
  by (auto simp: from_utf8_def)

definition char_count :: "string \<Rightarrow> nat" where
  "char_count s = length (filter (\<lambda>c. \<not> is_cont c) s)"

fun take_chars :: "nat \<Rightarrow> string \<Rightarrow> string" where
  "take_chars n [] = []"
| "take_chars n (c # s) =
     (if is_cont c then c # take_chars n s
      else if n = 0 then [] else c # take_chars (n - 1) s)"

lemma char_count_le_length: "char_count s \<le> length s"
  by (simp add: char_count_def)

lemma take_chars_count: "char_count (take_chars n s) \<le> n"
  by (induction n s rule: take_chars.induct) (auto simp: char_count_def)

lemma take_chars_all: "char_count s \<le> n \<Longrightarrow> take_chars n s = s"
  by (induction n s rule: take_chars.induct) (auto simp: char_count_def split: if_splits)

lemma take_chars_prefix: "\<exists>r. s = take_chars n s @ r"
  by (induction n s rule: take_chars.induct) auto

section \<open>Printing unsigned integers\<close>

definition digit_char :: "nat \<Rightarrow> byte" where
  "digit_char d = (if d < 10 then char_of (48 + d) else char_of (87 + d))"

fun show_radix :: "nat \<Rightarrow> nat \<Rightarrow> string" where
  "show_radix r n =
     (if r < 2 \<or> n < r then [digit_char n] else show_radix r (n div r) @ [digit_char (n mod r)])"

declare show_radix.simps [simp del]

abbreviation show_nat :: "nat \<Rightarrow> string" where
  "show_nat \<equiv> show_radix 10"

definition show_u64 :: "u64 \<Rightarrow> string" where
  "show_u64 w = show_nat (unat w)"

definition show_u16 :: "u16 \<Rightarrow> string" where
  "show_u16 w = show_nat (unat w)"

lemma show_nat_length: "n < 10 ^ Suc k \<Longrightarrow> length (show_nat n) \<le> Suc k"
proof (induction k arbitrary: n)
  case 0
  then show ?case by (subst show_radix.simps) simp
next
  case (Suc k)
  then have "n div 10 < 10 ^ Suc k" by (simp add: less_mult_imp_div_less mult.commute)
  from Suc.IH [OF this] show ?case by (subst show_radix.simps) simp
qed

lemma show_u64_length: "length (show_u64 w) \<le> 20"
proof -
  have "unat w < 2 ^ 64" using unsigned_less [of w] by simp
  then show ?thesis using show_nat_length [of "unat w" 19] by (simp add: show_u64_def)
qed

lemma show_u16_length: "length (show_u16 w) \<le> 5"
proof -
  have "unat w < 2 ^ 16" using unsigned_less [of w] by simp
  then show ?thesis using show_nat_length [of "unat w" 4] by (simp add: show_u16_def)
qed

section \<open>Parsing unsigned integers\<close>

text \<open>\<open>char::to_digit(radix)\<close> for radix 10 and 16.\<close>

definition digit_value :: "nat \<Rightarrow> byte \<Rightarrow> nat option" where
  "digit_value r c =
     (let k = code_of c;
          v = (if 48 \<le> k \<and> k \<le> 57 then Some (k - 48)
               else if 97 \<le> k \<and> k \<le> 122 then Some (k - 87)
               else if 65 \<le> k \<and> k \<le> 90 then Some (k - 55) else None)
      in filter_option (\<lambda>d. d < r) v)"

definition is_digit :: "nat \<Rightarrow> byte \<Rightarrow> bool" where
  "is_digit r c = (digit_value r c \<noteq> None)"

definition digits_value :: "nat \<Rightarrow> string \<Rightarrow> nat" where
  "digits_value r s = foldl (\<lambda>n c. n * r + unwrap_or 0 (digit_value r c)) 0 s"

text \<open>
  \<open>parse::<uN>()\<close>: an optional plus sign, at least one decimal digit, no other character,
  and a value within the type.
\<close>

definition parse_uint :: "nat \<Rightarrow> string \<Rightarrow> nat option" where
  "parse_uint bound s =
     (let ds = (case s of c # r \<Rightarrow> if c = CHR ''+'' then r else s | [] \<Rightarrow> [])
      in if ds = [] \<or> \<not> list_all (is_digit 10) ds then None
         else filter_option (\<lambda>n. n < bound) (Some (digits_value 10 ds)))"

lemma code_of_digit_char: "d < 16 \<Longrightarrow> code_of (digit_char d) = (if d < 10 then 48 + d else 87 + d)"
  by (simp add: digit_char_def)

lemma digit_value_digit_char [simp]: "d < r \<Longrightarrow> r \<le> 16 \<Longrightarrow> digit_value r (digit_char d) = Some d"
  by (simp add: digit_value_def code_of_digit_char Let_def)

lemma digits_value_snoc:
  "digits_value r (s @ [c]) = digits_value r s * r + unwrap_or 0 (digit_value r c)"
  by (simp add: digits_value_def)

lemma show_radix_nonempty [simp]: "show_radix r n \<noteq> []"
  by (subst show_radix.simps) simp

lemma is_digit_digit_char [simp]: "d < r \<Longrightarrow> r \<le> 16 \<Longrightarrow> is_digit r (digit_char d)"
  by (simp add: is_digit_def)

lemma show_radix_digits:
  "2 \<le> r \<Longrightarrow> r \<le> 16 \<Longrightarrow> list_all (is_digit r) (show_radix r n)"
proof (induction r n rule: show_radix.induct)
  case (1 r n)
  then show ?case
    by (subst show_radix.simps) auto
qed

lemma digits_value_show [simp]:
  "2 \<le> r \<Longrightarrow> r \<le> 16 \<Longrightarrow> digits_value r (show_radix r n) = n"
proof (induction r n rule: show_radix.induct)
  case (1 r n)
  then show ?case
    by (subst show_radix.simps) (auto simp: digits_value_snoc, simp add: digits_value_def)
qed

lemma show_nat_inject [simp]: "show_nat m = show_nat n \<longleftrightarrow> m = n"
proof
  assume "show_nat m = show_nat n"
  then have "digits_value 10 (show_nat m) = digits_value 10 (show_nat n)" by simp
  then show "m = n" by simp
qed simp

lemma is_digit10_iff: "is_digit 10 c \<longleftrightarrow> 48 \<le> code_of c \<and> code_of c \<le> 57"
  by (auto simp: is_digit_def digit_value_def Let_def)

lemma show_nat_digit: "c \<in> set (show_nat n) \<Longrightarrow> 48 \<le> code_of c \<and> code_of c \<le> 57"
  using show_radix_digits [of 10 n] by (auto simp: list_all_iff is_digit10_iff)

lemma show_nat_avoids: "\<not> (48 \<le> code_of c \<and> code_of c \<le> 57) \<Longrightarrow> c \<notin> set (show_nat n)"
  using show_nat_digit by blast

lemma parse_uint_show [simp]: "parse_uint bound (show_nat n) = (if n < bound then Some n else None)"
proof -
  obtain c r where cr: "show_nat n = c # r" by (cases "show_nat n") auto
  then have "48 \<le> code_of c \<and> code_of c \<le> 57" using show_nat_digit [of c n] by simp
  then have "c \<noteq> CHR ''+''" by (auto simp: code_of_def)
  then have "parse_uint bound (show_nat n) = filter_option (\<lambda>n. n < bound) (Some n)"
    using show_radix_digits [of 10 n] digits_value_show [of 10 n]
    unfolding parse_uint_def Let_def cr by simp
  then show ?thesis by simp
qed

lemma parse_uint_bound: "parse_uint bound s = Some n \<Longrightarrow> n < bound"
  by (auto simp: parse_uint_def Let_def filter_option_Some_iff split: if_splits)

lemma is_ascii_show_nat [simp]: "is_ascii (show_nat n)"
  unfolding is_ascii_def list_all_iff using show_nat_digit by fastforce

lemma printable_show_nat [simp]: "printable (show_nat n)"
  using show_nat_digit by (fastforce simp: printable_def)

lemma printable_ascii: "printable s \<Longrightarrow> is_ascii s"
  by (auto simp: printable_def is_ascii_def list_all_iff)

section \<open>Big-endian bytes\<close>

definition u16_be :: "nat \<Rightarrow> bytes" where
  "u16_be n = [char_of (n div 256), char_of n]"

definition u32_be :: "nat \<Rightarrow> bytes" where
  "u32_be n = [char_of (n div 16777216), char_of (n div 65536), char_of (n div 256), char_of n]"

fun be_value :: "bytes \<Rightarrow> nat" where
  "be_value bs = foldl (\<lambda>n c. n * 256 + code_of c) 0 bs"

lemma length_be [simp]: "length (u16_be n) = 2" "length (u32_be n) = 4"
  by (simp_all add: u16_be_def u32_be_def)

lemma be_value_u16: "n < 65536 \<Longrightarrow> be_value (u16_be n) = n"
  by (simp add: u16_be_def div_mult_mod_eq [of n 256, simplified mult.commute])

lemma be_value_u32: "n < 4294967296 \<Longrightarrow> be_value (u32_be n) = n"
proof -
  assume n: "n < 4294967296"
  have 1: "n div 16777216 mod 256 * 256 + n div 65536 mod 256 = n div 65536"
  proof -
    have "n div 65536 div 256 = n div 16777216" by (simp add: div_mult2_eq [symmetric])
    moreover have "n div 16777216 < 256" using n by (simp add: div_less_iff_less_mult)
    ultimately show ?thesis using div_mult_mod_eq [of "n div 65536" 256] by simp
  qed
  have 2: "n div 65536 * 256 + n div 256 mod 256 = n div 256"
    using div_mult_mod_eq [of "n div 256" 256] by (simp add: div_mult2_eq [symmetric])
  have 3: "n div 256 * 256 + n mod 256 = n"
    by (rule div_mult_mod_eq)
  show ?thesis
    using 1 2 3 by (simp add: u32_be_def)
qed

lemma be_value_less2: "length bs = 2 \<Longrightarrow> be_value bs < 65536"
proof -
  assume "length bs = 2"
  then obtain a b where bs: "bs = [a, b]" by (auto simp: length_Suc_conv numeral_2_eq_2)
  have "code_of a * 256 + code_of b < 65536"
    using code_of_less [of a] code_of_less [of b] by linarith
  then show ?thesis by (simp add: bs)
qed

lemma be_value_less4: "length bs = 4 \<Longrightarrow> be_value bs < 4294967296"
proof -
  assume "length bs = 4"
  then obtain a b c d where bs: "bs = [a, b, c, d]"
    by (auto simp: length_Suc_conv numeral_eq_Suc)
  have step: "x * 256 + code_of e < m * 256" if "x < m" for x e m
    using that code_of_less [of e] by linarith
  have "((code_of a * 256 + code_of b) * 256 + code_of c) * 256 + code_of d
    < 256 * 256 * 256 * 256"
    by (intro step code_of_less)
  then show ?thesis by (simp add: bs)
qed

lemma u16_be_be_value: "length bs = 2 \<Longrightarrow> u16_be (be_value bs) = bs"
proof -
  assume "length bs = 2"
  then obtain a b where [simp]: "bs = [a, b]" by (auto simp: length_Suc_conv numeral_2_eq_2)
  have "(code_of a * 256 + code_of b) div 256 = code_of a"
    and "char_of (code_of a * 256 + code_of b) = b"
    using code_of_char_of [of "code_of a * 256 + code_of b"]
    by (simp_all flip: code_of_inject)
  then show ?thesis by (simp add: u16_be_def)
qed

lemma u32_be_be_value: "length bs = 4 \<Longrightarrow> u32_be (be_value bs) = bs"
proof -
  assume "length bs = 4"
  then obtain a b c d where [simp]: "bs = [a, b, c, d]"
    by (auto simp: length_Suc_conv numeral_eq_Suc)
  have step: "(x * 256 + code_of e) div 256 = x" "char_of (x * 256 + code_of e) = e" for x e
    using code_of_char_of [of "x * 256 + code_of e"] by (simp_all flip: code_of_inject)
  define x where "x = code_of a * 256 + code_of b"
  define y where "y = x * 256 + code_of c"
  have v: "be_value bs = y * 256 + code_of d" by (simp add: x_def y_def)
  have 3: "be_value bs div 256 = y" by (simp only: v step(1))
  have "be_value bs div 65536 = be_value bs div 256 div 256" by (simp only: div_mult2_eq [symmetric]) simp
  then have 2: "be_value bs div 65536 = x" by (simp only: 3 y_def step(1))
  have "be_value bs div 16777216 = be_value bs div 65536 div 256" by (simp only: div_mult2_eq [symmetric]) simp
  then have 1: "be_value bs div 16777216 = code_of a" by (simp only: 2 x_def step(1))
  have c: "char_of x = b" "char_of y = c" "char_of (be_value bs) = d"
    unfolding v by (simp_all only: x_def y_def step(2))
  show ?thesis
    unfolding u32_be_def 1 2 3 c by simp
qed

end
