(* ===== verification/Rust_Net.thy ===== *)
theory Rust_Net
  imports Rust_Numbers
begin

text \<open>
  The parts of \<open>std::net\<close> that the sources use: \<open>IpAddr\<close> and \<open>SocketAddr\<close> with their
  \<open>FromStr\<close> and \<open>Display\<close> implementations, following the standard library's own
  recursive-descent parser. A reader takes the remaining input and returns a value with the
  rest, or \<open>None\<close>, in which case the input is not consumed (\<open>read_atomically\<close>).
\<close>

datatype ip_addr = V4 u32 | V6 u128

datatype socket_addr = SockV4 u32 u16 | SockV6 u128 u16 u32

fun is_ipv6 :: "socket_addr \<Rightarrow> bool" where
  "is_ipv6 (SockV4 a p) = False"
| "is_ipv6 (SockV6 a p sc) = True"

fun socket_port :: "socket_addr \<Rightarrow> u16" where
  "socket_port (SockV4 a p) = p"
| "socket_port (SockV6 a p sc) = p"

section \<open>Parsing\<close>

type_synonym 'a reader = "string \<Rightarrow> ('a \<times> string) option"

definition read_number :: "nat \<Rightarrow> nat option \<Rightarrow> bool \<Rightarrow> nat \<Rightarrow> nat reader" where
  "read_number radix max_digits allow_zero_prefix bound s =
     (let ds = takeWhile (is_digit radix) s; rest = dropWhile (is_digit radix) s;
          n = digits_value radix ds
      in if ds = [] then None
         else if is_some_and (\<lambda>m. m < length ds) max_digits then None
         else if \<not> allow_zero_prefix \<and> hd ds = CHR ''0'' \<and> 1 < length ds then None
         else if n < bound then Some (n, rest) else None)"

definition read_given_char :: "byte \<Rightarrow> unit reader" where
  "read_given_char d s = (case s of c # r \<Rightarrow> if c = d then Some ((), r) else None | [] \<Rightarrow> None)"

text \<open>\<open>read_separator\<close>: the separator is required before every item but the first.\<close>

definition read_separator :: "byte \<Rightarrow> nat \<Rightarrow> 'a reader \<Rightarrow> 'a reader" where
  "read_separator d i inner s =
     (if i = 0 then inner s
      else case read_given_char d s of None \<Rightarrow> None | Some (_, r) \<Rightarrow> inner r)"

definition read_octet :: "nat \<Rightarrow> nat reader" where
  "read_octet i = read_separator (CHR ''.'') i (read_number 10 (Some 3) False 256)"

definition read_ipv4_addr :: "u32 reader" where
  "read_ipv4_addr s =
     (case read_octet 0 s of None \<Rightarrow> None | Some (a, s1) \<Rightarrow>
      (case read_octet 1 s1 of None \<Rightarrow> None | Some (b, s2) \<Rightarrow>
       (case read_octet 2 s2 of None \<Rightarrow> None | Some (c, s3) \<Rightarrow>
        (case read_octet 3 s3 of None \<Rightarrow> None | Some (d, s4) \<Rightarrow>
           Some (of_nat (((a * 256 + b) * 256 + c) * 256 + d), s4)))))"

text \<open>
  \<open>read_groups\<close> fills at most \<open>limit\<close> sixteen-bit groups; the flag says that the last two
  came from an embedded dotted address.
\<close>

function read_groups :: "nat \<Rightarrow> nat \<Rightarrow> nat list \<Rightarrow> string \<Rightarrow> nat list \<times> bool \<times> string" where
  "read_groups limit i acc s =
     (if limit \<le> i then (acc, False, s)
      else case (if i < limit - 1 then read_separator (CHR '':'') i read_ipv4_addr s else None) of
        Some (v4, r) \<Rightarrow> (acc @ [unat v4 div 65536, unat v4 mod 65536], True, r)
      | None \<Rightarrow>
          (case read_separator (CHR '':'') i (read_number 16 (Some 4) True 65536) s of
             Some (g, r) \<Rightarrow> read_groups limit (Suc i) (acc @ [g]) r
           | None \<Rightarrow> (acc, False, s)))"
  by pat_completeness auto
termination
  by (relation "measure (\<lambda>(limit, i, acc, s). limit - i)") auto

declare read_groups.simps [simp del]

definition ipv6_of_groups :: "nat list \<Rightarrow> u128" where
  "ipv6_of_groups gs = of_nat (foldl (\<lambda>n g. n * 65536 + g) 0 gs)"

definition read_ipv6_addr :: "u128 reader" where
  "read_ipv6_addr s =
     (case read_groups 8 0 [] s of (head, head_ipv4, s1) \<Rightarrow>
        if length head = 8 then Some (ipv6_of_groups head, s1)
        else if head_ipv4 then None
        else case read_given_char (CHR '':'') s1 of None \<Rightarrow> None | Some (_, s2) \<Rightarrow>
          (case read_given_char (CHR '':'') s2 of None \<Rightarrow> None | Some (_, s3) \<Rightarrow>
            (case read_groups (8 - (length head + 1)) 0 [] s3 of (tail, _, s4) \<Rightarrow>
               Some (ipv6_of_groups
                  (head @ replicate (8 - length head - length tail) 0 @ tail), s4))))"

text \<open>\<open>parse_with\<close>: the reader has to consume the whole input.\<close>

definition parse_with :: "'a reader \<Rightarrow> string \<Rightarrow> 'a option" where
  "parse_with rd s = (case rd s of Some (v, []) \<Rightarrow> Some v | _ \<Rightarrow> None)"

definition read_ip_addr :: "ip_addr reader" where
  "read_ip_addr s =
     (case read_ipv4_addr s of
        Some (v, r) \<Rightarrow> Some (V4 v, r)
      | None \<Rightarrow> map_option (\<lambda>(v, r). (V6 v, r)) (read_ipv6_addr s))"

definition parse_ip_addr :: "string \<Rightarrow> ip_addr option" where
  "parse_ip_addr = parse_with read_ip_addr"

definition parse_ipv6_addr :: "string \<Rightarrow> u128 option" where
  "parse_ipv6_addr = parse_with read_ipv6_addr"

definition read_port :: "u16 reader" where
  "read_port s =
     (case read_given_char (CHR '':'') s of None \<Rightarrow> None
      | Some (_, r) \<Rightarrow> map_option (\<lambda>(n, r'). (of_nat n, r')) (read_number 10 None True 65536 r))"

definition read_scope_id :: "u32 reader" where
  "read_scope_id s =
     (case read_given_char (CHR ''%'') s of None \<Rightarrow> None
      | Some (_, r) \<Rightarrow>
          map_option (\<lambda>(n, r'). (of_nat n, r')) (read_number 10 None True 4294967296 r))"

definition read_socket_addr_v4 :: "socket_addr reader" where
  "read_socket_addr_v4 s =
     (case read_ipv4_addr s of None \<Rightarrow> None
      | Some (ip, r) \<Rightarrow> map_option (\<lambda>(p, r'). (SockV4 ip p, r')) (read_port r))"

definition read_socket_addr_v6 :: "socket_addr reader" where
  "read_socket_addr_v6 s =
     (case read_given_char (CHR ''['') s of None \<Rightarrow> None
      | Some (_, s1) \<Rightarrow>
     (case read_ipv6_addr s1 of None \<Rightarrow> None
      | Some (ip, s2) \<Rightarrow>
     (let (scope, s3) = unwrap_or (0, s2) (read_scope_id s2) in
     (case read_given_char (CHR '']'') s3 of None \<Rightarrow> None
      | Some (_, s4) \<Rightarrow> map_option (\<lambda>(p, r). (SockV6 ip p scope, r)) (read_port s4)))))"

definition parse_socket_addr :: "string \<Rightarrow> socket_addr option" where
  "parse_socket_addr =
     parse_with (\<lambda>s. or_option (read_socket_addr_v4 s) (read_socket_addr_v6 s))"

section \<open>Printing\<close>

definition show_ipv4 :: "u32 \<Rightarrow> string" where
  "show_ipv4 a =
     (let n = unat a in
      show_nat (n div 16777216) @ ''.'' @ show_nat (n div 65536 mod 256) @ ''.'' @
      show_nat (n div 256 mod 256) @ ''.'' @ show_nat (n mod 256))"

definition segments :: "u128 \<Rightarrow> nat list" where
  "segments a = map (\<lambda>i. unat a div 65536 ^ (7 - i) mod 65536) [0..<8]"

text \<open>The longest run of zero segments, the first one among equals: \<open>(start, length)\<close>.\<close>

fun zero_run :: "nat \<Rightarrow> nat \<times> nat \<Rightarrow> nat \<times> nat \<Rightarrow> nat list \<Rightarrow> nat \<times> nat" where
  "zero_run i longest current [] = longest"
| "zero_run i longest current (g # gs) =
     (if g = 0 then
        (let current' = (if snd current = 0 then i else fst current, snd current + 1)
         in zero_run (Suc i) (if snd longest < snd current' then current' else longest) current' gs)
      else zero_run (Suc i) longest (0, 0) gs)"

fun join_with :: "string \<Rightarrow> string list \<Rightarrow> string" where
  "join_with sep [] = []"
| "join_with sep [x] = x"
| "join_with sep (x # y # xs) = x @ sep @ join_with sep (y # xs)"

definition show_ipv6 :: "u128 \<Rightarrow> string" where
  "show_ipv6 a =
     (let gs = segments a; (start, len) = zero_run 0 (0, 0) (0, 0) gs;
          show_groups = (\<lambda>xs. join_with '':'' (map (show_radix 16) xs))
      in if take 5 gs = [0, 0, 0, 0, 0] \<and> gs ! 5 = 65535 then
           ''::ffff:'' @ show_ipv4 (of_nat (gs ! 6 * 65536 + gs ! 7))
         else if 1 < len then
           show_groups (take start gs) @ ''::'' @ show_groups (drop (start + len) gs)
         else show_groups gs)"

fun show_socket_addr :: "socket_addr \<Rightarrow> string" where
  "show_socket_addr (SockV4 a p) = show_ipv4 a @ '':'' @ show_u16 p"
| "show_socket_addr (SockV6 a p sc) =
     (if sc = 0 then ''['' @ show_ipv6 a @ '']:'' @ show_u16 p
      else ''['' @ show_ipv6 a @ ''%'' @ show_nat (unat sc) @ '']:'' @ show_u16 p)"

section \<open>Reading back a printed IPv4 address\<close>

lemma show_nat_head: "hd (show_nat n) \<noteq> CHR ''0'' \<or> length (show_nat n) = 1"
proof (induction "10::nat" n rule: show_radix.induct)
  case (1 n)
  show ?case
  proof (cases "n < 10")
    case True
    then show ?thesis by (subst (2) show_radix.simps) simp
  next
    case False
    then have IH: "hd (show_nat (n div 10)) \<noteq> CHR ''0'' \<or> length (show_nat (n div 10)) = 1"
      using 1 by simp
    have eq: "show_nat n = show_nat (n div 10) @ [digit_char (n mod 10)]"
      using False by (subst show_radix.simps) simp
    have "hd (show_nat (n div 10)) \<noteq> CHR ''0''"
    proof
      assume h: "hd (show_nat (n div 10)) = CHR ''0''"
      with IH have "length (show_nat (n div 10)) = 1" by simp
      with h have "show_nat (n div 10) = ''0''"
        by (cases "show_nat (n div 10)") auto
      then have "digits_value 10 (show_nat (n div 10)) = digits_value 10 ''0''" by simp
      then have "n div 10 = digits_value 10 ''0''" by simp
      then have "n div 10 = 0" by (simp add: digits_value_def digit_value_def code_of_def)
      with False show False by simp
    qed
    then show ?thesis by (simp add: eq)
  qed
qed

lemma read_number_show:
  assumes "n < bound" "length (show_nat n) \<le> m" "r = [] \<or> \<not> is_digit 10 (hd r)"
  shows "read_number 10 (Some m) False bound (show_nat n @ r) = Some (n, r)"
proof -
  have d: "list_all (is_digit 10) (show_nat n)" by (rule show_radix_digits) simp_all
  have tw: "takeWhile (is_digit 10) (show_nat n @ r) = show_nat n"
    using d assms(3) by (cases r) (auto simp: list_all_iff takeWhile_append2)
  have dw: "dropWhile (is_digit 10) (show_nat n @ r) = r"
    using d assms(3) by (cases r) (auto simp: list_all_iff dropWhile_append2)
  have "hd (show_nat n) \<noteq> CHR ''0'' \<or> length (show_nat n) = 1"
    by (rule show_nat_head)
  then show ?thesis
    using assms by (auto simp: read_number_def tw dw Let_def)
qed

lemma length_show_byte: "n < 256 \<Longrightarrow> length (show_nat n) \<le> 3"
proof -
  assume n: "n < 256"
  have 1: "length (show_nat m) = 1" if "m < 10" for m
    using that by (subst show_radix.simps) simp
  have 2: "length (show_nat m) \<le> 2" if "m < 100" for m
    using that 1 [of "m div 10"] by (subst show_radix.simps) simp
  show ?thesis
    using n 2 [of "n div 10"] by (subst show_radix.simps) simp
qed

lemma read_octet_show:
  assumes "n < 256" "r = [] \<or> \<not> is_digit 10 (hd r)"
  shows "read_octet 0 (show_nat n @ r) = Some (n, r)"
    and "0 < i \<Longrightarrow> read_octet i (CHR ''.'' # show_nat n @ r) = Some (n, r)"
  using assms
  by (simp_all add: read_octet_def read_separator_def read_given_char_def read_number_show
      length_show_byte)

text \<open>Every IPv4 address reads back from its printed form.\<close>

lemma read_ipv4_show:
  assumes "r = [] \<or> \<not> is_digit 10 (hd r)"
  shows "read_ipv4_addr (show_ipv4 a @ r) = Some (a, r)"
proof -
  have dot: "\<not> is_digit 10 (CHR ''.'')" by (simp add: is_digit10_iff code_of_def)
  let ?n = "unat a"
  have n: "?n < 4294967296" using unsigned_less [of a] by simp
  then have b: "?n div 16777216 < 256" by (simp add: div_less_iff_less_mult)
  have "?n div 65536 div 256 = ?n div 16777216" "?n div 256 div 256 = ?n div 65536"
    by (simp_all add: div_mult2_eq [symmetric])
  then have "((?n div 16777216 * 256 + ?n div 65536 mod 256) * 256 + ?n div 256 mod 256) * 256
      + ?n mod 256 = ?n"
    by (metis div_mult_mod_eq)
  then have "word_of_nat (((?n div 16777216 * 256 + ?n div 65536 mod 256) * 256
      + ?n div 256 mod 256) * 256 + ?n mod 256) = a"
    by (simp only:) simp
  then show ?thesis
    using assms b
    by (simp add: show_ipv4_def read_ipv4_addr_def Let_def read_octet_show dot
        del: of_nat_add of_nat_mult)
qed

lemma parse_ip_addr_show_ipv4: "parse_ip_addr (show_ipv4 a) = Some (V4 a)"
  using read_ipv4_show [of "[]" a]
  by (simp add: parse_ip_addr_def parse_with_def read_ip_addr_def)

section \<open>Readers do not look past a delimiter\<close>

text \<open>
  \<open>stops_at rd t\<close>: what \<open>rd\<close> reads from a text, and whether it succeeds, is unchanged when
  \<open>t\<close> follows the text. It holds as soon as \<open>t\<close> starts with a character that continues no
  number and is no separator of the reader.
\<close>

definition stops_at :: "'a reader \<Rightarrow> string \<Rightarrow> bool" where
  "stops_at rd t \<longleftrightarrow> (\<forall>s. rd (s @ t) = map_option (\<lambda>(v, r). (v, r @ t)) (rd s))"

lemma stops_atD: "stops_at rd t \<Longrightarrow> rd (s @ t) = map_option (\<lambda>(v, r). (v, r @ t)) (rd s)"
  by (simp add: stops_at_def)

lemma stops_at_number: "\<not> is_digit radix c \<Longrightarrow> stops_at (read_number radix m z bound) (c # t)"
proof -
  assume c: "\<not> is_digit radix c"
  have "takeWhile (is_digit radix) (s @ c # t) = takeWhile (is_digit radix) s"
    "dropWhile (is_digit radix) (s @ c # t) = dropWhile (is_digit radix) s @ c # t" for s
    using c by (induction s) auto
  then show ?thesis
    by (simp add: stops_at_def read_number_def Let_def)
qed

lemma stops_at_given: "c \<noteq> d \<Longrightarrow> stops_at (read_given_char d) (c # t)"
  by (auto simp: stops_at_def read_given_char_def split: list.splits)

lemma stops_at_separator:
  "stops_at rd (c # t) \<Longrightarrow> c \<noteq> d \<Longrightarrow> stops_at (read_separator d i rd) (c # t)"
  using stops_at_given [of c d t]
  by (auto simp: stops_at_def read_separator_def split: option.splits)

lemma stops_at_octet: "\<not> is_digit 10 c \<Longrightarrow> c \<noteq> CHR ''.'' \<Longrightarrow> stops_at (read_octet i) (c # t)"
  unfolding read_octet_def by (intro stops_at_separator stops_at_number)

lemma stops_at_ipv4:
  assumes "\<not> is_digit 10 c" "c \<noteq> CHR ''.''"
  shows "stops_at read_ipv4_addr (c # t)"
  using stops_at_octet [OF assms, of _ t]
  by (auto simp: stops_at_def read_ipv4_addr_def split: option.splits)

lemma is_digit10_16: "\<not> is_digit 16 c \<Longrightarrow> \<not> is_digit 10 c"
  by (auto simp: is_digit_def digit_value_def Let_def split: if_splits)

lemma stops_at_groups:
  assumes "\<not> is_digit 16 c" "c \<noteq> CHR ''.''" "c \<noteq> CHR '':''"
  shows "read_groups limit i acc (s @ c # t) =
    (case read_groups limit i acc s of (gs, b, r) \<Rightarrow> (gs, b, r @ c # t))"
proof (induction limit i acc s rule: read_groups.induct)
  case (1 limit i acc s)
  have v4: "read_separator (CHR '':'') i read_ipv4_addr (s @ c # t) =
      map_option (\<lambda>(v, r). (v, r @ c # t)) (read_separator (CHR '':'') i read_ipv4_addr s)"
    using assms by (intro stops_atD stops_at_separator stops_at_ipv4 is_digit10_16)
  have num: "read_separator (CHR '':'') i (read_number 16 (Some 4) True 65536) (s @ c # t) =
      map_option (\<lambda>(v, r). (v, r @ c # t))
        (read_separator (CHR '':'') i (read_number 16 (Some 4) True 65536) s)"
    using assms by (intro stops_atD stops_at_separator stops_at_number)
  show ?case
    using 1 unfolding read_groups.simps [of limit i acc] v4 num
    by (auto split: option.splits)
qed

lemma stops_at_ipv6:
  assumes "\<not> is_digit 16 c" "c \<noteq> CHR ''.''" "c \<noteq> CHR '':''"
  shows "stops_at read_ipv6_addr (c # t)"
  unfolding stops_at_def read_ipv6_addr_def stops_at_groups [OF assms]
  using stops_at_given [OF assms(3), of t] stops_at_groups [OF assms]
  by (auto simp: stops_at_def split: option.splits prod.splits)

lemma parse_with_Some_iff: "parse_with rd s = Some v \<longleftrightarrow> rd s = Some (v, [])"
  by (auto simp: parse_with_def split: option.splits prod.splits list.splits)

lemma read_port_show [simp]: "read_port (CHR '':'' # show_u16 p) = Some (p, [])"
proof -
  have d: "list_all (is_digit 10) (show_nat (unat p))" by (rule show_radix_digits) simp_all
  then have tw: "takeWhile (is_digit 10) (show_nat (unat p)) = show_nat (unat p)"
    and dw: "dropWhile (is_digit 10) (show_nat (unat p)) = []"
    by (simp_all add: list_all_iff)
  have "unat p < 2 ^ LENGTH(16)" by (rule unsigned_less)
  then show ?thesis
    by (simp add: read_port_def read_given_char_def read_number_def show_u16_def Let_def tw dw)
qed

text \<open>
  An address that parses, followed by a colon and a port, parses as a socket address: an
  IPv4 address as it is, an IPv6 address in brackets.
\<close>

lemma parse_socket_addr_v4:
  assumes "parse_ip_addr h = Some (V4 a)"
  shows "parse_socket_addr (h @ '':'' @ show_u16 p) = Some (SockV4 a p)"
proof -
  have "read_ipv4_addr h = Some (a, [])"
    using assms
    by (auto simp: parse_ip_addr_def parse_with_Some_iff read_ip_addr_def split: option.splits)
  moreover have "stops_at read_ipv4_addr ('':'' @ show_u16 p)"
    by (simp, rule stops_at_ipv4) (simp_all add: is_digit10_iff code_of_def)
  ultimately have "read_ipv4_addr (h @ '':'' @ show_u16 p) = Some (a, '':'' @ show_u16 p)"
    by (simp add: stops_atD)
  then show ?thesis
    by (simp add: parse_socket_addr_def parse_with_Some_iff read_socket_addr_v4_def)
qed

lemma parse_socket_addr_v6:
  assumes "parse_ip_addr h = Some (V6 a)"
  shows "parse_socket_addr (''['' @ h @ '']:'' @ show_u16 p) = Some (SockV6 a p 0)"
proof -
  have "read_ipv6_addr h = Some (a, [])"
    using assms
    by (auto simp: parse_ip_addr_def parse_with_Some_iff read_ip_addr_def split: option.splits)
  moreover have "stops_at read_ipv6_addr ('']:'' @ show_u16 p)"
    by (simp, rule stops_at_ipv6) (simp_all add: is_digit_def digit_value_def code_of_def)
  ultimately have r: "read_ipv6_addr (h @ '']:'' @ show_u16 p) = Some (a, '']:'' @ show_u16 p)"
    by (simp add: stops_atD)
  have "read_ipv4_addr (''['' @ h @ '']:'' @ show_u16 p) = None"
    by (simp add: read_ipv4_addr_def read_octet_def read_separator_def read_number_def
        is_digit10_iff code_of_def)
  then show ?thesis
    using r
    by (simp add: parse_socket_addr_def parse_with_Some_iff read_socket_addr_v4_def
        read_socket_addr_v6_def read_given_char_def read_scope_id_def)
qed

section \<open>The characters of an address\<close>

lemma read_number_consumes:
  assumes "read_number radix m z bound s = Some (n, r)"
  obtains ds where "s = ds @ r" "list_all (is_digit radix) ds" "ds \<noteq> []"
proof -
  let ?ds = "takeWhile (is_digit radix) s"
  have "r = dropWhile (is_digit radix) s" "?ds \<noteq> []"
    using assms by (auto simp: read_number_def Let_def split: if_splits)
  then have "s = ?ds @ r" by simp
  moreover have "list_all (is_digit radix) ?ds"
    by (auto simp: list_all_iff dest: set_takeWhileD)
  ultimately show thesis using that \<open>?ds \<noteq> []\<close> by blast
qed

lemma read_octet_chars:
  assumes "read_octet i s = Some (n, r)"
  shows "\<exists>u. s = u @ r \<and> CHR '':'' \<notin> set u"
proof -
  have colon: "\<not> is_digit 10 (CHR '':'')" by (simp add: is_digit10_iff code_of_def)
  then have nc: "CHR '':'' \<notin> set ds" if "list_all (is_digit 10) ds" for ds
    using that by (auto simp: list_all_iff)
  show ?thesis
  proof (cases "i = 0")
    case True
    with assms show ?thesis
      by (auto simp: read_octet_def read_separator_def elim!: read_number_consumes dest: nc)
  next
    case False
    with assms obtain r' where r': "s = CHR ''.'' # r'"
      "read_number 10 (Some 3) False 256 r' = Some (n, r)"
      by (auto simp: read_octet_def read_separator_def read_given_char_def
          split: list.splits if_splits)
    from r'(2) obtain ds where "r' = ds @ r" "list_all (is_digit 10) ds"
      by (elim read_number_consumes)
    with r'(1) nc have "s = (CHR ''.'' # ds) @ r \<and> CHR '':'' \<notin> set (CHR ''.'' # ds)" by simp
    then show ?thesis by blast
  qed
qed

lemma read_ipv4_no_colon:
  assumes "read_ipv4_addr s = Some (a, r)"
  shows "\<exists>u. s = u @ r \<and> CHR '':'' \<notin> set u"
proof -
  obtain n1 n2 n3 n4 s1 s2 s3 where
    "read_octet 0 s = Some (n1, s1)" "read_octet 1 s1 = Some (n2, s2)"
    "read_octet 2 s2 = Some (n3, s3)" "read_octet 3 s3 = Some (n4, r)"
    using assms by (auto simp: read_ipv4_addr_def split: option.splits)
  note o = this [THEN read_octet_chars]
  from o obtain u1 u2 u3 u4 where
    "s = u1 @ s1" "s1 = u2 @ s2" "s2 = u3 @ s3" "s3 = u4 @ r"
    "CHR '':'' \<notin> set (u1 @ u2 @ u3 @ u4)"
    by auto
  then have "s = (u1 @ u2 @ u3 @ u4) @ r \<and> CHR '':'' \<notin> set (u1 @ u2 @ u3 @ u4)" by simp
  then show ?thesis by blast
qed

lemma read_ipv6_needs_colon:
  assumes "CHR '':'' \<notin> set s"
  shows "read_ipv6_addr s = None"
proof -
  have given: "read_given_char (CHR '':'') r = None" if "CHR '':'' \<notin> set r" for r
    using that by (auto simp: read_given_char_def split: list.splits)
  have sub: "set r \<subseteq> set s" if "read_number 16 (Some 4) True 65536 s = Some (g, r)" for g r
    using that by (elim read_number_consumes) auto
  have one: "read_groups 8 (Suc 0) acc r = (acc, False, r)" if "CHR '':'' \<notin> set r" for acc r
    using that by (simp add: read_groups.simps read_separator_def given)
  have "(\<exists>g1 g2 r. read_groups 8 0 [] s = ([g1, g2], True, r)) \<or>
    (\<exists>gs r. read_groups 8 0 [] s = (gs, False, r) \<and> length gs < 8 \<and> CHR '':'' \<notin> set r)"
  proof (cases "read_ipv4_addr s")
    case (Some v)
    then show ?thesis
      by (cases v) (simp add: read_groups.simps [of 8 0] read_separator_def)
  next
    case None
    show ?thesis
    proof (cases "read_number 16 (Some 4) True 65536 s")
      case None
      with \<open>read_ipv4_addr s = None\<close> assms show ?thesis
        by (simp add: read_groups.simps [of 8 0] read_separator_def)
    next
      case (Some gr)
      then obtain g r where gr: "gr = (g, r)" by (cases gr)
      with Some sub assms have "CHR '':'' \<notin> set r" by blast
      with Some None gr show ?thesis
        by (simp add: read_groups.simps [of 8 0] read_separator_def one)
    qed
  qed
  then show ?thesis
    by (auto simp: read_ipv6_addr_def given)
qed

lemma contains_char: "contains s [c] \<longleftrightarrow> c \<in> set s"
  by (induction s) auto

lemma parse_v4_no_colon: "parse_ip_addr h = Some (V4 a) \<Longrightarrow> \<not> contains h '':''"
  using read_ipv4_no_colon [of h a "[]"]
  by (auto simp: contains_char parse_ip_addr_def parse_with_Some_iff read_ip_addr_def
      split: option.splits)

lemma parse_v6_colon: "parse_ip_addr h = Some (V6 a) \<Longrightarrow> contains h '':''"
  using read_ipv6_needs_colon [of h]
  by (cases "CHR '':'' \<in> set h")
    (auto simp: contains_char parse_ip_addr_def parse_with_Some_iff read_ip_addr_def
      split: option.splits)

lemma parse_ip_no_bracket: "parse_ip_addr h = Some ip \<Longrightarrow> \<not> starts_with h ''[''"
proof
  assume p: "parse_ip_addr h = Some ip" and "starts_with h ''[''"
  then obtain t where h: "h = CHR ''['' # t" by (auto simp: starts_with_iff)
  have nd: "\<not> is_digit 16 (CHR ''['')" "\<not> is_digit 10 (CHR ''['')"
    by (simp_all add: is_digit_def digit_value_def code_of_def)
  then have num: "read_number radix m z bound h = None" if "radix \<in> {10, 16}" for radix m z bound
    using that by (auto simp: read_number_def h)
  then have v4: "read_ipv4_addr h = None"
    by (simp add: read_ipv4_addr_def read_octet_def read_separator_def)
  then have "read_groups 8 0 [] h = ([], False, h)"
    by (simp add: read_groups.simps read_separator_def num)
  then have "read_ipv6_addr h = None"
    by (simp add: read_ipv6_addr_def read_given_char_def h)
  with v4 p show False
    by (simp add: parse_ip_addr_def parse_with_Some_iff read_ip_addr_def)
qed

end
