(* ===== verification/Codecs.thy ===== *)
theory Codecs
  imports Rust_Net
begin

text \<open>
  The third-party code the components call, as parameters: the digests of \<open>sha2\<close> and
  \<open>hmac\<close>, the two alphabets of \<open>base64\<close>, and the JSON values of \<open>serde_json\<close>. What the
  properties assume of them is stated here once, under a name each.
\<close>

datatype json =
    JNull | JBool bool | JNumber string | JString string
  | JArray "json list" | JObject "(string \<times> json) list"

text \<open>\<open>hmac_sha256\<close> is \<open>None\<close> where \<open>Mac::new_from_slice\<close> rejects the key.\<close>

record crypto =
  sha256 :: "bytes \<Rightarrow> bytes"
  hmac_sha256 :: "bytes \<Rightarrow> bytes \<Rightarrow> bytes option"
  b64_encode :: "bytes \<Rightarrow> string"
  b64_decode :: "string \<Rightarrow> bytes option"
  b64url_encode :: "bytes \<Rightarrow> string"
  b64url_decode :: "string \<Rightarrow> bytes option"

text \<open>
  The documented behaviour of the encoders: decoding inverts encoding, the URL-safe alphabet
  has no dot, and HMAC accepts a key of any length.
\<close>

definition b64_roundtrip :: "crypto \<Rightarrow> bool" where
  "b64_roundtrip cx \<longleftrightarrow> (\<forall>b. b64_decode cx (b64_encode cx b) = Some b)"

definition b64url_roundtrip :: "crypto \<Rightarrow> bool" where
  "b64url_roundtrip cx \<longleftrightarrow>
     (\<forall>b. b64url_decode cx (b64url_encode cx b) = Some b \<and> CHR ''.'' \<notin> set (b64url_encode cx b))"

definition hmac_total :: "crypto \<Rightarrow> bool" where
  "hmac_total cx \<longleftrightarrow> (\<forall>k m. hmac_sha256 cx k m \<noteq> None)"

text \<open>
  A concrete instance for witnesses: both encoders write two hexadecimal digits a byte, and
  the digests are short sums. It satisfies every law above.
\<close>

definition hex_encode :: "bytes \<Rightarrow> string" where
  "hex_encode b =
     concat (map (\<lambda>c. [digit_char (code_of c div 16), digit_char (code_of c mod 16)]) b)"

fun hex_decode :: "string \<Rightarrow> bytes option" where
  "hex_decode [] = Some []"
| "hex_decode [c] = None"
| "hex_decode (c # d # s) =
     (case (digit_value 16 c, digit_value 16 d, hex_decode s) of
        (Some h, Some l, Some b) \<Rightarrow> Some (char_of (h * 16 + l) # b)
      | _ \<Rightarrow> None)"

definition sum_digest :: "bytes \<Rightarrow> bytes" where
  "sum_digest b = [char_of (sum_list (map code_of b)), char_of (length b)]"

definition demo_crypto :: crypto where
  "demo_crypto =
     \<lparr>sha256 = sum_digest, hmac_sha256 = (\<lambda>k m. Some (sum_digest (k @ m))),
      b64_encode = hex_encode, b64_decode = hex_decode,
      b64url_encode = hex_encode, b64url_decode = hex_decode\<rparr>"

lemma hex_roundtrip [simp]: "hex_decode (hex_encode b) = Some b"
proof (induction b)
  case (Cons c b)
  have "code_of c div 16 < 16"
    using code_of_less [of c] by (simp add: div_less_iff_less_mult)
  with Cons show ?case by (simp add: hex_encode_def)
qed (simp add: hex_encode_def)

lemma hex_no_dot: "CHR ''.'' \<notin> set (hex_encode b)"
proof -
  have "digit_char d \<noteq> CHR ''.''" if "d < 16" for d
    using that code_of_digit_char [of d] by (auto simp: code_of_def split: if_splits)
  moreover have "code_of c div 16 < 16" for c
    using code_of_less [of c] by (simp add: div_less_iff_less_mult)
  ultimately have "digit_char (code_of c div 16) \<noteq> CHR ''.''"
    "digit_char (code_of c mod 16) \<noteq> CHR ''.''" for c
    by simp_all
  then show ?thesis
    by (auto simp: hex_encode_def eq_commute [of "CHR ''.''"])
qed

lemma demo_crypto_laws [simp]:
  "b64_roundtrip demo_crypto" "b64url_roundtrip demo_crypto" "hmac_total demo_crypto"
  by (simp_all add: b64_roundtrip_def b64url_roundtrip_def hmac_total_def demo_crypto_def
      hex_no_dot)

lemma printable_hex [simp]: "printable (hex_encode b)"
proof -
  have "33 \<le> code_of (digit_char d) \<and> code_of (digit_char d) \<le> 126" if "d < 16" for d
    using that code_of_digit_char [of d] by (auto split: if_splits)
  moreover have "code_of c div 16 < 16" for c
    using code_of_less [of c] by (simp add: div_less_iff_less_mult)
  ultimately show ?thesis by (fastforce simp: hex_encode_def printable_def)
qed

end
