(* ===== verification/Route_Policy.thy ===== *)
theory Route_Policy
  imports Codecs
begin

text \<open>
  \<open>node-core/src/route_policy.rs\<close>: the dynamic route policy a session is bound to, its hash,
  and the decision whether a target the client names is allowed by it.
\<close>

record port_range =
  pr_protocol :: string
  pr_from :: u16
  pr_to :: u16

record route_target =
  rt_target_id :: string
  rt_purpose :: "string option"
  rt_host_type :: string
  rt_host :: "string option"
  rt_resolved_ips :: "string list"
  rt_observed_ips :: "string list"
  rt_cidrs :: "string list"
  rt_ports :: "port_range list"
  rt_allow_client_observed_ip :: "bool option"
  rt_resolve_ttl_sec :: "u64 option"
  rt_required :: "bool option"

record route_policy =
  policy_id :: string
  policy_version :: u32
  policy_mode :: string
  default_protocol :: "string option"
  dns_strategy :: "string option"
  policy_targets :: "route_target list"
  policy_capture :: "json option"

record session_data_target =
  sd_target_id :: "string option"
  sd_protocol :: "string option"
  sd_host :: string
  sd_port :: u16
  sd_original_domain :: "string option"

record target_match =
  tm_target_id :: string
  tm_policy_id :: string

text \<open>The JSON encoder of \<open>serde_json\<close> is the parameter \<open>policy_json\<close>.\<close>

definition hash_route_policy ::
  "crypto \<Rightarrow> (route_policy \<Rightarrow> (string, bytes) result) \<Rightarrow> route_policy \<Rightarrow> (string, string) result"
where
  "hash_route_policy cx policy_json policy =
     bind_result (policy_json policy) (\<lambda>b. Inr (b64url_encode cx (sha256 cx b)))"

definition contains_text :: "string list \<Rightarrow> string \<Rightarrow> bool" where
  "contains_text values needle = list_ex (\<lambda>v. eq_ignore_ascii_case (trim v) needle) values"

definition prefix_mask :: "nat \<Rightarrow> nat \<Rightarrow> 'a::len word" where
  "prefix_mask width prefix = (if prefix = 0 then 0 else push_bit (width - prefix) (- 1))"

definition ip_in_cidr :: "string \<Rightarrow> string \<Rightarrow> bool" where
  "ip_in_cidr host cidr =
     (case parse_ip_addr host of None \<Rightarrow> False | Some ip \<Rightarrow>
     (case split_once (CHR ''/'') cidr of None \<Rightarrow> eq_ignore_ascii_case host cidr
      | Some (base_text, prefix_text) \<Rightarrow>
     (case parse_uint 256 prefix_text of None \<Rightarrow> False | Some prefix \<Rightarrow>
     (case parse_ip_addr base_text of None \<Rightarrow> False | Some base \<Rightarrow>
     (case (ip, base) of
        (V4 i, V4 b) \<Rightarrow>
          prefix \<le> 32 \<and> (i AND prefix_mask 32 prefix) = (b AND prefix_mask 32 prefix)
      | (V6 i, V6 b) \<Rightarrow>
          prefix \<le> 128 \<and> (i AND prefix_mask 128 prefix) = (b AND prefix_mask 128 prefix)
      | _ \<Rightarrow> False)))))"

definition rule_host_is :: "route_target \<Rightarrow> string \<Rightarrow> bool" where
  "rule_host_is rule h = is_some_and (eq_ignore_ascii_case h) (rt_host rule)"

definition target_matches_host :: "route_target \<Rightarrow> session_data_target \<Rightarrow> bool" where
  "target_matches_host rule target =
     (let host = trim (sd_host target);
          host_type = to_ascii_lowercase (rt_host_type rule)
      in if host = [] then False
         else if host_type = ''any'' then True
         else if host_type = ''domain'' then
           rule_host_is rule host
           \<or> is_some_and (rule_host_is rule) (sd_original_domain target)
           \<or> contains_text (rt_resolved_ips rule) host
         else if host_type = ''ipv4'' \<or> host_type = ''ipv6'' then
           rule_host_is rule host \<or> contains_text (rt_resolved_ips rule) host
         else if host_type = ''observed_ip'' then
           contains_text (rt_observed_ips rule) host \<or> contains_text (rt_resolved_ips rule) host
         else if host_type = ''cidr'' then list_ex (ip_in_cidr host) (rt_cidrs rule)
         else if host_type = ''steam_sdr'' then
           rule_host_is rule host
           \<or> contains_text (rt_resolved_ips rule) host
           \<or> contains_text (rt_observed_ips rule) host
           \<or> list_ex (ip_in_cidr host) (rt_cidrs rule)
           \<or> (rt_host rule = None \<and> rt_resolved_ips rule = [] \<and> rt_observed_ips rule = []
              \<and> rt_cidrs rule = [])
         else False)"

definition rule_id_selected :: "route_target \<Rightarrow> session_data_target \<Rightarrow> bool" where
  "rule_id_selected rule target =
     (case sd_target_id target of None \<Rightarrow> True | Some tid \<Rightarrow> rt_target_id rule = tid)"

definition port_allowed :: "string \<Rightarrow> u16 \<Rightarrow> port_range list \<Rightarrow> bool" where
  "port_allowed protocol port ranges =
     list_ex (\<lambda>r. eq_ignore_ascii_case (pr_protocol r) protocol \<and> pr_from r \<le> port \<and> port \<le> pr_to r)
       ranges"

fun match_rules ::
  "string \<Rightarrow> string \<Rightarrow> session_data_target \<Rightarrow> route_target list \<Rightarrow> (string, target_match) result"
where
  "match_rules pid protocol target [] = Inl ''target_not_allowed''"
| "match_rules pid protocol target (rule # rules) =
     (if \<not> rule_id_selected rule target then match_rules pid protocol target rules
      else if \<not> port_allowed protocol (sd_port target) (rt_ports rule) then
        match_rules pid protocol target rules
      else if target_matches_host rule target then
        Inr \<lparr>tm_target_id = rt_target_id rule, tm_policy_id = pid\<rparr>
      else match_rules pid protocol target rules)"

definition target_protocol :: "route_policy \<Rightarrow> session_data_target \<Rightarrow> string" where
  "target_protocol policy target =
     to_ascii_lowercase
       (unwrap_or (unwrap_or ''udp'' (default_protocol policy)) (sd_protocol target))"

definition match_route_policy_target ::
  "route_policy \<Rightarrow> session_data_target \<Rightarrow> (string, target_match) result"
where
  "match_route_policy_target policy target =
     (let protocol = target_protocol policy target
      in if protocol \<noteq> ''udp'' \<and> protocol \<noteq> ''tcp'' then Inl ''target_protocol_unsupported''
         else match_rules (policy_id policy) protocol target (policy_targets policy))"

section \<open>CIDR blocks\<close>

lemma and_prefix_mask_eq_iff:
  fixes x y :: "'a::len word"
  assumes "prefix \<le> LENGTH('a)"
  shows "(x AND prefix_mask LENGTH('a) prefix) = (y AND prefix_mask LENGTH('a) prefix) \<longleftrightarrow>
    drop_bit (LENGTH('a) - prefix) x = drop_bit (LENGTH('a) - prefix) y"
proof -
  let ?k = "LENGTH('a) - prefix"
  have mask: "prefix_mask LENGTH('a) prefix = push_bit ?k (- 1 :: 'a word)"
    by (rule bit_word_eqI) (auto simp: prefix_mask_def bit_push_bit_iff)
  show ?thesis
  proof
    assume *: "(x AND prefix_mask LENGTH('a) prefix) = (y AND prefix_mask LENGTH('a) prefix)"
    show "drop_bit ?k x = drop_bit ?k y"
    proof (rule bit_word_eqI)
      fix n
      have "bit (x AND push_bit ?k (- 1)) (?k + n) = bit (y AND push_bit ?k (- 1)) (?k + n)"
        using * by (simp add: mask)
      then show "bit (drop_bit ?k x) n = bit (drop_bit ?k y) n"
        by (auto simp: bit_drop_bit_eq bit_and_iff bit_not_iff bit_mask_iff
            dest: bit_imp_le_length)
    qed
  next
    assume *: "drop_bit ?k x = drop_bit ?k y"
    have "bit x n = bit y n" if "?k \<le> n" for n
      using arg_cong [OF *, of "\<lambda>w. bit w (n - ?k)"] that by (simp add: bit_drop_bit_eq)
    then show "(x AND prefix_mask LENGTH('a) prefix) = (y AND prefix_mask LENGTH('a) prefix)"
      by (intro bit_word_eqI) (auto simp: mask bit_and_iff bit_not_iff bit_mask_iff)
  qed
qed

text \<open>\<open>same_network\<close>: the two addresses agree on their first \<open>prefix\<close> bits.\<close>

fun same_network :: "nat \<Rightarrow> ip_addr \<Rightarrow> ip_addr \<Rightarrow> bool" where
  "same_network prefix (V4 a) (V4 b) =
     (prefix \<le> 32 \<and> unat a div 2 ^ (32 - prefix) = unat b div 2 ^ (32 - prefix))"
| "same_network prefix (V6 a) (V6 b) =
     (prefix \<le> 128 \<and> unat a div 2 ^ (128 - prefix) = unat b div 2 ^ (128 - prefix))"
| "same_network prefix _ _ = False"

lemma drop_bit_eq_iff_div:
  "drop_bit k x = drop_bit k y \<longleftrightarrow> unat x div 2 ^ k = unat y div 2 ^ k"
  for x y :: "'a::len word"
proof -
  have "unat (drop_bit k z) = unat z div 2 ^ k" for z :: "'a word"
    by (simp only: unsigned_drop_bit_eq) (simp add: drop_bit_eq_div take_bit_nat_eq_self)
  then show ?thesis by (simp only: word_unat_eq_iff)
qed

lemma ip_in_cidr_network:
  assumes "parse_ip_addr host = Some ip" "split_once (CHR ''/'') cidr = Some (b, p)"
    "parse_uint 256 p = Some prefix" "parse_ip_addr b = Some base"
  shows "ip_in_cidr host cidr \<longleftrightarrow> same_network prefix ip base"
  using assms and_prefix_mask_eq_iff [where 'a = 32, of prefix]
    and_prefix_mask_eq_iff [where 'a = 128, of prefix]
  by (cases ip; cases base) (auto simp: ip_in_cidr_def drop_bit_eq_iff_div)

section \<open>What a policy allows\<close>

text \<open>
  The specification, which shares no definition with the decision: texts are the same up to ASCII
  case, ports are numbers, and a block is the addresses that share a prefix with its base.
\<close>

definition same_text :: "string \<Rightarrow> string \<Rightarrow> bool" where
  "same_text a b \<longleftrightarrow> map ascii_lower a = map ascii_lower b"

text \<open>A block without a prefix length names one host.\<close>

definition in_block :: "string \<Rightarrow> string \<Rightarrow> bool" where
  "in_block host block \<longleftrightarrow>
     (\<exists>ip. parse_ip_addr host = Some ip \<and>
        (CHR ''/'' \<notin> set block \<and> same_text host block \<or>
         (\<exists>base_text prefix_text base prefix.
            block = base_text @ CHR ''/'' # prefix_text \<and> CHR ''/'' \<notin> set base_text \<and>
            parse_ip_addr base_text = Some base \<and> parse_uint 256 prefix_text = Some prefix \<and>
            same_network prefix ip base)))"

text \<open>
  The host of the target as the rule's type of host reads it: by name, by the name the client says
  it resolved, by the addresses the rule lists as resolved or observed, or by its blocks. A rule
  of Steam's relay network that lists nothing is for every host.
\<close>

definition rule_names_host :: "route_target \<Rightarrow> session_data_target \<Rightarrow> bool" where
  "rule_names_host rule target \<longleftrightarrow>
     (let host = trim (sd_host target);
          type_is = (\<lambda>t. map ascii_lower (rt_host_type rule) = t);
          named = (\<lambda>h. \<exists>r. rt_host rule = Some r \<and> same_text h r);
          resolved = (\<exists>ip \<in> set (rt_resolved_ips rule). same_text (trim ip) host);
          observed = (\<exists>ip \<in> set (rt_observed_ips rule). same_text (trim ip) host);
          in_blocks = (\<exists>block \<in> set (rt_cidrs rule). in_block host block)
      in host \<noteq> [] \<and>
         (type_is ''any'' \<or>
          type_is ''domain'' \<and>
            (named host \<or> resolved \<or> (\<exists>d. sd_original_domain target = Some d \<and> named d)) \<or>
          (type_is ''ipv4'' \<or> type_is ''ipv6'') \<and> (named host \<or> resolved) \<or>
          type_is ''observed_ip'' \<and> (observed \<or> resolved) \<or>
          type_is ''cidr'' \<and> in_blocks \<or>
          type_is ''steam_sdr'' \<and>
            (named host \<or> resolved \<or> observed \<or> in_blocks \<or>
             rt_host rule = None \<and> rt_resolved_ips rule = [] \<and> rt_observed_ips rule = [] \<and>
             rt_cidrs rule = [])))"

definition rule_allows :: "string \<Rightarrow> session_data_target \<Rightarrow> route_target \<Rightarrow> bool" where
  "rule_allows protocol target rule \<longleftrightarrow>
     (\<forall>tid. sd_target_id target = Some tid \<longrightarrow> rt_target_id rule = tid) \<and>
     (\<exists>range \<in> set (rt_ports rule). same_text (pr_protocol range) protocol \<and>
        unat (pr_from range) \<le> unat (sd_port target) \<and> unat (sd_port target) \<le> unat (pr_to range)) \<and>
     rule_names_host rule target"

definition policy_allows :: "route_policy \<Rightarrow> session_data_target \<Rightarrow> bool" where
  "policy_allows policy target \<longleftrightarrow>
     target_protocol policy target \<in> {''udp'', ''tcp''} \<and>
     (\<exists>rule \<in> set (policy_targets policy).
        rule_allows (target_protocol policy target) target rule)"

text \<open>The code decides it.\<close>

lemma same_text_code: "eq_ignore_ascii_case a b = same_text a b"
  by (simp add: same_text_def eq_ignore_ascii_case_def)

lemma ip_in_cidr_block: "ip_in_cidr host cidr \<longleftrightarrow> in_block host cidr"
proof (cases "parse_ip_addr host")
  case (Some ip)
  show ?thesis
  proof (cases "split_once (CHR ''/'') cidr")
    case None
    then have no: "CHR ''/'' \<notin> set cidr"
      using split_once_Some_iff [of "CHR ''/''" cidr] split_list_first [of "CHR ''/''" cidr] by fastforce
    then show ?thesis
      using None Some by (auto simp: ip_in_cidr_def in_block_def same_text_code)
  next
    case (Some p)
    obtain b t where p: "split_once (CHR ''/'') cidr = Some (b, t)"
      using Some by (cases p) simp
    then have cidr: "cidr = b @ CHR ''/'' # t" "CHR ''/'' \<notin> set b"
      by (simp_all add: split_once_Some_iff)
    have unique: "b' = b \<and> t' = t" if "cidr = b' @ CHR ''/'' # t'" "CHR ''/'' \<notin> set b'" for b' t'
      using that p by (metis split_once_Some_iff option.inject prod.inject)
    have slash: "CHR ''/'' \<in> set cidr" by (simp add: cidr(1))
    have "in_block host cidr \<longleftrightarrow> (\<exists>base prefix. parse_ip_addr b = Some base \<and>
        parse_uint 256 t = Some prefix \<and> same_network prefix ip base)"
      unfolding in_block_def using \<open>parse_ip_addr host = Some ip\<close> unique cidr slash
      by (metis option.inject)
    then show ?thesis
      using ip_in_cidr_network [OF \<open>parse_ip_addr host = Some ip\<close> p] p \<open>parse_ip_addr host = Some ip\<close>
      by (cases "parse_uint 256 t"; cases "parse_ip_addr b") (auto simp: ip_in_cidr_def)
  qed
qed (simp add: ip_in_cidr_def in_block_def)

lemma contains_text_listed: "contains_text xs h \<longleftrightarrow> (\<exists>x \<in> set xs. same_text (trim x) h)"
  by (simp add: contains_text_def list_ex_iff same_text_code)

lemma rule_host_named: "rule_host_is rule h \<longleftrightarrow> (\<exists>r. rt_host rule = Some r \<and> same_text h r)"
  by (cases "rt_host rule") (simp_all add: rule_host_is_def same_text_code)

lemma original_domain_named:
  "is_some_and (rule_host_is rule) (sd_original_domain target) \<longleftrightarrow>
     (\<exists>d. sd_original_domain target = Some d \<and> (\<exists>r. rt_host rule = Some r \<and> same_text d r))"
  by (cases "sd_original_domain target") (simp_all add: rule_host_named)

lemma target_matches_names: "target_matches_host rule target \<longleftrightarrow> rule_names_host rule target"
  unfolding target_matches_host_def rule_names_host_def original_domain_named rule_host_named
    contains_text_listed list_ex_iff ip_in_cidr_block to_ascii_lowercase_def Let_def
  by (cases "trim (sd_host target) = []") (simp, auto)

lemma rule_allows_code:
  "rule_allows protocol target rule \<longleftrightarrow>
     rule_id_selected rule target \<and> port_allowed protocol (sd_port target) (rt_ports rule) \<and>
     target_matches_host rule target"
  by (auto simp: rule_allows_def rule_id_selected_def port_allowed_def target_matches_names list_ex_iff
      same_text_code word_le_nat_alt split: option.splits)

lemma match_rules_find:
  "match_rules pid protocol target rules =
     (case find (rule_allows protocol target) rules of
        None \<Rightarrow> Inl ''target_not_allowed''
      | Some rule \<Rightarrow> Inr \<lparr>tm_target_id = rt_target_id rule, tm_policy_id = pid\<rparr>)"
  by (induction rules) (auto simp: rule_allows_code)

lemma match_rules_Inr_iff:
  "(\<exists>m. match_rules pid protocol target rules = Inr m) \<longleftrightarrow>
   (\<exists>rule \<in> set rules. rule_allows protocol target rule)"
  by (induction rules) (auto simp: rule_allows_code)

lemma match_ok_allows:
  "match_route_policy_target policy target = Inr m \<Longrightarrow> policy_allows policy target"
  using match_rules_Inr_iff [of "policy_id policy" "target_protocol policy target" target
      "policy_targets policy"]
  by (auto simp: match_route_policy_target_def policy_allows_def Let_def split: if_splits)

lemma match_ok_ids:
  assumes "match_route_policy_target policy target = Inr m"
  shows "tm_policy_id m = policy_id policy"
    and "\<exists>rule \<in> set (policy_targets policy). tm_target_id m = rt_target_id rule"
    and "\<forall>tid. sd_target_id target = Some tid \<longrightarrow> tm_target_id m = tid"
proof -
  from assms obtain rule where
    r: "find (rule_allows (target_protocol policy target) target) (policy_targets policy) = Some rule"
    and m: "m = \<lparr>tm_target_id = rt_target_id rule, tm_policy_id = policy_id policy\<rparr>"
    by (auto simp: match_route_policy_target_def Let_def match_rules_find
        split: if_splits option.splits)
  from r have "rule \<in> set (policy_targets policy)"
    "rule_allows (target_protocol policy target) target rule"
    by (auto dest: find_Some_first)
  with m show "tm_policy_id m = policy_id policy"
    and "\<exists>rule \<in> set (policy_targets policy). tm_target_id m = rt_target_id rule"
    and "\<forall>tid. sd_target_id target = Some tid \<longrightarrow> tm_target_id m = tid"
    by (auto simp: rule_allows_def)
qed

section \<open>Properties\<close>

lemma find_Some_split:
  "find p xs = Some x \<longleftrightarrow>
     (\<exists>ys zs. xs = ys @ x # zs \<and> list_all (\<lambda>y. \<not> p y) ys \<and> p x)"
proof (induction xs)
  case (Cons a xs)
  show ?case
  proof (cases "p a")
    case True
    have "a # xs = ys @ x # zs \<and> list_all (\<lambda>y. \<not> p y) ys \<and> p x \<longleftrightarrow> ys = [] \<and> x = a \<and> zs = xs" for ys zs
      using True by (cases ys) auto
    with True show ?thesis by auto
  next
    case False
    have "(\<exists>ys zs. a # xs = ys @ x # zs \<and> list_all (\<lambda>y. \<not> p y) ys \<and> p x) \<longleftrightarrow>
      (\<exists>ys zs. xs = ys @ x # zs \<and> list_all (\<lambda>y. \<not> p y) ys \<and> p x)" (is "?L \<longleftrightarrow> ?R")
    proof
      assume ?L
      then obtain ys zs where "a # xs = ys @ x # zs" "list_all (\<lambda>y. \<not> p y) ys" "p x" by blast
      then show ?R using False by (cases ys) auto
    next
      assume ?R
      then obtain ys zs where "xs = ys @ x # zs" "list_all (\<lambda>y. \<not> p y) ys" "p x" by blast
      then show ?L using False by (intro exI [of _ "a # ys"] exI [of _ zs]) simp
    qed
    with False Cons show ?thesis by simp
  qed
qed simp

lemma decision_by_rules:
  assumes p: "target_protocol policy target = protocol"
  shows "(match_route_policy_target policy target = Inr m \<longleftrightarrow>
         protocol \<in> {''udp'', ''tcp''} \<and>
         (\<exists>earlier rule later. policy_targets policy = earlier @ rule # later \<and>
            (\<forall>r \<in> set earlier. \<not> rule_allows protocol target r) \<and>
            rule_allows protocol target rule \<and>
            m = \<lparr>tm_target_id = rt_target_id rule, tm_policy_id = policy_id policy\<rparr>)) \<and>
      (match_route_policy_target policy target = Inl e \<longleftrightarrow>
         (if protocol \<in> {''udp'', ''tcp''}
          then e = ''target_not_allowed'' \<and>
            (\<forall>r \<in> set (policy_targets policy). \<not> rule_allows protocol target r)
          else e = ''target_protocol_unsupported''))"
proof (cases "protocol \<in> {''udp'', ''tcp''}")
  case True
  then have code: "match_route_policy_target policy target =
      (case find (rule_allows protocol target) (policy_targets policy) of
         None \<Rightarrow> Inl ''target_not_allowed''
       | Some rule \<Rightarrow> Inr \<lparr>tm_target_id = rt_target_id rule, tm_policy_id = policy_id policy\<rparr>)"
    by (auto simp: match_route_policy_target_def Let_def match_rules_find p)
  show ?thesis
  proof (cases "find (rule_allows protocol target) (policy_targets policy)")
    case None
    then have "\<forall>r \<in> set (policy_targets policy). \<not> rule_allows protocol target r"
      by (auto simp: find_None_iff)
    moreover have "match_route_policy_target policy target = Inl ''target_not_allowed''"
      using None by (simp add: code)
    ultimately show ?thesis using True by auto
  next
    case (Some rule)
    then have "find (rule_allows protocol target) (policy_targets policy) = Some r \<longleftrightarrow> r = rule" for r
      by auto
    then have only: "(\<exists>ys zs. policy_targets policy = ys @ r # zs \<and>
        (\<forall>y \<in> set ys. \<not> rule_allows protocol target y) \<and> rule_allows protocol target r) \<longleftrightarrow> r = rule" for r
      by (simp only: find_Some_split list_all_iff)
    have first: "(\<exists>earlier r later. policy_targets policy = earlier @ r # later \<and>
        (\<forall>y \<in> set earlier. \<not> rule_allows protocol target y) \<and> rule_allows protocol target r \<and>
        m = \<lparr>tm_target_id = rt_target_id r, tm_policy_id = policy_id policy\<rparr>) \<longleftrightarrow>
      m = \<lparr>tm_target_id = rt_target_id rule, tm_policy_id = policy_id policy\<rparr>"
      using only by metis
    have some: "\<exists>r \<in> set (policy_targets policy). rule_allows protocol target r"
      using Some by (auto dest: find_Some_first)
    have "match_route_policy_target policy target =
        Inr \<lparr>tm_target_id = rt_target_id rule, tm_policy_id = policy_id policy\<rparr>"
      using Some by (simp add: code)
    then show ?thesis
      unfolding first using True some by auto
  qed
qed (auto simp: match_route_policy_target_def Let_def p)

text \<open>Two rules of one policy: the first is for other ports, the second for a network.\<close>

definition two_rules :: route_policy where
  "two_rules =
     \<lparr>policy_id = ''p1'', policy_version = 1, policy_mode = ''dynamic_targets'',
      default_protocol = None, dns_strategy = None,
      policy_targets =
        [\<lparr>rt_target_id = ''narrow'', rt_purpose = None, rt_host_type = ''any'', rt_host = None,
          rt_resolved_ips = [], rt_observed_ips = [], rt_cidrs = [],
          rt_ports = [\<lparr>pr_protocol = ''udp'', pr_from = 27000, pr_to = 27014\<rparr>],
          rt_allow_client_observed_ip = None, rt_resolve_ttl_sec = None, rt_required = None\<rparr>,
         \<lparr>rt_target_id = ''wide'', rt_purpose = None, rt_host_type = ''Observed_IP'', rt_host = None,
          rt_resolved_ips = [], rt_observed_ips = ['' 198.51.100.20 ''], rt_cidrs = [],
          rt_ports = [\<lparr>pr_protocol = ''udp'', pr_from = 27015, pr_to = 27015\<rparr>],
          rt_allow_client_observed_ip = None, rt_resolve_ttl_sec = None, rt_required = None\<rparr>],
      policy_capture = None\<rparr>"

definition rule_target :: session_data_target where
  "rule_target =
     \<lparr>sd_target_id = None, sd_protocol = Some ''UDP'', sd_host = ''198.51.100.20'', sd_port = 27015,
      sd_original_domain = None\<rparr>"

text \<open>
  C21. The decision about a target, in terms of the policy alone: with a protocol other than UDP
  and TCP (the target's own, else the policy's default, else UDP; in any case) the error is
  \<open>target_protocol_unsupported\<close>. Otherwise the first rule that allows the target decides, and the
  match carries its id and the policy's; a rule allows the target when it has the id the target
  names (if it names one), one of its ranges has the protocol and holds the port, and the host is
  one of the rule's as its type of host reads it. Where no rule does, the error is
  \<open>target_not_allowed\<close>.
\<close>

theorem match_decision:
  "let protocol = map ascii_lower (case sd_protocol target of Some p \<Rightarrow> p
         | None \<Rightarrow> (case default_protocol policy of Some p \<Rightarrow> p | None \<Rightarrow> ''udp''))
   in (match_route_policy_target policy target = Inr m \<longleftrightarrow>
         protocol \<in> {''udp'', ''tcp''} \<and>
         (\<exists>earlier rule later. policy_targets policy = earlier @ rule # later \<and>
            (\<forall>r \<in> set earlier. \<not> rule_allows protocol target r) \<and>
            rule_allows protocol target rule \<and>
            m = \<lparr>tm_target_id = rt_target_id rule, tm_policy_id = policy_id policy\<rparr>)) \<and>
      (match_route_policy_target policy target = Inl e \<longleftrightarrow>
         (if protocol \<in> {''udp'', ''tcp''}
          then e = ''target_not_allowed'' \<and>
            (\<forall>r \<in> set (policy_targets policy). \<not> rule_allows protocol target r)
          else e = ''target_protocol_unsupported''))"
proof -
  define protocol where "protocol = map ascii_lower (case sd_protocol target of Some p \<Rightarrow> p
         | None \<Rightarrow> (case default_protocol policy of Some p \<Rightarrow> p | None \<Rightarrow> ''udp''))"
  have p: "target_protocol policy target = protocol"
    by (simp add: protocol_def target_protocol_def to_ascii_lowercase_def split: option.splits)
  show ?thesis
    unfolding protocol_def [symmetric] Let_def
    by (rule decision_by_rules [OF p])
qed

theorem match_decision_witness:
  "\<exists>earlier rule later. policy_targets two_rules = earlier @ rule # later \<and>
     (\<forall>r \<in> set earlier. \<not> rule_allows ''udp'' rule_target r) \<and> rule_allows ''udp'' rule_target rule \<and>
     rt_target_id rule = ''wide''"
proof -
  have "match_route_policy_target two_rules rule_target =
      Inr \<lparr>tm_target_id = ''wide'', tm_policy_id = ''p1''\<rparr>"
    by code_simp
  moreover have target: "sd_protocol rule_target = Some ''UDP''" by (simp add: rule_target_def)
  moreover have "map ascii_lower ''UDP'' = ''udp''" by code_simp
  ultimately have "\<exists>earlier rule later. policy_targets two_rules = earlier @ rule # later \<and>
     (\<forall>r \<in> set earlier. \<not> rule_allows ''udp'' rule_target r) \<and> rule_allows ''udp'' rule_target rule \<and>
     \<lparr>tm_target_id = ''wide'', tm_policy_id = ''p1''\<rparr> =
       \<lparr>tm_target_id = rt_target_id rule, tm_policy_id = policy_id two_rules\<rparr>"
    using match_decision [of two_rules rule_target "\<lparr>tm_target_id = ''wide'', tm_policy_id = ''p1''\<rparr>" "[]"]
    by (simp only: target Let_def option.case) simp
  then show ?thesis by (metis target_match.select_convs(1))
qed

text \<open>
  A CIDR rule admits exactly the addresses of its network: of the same family as the base and
  with the same leading \<open>prefix\<close> bits, for every prefix up to the family's width; a longer
  prefix admits none.
\<close>

theorem cidr_is_network:
  assumes "parse_ip_addr host = Some ip" "split_once (CHR ''/'') cidr = Some (b, p)"
    "parse_uint 256 p = Some prefix" "parse_ip_addr b = Some base"
  shows "ip_in_cidr host cidr \<longleftrightarrow> same_network prefix ip base"
  using assms by (rule ip_in_cidr_network)

theorem cidr_is_network_witness:
  "ip_in_cidr ''10.1.2.3'' ''10.1.0.0/16'' = same_network 16 (V4 0x0A010203) (V4 0x0A010000)"
proof (rule cidr_is_network)
  have digits: "show_nat 10 = ''10''" "show_nat 1 = ''1''" "show_nat 2 = ''2''" "show_nat 3 = ''3''"
    "show_nat 0 = ''0''"
    by (simp_all add: show_radix.simps digit_char_def char_of_def bit_Suc_0_iff)
  then show "parse_ip_addr ''10.1.2.3'' = Some (V4 0x0A010203)" "parse_ip_addr ''10.1.0.0'' = Some (V4 0x0A010000)"
    using parse_ip_addr_show_ipv4 [of "0x0A010203"] parse_ip_addr_show_ipv4 [of "0x0A010000"]
    by (simp_all add: show_ipv4_def Let_def)
  show "split_once (CHR ''/'') ''10.1.0.0/16'' = Some (''10.1.0.0'', ''16'')"
    by (simp add: split_once_def)
  show "parse_uint 256 ''16'' = Some 16"
    by code_simp
qed

end
