(* ===== verification/Session_Store.thy ===== *)
theory Session_Store
  imports Route_Policy
begin

text \<open>
  \<open>node-core/src/session_store.rs\<close>: the table of UDP sessions behind a mutex. The hash map is
  an association list with distinct keys; \<open>poisoned\<close> is the mutex's poison flag. Every
  operation is atomic, because it holds the lock for its whole body. A reading of the clock
  is an argument of the operation that makes it.
\<close>

definition now_unix :: "int \<Rightarrow> u64" where
  "now_unix t = (if t < 0 then 0 else of_int t)"

record udp_session =
  us_session_id :: string
  us_user_id :: "u64 option"
  us_device_id :: "string option"
  us_game_id :: "u64 option"
  us_region_id :: "u64 option"
  us_authenticated :: bool
  us_intent_id :: "string option"
  us_route_target_addr :: "string option"
  us_route_policy :: "route_policy option"
  us_route_policy_id :: "string option"
  us_route_policy_hash :: "string option"
  us_created_at :: u64
  us_expires_at :: u64
  us_last_seen_at :: u64
  us_last_peer :: socket_addr
  us_rx_bytes :: u64
  us_tx_bytes :: u64

record udp_session_snapshot =
  sn_session_id :: string
  sn_user_id :: "u64 option"
  sn_device_id :: "string option"
  sn_game_id :: "u64 option"
  sn_region_id :: "u64 option"
  sn_authenticated :: bool
  sn_intent_id :: "string option"
  sn_route_target_addr :: "string option"
  sn_route_policy :: "route_policy option"
  sn_route_policy_id :: "string option"
  sn_route_policy_hash :: "string option"
  sn_created_at :: u64
  sn_expires_at :: u64

datatype udp_session_error = Missing | Expired | LockPoisoned

record session_store =
  udp_sessions :: "(string \<times> udp_session) list"
  poisoned :: bool

definition empty_store :: session_store where
  "empty_store = \<lparr>udp_sessions = [], poisoned = False\<rparr>"

definition udp_session_new ::
  "string \<Rightarrow> u64 option \<Rightarrow> string option \<Rightarrow> u64 option \<Rightarrow> u64 option \<Rightarrow> bool \<Rightarrow> string option \<Rightarrow>
   string option \<Rightarrow> route_policy option \<Rightarrow> string option \<Rightarrow> string option \<Rightarrow> u64 \<Rightarrow>
   socket_addr \<Rightarrow> u64 \<Rightarrow> udp_session"
where
  "udp_session_new sid user device game region auth intent target policy pid phash ttl peer now =
     \<lparr>us_session_id = sid, us_user_id = user, us_device_id = device, us_game_id = game,
      us_region_id = region, us_authenticated = auth, us_intent_id = intent,
      us_route_target_addr = target, us_route_policy = policy, us_route_policy_id = pid,
      us_route_policy_hash = phash, us_created_at = now, us_expires_at = now + ttl,
      us_last_seen_at = now, us_last_peer = peer, us_rx_bytes = 0, us_tx_bytes = 0\<rparr>"

definition snapshot :: "udp_session \<Rightarrow> udp_session_snapshot" where
  "snapshot s =
     \<lparr>sn_session_id = us_session_id s, sn_user_id = us_user_id s,
      sn_device_id = us_device_id s, sn_game_id = us_game_id s, sn_region_id = us_region_id s,
      sn_authenticated = us_authenticated s, sn_intent_id = us_intent_id s,
      sn_route_target_addr = us_route_target_addr s, sn_route_policy = us_route_policy s,
      sn_route_policy_id = us_route_policy_id s, sn_route_policy_hash = us_route_policy_hash s,
      sn_created_at = us_created_at s, sn_expires_at = us_expires_at s\<rparr>"

definition remove_expired :: "(string \<times> udp_session) list \<Rightarrow> u64 \<Rightarrow> (string \<times> udp_session) list" where
  "remove_expired sessions now = filter (\<lambda>kv. now < us_expires_at (snd kv)) sessions"

definition register_udp_session :: "u64 \<Rightarrow> udp_session \<Rightarrow> session_store \<Rightarrow> session_store" where
  "register_udp_session now session st =
     (if poisoned st then st
      else st\<lparr>udp_sessions :=
        AList.update (us_session_id session) session (remove_expired (udp_sessions st) now)\<rparr>)"

definition touch_session :: "u64 \<Rightarrow> socket_addr \<Rightarrow> u64 \<Rightarrow> u64 \<Rightarrow> udp_session \<Rightarrow> udp_session" where
  "touch_session now peer rx tx s =
     s\<lparr>us_last_seen_at := now, us_last_peer := peer,
       us_rx_bytes := saturating_add (us_rx_bytes s) rx,
       us_tx_bytes := saturating_add (us_tx_bytes s) tx\<rparr>"

definition record_udp_session_io ::
  "u64 \<Rightarrow> string \<Rightarrow> socket_addr \<Rightarrow> u64 \<Rightarrow> u64 \<Rightarrow> session_store \<Rightarrow>
   (udp_session_error, udp_session_snapshot) result \<times> session_store"
where
  "record_udp_session_io now sid peer rx tx st =
     (if poisoned st then (Inl LockPoisoned, st)
      else case map_of (udp_sessions st) sid of
        None \<Rightarrow> (Inl Missing, st)
      | Some s \<Rightarrow>
          if us_expires_at s \<le> now then
            (Inl Expired, st\<lparr>udp_sessions := AList.delete sid (udp_sessions st)\<rparr>)
          else
            (let s' = touch_session now peer rx tx s
             in (Inr (snapshot s'), st\<lparr>udp_sessions := AList.update sid s' (udp_sessions st)\<rparr>)))"

definition active_udp_session_count :: "u64 \<Rightarrow> session_store \<Rightarrow> u64 \<times> session_store" where
  "active_udp_session_count now st =
     (if poisoned st then (0, st)
      else
        (let live = remove_expired (udp_sessions st) now
         in (of_nat (length live), st\<lparr>udp_sessions := live\<rparr>)))"

section \<open>The table as a map\<close>

text \<open>
  The abstract table is the partial function from ids to sessions; \<open>store_ok\<close> is the
  representation invariant: keys are distinct and every session sits under its own id.
\<close>

definition lookup_session :: "session_store \<Rightarrow> string \<Rightarrow> udp_session option" where
  "lookup_session st = map_of (udp_sessions st)"

definition store_ok :: "session_store \<Rightarrow> bool" where
  "store_ok st \<longleftrightarrow>
     distinct_keys (udp_sessions st) \<and>
     (\<forall>sid s. lookup_session st sid = Some s \<longrightarrow> us_session_id s = sid)"

definition live_at :: "u64 \<Rightarrow> udp_session option \<Rightarrow> udp_session option" where
  "live_at now = filter_option (\<lambda>s. now < us_expires_at s)"

lemma live_at_simps [simp]:
  "live_at now None = None"
  "live_at now (Some s) = (if now < us_expires_at s then Some s else None)"
  by (simp_all add: live_at_def)

lemma live_at_Some_iff: "live_at now x = Some s \<longleftrightarrow> x = Some s \<and> now < us_expires_at s"
  by (simp add: live_at_def filter_option_Some_iff)

lemma lookup_empty [store_simps, simp]: "lookup_session empty_store sid = None"
  by (simp add: lookup_session_def empty_store_def)

lemma store_ok_empty [simp]: "store_ok empty_store"
  by (simp add: store_ok_def empty_store_def lookup_session_def)

lemma map_of_remove_expired:
  "distinct_keys m \<Longrightarrow> map_of (remove_expired m now) sid = live_at now (map_of m sid)"
  unfolding remove_expired_def live_at_def by (rule map_of_filter_value)

lemma lookup_register [store_simps]:
  assumes "store_ok st" "\<not> poisoned st"
  shows "lookup_session (register_udp_session now s st) sid =
    (if sid = us_session_id s then Some s else live_at now (lookup_session st sid))"
  using assms
  by (simp add: store_ok_def lookup_session_def register_udp_session_def update_conv'
      map_of_remove_expired)

lemma touch_session_fields [frame_simps, simp]:
  "us_session_id (touch_session now peer rx tx s) = us_session_id s"
  "us_expires_at (touch_session now peer rx tx s) = us_expires_at s"
  "us_authenticated (touch_session now peer rx tx s) = us_authenticated s"
  "snapshot (touch_session now peer rx tx s) = snapshot s"
  by (simp_all add: touch_session_def snapshot_def)

lemma snapshot_fields [frame_simps, simp]:
  "sn_session_id (snapshot s) = us_session_id s"
  "sn_authenticated (snapshot s) = us_authenticated s"
  "sn_route_target_addr (snapshot s) = us_route_target_addr s"
  "sn_route_policy (snapshot s) = us_route_policy s"
  "sn_expires_at (snapshot s) = us_expires_at s"
  by (simp_all add: snapshot_def)

lemma lookup_io [store_simps]:
  assumes "store_ok st" "\<not> poisoned st"
  shows "lookup_session (snd (record_udp_session_io now sid peer rx tx st)) sid' =
    (if sid' = sid then map_option (touch_session now peer rx tx) (live_at now (lookup_session st sid))
     else lookup_session st sid')"
  using assms
  by (auto simp: store_ok_def lookup_session_def record_udp_session_io_def Let_def
      update_conv' delete_conv' split: option.splits)

lemma io_result [store_simps]:
  assumes "\<not> poisoned st"
  shows "fst (record_udp_session_io now sid peer rx tx st) =
    (case lookup_session st sid of
       None \<Rightarrow> Inl Missing
     | Some s \<Rightarrow> if now < us_expires_at s then Inr (snapshot s) else Inl Expired)"
  using assms
  by (auto simp: record_udp_session_io_def lookup_session_def Let_def not_less
      split: option.splits)

lemma lookup_count [store_simps]:
  assumes "store_ok st" "\<not> poisoned st"
  shows "lookup_session (snd (active_udp_session_count now st)) sid =
    live_at now (lookup_session st sid)"
  using assms
  by (simp add: store_ok_def lookup_session_def active_udp_session_count_def Let_def
      map_of_remove_expired)

lemma poisoned_ops [frame_simps, simp]:
  "poisoned (register_udp_session now s st) = poisoned st"
  "poisoned (snd (record_udp_session_io now sid peer rx tx st)) = poisoned st"
  "poisoned (snd (active_udp_session_count now st)) = poisoned st"
  by (auto simp: register_udp_session_def record_udp_session_io_def
      active_udp_session_count_def Let_def split: option.splits)

lemma poisoned_stuck:
  assumes "poisoned st"
  shows "register_udp_session now s st = st"
    and "record_udp_session_io now sid peer rx tx st = (Inl LockPoisoned, st)"
    and "active_udp_session_count now st = (0, st)"
  using assms
  by (simp_all add: register_udp_session_def record_udp_session_io_def
      active_udp_session_count_def)

section \<open>The invariant\<close>

lemma distinct_keys_ops:
  assumes "distinct_keys (udp_sessions st)"
  shows "distinct_keys (udp_sessions (register_udp_session now s st))"
    and "distinct_keys (udp_sessions (snd (record_udp_session_io now sid peer rx tx st)))"
    and "distinct_keys (udp_sessions (snd (active_udp_session_count now st)))"
  using assms
  by (auto simp: register_udp_session_def record_udp_session_io_def active_udp_session_count_def
      remove_expired_def Let_def distinct_update distinct_delete distinct_keys_filter
      split: option.splits)

lemma store_ok_register: "store_ok st \<Longrightarrow> store_ok (register_udp_session now s st)"
proof (cases "poisoned st")
  case False
  assume ok: "store_ok st"
  then have "distinct_keys (udp_sessions (register_udp_session now s st))"
    by (simp add: store_ok_def distinct_keys_ops)
  with ok False show ?thesis
    by (auto simp: store_ok_def [of "register_udp_session now s st"] lookup_register
        live_at_Some_iff) (simp add: store_ok_def)
qed (simp add: poisoned_stuck)

lemma store_ok_io: "store_ok st \<Longrightarrow> store_ok (snd (record_udp_session_io now sid peer rx tx st))"
proof (cases "poisoned st")
  case False
  assume ok: "store_ok st"
  then have "distinct_keys (udp_sessions (snd (record_udp_session_io now sid peer rx tx st)))"
    by (simp add: store_ok_def distinct_keys_ops)
  with ok False show ?thesis
    by (auto simp: store_ok_def [of "snd (record_udp_session_io now sid peer rx tx st)"]
        lookup_io live_at_Some_iff) (simp_all add: store_ok_def)
qed (simp add: poisoned_stuck)

lemma store_ok_count: "store_ok st \<Longrightarrow> store_ok (snd (active_udp_session_count now st))"
proof (cases "poisoned st")
  case False
  assume ok: "store_ok st"
  then have "distinct_keys (udp_sessions (snd (active_udp_session_count now st)))"
    by (simp add: store_ok_def distinct_keys_ops)
  with ok False show ?thesis
    by (auto simp: store_ok_def [of "snd (active_udp_session_count now st)"] lookup_count
        live_at_Some_iff) (simp add: store_ok_def)
qed (simp add: poisoned_stuck)

lemmas store_ok_ops = store_ok_register store_ok_io store_ok_count

section \<open>The interface the handlers rely on\<close>

text \<open>
  \<open>session_table\<close> is what the request handlers use of the table: they register a session
  under its own id, and they account traffic on an id, which yields the session's
  description if it is live. Its laws are stated on the abstract lookup, so that the
  handlers' proofs do not see the representation.
\<close>

locale session_table =
  fixes lookup :: "'st \<Rightarrow> string \<Rightarrow> udp_session option"
    and register :: "u64 \<Rightarrow> udp_session \<Rightarrow> 'st \<Rightarrow> 'st"
    and account :: "u64 \<Rightarrow> string \<Rightarrow> socket_addr \<Rightarrow> u64 \<Rightarrow> u64 \<Rightarrow> 'st \<Rightarrow>
      (udp_session_error, udp_session_snapshot) result \<times> 'st"
    and usable :: "'st \<Rightarrow> bool"
  assumes usable_register: "usable st \<Longrightarrow> usable (register now s st)"
    and usable_account: "usable st \<Longrightarrow> usable (snd (account now sid peer rx tx st))"
    and register_lookup: "usable st \<Longrightarrow> lookup (register now s st) sid =
      (if sid = us_session_id s then Some s else live_at now (lookup st sid))"
    and account_result: "usable st \<Longrightarrow> fst (account now sid peer rx tx st) =
      (case lookup st sid of
         None \<Rightarrow> Inl Missing
       | Some s \<Rightarrow> if now < us_expires_at s then Inr (snapshot s) else Inl Expired)"
    and account_lookup: "usable st \<Longrightarrow> lookup (snd (account now sid peer rx tx st)) sid' =
      (if sid' = sid then map_option (touch_session now peer rx tx) (live_at now (lookup st sid))
       else lookup st sid')"
begin

lemma register_then_account:
  assumes "usable st" "now' < us_expires_at s"
  shows "fst (account now' (us_session_id s) peer rx tx (register now s st)) = Inr (snapshot s)"
  using assms by (simp add: account_result usable_register register_lookup)

lemma account_ok_iff:
  assumes "usable st"
  shows "fst (account now sid peer rx tx st) = Inr sn \<longleftrightarrow>
    (\<exists>s. lookup st sid = Some s \<and> now < us_expires_at s \<and> sn = snapshot s)"
  using assms by (auto simp: account_result split: option.splits)

lemma account_keeps_snapshot:
  assumes "usable st" "lookup (snd (account now sid peer rx tx st)) sid' = Some s'"
  shows "\<exists>s. lookup st sid' = Some s \<and> snapshot s' = snapshot s"
  using assms by (auto simp: account_lookup live_at_Some_iff split: if_splits)

lemma register_sources:
  assumes "usable st" "lookup (register now s st) sid = Some s'"
  shows "s' = s \<and> sid = us_session_id s \<or> lookup st sid = Some s' \<and> now < us_expires_at s'"
  using assms by (auto simp: register_lookup live_at_Some_iff split: if_splits)

lemma account_twice:
  assumes "usable st" "fst (account now sid peer rx tx st) = Inr sn"
  shows "fst (account now' sid peer' rx' tx' (snd (account now sid peer rx tx st))) =
    (if now' < sn_expires_at sn then Inr sn else Inl Expired)"
proof -
  obtain s where s: "lookup st sid = Some s" "now < us_expires_at s" "sn = snapshot s"
    using account_ok_iff [OF assms(1)] assms(2) by blast
  then have "lookup (snd (account now sid peer rx tx st)) sid = Some (touch_session now peer rx tx s)"
    using assms(1) by (simp add: account_lookup)
  then show ?thesis
    using s assms(1) by (simp add: account_result usable_account)
qed

end

definition store_usable :: "session_store \<Rightarrow> bool" where
  "store_usable st \<longleftrightarrow> store_ok st \<and> \<not> poisoned st"

interpretation tbl: session_table lookup_session register_udp_session record_udp_session_io
  store_usable
proof unfold_locales
  fix st now s sid peer rx tx sid'
  assume u: "store_usable st"
  show "store_usable (register_udp_session now s st)"
    using u by (simp add: store_usable_def store_ok_ops)
  show "store_usable (snd (record_udp_session_io now sid peer rx tx st))"
    using u by (simp add: store_usable_def store_ok_ops)
  show "lookup_session (register_udp_session now s st) sid =
      (if sid = us_session_id s then Some s else live_at now (lookup_session st sid))"
    using u by (simp add: store_usable_def lookup_register)
  show "fst (record_udp_session_io now sid peer rx tx st) =
      (case lookup_session st sid of None \<Rightarrow> Inl Missing
       | Some s \<Rightarrow> if now < us_expires_at s then Inr (snapshot s) else Inl Expired)"
    using u by (simp add: store_usable_def io_result)
  show "lookup_session (snd (record_udp_session_io now sid peer rx tx st)) sid' =
      (if sid' = sid
       then map_option (touch_session now peer rx tx) (live_at now (lookup_session st sid))
       else lookup_session st sid')"
    using u by (simp add: store_usable_def lookup_io)
qed

section \<open>Properties\<close>

text \<open>
  C24. The locked hash map implements a partial function from ids to sessions. While the lock is
  not poisoned, registering, accounting and counting are exactly the following on that
  function: a registration drops what has expired and puts the session under its own id; an
  accounting answers \<open>Missing\<close>, \<open>Expired\<close> (and forgets the session) or the session's
  description (and updates that session only); a count keeps the live sessions.
\<close>

theorem store_refines_map:
  assumes "store_usable st"
  shows "lookup_session (register_udp_session now s st) =
      (\<lambda>sid. live_at now (lookup_session st sid))(us_session_id s \<mapsto> s) \<and>
    record_udp_session_io now sid peer rx tx st =
      (case lookup_session st sid of
         None \<Rightarrow> Inl Missing
       | Some u \<Rightarrow> if now < us_expires_at u then Inr (snapshot u) else Inl Expired,
       snd (record_udp_session_io now sid peer rx tx st)) \<and>
    lookup_session (snd (record_udp_session_io now sid peer rx tx st)) =
      (lookup_session st)(sid := map_option (touch_session now peer rx tx) (live_at now (lookup_session st sid))) \<and>
    lookup_session (snd (active_udp_session_count now st)) = (\<lambda>sid. live_at now (lookup_session st sid)) \<and>
    store_usable (register_udp_session now s st) \<and>
    store_usable (snd (record_udp_session_io now sid peer rx tx st)) \<and>
    store_usable (snd (active_udp_session_count now st))"
proof -
  have "record_udp_session_io now sid peer rx tx st = (fst (record_udp_session_io now sid peer rx tx st),
      snd (record_udp_session_io now sid peer rx tx st))" by simp
  moreover have "lookup_session (register_udp_session now s st) =
      (\<lambda>sid. live_at now (lookup_session st sid))(us_session_id s \<mapsto> s)"
    using assms by (auto simp: tbl.register_lookup)
  moreover have "lookup_session (snd (record_udp_session_io now sid peer rx tx st)) =
      (lookup_session st)(sid := map_option (touch_session now peer rx tx) (live_at now (lookup_session st sid)))"
    using assms by (auto simp: tbl.account_lookup)
  moreover have "lookup_session (snd (active_udp_session_count now st)) =
      (\<lambda>sid. live_at now (lookup_session st sid))"
    using assms by (auto simp: store_usable_def lookup_count)
  ultimately show ?thesis
    using assms tbl.account_result [OF assms, of now sid peer rx tx]
    by (simp add: tbl.usable_register tbl.usable_account) (simp add: store_usable_def store_ok_ops)
qed

theorem store_refines_map_witness:
  "lookup_session (register_udp_session 5 (udp_session_new ''a'' None None None None False None None None
     None None 30 (SockV4 1 2) 5) empty_store) ''a'' \<noteq> None"
proof -
  have "store_usable empty_store"
    by (simp add: store_usable_def) (simp add: empty_store_def)
  from store_refines_map [OF this] show ?thesis
    by (simp add: udp_session_new_def)
qed

text \<open>
  The reported number of active sessions is the number of ids under which the table holds a
  session that has not expired, while the table holds fewer than \<open>2 ^ 64\<close> of them; with a
  poisoned lock it is zero and the table stays as it is.
\<close>

theorem active_count_is_exact:
  assumes "store_ok st" "length (udp_sessions st) < 2 ^ 64"
  shows "unat (fst (active_udp_session_count now st)) =
    (if poisoned st then 0
     else card {sid. live_at now (lookup_session st sid) \<noteq> None})"
proof (cases "poisoned st")
  case False
  let ?live = "remove_expired (udp_sessions st) now"
  have d: "distinct_keys (udp_sessions st)" using assms(1) by (simp add: store_ok_def)
  have "distinct_keys ?live" using d by (simp add: remove_expired_def distinct_keys_filter)
  then have "length ?live = card (fst ` set ?live)"
    by (simp only: distinct_card set_map [symmetric] length_map)
  also have "fst ` set ?live = {sid. map_of ?live sid \<noteq> None}"
    by (auto simp: dom_map_of_conv_image_fst [symmetric])
  also have "\<dots> = {sid. live_at now (lookup_session st sid) \<noteq> None}"
    by (simp only: map_of_remove_expired [OF d] lookup_session_def)
  finally have "length ?live = card {sid. live_at now (lookup_session st sid) \<noteq> None}" .
  moreover have "length ?live < 2 ^ 64"
    using assms(2) le_less_trans [OF length_filter_le] by (simp add: remove_expired_def)
  ultimately show ?thesis
    using False by (simp add: active_udp_session_count_def Let_def unsigned_of_nat take_bit_nat_eq_self)
qed (simp add: active_udp_session_count_def)

theorem active_count_is_exact_witness:
  "unat (fst (active_udp_session_count 10 (register_udp_session 5 (udp_session_new ''a'' None None None None
     False None None None None None 30 (SockV4 1 2) 5) empty_store))) =
   card {sid. live_at 10 (lookup_session (register_udp_session 5 (udp_session_new ''a'' None None None None
     False None None None None None 30 (SockV4 1 2) 5) empty_store) sid) \<noteq> None}"
proof -
  let ?st = "register_udp_session 5 (udp_session_new ''a'' None None None None
     False None None None None None 30 (SockV4 1 2) 5) empty_store"
  have "store_ok ?st" by (rule store_ok_register) simp
  moreover have "\<not> poisoned ?st" "length (udp_sessions ?st) < 2 ^ 64"
    by (simp_all add: register_udp_session_def empty_store_def remove_expired_def)
  ultimately show ?thesis using active_count_is_exact [of ?st 10] by simp
qed

end
