(* ===== verification/Auth.thy ===== *)
theory Auth
  imports Session_Store
begin

text \<open>
  \<open>node-core/src/auth.rs\<close>: the client token \<open>xat.v1.payload.signature\<close>, how it is signed and
  verified, and how the probe request is matched against its claims. The JSON reader and
  writer of the claims are parameters.
\<close>

record business_auth_context =
  ba_entitlement_id :: "string option"
  ba_order_id :: "string option"
  ba_subscription_id :: "string option"
  ba_business_session_id :: "string option"
  ba_entitlement_verified :: bool
  ba_device_verified :: bool
  ba_entitlement_expires_at :: "u64 option"
  ba_risk_level :: "string option"
  ba_business_trace_id :: "string option"

record client_route_claims =
  cr_target_addr :: string
  cr_protocol :: string

record client_token_claims =
  ct_node_id :: u64
  ct_user_id :: u64
  ct_device_id :: string
  ct_game_id :: u64
  ct_game_key :: "string option"
  ct_region_id :: "u64 option"
  ct_business :: "business_auth_context option"
  ct_intent_id :: "string option"
  ct_route_policy_hash :: "string option"
  ct_route_policy_id :: "string option"
  ct_route :: "client_route_claims option"
  ct_expires_at :: u64
  ct_issued_at :: "u64 option"
  ct_nonce :: "string option"

record client_probe_request =
  pq_client_nonce :: "string option"
  pq_user_id :: "u64 option"
  pq_device_id :: "string option"
  pq_game_id :: "u64 option"
  pq_region_id :: "u64 option"
  pq_transport :: "string option"
  pq_token :: "string option"
  pq_route_policy :: "route_policy option"

text \<open>An error code with its message, as the protocol reports it.\<close>

type_synonym code_message = "string \<times> string"

datatype auth_decision =
    AuthMissing
  | AuthValid client_token_claims
  | AuthInvalid code_message

definition token_prefix :: string where "token_prefix = ''xat''"
definition token_version :: string where "token_version = ''v1''"

definition check_claims :: "u64 option \<Rightarrow> u64 \<Rightarrow> client_token_claims \<Rightarrow> (string, client_token_claims) result"
where
  "check_claims expected_node_id now claims =
     (if is_some_and (\<lambda>node_id. ct_node_id claims \<noteq> node_id) expected_node_id then
        Inl ''token node_id does not match this node''
      else if ct_expires_at claims \<le> now then Inl ''token expired''
      else if trim (ct_device_id claims) = [] then Inl ''token device_id is required''
      else (case ct_route claims of
          None \<Rightarrow> Inr claims
        | Some route \<Rightarrow>
            if trim (cr_target_addr route) = [] then
              Inl ''token route.target_addr is required when route is present''
            else if cr_protocol route \<noteq> ''udp'' \<and> cr_protocol route \<noteq> ''tcp'' then
              Inl ''token route.protocol must be udp or tcp''
            else Inr claims))"

definition verify_token ::
  "crypto \<Rightarrow> (bytes \<Rightarrow> client_token_claims option) \<Rightarrow> string \<Rightarrow> u64 option \<Rightarrow> string \<Rightarrow> u64 \<Rightarrow>
   (string, client_token_claims) result"
where
  "verify_token cx claims_of_json token expected_node_id secret now =
     (case split_on (CHR ''.'') token of
        [prefix, version, payload_text, signature_text] \<Rightarrow>
          if prefix \<noteq> token_prefix \<or> version \<noteq> token_version then
            Inl ''token format must be xat.v1.payload.signature''
          else
            (let signing_input = prefix @ ''.'' @ version @ ''.'' @ payload_text in
             bind_result (ok_or ''token signature is not valid base64url''
               (b64url_decode cx signature_text)) (\<lambda>signature.
             bind_result (ok_or ''failed to initialize token verifier''
               (hmac_sha256 cx secret signing_input)) (\<lambda>mac.
             if mac \<noteq> signature then Inl ''token signature mismatch''
             else
             bind_result (ok_or ''token payload is not valid base64url''
               (b64url_decode cx payload_text)) (\<lambda>payload.
             bind_result (ok_or ''token payload is not valid JSON'' (claims_of_json payload))
               (check_claims expected_node_id now)))))
      | _ \<Rightarrow> Inl ''token format must be xat.v1.payload.signature'')"

definition match_request_claims :: "client_probe_request \<Rightarrow> client_token_claims \<Rightarrow> auth_decision" where
  "match_request_claims request claims =
     (if is_some_and (\<lambda>u. u \<noteq> ct_user_id claims) (pq_user_id request) then
        AuthInvalid (''claim_mismatch'', ''request user_id does not match token'')
      else if is_some_and (\<lambda>d. d \<noteq> ct_device_id claims) (pq_device_id request) then
        AuthInvalid (''claim_mismatch'', ''request device_id does not match token'')
      else if is_some_and (\<lambda>g. g \<noteq> ct_game_id claims) (pq_game_id request) then
        AuthInvalid (''claim_mismatch'', ''request game_id does not match token'')
      else if is_some_and (\<lambda>r. Some r \<noteq> ct_region_id claims) (pq_region_id request) then
        AuthInvalid (''claim_mismatch'', ''request region_id does not match token'')
      else AuthValid claims)"

definition verify_probe_token ::
  "crypto \<Rightarrow> (bytes \<Rightarrow> client_token_claims option) \<Rightarrow> client_probe_request \<Rightarrow> u64 option \<Rightarrow>
   string option \<Rightarrow> u64 \<Rightarrow> auth_decision"
where
  "verify_probe_token cx claims_of_json request expected_node_id secret now =
     (case filter_option (\<lambda>t. t \<noteq> []) (map_option trim (pq_token request)) of
        None \<Rightarrow> AuthMissing
      | Some token \<Rightarrow>
          (case filter_option (\<lambda>s. trim s \<noteq> []) secret of
             None \<Rightarrow> AuthInvalid (''auth_not_ready'', ''node_secret is missing'')
           | Some key \<Rightarrow>
               (case verify_token cx claims_of_json token expected_node_id key now of
                  Inr claims \<Rightarrow> match_request_claims request claims
                | Inl error \<Rightarrow> AuthInvalid (''invalid_token'', error))))"

definition sign_client_token ::
  "crypto \<Rightarrow> ('c \<Rightarrow> (string, bytes) result) \<Rightarrow> 'c \<Rightarrow> string \<Rightarrow> (string, string) result"
where
  "sign_client_token cx claims_to_json claims secret =
     bind_result (map_err (\<lambda>_. ''failed to encode claims'') (claims_to_json claims)) (\<lambda>json.
     let payload = b64url_encode cx json;
         signing_input = token_prefix @ ''.'' @ token_version @ ''.'' @ payload
     in bind_result (ok_or ''failed to initialize token signer''
          (hmac_sha256 cx secret signing_input)) (\<lambda>mac.
        Inr (signing_input @ ''.'' @ b64url_encode cx mac)))"

section \<open>What a verified token guarantees\<close>

text \<open>Claims a node accepts at time \<open>now\<close>.\<close>

definition acceptable_claims :: "u64 option \<Rightarrow> u64 \<Rightarrow> client_token_claims \<Rightarrow> bool" where
  "acceptable_claims expected_node_id now claims \<longleftrightarrow>
     (\<forall>node_id. expected_node_id = Some node_id \<longrightarrow> ct_node_id claims = node_id) \<and>
     now < ct_expires_at claims \<and> trim (ct_device_id claims) \<noteq> [] \<and>
     (\<forall>route. ct_route claims = Some route \<longrightarrow>
        trim (cr_target_addr route) \<noteq> [] \<and> cr_protocol route \<in> {''udp'', ''tcp''})"

lemma check_claims_iff:
  "check_claims expected_node_id now claims = Inr claims' \<longleftrightarrow>
     claims' = claims \<and> acceptable_claims expected_node_id now claims"
  by (cases expected_node_id)
    (auto simp: check_claims_def acceptable_claims_def not_le split: option.splits)

text \<open>The token's shape: a payload and a signature, both free of dots.\<close>

definition token_text :: "string \<Rightarrow> string \<Rightarrow> string" where
  "token_text payload signature = ''xat.v1.'' @ payload @ ''.'' @ signature"

definition signed_part :: "string \<Rightarrow> string" where
  "signed_part payload = ''xat.v1.'' @ payload"

lemma split_token:
  assumes "CHR ''.'' \<notin> set payload" "CHR ''.'' \<notin> set signature"
  shows "split_on (CHR ''.'') (token_text payload signature) =
    [''xat'', ''v1'', payload, signature]"
proof -
  have "split_on (CHR ''.'') (''xat'' @ CHR ''.'' # ''v1'' @ CHR ''.'' # payload @ CHR ''.'' # signature)
    = [''xat'', ''v1'', payload, signature]"
    using assms by (simp add: split_on_append split_on_plain del: append_Cons append_Nil)
  then show ?thesis by (simp add: token_text_def)
qed

lemma split_on_join4:
  assumes "split_on d s = [a, b, c, e]"
  shows "s = a @ d # b @ d # c @ d # e"
  using assms join_split_on [of d s] by simp

lemma verify_token_iff:
  "verify_token cx claims_of_json token node secret now = Inr claims \<longleftrightarrow>
     (\<exists>payload signature mac body.
        token = token_text payload signature \<and>
        CHR ''.'' \<notin> set payload \<and> CHR ''.'' \<notin> set signature \<and>
        hmac_sha256 cx secret (signed_part payload) = Some mac \<and>
        b64url_decode cx signature = Some mac \<and>
        b64url_decode cx payload = Some body \<and> claims_of_json body = Some claims \<and>
        acceptable_claims node now claims)"
  (is "?L \<longleftrightarrow> ?R")
proof
  assume ?L
  then obtain payload signature where
    sp: "split_on (CHR ''.'') token = [''xat'', ''v1'', payload, signature]"
    by (auto simp: verify_token_def token_prefix_def token_version_def Let_def
        split: list.splits if_splits)
  then have "token = token_text payload signature"
    using split_on_join4 [OF sp] by (simp add: token_text_def)
  moreover have "CHR ''.'' \<notin> set payload" "CHR ''.'' \<notin> set signature"
    using split_on_no_sep [of _ "CHR ''.''" token] sp by auto
  ultimately show ?R
    using \<open>?L\<close> sp
    by (auto simp: verify_token_def token_prefix_def token_version_def Let_def check_claims_iff
        signed_part_def split: if_splits)
next
  assume ?R
  then show ?L
    by (auto simp: verify_token_def split_token token_prefix_def token_version_def Let_def
        check_claims_iff signed_part_def)
qed

lemma match_request_claims_iff:
  "match_request_claims request claims = AuthValid claims' \<longleftrightarrow>
     claims' = claims \<and>
     (\<forall>u. pq_user_id request = Some u \<longrightarrow> u = ct_user_id claims) \<and>
     (\<forall>d. pq_device_id request = Some d \<longrightarrow> d = ct_device_id claims) \<and>
     (\<forall>g. pq_game_id request = Some g \<longrightarrow> g = ct_game_id claims) \<and>
     (\<forall>r. pq_region_id request = Some r \<longrightarrow> ct_region_id claims = Some r)"
  by (cases "pq_user_id request"; cases "pq_device_id request"; cases "pq_game_id request";
      cases "pq_region_id request") (auto simp: match_request_claims_def)

lemma match_request_not_missing: "match_request_claims request claims \<noteq> AuthMissing"
  by (auto simp: match_request_claims_def)

lemma verify_probe_token_Valid_iff:
  "verify_probe_token cx claims_of_json request node secret now = AuthValid claims \<longleftrightarrow>
     (\<exists>token key. pq_token request = Some token \<and> trim token \<noteq> [] \<and>
        secret = Some key \<and> trim key \<noteq> [] \<and>
        verify_token cx claims_of_json (trim token) node key now = Inr claims \<and>
        match_request_claims request claims = AuthValid claims)"
  by (auto simp: verify_probe_token_def filter_option_Some_iff match_request_claims_iff
      split: option.splits sum.splits)

lemma verify_probe_token_Missing_iff:
  "verify_probe_token cx claims_of_json request node secret now = AuthMissing \<longleftrightarrow>
     (\<forall>token. pq_token request = Some token \<longrightarrow> trim token = [])"
  by (auto simp: verify_probe_token_def filter_option_def match_request_not_missing
      split: option.splits sum.splits)

text \<open>A token the signer issued verifies, while its claims are acceptable.\<close>

lemma sign_client_token_shape:
  assumes "sign_client_token cx claims_to_json claims secret = Inr token"
  obtains body mac where "claims_to_json claims = Inr body"
    and "hmac_sha256 cx secret (signed_part (b64url_encode cx body)) = Some mac"
    and "token = token_text (b64url_encode cx body) (b64url_encode cx mac)"
  using assms
  by (auto simp: sign_client_token_def Let_def token_prefix_def token_version_def token_text_def
      signed_part_def)

lemma verify_signed:
  assumes "b64url_roundtrip cx"
    and "sign_client_token cx claims_to_json c secret = Inr token"
    and "\<And>body. claims_to_json c = Inr body \<Longrightarrow> claims_of_json body = Some claims"
    and "acceptable_claims node now claims"
  shows "verify_token cx claims_of_json token node secret now = Inr claims"
proof -
  obtain body mac where "claims_to_json c = Inr body"
    and "hmac_sha256 cx secret (signed_part (b64url_encode cx body)) = Some mac"
    and "token = token_text (b64url_encode cx body) (b64url_encode cx mac)"
    using assms(2) by (rule sign_client_token_shape)
  moreover from this(1) have "claims_of_json body = Some claims" by (rule assms(3))
  ultimately show ?thesis
    using assms(1,4) unfolding verify_token_iff
    by (intro exI [of _ "b64url_encode cx body"] exI [of _ "b64url_encode cx mac"] exI [of _ mac]
        exI [of _ body]) (simp add: b64url_roundtrip_def)
qed

section \<open>Properties\<close>

text \<open>The identity a probe claims beside its token, where it states one.\<close>

definition request_agrees :: "client_probe_request \<Rightarrow> client_token_claims \<Rightarrow> bool" where
  "request_agrees request claims \<longleftrightarrow>
     pq_user_id request \<in> {None, Some (ct_user_id claims)} \<and>
     pq_device_id request \<in> {None, Some (ct_device_id claims)} \<and>
     pq_game_id request \<in> {None, Some (ct_game_id claims)} \<and>
     (pq_region_id request = None \<or> pq_region_id request = ct_region_id claims)"

text \<open>
  A probe is authenticated exactly when it presents a token of the form
  \<open>xat.v1.payload.signature\<close> whose signature is the MAC of its prefix under the node's own,
  non-blank secret, whose payload decodes to claims that are for this node, unexpired and
  well-formed, and that agree with every field of the probe. Nothing else authenticates.
\<close>

theorem probe_authenticated_iff:
  "verify_probe_token cx claims_of_json request node secret now = AuthValid claims \<longleftrightarrow>
     (\<exists>token key payload signature mac body.
        pq_token request = Some token \<and> secret = Some key \<and> trim key \<noteq> [] \<and>
        trim token = token_text payload signature \<and>
        CHR ''.'' \<notin> set payload \<and> CHR ''.'' \<notin> set signature \<and>
        hmac_sha256 cx key (signed_part payload) = Some mac \<and>
        b64url_decode cx signature = Some mac \<and>
        b64url_decode cx payload = Some body \<and> claims_of_json body = Some claims \<and>
        acceptable_claims node now claims \<and> request_agrees request claims)"
proof -
  have agrees: "match_request_claims request claims = AuthValid claims \<longleftrightarrow> request_agrees request claims"
    unfolding match_request_claims_iff request_agrees_def
    by (cases "pq_user_id request"; cases "pq_device_id request"; cases "pq_game_id request";
        cases "pq_region_id request") auto
  have nonempty: "token_text p s \<noteq> []" for p s by (simp add: token_text_def)
  show ?thesis
    unfolding verify_probe_token_Valid_iff verify_token_iff agrees
    by (rule iffI) (blast, elim exE conjE, intro exI conjI, assumption, simp add: nonempty, assumption+)
qed

end
