(* ===== verification/Tunnel_Frame.thy ===== *)
theory Tunnel_Frame
  imports Rust_Numbers
begin

text \<open>
  The raw UDP tunnel frame: the node's parser of request frames and encoder of responses
  (\<open>node-core/src/session.rs\<close>), and the client's encoder of requests and decoder of
  responses (\<open>client-probe/src/main.rs\<close>). A frame is a twenty-byte header, two or three text
  fields whose lengths the header holds, and the payload.
\<close>

record raw_udp_tunnel_request =
  ru_session_id :: string
  ru_target_id :: "string option"
  ru_host :: string
  ru_port :: u16
  ru_payload :: bytes

record raw_udp_tunnel_response =
  rr_status_code :: byte
  rr_session_id :: string
  rr_status :: string
  rr_payload :: bytes

definition raw_udp_tunnel_magic :: bytes where "raw_udp_tunnel_magic = ''XAU1''"
definition raw_udp_tunnel_version :: byte where "raw_udp_tunnel_version = char_of (1::nat)"
definition raw_udp_kind_packet :: byte where "raw_udp_kind_packet = char_of (1::nat)"
definition raw_udp_kind_response :: byte where "raw_udp_kind_response = char_of (2::nat)"
definition raw_udp_header_bytes :: nat where "raw_udp_header_bytes = 20"

text \<open>\<open>slice.get(a..b)\<close>; indexing \<open>slice[a..b]\<close> panics where this is \<open>None\<close>.\<close>

definition get_range :: "nat \<Rightarrow> nat \<Rightarrow> 'a list \<Rightarrow> 'a list option" where
  "get_range a b xs = (if a \<le> b \<and> b \<le> length xs then Some (take (b - a) (drop a xs)) else None)"

definition slice_panic :: string where
  "slice_panic = ''panic: range end index out of range for slice''"

text \<open>\<open>slice[i]\<close>, which panics as a range does.\<close>

definition frame_byte :: "nat \<Rightarrow> bytes \<Rightarrow> (string, byte) result" where
  "frame_byte i b = (if i < length b then Inr (b ! i) else Inl slice_panic)"

section \<open>The node's side\<close>

definition read_u16 :: "bytes \<Rightarrow> nat \<Rightarrow> (string, nat) result" where
  "read_u16 payload offset =
     bind_result (ok_or ''raw UDP tunnel frame is truncated'' (get_range offset (offset + 2) payload))
       (\<lambda>b. Inr (be_value b))"

definition read_u32 :: "bytes \<Rightarrow> nat \<Rightarrow> (string, nat) result" where
  "read_u32 payload offset =
     bind_result (ok_or ''raw UDP tunnel frame is truncated'' (get_range offset (offset + 4) payload))
       (\<lambda>b. Inr (be_value b))"

text \<open>The field and the offset behind it.\<close>

definition read_utf8_field :: "bytes \<Rightarrow> nat \<Rightarrow> nat \<Rightarrow> string \<Rightarrow> (string, string \<times> nat) result" where
  "read_utf8_field payload offset len field =
     bind_result (ok_or ''raw UDP tunnel field length overflow'' (checked_add_usize offset len)) (\<lambda>e.
     bind_result (ok_or ''raw UDP tunnel frame is truncated'' (get_range offset e payload)) (\<lambda>b.
     bind_result (ok_or (''raw UDP tunnel '' @ field @ '' must be UTF-8'') (from_utf8 b)) (\<lambda>s.
     Inr (s, e))))"

definition checked_total :: "nat list \<Rightarrow> nat option" where
  "checked_total lens =
     foldl (\<lambda>acc n. Option.bind acc (\<lambda>a. checked_add_usize a n)) (Some raw_udp_header_bytes) lens"

definition parse_raw_udp_tunnel_frame :: "bytes \<Rightarrow> (string, raw_udp_tunnel_request) result" where
  "parse_raw_udp_tunnel_frame payload =
     (if length payload < raw_udp_header_bytes then Inl ''raw UDP tunnel frame is too short''
      else
        bind_result (ok_or slice_panic (get_range 0 4 payload)) (\<lambda>magic.
        if magic \<noteq> raw_udp_tunnel_magic then Inl ''raw UDP tunnel magic mismatch'' else
        bind_result (frame_byte 4 payload) (\<lambda>version.
        if version \<noteq> raw_udp_tunnel_version then Inl ''raw UDP tunnel version is unsupported'' else
        bind_result (frame_byte 5 payload) (\<lambda>kind.
        if kind \<noteq> raw_udp_kind_packet then Inl ''raw UDP tunnel kind must be packet'' else
        bind_result (read_u16 payload 8) (\<lambda>session_id_len.
        bind_result (read_u16 payload 10) (\<lambda>target_id_len.
        bind_result (read_u16 payload 12) (\<lambda>host_len.
        bind_result (read_u16 payload 14) (\<lambda>port.
        bind_result (read_u32 payload 16) (\<lambda>payload_len.
        bind_result (ok_or ''raw UDP tunnel frame length overflow''
          (checked_total [session_id_len, target_id_len, host_len, payload_len])) (\<lambda>total_len.
        if length payload \<noteq> total_len then Inl ''raw UDP tunnel frame length mismatch''
        else
        bind_result (read_utf8_field payload raw_udp_header_bytes session_id_len ''session_id'')
          (\<lambda>(session_id, offset1).
        bind_result
          (if target_id_len = 0 then Inr (None, offset1)
           else bind_result (read_utf8_field payload offset1 target_id_len ''target_id'')
             (\<lambda>(t, offset). Inr (Some t, offset)))
          (\<lambda>(target_id, offset2).
        bind_result (read_utf8_field payload offset2 host_len ''host'') (\<lambda>(host, offset3).
        bind_result (ok_or slice_panic (get_range offset3 (offset3 + payload_len) payload))
          (\<lambda>tunneled_payload.
        if trim session_id = [] then Inl ''raw UDP tunnel session_id is required''
        else if trim host = [] then Inl ''raw UDP tunnel host is required''
        else if port = 0 then Inl ''raw UDP tunnel port is required''
        else Inr
          \<lparr>ru_session_id = session_id, ru_target_id = target_id, ru_host = host,
           ru_port = of_nat port, ru_payload = tunneled_payload\<rparr>))))))))))))))"

definition raw_status_code :: "string \<Rightarrow> byte" where
  "raw_status_code status =
     (if status = ''forwarded'' then char_of (0::nat)
      else if status = ''upstream_timeout'' then char_of (1::nat)
      else char_of (2::nat))"

text \<open>The length fields saturate: \<open>u16::try_from(len).unwrap_or(u16::MAX)\<close>.\<close>

definition encode_raw_udp_tunnel_response :: "string \<Rightarrow> string \<Rightarrow> bytes \<Rightarrow> bytes" where
  "encode_raw_udp_tunnel_response session_id status payload =
     (let session_len = min (length session_id) 65535;
          status_len = min (length status) 65535;
          payload_len = min (length payload) 4294967295
      in raw_udp_tunnel_magic @ [raw_udp_tunnel_version] @ [raw_udp_kind_response] @
         [raw_status_code status] @ [char_of (0::nat)] @
         u16_be session_len @ u16_be status_len @ u16_be 0 @ u16_be 0 @ u32_be payload_len @
         session_id @ status @ payload)"

section \<open>The client's side\<close>

definition encode_raw_udp_tunnel_frame ::
  "string \<Rightarrow> string \<Rightarrow> string \<Rightarrow> u16 \<Rightarrow> bytes \<Rightarrow> (string, bytes) result"
where
  "encode_raw_udp_tunnel_frame session_id target_id host port payload =
     bind_result (ensure (length session_id < 65536) ''session_id is too long'') (\<lambda>_.
     bind_result (ensure (length target_id < 65536) ''target_id is too long'') (\<lambda>_.
     bind_result (ensure (length host < 65536) ''target host is too long'') (\<lambda>_.
     bind_result (ensure (length payload < 4294967296) ''payload is too large'') (\<lambda>_.
     Inr (raw_udp_tunnel_magic @ [raw_udp_tunnel_version] @ [raw_udp_kind_packet] @
       [char_of (0::nat)] @ [char_of (0::nat)] @
       u16_be (length session_id) @ u16_be (length target_id) @ u16_be (length host) @
       u16_be (unat port) @ u32_be (length payload) @
       session_id @ target_id @ host @ payload)))))"

definition client_read_u16 :: "bytes \<Rightarrow> nat \<Rightarrow> (string, nat) result" where
  "client_read_u16 b offset =
     bind_result (ok_or ''raw UDP tunnel response is truncated'' (get_range offset (offset + 2) b))
       (\<lambda>f. Inr (be_value f))"

definition client_read_u32 :: "bytes \<Rightarrow> nat \<Rightarrow> (string, nat) result" where
  "client_read_u32 b offset =
     bind_result (ok_or ''raw UDP tunnel response is truncated'' (get_range offset (offset + 4) b))
       (\<lambda>f. Inr (be_value f))"

definition client_read_utf8_field ::
  "bytes \<Rightarrow> nat \<Rightarrow> nat \<Rightarrow> string \<Rightarrow> (string, string \<times> nat) result"
where
  "client_read_utf8_field b offset len name =
     bind_result (ok_or ''raw UDP tunnel response field length overflow''
       (checked_add_usize offset len)) (\<lambda>e.
     bind_result (ok_or (''raw UDP tunnel response '' @ name @ '' is truncated'')
       (get_range offset e b)) (\<lambda>f.
     bind_result (ok_or (''raw UDP tunnel response '' @ name @ '' is not UTF-8'')
       (from_utf8 f)) (\<lambda>s. Inr (s, e))))"

definition decode_raw_udp_tunnel_response :: "bytes \<Rightarrow> (string, raw_udp_tunnel_response) result" where
  "decode_raw_udp_tunnel_response b =
     (if length b < raw_udp_header_bytes then
        Inl ''raw UDP tunnel response is shorter than header''
      else
        bind_result (ok_or slice_panic (get_range 0 4 b)) (\<lambda>magic.
        if magic \<noteq> raw_udp_tunnel_magic then Inl ''raw UDP tunnel response magic mismatch'' else
        bind_result (frame_byte 4 b) (\<lambda>version.
        if version \<noteq> raw_udp_tunnel_version then Inl ''raw UDP tunnel response version mismatch'' else
        bind_result (frame_byte 5 b) (\<lambda>kind.
        if kind \<noteq> raw_udp_kind_response then Inl ''raw UDP tunnel response kind mismatch'' else
        bind_result (client_read_u16 b 8) (\<lambda>session_len.
        bind_result (client_read_u16 b 10) (\<lambda>status_len.
        bind_result (client_read_u32 b 16) (\<lambda>payload_len.
        bind_result (ok_or ''raw UDP tunnel response length overflow''
          (checked_total [session_len, status_len, payload_len])) (\<lambda>total_len.
        if length b \<noteq> total_len then
          Inl (''raw UDP tunnel response length mismatch: expected '' @ show_nat total_len @
            '', got '' @ show_nat (length b))
        else
        bind_result (client_read_utf8_field b raw_udp_header_bytes session_len ''session_id'')
          (\<lambda>(session_id, offset1).
        bind_result (client_read_utf8_field b offset1 status_len ''status'') (\<lambda>(status, offset2).
        bind_result (ok_or slice_panic (get_range offset2 (offset2 + payload_len) b)) (\<lambda>payload.
        bind_result (frame_byte 6 b) (\<lambda>status_code.
        Inr \<lparr>rr_status_code = status_code, rr_session_id = session_id, rr_status = status,
             rr_payload = payload\<rparr>))))))))))))"

section \<open>The indices are within the header\<close>

text \<open>Behind the length check no index panics: the decoders as tests of the header's bytes.\<close>

lemma parse_raw_udp_tunnel_frame_eq:
  "parse_raw_udp_tunnel_frame payload =
     (if length payload < raw_udp_header_bytes then Inl ''raw UDP tunnel frame is too short''
      else if take 4 payload \<noteq> raw_udp_tunnel_magic then Inl ''raw UDP tunnel magic mismatch''
      else if payload ! 4 \<noteq> raw_udp_tunnel_version then
        Inl ''raw UDP tunnel version is unsupported''
      else if payload ! 5 \<noteq> raw_udp_kind_packet then
        Inl ''raw UDP tunnel kind must be packet''
      else
        bind_result (read_u16 payload 8) (\<lambda>session_id_len.
        bind_result (read_u16 payload 10) (\<lambda>target_id_len.
        bind_result (read_u16 payload 12) (\<lambda>host_len.
        bind_result (read_u16 payload 14) (\<lambda>port.
        bind_result (read_u32 payload 16) (\<lambda>payload_len.
        bind_result (ok_or ''raw UDP tunnel frame length overflow''
          (checked_total [session_id_len, target_id_len, host_len, payload_len])) (\<lambda>total_len.
        if length payload \<noteq> total_len then Inl ''raw UDP tunnel frame length mismatch''
        else
        bind_result (read_utf8_field payload raw_udp_header_bytes session_id_len ''session_id'')
          (\<lambda>(session_id, offset1).
        bind_result
          (if target_id_len = 0 then Inr (None, offset1)
           else bind_result (read_utf8_field payload offset1 target_id_len ''target_id'')
             (\<lambda>(t, offset). Inr (Some t, offset)))
          (\<lambda>(target_id, offset2).
        bind_result (read_utf8_field payload offset2 host_len ''host'') (\<lambda>(host, offset3).
        bind_result (ok_or slice_panic (get_range offset3 (offset3 + payload_len) payload))
          (\<lambda>tunneled_payload.
        if trim session_id = [] then Inl ''raw UDP tunnel session_id is required''
        else if trim host = [] then Inl ''raw UDP tunnel host is required''
        else if port = 0 then Inl ''raw UDP tunnel port is required''
        else Inr
          \<lparr>ru_session_id = session_id, ru_target_id = target_id, ru_host = host,
           ru_port = of_nat port, ru_payload = tunneled_payload\<rparr>)))))))))))"
  by (cases "length payload < 20")
    (simp_all add: parse_raw_udp_tunnel_frame_def frame_byte_def get_range_def raw_udp_header_bytes_def)

lemma decode_raw_udp_tunnel_response_eq:
  "decode_raw_udp_tunnel_response b =
     (if length b < raw_udp_header_bytes then
        Inl ''raw UDP tunnel response is shorter than header''
      else if take 4 b \<noteq> raw_udp_tunnel_magic then Inl ''raw UDP tunnel response magic mismatch''
      else if b ! 4 \<noteq> raw_udp_tunnel_version then Inl ''raw UDP tunnel response version mismatch''
      else if b ! 5 \<noteq> raw_udp_kind_response then Inl ''raw UDP tunnel response kind mismatch''
      else
        bind_result (client_read_u16 b 8) (\<lambda>session_len.
        bind_result (client_read_u16 b 10) (\<lambda>status_len.
        bind_result (client_read_u32 b 16) (\<lambda>payload_len.
        bind_result (ok_or ''raw UDP tunnel response length overflow''
          (checked_total [session_len, status_len, payload_len])) (\<lambda>total_len.
        if length b \<noteq> total_len then
          Inl (''raw UDP tunnel response length mismatch: expected '' @ show_nat total_len @
            '', got '' @ show_nat (length b))
        else
        bind_result (client_read_utf8_field b raw_udp_header_bytes session_len ''session_id'')
          (\<lambda>(session_id, offset1).
        bind_result (client_read_utf8_field b offset1 status_len ''status'') (\<lambda>(status, offset2).
        bind_result (ok_or slice_panic (get_range offset2 (offset2 + payload_len) b)) (\<lambda>payload.
        Inr \<lparr>rr_status_code = b ! 6, rr_session_id = session_id, rr_status = status,
             rr_payload = payload\<rparr>))))))))"
proof (cases "length b < 20")
  case False
  then have "frame_byte 4 b = Inr (b ! 4)" "frame_byte 5 b = Inr (b ! 5)" "frame_byte 6 b = Inr (b ! 6)"
    "get_range 0 4 b = Some (take 4 b)"
    by (simp_all add: frame_byte_def get_range_def)
  then show ?thesis
    by (simp add: decode_raw_udp_tunnel_response_def cong del: prod.case_cong_weak if_weak_cong)
qed (simp add: decode_raw_udp_tunnel_response_def raw_udp_header_bytes_def)

section \<open>Reading a laid-out frame\<close>

text \<open>\<open>tunnel_frame\<close> is the common layout: the header fields, then the body.\<close>

definition tunnel_frame :: "byte list \<Rightarrow> nat \<Rightarrow> nat \<Rightarrow> nat \<Rightarrow> nat \<Rightarrow> nat \<Rightarrow> bytes \<Rightarrow> bytes" where
  "tunnel_frame kfr l1 l2 l3 l4 n body =
     raw_udp_tunnel_magic @ [raw_udp_tunnel_version] @ kfr @
     u16_be l1 @ u16_be l2 @ u16_be l3 @ u16_be l4 @ u32_be n @ body"

lemma get_range_middle:
  "length xs = a \<Longrightarrow> length xs + length ys = b \<Longrightarrow> get_range a b (xs @ ys @ zs) = Some ys"
  by (simp add: get_range_def)

lemma get_range_last: "length xs = a \<Longrightarrow> length xs + length ys = b \<Longrightarrow> get_range a b (xs @ ys) = Some ys"
  by (simp add: get_range_def)

lemma length_magic [simp]: "length raw_udp_tunnel_magic = 4"
  by (simp add: raw_udp_tunnel_magic_def)

lemma tunnel_frame_length [simp]:
  "length kfr = 3 \<Longrightarrow> length (tunnel_frame kfr l1 l2 l3 l4 n body) = 20 + length body"
  by (simp add: tunnel_frame_def)

lemma tunnel_frame_ranges:
  assumes "length kfr = 3"
  shows "take 4 (tunnel_frame kfr l1 l2 l3 l4 n body) = raw_udp_tunnel_magic"
    and "tunnel_frame kfr l1 l2 l3 l4 n body ! 4 = raw_udp_tunnel_version"
    and "tunnel_frame kfr l1 l2 l3 l4 n body ! 5 = kfr ! 0"
    and "tunnel_frame kfr l1 l2 l3 l4 n body ! 6 = kfr ! 1"
    and "get_range 8 10 (tunnel_frame kfr l1 l2 l3 l4 n body) = Some (u16_be l1)"
    and "get_range 10 12 (tunnel_frame kfr l1 l2 l3 l4 n body) = Some (u16_be l2)"
    and "get_range 12 14 (tunnel_frame kfr l1 l2 l3 l4 n body) = Some (u16_be l3)"
    and "get_range 14 16 (tunnel_frame kfr l1 l2 l3 l4 n body) = Some (u16_be l4)"
    and "get_range 16 20 (tunnel_frame kfr l1 l2 l3 l4 n body) = Some (u32_be n)"
proof -
  from assms obtain k f r where kfr: "kfr = [k, f, r]"
    by (auto simp: length_Suc_conv numeral_3_eq_3)
  note defs = tunnel_frame_def raw_udp_tunnel_magic_def u16_be_def u32_be_def kfr get_range_def
  show "take 4 (tunnel_frame kfr l1 l2 l3 l4 n body) = raw_udp_tunnel_magic"
    "tunnel_frame kfr l1 l2 l3 l4 n body ! 4 = raw_udp_tunnel_version"
    "tunnel_frame kfr l1 l2 l3 l4 n body ! 5 = kfr ! 0"
    "tunnel_frame kfr l1 l2 l3 l4 n body ! 6 = kfr ! 1"
    "get_range 8 10 (tunnel_frame kfr l1 l2 l3 l4 n body) = Some (u16_be l1)"
    "get_range 10 12 (tunnel_frame kfr l1 l2 l3 l4 n body) = Some (u16_be l2)"
    "get_range 12 14 (tunnel_frame kfr l1 l2 l3 l4 n body) = Some (u16_be l3)"
    "get_range 14 16 (tunnel_frame kfr l1 l2 l3 l4 n body) = Some (u16_be l4)"
    "get_range 16 20 (tunnel_frame kfr l1 l2 l3 l4 n body) = Some (u32_be n)"
    by (simp_all add: defs)
qed

lemma tunnel_frame_body:
  assumes "length kfr = 3" "20 + length pre = a" "a + length xs = b"
  shows "get_range a b (tunnel_frame kfr l1 l2 l3 l4 n (pre @ xs @ post)) = Some xs"
proof -
  let ?h = "raw_udp_tunnel_magic @ [raw_udp_tunnel_version] @ kfr @
     u16_be l1 @ u16_be l2 @ u16_be l3 @ u16_be l4 @ u32_be n @ pre"
  have "get_range a b (?h @ xs @ post) = Some xs"
    using assms by (intro get_range_middle) simp_all
  then show ?thesis by (simp add: tunnel_frame_def)
qed

lemma checked_total_small:
  "raw_udp_header_bytes + sum_list lens < 2 ^ 64 \<Longrightarrow>
   checked_total lens = Some (raw_udp_header_bytes + sum_list lens)"
proof (induction lens rule: rev_induct)
  case (snoc x xs)
  then show ?case by (simp add: checked_total_def checked_add_usize_def)
qed (simp add: checked_total_def)


lemma tunnel_frame_exists:
  assumes "20 \<le> length b" "take 4 b = raw_udp_tunnel_magic" "b ! 4 = raw_udp_tunnel_version"
    "b ! 5 = k"
  obtains f g l1 l2 l3 l4 n body where
    "b = tunnel_frame [k, f, g] l1 l2 l3 l4 n body"
    "l1 < 65536" "l2 < 65536" "l3 < 65536" "l4 < 65536" "n < 4294967296"
proof -
  let ?r = "\<lambda>a k. take k (drop a b)"
  have split: "b = take 4 b @ [b ! 4] @ [b ! 5, b ! 6, b ! 7] @
      ?r 8 2 @ ?r 10 2 @ ?r 12 2 @ ?r 14 2 @ ?r 16 4 @ drop 20 b" (is "b = ?w")
  proof (rule nth_equalityI)
    show "length b = length ?w" using assms(1) by simp
    fix i assume i: "i < length b"
    have "i < 20 \<Longrightarrow> i \<in> set [0..<20]" by simp
    then consider "20 \<le> i" | "i \<in> {0, 1, 2, 3, 4, 5, 6, 7, 8, 9, 10, 11, 12, 13, 14, 15, 16, 17, 18, 19}"
      by (cases "i < 20") (auto simp: upt_rec)
    then show "b ! i = ?w ! i"
    proof cases
      case 1
      then have "\<not> i - 16 < 4" "\<not> i - 14 < 2" "\<not> i - 12 < 2" "\<not> i - 10 < 2" "\<not> i - 8 < 2"
        by linarith+
      then show ?thesis using assms(1) i 1 by (simp add: nth_append nth_Cons')
    next
      case 2
      then show ?thesis using assms(1) by (auto simp: nth_append nth_Cons')
    qed
  qed
  have l: "length (?r a 2) = 2" if "a + 2 \<le> 20" for a using assms(1) that by simp
  have l4: "length (?r 16 4) = 4" using assms(1) by simp
  show ?thesis
  proof (rule that)
    show "b = tunnel_frame [k, b ! 6, b ! 7] (be_value (?r 8 2)) (be_value (?r 10 2))
       (be_value (?r 12 2)) (be_value (?r 14 2)) (be_value (?r 16 4)) (drop 20 b)"
      using split unfolding assms(2-4) tunnel_frame_def
      by (subst u16_be_be_value u32_be_be_value, use assms(1) in simp)+ simp
  qed (rule be_value_less2 be_value_less4; use assms(1) in simp)+
qed

text \<open>What each decoder does on a laid-out frame whose header is honest about the lengths.\<close>

lemmas node_read_defs = read_u16_def read_u32_def read_utf8_field_def
lemmas client_read_defs = client_read_u16_def client_read_u32_def client_read_utf8_field_def

definition utf8_or :: "string \<Rightarrow> bytes \<Rightarrow> (string, string) result" where
  "utf8_or e b = ok_or e (from_utf8 b)"

lemma utf8_or_Inr_iff [simp]: "utf8_or e b = Inr s \<longleftrightarrow> utf8_valid b \<and> s = b"
  by (simp add: utf8_or_def from_utf8_Some_iff)

lemma read_utf8_field_frame:
  assumes "length kfr = 3" "20 + length pre = a" "a + length xs < 2 ^ 64"
  shows "read_utf8_field (tunnel_frame kfr l1 l2 l3 l4 n (pre @ xs @ post)) a (length xs) field =
    bind_result (utf8_or (''raw UDP tunnel '' @ field @ '' must be UTF-8'') xs)
      (\<lambda>s. Inr (s, a + length xs))"
  using assms
  by (simp add: read_utf8_field_def checked_add_usize_def tunnel_frame_body utf8_or_def)

lemma client_read_utf8_field_frame:
  assumes "length kfr = 3" "20 + length pre = a" "a + length xs < 2 ^ 64"
  shows "client_read_utf8_field (tunnel_frame kfr l1 l2 l3 l4 n (pre @ xs @ post)) a (length xs) name =
    bind_result (utf8_or (''raw UDP tunnel response '' @ name @ '' is not UTF-8'') xs)
      (\<lambda>s. Inr (s, a + length xs))"
  using assms
  by (simp add: client_read_utf8_field_def checked_add_usize_def tunnel_frame_body utf8_or_def)


definition request_checks :: "string \<Rightarrow> string option \<Rightarrow> string \<Rightarrow> nat \<Rightarrow> bytes \<Rightarrow>
  (string, raw_udp_tunnel_request) result" where
  "request_checks sid tid host port body =
     (if trim sid = [] then Inl ''raw UDP tunnel session_id is required''
      else if trim host = [] then Inl ''raw UDP tunnel host is required''
      else if port = 0 then Inl ''raw UDP tunnel port is required''
      else Inr \<lparr>ru_session_id = sid, ru_target_id = tid, ru_host = host,
                ru_port = of_nat port, ru_payload = body\<rparr>)"

lemma parse_honest_frame:
  assumes "length sid < 65536" "length tid < 65536" "length host < 65536" "port < 65536"
    "length pay < 4294967296"
  shows "parse_raw_udp_tunnel_frame
      (tunnel_frame [raw_udp_kind_packet, f, g] (length sid) (length tid) (length host) port
        (length pay) (sid @ tid @ host @ pay)) =
    bind_result (utf8_or ''raw UDP tunnel session_id must be UTF-8'' sid) (\<lambda>sid.
    bind_result (if tid = [] then Inr None
      else bind_result (utf8_or ''raw UDP tunnel target_id must be UTF-8'' tid) (\<lambda>t. Inr (Some t)))
      (\<lambda>tid.
    bind_result (utf8_or ''raw UDP tunnel host must be UTF-8'' host) (\<lambda>host.
    request_checks sid tid host port pay)))"
proof -
  define F where "F = tunnel_frame [raw_udp_kind_packet, f, g] (length sid) (length tid) (length host)
    port (length pay) (sid @ tid @ host @ pay)"
  let ?a = "20 + length sid" let ?b = "?a + length tid" let ?c = "?b + length host"
  let ?e = "\<lambda>field. ''raw UDP tunnel '' @ field @ '' must be UTF-8''"
  note frame = tunnel_frame_ranges [of "[raw_udp_kind_packet, f, g]" "length sid" "length tid"
    "length host" port "length pay" "sid @ tid @ host @ pay", folded F_def, simplified]
  have len: "length F = ?c + length pay" by (simp add: F_def)
  have total: "checked_total [length sid, length tid, length host, length pay] = Some (?c + length pay)"
    using assms by (subst checked_total_small) (simp_all add: raw_udp_header_bytes_def)
  have s: "read_utf8_field F 20 (length sid) fl = bind_result (utf8_or (?e fl) sid) (\<lambda>s. Inr (s, ?a))" for fl
    using assms unfolding F_def by (subst read_utf8_field_frame [where pre = "[]", simplified]) simp_all
  have t: "read_utf8_field F ?a (length tid) fl = bind_result (utf8_or (?e fl) tid) (\<lambda>s. Inr (s, ?b))" for fl
    using assms unfolding F_def by (subst read_utf8_field_frame) simp_all
  have h: "read_utf8_field F ?b (length host) fl = bind_result (utf8_or (?e fl) host) (\<lambda>s. Inr (s, ?c))" for fl
    using assms unfolding F_def
    by (subst append_assoc [symmetric], subst read_utf8_field_frame) simp_all
  have p: "get_range ?c (?c + length pay) F = Some pay"
    using tunnel_frame_body [where kfr = "[raw_udp_kind_packet, f, g]" and pre = "sid @ tid @ host" and xs = pay
        and post = "[]"] by (simp add: F_def)
  note defs = len frame node_read_defs(1,2) be_value_u16 be_value_u32 request_checks_def
    raw_udp_header_bytes_def s bind_result_assoc
  show ?thesis
  proof (cases "tid = []")
    case True
    show ?thesis
      unfolding F_def [symmetric] parse_raw_udp_tunnel_frame_eq
      using assms True total [unfolded True, simplified] h [unfolded True, simplified]
        p [unfolded True, simplified]
      by (simp add: defs del: be_value.simps)
  next
    case False
    then show ?thesis
      unfolding F_def [symmetric] parse_raw_udp_tunnel_frame_eq
      using assms total t h p by (simp add: defs del: be_value.simps)
  qed
qed

lemma decode_honest_frame:
  assumes "length sid < 65536" "length status < 65536" "length pay < 4294967296"
  shows "decode_raw_udp_tunnel_response
      (tunnel_frame [raw_udp_kind_response, f, g] (length sid) (length status) l3 l4
        (length pay) (sid @ status @ pay)) =
    bind_result (utf8_or ''raw UDP tunnel response session_id is not UTF-8'' sid) (\<lambda>sid.
    bind_result (utf8_or ''raw UDP tunnel response status is not UTF-8'' status) (\<lambda>status.
    Inr \<lparr>rr_status_code = f, rr_session_id = sid, rr_status = status, rr_payload = pay\<rparr>))"
proof -
  define F where "F = tunnel_frame [raw_udp_kind_response, f, g] (length sid) (length status) l3 l4
    (length pay) (sid @ status @ pay)"
  let ?a = "20 + length sid" let ?b = "?a + length status"
  let ?e = "\<lambda>field. ''raw UDP tunnel response '' @ field @ '' is not UTF-8''"
  note frame = tunnel_frame_ranges [of "[raw_udp_kind_response, f, g]" "length sid" "length status"
    l3 l4 "length pay" "sid @ status @ pay", folded F_def, simplified]
  have len: "length F = ?b + length pay" by (simp add: F_def)
  have total: "checked_total [length sid, length status, length pay] = Some (?b + length pay)"
    using assms by (subst checked_total_small) (simp_all add: raw_udp_header_bytes_def)
  have s: "client_read_utf8_field F 20 (length sid) fl = bind_result (utf8_or (?e fl) sid) (\<lambda>s. Inr (s, ?a))" for fl
    using assms unfolding F_def by (subst client_read_utf8_field_frame [where pre = "[]", simplified]) simp_all
  have t: "client_read_utf8_field F ?a (length status) fl = bind_result (utf8_or (?e fl) status) (\<lambda>s. Inr (s, ?b))" for fl
    using assms unfolding F_def by (subst client_read_utf8_field_frame) simp_all
  have p: "get_range ?b (?b + length pay) F = Some pay"
    using tunnel_frame_body [where kfr = "[raw_udp_kind_response, f, g]" and pre = "sid @ status" and xs = pay
        and post = "[]"] by (simp add: F_def)
  show ?thesis
    unfolding F_def [symmetric] decode_raw_udp_tunnel_response_eq
    using assms
    by (simp add: len frame client_read_defs(1,2) be_value_u16 be_value_u32 total
        raw_udp_header_bytes_def s t p p [simplified] bind_result_assoc del: be_value.simps)
qed

lemma checked_total_Some:
  "checked_total lens = Some t \<Longrightarrow> t = raw_udp_header_bytes + sum_list lens"
proof (induction lens arbitrary: t rule: rev_induct)
  case (snoc x xs)
  then show ?case
    by (auto simp: checked_total_def checked_add_usize_def bind_eq_Some_conv split: if_splits)
qed (simp add: checked_total_def)

lemma split_lengths:
  assumes "length body = l1 + l2 + l3 + n"
  obtains a b c d where "body = a @ b @ c @ d" "length a = l1" "length b = l2" "length c = l3" "length d = n"
proof
  show "body = take l1 body @ take l2 (drop l1 body) @ take l3 (drop (l1 + l2) body) @
      drop (l1 + l2 + l3) body"
    by (metis append_take_drop_id drop_drop add.commute)
qed (use assms in simp_all)

lemma parse_Ok_honest:
  assumes "parse_raw_udp_tunnel_frame F = Inr r"
  obtains f g sid tid host port pay where
    "F = tunnel_frame [raw_udp_kind_packet, f, g] (length sid) (length tid) (length host) port
       (length pay) (sid @ tid @ host @ pay)"
    "length sid < 65536" "length tid < 65536" "length host < 65536" "port < 65536"
    "length pay < 4294967296"
proof -
  have hd: "20 \<le> length F" "take 4 F = raw_udp_tunnel_magic" "F ! 4 = raw_udp_tunnel_version"
    "F ! 5 = raw_udp_kind_packet"
    using assms by (auto simp: parse_raw_udp_tunnel_frame_eq raw_udp_header_bytes_def split: if_splits)
  obtain f g l1 l2 l3 l4 n body where
    F: "F = tunnel_frame [raw_udp_kind_packet, f, g] l1 l2 l3 l4 n body" and
    l: "l1 < 65536" "l2 < 65536" "l3 < 65536" "l4 < 65536" "n < 4294967296"
    by (rule tunnel_frame_exists [OF hd])
  note frame = tunnel_frame_ranges [of "[raw_udp_kind_packet, f, g]" l1 l2 l3 l4 n body, simplified, folded F]
  have "checked_total [l1, l2, l3, n] = Some (length F)"
    using assms hd l unfolding parse_raw_udp_tunnel_frame_eq
    by (simp add: frame node_read_defs(1,2) be_value_u16 be_value_u32 raw_udp_header_bytes_def
        del: be_value.simps split: if_splits)
  then have "length body = l1 + l2 + l3 + n"
    by (auto dest: checked_total_Some simp: raw_udp_header_bytes_def F)
  then obtain a b c d where "body = a @ b @ c @ d" "length a = l1" "length b = l2"
    "length c = l3" "length d = n"
    by (rule split_lengths)
  then show ?thesis
    using that [of f g a b c l4 d] F l by simp
qed

lemma decode_Ok_honest:
  assumes "decode_raw_udp_tunnel_response F = Inr r"
  obtains f g sid status l3 l4 pay where
    "F = tunnel_frame [raw_udp_kind_response, f, g] (length sid) (length status) l3 l4
       (length pay) (sid @ status @ pay)"
    "length sid < 65536" "length status < 65536" "length pay < 4294967296"
proof -
  have hd: "20 \<le> length F" "take 4 F = raw_udp_tunnel_magic" "F ! 4 = raw_udp_tunnel_version"
    "F ! 5 = raw_udp_kind_response"
    using assms by (auto simp: decode_raw_udp_tunnel_response_eq raw_udp_header_bytes_def split: if_splits)
  obtain f g l1 l2 l3 l4 n body where
    F: "F = tunnel_frame [raw_udp_kind_response, f, g] l1 l2 l3 l4 n body" and
    l: "l1 < 65536" "l2 < 65536" "n < 4294967296"
    by (rule tunnel_frame_exists [OF hd])
  note frame = tunnel_frame_ranges [of "[raw_udp_kind_response, f, g]" l1 l2 l3 l4 n body, simplified, folded F]
  have "checked_total [l1, l2, n] = Some (length F)"
    using assms hd l unfolding decode_raw_udp_tunnel_response_eq
    by (simp add: frame client_read_defs(1,2) be_value_u16 be_value_u32 raw_udp_header_bytes_def
        del: be_value.simps split: if_splits)
  then have "length body = l1 + 0 + l2 + n"
    by (auto dest: checked_total_Some simp: raw_udp_header_bytes_def F)
  then obtain a b c d where "body = a @ b @ c @ d" "length a = l1" "length b = 0"
    "length c = l2" "length d = n"
    by (rule split_lengths)
  then show ?thesis
    using that [of f g a c l3 l4 d] F l by simp
qed

section \<open>What a pair of encoder and decoder promises\<close>

text \<open>
  \<open>wf\<close> holds of the messages the encoder lays out; \<open>frame_size\<close> is the frame length of a message.
  The last law says that the header fixes the length.
\<close>

locale frame_codec =
  fixes wf :: "'a \<Rightarrow> bool"
    and enc :: "'a \<Rightarrow> (string, bytes) result"
    and dec :: "bytes \<Rightarrow> (string, 'a) result"
    and frame_size :: "'a \<Rightarrow> nat"
  assumes enc_total: "wf x \<Longrightarrow> \<exists>f. enc x = Inr f"
    and dec_enc: "wf x \<Longrightarrow> enc x = Inr f \<Longrightarrow> dec f = Inr x"
    and dec_length: "dec f = Inr x \<Longrightarrow> length f = frame_size x \<and> raw_udp_header_bytes \<le> frame_size x"
    and dec_header: "dec f = Inr x \<Longrightarrow> dec g = Inr y \<Longrightarrow>
      take raw_udp_header_bytes f = take raw_udp_header_bytes g \<Longrightarrow> frame_size x = frame_size y"
begin

lemma round_trip: "wf x \<Longrightarrow> \<exists>f. enc x = Inr f \<and> dec f = Inr x \<and> length f = frame_size x"
  using enc_total dec_enc dec_length by metis

lemma enc_inject: "wf x \<Longrightarrow> wf y \<Longrightarrow> enc x = enc y \<Longrightarrow> x = y"
  using enc_total dec_enc by (metis Inr_inject)

lemma prefix_free:
  assumes "dec f = Inr x" "dec (f @ rest) = Inr y"
  shows "rest = []"
proof -
  have "raw_udp_header_bytes \<le> length f" using dec_length assms(1) by simp
  then have "frame_size x = frame_size y" using dec_header [OF assms] by simp
  then show ?thesis using dec_length [OF assms(1)] dec_length [OF assms(2)] by simp
qed

lemma truncation: "wf x \<Longrightarrow> enc x = Inr f \<Longrightarrow> n < length f \<Longrightarrow> dec (take n f) \<noteq> Inr y"
  using prefix_free [of "take n f" y "drop n f" x] dec_enc by auto

end

section \<open>Both frames keep it\<close>

definition request_frame_ok :: "raw_udp_tunnel_request \<Rightarrow> bool" where
  "request_frame_ok r \<longleftrightarrow>
     utf8_valid (ru_session_id r) \<and> length (ru_session_id r) < 65536 \<and> trim (ru_session_id r) \<noteq> [] \<and>
     (case ru_target_id r of None \<Rightarrow> True | Some t \<Rightarrow> t \<noteq> [] \<and> utf8_valid t \<and> length t < 65536) \<and>
     utf8_valid (ru_host r) \<and> length (ru_host r) < 65536 \<and> trim (ru_host r) \<noteq> [] \<and>
     ru_port r \<noteq> 0 \<and> length (ru_payload r) < 4294967296"

definition request_encode :: "raw_udp_tunnel_request \<Rightarrow> (string, bytes) result" where
  "request_encode r = encode_raw_udp_tunnel_frame (ru_session_id r) (unwrap_or [] (ru_target_id r))
     (ru_host r) (ru_port r) (ru_payload r)"

definition request_size :: "raw_udp_tunnel_request \<Rightarrow> nat" where
  "request_size r = raw_udp_header_bytes + length (ru_session_id r) +
     length (unwrap_or [] (ru_target_id r)) + length (ru_host r) + length (ru_payload r)"

definition response_frame_ok :: "raw_udp_tunnel_response \<Rightarrow> bool" where
  "response_frame_ok r \<longleftrightarrow>
     utf8_valid (rr_session_id r) \<and> length (rr_session_id r) < 65536 \<and>
     utf8_valid (rr_status r) \<and> length (rr_status r) < 65536 \<and>
     length (rr_payload r) < 4294967296 \<and> rr_status_code r = raw_status_code (rr_status r)"

definition response_encode :: "raw_udp_tunnel_response \<Rightarrow> (string, bytes) result" where
  "response_encode r =
     Inr (encode_raw_udp_tunnel_response (rr_session_id r) (rr_status r) (rr_payload r))"

definition response_size :: "raw_udp_tunnel_response \<Rightarrow> nat" where
  "response_size r = raw_udp_header_bytes + length (rr_session_id r) + length (rr_status r) +
     length (rr_payload r)"

lemma get_range_take: "b \<le> m \<Longrightarrow> m \<le> length xs \<Longrightarrow> get_range a b (take m xs) = get_range a b xs"
  by (auto simp: get_range_def drop_take min_def)

lemma request_encode_frame:
  assumes "request_frame_ok r"
  shows "request_encode r = Inr (tunnel_frame [raw_udp_kind_packet, char_of (0::nat), char_of (0::nat)]
    (length (ru_session_id r)) (length (unwrap_or [] (ru_target_id r))) (length (ru_host r))
    (unat (ru_port r)) (length (ru_payload r))
    (ru_session_id r @ unwrap_or [] (ru_target_id r) @ ru_host r @ ru_payload r))"
  using assms
  by (auto simp: request_frame_ok_def request_encode_def encode_raw_udp_tunnel_frame_def
      tunnel_frame_def split: option.splits)

lemma parse_Ok_frame_ok:
  assumes "parse_raw_udp_tunnel_frame F = Inr r"
  shows "request_frame_ok r \<and> length F = request_size r"
proof -
  from parse_Ok_honest [OF assms] obtain f g sid tid host port pay where
    F: "F = tunnel_frame [raw_udp_kind_packet, f, g] (length sid) (length tid) (length host) port
       (length pay) (sid @ tid @ host @ pay)" and
    l: "length sid < 65536" "length tid < 65536" "length host < 65536" "port < 65536"
    "length pay < 4294967296" .
  have "(of_nat port :: u16) \<noteq> 0" if "port \<noteq> 0"
    using that l(4) by (simp add: word_of_nat_eq_0_iff dvd_imp_le nat_dvd_not_less)
  then show ?thesis
    using assms l unfolding F parse_honest_frame [OF l]
    by (auto simp: request_checks_def request_frame_ok_def request_size_def raw_udp_header_bytes_def
        split: if_splits)
qed

lemma decode_Ok_frame_ok:
  assumes "decode_raw_udp_tunnel_response F = Inr r"
  shows "length F = response_size r"
proof -
  from decode_Ok_honest [OF assms] obtain f g sid status l3 l4 pay where
    F: "F = tunnel_frame [raw_udp_kind_response, f, g] (length sid) (length status) l3 l4
       (length pay) (sid @ status @ pay)" and
    l: "length sid < 65536" "length status < 65536" "length pay < 4294967296" .
  then show ?thesis
    using assms unfolding F decode_honest_frame [OF l]
    by (auto simp: response_size_def raw_udp_header_bytes_def)
qed

lemma parse_Ok_header:
  assumes "parse_raw_udp_tunnel_frame F = Inr r"
  shows "\<exists>a b c d. get_range 8 10 F = Some a \<and> get_range 10 12 F = Some b \<and>
    get_range 12 14 F = Some c \<and> get_range 16 20 F = Some d \<and>
    length F = 20 + be_value a + be_value b + be_value c + be_value d"
proof -
  from parse_Ok_honest [OF assms] obtain f g sid tid host port pay where
    F: "F = tunnel_frame [raw_udp_kind_packet, f, g] (length sid) (length tid) (length host) port
       (length pay) (sid @ tid @ host @ pay)" and
    l: "length sid < 65536" "length tid < 65536" "length host < 65536" "port < 65536"
    "length pay < 4294967296" .
  then show ?thesis
    by (simp add: tunnel_frame_ranges be_value_u16 be_value_u32 del: be_value.simps)
qed

lemma decode_Ok_header:
  assumes "decode_raw_udp_tunnel_response F = Inr r"
  shows "\<exists>a b d. get_range 8 10 F = Some a \<and> get_range 10 12 F = Some b \<and>
    get_range 16 20 F = Some d \<and> length F = 20 + be_value a + be_value b + be_value d"
proof -
  from decode_Ok_honest [OF assms] obtain f g sid status l3 l4 pay where
    F: "F = tunnel_frame [raw_udp_kind_response, f, g] (length sid) (length status) l3 l4
       (length pay) (sid @ status @ pay)" and
    l: "length sid < 65536" "length status < 65536" "length pay < 4294967296" .
  then show ?thesis
    by (simp add: tunnel_frame_ranges be_value_u16 be_value_u32 del: be_value.simps)
qed

lemma parse_encode:
  assumes "request_frame_ok r" "request_encode r = Inr f"
  shows "parse_raw_udp_tunnel_frame f = Inr r"
proof -
  have "parse_raw_udp_tunnel_frame f =
    bind_result (utf8_or ''raw UDP tunnel session_id must be UTF-8'' (ru_session_id r)) (\<lambda>sid.
    bind_result (if unwrap_or [] (ru_target_id r) = [] then Inr None
      else bind_result (utf8_or ''raw UDP tunnel target_id must be UTF-8'' (unwrap_or [] (ru_target_id r)))
        (\<lambda>t. Inr (Some t)))
      (\<lambda>tid.
    bind_result (utf8_or ''raw UDP tunnel host must be UTF-8'' (ru_host r)) (\<lambda>host.
    request_checks sid tid host (unat (ru_port r)) (ru_payload r))))"
    using assms(1,2) unfolding request_encode_frame [OF assms(1)] sum.inject
    by (subst parse_honest_frame [symmetric])
      (auto simp: request_frame_ok_def unsigned_less [of "ru_port r", simplified] split: option.splits)
  then show ?thesis
    using assms(1) by (auto simp: request_frame_ok_def request_checks_def unat_eq_zero utf8_or_def
        from_utf8_def split: option.splits)
qed

lemma decode_encode:
  "response_frame_ok r \<Longrightarrow> response_encode r = Inr f \<Longrightarrow> decode_raw_udp_tunnel_response f = Inr r"
proof -
  assume ok: "response_frame_ok r" and f: "response_encode r = Inr f"
  have "f = tunnel_frame [raw_udp_kind_response, rr_status_code r, char_of (0::nat)]
    (length (rr_session_id r)) (length (rr_status r)) 0 0 (length (rr_payload r))
    (rr_session_id r @ rr_status r @ rr_payload r)"
    using f ok by (auto simp: response_encode_def encode_raw_udp_tunnel_response_def Let_def
        response_frame_ok_def tunnel_frame_def)
  then show ?thesis
    using ok by (simp add: response_frame_ok_def decode_honest_frame)
qed

lemma get_range_same_header:
  assumes "take 20 f = take 20 g" "20 \<le> length f" "20 \<le> length g" "b \<le> 20"
  shows "get_range a b f = get_range a b g"
  using assms get_range_take [of b 20 f a] get_range_take [of b 20 g a] by simp

interpretation request_codec:
  frame_codec request_frame_ok request_encode parse_raw_udp_tunnel_frame request_size
proof unfold_locales
  fix f g x y
  assume f: "parse_raw_udp_tunnel_frame f = Inr x" and g: "parse_raw_udp_tunnel_frame g = Inr y"
    and h: "take raw_udp_header_bytes f = take raw_udp_header_bytes g"
  have l: "length f = request_size x" "length g = request_size y"
    using parse_Ok_frame_ok f g by blast+
  then have "20 \<le> length f" "20 \<le> length g" by (simp_all add: request_size_def raw_udp_header_bytes_def)
  then have "get_range 8 10 f = get_range 8 10 g" "get_range 10 12 f = get_range 10 12 g"
    "get_range 12 14 f = get_range 12 14 g" "get_range 16 20 f = get_range 16 20 g"
    using h by (auto intro!: get_range_same_header simp: raw_udp_header_bytes_def)
  with parse_Ok_header [OF f] parse_Ok_header [OF g] have "length f = length g"
    by (metis option.inject)
  then show "request_size x = request_size y"
    by (simp only: l)
next
  fix f x
  show "request_frame_ok x \<Longrightarrow> \<exists>f. request_encode x = Inr f"
    using request_encode_frame by blast
  show "request_frame_ok x \<Longrightarrow> request_encode x = Inr f \<Longrightarrow> parse_raw_udp_tunnel_frame f = Inr x"
    by (rule parse_encode)
  show "parse_raw_udp_tunnel_frame f = Inr x \<Longrightarrow>
      length f = request_size x \<and> raw_udp_header_bytes \<le> request_size x"
    using parse_Ok_frame_ok by (simp add: request_size_def)
qed

interpretation response_codec:
  frame_codec response_frame_ok response_encode decode_raw_udp_tunnel_response response_size
proof unfold_locales
  fix f g x y
  assume f: "decode_raw_udp_tunnel_response f = Inr x" and g: "decode_raw_udp_tunnel_response g = Inr y"
    and h: "take raw_udp_header_bytes f = take raw_udp_header_bytes g"
  have l: "length f = response_size x" "length g = response_size y"
    using decode_Ok_frame_ok f g by blast+
  then have "20 \<le> length f" "20 \<le> length g" by (simp_all add: response_size_def raw_udp_header_bytes_def)
  then have "get_range 8 10 f = get_range 8 10 g" "get_range 10 12 f = get_range 10 12 g"
    "get_range 12 14 f = get_range 12 14 g" "get_range 16 20 f = get_range 16 20 g"
    using h by (auto intro!: get_range_same_header simp: raw_udp_header_bytes_def)
  with decode_Ok_header [OF f] decode_Ok_header [OF g] have "length f = length g"
    by (metis option.inject)
  then show "response_size x = response_size y"
    by (simp only: l)
next
  fix f x
  show "response_frame_ok x \<Longrightarrow> \<exists>f. response_encode x = Inr f"
    by (simp add: response_encode_def)
  show "response_frame_ok x \<Longrightarrow> response_encode x = Inr f \<Longrightarrow> decode_raw_udp_tunnel_response f = Inr x"
    by (rule decode_encode)
  show "decode_raw_udp_tunnel_response f = Inr x \<Longrightarrow>
      length f = response_size x \<and> raw_udp_header_bytes \<le> response_size x"
    using decode_Ok_frame_ok by (simp add: response_size_def)
qed

text \<open>What an accepted frame says, read off its bytes.\<close>

lemma get_range_SomeD: "get_range a b xs = Some y \<Longrightarrow> take (b - a) (drop a xs) = y"
  by (simp add: get_range_def split: if_splits)

lemma tunnel_frame_drop_header:
  "length kfr = 3 \<Longrightarrow> drop 20 (tunnel_frame kfr l1 l2 l3 l4 n body) = body"
  by (simp add: tunnel_frame_def)

lemma parse_Ok_reading:
  assumes r: "parse_raw_udp_tunnel_frame F = Inr r"
  shows "let n16 = \<lambda>a. be_value (take 2 (drop a F));
           s = n16 8; t = n16 10; h = n16 12; p = be_value (take 4 (drop 16 F))
       in take 4 F = ''XAU1'' \<and> F ! 4 = char_of (1::nat) \<and> F ! 5 = char_of (1::nat) \<and>
          length F = 20 + s + t + h + p \<and>
          ru_session_id r = take s (drop 20 F) \<and>
          ru_target_id r = (if t = 0 then None else Some (take t (drop (20 + s) F))) \<and>
          ru_host r = take h (drop (20 + s + t) F) \<and>
          ru_payload r = take p (drop (20 + s + t + h) F) \<and>
          unat (ru_port r) = n16 14"
proof -
  from parse_Ok_honest [OF r] obtain f g sid tid host port pay where
    F: "F = tunnel_frame [raw_udp_kind_packet, f, g] (length sid) (length tid) (length host) port
       (length pay) (sid @ tid @ host @ pay)" and
    l: "length sid < 65536" "length tid < 65536" "length host < 65536" "port < 65536"
    "length pay < 4294967296" .
  note frame = tunnel_frame_ranges [of "[raw_udp_kind_packet, f, g]" "length sid" "length tid"
    "length host" port "length pay" "sid @ tid @ host @ pay", folded F, simplified]
  note fields = frame(5-9) [THEN get_range_SomeD, simplified]
  have body: "drop 20 F = sid @ tid @ host @ pay"
    by (simp add: F tunnel_frame_drop_header)
  have drops: "drop (20 + k) F = drop k (drop 20 F)" for k by (simp add: add.commute)
  have len: "length F = 20 + (length sid + (length tid + (length host + length pay)))"
    by (simp add: F)
  have "r = \<lparr>ru_session_id = sid, ru_target_id = (if tid = [] then None else Some tid),
      ru_host = host, ru_port = of_nat port, ru_payload = pay\<rparr>"
    using r unfolding F parse_honest_frame [OF l]
    by (auto simp: request_checks_def split: if_splits)
  then show ?thesis
    using l
    by (simp add: Let_def fields frame(1-3) be_value_u16 be_value_u32 drops add.assoc body len
        raw_udp_tunnel_magic_def raw_udp_tunnel_version_def raw_udp_kind_packet_def
        unsigned_of_nat take_bit_eq_mod del: be_value.simps drop_drop)
qed

text \<open>The errors of the two decoders never are a slice panic.\<close>

lemma parse_no_panic:
  "parse_raw_udp_tunnel_frame F \<noteq> Inl slice_panic"
proof
  assume panic: "parse_raw_udp_tunnel_frame F = Inl slice_panic"
  have hd: "20 \<le> length F" "take 4 F = raw_udp_tunnel_magic" "F ! 4 = raw_udp_tunnel_version"
    "F ! 5 = raw_udp_kind_packet"
    using panic by (auto simp: parse_raw_udp_tunnel_frame_eq raw_udp_header_bytes_def slice_panic_def split: if_splits)
  obtain f g l1 l2 l3 l4 n body where
    F: "F = tunnel_frame [raw_udp_kind_packet, f, g] l1 l2 l3 l4 n body" and
    l: "l1 < 65536" "l2 < 65536" "l3 < 65536" "l4 < 65536" "n < 4294967296"
    using hd by (rule tunnel_frame_exists)
  note frame = tunnel_frame_ranges [of "[raw_udp_kind_packet, f, g]" l1 l2 l3 l4 n body, simplified, folded F]
  have "checked_total [l1, l2, l3, n] = Some (length F)"
    using panic hd l unfolding parse_raw_udp_tunnel_frame_eq
    by (cases "checked_total [l1, l2, l3, n]")
      (simp_all add: frame node_read_defs(1,2) be_value_u16 be_value_u32 raw_udp_header_bytes_def
        slice_panic_def del: be_value.simps split: if_splits)
  then have "length body = l1 + l2 + l3 + n"
    by (auto dest: checked_total_Some simp: raw_udp_header_bytes_def F)
  then obtain a b c d where body: "body = a @ b @ c @ d" "length a = l1" "length b = l2"
    "length c = l3" "length d = n"
    by (rule split_lengths)
  have "length a < 65536" "length b < 65536" "length c < 65536" "length d < 4294967296"
    using l body by simp_all
  note honest = parse_honest_frame [OF this(1-3) l(4) this(4), of f g]
  have "F = tunnel_frame [raw_udp_kind_packet, f, g] (length a) (length b) (length c) l4 (length d)
      (a @ b @ c @ d)"
    using F body by simp
  then show False
    using panic honest
    by (simp add: bind_result_Inl_iff utf8_or_def ok_or_def request_checks_def
        slice_panic_def split: option.splits if_splits)
qed

section \<open>Properties\<close>

lemma short_request_ok:
  "request_frame_ok \<lparr>ru_session_id = ''s'', ru_target_id = Some ''t'', ru_host = ''h'', ru_port = 53,
     ru_payload = ''q''\<rparr>"
proof -
  have "printable ''s''" "printable ''t''" "printable ''h''" by (simp_all add: code_of_def)
  then show ?thesis
    by (simp add: request_frame_ok_def utf8_valid_ascii printable_ascii)
qed

text \<open>
  C23. What the client lays out, the node reads: every well-formed request frame is encoded, and
  the node's parser returns the same session, target, host, port and payload.
\<close>

theorem request_frame_round_trip:
  assumes "request_frame_ok r"
  shows "\<exists>f. request_encode r = Inr f \<and> parse_raw_udp_tunnel_frame f = Inr r \<and>
    length f = request_size r"
  using assms by (rule request_codec.round_trip)

theorem request_frame_round_trip_witness:
  "\<exists>f. request_encode \<lparr>ru_session_id = ''s'', ru_target_id = Some ''t'', ru_host = ''h'',
      ru_port = 53, ru_payload = ''q''\<rparr> = Inr f \<and> length f = 24"
  using request_frame_round_trip [OF short_request_ok]
  by (auto simp: request_size_def raw_udp_header_bytes_def)

text \<open>
  Every response the node writes, whatever its status, session id and payload within the
  header's field widths, is read back by the client unchanged, the status code with it.
\<close>

theorem response_frame_round_trip:
  assumes "utf8_valid sid" "length sid < 65536" "utf8_valid status" "length status < 65536"
    "length payload < 4294967296"
  shows "decode_raw_udp_tunnel_response (encode_raw_udp_tunnel_response sid status payload) =
    Inr \<lparr>rr_status_code = raw_status_code status, rr_session_id = sid, rr_status = status,
         rr_payload = payload\<rparr>"
proof -
  let ?r = "\<lparr>rr_status_code = raw_status_code status, rr_session_id = sid, rr_status = status,
         rr_payload = payload\<rparr>"
  have "response_frame_ok ?r" using assms by (simp add: response_frame_ok_def)
  from response_codec.round_trip [OF this] show ?thesis by (auto simp: response_encode_def)
qed

theorem response_frame_round_trip_witness:
  "decode_raw_udp_tunnel_response (encode_raw_udp_tunnel_response ''s1'' ''relay_timeout'' ''x'') =
    Inr \<lparr>rr_status_code = raw_status_code ''relay_timeout'', rr_session_id = ''s1'',
         rr_status = ''relay_timeout'', rr_payload = ''x''\<rparr>"
proof -
  have "printable ''s1''" "printable ''relay_timeout''" by (simp_all add: code_of_def)
  then show ?thesis
    by (intro response_frame_round_trip) (simp_all add: utf8_valid_ascii printable_ascii)
qed

text \<open>
  The frames are self-delimiting: no request frame the node accepts is a proper prefix of
  another, and no truncation of a frame the client wrote is accepted.
\<close>

theorem request_frames_prefix_free:
  assumes "parse_raw_udp_tunnel_frame f = Inr x" "parse_raw_udp_tunnel_frame (f @ rest) = Inr y"
  shows "rest = [] \<and> x = y"
  using request_codec.prefix_free [OF assms] assms by simp

theorem request_frames_prefix_free_witness:
  "\<exists>f x. parse_raw_udp_tunnel_frame f = Inr x \<and> \<not> (\<exists>y. parse_raw_udp_tunnel_frame (f @ ''z'') = Inr y)"
proof -
  obtain f where f: "parse_raw_udp_tunnel_frame f = Inr \<lparr>ru_session_id = ''s'', ru_target_id = Some ''t'',
      ru_host = ''h'', ru_port = 53, ru_payload = ''q''\<rparr>"
    using request_codec.round_trip [OF short_request_ok] by blast
  have "\<not> (\<exists>y. parse_raw_udp_tunnel_frame (f @ ''z'') = Inr y)"
    using request_frames_prefix_free [OF f, of "''z''"] by blast
  with f show ?thesis by blast
qed

text \<open>
  C22. The node's parser is total on attacker-controlled bytes: for no datagram does it index
  outside the frame, although it slices the magic, reads the version and the kind byte and cuts
  the payload out by plain indexing. What it accepts carries the magic, version and packet kind,
  is of exactly the size its header announces, and the request is the header's reading of the
  bytes: the session id, target id, host and payload are the stretches the length fields at 8,
  10, 12 and 16 mark off in this order, the port is the number at 14, and every field passes the
  checks.
\<close>

theorem parser_never_panics:
  "parse_raw_udp_tunnel_frame F \<noteq> Inl slice_panic \<and>
   (\<forall>r. parse_raw_udp_tunnel_frame F = Inr r \<longrightarrow>
      (let n16 = \<lambda>a. be_value (take 2 (drop a F));
           s = n16 8; t = n16 10; h = n16 12; p = be_value (take 4 (drop 16 F))
       in take 4 F = ''XAU1'' \<and> F ! 4 = char_of (1::nat) \<and> F ! 5 = char_of (1::nat) \<and>
          length F = 20 + s + t + h + p \<and>
          ru_session_id r = take s (drop 20 F) \<and>
          ru_target_id r = (if t = 0 then None else Some (take t (drop (20 + s) F))) \<and>
          ru_host r = take h (drop (20 + s + t) F) \<and>
          ru_payload r = take p (drop (20 + s + t + h) F) \<and>
          unat (ru_port r) = n16 14) \<and>
      request_frame_ok r)"
proof (intro conjI allI impI)
  show "parse_raw_udp_tunnel_frame F \<noteq> Inl slice_panic" by (rule parse_no_panic)
  fix r assume r: "parse_raw_udp_tunnel_frame F = Inr r"
  then show "request_frame_ok r" using parse_Ok_frame_ok by blast
  show "let n16 = \<lambda>a. be_value (take 2 (drop a F));
           s = n16 8; t = n16 10; h = n16 12; p = be_value (take 4 (drop 16 F))
       in take 4 F = ''XAU1'' \<and> F ! 4 = char_of (1::nat) \<and> F ! 5 = char_of (1::nat) \<and>
          length F = 20 + s + t + h + p \<and>
          ru_session_id r = take s (drop 20 F) \<and>
          ru_target_id r = (if t = 0 then None else Some (take t (drop (20 + s) F))) \<and>
          ru_host r = take h (drop (20 + s + t) F) \<and>
          ru_payload r = take p (drop (20 + s + t + h) F) \<and>
          unat (ru_port r) = n16 14"
    using r by (rule parse_Ok_reading)
qed

theorem parser_never_panics_witness:
  "\<exists>f. parse_raw_udp_tunnel_frame f = Inr \<lparr>ru_session_id = ''s'', ru_target_id = Some ''t'',
      ru_host = ''h'', ru_port = 53, ru_payload = ''q''\<rparr> \<and> take 4 f = ''XAU1'' \<and>
     be_value (take 2 (drop 14 f)) = 53 \<and> parse_raw_udp_tunnel_frame ''XAU1'' \<noteq> Inl slice_panic"
proof -
  obtain f where f: "parse_raw_udp_tunnel_frame f = Inr \<lparr>ru_session_id = ''s'', ru_target_id = Some ''t'',
      ru_host = ''h'', ru_port = 53, ru_payload = ''q''\<rparr>"
    using request_codec.round_trip [OF short_request_ok] by blast
  have "take 4 f = ''XAU1'' \<and> be_value (take 2 (drop 14 f)) = unat (53 :: u16)"
    using parser_never_panics [of f] f
    by (simp only: Let_def sum.inject all_simps simp_thms raw_udp_tunnel_request.simps)
  moreover have "unat (53 :: u16) = 53" by simp
  moreover have "parse_raw_udp_tunnel_frame ''XAU1'' \<noteq> Inl slice_panic"
    using parser_never_panics [of "''XAU1''"] by blast
  ultimately show ?thesis using f by metis
qed

end
