(* ===== verification/Session_Target.thy ===== *)
theory Session_Target
  imports Auth Tunnel_Frame
begin

text \<open>
  \<open>node-core/src/session.rs\<close>, the messages of a client and the target side of a session: which
  message a payload is, which address a session's data goes to, and the relay of one payload
  over UDP or TCP. The JSON readers, the resolver and the sockets are parameters.
\<close>

section \<open>Messages\<close>

definition protocol_version :: string where "protocol_version = ''xaccel/1''"
definition default_relay_timeout_ms :: u64 where "default_relay_timeout_ms = 200"
definition max_relay_timeout_ms :: u64 where "max_relay_timeout_ms = 1000"
definition max_relay_response_bytes :: nat where "max_relay_response_bytes = 4096"

datatype transport_kind = Tcp | Udp | Quic

fun transport_as_str :: "transport_kind \<Rightarrow> string" where
  "transport_as_str Tcp = ''tcp''"
| "transport_as_str Udp = ''udp''"
| "transport_as_str Quic = ''quic''"

text \<open>The transports are finitely many, so a statement about all of them can be evaluated.\<close>

instantiation transport_kind :: enum
begin

definition enum_transport_kind :: "transport_kind list" where
  "enum_transport_kind = [Tcp, Udp, Quic]"

definition enum_all_transport_kind :: "(transport_kind \<Rightarrow> bool) \<Rightarrow> bool" where
  "enum_all_transport_kind p \<longleftrightarrow> p Tcp \<and> p Udp \<and> p Quic"

definition enum_ex_transport_kind :: "(transport_kind \<Rightarrow> bool) \<Rightarrow> bool" where
  "enum_ex_transport_kind p \<longleftrightarrow> p Tcp \<or> p Udp \<or> p Quic"

instance
proof
  have univ: "(UNIV :: transport_kind set) = {Tcp, Udp, Quic}"
    using transport_kind.exhaust by blast
  then show "UNIV = set (enum_class.enum :: transport_kind list)"
    by (simp add: enum_transport_kind_def)
  show "distinct (enum_class.enum :: transport_kind list)" by (simp add: enum_transport_kind_def)
  show "enum_class.enum_all p \<longleftrightarrow> Ball UNIV p" "enum_class.enum_ex p \<longleftrightarrow> Bex UNIV p"
    for p :: "transport_kind \<Rightarrow> bool"
    unfolding univ by (simp_all add: enum_all_transport_kind_def enum_ex_transport_kind_def)
qed

end

lemma transport_as_str_inject: "\<forall>a b. transport_as_str a = transport_as_str b \<longrightarrow> a = b"
  by code_simp

record client_session_data_request =
  dq_session_id :: "string option"
  dq_client_nonce :: "string option"
  dq_payload :: "string option"
  dq_target_addr :: "string option"
  dq_target_host :: "string option"
  dq_target_port :: "u16 option"
  dq_target_protocol :: "string option"
  dq_target :: "session_data_target option"
  dq_response_timeout_ms :: "u64 option"

datatype parsed_client_message =
    LegacyPing
  | Probe client_probe_request
  | SessionData client_session_data_request
  | RawUdpTunnel raw_udp_tunnel_request
  | Invalid string

record message_header =
  mh_message_type :: "string option"
  mh_protocol :: "string option"

text \<open>\<open>serde_json::from_str\<close> at each type it is used at.\<close>

record json_readers =
  header_of_json :: "string \<Rightarrow> message_header option"
  probe_of_json :: "string \<Rightarrow> client_probe_request option"
  data_of_json :: "string \<Rightarrow> client_session_data_request option"
  claims_of_json :: "bytes \<Rightarrow> client_token_claims option"

definition parse_client_message :: "json_readers \<Rightarrow> bytes \<Rightarrow> parsed_client_message" where
  "parse_client_message js payload =
     (if starts_with payload raw_udp_tunnel_magic then
        (case parse_raw_udp_tunnel_frame payload of
           Inr request \<Rightarrow> RawUdpTunnel request
         | Inl message \<Rightarrow> Invalid message)
      else (case from_utf8 payload of
        None \<Rightarrow> Invalid ''payload must be UTF-8''
      | Some text \<Rightarrow>
          (let trimmed = trim text
           in if trimmed = [] \<or> eq_ignore_ascii_case trimmed ''ping'' then LegacyPing
              else (case header_of_json js trimmed of
                None \<Rightarrow> Invalid ''expected JSON request''
              | Some header \<Rightarrow>
                  if \<not> is_some_and (\<lambda>p. p = protocol_version) (mh_protocol header) then
                    Invalid (''protocol must be '' @ protocol_version)
                  else (case mh_message_type header of
                      None \<Rightarrow> Invalid ''type is required''
                    | Some ty \<Rightarrow>
                        if ty = ''probe'' then
                          (case probe_of_json js trimmed of
                             Some request \<Rightarrow> Probe request
                           | None \<Rightarrow> Invalid ''invalid probe request'')
                        else if ty = ''session.data'' then
                          (case data_of_json js trimmed of
                             Some request \<Rightarrow> SessionData request
                           | None \<Rightarrow> Invalid ''invalid session.data request'')
                        else Invalid ''type must be probe or session.data'')))))"

section \<open>Targets\<close>

datatype relay_protocol = RelayUdp | RelayTcp

text \<open>A \<open>TargetResolveError\<close> is its code and its message.\<close>

definition parse_relay_protocol :: "string \<Rightarrow> (code_message, relay_protocol) result" where
  "parse_relay_protocol value =
     (let v = to_ascii_lowercase (trim value)
      in if v = ''udp'' then Inr RelayUdp
         else if v = ''tcp'' then Inr RelayTcp
         else Inl (''target_protocol_unsupported'', ''target protocol must be udp or tcp''))"

fun relay_protocol_as_str :: "relay_protocol \<Rightarrow> string" where
  "relay_protocol_as_str RelayUdp = ''udp''"
| "relay_protocol_as_str RelayTcp = ''tcp''"

fun relay_mode :: "relay_protocol \<Rightarrow> string" where
  "relay_mode RelayUdp = ''udp_target''"
| "relay_mode RelayTcp = ''tcp_target''"

record resolved_target =
  rv_protocol :: relay_protocol
  rv_socket_addr :: socket_addr
  rv_policy_match :: "target_match option"

definition has_session_target :: "client_session_data_request \<Rightarrow> bool" where
  "has_session_target request \<longleftrightarrow>
     dq_target request \<noteq> None
     \<or> is_some_and (\<lambda>t. trim t \<noteq> []) (dq_target_addr request)
     \<or> is_some_and (\<lambda>t. trim t \<noteq> []) (dq_target_host request)"

text \<open>\<open>tokio::net::lookup_host\<close> gives the addresses an endpoint resolves to.\<close>

type_synonym resolver = "string \<Rightarrow> (string, socket_addr list) result"

definition resolve_socket_addr :: "resolver \<Rightarrow> string \<Rightarrow> (code_message, socket_addr) result" where
  "resolve_socket_addr lookup_host endpoint =
     bind_result (map_err (\<lambda>e. (''invalid_target'', ''invalid target endpoint: '' @ e))
       (lookup_host endpoint)) (\<lambda>resolved.
     (case resolved of
        [] \<Rightarrow> Inl (''invalid_target'', ''target endpoint did not resolve'')
      | a # _ \<Rightarrow> Inr a))"

definition host_port_endpoint :: "string \<Rightarrow> u16 \<Rightarrow> string" where
  "host_port_endpoint host port =
     (case parse_ip_addr host of
        Some (V6 _) \<Rightarrow> ''['' @ host @ '']:'' @ show_u16 port
      | _ \<Rightarrow> host @ '':'' @ show_u16 port)"

definition resolve_host_port :: "resolver \<Rightarrow> string \<Rightarrow> u16 \<Rightarrow> (code_message, socket_addr) result" where
  "resolve_host_port lookup_host host port =
     resolve_socket_addr lookup_host (host_port_endpoint host port)"

definition nonempty_trimmed :: "string option \<Rightarrow> string option" where
  "nonempty_trimmed x = filter_option (\<lambda>s. s \<noteq> []) (map_option trim x)"

definition plain_target ::
  "relay_protocol \<Rightarrow> (code_message, socket_addr) result \<Rightarrow> (code_message, resolved_target option) result"
where
  "plain_target p r = bind_result r (\<lambda>a.
     Inr (Some \<lparr>rv_protocol = p, rv_socket_addr = a, rv_policy_match = None\<rparr>))"

definition resolve_session_target ::
  "resolver \<Rightarrow> client_session_data_request \<Rightarrow> string option \<Rightarrow> route_policy option \<Rightarrow>
   (code_message, resolved_target option) result"
where
  "resolve_session_target lookup_host request session_target_addr policy_opt =
     (case policy_opt of
        Some policy \<Rightarrow>
          (case dq_target request of
             None \<Rightarrow> Inl (''missing_target'', ''target is required for dynamic route_policy sessions'')
           | Some target \<Rightarrow>
               bind_result (parse_relay_protocol
                 (unwrap_or ''udp'' (or_option (sd_protocol target) (default_protocol policy))))
                 (\<lambda>protocol.
               bind_result (map_err (\<lambda>code. (code, ''target does not match route_policy''))
                 (match_route_policy_target policy target)) (\<lambda>policy_match.
               bind_result (resolve_host_port lookup_host (sd_host target) (sd_port target)) (\<lambda>a.
               Inr (Some \<lparr>rv_protocol = protocol, rv_socket_addr = a,
                          rv_policy_match = Some policy_match\<rparr>)))))
      | None \<Rightarrow>
          bind_result (parse_relay_protocol (unwrap_or ''udp'' (dq_target_protocol request)))
            (\<lambda>protocol.
          (case nonempty_trimmed session_target_addr of
             Some addr \<Rightarrow> plain_target protocol (resolve_socket_addr lookup_host addr)
           | None \<Rightarrow>
          (case nonempty_trimmed (dq_target_addr request) of
             Some addr \<Rightarrow> plain_target protocol (resolve_socket_addr lookup_host addr)
           | None \<Rightarrow>
          (case nonempty_trimmed (dq_target_host request) of
             None \<Rightarrow> Inr None
           | Some host \<Rightarrow>
               (case dq_target_port request of
                  None \<Rightarrow> Inl (''missing_target_port'',
                            ''target_port is required when target_host is provided'')
                | Some port \<Rightarrow>
                    plain_target protocol
                      (resolve_host_port lookup_host host port)))))))"

definition clamp_relay_timeout :: "u64 option \<Rightarrow> u64" where
  "clamp_relay_timeout timeout_ms =
     (let t = unwrap_or default_relay_timeout_ms timeout_ms
      in if t < 1 then 1 else if max_relay_timeout_ms < t then max_relay_timeout_ms else t)"

section \<open>The relay of one payload\<close>

text \<open>
  An awaited operation under \<open>tokio::time::timeout\<close> is over in time or has elapsed. The sockets
  are what the operating system does for one relay; a received datagram is written into a
  buffer of \<open>max_relay_response_bytes\<close> bytes, so the rest of a longer one is lost.
\<close>

datatype 'a timed = Elapsed | Within 'a

record sockets =
  udp_bind :: "string \<Rightarrow> (string, unit) result"
  udp_connect :: "socket_addr \<Rightarrow> (string, unit) result"
  udp_send :: "socket_addr \<Rightarrow> bytes \<Rightarrow> (string, nat) result"
  udp_recv :: "socket_addr \<Rightarrow> u64 \<Rightarrow> (string, bytes) result timed"
  tcp_connect :: "socket_addr \<Rightarrow> u64 \<Rightarrow> (string, unit) result timed"
  tcp_write_all :: "socket_addr \<Rightarrow> u64 \<Rightarrow> bytes \<Rightarrow> (string, unit) result timed"
  tcp_read :: "socket_addr \<Rightarrow> u64 \<Rightarrow> (string, bytes) result timed"

record relay_outcome =
  ro_payload :: bytes
  ro_upstream_tx_bytes :: u64
  ro_timed_out :: bool

definition read_into_buffer :: "u64 \<Rightarrow> (string, bytes) result timed \<Rightarrow> (string, relay_outcome) result" where
  "read_into_buffer sent r =
     (case r of
        Within (Inr b) \<Rightarrow> Inr \<lparr>ro_payload = take max_relay_response_bytes b,
                              ro_upstream_tx_bytes = sent, ro_timed_out = False\<rparr>
      | Within (Inl e) \<Rightarrow> Inl e
      | Elapsed \<Rightarrow> Inr \<lparr>ro_payload = [], ro_upstream_tx_bytes = sent, ro_timed_out = True\<rparr>)"

definition relay_udp_payload ::
  "sockets \<Rightarrow> socket_addr \<Rightarrow> bytes \<Rightarrow> u64 \<Rightarrow> (string, relay_outcome) result"
where
  "relay_udp_payload net target payload timeout_ms =
     bind_result (udp_bind net (if is_ipv6 target then ''[::]:0'' else ''0.0.0.0:0'')) (\<lambda>_.
     bind_result (udp_connect net target) (\<lambda>_.
     bind_result (udp_send net target payload) (\<lambda>sent.
     read_into_buffer (of_nat sent) (udp_recv net target timeout_ms))))"

definition within :: "string \<Rightarrow> (string, 'a) result timed \<Rightarrow> (string, 'a) result" where
  "within late r = (case r of Elapsed \<Rightarrow> Inl late | Within x \<Rightarrow> x)"

text \<open>\<open>shutdown\<close> of the write half is awaited and its result dropped.\<close>

definition relay_tcp_payload ::
  "sockets \<Rightarrow> socket_addr \<Rightarrow> bytes \<Rightarrow> u64 \<Rightarrow> (string, relay_outcome) result"
where
  "relay_tcp_payload net target payload timeout_ms =
     bind_result (within ''tcp connect timed out'' (tcp_connect net target timeout_ms)) (\<lambda>_.
     bind_result (within ''tcp write timed out'' (tcp_write_all net target timeout_ms payload)) (\<lambda>_.
     read_into_buffer (of_nat (length payload)) (tcp_read net target timeout_ms)))"

definition relay_payload ::
  "relay_protocol \<Rightarrow> sockets \<Rightarrow> socket_addr \<Rightarrow> bytes \<Rightarrow> u64 \<Rightarrow> (string, relay_outcome) result"
where
  "relay_payload p net target payload timeout_ms =
     (case p of
        RelayUdp \<Rightarrow> map_err (\<lambda>e. ''udp relay failed: '' @ e) (relay_udp_payload net target payload timeout_ms)
      | RelayTcp \<Rightarrow> map_err (\<lambda>e. ''tcp relay failed: '' @ e) (relay_tcp_payload net target payload timeout_ms))"

section \<open>Where a session's data goes\<close>

lemma nonempty_trimmed_Some: "nonempty_trimmed x = Some t \<Longrightarrow> \<exists>s. x = Some s \<and> t = trim s \<and> t \<noteq> []"
  by (cases x) (auto simp: nonempty_trimmed_def split: if_splits)

lemma resolve_socket_addr_Inr:
  "resolve_socket_addr lookup e = Inr a \<longleftrightarrow> (\<exists>as. lookup e = Inr (a # as))"
proof (cases "lookup e")
  case (Inr as)
  then show ?thesis by (cases as) (auto simp: resolve_socket_addr_def)
qed (simp add: resolve_socket_addr_def)

lemma parse_relay_protocol_Inr:
  "parse_relay_protocol v = Inr p \<longleftrightarrow> to_ascii_lowercase (trim v) = relay_protocol_as_str p"
  by (cases p) (auto simp: parse_relay_protocol_def Let_def)

text \<open>
  The protocol the policy is asked about is not trimmed and the one that is relayed is, but a
  policy only matches \<open>udp\<close> and \<open>tcp\<close>, so they agree.
\<close>

lemma parse_lowercase_protocol:
  assumes "to_ascii_lowercase v = relay_protocol_as_str p"
  shows "parse_relay_protocol v = Inr p"
proof -
  have "trim (relay_protocol_as_str p) = relay_protocol_as_str p"
    by (cases p) (simp_all, code_simp+)
  then have "to_ascii_lowercase (trim v) = relay_protocol_as_str p"
    using assms by (simp flip: trim_to_ascii_lowercase)
  then show ?thesis by (simp add: parse_relay_protocol_Inr)
qed

lemma target_protocol_or_option:
  "target_protocol policy target =
     to_ascii_lowercase (unwrap_or ''udp'' (or_option (sd_protocol target) (default_protocol policy)))"
  by (cases "sd_protocol target"; cases "default_protocol policy") (simp_all add: target_protocol_def)

lemma policy_protocol:
  assumes "policy_allows policy target"
    and "parse_relay_protocol (unwrap_or ''udp'' (or_option (sd_protocol target) (default_protocol policy))) =
      Inr p"
  shows "relay_protocol_as_str p = target_protocol policy target"
proof -
  let ?v = "unwrap_or ''udp'' (or_option (sd_protocol target) (default_protocol policy))"
  have "target_protocol policy target = relay_protocol_as_str RelayUdp \<or>
      target_protocol policy target = relay_protocol_as_str RelayTcp"
    using assms(1) by (auto simp: policy_allows_def)
  then have "\<exists>q. target_protocol policy target = relay_protocol_as_str q" by blast
  then obtain q where q: "target_protocol policy target = relay_protocol_as_str q" ..
  then have "parse_relay_protocol ?v = Inr q"
    by (intro parse_lowercase_protocol) (simp add: target_protocol_or_option)
  then show ?thesis using assms(2) q by simp
qed

lemma resolve_policy_session:
  assumes "resolve_session_target lookup request bound (Some policy) = Inr t"
  obtains target m a as p where
    "dq_target request = Some target" "policy_allows policy target"
    "match_route_policy_target policy target = Inr m"
    "lookup (host_port_endpoint (sd_host target) (sd_port target)) = Inr (a # as)"
    "relay_protocol_as_str p = target_protocol policy target"
    "t = Some \<lparr>rv_protocol = p, rv_socket_addr = a, rv_policy_match = Some m\<rparr>"
proof -
  from assms obtain target where target: "dq_target request = Some target"
    by (auto simp: resolve_session_target_def split: option.splits)
  with assms obtain p m a where
    p: "parse_relay_protocol (unwrap_or ''udp'' (or_option (sd_protocol target) (default_protocol policy))) = Inr p"
    and m: "match_route_policy_target policy target = Inr m"
    and a: "resolve_host_port lookup (sd_host target) (sd_port target) = Inr a"
    and t: "t = Some \<lparr>rv_protocol = p, rv_socket_addr = a, rv_policy_match = Some m\<rparr>"
    by (auto simp: resolve_session_target_def)
  from a obtain as where "lookup (host_port_endpoint (sd_host target) (sd_port target)) = Inr (a # as)"
    by (auto simp: resolve_host_port_def resolve_socket_addr_Inr)
  moreover have "policy_allows policy target" using m match_ok_allows by blast
  ultimately show ?thesis using that target m p t policy_protocol by blast
qed

lemma resolve_bound_session:
  assumes "resolve_session_target lookup request bound None = Inr t" "nonempty_trimmed bound = Some addr"
  obtains a as p where "lookup addr = Inr (a # as)"
    "parse_relay_protocol (unwrap_or ''udp'' (dq_target_protocol request)) = Inr p"
    "t = Some \<lparr>rv_protocol = p, rv_socket_addr = a, rv_policy_match = None\<rparr>"
  using assms by (auto simp: resolve_session_target_def plain_target_def resolve_socket_addr_Inr)

lemma resolve_no_target:
  assumes "resolve_session_target lookup request bound policy = Inr None"
  shows "policy = None \<and> nonempty_trimmed bound = None \<and>
    nonempty_trimmed (dq_target_addr request) = None \<and> nonempty_trimmed (dq_target_host request) = None"
  using assms by (auto simp: resolve_session_target_def plain_target_def Let_def split: option.splits)

lemma has_session_target_iff:
  "has_session_target request \<longleftrightarrow> dq_target request \<noteq> None \<or>
     nonempty_trimmed (dq_target_addr request) \<noteq> None \<or> nonempty_trimmed (dq_target_host request) \<noteq> None"
  by (cases "dq_target_addr request"; cases "dq_target_host request")
    (auto simp: has_session_target_def nonempty_trimmed_def)

section \<open>What a relay returns\<close>

lemma u64_ge_one: "(x :: u64) \<noteq> 0 \<Longrightarrow> 1 \<le> x"
  by (simp add: word_le_nat_alt Suc_le_eq unat_gt_0)

lemma clamp_bounds_aux:
  "1 \<le> clamp_relay_timeout t \<and> clamp_relay_timeout t \<le> 1000"
  by (auto simp: clamp_relay_timeout_def Let_def max_relay_timeout_ms_def intro: u64_ge_one)

text \<open>The clamp over the natural numbers.\<close>

lemma unat_clamp_relay_timeout:
  "unat (clamp_relay_timeout t) = (case t of None \<Rightarrow> 200 | Some ms \<Rightarrow> max 1 (min 1000 (unat ms)))"
proof (cases t)
  case (Some ms)
  have "ms < 1 \<longleftrightarrow> unat ms = 0" by (simp add: word_less_nat_alt)
  moreover have "1000 < ms \<longleftrightarrow> 1000 < unat ms" by (simp add: word_less_nat_alt)
  ultimately show ?thesis
    using Some by (simp add: clamp_relay_timeout_def Let_def max_relay_timeout_ms_def)
qed (simp add: clamp_relay_timeout_def Let_def default_relay_timeout_ms_def max_relay_timeout_ms_def)

text \<open>What the socket the relay reads from answered, and what becomes of it.\<close>

definition upstream_answer ::
  "relay_protocol \<Rightarrow> sockets \<Rightarrow> socket_addr \<Rightarrow> u64 \<Rightarrow> (string, bytes) result timed"
where
  "upstream_answer p net a ms = (case p of RelayUdp \<Rightarrow> udp_recv net a ms | RelayTcp \<Rightarrow> tcp_read net a ms)"

lemma relay_payload_answer:
  assumes "relay_payload p net a payload ms = Inr answer"
  shows "(ro_timed_out answer \<and> ro_payload answer = [] \<and> upstream_answer p net a ms = Elapsed) \<or>
    (\<not> ro_timed_out answer \<and>
     (\<exists>b. upstream_answer p net a ms = Within (Inr b) \<and> ro_payload answer = take 4096 b))"
proof -
  have buffer: "(ro_timed_out answer \<and> ro_payload answer = [] \<and> r = Elapsed) \<or>
      (\<not> ro_timed_out answer \<and> (\<exists>b. r = Within (Inr b) \<and> ro_payload answer = take 4096 b))"
    if "read_into_buffer sent r = Inr answer" for sent r
    using that by (auto simp: read_into_buffer_def max_relay_response_bytes_def split: timed.splits sum.splits)
  show ?thesis
    using assms
    by (cases p)
      (auto simp: relay_payload_def relay_udp_payload_def relay_tcp_payload_def upstream_answer_def
        dest!: buffer)
qed

end
