(* ===== verification/Runtime_Stats.thy ===== *)
theory Runtime_Stats
  imports Session_Store
begin

text \<open>
  The counters of \<open>node-core/src/state.rs\<close> (\<open>RuntimeStats\<close>), every operation on them and the
  three snapshots the health endpoint reports. The atomics are 64-bit words: \<open>fetch_add\<close>
  wraps around. Each \<open>record_\<close> function is one step, since its updates are independent.
\<close>

record runtime_stats =
  udp_listening :: bool
  tcp_listening :: bool
  udp_rx_packets :: u64
  udp_rx_bytes :: u64
  udp_tx_packets :: u64
  udp_tx_bytes :: u64
  tcp_accepted :: u64
  tcp_active :: u64
  tcp_rx_bytes :: u64
  tcp_tx_bytes :: u64
  probe_sequence :: u64
  probe_sessions_total :: u64
  probe_rejected :: u64
  auth_missing :: u64
  auth_ok :: u64
  auth_failed :: u64
  udp_session_rx_packets :: u64
  udp_session_rx_bytes :: u64
  udp_session_tx_packets :: u64
  udp_session_tx_bytes :: u64
  udp_session_miss :: u64
  udp_session_expired :: u64
  udp_relay_tx_packets :: u64
  udp_relay_tx_bytes :: u64
  udp_relay_rx_packets :: u64
  udp_relay_rx_bytes :: u64
  udp_relay_timeout :: u64
  udp_relay_error :: u64
  last_probe_session_id :: "string option mutex"
  control_last_success_at :: u64
  control_last_failure_at :: u64
  control_last_http_status :: u64
  control_report_ok :: u64
  control_report_failed :: u64
  control_last_error :: "string option mutex"
  handshake_last_success_at :: u64
  handshake_last_failure_at :: u64
  handshake_last_http_status :: u64
  handshake_ok :: u64
  handshake_failed :: u64
  handshake_last_error :: "string option mutex"
  config_last_success_at :: u64
  config_last_failure_at :: u64
  config_last_http_status :: u64
  config_ok :: u64
  config_failed :: u64
  config_last_error :: "string option mutex"

definition default_stats :: runtime_stats where
  "default_stats = \<lparr>
     udp_listening = False,
     tcp_listening = False,
     udp_rx_packets = 0,
     udp_rx_bytes = 0,
     udp_tx_packets = 0,
     udp_tx_bytes = 0,
     tcp_accepted = 0,
     tcp_active = 0,
     tcp_rx_bytes = 0,
     tcp_tx_bytes = 0,
     probe_sequence = 0,
     probe_sessions_total = 0,
     probe_rejected = 0,
     auth_missing = 0,
     auth_ok = 0,
     auth_failed = 0,
     udp_session_rx_packets = 0,
     udp_session_rx_bytes = 0,
     udp_session_tx_packets = 0,
     udp_session_tx_bytes = 0,
     udp_session_miss = 0,
     udp_session_expired = 0,
     udp_relay_tx_packets = 0,
     udp_relay_tx_bytes = 0,
     udp_relay_rx_packets = 0,
     udp_relay_rx_bytes = 0,
     udp_relay_timeout = 0,
     udp_relay_error = 0,
     last_probe_session_id = Healthy None,
     control_last_success_at = 0,
     control_last_failure_at = 0,
     control_last_http_status = 0,
     control_report_ok = 0,
     control_report_failed = 0,
     control_last_error = Healthy None,
     handshake_last_success_at = 0,
     handshake_last_failure_at = 0,
     handshake_last_http_status = 0,
     handshake_ok = 0,
     handshake_failed = 0,
     handshake_last_error = Healthy None,
     config_last_success_at = 0,
     config_last_failure_at = 0,
     config_last_http_status = 0,
     config_ok = 0,
     config_failed = 0,
     config_last_error = Healthy None\<rparr>"

section \<open>Operations\<close>

definition set_udp_listening :: "bool \<Rightarrow> runtime_stats \<Rightarrow> runtime_stats" where
  "set_udp_listening value st = st\<lparr>udp_listening := value\<rparr>"

definition set_tcp_listening :: "bool \<Rightarrow> runtime_stats \<Rightarrow> runtime_stats" where
  "set_tcp_listening value st = st\<lparr>tcp_listening := value\<rparr>"

definition record_udp_rx :: "u64 \<Rightarrow> runtime_stats \<Rightarrow> runtime_stats" where
  "record_udp_rx n st =
     st\<lparr>udp_rx_packets := udp_rx_packets st + 1, udp_rx_bytes := udp_rx_bytes st + n\<rparr>"

definition record_udp_tx :: "u64 \<Rightarrow> runtime_stats \<Rightarrow> runtime_stats" where
  "record_udp_tx n st =
     st\<lparr>udp_tx_packets := udp_tx_packets st + 1, udp_tx_bytes := udp_tx_bytes st + n\<rparr>"

definition record_tcp_accept :: "runtime_stats \<Rightarrow> runtime_stats" where
  "record_tcp_accept st = st\<lparr>tcp_accepted := tcp_accepted st + 1\<rparr>"

definition record_tcp_open :: "runtime_stats \<Rightarrow> runtime_stats" where
  "record_tcp_open st = st\<lparr>tcp_active := tcp_active st + 1\<rparr>"

definition record_tcp_close :: "runtime_stats \<Rightarrow> runtime_stats" where
  "record_tcp_close st = st\<lparr>tcp_active := tcp_active st - 1\<rparr>"

definition record_tcp_rx :: "u64 \<Rightarrow> runtime_stats \<Rightarrow> runtime_stats" where
  "record_tcp_rx n st = st\<lparr>tcp_rx_bytes := tcp_rx_bytes st + n\<rparr>"

definition record_tcp_tx :: "u64 \<Rightarrow> runtime_stats \<Rightarrow> runtime_stats" where
  "record_tcp_tx n st = st\<lparr>tcp_tx_bytes := tcp_tx_bytes st + n\<rparr>"

text \<open>\<open>fetch_add\<close> returns the old value; the code adds one to it.\<close>

definition next_probe_sequence :: "runtime_stats \<Rightarrow> u64 \<times> runtime_stats" where
  "next_probe_sequence st =
     (probe_sequence st + 1, st\<lparr>probe_sequence := probe_sequence st + 1\<rparr>)"

definition record_probe_session :: "string \<Rightarrow> runtime_stats \<Rightarrow> runtime_stats" where
  "record_probe_session sid st =
     st\<lparr>probe_sessions_total := probe_sessions_total st + 1,
        last_probe_session_id := set_locked (Some sid) (last_probe_session_id st)\<rparr>"

definition record_probe_rejected :: "runtime_stats \<Rightarrow> runtime_stats" where
  "record_probe_rejected st = st\<lparr>probe_rejected := probe_rejected st + 1\<rparr>"

definition record_auth_missing :: "runtime_stats \<Rightarrow> runtime_stats" where
  "record_auth_missing st = st\<lparr>auth_missing := auth_missing st + 1\<rparr>"

definition record_auth_ok :: "runtime_stats \<Rightarrow> runtime_stats" where
  "record_auth_ok st = st\<lparr>auth_ok := auth_ok st + 1\<rparr>"

definition record_auth_failed :: "runtime_stats \<Rightarrow> runtime_stats" where
  "record_auth_failed st = st\<lparr>auth_failed := auth_failed st + 1\<rparr>"

definition record_udp_session_rx :: "u64 \<Rightarrow> runtime_stats \<Rightarrow> runtime_stats" where
  "record_udp_session_rx n st =
     st\<lparr>udp_session_rx_packets := udp_session_rx_packets st + 1,
        udp_session_rx_bytes := udp_session_rx_bytes st + n\<rparr>"

definition record_udp_session_tx :: "u64 \<Rightarrow> runtime_stats \<Rightarrow> runtime_stats" where
  "record_udp_session_tx n st =
     st\<lparr>udp_session_tx_packets := udp_session_tx_packets st + 1,
        udp_session_tx_bytes := udp_session_tx_bytes st + n\<rparr>"

definition record_udp_session_miss :: "runtime_stats \<Rightarrow> runtime_stats" where
  "record_udp_session_miss st = st\<lparr>udp_session_miss := udp_session_miss st + 1\<rparr>"

definition record_udp_session_expired :: "runtime_stats \<Rightarrow> runtime_stats" where
  "record_udp_session_expired st = st\<lparr>udp_session_expired := udp_session_expired st + 1\<rparr>"

definition record_udp_relay_tx :: "u64 \<Rightarrow> runtime_stats \<Rightarrow> runtime_stats" where
  "record_udp_relay_tx n st =
     st\<lparr>udp_relay_tx_packets := udp_relay_tx_packets st + 1,
        udp_relay_tx_bytes := udp_relay_tx_bytes st + n\<rparr>"

definition record_udp_relay_rx :: "u64 \<Rightarrow> runtime_stats \<Rightarrow> runtime_stats" where
  "record_udp_relay_rx n st =
     st\<lparr>udp_relay_rx_packets := udp_relay_rx_packets st + 1,
        udp_relay_rx_bytes := udp_relay_rx_bytes st + n\<rparr>"

definition record_udp_relay_timeout :: "runtime_stats \<Rightarrow> runtime_stats" where
  "record_udp_relay_timeout st = st\<lparr>udp_relay_timeout := udp_relay_timeout st + 1\<rparr>"

definition record_udp_relay_error :: "runtime_stats \<Rightarrow> runtime_stats" where
  "record_udp_relay_error st = st\<lparr>udp_relay_error := udp_relay_error st + 1\<rparr>"

definition record_control_success :: "u64 \<Rightarrow> u16 \<Rightarrow> runtime_stats \<Rightarrow> runtime_stats" where
  "record_control_success now http_status st =
     st\<lparr>control_report_ok := control_report_ok st + 1,
        control_last_success_at := now,
        control_last_http_status := ucast http_status,
        control_last_error := set_locked None (control_last_error st)\<rparr>"

definition record_control_failure ::
  "u64 \<Rightarrow> u16 option \<Rightarrow> string \<Rightarrow> runtime_stats \<Rightarrow> runtime_stats"
where
  "record_control_failure now http_status error st =
     st\<lparr>control_report_failed := control_report_failed st + 1,
        control_last_failure_at := now,
        control_last_http_status :=
          (case http_status of None \<Rightarrow> control_last_http_status st | Some s \<Rightarrow> ucast s),
        control_last_error := set_locked (Some error) (control_last_error st)\<rparr>"

definition record_handshake_success :: "u64 \<Rightarrow> u16 \<Rightarrow> runtime_stats \<Rightarrow> runtime_stats" where
  "record_handshake_success now http_status st =
     st\<lparr>handshake_ok := handshake_ok st + 1,
        handshake_last_success_at := now,
        handshake_last_http_status := ucast http_status,
        handshake_last_error := set_locked None (handshake_last_error st)\<rparr>"

definition record_handshake_failure ::
  "u64 \<Rightarrow> u16 option \<Rightarrow> string \<Rightarrow> runtime_stats \<Rightarrow> runtime_stats"
where
  "record_handshake_failure now http_status error st =
     st\<lparr>handshake_failed := handshake_failed st + 1,
        handshake_last_failure_at := now,
        handshake_last_http_status :=
          (case http_status of None \<Rightarrow> handshake_last_http_status st | Some s \<Rightarrow> ucast s),
        handshake_last_error := set_locked (Some error) (handshake_last_error st)\<rparr>"

definition record_config_success :: "u64 \<Rightarrow> u16 \<Rightarrow> runtime_stats \<Rightarrow> runtime_stats" where
  "record_config_success now http_status st =
     st\<lparr>config_ok := config_ok st + 1,
        config_last_success_at := now,
        config_last_http_status := ucast http_status,
        config_last_error := set_locked None (config_last_error st)\<rparr>"

definition record_config_failure ::
  "u64 \<Rightarrow> u16 option \<Rightarrow> string \<Rightarrow> runtime_stats \<Rightarrow> runtime_stats"
where
  "record_config_failure now http_status error st =
     st\<lparr>config_failed := config_failed st + 1,
        config_last_failure_at := now,
        config_last_http_status :=
          (case http_status of None \<Rightarrow> config_last_http_status st | Some s \<Rightarrow> ucast s),
        config_last_error := set_locked (Some error) (config_last_error st)\<rparr>"

section \<open>Snapshots\<close>

record traffic_snapshot =
  tr_udp_rx_packets :: u64
  tr_udp_rx_bytes :: u64
  tr_udp_tx_packets :: u64
  tr_udp_tx_bytes :: u64
  tr_tcp_accepted :: u64
  tr_tcp_rx_bytes :: u64
  tr_tcp_tx_bytes :: u64

definition traffic_snapshot_of :: "runtime_stats \<Rightarrow> traffic_snapshot" where
  "traffic_snapshot_of st = \<lparr>
     tr_udp_rx_packets = udp_rx_packets st,
     tr_udp_rx_bytes = udp_rx_bytes st,
     tr_udp_tx_packets = udp_tx_packets st,
     tr_udp_tx_bytes = udp_tx_bytes st,
     tr_tcp_accepted = tcp_accepted st,
     tr_tcp_rx_bytes = tcp_rx_bytes st,
     tr_tcp_tx_bytes = tcp_tx_bytes st\<rparr>"

record session_snapshot =
  ss_active_tcp_connections :: u64
  ss_active_udp_sessions :: u64
  ss_probe_sessions_total :: u64
  ss_probe_rejected :: u64
  ss_auth_missing :: u64
  ss_auth_ok :: u64
  ss_auth_failed :: u64
  ss_udp_session_rx_packets :: u64
  ss_udp_session_rx_bytes :: u64
  ss_udp_session_tx_packets :: u64
  ss_udp_session_tx_bytes :: u64
  ss_udp_session_miss :: u64
  ss_udp_session_expired :: u64
  ss_udp_relay_tx_packets :: u64
  ss_udp_relay_tx_bytes :: u64
  ss_udp_relay_rx_packets :: u64
  ss_udp_relay_rx_bytes :: u64
  ss_udp_relay_timeout :: u64
  ss_udp_relay_error :: u64
  ss_last_probe_session_id :: "string option"

definition session_snapshot_of :: "u64 \<Rightarrow> runtime_stats \<Rightarrow> session_snapshot" where
  "session_snapshot_of active_udp_sessions st = \<lparr>
     ss_active_tcp_connections = tcp_active st,
     ss_active_udp_sessions = active_udp_sessions,
     ss_probe_sessions_total = probe_sessions_total st,
     ss_probe_rejected = probe_rejected st,
     ss_auth_missing = auth_missing st,
     ss_auth_ok = auth_ok st,
     ss_auth_failed = auth_failed st,
     ss_udp_session_rx_packets = udp_session_rx_packets st,
     ss_udp_session_rx_bytes = udp_session_rx_bytes st,
     ss_udp_session_tx_packets = udp_session_tx_packets st,
     ss_udp_session_tx_bytes = udp_session_tx_bytes st,
     ss_udp_session_miss = udp_session_miss st,
     ss_udp_session_expired = udp_session_expired st,
     ss_udp_relay_tx_packets = udp_relay_tx_packets st,
     ss_udp_relay_tx_bytes = udp_relay_tx_bytes st,
     ss_udp_relay_rx_packets = udp_relay_rx_packets st,
     ss_udp_relay_rx_bytes = udp_relay_rx_bytes st,
     ss_udp_relay_timeout = udp_relay_timeout st,
     ss_udp_relay_error = udp_relay_error st,
     ss_last_probe_session_id = Option.bind (lock_value (last_probe_session_id st)) id\<rparr>"

definition unix_option :: "u64 \<Rightarrow> u64 option" where
  "unix_option value = (if value = 0 then None else Some value)"

definition http_status_option :: "u64 \<Rightarrow> u16 option" where
  "http_status_option value = (if value = 0 then None else Some (ucast value))"

record control_plane_snapshot =
  cp_enabled :: bool
  cp_handshake_last_success_at :: "u64 option"
  cp_handshake_last_failure_at :: "u64 option"
  cp_handshake_last_http_status :: "u16 option"
  cp_handshake_last_error :: "string option"
  cp_handshake_ok :: u64
  cp_handshake_failed :: u64
  cp_last_success_at :: "u64 option"
  cp_last_failure_at :: "u64 option"
  cp_last_http_status :: "u16 option"
  cp_last_error :: "string option"
  cp_report_ok :: u64
  cp_report_failed :: u64
  cp_config_last_success_at :: "u64 option"
  cp_config_last_failure_at :: "u64 option"
  cp_config_last_http_status :: "u16 option"
  cp_config_last_error :: "string option"
  cp_config_ok :: u64
  cp_config_failed :: u64

definition control_plane_snapshot_of :: "bool \<Rightarrow> runtime_stats \<Rightarrow> control_plane_snapshot" where
  "control_plane_snapshot_of enabled st = \<lparr>
     cp_enabled = enabled,
     cp_handshake_last_success_at = unix_option (handshake_last_success_at st),
     cp_handshake_last_failure_at = unix_option (handshake_last_failure_at st),
     cp_handshake_last_http_status = http_status_option (handshake_last_http_status st),
     cp_handshake_last_error = Option.bind (lock_value (handshake_last_error st)) id,
     cp_handshake_ok = handshake_ok st,
     cp_handshake_failed = handshake_failed st,
     cp_last_success_at = unix_option (control_last_success_at st),
     cp_last_failure_at = unix_option (control_last_failure_at st),
     cp_last_http_status = http_status_option (control_last_http_status st),
     cp_last_error = Option.bind (lock_value (control_last_error st)) id,
     cp_report_ok = control_report_ok st,
     cp_report_failed = control_report_failed st,
     cp_config_last_success_at = unix_option (config_last_success_at st),
     cp_config_last_failure_at = unix_option (config_last_failure_at st),
     cp_config_last_http_status = http_status_option (config_last_http_status st),
     cp_config_last_error = Option.bind (lock_value (config_last_error st)) id,
     cp_config_ok = config_ok st,
     cp_config_failed = config_failed st\<rparr>"

lemmas stats_defs =
  set_udp_listening_def set_tcp_listening_def record_udp_rx_def record_udp_tx_def
  record_tcp_accept_def record_tcp_open_def record_tcp_close_def record_tcp_rx_def
  record_tcp_tx_def next_probe_sequence_def record_probe_session_def record_probe_rejected_def
  record_auth_missing_def record_auth_ok_def record_auth_failed_def record_udp_session_rx_def
  record_udp_session_tx_def record_udp_session_miss_def record_udp_session_expired_def
  record_udp_relay_tx_def record_udp_relay_rx_def record_udp_relay_timeout_def
  record_udp_relay_error_def record_control_success_def record_control_failure_def
  record_handshake_success_def record_handshake_failure_def record_config_success_def
  record_config_failure_def

section \<open>Counters as an interface\<close>

text \<open>
  \<open>counter\<close>: an operation that adds one to a counter. \<open>volume_counter\<close>: an operation that
  adds one to a packet counter and its argument to a byte counter. Both read back, after any
  run of the operation, as the number of calls and the sum of the arguments, modulo
  \<open>2 ^ 64\<close>.
\<close>

locale counter =
  fixes get :: "runtime_stats \<Rightarrow> u64"
    and bump :: "runtime_stats \<Rightarrow> runtime_stats"
  assumes get_bump: "get (bump st) = get st + 1"
begin

lemma get_bumps: "get ((bump ^^ n) st) = get st + of_nat n"
  by (induction n) (simp_all add: get_bump)

lemma get_bumps_exact:
  assumes "unat (get st) + n < 2 ^ 64"
  shows "unat (get ((bump ^^ n) st)) = unat (get st) + n"
proof -
  have "unat (get st + of_nat n) = (unat (get st) + n) mod 2 ^ 64"
    by (simp add: unat_word_ariths unsigned_of_nat take_bit_eq_mod mod_simps)
  with assms show ?thesis by (simp add: get_bumps)
qed

end

locale volume_counter =
  fixes packets :: "runtime_stats \<Rightarrow> u64"
    and volume :: "runtime_stats \<Rightarrow> u64"
    and note_packet :: "u64 \<Rightarrow> runtime_stats \<Rightarrow> runtime_stats"
  assumes packets_note: "packets (note_packet n st) = packets st + 1"
    and volume_note: "volume (note_packet n st) = volume st + n"
begin

lemma fold_note:
  "packets (fold note_packet ns st) = packets st + of_nat (length ns)"
  "volume (fold note_packet ns st) = volume st + sum_list ns"
  by (induction ns arbitrary: st) (simp_all add: packets_note volume_note)

end

sublocale volume_counter \<subseteq> one: counter packets "note_packet n" for n
  by unfold_locales (rule packets_note)

interpretation cnt_accept: counter tcp_accepted record_tcp_accept
  by unfold_locales (simp add: stats_defs)

interpretation cnt_opened: counter tcp_active record_tcp_open
  by unfold_locales (simp add: stats_defs)

interpretation cnt_rejected: counter probe_rejected record_probe_rejected
  by unfold_locales (simp add: stats_defs)

interpretation cnt_missing: counter auth_missing record_auth_missing
  by unfold_locales (simp add: stats_defs)

interpretation cnt_auth_ok: counter auth_ok record_auth_ok
  by unfold_locales (simp add: stats_defs)

interpretation cnt_auth_failed: counter auth_failed record_auth_failed
  by unfold_locales (simp add: stats_defs)

interpretation cnt_miss: counter udp_session_miss record_udp_session_miss
  by unfold_locales (simp add: stats_defs)

interpretation cnt_expired: counter udp_session_expired record_udp_session_expired
  by unfold_locales (simp add: stats_defs)

interpretation cnt_timeout: counter udp_relay_timeout record_udp_relay_timeout
  by unfold_locales (simp add: stats_defs)

interpretation cnt_error: counter udp_relay_error record_udp_relay_error
  by unfold_locales (simp add: stats_defs)

interpretation vol_udp_rx: volume_counter udp_rx_packets udp_rx_bytes record_udp_rx
  by unfold_locales (simp_all add: stats_defs)

interpretation vol_udp_tx: volume_counter udp_tx_packets udp_tx_bytes record_udp_tx
  by unfold_locales (simp_all add: stats_defs)

interpretation vol_udp_session_rx: volume_counter udp_session_rx_packets udp_session_rx_bytes record_udp_session_rx
  by unfold_locales (simp_all add: stats_defs)

interpretation vol_udp_session_tx: volume_counter udp_session_tx_packets udp_session_tx_bytes record_udp_session_tx
  by unfold_locales (simp_all add: stats_defs)

interpretation vol_udp_relay_tx: volume_counter udp_relay_tx_packets udp_relay_tx_bytes record_udp_relay_tx
  by unfold_locales (simp_all add: stats_defs)

interpretation vol_udp_relay_rx: volume_counter udp_relay_rx_packets udp_relay_rx_bytes record_udp_relay_rx
  by unfold_locales (simp_all add: stats_defs)

text \<open>
  \<open>outcome_log\<close>: the three control-plane activities keep a pair of counters, the time and
  HTTP status of the last outcome, and the last error, which a success clears.
\<close>

datatype outcome = Success u64 u16 | Failure u64 "u16 option" string

locale outcome_log =
  fixes oks :: "runtime_stats \<Rightarrow> u64"
    and bads :: "runtime_stats \<Rightarrow> u64"
    and http :: "runtime_stats \<Rightarrow> u64"
    and last_error :: "runtime_stats \<Rightarrow> string option mutex"
    and success :: "u64 \<Rightarrow> u16 \<Rightarrow> runtime_stats \<Rightarrow> runtime_stats"
    and failure :: "u64 \<Rightarrow> u16 option \<Rightarrow> string \<Rightarrow> runtime_stats \<Rightarrow> runtime_stats"
  assumes success_log:
      "oks (success now s st) = oks st + 1" "bads (success now s st) = bads st"
      "http (success now s st) = ucast s"
      "last_error (success now s st) = set_locked None (last_error st)"
    and failure_log:
      "oks (failure now h e st) = oks st" "bads (failure now h e st) = bads st + 1"
      "http (failure now h e st) = (case h of None \<Rightarrow> http st | Some s \<Rightarrow> ucast s)"
      "last_error (failure now h e st) = set_locked (Some e) (last_error st)"
begin

fun log_one :: "outcome \<Rightarrow> runtime_stats \<Rightarrow> runtime_stats" where
  "log_one (Success now s) st = success now s st"
| "log_one (Failure now h e) st = failure now h e st"

lemma log_counts: "oks (fold log_one xs st) + bads (fold log_one xs st) =
    oks st + bads st + of_nat (length xs)"
proof (induction xs arbitrary: st)
  case (Cons x xs)
  then show ?case by (cases x) (simp_all add: success_log failure_log)
qed simp

lemma log_last_error:
  "lock_value (last_error st) \<noteq> None \<Longrightarrow>
   lock_value (last_error (fold log_one (xs @ [x]) st)) =
     Some (case x of Success now s \<Rightarrow> None | Failure now h e \<Rightarrow> Some e)"
proof (induction xs arbitrary: st)
  case Nil
  then show ?case by (cases x) (auto simp: success_log failure_log)
next
  case (Cons y xs)
  then show ?case by (cases y) (auto simp: success_log failure_log)
qed

end

interpretation log_control: outcome_log control_report_ok control_report_failed control_last_http_status
  control_last_error record_control_success record_control_failure
  by unfold_locales (simp_all add: stats_defs)

interpretation log_handshake: outcome_log handshake_ok handshake_failed handshake_last_http_status
  handshake_last_error record_handshake_success record_handshake_failure
  by unfold_locales (simp_all add: stats_defs)

interpretation log_config: outcome_log config_ok config_failed config_last_http_status
  config_last_error record_config_success record_config_failure
  by unfold_locales (simp_all add: stats_defs)

lemma http_status_option_ucast:
  "http_status_option (ucast (s :: u16)) = (if s = 0 then None else Some s)"
proof -
  have "unat s < 2 ^ LENGTH(16)" by (rule unsigned_less)
  then have "unat s < 2 ^ 64" by simp
  then have "unat (ucast s :: u64) = unat s"
    by (simp add: unsigned_ucast_eq take_bit_nat_eq_self)
  then have "(ucast s :: u64) = 0 \<longleftrightarrow> s = 0"
    by (metis unsigned_0 unsigned_eq_0_iff)
  moreover have "ucast (ucast s :: u64) = s"
    by (rule bit_word_eqI) (auto simp: bit_ucast_iff dest: bit_imp_le_length)
  ultimately show ?thesis by (simp add: http_status_option_def)
qed

section \<open>Properties\<close>

text \<open>
  The traffic report is exact. After any sequence of received and sent datagrams, in any
  interleaving, the reported packet counters are the numbers of datagrams and the reported
  byte counters their total sizes, as long as these stay below \<open>2 ^ 64\<close>; beyond, they wrap.
\<close>

theorem traffic_report_exact:
  assumes "sum_list (map unat received) < 2 ^ 64" "sum_list (map unat sent) < 2 ^ 64"
    and "length received < 2 ^ 64" "length sent < 2 ^ 64"
  shows "(let t = traffic_snapshot_of (fold record_udp_tx sent (fold record_udp_rx received default_stats))
    in unat (tr_udp_rx_packets t) = length received \<and>
       unat (tr_udp_rx_bytes t) = sum_list (map unat received) \<and>
       unat (tr_udp_tx_packets t) = length sent \<and>
       unat (tr_udp_tx_bytes t) = sum_list (map unat sent))"
proof -
  have sum: "unat (sum_list ns) = sum_list (map unat ns)" if "sum_list (map unat ns) < 2 ^ 64" for ns :: "u64 list"
  proof -
    have "unat (sum_list ns) = sum_list (map unat ns) mod 2 ^ 64"
      by (induction ns) (simp_all add: unat_word_ariths mod_simps)
    with that show ?thesis by simp
  qed
  have len: "unat (of_nat n :: u64) = n" if "n < 2 ^ 64" for n
    using that by (simp add: unsigned_of_nat take_bit_nat_eq_self)
  have keep: "udp_rx_packets (fold record_udp_tx ns st) = udp_rx_packets st"
    "udp_rx_bytes (fold record_udp_tx ns st) = udp_rx_bytes st"
    "udp_tx_packets (fold record_udp_rx ns st) = udp_tx_packets st"
    "udp_tx_bytes (fold record_udp_rx ns st) = udp_tx_bytes st" for ns st
    by (induction ns arbitrary: st) (simp_all add: stats_defs)
  have zero: "udp_rx_packets default_stats = 0" "udp_rx_bytes default_stats = 0"
    "udp_tx_packets default_stats = 0" "udp_tx_bytes default_stats = 0"
    by (simp_all add: default_stats_def)
  show ?thesis
    using assms by (simp add: traffic_snapshot_of_def keep vol_udp_rx.fold_note vol_udp_tx.fold_note
        zero len sum)
qed

theorem traffic_report_exact_witness:
  "unat (tr_udp_rx_bytes (traffic_snapshot_of
     (fold record_udp_tx [7] (fold record_udp_rx [100, 20] default_stats)))) = 120"
  using traffic_report_exact [of "[100, 20]" "[7]"] by (simp add: Let_def)

text \<open>
  The last error shown to an operator is that of the last exchange with the control plane: a
  success clears it, a failure replaces it, and every exchange is counted once, as a success
  or as a failure. This holds for reports, handshakes and configuration fetches alike.
\<close>

theorem last_error_is_of_last_exchange:
  assumes "lock_value (control_last_error st) \<noteq> None"
  shows "cp_last_error (control_plane_snapshot_of e (fold log_control.log_one (xs @ [x]) st)) =
      (case x of Success now s \<Rightarrow> None | Failure now h msg \<Rightarrow> Some msg) \<and>
    control_report_ok (fold log_control.log_one xs st) + control_report_failed (fold log_control.log_one xs st) =
      control_report_ok st + control_report_failed st + of_nat (length xs)"
  using log_control.log_last_error [OF assms, of xs x] log_control.log_counts [of xs st]
  by (simp add: control_plane_snapshot_of_def del: fold_append split: outcome.split)

theorem last_error_is_of_last_exchange_witness:
  "cp_last_error (control_plane_snapshot_of True (fold log_control.log_one
     ([Failure 1 None ''refused''] @ [Success 2 200]) default_stats)) = None"
proof -
  have "lock_value (control_last_error default_stats) \<noteq> None" by (simp add: default_stats_def)
  from last_error_is_of_last_exchange [OF this, of True "[Failure 1 None ''refused'']" "Success 2 200"]
  show ?thesis by simp
qed

end
