(* ===== verification/Node_Config.thy ===== *)
theory Node_Config
  imports Codecs
begin

text \<open>
  \<open>node-core/src/config.rs\<close>: the configuration file's data, its validation, the endpoints the
  listeners derive from it, and the rewriting of the file when the control plane sends a new
  network section. The file system and the TOML reader and printer are parameters.
\<close>

datatype bandwidth_quality = Fast | Normal | Slow

record operator_ips =
  telecom_ip :: "string option"
  mobile_ip :: "string option"
  unicom_ip :: "string option"

record network_config =
  server_ip :: string
  listen_ip :: "string option"
  server_port :: u16
  relay_server_ip :: "string option"
  relay_server_port :: "u16 option"
  is_support_ipv6 :: bool
  disable_quic :: bool
  area :: string
  bandwidth_quality :: bandwidth_quality
  tag :: "string option"
  operator_ips :: "operator_ips option"

record identity_config =
  ic_node_id :: "u64 option"
  ic_panel_url :: "string option"
  ic_identity_file :: string

record runtime_config =
  rc_data_dir :: string
  rc_log_dir :: string
  rc_health_addr :: socket_addr
  rc_channel :: string

record bootstrap_config =
  bc_response_file :: string

record control_plane_config =
  cc_enabled :: bool
  cc_config_revision :: u64
  cc_request_timeout_sec :: u64
  cc_config_poll_interval_sec :: u64

record report_config =
  rp_interval_sec :: u64
  rp_traffic_batch_sec :: u64
  rp_metrics_interval_sec :: u64

record limit_config =
  lc_max_sessions :: u64
  lc_max_sessions_per_user :: u64
  lc_max_udp_mappings :: u64
  lc_default_user_speed_mbps :: u64

record node_config =
  nc_identity :: identity_config
  nc_runtime :: runtime_config
  nc_bootstrap :: "bootstrap_config option"
  nc_control :: "control_plane_config option"
  nc_network :: "network_config option"
  nc_report :: "report_config option"
  nc_limits :: "limit_config option"

definition default_control_plane_config :: control_plane_config where
  "default_control_plane_config =
     \<lparr>cc_enabled = False, cc_config_revision = 1, cc_request_timeout_sec = 5,
      cc_config_poll_interval_sec = 30\<rparr>"

section \<open>Endpoints\<close>

text \<open>The idiom \<open>as_deref().map(str::trim).filter(|s| !s.is_empty())\<close>.\<close>

definition trimmed_nonempty :: "string option \<Rightarrow> string option" where
  "trimmed_nonempty x = filter_option (\<lambda>s. s \<noteq> []) (map_option trim x)"

definition listen_host :: "network_config \<Rightarrow> string" where
  "listen_host n = unwrap_or (trim (server_ip n)) (trimmed_nonempty (listen_ip n))"

definition socket_endpoint :: "string \<Rightarrow> u16 \<Rightarrow> string" where
  "socket_endpoint host port =
     (if contains host '':'' \<and> \<not> starts_with host ''[''
      then ''['' @ host @ '']:'' @ show_u16 port
      else host @ '':'' @ show_u16 port)"

definition listen_endpoint :: "network_config \<Rightarrow> string" where
  "listen_endpoint n = socket_endpoint (listen_host n) (server_port n)"

definition quic_listen_endpoint :: "network_config \<Rightarrow> string option" where
  "quic_listen_endpoint n =
     (if disable_quic n then None
      else case filter_option (\<lambda>p. 0 < p \<and> p \<noteq> server_port n) (relay_server_port n) of
        None \<Rightarrow> None
      | Some port \<Rightarrow>
          Some (socket_endpoint
            (unwrap_or (listen_host n) (trimmed_nonempty (relay_server_ip n))) port))"

section \<open>Validation\<close>

definition validate_network :: "network_config \<Rightarrow> (string, unit) result" where
  "validate_network n =
     (if trim (server_ip n) = [] then Inl ''network.server_ip is required''
      else bind_result
        (case listen_ip n of
           None \<Rightarrow> Inr ()
         | Some ip \<Rightarrow>
             (if trim ip = [] then Inl ''network.listen_ip must not be empty when provided''
              else bind_result
                (ok_or (''network.listen_ip must be an IP address: '' @ trim ip)
                  (parse_ip_addr (trim ip))) (\<lambda>_. Inr ())))
        (\<lambda>_. if server_port n = 0 then Inl ''network.server_port must be greater than 0''
             else Inr ()))"

definition validate_control :: "control_plane_config \<Rightarrow> (string, unit) result" where
  "validate_control c =
     (if cc_request_timeout_sec c = 0 then Inl ''control.request_timeout_sec must be greater than 0''
      else if cc_config_poll_interval_sec c = 0 then
        Inl ''control.config_poll_interval_sec must be greater than 0''
      else Inr ())"

definition validate :: "node_config \<Rightarrow> (string, unit) result" where
  "validate cfg =
     (if trim (ic_identity_file (nc_identity cfg)) = [] then
        Inl ''identity.identity_file is required''
      else if trim (rc_data_dir (nc_runtime cfg)) = [] then Inl ''runtime.data_dir is required''
      else if trim (rc_log_dir (nc_runtime cfg)) = [] then Inl ''runtime.log_dir is required''
      else if trim (rc_channel (nc_runtime cfg)) = [] then Inl ''runtime.channel is required''
      else bind_result
        (case nc_network cfg of None \<Rightarrow> Inr () | Some n \<Rightarrow> validate_network n)
        (\<lambda>_. case nc_control cfg of None \<Rightarrow> Inr () | Some c \<Rightarrow> validate_control c))"

text \<open>
  \<open>std::fs\<close> over a state \<open>'fs\<close>. A failed write may leave anything behind, so it returns a
  state too.
\<close>

record 'fs file_system =
  fs_exists :: "string \<Rightarrow> 'fs \<Rightarrow> bool"
  fs_read :: "string \<Rightarrow> 'fs \<Rightarrow> (string, string) result"
  fs_write :: "string \<Rightarrow> string \<Rightarrow> 'fs \<Rightarrow> (string, unit) result \<times> 'fs"

definition from_file ::
  "'fs file_system \<Rightarrow> (string \<Rightarrow> (string, node_config) result) \<Rightarrow> string \<Rightarrow> 'fs \<Rightarrow>
   (string, node_config) result"
where
  "from_file fsys toml_config path fs =
     bind_result (map_err (\<lambda>_. ''failed to read '' @ path) (fs_read fsys path fs)) (\<lambda>content.
     bind_result (map_err (\<lambda>_. ''failed to parse TOML '' @ path) (toml_config content)) (\<lambda>config.
     bind_result (validate config) (\<lambda>_. Inr config)))"

section \<open>Rewriting the file\<close>

datatype toml =
    TString string | TInteger int | TFloat string | TBoolean bool | TDatetime string
  | TArray "toml list" | TTable "(string \<times> toml) list"

type_synonym toml_table = "(string \<times> toml) list"

text \<open>
  \<open>table_entry\<close> hands out a mutable reference to the sub-table, made if it is absent; here
  the edit \<open>f\<close> is passed in and the table with the edited sub-table comes back.
\<close>

definition table_entry ::
  "string \<Rightarrow> (toml_table \<Rightarrow> (string, toml_table) result) \<Rightarrow> toml_table \<Rightarrow>
   (string, toml_table) result"
where
  "table_entry key f table =
     (case unwrap_or (TTable []) (map_of table key) of
        TTable t \<Rightarrow> bind_result (f t) (\<lambda>t'. Inr (AList.update key (TTable t') table))
      | _ \<Rightarrow> Inl (''['' @ key @ ''] must be a table''))"

definition set_optional_string :: "string \<Rightarrow> string option \<Rightarrow> toml_table \<Rightarrow> toml_table" where
  "set_optional_string key value table =
     (case trimmed_nonempty value of
        Some v \<Rightarrow> AList.update key (TString v) table
      | None \<Rightarrow> AList.delete key table)"

definition set_optional_integer :: "string \<Rightarrow> int option \<Rightarrow> toml_table \<Rightarrow> toml_table" where
  "set_optional_integer key value table =
     (case value of
        Some v \<Rightarrow> AList.update key (TInteger v) table
      | None \<Rightarrow> AList.delete key table)"

fun quality_text :: "bandwidth_quality \<Rightarrow> string" where
  "quality_text Fast = ''fast''"
| "quality_text Normal = ''normal''"
| "quality_text Slow = ''slow''"

definition edit_network_fields :: "network_config \<Rightarrow> toml_table \<Rightarrow> toml_table" where
  "edit_network_fields n t0 =
     (let t1 = AList.update ''server_ip'' (TString (server_ip n)) t0;
          t2 = set_optional_string ''listen_ip'' (listen_ip n) t1;
          t3 = AList.update ''server_port'' (TInteger (int (unat (server_port n)))) t2;
          t4 = set_optional_string ''relay_server_ip'' (relay_server_ip n) t3;
          t5 = set_optional_integer ''relay_server_port''
                 (map_option (\<lambda>p. int (unat p)) (relay_server_port n)) t4;
          t6 = AList.update ''is_support_ipv6'' (TBoolean (is_support_ipv6 n)) t5;
          t7 = AList.update ''disable_quic'' (TBoolean (disable_quic n)) t6;
          t8 = AList.update ''area'' (TString (area n)) t7;
          t9 = AList.update ''bandwidth_quality''
                 (TString (quality_text (bandwidth_quality n))) t8
      in set_optional_string ''tag'' (tag n) t9)"

definition edit_operator_fields :: "operator_ips \<Rightarrow> toml_table \<Rightarrow> toml_table" where
  "edit_operator_fields ips o0 =
     set_optional_string ''unicom_ip'' (unicom_ip ips)
       (set_optional_string ''mobile_ip'' (mobile_ip ips)
         (set_optional_string ''telecom_ip'' (telecom_ip ips) o0))"

definition edit_network_table :: "network_config \<Rightarrow> toml_table \<Rightarrow> (string, toml_table) result" where
  "edit_network_table n t =
     (case operator_ips n of
        Some ips \<Rightarrow>
          table_entry ''operator_ips'' (\<lambda>o0. Inr (edit_operator_fields ips o0))
            (edit_network_fields n t)
      | None \<Rightarrow> Inr (AList.delete ''operator_ips'' (edit_network_fields n t)))"

definition i64_max :: nat where
  "i64_max = 2 ^ 63 - 1"

definition edit_config_root ::
  "u64 \<Rightarrow> network_config \<Rightarrow> toml_table \<Rightarrow> (string, toml_table) result"
where
  "edit_config_root config_revision n root =
     bind_result
       (table_entry ''control'' (\<lambda>c. Inr (AList.update ''config_revision''
          (TInteger (int (min (unat config_revision) i64_max))) c)) root)
       (\<lambda>root'. table_entry ''network'' (edit_network_table n) root')"

definition persist_remote_network_config ::
  "'fs file_system \<Rightarrow> (string \<Rightarrow> (string, toml) result) \<Rightarrow> (toml \<Rightarrow> (string, string) result) \<Rightarrow>
   string \<Rightarrow> u64 \<Rightarrow> network_config \<Rightarrow> 'fs \<Rightarrow> (string, unit) result \<times> 'fs"
where
  "persist_remote_network_config fsys toml_parse toml_print path config_revision network fs =
     (case bind_result (map_err (\<lambda>_. ''failed to read '' @ path) (fs_read fsys path fs)) (\<lambda>content.
           bind_result (map_err (\<lambda>_. ''failed to parse TOML '' @ path) (toml_parse content)) (\<lambda>value.
           bind_result (case value of TTable root \<Rightarrow> Inr root
              | _ \<Rightarrow> Inl ''node config TOML root must be a table'') (\<lambda>root.
           bind_result (edit_config_root config_revision network root) (\<lambda>root'.
           map_err (\<lambda>_. ''failed to encode updated node config TOML'')
             (toml_print (TTable root')))))) of
        Inl e \<Rightarrow> (Inl e, fs)
      | Inr content \<Rightarrow>
          (case fs_write fsys path content fs of
             (Inl _, fs') \<Rightarrow> (Inl (''failed to write '' @ path), fs')
           | (Inr _, fs') \<Rightarrow> (Inr (), fs')))"

section \<open>Properties of the operations\<close>

lemma trimmed_nonempty_simps [simp]:
  "trimmed_nonempty None = None"
  "trimmed_nonempty (Some s) = (if trim s = [] then None else Some (trim s))"
  by (simp_all add: trimmed_nonempty_def)

lemma trimmed_nonempty_Some: "trimmed_nonempty x = Some s \<Longrightarrow> s \<noteq> [] \<and> trim s = s"
  by (cases x) (auto split: if_splits)

lemma trimmed_nonempty_idem [simp]: "trimmed_nonempty (trimmed_nonempty x) = trimmed_nonempty x"
  by (cases x) auto

lemma validate_network_iff:
  "validate_network n = Inr () \<longleftrightarrow>
     trim (server_ip n) \<noteq> [] \<and> server_port n \<noteq> 0 \<and>
     (\<forall>ip. listen_ip n = Some ip \<longrightarrow> trim ip \<noteq> [] \<and> parse_ip_addr (trim ip) \<noteq> None)"
  by (auto simp: validate_network_def split: option.splits)

lemma validate_control_iff:
  "validate_control c = Inr () \<longleftrightarrow>
     cc_request_timeout_sec c \<noteq> 0 \<and> cc_config_poll_interval_sec c \<noteq> 0"
  by (auto simp: validate_control_def)

lemma validate_iff:
  "validate cfg = Inr () \<longleftrightarrow>
     trim (ic_identity_file (nc_identity cfg)) \<noteq> [] \<and> trim (rc_data_dir (nc_runtime cfg)) \<noteq> [] \<and>
     trim (rc_log_dir (nc_runtime cfg)) \<noteq> [] \<and> trim (rc_channel (nc_runtime cfg)) \<noteq> [] \<and>
     (\<forall>n. nc_network cfg = Some n \<longrightarrow> validate_network n = Inr ()) \<and>
     (\<forall>c. nc_control cfg = Some c \<longrightarrow> validate_control c = Inr ())"
  by (auto simp: validate_def split: option.splits)

lemma socket_endpoint_parses:
  assumes "parse_ip_addr h = Some ip"
  shows "parse_socket_addr (socket_endpoint h p) =
    Some (case ip of V4 a \<Rightarrow> SockV4 a p | V6 a \<Rightarrow> SockV6 a p 0)"
proof (cases ip)
  case (V4 a)
  with assms have "\<not> contains h '':''" by (simp add: parse_v4_no_colon)
  with assms V4 show ?thesis
    using parse_socket_addr_v4 [of h a p] by (simp add: socket_endpoint_def)
next
  case (V6 a)
  with assms have "contains h '':''" "\<not> starts_with h ''[''"
    by (simp_all add: parse_v6_colon parse_ip_no_bracket)
  with assms V6 show ?thesis
    using parse_socket_addr_v6 [of h a p] by (simp add: socket_endpoint_def)
qed

lemma quic_listen_endpoint_iff:
  "quic_listen_endpoint n = Some e \<longleftrightarrow>
     \<not> disable_quic n \<and>
     (\<exists>port. relay_server_port n = Some port \<and> port \<noteq> 0 \<and> port \<noteq> server_port n \<and>
        e = socket_endpoint (unwrap_or (listen_host n) (trimmed_nonempty (relay_server_ip n))) port)"
  by (auto simp: quic_listen_endpoint_def word_gt_0 filter_option_Some_iff split: option.splits)

text \<open>What the edit of a table leaves and what it writes.\<close>

lemma map_of_set_optional [simp]:
  "map_of (set_optional_string key v t) k =
     (if k = key then map_option TString (trimmed_nonempty v) else map_of t k)"
  "map_of (set_optional_integer key i t) k =
     (if k = key then map_option TInteger i else map_of t k)"
  by (auto simp: set_optional_string_def set_optional_integer_def update_conv' delete_conv'
      split: option.splits)

lemma table_entry_Inr_iff:
  "table_entry key f t = Inr t' \<longleftrightarrow>
     (\<exists>s s'. unwrap_or (TTable []) (map_of t key) = TTable s \<and> f s = Inr s' \<and>
        t' = AList.update key (TTable s') t)"
  by (auto simp: table_entry_def split: toml.splits)

text \<open>The keys of the network section and the value the edit gives each of them.\<close>

definition network_value :: "network_config \<Rightarrow> string \<Rightarrow> toml option" where
  "network_value n k =
     (if k = ''server_ip'' then Some (TString (server_ip n))
      else if k = ''listen_ip'' then map_option TString (trimmed_nonempty (listen_ip n))
      else if k = ''server_port'' then Some (TInteger (int (unat (server_port n))))
      else if k = ''relay_server_ip'' then map_option TString (trimmed_nonempty (relay_server_ip n))
      else if k = ''relay_server_port'' then
        map_option (\<lambda>p. TInteger (int (unat p))) (relay_server_port n)
      else if k = ''is_support_ipv6'' then Some (TBoolean (is_support_ipv6 n))
      else if k = ''disable_quic'' then Some (TBoolean (disable_quic n))
      else if k = ''area'' then Some (TString (area n))
      else if k = ''bandwidth_quality'' then
        Some (TString (quality_text (bandwidth_quality n)))
      else if k = ''tag'' then map_option TString (trimmed_nonempty (tag n))
      else None)"

definition network_keys :: "string set" where
  "network_keys =
     {''server_ip'', ''listen_ip'', ''server_port'', ''relay_server_ip'', ''relay_server_port'',
      ''is_support_ipv6'', ''disable_quic'', ''area'', ''bandwidth_quality'', ''tag''}"

lemma map_of_update [simp]: "map_of (AList.update k v t) k' = (if k' = k then Some v else map_of t k')"
  by (simp add: update_conv')

lemma map_of_delete [simp]: "map_of (AList.delete k t) k' = (if k' = k then None else map_of t k')"
  by (simp add: delete_conv')

lemma edit_network_fields_key: "k \<in> network_keys \<Longrightarrow> map_of (edit_network_fields n t) k = network_value n k"
  unfolding network_keys_def
  by (elim insertE emptyE)
    (simp_all add: edit_network_fields_def network_value_def Let_def map_option_case comp_def
      split: option.splits)

lemma edit_network_fields_other: "k \<notin> network_keys \<Longrightarrow> map_of (edit_network_fields n t) k = map_of t k"
  by (simp add: edit_network_fields_def network_keys_def Let_def)

lemma operator_not_network: "''operator_ips'' \<notin> network_keys"
  by (simp add: network_keys_def)

lemma edit_network_table_values:
  assumes "edit_network_table n t = Inr t'"
  shows "k \<in> network_keys \<Longrightarrow> map_of t' k = network_value n k"
    and "k \<notin> network_keys \<Longrightarrow> k \<noteq> ''operator_ips'' \<Longrightarrow> map_of t' k = map_of t k"
    and "operator_ips n = None \<Longrightarrow> map_of t' ''operator_ips'' = None"
proof -
  have other: "map_of t' k = map_of (edit_network_fields n t) k" if "k \<noteq> ''operator_ips''" for k
    using assms that
    by (auto simp: edit_network_table_def table_entry_Inr_iff split: option.splits)
  show "k \<in> network_keys \<Longrightarrow> map_of t' k = network_value n k"
    using other [of k] operator_not_network edit_network_fields_key [of k n t] by fastforce
  show "k \<notin> network_keys \<Longrightarrow> k \<noteq> ''operator_ips'' \<Longrightarrow> map_of t' k = map_of t k"
    by (simp add: other edit_network_fields_other)
  show "operator_ips n = None \<Longrightarrow> map_of t' ''operator_ips'' = None"
    using assms by (auto simp: edit_network_table_def)
qed

lemma edit_config_root_values:
  assumes "edit_config_root revision n root = Inr root'"
  shows "k \<noteq> ''control'' \<Longrightarrow> k \<noteq> ''network'' \<Longrightarrow> map_of root' k = map_of root k"
    and "\<exists>c c'. unwrap_or (TTable []) (map_of root ''control'') = TTable c \<and>
        map_of root' ''control'' = Some (TTable c') \<and>
        map_of c' ''config_revision'' = Some (TInteger (int (min (unat revision) i64_max))) \<and>
        (\<forall>k. k \<noteq> ''config_revision'' \<longrightarrow> map_of c' k = map_of c k)"
    and "\<exists>t t'. unwrap_or (TTable []) (map_of root ''network'') = TTable t \<and>
        edit_network_table n t = Inr t' \<and> map_of root' ''network'' = Some (TTable t')"
  using assms by (auto simp: edit_config_root_def table_entry_Inr_iff)

text \<open>The file is written only after every earlier step succeeded, and then exactly once.\<close>

lemma persist_cases:
  assumes "persist_remote_network_config fsys toml_parse toml_print path revision n fs = (r, fs')"
  shows "(\<exists>e. r = Inl e \<and> fs' = fs) \<or>
    (\<exists>content root root' text. fs_read fsys path fs = Inr content \<and>
       toml_parse content = Inr (TTable root) \<and> edit_config_root revision n root = Inr root' \<and>
       toml_print (TTable root') = Inr text \<and> fs' = snd (fs_write fsys path text fs) \<and>
       (r = Inr () \<longleftrightarrow> fst (fs_write fsys path text fs) = Inr ()))"
proof (cases r)
  case (Inl e)
  then show ?thesis
    using assms unfolding persist_remote_network_config_def
    by (auto split: sum.splits prod.splits toml.splits)
next
  case (Inr u)
  then show ?thesis
    using assms unfolding persist_remote_network_config_def
    by (auto split: sum.splits prod.splits toml.splits)
qed

section \<open>Properties\<close>

text \<open>
  A configuration that is persisted is persisted as a whole and nothing else is: the file
  that was read is rewritten once with a document in which every other section is as before,
  the control section differs in its revision only, every network key holds the new value (an
  absent value removes the key), and every unknown network key survives.
\<close>

theorem persisted_document:
  assumes "persist_remote_network_config fsys toml_parse toml_print path revision n fs = (Inr (), fs')"
  shows "\<exists>content root root' out c c' t t'.
    fs_read fsys path fs = Inr content \<and> toml_parse content = Inr (TTable root) \<and>
    toml_print (TTable root') = Inr out \<and> fs_write fsys path out fs = (Inr (), fs') \<and>
    (\<forall>k. k \<noteq> ''control'' \<and> k \<noteq> ''network'' \<longrightarrow> map_of root' k = map_of root k) \<and>
    unwrap_or (TTable []) (map_of root ''control'') = TTable c \<and>
    map_of root' ''control'' = Some (TTable c') \<and>
    map_of c' = (map_of c)(''config_revision'' \<mapsto> TInteger (int (min (unat revision) i64_max))) \<and>
    unwrap_or (TTable []) (map_of root ''network'') = TTable t \<and>
    map_of root' ''network'' = Some (TTable t') \<and>
    (\<forall>k \<in> network_keys. map_of t' k = network_value n k) \<and>
    (\<forall>k. k \<notin> network_keys \<and> k \<noteq> ''operator_ips'' \<longrightarrow> map_of t' k = map_of t k)"
proof -
  obtain content root root' out where
    io: "fs_read fsys path fs = Inr content" "toml_parse content = Inr (TTable root)"
      "toml_print (TTable root') = Inr out" "fs' = snd (fs_write fsys path out fs)"
      "fst (fs_write fsys path out fs) = Inr ()"
    and edit: "edit_config_root revision n root = Inr root'"
    using persist_cases [OF assms] by auto
  obtain c c' where c: "unwrap_or (TTable []) (map_of root ''control'') = TTable c"
      "map_of root' ''control'' = Some (TTable c')"
      "map_of c' ''config_revision'' = Some (TInteger (int (min (unat revision) i64_max)))"
      "\<And>k. k \<noteq> ''config_revision'' \<Longrightarrow> map_of c' k = map_of c k"
    using edit_config_root_values(2) [OF edit] by blast
  obtain t t' where t: "unwrap_or (TTable []) (map_of root ''network'') = TTable t"
      "edit_network_table n t = Inr t'" "map_of root' ''network'' = Some (TTable t')"
    using edit_config_root_values(3) [OF edit] by blast
  have "map_of c' = (map_of c)(''config_revision'' \<mapsto> TInteger (int (min (unat revision) i64_max)))"
    using c(3,4) by auto
  moreover have "fs_write fsys path out fs = (Inr (), fs')"
    using io by (simp add: prod_eq_iff)
  ultimately show ?thesis
    using io c t edit_config_root_values(1) [OF edit] edit_network_table_values(1,2) [OF t(2)]
    by blast
qed

theorem persisted_document_witness:
  "\<exists>root'. (\<lambda>_. Inr ''T'') (TTable root') = (Inr ''T'' :: (string, string) result) \<and>
     map_of root' ''identity'' = Some (TTable [])"
proof -
  let ?fsys = "\<lparr>fs_exists = (\<lambda>_ _. True), fs_read = (\<lambda>_ s. Inr s), fs_write = (\<lambda>_ t _. (Inr (), t))\<rparr>
    :: string file_system"
  let ?n = "\<lparr>server_ip = ''a'', listen_ip = None, server_port = 9000, relay_server_ip = None,
       relay_server_port = None, is_support_ipv6 = False, disable_quic = True, area = ''a'',
       bandwidth_quality = Normal, tag = None, operator_ips = None\<rparr>"
  have "persist_remote_network_config ?fsys (\<lambda>_. Inr (TTable [(''identity'', TTable [])])) (\<lambda>_. Inr ''T'')
      ''node.toml'' 2 ?n ''old'' = (Inr (), ''T'')"
    by (simp add: persist_remote_network_config_def edit_config_root_def table_entry_def
        edit_network_table_def)
  from persisted_document [OF this] show ?thesis
  proof (elim exE conjE)
    fix root root' :: toml_table
    assume root: "Inr (TTable [(''identity'', TTable [])]) = (Inr (TTable root) :: (string, toml) result)"
      and other: "\<forall>k. k \<noteq> ''control'' \<and> k \<noteq> ''network'' \<longrightarrow> map_of root' k = map_of root k"
    have "map_of root' ''identity'' = map_of root ''identity''"
      by (rule other [rule_format]) simp
    then have "map_of root' ''identity'' = Some (TTable [])" using root by (simp add: eq_commute [of _ root])
    then show ?thesis by blast
  qed
qed

end
