(* ===== verification/Identity.thy ===== *)
theory Identity
  imports Node_Config
begin

text \<open>
  \<open>node-core/src/identity.rs\<close>: the node's identity, read from the installer's identity file
  with the configuration as fallback. The JSON reader of the file is a parameter.
\<close>

record identity_state =
  id_node_id :: "u64 option"
  id_panel_url :: "string option"
  id_node_secret_present :: bool
  id_bootstrap_response_file :: "string option"
  id_created_by_installer :: bool
  id_node_secret :: "string option"

record identity_file =
  if_node_id :: "u64 option"
  if_panel_url :: "string option"
  if_node_secret :: "string option"
  if_bootstrap_response_file :: "string option"
  if_created_by_installer :: "bool option"

definition identity_from_config ::
  "'fs file_system \<Rightarrow> (string \<Rightarrow> (string, identity_file) result) \<Rightarrow> node_config \<Rightarrow> 'fs \<Rightarrow>
   (string, identity_state) result"
where
  "identity_from_config fsys identity_json config fs =
     (let path = ic_identity_file (nc_identity config)
      in if fs_exists fsys path fs then
           bind_result (map_err (\<lambda>_. ''failed to read '' @ path) (fs_read fsys path fs)) (\<lambda>content.
           bind_result (map_err (\<lambda>_. ''failed to parse '' @ path) (identity_json content)) (\<lambda>file.
           let node_secret = filter_option (\<lambda>s. trim s \<noteq> []) (if_node_secret file)
           in Inr
             \<lparr>id_node_id = or_option (if_node_id file) (ic_node_id (nc_identity config)),
              id_panel_url = or_option (if_panel_url file) (ic_panel_url (nc_identity config)),
              id_node_secret_present = (node_secret \<noteq> None),
              id_bootstrap_response_file = if_bootstrap_response_file file,
              id_created_by_installer = unwrap_or False (if_created_by_installer file),
              id_node_secret = node_secret\<rparr>))
         else Inr
           \<lparr>id_node_id = ic_node_id (nc_identity config),
            id_panel_url = ic_panel_url (nc_identity config),
            id_node_secret_present = False,
            id_bootstrap_response_file = map_option bc_response_file (nc_bootstrap config),
            id_created_by_installer = False,
            id_node_secret = None\<rparr>)"

definition is_bootstrap_placeholder :: "identity_state \<Rightarrow> bool" where
  "is_bootstrap_placeholder i = (id_node_id i = None \<or> \<not> id_node_secret_present i)"

definition control_plane_credentials :: "identity_state \<Rightarrow> (u64 \<times> string \<times> string) option" where
  "control_plane_credentials i =
     (case id_node_id i of None \<Rightarrow> None | Some node_id \<Rightarrow>
     (case id_panel_url i of None \<Rightarrow> None | Some url \<Rightarrow>
     (case id_node_secret i of None \<Rightarrow> None | Some secret \<Rightarrow> Some (node_id, url, secret))))"

definition identity_ok :: "identity_state \<Rightarrow> bool" where
  "identity_ok i \<longleftrightarrow>
     (id_node_secret_present i \<longleftrightarrow> id_node_secret i \<noteq> None) \<and>
     (\<forall>s. id_node_secret i = Some s \<longrightarrow> trim s \<noteq> [])"

lemma identity_from_config_ok:
  "identity_from_config fsys identity_json config fs = Inr i \<Longrightarrow> identity_ok i"
  by (auto simp: identity_from_config_def identity_ok_def Let_def filter_option_Some_iff
      split: if_splits)

lemma control_plane_credentials_iff:
  "control_plane_credentials i = Some (node_id, url, secret) \<longleftrightarrow>
     id_node_id i = Some node_id \<and> id_panel_url i = Some url \<and> id_node_secret i = Some secret"
  by (auto simp: control_plane_credentials_def split: option.splits)

lemma credentials_not_placeholder:
  "identity_ok i \<Longrightarrow> control_plane_credentials i \<noteq> None \<Longrightarrow> \<not> is_bootstrap_placeholder i"
  by (auto simp: identity_ok_def control_plane_credentials_def is_bootstrap_placeholder_def
      split: option.splits)

end
