(* ===== verification/Runtime_State.thy ===== *)
theory Runtime_State
  imports Runtime_Stats Identity
begin

text \<open>
  \<open>node-core/src/state.rs\<close>, the state behind the \<open>Arc\<close>: the configuration read at start, the
  identity, the counters, the session table, and the network configuration in force, which
  the control plane replaces at run time.
\<close>

datatype node_status = Ready | Registered

record runtime_config_state =
  rcs_config_revision :: u64
  rcs_network :: "network_config option"
  rcs_restart_required :: bool

record runtime_state =
  rs_config :: node_config
  rs_identity :: identity_state
  rs_started_at :: u64
  rs_status :: node_status
  rs_stats :: runtime_stats
  rs_sessions :: session_store
  rs_runtime_config :: "runtime_config_state mutex"

record config_apply_result =
  ca_applied :: bool
  ca_restart_required :: bool
  ca_previous_revision :: u64
  ca_current_revision :: u64

definition runtime_state_new :: "node_config \<Rightarrow> identity_state \<Rightarrow> u64 \<Rightarrow> runtime_state" where
  "runtime_state_new config identity now =
     \<lparr>rs_config = config, rs_identity = identity, rs_started_at = now,
      rs_status = (if is_bootstrap_placeholder identity then Registered else Ready),
      rs_stats = default_stats, rs_sessions = empty_store,
      rs_runtime_config = Healthy
        \<lparr>rcs_config_revision = max (unwrap_or 1 (map_option cc_config_revision (nc_control config))) 1,
         rcs_network = nc_network config,
         rcs_restart_required = False\<rparr>\<rparr>"

definition config_revision :: "runtime_state \<Rightarrow> u64" where
  "config_revision st =
     unwrap_or 1 (map_option rcs_config_revision (lock_value (rs_runtime_config st)))"

definition effective_network :: "runtime_state \<Rightarrow> network_config option" where
  "effective_network st =
     or_option (Option.bind (lock_value (rs_runtime_config st)) rcs_network)
       (nc_network (rs_config st))"

definition network_listener_changed :: "network_config \<Rightarrow> network_config \<Rightarrow> bool" where
  "network_listener_changed current remote =
     (server_ip current \<noteq> server_ip remote \<or> listen_ip current \<noteq> listen_ip remote \<or>
      server_port current \<noteq> server_port remote)"

definition merge_network :: "network_config \<Rightarrow> network_config \<Rightarrow> network_config" where
  "merge_network current remote =
     (let restart_required = network_listener_changed current remote;
          n1 = (if restart_required then current
                else current\<lparr>server_ip := server_ip remote, listen_ip := listen_ip remote,
                             server_port := server_port remote\<rparr>)
      in n1\<lparr>relay_server_ip := relay_server_ip remote,
            relay_server_port := relay_server_port remote,
            is_support_ipv6 := is_support_ipv6 remote, disable_quic := disable_quic remote,
            area := area remote, bandwidth_quality := bandwidth_quality remote,
            tag := tag remote, operator_ips := operator_ips remote\<rparr>)"

definition apply_remote_network_config ::
  "u64 \<Rightarrow> network_config \<Rightarrow> runtime_state \<Rightarrow> config_apply_result \<times> runtime_state"
where
  "apply_remote_network_config revision remote st =
     (case lock_value (rs_runtime_config st) of
        None \<Rightarrow>
          (\<lparr>ca_applied = False, ca_restart_required = False,
            ca_previous_revision = config_revision st,
            ca_current_revision = config_revision st\<rparr>, st)
      | Some config \<Rightarrow>
          (let previous = rcs_config_revision config
           in if revision \<le> previous then
                (\<lparr>ca_applied = False, ca_restart_required = rcs_restart_required config,
                  ca_previous_revision = previous, ca_current_revision = previous\<rparr>, st)
              else
                (let current = unwrap_or remote (rcs_network config);
                     restart = rcs_restart_required config \<or> network_listener_changed current remote
                 in (\<lparr>ca_applied = True, ca_restart_required = restart,
                       ca_previous_revision = previous, ca_current_revision = revision\<rparr>,
                     st\<lparr>rs_runtime_config := set_locked
                       \<lparr>rcs_config_revision = revision,
                        rcs_network = Some (merge_network current remote),
                        rcs_restart_required = restart\<rparr> (rs_runtime_config st)\<rparr>))))"

fun status_text :: "node_status \<Rightarrow> string" where
  "status_text Ready = ''ready''"
| "status_text Registered = ''registered''"

section \<open>The health snapshot\<close>

record health_config_snapshot =
  hc_channel :: string
  hc_health_addr :: string
  hc_network_loaded :: bool
  hc_config_revision :: u64
  hc_disable_quic :: "bool option"
  hc_area :: "string option"
  hc_bandwidth_quality :: "bandwidth_quality option"
  hc_tag :: "string option"
  hc_restart_required :: bool

record listener_snapshot =
  ls_udp_listening :: bool
  ls_tcp_listening :: bool
  ls_listen_addr :: "string option"

record health_snapshot =
  hs_status :: node_status
  hs_version :: string
  hs_node_id :: "u64 option"
  hs_panel_url :: "string option"
  hs_uptime_sec :: u64
  hs_config :: health_config_snapshot
  hs_listeners :: listener_snapshot
  hs_traffic :: traffic_snapshot
  hs_sessions :: session_snapshot
  hs_control_plane :: control_plane_snapshot

definition node_version :: string where
  "node_version = ''0.40.0''"

text \<open>The clock is read twice: for the uptime, and again to count the live sessions.\<close>

definition health_snapshot_of ::
  "u64 \<Rightarrow> u64 \<Rightarrow> runtime_state \<Rightarrow> health_snapshot \<times> runtime_state"
where
  "health_snapshot_of now1 now2 st =
     (let rc = unwrap_or
                 \<lparr>rcs_config_revision = 1, rcs_network = nc_network (rs_config st),
                  rcs_restart_required = False\<rparr> (lock_value (rs_runtime_config st));
          network = rcs_network rc;
          (active, sessions) = active_udp_session_count now2 (rs_sessions st)
      in (\<lparr>hs_status = rs_status st, hs_version = node_version,
           hs_node_id = id_node_id (rs_identity st),
           hs_panel_url = id_panel_url (rs_identity st),
           hs_uptime_sec = saturating_sub now1 (rs_started_at st),
           hs_config =
             \<lparr>hc_channel = rc_channel (nc_runtime (rs_config st)),
              hc_health_addr = show_socket_addr (rc_health_addr (nc_runtime (rs_config st))),
              hc_network_loaded = (network \<noteq> None),
              hc_config_revision = rcs_config_revision rc,
              hc_disable_quic = map_option disable_quic network,
              hc_area = map_option area network,
              hc_bandwidth_quality = map_option bandwidth_quality network,
              hc_tag = Option.bind network tag,
              hc_restart_required = rcs_restart_required rc\<rparr>,
           hs_listeners =
             \<lparr>ls_udp_listening = udp_listening (rs_stats st),
              ls_tcp_listening = tcp_listening (rs_stats st),
              ls_listen_addr = map_option listen_endpoint network\<rparr>,
           hs_traffic = traffic_snapshot_of (rs_stats st),
           hs_sessions = session_snapshot_of active (rs_stats st),
           hs_control_plane = control_plane_snapshot_of
             (unwrap_or False (map_option cc_enabled (nc_control (rs_config st)))) (rs_stats st)\<rparr>,
         st\<lparr>rs_sessions := sessions\<rparr>))"

section \<open>Applying remote configurations\<close>

text \<open>The listener a network configuration describes.\<close>

definition listener_of :: "network_config \<Rightarrow> string \<times> string option \<times> u16" where
  "listener_of n = (server_ip n, listen_ip n, server_port n)"

lemma network_listener_changed_iff:
  "network_listener_changed current remote \<longleftrightarrow> listener_of current \<noteq> listener_of remote"
  by (auto simp: network_listener_changed_def listener_of_def)

lemma listener_of_merge [frame_simps]: "listener_of (merge_network current remote) = listener_of current"
  by (auto simp: merge_network_def network_listener_changed_def listener_of_def Let_def)

lemma merge_network_same_listener:
  "listener_of current = listener_of remote \<Longrightarrow> merge_network current remote = remote"
  by (simp add: merge_network_def network_listener_changed_def listener_of_def Let_def)

lemma merge_network_rest [frame_simps]:
  "relay_server_port (merge_network current remote) = relay_server_port remote"
  "disable_quic (merge_network current remote) = disable_quic remote"
  "area (merge_network current remote) = area remote"
  "bandwidth_quality (merge_network current remote) = bandwidth_quality remote"
  by (simp_all add: merge_network_def Let_def)

lemma apply_frame [frame_simps]:
  "rs_config (snd (apply_remote_network_config r n st)) = rs_config st"
  "rs_identity (snd (apply_remote_network_config r n st)) = rs_identity st"
  "rs_stats (snd (apply_remote_network_config r n st)) = rs_stats st"
  "rs_sessions (snd (apply_remote_network_config r n st)) = rs_sessions st"
  by (auto simp: apply_remote_network_config_def Let_def split: option.splits)

lemma apply_result:
  assumes "lock_value (rs_runtime_config st) = Some c"
  shows "ca_applied (fst (apply_remote_network_config r n st)) \<longleftrightarrow> rcs_config_revision c < r"
    and "ca_previous_revision (fst (apply_remote_network_config r n st)) = rcs_config_revision c"
    and "ca_current_revision (fst (apply_remote_network_config r n st)) =
      max (rcs_config_revision c) r"
    and "config_revision (snd (apply_remote_network_config r n st)) = max (rcs_config_revision c) r"
  using assms
  by (auto simp: apply_remote_network_config_def Let_def config_revision_def max_def not_le)

text \<open>A run of configurations from the control plane, applied in the order they arrive.\<close>

fun apply_all :: "(u64 \<times> network_config) list \<Rightarrow> runtime_state \<Rightarrow> runtime_state" where
  "apply_all [] st = st"
| "apply_all ((r, n) # xs) st = apply_all xs (snd (apply_remote_network_config r n st))"

definition next_config :: "u64 \<Rightarrow> network_config \<Rightarrow> runtime_config_state \<Rightarrow> runtime_config_state" where
  "next_config r n c =
     (if r \<le> rcs_config_revision c then c
      else \<lparr>rcs_config_revision = r,
        rcs_network = Some (merge_network (unwrap_or n (rcs_network c)) n),
        rcs_restart_required = (rcs_restart_required c \<or>
          network_listener_changed (unwrap_or n (rcs_network c)) n)\<rparr>)"

lemma apply_locked:
  assumes "lock_value (rs_runtime_config st) = Some c"
  shows "lock_value (rs_runtime_config (snd (apply_remote_network_config r n st))) =
    Some (next_config r n c)"
  using assms by (simp add: apply_remote_network_config_def next_config_def Let_def)

lemma next_config_step:
  "rcs_config_revision (next_config r n c) = max (rcs_config_revision c) r"
  "rcs_restart_required c \<Longrightarrow> rcs_restart_required (next_config r n c)"
  "rcs_network c = Some m \<Longrightarrow>
     map_option listener_of (rcs_network (next_config r n c)) = Some (listener_of m)"
  "rcs_network c = Some m \<Longrightarrow> rcs_config_revision c < r \<Longrightarrow> listener_of n \<noteq> listener_of m \<Longrightarrow>
     rcs_restart_required (next_config r n c)"
  by (auto simp: next_config_def max_def listener_of_merge network_listener_changed_iff)

lemma apply_all_locked:
  assumes "lock_value (rs_runtime_config st) = Some c"
  shows "lock_value (rs_runtime_config (apply_all xs st)) =
    Some (fold (\<lambda>(r, n). next_config r n) xs c)"
  using assms by (induction xs arbitrary: st c) (auto simp: apply_locked)

lemma next_configs:
  "rcs_config_revision (fold (\<lambda>(r, n). next_config r n) xs c) =
     fold max (map fst xs) (rcs_config_revision c)"
  "rcs_restart_required c \<Longrightarrow> rcs_restart_required (fold (\<lambda>(r, n). next_config r n) xs c)"
  "rcs_network c = Some m \<Longrightarrow>
     map_option listener_of (rcs_network (fold (\<lambda>(r, n). next_config r n) xs c)) =
       Some (listener_of m)"
proof (induction xs arbitrary: c m)
  case (Cons x xs)
  obtain r n where [simp]: "x = (r, n)" by (cases x)
  {
    case 1
    show ?case using Cons.IH(1) [of "next_config r n c"]
      by (simp add: next_config_step max.commute)
  next
    case 2
    then show ?case using Cons.IH(2) [of "next_config r n c"]
      by (simp add: next_config_step)
  next
    case 3
    then have "map_option listener_of (rcs_network (next_config r n c)) = Some (listener_of m)"
      by (rule next_config_step)
    then obtain m1 where "rcs_network (next_config r n c) = Some m1" "listener_of m1 = listener_of m"
      by auto
    then show ?case using Cons.IH(3) [of "next_config r n c" m1] by simp
  }
qed simp_all

section \<open>Properties\<close>

text \<open>
  C26. Applying any sequence of configurations from the control plane, in any order of revisions,
  ends at the highest revision seen; the address the node listens on never changes while it
  runs; a restart once required stays required; and it is required as soon as a configuration
  with another listener was newer than everything before it.
\<close>

theorem remote_configs_converge:
  assumes "lock_value (rs_runtime_config st) = Some c" "rcs_network c = Some m"
  shows "\<exists>c'. lock_value (rs_runtime_config (apply_all xs st)) = Some c' \<and>
    rcs_config_revision c' = fold max (map fst xs) (rcs_config_revision c) \<and>
    map_option listener_of (rcs_network c') = Some (listener_of m) \<and>
    (rcs_restart_required c \<longrightarrow> rcs_restart_required c') \<and>
    (\<forall>ys r n zs. xs = ys @ (r, n) # zs \<and> fold max (map fst ys) (rcs_config_revision c) < r \<and>
       listener_of n \<noteq> listener_of m \<longrightarrow> rcs_restart_required c')"
proof (intro exI conjI allI impI)
  let ?f = "fold (\<lambda>(r, n). next_config r n)"
  show "lock_value (rs_runtime_config (apply_all xs st)) = Some (?f xs c)"
    using assms(1) by (rule apply_all_locked)
  show "rcs_config_revision (?f xs c) = fold max (map fst xs) (rcs_config_revision c)"
    "rcs_restart_required c \<Longrightarrow> rcs_restart_required (?f xs c)"
    "map_option listener_of (rcs_network (?f xs c)) = Some (listener_of m)"
    using next_configs assms(2) by blast+
  fix ys r n zs
  assume xs: "xs = ys @ (r, n) # zs \<and> fold max (map fst ys) (rcs_config_revision c) < r \<and>
    listener_of n \<noteq> listener_of m"
  obtain m1 where m1: "rcs_network (?f ys c) = Some m1" "listener_of m1 = listener_of m"
    using next_configs(3) [OF assms(2), of ys] by auto
  have "rcs_config_revision (?f ys c) < r" using xs by (simp add: next_configs(1))
  then have "rcs_restart_required (next_config r n (?f ys c))"
    using m1 xs by (intro next_config_step(4) [OF m1(1)]) simp_all
  then show "rcs_restart_required (?f xs c)"
    using xs next_configs(2) by simp
qed

text \<open>A concrete node for the instances.\<close>

definition sample_network :: "u16 \<Rightarrow> network_config" where
  "sample_network port =
     \<lparr>server_ip = ''10.0.0.1'', listen_ip = None, server_port = port, relay_server_ip = None,
      relay_server_port = None, is_support_ipv6 = False, disable_quic = True, area = ''a'',
      bandwidth_quality = Normal, tag = None, operator_ips = None\<rparr>"

definition sample_state :: runtime_state where
  "sample_state = runtime_state_new
     \<lparr>nc_identity = \<lparr>ic_node_id = Some 7, ic_panel_url = None, ic_identity_file = ''/id''\<rparr>,
      nc_runtime = \<lparr>rc_data_dir = ''/d'', rc_log_dir = ''/l'', rc_health_addr = SockV4 0x7F000001 80,
        rc_channel = ''stable''\<rparr>,
      nc_bootstrap = None, nc_control = None, nc_network = Some (sample_network 9000),
      nc_report = None, nc_limits = None\<rparr>
     \<lparr>id_node_id = Some 7, id_panel_url = None, id_node_secret_present = False,
      id_bootstrap_response_file = None, id_created_by_installer = False, id_node_secret = None\<rparr> 900"

lemma sample_state_config:
  "lock_value (rs_runtime_config sample_state) =
     Some \<lparr>rcs_config_revision = 1, rcs_network = Some (sample_network 9000), rcs_restart_required = False\<rparr>"
  by (simp add: sample_state_def runtime_state_new_def)

theorem remote_configs_converge_witness:
  "\<exists>c. lock_value (rs_runtime_config (apply_all [(5, sample_network 9001), (4, sample_network 9000)] sample_state)) = Some c \<and>
     rcs_config_revision c = 5 \<and> rcs_restart_required c \<and>
     map_option server_port (rcs_network c) = Some 9000"
proof -
  have loaded: "rcs_network \<lparr>rcs_config_revision = 1, rcs_network = Some (sample_network 9000),
      rcs_restart_required = False\<rparr> = Some (sample_network 9000)" by simp
  show ?thesis
    using remote_configs_converge [OF sample_state_config loaded,
        of "[(5, sample_network 9001), (4, sample_network 9000)]"]
  proof (elim exE conjE)
  have ne: "listener_of (sample_network 9001) \<noteq> listener_of (sample_network 9000)"
    by (simp add: listener_of_def sample_network_def)
  fix c
  assume found: "lock_value (rs_runtime_config (apply_all
      [(5, sample_network 9001), (4, sample_network 9000)] sample_state)) = Some c"
    and revision: "rcs_config_revision c = fold max (map fst
      [(5, sample_network 9001), (4, sample_network 9000)]) (rcs_config_revision
      \<lparr>rcs_config_revision = 1, rcs_network = Some (sample_network 9000), rcs_restart_required = False\<rparr>)"
    and listener: "map_option listener_of (rcs_network c) = Some (listener_of (sample_network 9000))"
    and restart: "\<forall>ys r n zs. [(5, sample_network 9001), (4, sample_network 9000)] = ys @ (r, n) # zs \<and>
      fold max (map fst ys) (rcs_config_revision
        \<lparr>rcs_config_revision = 1, rcs_network = Some (sample_network 9000), rcs_restart_required = False\<rparr>) < r \<and>
      listener_of n \<noteq> listener_of (sample_network 9000) \<longrightarrow> rcs_restart_required c"
  have "rcs_restart_required c"
    using restart [rule_format, of "[]" 5 "sample_network 9001" "[(4, sample_network 9000)]"] ne by simp
  moreover have "map_option server_port (rcs_network c) = Some 9000"
    using listener by (auto simp: listener_of_def sample_network_def)
  ultimately show ?thesis using found revision by (auto simp: max_def word_le_nat_alt)
  qed
qed

end
