(* ===== verification/Session.thy ===== *)
theory Session
  imports Session_Target Runtime_State
begin

text \<open>
  \<open>node-core/src/session.rs\<close>, the handlers: the answer to a probe, to a \<open>session.data\<close> message
  and to a raw tunnel frame. Each takes the node's state and the readings of the clock in the
  order the handler makes them, and gives the encoded answer, the new state, and the relays
  it performed, as (protocol, address, payload, timeout).
\<close>

section \<open>The outside world\<close>

record client_error =
  ce_message_type :: string
  ce_protocol :: string
  ce_node_version :: string
  ce_server_time :: u64
  ce_transport :: transport_kind
  ce_error :: code_message

record probe_session =
  ps_session_id :: string
  ps_status :: string
  ps_ttl_sec :: u64
  ps_intent_id :: "string option"
  ps_route_target_addr :: "string option"
  ps_route_policy_id :: "string option"
  ps_route_policy_hash :: "string option"
  ps_auth_required :: bool
  ps_credential_present :: bool
  ps_credential_valid :: bool
  ps_credential_expires_at :: "u64 option"
  ps_user_id :: "u64 option"
  ps_device_id :: "string option"
  ps_game_id :: "u64 option"
  ps_region_id :: "u64 option"

record client_probe_response =
  pp_message_type :: string
  pp_protocol :: string
  pp_node_id :: "u64 option"
  pp_node_version :: string
  pp_server_time :: u64
  pp_transport :: transport_kind
  pp_requested_transport :: "string option"
  pp_client_nonce :: "string option"
  pp_session :: probe_session
  pp_capabilities :: "string list"

record session_target_info =
  ti_target_id :: "string option"
  ti_protocol :: string
  ti_address :: string
  ti_matched_policy :: "string option"

record relay_info =
  ri_mode :: string
  ri_timeout_ms :: u64
  ri_timed_out :: bool
  ri_upstream_tx_bytes :: u64
  ri_upstream_rx_bytes :: u64

record session_data_info =
  di_created_at :: u64
  di_expires_at :: u64
  di_authenticated :: bool
  di_intent_id :: "string option"
  di_route_target_addr :: "string option"
  di_route_policy_id :: "string option"
  di_route_policy_hash :: "string option"
  di_user_id :: "u64 option"
  di_device_id :: "string option"
  di_game_id :: "u64 option"
  di_region_id :: "u64 option"

record client_session_data_response =
  dr_message_type :: string
  dr_protocol :: string
  dr_node_id :: "u64 option"
  dr_node_version :: string
  dr_server_time :: u64
  dr_transport :: transport_kind
  dr_session_id :: string
  dr_client_nonce :: "string option"
  dr_status :: string
  dr_payload :: string
  dr_payload_bytes :: u64
  dr_request_payload_bytes :: u64
  dr_target :: "session_target_info option"
  dr_relay :: "relay_info option"
  dr_session :: session_data_info

text \<open>\<open>serde_json::to_vec\<close> at each type it is used at, the digests, the resolver, the sockets.\<close>

record json_writers =
  json_of_probe :: "client_probe_response \<Rightarrow> (string, bytes) result"
  json_of_data :: "client_session_data_response \<Rightarrow> (string, bytes) result"
  json_of_error :: "client_error \<Rightarrow> (string, bytes) result"
  json_of_policy :: "route_policy \<Rightarrow> (string, bytes) result"

record world =
  w_crypto :: crypto
  w_readers :: json_readers
  w_writers :: json_writers
  w_lookup_host :: resolver
  w_sockets :: sockets

type_synonym clock = "nat \<Rightarrow> int"
type_synonym relay = "relay_protocol \<times> socket_addr \<times> bytes \<times> u64"
type_synonym handled = "(string, bytes) result \<times> runtime_state \<times> relay list"

definition update_stats :: "(runtime_stats \<Rightarrow> runtime_stats) \<Rightarrow> runtime_state \<Rightarrow> runtime_state" where
  "update_stats f st = st\<lparr>rs_stats := f (rs_stats st)\<rparr>"

definition newline_byte :: byte where "newline_byte = char_of (10::nat)"

definition encode_json_line :: "('v \<Rightarrow> (string, bytes) result) \<Rightarrow> 'v \<Rightarrow> (string, bytes) result" where
  "encode_json_line to_json value =
     bind_result (map_err (\<lambda>_. ''failed to encode probe response'') (to_json value))
       (\<lambda>encoded. Inr (encoded @ [newline_byte]))"

section \<open>Errors\<close>

definition build_client_error ::
  "world \<Rightarrow> u64 \<Rightarrow> transport_kind \<Rightarrow> string \<Rightarrow> code_message \<Rightarrow> (string, bytes) result"
where
  "build_client_error w now transport message_type error =
     encode_json_line (json_of_error (w_writers w))
       \<lparr>ce_message_type = message_type, ce_protocol = protocol_version,
        ce_node_version = node_version, ce_server_time = now, ce_transport = transport,
        ce_error = error\<rparr>"

definition build_probe_error_with_code ::
  "world \<Rightarrow> u64 \<Rightarrow> runtime_state \<Rightarrow> transport_kind \<Rightarrow> code_message \<Rightarrow> handled"
where
  "build_probe_error_with_code w now st transport error =
     (build_client_error w now transport ''probe.error'' error,
      update_stats record_probe_rejected st, [])"

definition build_probe_error ::
  "world \<Rightarrow> u64 \<Rightarrow> runtime_state \<Rightarrow> transport_kind \<Rightarrow> string \<Rightarrow> handled"
where
  "build_probe_error w now st transport message =
     build_probe_error_with_code w now st transport (''invalid_probe'', message)"

definition build_session_error ::
  "world \<Rightarrow> u64 \<Rightarrow> runtime_state \<Rightarrow> transport_kind \<Rightarrow> code_message \<Rightarrow> (string, bytes) result"
where
  "build_session_error w now st transport error =
     build_client_error w now transport ''session.error'' error"

section \<open>Probes\<close>

definition probe_ttl_sec :: u64 where "probe_ttl_sec = 30"

record probe_identity =
  pi_credential_present :: bool
  pi_credential_valid :: bool
  pi_credential_expires_at :: "u64 option"
  pi_intent_id :: "string option"
  pi_route_target_addr :: "string option"
  pi_route_policy :: "route_policy option"
  pi_route_policy_id :: "string option"
  pi_route_policy_hash :: "string option"
  pi_user_id :: "u64 option"
  pi_device_id :: "string option"
  pi_game_id :: "u64 option"
  pi_region_id :: "u64 option"

definition identity_from_request :: "client_probe_request \<Rightarrow> probe_identity" where
  "identity_from_request request =
     \<lparr>pi_credential_present = False, pi_credential_valid = False,
      pi_credential_expires_at = None, pi_intent_id = None, pi_route_target_addr = None,
      pi_route_policy = None, pi_route_policy_id = None, pi_route_policy_hash = None,
      pi_user_id = pq_user_id request, pi_device_id = pq_device_id request,
      pi_game_id = pq_game_id request, pi_region_id = pq_region_id request\<rparr>"

text \<open>The policy of the request against the hash and the id the token carries.\<close>

definition check_route_policy ::
  "world \<Rightarrow> client_token_claims \<Rightarrow> route_policy option \<Rightarrow> (code_message, unit) result"
where
  "check_route_policy w claims policy_opt =
     (case ct_route_policy_hash claims of
        None \<Rightarrow> Inr ()
      | Some expected_hash \<Rightarrow>
          (case policy_opt of
             None \<Rightarrow> Inl (''missing_route_policy'', ''route_policy is required by token'')
           | Some policy \<Rightarrow>
               bind_result (map_err
                 (\<lambda>e. (''invalid_route_policy'', ''failed to hash route_policy: '' @ e))
                 (hash_route_policy (w_crypto w) (json_of_policy (w_writers w)) policy))
                 (\<lambda>actual_hash.
               if actual_hash \<noteq> expected_hash then
                 Inl (''route_policy_mismatch'', ''route_policy hash does not match token'')
               else if is_some_and (\<lambda>pid. policy_id policy \<noteq> pid) (ct_route_policy_id claims) then
                 Inl (''route_policy_mismatch'', ''route_policy policy_id does not match token'')
               else Inr ())))"

definition identity_from_claims ::
  "world \<Rightarrow> client_token_claims \<Rightarrow> route_policy option \<Rightarrow> (code_message, probe_identity) result"
where
  "identity_from_claims w claims policy_opt =
     bind_result (check_route_policy w claims policy_opt) (\<lambda>_.
     let dynamic_route = ct_route_policy_hash claims \<noteq> None
     in Inr
       \<lparr>pi_credential_present = True, pi_credential_valid = True,
        pi_credential_expires_at = Some (ct_expires_at claims),
        pi_intent_id = ct_intent_id claims,
        pi_route_target_addr =
          (if dynamic_route then None else map_option cr_target_addr (ct_route claims)),
        pi_route_policy = (if dynamic_route then policy_opt else None),
        pi_route_policy_id = ct_route_policy_id claims,
        pi_route_policy_hash = ct_route_policy_hash claims,
        pi_user_id = Some (ct_user_id claims), pi_device_id = Some (ct_device_id claims),
        pi_game_id = Some (ct_game_id claims), pi_region_id = ct_region_id claims\<rparr>)"

definition build_session_id :: "transport_kind \<Rightarrow> u64 \<Rightarrow> socket_addr \<Rightarrow> u64 \<Rightarrow> string" where
  "build_session_id transport now peer sequence =
     ''ps-'' @ transport_as_str transport @ ''-'' @ show_u64 now @ ''-'' @
     replace_char (CHR ''.'') (CHR ''-'') (replace_char (CHR '':'') (CHR ''-'') (show_socket_addr peer)) @
     ''-'' @ show_u64 sequence"

definition capabilities :: "string list" where
  "capabilities =
     [''tcp_probe'', ''udp_probe'', ''token_auth_hmac_v1'', ''udp_session_echo'',
      ''udp_target_relay'', ''tcp_target_relay'', ''connect_intent_route'',
      ''dynamic_route_policy'', ''port_range_target'', ''domain_target'',
      ''long_lived_tcp_channel'', ''session_stats'']"

text \<open>
  The session of an admitted probe. Clock readings: 1 names it, 2 dates it, 3 sweeps the
  table, 4 stamps the answer; reading 0 was the token check's.
\<close>

definition admit_probe ::
  "world \<Rightarrow> clock \<Rightarrow> runtime_state \<Rightarrow> transport_kind \<Rightarrow> socket_addr \<Rightarrow> client_probe_request \<Rightarrow>
   probe_identity \<Rightarrow> handled"
where
  "admit_probe w clk st transport peer request identity =
     (let (sequence, stats1) = next_probe_sequence (rs_stats st);
          session_id = build_session_id transport (now_unix (clk 1)) peer sequence;
          stats2 = record_probe_session session_id stats1;
          session = udp_session_new session_id (pi_user_id identity) (pi_device_id identity)
            (pi_game_id identity) (pi_region_id identity) (pi_credential_valid identity)
            (pi_intent_id identity) (pi_route_target_addr identity) (pi_route_policy identity)
            (pi_route_policy_id identity) (pi_route_policy_hash identity) probe_ttl_sec peer
            (now_unix (clk 2));
          st' = st\<lparr>rs_stats := stats2,
            rs_sessions := register_udp_session (now_unix (clk 3)) session (rs_sessions st)\<rparr>
      in (encode_json_line (json_of_probe (w_writers w))
            \<lparr>pp_message_type = ''probe.ok'', pp_protocol = protocol_version,
             pp_node_id = id_node_id (rs_identity st), pp_node_version = node_version,
             pp_server_time = now_unix (clk 4), pp_transport = transport,
             pp_requested_transport = pq_transport request,
             pp_client_nonce = pq_client_nonce request,
             pp_session =
               \<lparr>ps_session_id = session_id, ps_status = ''probe_only'',
                ps_ttl_sec = probe_ttl_sec, ps_intent_id = pi_intent_id identity,
                ps_route_target_addr = pi_route_target_addr identity,
                ps_route_policy_id = pi_route_policy_id identity,
                ps_route_policy_hash = pi_route_policy_hash identity,
                ps_auth_required = True,
                ps_credential_present = pi_credential_present identity,
                ps_credential_valid = pi_credential_valid identity,
                ps_credential_expires_at = pi_credential_expires_at identity,
                ps_user_id = pi_user_id identity, ps_device_id = pi_device_id identity,
                ps_game_id = pi_game_id identity, ps_region_id = pi_region_id identity\<rparr>,
             pp_capabilities = capabilities\<rparr>,
          st', []))"

definition build_probe_response ::
  "world \<Rightarrow> clock \<Rightarrow> runtime_state \<Rightarrow> transport_kind \<Rightarrow> socket_addr \<Rightarrow> client_probe_request \<Rightarrow> handled"
where
  "build_probe_response w clk st transport peer request =
     (case verify_probe_token (w_crypto w) (claims_of_json (w_readers w)) request
             (id_node_id (rs_identity st)) (id_node_secret (rs_identity st)) (now_unix (clk 0)) of
        AuthMissing \<Rightarrow>
          admit_probe w clk (update_stats record_auth_missing st) transport peer request
            (identity_from_request request)
      | AuthValid claims \<Rightarrow>
          (let st1 = update_stats record_auth_ok st
           in case identity_from_claims w claims (pq_route_policy request) of
                Inr identity \<Rightarrow> admit_probe w clk st1 transport peer request identity
              | Inl error \<Rightarrow>
                  build_probe_error_with_code w (now_unix (clk 4))
                    (update_stats record_auth_failed st1) transport error)
      | AuthInvalid error \<Rightarrow>
          build_probe_error_with_code w (now_unix (clk 4))
            (update_stats record_auth_failed st) transport error)"

section \<open>Session data\<close>

fun session_error_answer :: "udp_session_error \<Rightarrow> code_message" where
  "session_error_answer Expired = (''session_expired'', ''session expired'')"
| "session_error_answer Missing = (''session_not_found'', ''session_id not found'')"
| "session_error_answer LockPoisoned = (''session_not_found'', ''session_id not found'')"

fun record_session_error :: "udp_session_error \<Rightarrow> runtime_stats \<Rightarrow> runtime_stats" where
  "record_session_error Expired = record_udp_session_expired"
| "record_session_error Missing = record_udp_session_miss"
| "record_session_error LockPoisoned = record_udp_session_miss"

definition session_data_info_of :: "udp_session_snapshot \<Rightarrow> session_data_info" where
  "session_data_info_of s =
     \<lparr>di_created_at = sn_created_at s, di_expires_at = sn_expires_at s,
      di_authenticated = sn_authenticated s, di_intent_id = sn_intent_id s,
      di_route_target_addr = sn_route_target_addr s, di_route_policy_id = sn_route_policy_id s,
      di_route_policy_hash = sn_route_policy_hash s, di_user_id = sn_user_id s,
      di_device_id = sn_device_id s, di_game_id = sn_game_id s, di_region_id = sn_region_id s\<rparr>"

text \<open>What the relay made of the answer: status, text payload, payload bytes, target and relay.\<close>

record data_answer =
  da_status :: string
  da_payload :: string
  da_payload_bytes :: bytes
  da_target :: "session_target_info option"
  da_relay :: "relay_info option"

definition relay_session_data ::
  "world \<Rightarrow> client_session_data_request \<Rightarrow> bytes \<Rightarrow> resolved_target \<Rightarrow> runtime_stats \<Rightarrow>
   (code_message, data_answer) result \<times> runtime_stats \<times> relay list"
where
  "relay_session_data w request payload_bytes target stats =
     (let timeout_ms = clamp_relay_timeout (dq_response_timeout_ms request);
          relayed = [(rv_protocol target, rv_socket_addr target, payload_bytes, timeout_ms)]
      in case relay_payload (rv_protocol target) (w_sockets w) (rv_socket_addr target)
               payload_bytes timeout_ms of
           Inl error \<Rightarrow> (Inl (''relay_error'', error), record_udp_relay_error stats, relayed)
         | Inr relay \<Rightarrow>
             (let stats1 = record_udp_relay_tx (ro_upstream_tx_bytes relay) stats;
                  info = Some
                    \<lparr>ti_target_id = map_option tm_target_id (rv_policy_match target),
                     ti_protocol = relay_protocol_as_str (rv_protocol target),
                     ti_address = show_socket_addr (rv_socket_addr target),
                     ti_matched_policy = map_option tm_policy_id (rv_policy_match target)\<rparr>;
                  rinfo = Some
                    \<lparr>ri_mode = relay_mode (rv_protocol target), ri_timeout_ms = timeout_ms,
                     ri_timed_out = ro_timed_out relay,
                     ri_upstream_tx_bytes = ro_upstream_tx_bytes relay,
                     ri_upstream_rx_bytes = of_nat (length (ro_payload relay))\<rparr>
              in if ro_timed_out relay then
                   (Inr \<lparr>da_status = ''upstream_timeout'', da_payload = [], da_payload_bytes = [],
                         da_target = info, da_relay = rinfo\<rparr>,
                    record_udp_relay_timeout stats1, relayed)
                 else
                   (Inr \<lparr>da_status = ''forwarded'',
                         da_payload = b64_encode (w_crypto w) (ro_payload relay),
                         da_payload_bytes = ro_payload relay,
                         da_target = info, da_relay = rinfo\<rparr>,
                    record_udp_relay_rx (of_nat (length (ro_payload relay))) stats1, relayed)))"

text \<open>
  The request after its session was found: authorisation, target, relay, answer. Clock
  readings: 1 stamps the answer (or the error), 2 accounts for it. \<open>st\<close> already holds the
  accounting of the request.
\<close>

definition answer_session_data ::
  "world \<Rightarrow> clock \<Rightarrow> runtime_state \<Rightarrow> transport_kind \<Rightarrow> socket_addr \<Rightarrow>
   client_session_data_request \<Rightarrow> string \<Rightarrow> string \<Rightarrow> bytes \<Rightarrow> udp_session_snapshot \<Rightarrow> handled"
where
  "answer_session_data w clk st transport peer request session_id payload payload_bytes session =
     (let fail = (\<lambda>error st'. (build_session_error w (now_unix (clk 1)) st' transport error, st'))
      in if (has_session_target request \<or> sn_route_target_addr session \<noteq> None)
            \<and> \<not> sn_authenticated session then
           (let (r, st') = fail (''relay_auth_required'', ''target relay requires a valid client token'')
                  (update_stats record_udp_relay_error st) in (r, st', []))
         else case resolve_session_target (w_lookup_host w) request
                (sn_route_target_addr session) (sn_route_policy session) of
           Inl error \<Rightarrow>
             (let (r, st') = fail error (update_stats record_udp_relay_error st) in (r, st', []))
         | Inr target_opt \<Rightarrow>
             (let (outcome, stats, relays) =
                (case target_opt of
                   None \<Rightarrow>
                     (Inr \<lparr>da_status = ''echo'', da_payload = payload,
                           da_payload_bytes = payload_bytes, da_target = None, da_relay = None\<rparr>,
                      rs_stats st, [])
                 | Some target \<Rightarrow> relay_session_data w request payload_bytes target (rs_stats st));
                  st1 = st\<lparr>rs_stats := stats\<rparr>
              in case outcome of
                Inl error \<Rightarrow> (let (r, st') = fail error st1 in (r, st', relays))
              | Inr ans \<Rightarrow>
                  (case encode_json_line (json_of_data (w_writers w))
                     \<lparr>dr_message_type = ''session.data.ok'', dr_protocol = protocol_version,
                      dr_node_id = id_node_id (rs_identity st), dr_node_version = node_version,
                      dr_server_time = now_unix (clk 1), dr_transport = transport,
                      dr_session_id = sn_session_id session,
                      dr_client_nonce = dq_client_nonce request, dr_status = da_status ans,
                      dr_payload = da_payload ans,
                      dr_payload_bytes = of_nat (length (da_payload_bytes ans)),
                      dr_request_payload_bytes = of_nat (length payload_bytes),
                      dr_target = da_target ans, dr_relay = da_relay ans,
                      dr_session = session_data_info_of session\<rparr> of
                     Inl error \<Rightarrow> (Inl error, st1, relays)
                   | Inr encoded \<Rightarrow>
                       (Inr encoded,
                        st1\<lparr>rs_sessions := snd (record_udp_session_io (now_unix (clk 2)) session_id
                               peer 0 (of_nat (length encoded)) (rs_sessions st1)),
                            rs_stats := record_udp_session_tx (of_nat (length encoded))
                              (record_udp_session_rx (of_nat (length payload_bytes)) stats)\<rparr>,
                        relays))))"

definition build_session_data_response ::
  "world \<Rightarrow> clock \<Rightarrow> runtime_state \<Rightarrow> transport_kind \<Rightarrow> socket_addr \<Rightarrow>
   client_session_data_request \<Rightarrow> handled"
where
  "build_session_data_response w clk st transport peer request =
     (let missed = update_stats record_udp_session_miss st;
          fail = (\<lambda>error st'. (build_session_error w (now_unix (clk 1)) st' transport error, st', []))
      in case nonempty_trimmed (dq_session_id request) of
        None \<Rightarrow> fail (''missing_session_id'', ''session_id is required'') missed
      | Some session_id \<Rightarrow>
      (case dq_payload request of
        None \<Rightarrow> fail (''missing_payload'', ''payload is required'') missed
      | Some payload \<Rightarrow>
      (case b64_decode (w_crypto w) payload of
        None \<Rightarrow> fail (''invalid_payload'', ''payload must be base64'') missed
      | Some payload_bytes \<Rightarrow>
          (let (found, sessions) = record_udp_session_io (now_unix (clk 0)) session_id peer
                 (of_nat (length payload_bytes)) 0 (rs_sessions st);
               st1 = st\<lparr>rs_sessions := sessions\<rparr>
           in case found of
                Inl error \<Rightarrow>
                  fail (session_error_answer error) (update_stats (record_session_error error) st1)
              | Inr session \<Rightarrow>
                  answer_session_data w clk st1 transport peer request session_id payload
                    payload_bytes session))))"

section \<open>The raw tunnel\<close>

definition tunnel_target_request :: "raw_udp_tunnel_request \<Rightarrow> client_session_data_request" where
  "tunnel_target_request request =
     \<lparr>dq_session_id = Some (ru_session_id request), dq_client_nonce = None, dq_payload = None,
      dq_target_addr = None, dq_target_host = None, dq_target_port = None,
      dq_target_protocol = Some ''udp'',
      dq_target = Some
        \<lparr>sd_target_id = ru_target_id request, sd_protocol = Some ''udp'',
         sd_host = ru_host request, sd_port = ru_port request, sd_original_domain = None\<rparr>,
      dq_response_timeout_ms = Some default_relay_timeout_ms\<rparr>"

definition tunnel_reply :: "raw_udp_tunnel_request \<Rightarrow> string \<Rightarrow> bytes \<Rightarrow> (string, bytes) result" where
  "tunnel_reply request status payload =
     Inr (encode_raw_udp_tunnel_response (ru_session_id request) status payload)"

text \<open>The relay of a frame whose target is known; clock reading 1 accounts for the answer.\<close>

definition relay_tunnel_frame ::
  "world \<Rightarrow> clock \<Rightarrow> runtime_state \<Rightarrow> socket_addr \<Rightarrow> raw_udp_tunnel_request \<Rightarrow> resolved_target \<Rightarrow> handled"
where
  "relay_tunnel_frame w clk st peer request target =
     (let relayed = [(RelayUdp, rv_socket_addr target, ru_payload request, default_relay_timeout_ms)]
      in case relay_udp_payload (w_sockets w) (rv_socket_addr target) (ru_payload request)
               default_relay_timeout_ms of
        Inl _ \<Rightarrow>
          (tunnel_reply request ''relay_error'' [], update_stats record_udp_relay_error st, relayed)
      | Inr relay \<Rightarrow>
          (let st1 = update_stats (record_udp_relay_tx (ro_upstream_tx_bytes relay)) st
           in if ro_timed_out relay then
                (tunnel_reply request ''upstream_timeout'' [],
                 update_stats record_udp_relay_timeout st1, relayed)
              else
                (let n = of_nat (length (ro_payload relay));
                     st2 = update_stats (\<lambda>s. record_udp_session_tx n
                             (record_udp_session_rx (of_nat (length (ru_payload request)))
                               (record_udp_relay_rx n s))) st1
                 in (tunnel_reply request ''forwarded'' (ro_payload relay),
                     st2\<lparr>rs_sessions := snd (record_udp_session_io (now_unix (clk 1))
                       (ru_session_id request) peer 0 n (rs_sessions st2))\<rparr>, relayed))))"

fun tunnel_error_status :: "udp_session_error \<Rightarrow> string" where
  "tunnel_error_status Expired = ''session_expired''"
| "tunnel_error_status Missing = ''session_not_found''"
| "tunnel_error_status LockPoisoned = ''session_not_found''"

definition build_raw_udp_tunnel_response ::
  "world \<Rightarrow> clock \<Rightarrow> runtime_state \<Rightarrow> transport_kind \<Rightarrow> socket_addr \<Rightarrow> raw_udp_tunnel_request \<Rightarrow> handled"
where
  "build_raw_udp_tunnel_response w clk st transport peer request =
     (if transport \<noteq> Udp \<and> transport \<noteq> Quic then
        (tunnel_reply request ''unsupported_transport'' [], st, [])
      else
        (let (found, sessions) = record_udp_session_io (now_unix (clk 0)) (ru_session_id request) peer
               (of_nat (length (ru_payload request))) 0 (rs_sessions st);
             st1 = st\<lparr>rs_sessions := sessions\<rparr>;
             refused = update_stats record_udp_relay_error st1
         in case found of
              Inl error \<Rightarrow>
                (tunnel_reply request (tunnel_error_status error) [],
                 update_stats (record_session_error error) st1, [])
            | Inr session \<Rightarrow>
                if \<not> sn_authenticated session then
                  (tunnel_reply request ''relay_auth_required'' [], refused, [])
                else (case resolve_session_target (w_lookup_host w) (tunnel_target_request request)
                       (sn_route_target_addr session) (sn_route_policy session) of
                    Inr (Some target) \<Rightarrow> relay_tunnel_frame w clk st1 peer request target
                  | Inr None \<Rightarrow> (tunnel_reply request ''missing_target'' [], refused, [])
                  | Inl error \<Rightarrow> (tunnel_reply request (fst error) [], refused, []))))"

section \<open>The bounds of a relay\<close>

text \<open>
  C25. One relay of session data. It goes once, to the resolved target, with the request's bytes
  and under one timeout: 200 ms when the client named none and otherwise the client's own, raised
  to 1 ms and cut to 1000 ms. A relay without an error either says \<open>upstream_timeout\<close>, exactly when
  the target's socket gave nothing within that time, brings back nothing and is counted as a
  timeout; or it says \<open>forwarded\<close> and brings back the first 4096 bytes of what the socket gave. The
  relay report of the answer has the timeout, whether it elapsed, and the bytes brought back.
\<close>

theorem relay_is_bounded:
  assumes "relay_session_data w request b target s = (r, s', rs)"
  shows "\<exists>ms. rs = [(rv_protocol target, rv_socket_addr target, b, ms)] \<and>
    unat ms = (case dq_response_timeout_ms request of
      None \<Rightarrow> 200 | Some asked \<Rightarrow> max 1 (min 1000 (unat asked))) \<and>
    (let arrived = (case rv_protocol target of
           RelayUdp \<Rightarrow> udp_recv (w_sockets w) (rv_socket_addr target) ms
         | RelayTcp \<Rightarrow> tcp_read (w_sockets w) (rv_socket_addr target) ms)
     in case r of
          Inl (code, _) \<Rightarrow> code = ''relay_error'' \<and> udp_relay_error s' = udp_relay_error s + 1
        | Inr answer \<Rightarrow> (case da_relay answer of None \<Rightarrow> False | Some report \<Rightarrow>
            ri_timeout_ms report = ms \<and>
            ri_upstream_rx_bytes report = of_nat (length (da_payload_bytes answer)) \<and>
            da_payload_bytes answer = (case arrived of Within (Inr got) \<Rightarrow> take 4096 got | _ \<Rightarrow> []) \<and>
            length (da_payload_bytes answer) \<le> 4096 \<and>
            (if ri_timed_out report
             then arrived = Elapsed \<and> da_status answer = ''upstream_timeout'' \<and> da_payload answer = [] \<and>
               udp_relay_timeout s' = udp_relay_timeout s + 1
             else (\<exists>got. arrived = Within (Inr got)) \<and> da_status answer = ''forwarded'' \<and>
               da_payload answer = b64_encode (w_crypto w) (da_payload_bytes answer) \<and>
               udp_relay_timeout s' = udp_relay_timeout s)))"
proof -
  let ?ms = "clamp_relay_timeout (dq_response_timeout_ms request)"
  let ?p = "rv_protocol target" let ?a = "rv_socket_addr target"
  have rs: "rs = [(?p, ?a, b, ?ms)]"
    using assms by (auto simp: relay_session_data_def Let_def split: sum.splits if_splits)
  show ?thesis
  proof (cases "relay_payload ?p (w_sockets w) ?a b ?ms")
    case (Inl e)
    then have "r = Inl (''relay_error'', e)" "s' = record_udp_relay_error s"
      using assms by (auto simp: relay_session_data_def Let_def)
    then show ?thesis
      using rs unat_clamp_relay_timeout by (intro exI [of _ ?ms]) (simp add: stats_defs)
  next
    case (Inr relay)
    note out = relay_payload_answer [OF Inr, unfolded upstream_answer_def]
    show ?thesis
      using assms rs out
      by (intro exI [of _ ?ms])
        (auto simp: relay_session_data_def Inr Let_def stats_defs unat_clamp_relay_timeout)
  qed
qed

end
