(* ===== verification/Session_Safety.thy ===== *)
theory Session_Safety
  imports Session
begin

text \<open>
  What the handlers of \<open>Session\<close> guarantee: the parts of the state each leaves alone, what a
  session in the table was admitted on, and when a payload is relayed.
\<close>

lemma update_stats_fields [frame_simps, simp]:
  "rs_sessions (update_stats f st) = rs_sessions st"
  "rs_identity (update_stats f st) = rs_identity st"
  "rs_config (update_stats f st) = rs_config st"
  "rs_runtime_config (update_stats f st) = rs_runtime_config st"
  "rs_stats (update_stats f st) = f (rs_stats st)"
  by (simp_all add: update_stats_def)

section \<open>Session ids\<close>

lemma last_field_unique:
  "xs @ d # a = ys @ d # b \<Longrightarrow> d \<notin> set a \<Longrightarrow> d \<notin> set b \<Longrightarrow> a = b"
  by (auto simp: append_eq_append_conv2 Cons_eq_append_conv append_eq_Cons_conv)

lemma dash_not_in_number: "CHR ''-'' \<notin> set (show_u64 n)"
  unfolding show_u64_def by (rule show_nat_avoids) (simp add: code_of_def)

text \<open>The number an id ends with, as the inverse of \<open>build_session_id\<close>.\<close>

definition sequence_of_id :: "string \<Rightarrow> nat option" where
  "sequence_of_id sid =
     (case rsplit_once (CHR ''-'') sid of None \<Rightarrow> None | Some (_, n) \<Rightarrow> parse_uint (2 ^ 64) n)"

lemma rsplit_once_last: "d \<notin> set b \<Longrightarrow> rsplit_once d (a @ d # b) = Some (a, b)"
proof -
  assume "d \<notin> set b"
  then have "split_once d (rev (a @ d # b)) = Some (rev b, rev a)"
    by (simp add: split_once_Some_iff)
  then show ?thesis by (simp add: rsplit_once_def)
qed

lemma unat_lt_size: "unat (n :: u64) < 18446744073709551616"
  using unsigned_less [of n] by simp

lemma sequence_of_build_session_id [simp]:
  "sequence_of_id (build_session_id transport now peer sequence) = Some (unat sequence)"
proof -
  obtain a where "build_session_id transport now peer sequence = a @ CHR ''-'' # show_u64 sequence"
    by (simp add: build_session_id_def)
  then show ?thesis
    using unat_lt_size [of sequence]
    by (simp add: rsplit_once_last [OF dash_not_in_number, unfolded show_u64_def] sequence_of_id_def rsplit_once_last dash_not_in_number show_u64_def)
qed

lemma build_session_id_sequence:
  "build_session_id t now peer n = build_session_id t' now' peer' m \<Longrightarrow> n = m"
  by (metis option.inject sequence_of_build_session_id unsigned_word_eqI)

section \<open>Frames\<close>

text \<open>What no handler touches, and what only a probe touches.\<close>

definition same_node :: "runtime_state \<Rightarrow> runtime_state \<Rightarrow> bool" where
  "same_node st st' \<longleftrightarrow>
     rs_config st' = rs_config st \<and> rs_identity st' = rs_identity st \<and>
     rs_started_at st' = rs_started_at st \<and> rs_status st' = rs_status st \<and>
     rs_runtime_config st' = rs_runtime_config st"

text \<open>The table may lose sessions and account traffic, but describes the others as before.\<close>

definition sessions_kept :: "session_store \<Rightarrow> session_store \<Rightarrow> bool" where
  "sessions_kept st st' \<longleftrightarrow>
     (store_ok st \<longrightarrow> store_ok st') \<and> poisoned st' = poisoned st \<and>
     (store_ok st \<longrightarrow> (\<forall>sid s'. lookup_session st' sid = Some s' \<longrightarrow>
        (\<exists>s. lookup_session st sid = Some s \<and> snapshot s' = snapshot s)))"

lemma same_node_refl [simp]: "same_node st st"
  by (simp add: same_node_def)

lemma same_node_trans: "same_node a b \<Longrightarrow> same_node b c \<Longrightarrow> same_node a c"
  by (simp add: same_node_def)

lemma same_node_update [simp]:
  "same_node st (update_stats f st)"
  "same_node st (st\<lparr>rs_stats := s, rs_sessions := t\<rparr>)"
  by (simp_all add: same_node_def update_stats_def)

lemma sessions_kept_refl [simp]: "sessions_kept st st"
  by (simp add: sessions_kept_def)

lemma sessions_kept_trans: "sessions_kept a b \<Longrightarrow> sessions_kept b c \<Longrightarrow> sessions_kept a c"
  unfolding sessions_kept_def by metis

lemma sessions_kept_io: "sessions_kept st (snd (record_udp_session_io now sid peer rx tx st))"
proof (cases "poisoned st")
  case False
  then show ?thesis
    unfolding sessions_kept_def using tbl.account_keeps_snapshot
    by (auto simp: store_ok_ops store_usable_def)
qed (simp add: poisoned_stuck)


lemma update_stats_record: "st\<lparr>rs_stats := f (rs_stats st)\<rparr> = update_stats f st"
  by (simp add: update_stats_def)

section \<open>The data handlers\<close>

text \<open>
  \<open>data_step st st'\<close>: the state after a data handler. The configuration and the identity are
  those before, the sessions are kept, and no session number is used.
\<close>

definition data_step :: "runtime_state \<Rightarrow> runtime_state \<Rightarrow> bool" where
  "data_step st st' \<longleftrightarrow>
     same_node st st' \<and> sessions_kept (rs_sessions st) (rs_sessions st') \<and>
     probe_sequence (rs_stats st') = probe_sequence (rs_stats st)"

lemma data_step_refl [simp]: "data_step st st"
  by (simp add: data_step_def)

lemma data_step_trans: "data_step a b \<Longrightarrow> data_step b c \<Longrightarrow> data_step a c"
  unfolding data_step_def using same_node_trans sessions_kept_trans by metis

lemma probe_sequence_kept [frame_simps, simp]:
  "probe_sequence (record_udp_session_miss s) = probe_sequence s"
  "probe_sequence (record_udp_session_expired s) = probe_sequence s"
  "probe_sequence (record_udp_relay_error s) = probe_sequence s"
  "probe_sequence (record_udp_relay_timeout s) = probe_sequence s"
  "probe_sequence (record_udp_relay_tx n s) = probe_sequence s"
  "probe_sequence (record_udp_relay_rx n s) = probe_sequence s"
  "probe_sequence (record_udp_session_rx n s) = probe_sequence s"
  "probe_sequence (record_udp_session_tx n s) = probe_sequence s"
  "probe_sequence (record_auth_ok s) = probe_sequence s"
  "probe_sequence (record_auth_missing s) = probe_sequence s"
  "probe_sequence (record_auth_failed s) = probe_sequence s"
  "probe_sequence (record_probe_rejected s) = probe_sequence s"
  "probe_sequence (record_session_error e s) = probe_sequence s"
  by (cases e; simp add: stats_defs)+

lemma data_step_stats [simp]:
  "probe_sequence (f (rs_stats st)) = probe_sequence (rs_stats st) \<Longrightarrow> data_step st (update_stats f st)"
  by (simp add: data_step_def)

lemma data_step_stats_to [simp]:
  "probe_sequence s = probe_sequence (rs_stats st) \<Longrightarrow> data_step st (st\<lparr>rs_stats := s\<rparr>)"
  by (simp add: data_step_def same_node_def)

lemma data_step_io [simp]:
  "data_step st (st\<lparr>rs_sessions := snd (record_udp_session_io now sid peer rx tx (rs_sessions st))\<rparr>)"
  by (simp add: data_step_def same_node_def sessions_kept_io)

lemma data_step_io_stats [simp]:
  "probe_sequence s = probe_sequence (rs_stats st) \<Longrightarrow>
   data_step st (st\<lparr>rs_sessions := snd (record_udp_session_io now sid peer rx tx (rs_sessions st)),
     rs_stats := s\<rparr>)"
  "probe_sequence s = probe_sequence (rs_stats st) \<Longrightarrow>
   data_step st (st\<lparr>rs_stats := s,
     rs_sessions := snd (record_udp_session_io now sid peer rx tx (rs_sessions st))\<rparr>)"
  by (simp_all add: data_step_def same_node_def sessions_kept_io)

lemma relay_session_data_sequence:
  "relay_session_data w request b target s = (r, s', rs) \<Longrightarrow> probe_sequence s' = probe_sequence s"
  by (auto simp: relay_session_data_def Let_def split: sum.splits if_splits)

lemma relay_session_data_relays:
  "relay_session_data w request b target s = (r, s', rs) \<Longrightarrow>
   rs = [(rv_protocol target, rv_socket_addr target, b, clamp_relay_timeout (dq_response_timeout_ms request))]"
  by (auto simp: relay_session_data_def Let_def split: sum.splits if_splits)

lemma answer_session_data_step:
  "answer_session_data w clk st transport peer request sid payload b session = (r, st', rs) \<Longrightarrow>
   data_step st st'"
  by (auto simp: answer_session_data_def Let_def relay_session_data_sequence
      split: sum.splits option.splits if_splits prod.splits)

lemma data_step_io_pair:
  "record_udp_session_io now sid peer rx tx (rs_sessions st) = (r, sessions) \<Longrightarrow>
   data_step st (st\<lparr>rs_sessions := sessions\<rparr>)"
  using data_step_io [of st now sid peer rx tx] by simp

lemma data_step_then_stats:
  "data_step st st' \<Longrightarrow> probe_sequence (f (rs_stats st')) = probe_sequence (rs_stats st') \<Longrightarrow>
   data_step st (update_stats f st')"
  by (rule data_step_trans, assumption, rule data_step_stats)

lemma build_session_data_step:
  "build_session_data_response w clk st transport peer request = (r, st', rs) \<Longrightarrow> data_step st st'"
  by (auto simp: build_session_data_response_def Let_def
      split: option.splits prod.splits sum.splits
      intro: data_step_then_stats data_step_io_pair
        data_step_trans [OF data_step_io_pair answer_session_data_step])

lemma relay_tunnel_frame_step:
  "relay_tunnel_frame w clk st peer request target = (r, st', rs) \<Longrightarrow> data_step st st'"
  by (auto simp: relay_tunnel_frame_def Let_def update_stats_def split: sum.splits if_splits)

lemma build_raw_udp_tunnel_step:
  "build_raw_udp_tunnel_response w clk st transport peer request = (r, st', rs) \<Longrightarrow> data_step st st'"
  by (auto simp: build_raw_udp_tunnel_response_def Let_def
      split: if_splits option.splits prod.splits sum.splits
      intro: data_step_then_stats data_step_io_pair
        data_step_trans [OF data_step_io_pair relay_tunnel_frame_step])

section \<open>When a payload is relayed\<close>

text \<open>
  \<open>relay_permitted\<close> is the specification: only for an authenticated session; where the
  session has a policy, to the address that the target of the request, which the policy must
  allow, resolves to, over the protocol the policy was asked about; otherwise, where the session
  is bound to an address, to what that address resolves to, whatever the request names; otherwise
  to what the address, or else the host and port, of the request resolves to.
\<close>

definition relay_permitted ::
  "resolver \<Rightarrow> client_session_data_request \<Rightarrow> udp_session_snapshot \<Rightarrow> relay \<Rightarrow> bool"
where
  "relay_permitted lookup_host request s relay \<longleftrightarrow>
     (case relay of (p, a, _, ms) \<Rightarrow>
        sn_authenticated s \<and> 1 \<le> ms \<and> ms \<le> 1000 \<and>
        (case sn_route_policy s of
           Some policy \<Rightarrow>
             (\<exists>target as. dq_target request = Some target \<and> policy_allows policy target \<and>
                lookup_host (host_port_endpoint (sd_host target) (sd_port target)) = Inr (a # as) \<and>
                relay_protocol_as_str p = target_protocol policy target)
         | None \<Rightarrow>
             (\<exists>endpoint as. lookup_host endpoint = Inr (a # as) \<and>
                (case nonempty_trimmed (sn_route_target_addr s) of
                   Some bound \<Rightarrow> endpoint = bound
                 | None \<Rightarrow>
                     (case nonempty_trimmed (dq_target_addr request) of
                        Some addr \<Rightarrow> endpoint = addr
                      | None \<Rightarrow> (\<exists>host port. nonempty_trimmed (dq_target_host request) = Some host \<and>
                          dq_target_port request = Some port \<and>
                          endpoint = host_port_endpoint host port))))))"

lemma resolved_permitted:
  assumes "resolve_session_target lookup_host request (sn_route_target_addr s) (sn_route_policy s) =
      Inr (Some t)"
    and "sn_authenticated s" "1 \<le> ms" "ms \<le> 1000"
  shows "relay_permitted lookup_host request s (rv_protocol t, rv_socket_addr t, b, ms)"
proof (cases "sn_route_policy s")
  case None
  then show ?thesis
    using assms
    by (cases "nonempty_trimmed (sn_route_target_addr s)"; cases "nonempty_trimmed (dq_target_addr request)";
        cases "nonempty_trimmed (dq_target_host request)"; cases "dq_target_port request")
      (auto simp: relay_permitted_def resolve_session_target_def plain_target_def
        resolve_socket_addr_Inr resolve_host_port_def split: option.splits)
next
  case (Some policy)
  from assms(1) [unfolded this] show ?thesis
    by (rule resolve_policy_session) (use assms(2-) Some in \<open>auto simp: relay_permitted_def\<close>)
qed

lemma resolved_needs_target:
  assumes "resolve_session_target lookup_host request bound policy = Inr (Some t)"
  shows "has_session_target request \<or> bound \<noteq> None"
  using assms
  by (cases bound) (auto simp: resolve_session_target_def plain_target_def has_session_target_iff
      nonempty_trimmed_def split: option.splits)

lemma answer_session_data_relays:
  assumes "answer_session_data w clk st transport peer request sid payload b s = (r, st', rs)"
    and "x \<in> set rs"
  shows "relay_permitted (w_lookup_host w) request s x \<and> fst (snd (snd x)) = b"
proof -
  from assms obtain t where
    t: "resolve_session_target (w_lookup_host w) request (sn_route_target_addr s) (sn_route_policy s) =
      Inr (Some t)"
    and auth: "\<not> ((has_session_target request \<or> sn_route_target_addr s \<noteq> None) \<and> \<not> sn_authenticated s)"
    and x: "x = (rv_protocol t, rv_socket_addr t, b, clamp_relay_timeout (dq_response_timeout_ms request))"
    by (auto simp: answer_session_data_def Let_def split: if_splits sum.splits option.splits prod.splits
        dest!: relay_session_data_relays)
  have "relay_permitted (w_lookup_host w) request s x"
    unfolding x using resolved_permitted [OF t] resolved_needs_target [OF t] auth clamp_bounds_aux by blast
  then show ?thesis by (simp add: x)
qed


text \<open>Accounting that succeeded found the session live under its id.\<close>

lemma io_found:
  "record_udp_session_io now sid peer rx tx st = (Inr s, st') \<Longrightarrow>
   \<exists>u. lookup_session st sid = Some u \<and> now < us_expires_at u \<and> s = snapshot u"
  by (cases "poisoned st")
    (auto simp: poisoned_stuck record_udp_session_io_def lookup_session_def Let_def not_le
      split: option.splits if_splits)

text \<open>
  \<open>relay_asked\<close>: the session, the payload and the target request of a client's message.
  \<open>relayed_for\<close>: a relay is for the session the message names, which is live in the table, takes the
  payload of the message, and is permitted to that session.
\<close>

definition relay_asked ::
  "world \<Rightarrow> bytes \<Rightarrow> (string \<times> bytes \<times> client_session_data_request) option"
where
  "relay_asked w message =
     (case parse_client_message (w_readers w) message of
        SessionData request \<Rightarrow>
          (case nonempty_trimmed (dq_session_id request) of None \<Rightarrow> None | Some sid \<Rightarrow>
          (case dq_payload request of None \<Rightarrow> None | Some coded \<Rightarrow>
           map_option (\<lambda>b. (sid, b, request)) (b64_decode (w_crypto w) coded)))
      | RawUdpTunnel frame \<Rightarrow> Some (ru_session_id frame, ru_payload frame, tunnel_target_request frame)
      | _ \<Rightarrow> None)"

definition relayed_for ::
  "resolver \<Rightarrow> u64 \<Rightarrow> runtime_state \<Rightarrow> (string \<times> bytes \<times> client_session_data_request) option \<Rightarrow>
   relay \<Rightarrow> bool"
where
  "relayed_for lookup_host now st asked relay \<longleftrightarrow>
     (\<exists>sid b request u. asked = Some (sid, b, request) \<and> fst (snd (snd relay)) = b \<and>
        lookup_session (rs_sessions st) sid = Some u \<and> now < us_expires_at u \<and>
        relay_permitted lookup_host request (snapshot u) relay)"

lemma build_session_data_relays:
  assumes "build_session_data_response w clk st transport peer request = (r, st', rs)" "x \<in> set rs"
    and "parse_client_message (w_readers w) message = SessionData request"
  shows "relayed_for (w_lookup_host w) (now_unix (clk 0)) st (relay_asked w message) x"
  using assms(1,2)
  by (auto simp: build_session_data_response_def Let_def relayed_for_def relay_asked_def assms(3)
      split: option.splits prod.splits sum.splits
      dest!: io_found answer_session_data_relays [where x = x])

lemma parse_udp [simp]: "parse_relay_protocol ''udp'' = Inr RelayUdp"
  by (rule parse_lowercase_protocol) (simp add: to_ascii_lowercase_def ascii_lower_def code_of_def)

lemma tunnel_target_udp:
  assumes "resolve_session_target lookup_host (tunnel_target_request request) bound policy = Inr (Some t)"
  shows "rv_protocol t = RelayUdp"
proof (cases policy)
  case None
  then show ?thesis
    using assms
    by (auto simp: resolve_session_target_def plain_target_def tunnel_target_request_def
        nonempty_trimmed_def split: option.splits)
next
  case (Some p)
  then show ?thesis
    using assms
    by (auto simp: resolve_session_target_def tunnel_target_request_def)
qed

lemma relay_tunnel_frame_relays:
  "relay_tunnel_frame w clk st peer request target = (r, st', rs) \<Longrightarrow>
   rs = [(RelayUdp, rv_socket_addr target, ru_payload request, default_relay_timeout_ms)]"
  by (auto simp: relay_tunnel_frame_def Let_def split: sum.splits if_splits)

lemma build_raw_udp_tunnel_relays:
  assumes "build_raw_udp_tunnel_response w clk st transport peer request = (r, st', rs)" "x \<in> set rs"
    and "parse_client_message (w_readers w) message = RawUdpTunnel request"
  shows "relayed_for (w_lookup_host w) (now_unix (clk 0)) st (relay_asked w message) x"
proof -
  from assms obtain sessions s t where
    found: "record_udp_session_io (now_unix (clk 0)) (ru_session_id request) peer
      (of_nat (length (ru_payload request))) 0 (rs_sessions st) = (Inr s, sessions)" and
    auth: "sn_authenticated s" and
    t: "resolve_session_target (w_lookup_host w) (tunnel_target_request request)
      (sn_route_target_addr s) (sn_route_policy s) = Inr (Some t)" and
    x: "x = (RelayUdp, rv_socket_addr t, ru_payload request, default_relay_timeout_ms)"
    by (auto simp: build_raw_udp_tunnel_response_def Let_def
        split: if_splits option.splits prod.splits sum.splits dest!: relay_tunnel_frame_relays)
  have "relay_permitted (w_lookup_host w) (tunnel_target_request request) s x"
    using resolved_permitted [OF t auth, of default_relay_timeout_ms] tunnel_target_udp [OF t]
    by (simp add: x default_relay_timeout_ms_def)
  then show ?thesis
    using io_found [OF found] by (auto simp: relayed_for_def relay_asked_def assms(3) x)
qed


section \<open>What a session was admitted on\<close>

text \<open>
  \<open>bound_by w claims s\<close>: the session carries the identity of the claims, and where the claims
  fix a policy hash, the session's policy has that hash and the policy id of the claims.
\<close>

definition bound_by :: "world \<Rightarrow> client_token_claims \<Rightarrow> udp_session_snapshot \<Rightarrow> bool" where
  "bound_by w claims s \<longleftrightarrow>
     sn_user_id s = Some (ct_user_id claims) \<and> sn_device_id s = Some (ct_device_id claims) \<and>
     sn_game_id s = Some (ct_game_id claims) \<and> sn_region_id s = ct_region_id claims \<and>
     sn_intent_id s = ct_intent_id claims \<and>
     sn_route_policy_hash s = ct_route_policy_hash claims \<and>
     (case ct_route_policy_hash claims of
        None \<Rightarrow> sn_route_policy s = None \<and>
          sn_route_target_addr s = map_option cr_target_addr (ct_route claims)
      | Some h \<Rightarrow> sn_route_target_addr s = None \<and>
          (\<exists>policy. sn_route_policy s = Some policy \<and>
             hash_route_policy (w_crypto w) (json_of_policy (w_writers w)) policy = Inr h \<and>
             (\<forall>pid. ct_route_policy_id claims = Some pid \<longrightarrow> policy_id policy = pid)))"

definition session_justified :: "world \<Rightarrow> identity_state \<Rightarrow> udp_session_snapshot \<Rightarrow> bool" where
  "session_justified w ident s \<longleftrightarrow>
     (if sn_authenticated s then
        (\<exists>token key claims now. id_node_secret ident = Some key \<and>
           verify_token (w_crypto w) (claims_of_json (w_readers w)) token (id_node_id ident) key now =
             Inr claims \<and> bound_by w claims s)
      else sn_route_target_addr s = None \<and> sn_route_policy s = None)"

lemma check_route_policy_Inr:
  "check_route_policy w claims policy = Inr () \<longleftrightarrow>
     (\<forall>h. ct_route_policy_hash claims = Some h \<longrightarrow>
        (\<exists>p. policy = Some p \<and>
           hash_route_policy (w_crypto w) (json_of_policy (w_writers w)) p = Inr h \<and>
           (\<forall>pid. ct_route_policy_id claims = Some pid \<longrightarrow> policy_id p = pid)))"
  by (cases "ct_route_policy_id claims")
    (auto simp: check_route_policy_def split: option.splits if_splits)

text \<open>The session \<open>admit_probe\<close> registers.\<close>

definition probe_udp_session ::
  "clock \<Rightarrow> transport_kind \<Rightarrow> socket_addr \<Rightarrow> probe_identity \<Rightarrow> u64 \<Rightarrow> udp_session"
where
  "probe_udp_session clk transport peer identity sequence =
     udp_session_new (build_session_id transport (now_unix (clk 1)) peer sequence)
       (pi_user_id identity) (pi_device_id identity) (pi_game_id identity) (pi_region_id identity)
       (pi_credential_valid identity) (pi_intent_id identity) (pi_route_target_addr identity)
       (pi_route_policy identity) (pi_route_policy_id identity) (pi_route_policy_hash identity)
       probe_ttl_sec peer (now_unix (clk 2))"

lemma identity_from_claims_bound:
  assumes "identity_from_claims w claims policy = Inr identity"
  shows "bound_by w claims (snapshot (probe_udp_session clk transport peer identity n))"
    and "pi_credential_valid identity"
  using assms
  by (cases "ct_route_policy_hash claims";
      auto simp: identity_from_claims_def check_route_policy_Inr bound_by_def probe_udp_session_def
        udp_session_new_def snapshot_def)+

text \<open>
  A probe either is rejected, which costs a counter, or registers one session under a number
  never used before.
\<close>

definition probe_admits ::
  "world \<Rightarrow> clock \<Rightarrow> runtime_state \<Rightarrow> transport_kind \<Rightarrow> socket_addr \<Rightarrow> probe_identity \<Rightarrow>
   runtime_state \<Rightarrow> bool"
where
  "probe_admits w clk st transport peer identity st' \<longleftrightarrow>
     same_node st st' \<and>
     probe_sequence (rs_stats st') = probe_sequence (rs_stats st) + 1 \<and>
     rs_sessions st' = register_udp_session (now_unix (clk 3))
       (probe_udp_session clk transport peer identity (probe_sequence (rs_stats st) + 1))
       (rs_sessions st)"

lemma admit_probe_admits:
  assumes "admit_probe w clk (update_stats f st) transport peer request identity = (r, st', rs)"
    and "probe_sequence (f (rs_stats st)) = probe_sequence (rs_stats st)"
  shows "probe_admits w clk st transport peer identity st' \<and> rs = []"
  using assms
  by (auto simp: admit_probe_def Let_def next_probe_sequence_def record_probe_session_def
      probe_admits_def same_node_def probe_udp_session_def update_stats_def)

lemma build_probe_cases:
  assumes "build_probe_response w clk st transport peer request = (r, st', rs)"
  obtains
    (rejected) "data_step st st'" "rs_sessions st' = rs_sessions st" "rs = []"
  | (anonymous) "probe_admits w clk st transport peer (identity_from_request request) st'" "rs = []"
  | (verified) claims identity where
      "verify_probe_token (w_crypto w) (claims_of_json (w_readers w)) request
         (id_node_id (rs_identity st)) (id_node_secret (rs_identity st)) (now_unix (clk 0)) =
         AuthValid claims"
      "identity_from_claims w claims (pq_route_policy request) = Inr identity"
      "probe_admits w clk st transport peer identity st'" "rs = []"
proof (cases "verify_probe_token (w_crypto w) (claims_of_json (w_readers w)) request
    (id_node_id (rs_identity st)) (id_node_secret (rs_identity st)) (now_unix (clk 0))")
  case AuthMissing
  then have "admit_probe w clk (update_stats record_auth_missing st) transport peer request
      (identity_from_request request) = (r, st', rs)"
    using assms by (simp add: build_probe_response_def)
  then show ?thesis using anonymous admit_probe_admits by simp
next
  case (AuthValid claims)
  show ?thesis
  proof (cases "identity_from_claims w claims (pq_route_policy request)")
    case (Inl e)
    then have st': "st' = update_stats record_probe_rejected (update_stats record_auth_failed
        (update_stats record_auth_ok st))" "rs = []"
      using assms AuthValid by (simp_all add: build_probe_response_def build_probe_error_with_code_def)
    then have "data_step st st'"
      by (simp only:) (intro data_step_then_stats data_step_refl; simp)
    with st' show ?thesis using rejected by simp
  next
    case (Inr identity)
    then have "admit_probe w clk (update_stats record_auth_ok st) transport peer request identity =
        (r, st', rs)"
      using assms AuthValid by (simp add: build_probe_response_def)
    then show ?thesis using verified [OF AuthValid Inr] admit_probe_admits by simp
  qed
next
  case (AuthInvalid e)
  then have st': "st' = update_stats record_probe_rejected (update_stats record_auth_failed st)" "rs = []"
    using assms by (simp_all add: build_probe_response_def build_probe_error_with_code_def)
  then have "data_step st st'"
    by (simp only:) (intro data_step_then_stats data_step_refl; simp)
  with st' show ?thesis using rejected by simp
qed

lemma admitted_justified:
  assumes "build_probe_response w clk st transport peer request = (r, st', rs)"
  obtains "data_step st st'" "rs_sessions st' = rs_sessions st"
  | identity where "probe_admits w clk st transport peer identity st'"
      "session_justified w (rs_identity st) (snapshot (probe_udp_session clk transport peer identity
         (probe_sequence (rs_stats st) + 1)))"
  using assms
proof (cases rule: build_probe_cases)
  case rejected
  then show ?thesis using that(1) by blast
next
  case anonymous
  have "session_justified w (rs_identity st) (snapshot (probe_udp_session clk transport peer
      (identity_from_request request) n))" for n
    by (simp add: session_justified_def probe_udp_session_def udp_session_new_def snapshot_def
        identity_from_request_def)
  then show ?thesis using anonymous that(2) by blast
next
  case (verified claims identity)
  let ?s = "\<lambda>n. snapshot (probe_udp_session clk transport peer identity n)"
  have "sn_authenticated (?s n)" for n
    using identity_from_claims_bound(2) [OF verified(2)]
    by (simp add: probe_udp_session_def udp_session_new_def snapshot_def)
  moreover obtain token key where "id_node_secret (rs_identity st) = Some key"
    "verify_token (w_crypto w) (claims_of_json (w_readers w)) token (id_node_id (rs_identity st))
       key (now_unix (clk 0)) = Inr claims"
    using verified(1) unfolding verify_probe_token_Valid_iff by blast
  ultimately have "session_justified w (rs_identity st) (?s n)" for n
    using identity_from_claims_bound(1) [OF verified(2)] 
    by (simp add: session_justified_def) blast
  then show ?thesis using verified(3) that(2) by blast
qed

end
