(* ===== verification/Listener.thy ===== *)
theory Listener
  imports Session_Safety
begin

text \<open>
  \<open>node-core/src/listener.rs\<close>, \<open>quic_tunnel.rs\<close> and \<open>health.rs\<close>: binding the listeners, and what
  one UDP packet, one line of a TCP connection, one QUIC stream and one health request do.
  The spawned loops run these bodies; the sockets they bind are parameters.
\<close>

definition udp_probe_response :: bytes where
  "udp_probe_response = ''xaccel-node udp listener ready'' @ [newline_byte]"
definition tcp_probe_response :: bytes where
  "tcp_probe_response = ''xaccel-node tcp listener ready'' @ [newline_byte]"
definition quic_probe_response :: bytes where
  "quic_probe_response = ''xaccel-node quic listener ready'' @ [newline_byte]"

section \<open>Binding\<close>

datatype io_error_kind =
    AddrInUse | AddrNotAvailable | PermissionDenied | InvalidInput | OtherKind string

fun kind_debug :: "io_error_kind \<Rightarrow> string" where
  "kind_debug AddrInUse = ''AddrInUse''"
| "kind_debug AddrNotAvailable = ''AddrNotAvailable''"
| "kind_debug PermissionDenied = ''PermissionDenied''"
| "kind_debug InvalidInput = ''InvalidInput''"
| "kind_debug (OtherKind name) = name"

record io_error =
  io_kind :: io_error_kind
  io_os_error :: "nat option"
  io_text :: string

record bind_error_reason =
  br_code :: string
  br_suggestion :: string

fun classify_bind_error :: "io_error_kind \<Rightarrow> bind_error_reason" where
  "classify_bind_error AddrInUse =
     \<lparr>br_code = ''address_in_use'',
      br_suggestion = ''stop the process using this port or change network.server_port''\<rparr>"
| "classify_bind_error AddrNotAvailable =
     \<lparr>br_code = ''address_not_available'',
      br_suggestion = ''set network.listen_ip to 0.0.0.0 or an IP assigned to this server''\<rparr>"
| "classify_bind_error PermissionDenied =
     \<lparr>br_code = ''permission_denied'',
      br_suggestion = ''run the service with sufficient privileges or choose a higher port''\<rparr>"
| "classify_bind_error InvalidInput =
     \<lparr>br_code = ''invalid_listen_addr'',
      br_suggestion = ''check network.listen_ip and network.server_port in config.toml''\<rparr>"
| "classify_bind_error (OtherKind name) =
     \<lparr>br_code = ''bind_failed'',
      br_suggestion = ''check listener address, firewall, and kernel socket limits''\<rparr>"

definition os_error_debug :: "nat option \<Rightarrow> string" where
  "os_error_debug e = (case e of None \<Rightarrow> ''None'' | Some n \<Rightarrow> ''Some('' @ show_nat n @ '')'')"

definition quote_byte :: byte where "quote_byte = char_of (34::nat)"

definition listener_bind_error :: "string \<Rightarrow> socket_addr \<Rightarrow> io_error \<Rightarrow> string" where
  "listener_bind_error protocol addr error =
     (let reason = classify_bind_error (io_kind error)
      in ''listener_bind_failed protocol='' @ protocol @ '' listen_addr='' @ show_socket_addr addr @
         '' error_code='' @ br_code reason @ '' error_kind='' @ kind_debug (io_kind error) @
         '' os_error='' @ os_error_debug (io_os_error error) @
         '' message='' @ [quote_byte] @ io_text error @ [quote_byte] @
         '' suggestion='' @ [quote_byte] @ br_suggestion reason @ [quote_byte])"

definition listen_addr :: "network_config \<Rightarrow> (string, socket_addr) result" where
  "listen_addr network =
     (if listen_host network = [] then Inl ''network.listen_ip or network.server_ip is required''
      else ok_or (''invalid listen endpoint: '' @ listen_endpoint network)
             (parse_socket_addr (listen_endpoint network)))"

type_synonym bind_socket = "socket_addr \<Rightarrow> (io_error, unit) result"

text \<open>The addresses the node listens on, none when it has no network configuration.\<close>

definition spawn_network_listeners ::
  "bind_socket \<Rightarrow> bind_socket \<Rightarrow> runtime_state \<Rightarrow> (string, socket_addr option) result \<times> runtime_state"
where
  "spawn_network_listeners bind_udp bind_tcp st =
     (case effective_network st of
        None \<Rightarrow> (Inr None, st)
      | Some network \<Rightarrow>
          (case bind_result (listen_addr network) (\<lambda>addr.
                bind_result (map_err (listener_bind_error ''udp'' addr) (bind_udp addr)) (\<lambda>_.
                bind_result (map_err (listener_bind_error ''tcp'' addr) (bind_tcp addr)) (\<lambda>_.
                Inr addr))) of
             Inl e \<Rightarrow> (Inl e, st)
           | Inr addr \<Rightarrow>
               (Inr (Some addr),
                update_stats (\<lambda>s. set_tcp_listening True (set_udp_listening True s)) st)))"

text \<open>\<open>bind_quic\<close> builds the TLS configuration and binds the endpoint.\<close>

definition spawn_quic_tunnel ::
  "(socket_addr \<Rightarrow> (string, unit) result) \<Rightarrow> runtime_state \<Rightarrow> (string, socket_addr option) result"
where
  "spawn_quic_tunnel bind_quic st =
     (case effective_network st of
        None \<Rightarrow> Inr None
      | Some network \<Rightarrow>
          (case quic_listen_endpoint network of
             None \<Rightarrow> Inr None
           | Some endpoint \<Rightarrow>
               bind_result (ok_or (''invalid QUIC listen endpoint: '' @ endpoint)
                 (parse_socket_addr endpoint)) (\<lambda>addr.
               bind_result (map_err (\<lambda>_. ''failed to bind QUIC endpoint '' @ show_socket_addr addr)
                 (bind_quic addr)) (\<lambda>_.
               Inr (Some addr)))))"

section \<open>One message\<close>

definition handle_client_payload ::
  "world \<Rightarrow> clock \<Rightarrow> runtime_state \<Rightarrow> transport_kind \<Rightarrow> socket_addr \<Rightarrow> bytes \<Rightarrow> handled"
where
  "handle_client_payload w clk st transport peer payload =
     (case parse_client_message (w_readers w) payload of
        LegacyPing \<Rightarrow>
          (Inr (case transport of
             Tcp \<Rightarrow> tcp_probe_response | Udp \<Rightarrow> udp_probe_response | Quic \<Rightarrow> quic_probe_response),
           st, [])
      | Probe request \<Rightarrow> build_probe_response w clk st transport peer request
      | SessionData request \<Rightarrow> build_session_data_response w clk st transport peer request
      | RawUdpTunnel request \<Rightarrow> build_raw_udp_tunnel_response w clk st transport peer request
      | Invalid message \<Rightarrow> build_probe_error w (now_unix (clk 1)) st transport message)"

definition handle_quic_payload ::
  "world \<Rightarrow> clock \<Rightarrow> runtime_state \<Rightarrow> socket_addr \<Rightarrow> bytes \<Rightarrow> handled"
where
  "handle_quic_payload w clk st peer payload =
     (case parse_client_message (w_readers w) payload of
        LegacyPing \<Rightarrow> (Inr quic_probe_response, st, [])
      | Probe request \<Rightarrow> build_probe_response w clk st Quic peer request
      | SessionData request \<Rightarrow> build_session_data_response w clk st Quic peer request
      | RawUdpTunnel request \<Rightarrow> build_raw_udp_tunnel_response w clk st Quic peer request
      | Invalid message \<Rightarrow> build_probe_error w (now_unix (clk 1)) st Quic message)"

section \<open>UDP\<close>

definition udp_buffer_bytes :: nat where "udp_buffer_bytes = 4096"

text \<open>
  One datagram. The buffer keeps its first 4096 bytes. \<open>send_to\<close> gives the bytes sent. The
  second component is the answer that was sent, if it was.
\<close>

definition udp_packet ::
  "(bytes \<Rightarrow> (string, nat) result) \<Rightarrow> world \<Rightarrow> clock \<Rightarrow> runtime_state \<Rightarrow> socket_addr \<Rightarrow> bytes \<Rightarrow>
   bytes option \<times> runtime_state \<times> relay list"
where
  "udp_packet send_to w clk st peer datagram =
     (let payload = take udp_buffer_bytes datagram;
          (r, st1, relays) = handle_client_payload w clk
            (update_stats (record_udp_rx (of_nat (length payload))) st) Udp peer payload;
          response = (case r of Inr b \<Rightarrow> b | Inl _ \<Rightarrow> udp_probe_response)
      in case send_to response of
           Inr sent \<Rightarrow> (Some response, update_stats (record_udp_tx (of_nat sent)) st1, relays)
         | Inl _ \<Rightarrow> (None, st1, relays))"

section \<open>TCP\<close>

lemma dropWhile_Cons_shorter: "x # r = dropWhile p s \<Longrightarrow> length r < length s"
  using length_dropWhile_le [of p s] by (metis Suc_le_eq length_Cons)

text \<open>\<open>read_until\<close>: the bytes up to and with the next newline; the last frame may lack it.\<close>

function tcp_frames :: "bytes \<Rightarrow> bytes list" where
  "tcp_frames s =
     (if s = [] then []
      else (let line = takeWhile (\<lambda>c. c \<noteq> newline_byte) s;
                rest = dropWhile (\<lambda>c. c \<noteq> newline_byte) s
            in (case rest of
                  [] \<Rightarrow> [line]
                | nl # rest' \<Rightarrow> (line @ [nl]) # tcp_frames rest')))"
  by auto
termination
  by (relation "measure length") (auto dest: dropWhile_Cons_shorter)

declare tcp_frames.simps [simp del]

definition tcp_frame ::
  "(bytes \<Rightarrow> (string, unit) result) \<Rightarrow> world \<Rightarrow> clock \<Rightarrow> runtime_state \<Rightarrow> socket_addr \<Rightarrow> bytes \<Rightarrow>
   (string, bytes) result \<times> runtime_state \<times> relay list"
where
  "tcp_frame write_all w clk st peer frame =
     (let (r, st1, relays) = handle_client_payload w clk
            (update_stats (record_tcp_rx (of_nat (length frame))) st) Tcp peer frame;
          response = (case r of Inr b \<Rightarrow> b | Inl _ \<Rightarrow> tcp_probe_response)
      in case write_all response of
           Inr _ \<Rightarrow> (Inr response, update_stats (record_tcp_tx (of_nat (length response))) st1, relays)
         | Inl e \<Rightarrow> (Inl e, st1, relays))"

text \<open>The frames of one connection in turn; a failed write ends it.\<close>

type_synonym tcp_turn = "world \<times> clock \<times> (bytes \<Rightarrow> (string, unit) result)"

fun handle_tcp_connection ::
  "(nat \<Rightarrow> tcp_turn) \<Rightarrow> nat \<Rightarrow> runtime_state \<Rightarrow> socket_addr \<Rightarrow> bytes list \<Rightarrow>
   (string, bytes list) result \<times> runtime_state \<times> relay list"
where
  "handle_tcp_connection turn n st peer [] = (Inr [], st, [])"
| "handle_tcp_connection turn n st peer (frame # frames) =
     (case turn n of (w, clk, write_all) \<Rightarrow>
     (case tcp_frame write_all w clk st peer frame of
        (Inl e, st1, relays) \<Rightarrow> (Inl e, st1, relays)
      | (Inr response, st1, relays) \<Rightarrow>
          (case handle_tcp_connection turn (Suc n) st1 peer frames of
             (r, st2, relays') \<Rightarrow>
               (bind_result r (\<lambda>responses. Inr (response # responses)), st2, relays @ relays'))))"

definition serve_tcp_connection ::
  "(nat \<Rightarrow> tcp_turn) \<Rightarrow> runtime_state \<Rightarrow> socket_addr \<Rightarrow> bytes \<Rightarrow>
   (string, bytes list) result \<times> runtime_state \<times> relay list"
where
  "serve_tcp_connection turn st peer stream =
     (let (r, st1, relays) = handle_tcp_connection turn 0
            (update_stats record_tcp_open (update_stats record_tcp_accept st)) peer (tcp_frames stream)
      in (r, update_stats record_tcp_close st1, relays))"

section \<open>QUIC\<close>

definition max_quic_frame_bytes :: nat where "max_quic_frame_bytes = 65536"

text \<open>One stream: \<open>read_to_end\<close> refuses more than \<open>max_quic_frame_bytes\<close>.\<close>

definition handle_quic_stream ::
  "world \<Rightarrow> clock \<Rightarrow> runtime_state \<Rightarrow> socket_addr \<Rightarrow> (string, bytes) result \<Rightarrow>
   (string, bytes) result \<times> runtime_state \<times> relay list"
where
  "handle_quic_stream w clk st peer stream =
     (case stream of
        Inl _ \<Rightarrow> (Inl ''failed to read QUIC tunnel frame'', st, [])
      | Inr payload \<Rightarrow>
          if max_quic_frame_bytes < length payload then
            (Inl ''failed to read QUIC tunnel frame'', st, [])
          else handle_quic_payload w clk st peer payload)"

section \<open>Health requests\<close>

definition crlf :: bytes where "crlf = [char_of (13::nat), newline_byte]"

definition http_response :: "string \<Rightarrow> string \<Rightarrow> bytes" where
  "http_response status body =
     ''HTTP/1.1 '' @ status @ crlf @ ''Content-Type: application/json'' @ crlf @
     ''Content-Length: '' @ show_nat (length body) @ crlf @ ''Connection: close'' @ crlf @ crlf @ body"

definition not_found_body :: string where
  "not_found_body = [CHR ''{'', quote_byte] @ ''error'' @ [quote_byte, CHR '':'', quote_byte] @
     ''not_found'' @ [quote_byte, CHR ''}'']"

text \<open>
  The first 1024 bytes of the request are read; \<open>from_utf8_lossy\<close> keeps an ASCII prefix.
\<close>

definition handle_health_connection ::
  "(health_snapshot \<Rightarrow> (string, string) result) \<Rightarrow> u64 \<Rightarrow> u64 \<Rightarrow> runtime_state \<Rightarrow> bytes \<Rightarrow>
   (string, bytes) result \<times> runtime_state"
where
  "handle_health_connection to_json now1 now2 st request =
     (if starts_with (take 1024 request) ''GET /health '' then
        (let (snap, st') = health_snapshot_of now1 now2 st
         in (bind_result (to_json snap) (\<lambda>body. Inr (http_response ''200 OK'' body)), st'))
      else (Inr (http_response ''404 Not Found'' not_found_body), st))"

section \<open>The listener's guarantees\<close>

text \<open>QUIC's own dispatcher is the common one at its transport.\<close>

lemma handle_quic_payload_dispatch:
  "handle_quic_payload w clk st peer payload = handle_client_payload w clk st Quic peer payload"
  by (simp add: handle_quic_payload_def handle_client_payload_def split: parsed_client_message.splits)

lemma tcp_frames_Nil [simp]: "tcp_frames [] = []"
  by (simp add: tcp_frames.simps)

lemma line_split:
  assumes "newline_byte \<notin> set line"
  shows "takeWhile (\<lambda>c. c \<noteq> newline_byte) (line @ newline_byte # rest) = line"
    and "dropWhile (\<lambda>c. c \<noteq> newline_byte) (line @ newline_byte # rest) = newline_byte # rest"
    and "takeWhile (\<lambda>c. c \<noteq> newline_byte) line = line"
    and "dropWhile (\<lambda>c. c \<noteq> newline_byte) line = []"
  using assms by (induction line) auto

lemma tcp_frames_step:
  "newline_byte \<notin> set line \<Longrightarrow> tcp_frames (line @ newline_byte # rest) = (line @ [newline_byte]) # tcp_frames rest"
  by (subst tcp_frames.simps) (simp add: line_split Let_def)

lemma tcp_frames_last:
  "line \<noteq> [] \<Longrightarrow> newline_byte \<notin> set line \<Longrightarrow> tcp_frames line = [line]"
  by (subst tcp_frames.simps) (simp add: line_split Let_def)

lemma tcp_stream_cases:
  obtains (nil) "s = []"
  | (last) "s \<noteq> []" "newline_byte \<notin> set s"
  | (line) l r where "s = l @ newline_byte # r" "newline_byte \<notin> set l"
  by (metis split_list_first)

lemma concat_tcp_frames: "concat (tcp_frames s) = s"
proof (induction s rule: length_induct)
  case (1 s)
  show ?case
  proof (cases rule: tcp_stream_cases [of s])
    case (line l r)
    then show ?thesis using 1 by (simp add: tcp_frames_step)
  qed (simp_all add: tcp_frames_last)
qed

lemma tcp_frames_lines:
  "frame \<in> set (butlast (tcp_frames s)) \<Longrightarrow>
   \<exists>line. frame = line @ [newline_byte] \<and> newline_byte \<notin> set line"
proof (induction s rule: length_induct)
  case (1 s)
  show ?case
  proof (cases rule: tcp_stream_cases [of s])
    case (line l r)
    then have "frame = l @ [newline_byte] \<or> frame \<in> set (butlast (tcp_frames r))"
      using 1(2) by (simp add: tcp_frames_step split: if_splits)
    moreover have "length r < length s" using line by simp
    ultimately show ?thesis
      using 1(1) line by blast
  qed (use 1(2) in \<open>simp_all add: tcp_frames_last\<close>)
qed

lemma tcp_frames_join:
  "(\<And>l. l \<in> set ls \<Longrightarrow> newline_byte \<notin> set l) \<Longrightarrow>
   tcp_frames (concat (map (\<lambda>l. l @ [newline_byte]) ls)) = map (\<lambda>l. l @ [newline_byte]) ls"
  by (induction ls) (simp_all add: tcp_frames_step)

section \<open>Properties\<close>

text \<open>
  The TCP framing loses, adds and reorders nothing: the frames concatenate to the stream,
  none is empty, each but the last is one line with its newline at the end and nowhere else,
  and lines written one after another are received as they were written.
\<close>

theorem tcp_framing:
  "concat (tcp_frames s) = s \<and> [] \<notin> set (tcp_frames s) \<and>
   list_all (\<lambda>f. \<exists>line. f = line @ [newline_byte] \<and> newline_byte \<notin> set line) (butlast (tcp_frames s)) \<and>
   tcp_frames (concat (map (\<lambda>l. filter (\<lambda>c. c \<noteq> newline_byte) l @ [newline_byte]) ls)) =
     map (\<lambda>l. filter (\<lambda>c. c \<noteq> newline_byte) l @ [newline_byte]) ls"
proof -
  have "[] \<notin> set (tcp_frames s)"
  proof (induction s rule: length_induct)
    case (1 s)
    show ?case
      by (cases rule: tcp_stream_cases [of s]) (use 1 in \<open>auto simp: tcp_frames_step tcp_frames_last\<close>)
  qed
  moreover have "tcp_frames (concat (map (\<lambda>l. l @ [newline_byte]) (map (filter (\<lambda>c. c \<noteq> newline_byte)) ls))) =
      map (\<lambda>l. l @ [newline_byte]) (map (filter (\<lambda>c. c \<noteq> newline_byte)) ls)"
    by (rule tcp_frames_join) auto
  ultimately show ?thesis
    using concat_tcp_frames [of s] tcp_frames_lines [of _ s] by (simp add: list_all_iff comp_def)
qed

text \<open>
  A QUIC stream is served exactly as a message of the other transports: up to 65536 bytes it
  is the common dispatcher at the QUIC transport, with the same session table, tokens and
  relays; a longer or unreadable one changes nothing and relays nothing.
\<close>

theorem quic_stream_is_common_dispatch:
  "handle_quic_stream w clk st peer stream =
     (case stream of
        Inr payload \<Rightarrow>
          if length payload \<le> 65536 then handle_client_payload w clk st Quic peer payload
          else (Inl ''failed to read QUIC tunnel frame'', st, [])
      | Inl _ \<Rightarrow> (Inl ''failed to read QUIC tunnel frame'', st, []))"
  by (simp add: handle_quic_stream_def handle_quic_payload_dispatch max_quic_frame_bytes_def
      split: sum.splits)

text \<open>
  A validated configuration with a listen address is one the node can listen on: the
  address it builds for its sockets parses, for IPv4 and IPv6 alike, to that address and the
  configured, non-zero port.
\<close>

theorem validated_listen_address:
  assumes "validate cfg = Inr ()" "nc_network cfg = Some n" "listen_ip n = Some ip"
  shows "\<exists>a. parse_ip_addr (trim ip) = Some a \<and> server_port n \<noteq> 0 \<and>
    listen_addr n = Inr (case a of V4 b \<Rightarrow> SockV4 b (server_port n) | V6 b \<Rightarrow> SockV6 b (server_port n) 0)"
proof -
  have v: "validate_network n = Inr ()" using assms(1,2) by (simp add: validate_iff)
  then obtain a where a: "parse_ip_addr (trim ip) = Some a" "trim ip \<noteq> []" "server_port n \<noteq> 0"
    using assms(3) by (auto simp: validate_network_iff)
  have "listen_host n = trim ip"
    using a(2) assms(3) by (simp add: listen_host_def)
  then show ?thesis
    using a socket_endpoint_parses [OF a(1), of "server_port n"]
    by (simp add: listen_addr_def listen_endpoint_def)
qed

theorem validated_listen_address_witness:
  "listen_addr ((sample_network 9000)\<lparr>listen_ip := Some ''10.0.0.2''\<rparr>) = Inr (SockV4 0x0A000002 9000)"
proof -
  let ?n = "(sample_network 9000)\<lparr>listen_ip := Some ''10.0.0.2''\<rparr>"
  let ?cfg = "\<lparr>nc_identity = \<lparr>ic_node_id = Some 7, ic_panel_url = None, ic_identity_file = ''/id''\<rparr>,
      nc_runtime = \<lparr>rc_data_dir = ''/d'', rc_log_dir = ''/l'', rc_health_addr = SockV4 0x7F000001 80,
        rc_channel = ''s''\<rparr>,
      nc_bootstrap = None, nc_control = None, nc_network = Some ?n, nc_report = None, nc_limits = None\<rparr>"
  have "show_nat 10 = ''10''" "show_nat 2 = ''2''" "show_nat 0 = ''0''"
    by (simp_all add: show_radix.simps digit_char_def char_of_def bit_Suc_0_iff)
  then have ip: "parse_ip_addr ''10.0.0.2'' = Some (V4 0x0A000002)"
    using parse_ip_addr_show_ipv4 [of "0x0A000002"] by (simp add: show_ipv4_def Let_def)
  have texts: "printable ''/id''" "printable ''/d''" "printable ''/l''" "printable ''s''"
    "printable ''10.0.0.1''" "printable ''10.0.0.2''"
    by (simp_all add: code_of_def)
  then have "validate ?cfg = Inr ()"
    by (simp add: validate_iff validate_network_iff sample_network_def ip)
  from validated_listen_address [OF this, of ?n] show ?thesis
    using ip texts by (auto simp: sample_network_def)
qed

text \<open>
  The QUIC listener is opened exactly when the network section enables it with a port of its
  own: not disabled, a relay port that is neither zero nor the server port, at the relay
  address or else the listen address, and the system lets it bind.
\<close>

theorem quic_listens_iff:
  "spawn_quic_tunnel bind_quic st = Inr (Some addr) \<longleftrightarrow>
     (\<exists>n port. effective_network st = Some n \<and> \<not> disable_quic n \<and>
        relay_server_port n = Some port \<and> port \<noteq> 0 \<and> port \<noteq> server_port n \<and>
        parse_socket_addr (socket_endpoint
          (unwrap_or (listen_host n) (trimmed_nonempty (relay_server_ip n))) port) = Some addr \<and>
        bind_quic addr = Inr ())"
proof (cases "effective_network st")
  case (Some n)
  show ?thesis
  proof (cases "quic_listen_endpoint n")
    case None
    then show ?thesis
      using Some quic_listen_endpoint_iff [of n] by (auto simp: spawn_quic_tunnel_def)
  next
    case (Some e)
    then show ?thesis
      using \<open>effective_network st = Some n\<close> quic_listen_endpoint_iff [of n e]
      by (auto simp: spawn_quic_tunnel_def)
  qed
qed (simp add: spawn_quic_tunnel_def)

end
