(* ===== verification/Node.thy ===== *)
theory Node
  imports Listener
begin

text \<open>
  The running node as a step relation: the packets, lines, streams and requests it serves and
  the configurations it applies, in any order. Each handler is one step; the resolver, the
  sockets and the clock may answer differently in every step, the digests and the JSON codecs
  do not.
\<close>

text \<open>A relay with the resolver and the time of its handler, and the client's message it served.\<close>

type_synonym relay_event = "resolver \<times> u64 \<times> bytes \<times> relay"

definition outside :: "world \<Rightarrow> resolver \<Rightarrow> sockets \<Rightarrow> world" where
  "outside w dns net = w\<lparr>w_lookup_host := dns, w_sockets := net\<rparr>"

definition relay_events :: "resolver \<Rightarrow> clock \<Rightarrow> bytes \<Rightarrow> relay list \<Rightarrow> relay_event list" where
  "relay_events dns clk message relays = map (\<lambda>x. (dns, now_unix (clk 0), message, x)) relays"

definition stream_message :: "(string, bytes) result \<Rightarrow> bytes" where
  "stream_message stream = (case stream of Inl _ \<Rightarrow> [] | Inr message \<Rightarrow> message)"

inductive node_step :: "world \<Rightarrow> runtime_state \<Rightarrow> relay_event list \<Rightarrow> runtime_state \<Rightarrow> bool"
  for w :: world
where
  udp: "udp_packet send_to (outside w dns net) clk st peer datagram = (r, st', relays) \<Longrightarrow>
    node_step w st (relay_events dns clk (take udp_buffer_bytes datagram) relays) st'"
| tcp_open: "node_step w st [] (update_stats record_tcp_open (update_stats record_tcp_accept st))"
| tcp_line: "tcp_frame write_all (outside w dns net) clk st peer frame = (r, st', relays) \<Longrightarrow>
    node_step w st (relay_events dns clk frame relays) st'"
| tcp_close: "node_step w st [] (update_stats record_tcp_close st)"
| quic: "handle_quic_stream (outside w dns net) clk st peer stream = (r, st', relays) \<Longrightarrow>
    node_step w st (relay_events dns clk (stream_message stream) relays) st'"
| health: "handle_health_connection to_json now1 now2 st request = (r, st') \<Longrightarrow>
    node_step w st [] st'"
| listen: "spawn_network_listeners bind_udp bind_tcp st = (r, st') \<Longrightarrow> node_step w st [] st'"
| remote_config: "apply_remote_network_config revision remote st = (r, st') \<Longrightarrow>
    node_step w st [] st'"

inductive node_run :: "world \<Rightarrow> runtime_state \<Rightarrow> nat \<Rightarrow> relay_event list \<Rightarrow> runtime_state \<Rightarrow> bool"
  for w :: world and st0 :: runtime_state
where
  start: "node_run w st0 0 [] st0"
| step: "node_run w st0 n es st \<Longrightarrow> node_step w st es' st' \<Longrightarrow> node_run w st0 (Suc n) (es @ es') st'"

inductive_cases node_run_SucE: "node_run w st0 (Suc n) es st"
inductive_simps node_run_0: "node_run w st0 0 es st"

lemma outside_fields [frame_simps, simp]:
  "w_crypto (outside w dns net) = w_crypto w"
  "w_readers (outside w dns net) = w_readers w"
  "w_writers (outside w dns net) = w_writers w"
  "w_lookup_host (outside w dns net) = dns"
  by (simp_all add: outside_def)

lemma bound_by_outside [simp]: "bound_by (outside w dns net) claims s = bound_by w claims s"
  by (cases "ct_route_policy_hash claims") (simp_all add: bound_by_def)

lemma session_justified_outside [simp]:
  "session_justified (outside w dns net) ident s = session_justified w ident s"
  by (simp add: session_justified_def)

section \<open>What a step does to the sessions\<close>

definition node_effect :: "world \<Rightarrow> runtime_state \<Rightarrow> runtime_state \<Rightarrow> bool" where
  "node_effect w st st' \<longleftrightarrow>
     rs_identity st' = rs_identity st \<and> rs_config st' = rs_config st \<and>
     (sessions_kept (rs_sessions st) (rs_sessions st') \<and>
        probe_sequence (rs_stats st') = probe_sequence (rs_stats st)
      \<or> (\<exists>now s. rs_sessions st' = register_udp_session now s (rs_sessions st) \<and>
           session_justified w (rs_identity st) (snapshot s) \<and>
           probe_sequence (rs_stats st') = probe_sequence (rs_stats st) + 1 \<and>
           sequence_of_id (us_session_id s) = Some (unat (probe_sequence (rs_stats st'))))
      )"

lemma data_step_effect: "data_step st st' \<Longrightarrow> node_effect w st st'"
  by (simp add: data_step_def node_effect_def same_node_def)

lemma effect_refl [simp]: "node_effect w st st"
  by (rule data_step_effect) simp

lemma stats_effect:
  "probe_sequence (f (rs_stats st)) = probe_sequence (rs_stats st) \<Longrightarrow> node_effect w st (update_stats f st)"
  by (simp add: data_step_effect)

lemma effect_after_stats:
  "probe_sequence (f (rs_stats st)) = probe_sequence (rs_stats st) \<Longrightarrow>
   node_effect w (update_stats f st) st' \<Longrightarrow> node_effect w st st'"
  by (simp add: node_effect_def)

lemma effect_then_stats:
  "node_effect w st st' \<Longrightarrow> probe_sequence (f (rs_stats st')) = probe_sequence (rs_stats st') \<Longrightarrow>
   node_effect w st (update_stats f st')"
  by (simp add: node_effect_def)

lemma probe_sequence_kept_io [frame_simps, simp]:
  "probe_sequence (record_udp_rx n s) = probe_sequence s"
  "probe_sequence (record_udp_tx n s) = probe_sequence s"
  "probe_sequence (record_tcp_rx n s) = probe_sequence s"
  "probe_sequence (record_tcp_tx n s) = probe_sequence s"
  "probe_sequence (record_tcp_accept s) = probe_sequence s"
  "probe_sequence (record_tcp_open s) = probe_sequence s"
  "probe_sequence (record_tcp_close s) = probe_sequence s"
  "probe_sequence (set_udp_listening b s) = probe_sequence s"
  "probe_sequence (set_tcp_listening b s) = probe_sequence s"
  by (simp_all add: stats_defs)

lemma probe_udp_session_sequence:
  "sequence_of_id (us_session_id (probe_udp_session clk transport peer identity n)) = Some (unat n)"
  by (simp add: probe_udp_session_def udp_session_new_def)

lemma probe_effect:
  assumes "build_probe_response w clk st transport peer request = (r, st', rs)"
  shows "node_effect w st st'"
  using assms
proof (cases rule: admitted_justified)
  case 1
  then show ?thesis by (simp add: data_step_effect)
next
  case (2 identity)
  then show ?thesis
    unfolding node_effect_def probe_admits_def same_node_def
    by (metis probe_udp_session_sequence)
qed

lemma handle_client_payload_effect:
  assumes "handle_client_payload w clk st transport peer payload = (r, st', rs)"
  shows "node_effect w st st'"
  using assms
  by (auto simp: handle_client_payload_def build_probe_error_def build_probe_error_with_code_def
      split: parsed_client_message.splits
      intro: probe_effect data_step_effect [OF build_session_data_step]
        data_step_effect [OF build_raw_udp_tunnel_step] data_step_effect [OF data_step_stats])

lemma handle_client_payload_relays:
  assumes "handle_client_payload w clk st transport peer payload = (r, st', rs)" "x \<in> set rs"
  shows "relayed_for (w_lookup_host w) (now_unix (clk 0)) st (relay_asked w payload) x"
  using assms
  by (auto simp: handle_client_payload_def build_probe_error_def build_probe_error_with_code_def
      split: parsed_client_message.splits elim: build_probe_cases
      intro: build_session_data_relays build_raw_udp_tunnel_relays)

lemma effect_outside [simp]: "node_effect (outside w dns net) st st' = node_effect w st st'"
  by (simp add: node_effect_def)

lemma relay_asked_outside [simp]: "relay_asked (outside w dns net) message = relay_asked w message"
  by (simp add: relay_asked_def split: parsed_client_message.splits option.splits)

lemma relayed_for_stats [simp]: "relayed_for dns now (update_stats f st) asked x = relayed_for dns now st asked x"
  by (simp add: relayed_for_def)

lemma udp_packet_effect:
  assumes "udp_packet send_to w clk st peer datagram = (r, st', rs)"
  shows "node_effect w st st'" and "x \<in> set rs \<Longrightarrow> relayed_for (w_lookup_host w) (now_unix (clk 0)) st (relay_asked w (take udp_buffer_bytes datagram)) x"
proof -
  let ?st = "update_stats (record_udp_rx (of_nat (length (take udp_buffer_bytes datagram)))) st"
  obtain q st1 where h: "handle_client_payload w clk ?st Udp peer (take udp_buffer_bytes datagram) = (q, st1, rs)"
    and st': "st' = st1 \<or> (\<exists>n. st' = update_stats (record_udp_tx n) st1)"
    using assms by (auto simp: udp_packet_def Let_def split: prod.splits sum.splits)
  have "node_effect w st st1"
    by (rule effect_after_stats [OF _ handle_client_payload_effect [OF h]]) simp
  with st' show "node_effect w st st'" by (auto intro: effect_then_stats)
  show "x \<in> set rs \<Longrightarrow> relayed_for (w_lookup_host w) (now_unix (clk 0)) st (relay_asked w (take udp_buffer_bytes datagram)) x"
    using handle_client_payload_relays [OF h] by simp
qed

lemma tcp_frame_effect:
  assumes "tcp_frame write_all w clk st peer frame = (r, st', rs)"
  shows "node_effect w st st'" and "x \<in> set rs \<Longrightarrow> relayed_for (w_lookup_host w) (now_unix (clk 0)) st (relay_asked w frame) x"
proof -
  let ?st = "update_stats (record_tcp_rx (of_nat (length frame))) st"
  obtain q st1 where h: "handle_client_payload w clk ?st Tcp peer frame = (q, st1, rs)"
    and st': "st' = st1 \<or> (\<exists>n. st' = update_stats (record_tcp_tx n) st1)"
    using assms by (auto simp: tcp_frame_def Let_def split: prod.splits sum.splits)
  have "node_effect w st st1"
    by (rule effect_after_stats [OF _ handle_client_payload_effect [OF h]]) simp
  with st' show "node_effect w st st'" by (auto intro: effect_then_stats)
  show "x \<in> set rs \<Longrightarrow> relayed_for (w_lookup_host w) (now_unix (clk 0)) st (relay_asked w frame) x"
    using handle_client_payload_relays [OF h] by simp
qed

lemma handle_quic_stream_effect:
  assumes "handle_quic_stream w clk st peer stream = (r, st', rs)"
  shows "node_effect w st st'" and "x \<in> set rs \<Longrightarrow> relayed_for (w_lookup_host w) (now_unix (clk 0)) st (relay_asked w (stream_message stream)) x"
  using assms handle_client_payload_effect handle_client_payload_relays
  by (auto simp: handle_quic_stream_def handle_quic_payload_dispatch data_step_effect stream_message_def
      split: sum.splits if_splits)

lemma sessions_kept_count: "sessions_kept st (snd (active_udp_session_count now st))"
proof (cases "poisoned st")
  case False
  then show ?thesis
    by (auto simp: sessions_kept_def store_ok_ops lookup_count live_at_Some_iff)
qed (simp add: poisoned_stuck)

lemma health_effect:
  assumes "handle_health_connection to_json now1 now2 st request = (r, st')"
  shows "node_effect w st st'"
  using assms sessions_kept_count [of "rs_sessions st" now2]
  by (auto simp: handle_health_connection_def health_snapshot_of_def Let_def node_effect_def
      split: prod.splits if_splits)

lemma listen_effect:
  assumes "spawn_network_listeners bind_udp bind_tcp st = (r, st')"
  shows "node_effect w st st'"
  using assms
  by (auto simp: spawn_network_listeners_def data_step_effect split: option.splits sum.splits)

lemma remote_config_effect:
  assumes "apply_remote_network_config revision remote st = (r, st')"
  shows "node_effect w st st'"
  using assms
  by (auto simp: apply_remote_network_config_def Let_def node_effect_def split: option.splits if_splits)

lemma node_step_effect: "node_step w st es st' \<Longrightarrow> node_effect w st st'"
proof (induction rule: node_step.induct)
  case tcp_open
  show ?case by (intro effect_then_stats stats_effect) simp_all
next
  case (udp send_to dns net clk st peer datagram r st' relays)
  then show ?case using udp_packet_effect(1) by fastforce
next
  case (tcp_line write_all dns net clk st peer frame r st' relays)
  then show ?case using tcp_frame_effect(1) by fastforce
next
  case (quic dns net clk st peer stream r st' relays)
  then show ?case using handle_quic_stream_effect(1) by fastforce
qed (auto intro: health_effect listen_effect remote_config_effect stats_effect)

lemma node_step_relays:
  assumes "node_step w st es st'" "(dns, now, message, x) \<in> set es"
  shows "relayed_for dns now st (relay_asked w message) x"
  using assms
proof (induction rule: node_step.induct)
  case (udp send_to dns' net clk st peer datagram r st' relays)
  then show ?case using udp_packet_effect(2) [OF udp(1)] by (auto simp: relay_events_def)
next
  case (tcp_line write_all dns' net clk st peer frame r st' relays)
  then show ?case using tcp_frame_effect(2) [OF tcp_line(1)] by (auto simp: relay_events_def)
next
  case (quic dns' net clk st peer stream r st' relays)
  then show ?case using handle_quic_stream_effect(2) [OF quic(1)] by (auto simp: relay_events_def)
qed simp_all

section \<open>Invariants of a run\<close>

definition node_inv :: "world \<Rightarrow> runtime_state \<Rightarrow> bool" where
  "node_inv w st \<longleftrightarrow>
     store_usable (rs_sessions st) \<and>
     (\<forall>sid s. lookup_session (rs_sessions st) sid = Some s \<longrightarrow>
        session_justified w (rs_identity st) (snapshot s))"

text \<open>Every id in the table ends with a number that was already given out.\<close>

definition numbers_used :: "runtime_state \<Rightarrow> bool" where
  "numbers_used st \<longleftrightarrow>
     (\<forall>sid s. lookup_session (rs_sessions st) sid = Some s \<longrightarrow>
        (\<exists>n. sequence_of_id sid = Some n \<and> n \<le> unat (probe_sequence (rs_stats st))))"

lemma node_inv_effect:
  assumes "node_inv w st" "node_effect w st st'"
  shows "node_inv w st'"
proof -
  have ident: "rs_identity st' = rs_identity st" using assms(2) by (simp add: node_effect_def)
  have u: "store_usable (rs_sessions st)" using assms(1) by (simp add: node_inv_def)
  from assms(2) consider "sessions_kept (rs_sessions st) (rs_sessions st')"
    | now s where "rs_sessions st' = register_udp_session now s (rs_sessions st)"
        "session_justified w (rs_identity st) (snapshot s)"
    by (auto simp: node_effect_def)
  then show ?thesis
  proof cases
    case 1
    then have "\<exists>s. lookup_session (rs_sessions st) sid = Some s \<and> snapshot s' = snapshot s"
      if "lookup_session (rs_sessions st') sid = Some s'" for sid s'
      using that u by (auto simp: sessions_kept_def store_usable_def)
    then have "session_justified w (rs_identity st) (snapshot s')"
      if "lookup_session (rs_sessions st') sid = Some s'" for sid s'
      using that assms(1) by (fastforce simp: node_inv_def)
    then show ?thesis
      using 1 u ident by (auto simp: node_inv_def sessions_kept_def store_usable_def)
  next
    case (2 now s)
    then show ?thesis
      using assms(1) u ident tbl.register_sources [OF u, of now s] tbl.usable_register [OF u, of now s]
      by (auto simp: node_inv_def)
  qed
qed

lemma numbers_used_effect:
  assumes "node_inv w st" "numbers_used st" "node_effect w st st'"
    and "unat (probe_sequence (rs_stats st)) + 1 < 2 ^ 64"
  shows "numbers_used st'"
    and "unat (probe_sequence (rs_stats st')) \<le> unat (probe_sequence (rs_stats st)) + 1"
proof -
  have u: "store_usable (rs_sessions st)" using assms(1) by (simp add: node_inv_def)
  have inc: "unat (probe_sequence (rs_stats st) + 1) = unat (probe_sequence (rs_stats st)) + 1"
    using assms(4) by (simp add: unat_word_ariths)
  from assms(3) consider "sessions_kept (rs_sessions st) (rs_sessions st')"
      "probe_sequence (rs_stats st') = probe_sequence (rs_stats st)"
    | now s where "rs_sessions st' = register_udp_session now s (rs_sessions st)"
        "probe_sequence (rs_stats st') = probe_sequence (rs_stats st) + 1"
        "sequence_of_id (us_session_id s) = Some (unat (probe_sequence (rs_stats st')))"
    by (auto simp: node_effect_def)
  then have "numbers_used st' \<and>
    unat (probe_sequence (rs_stats st')) \<le> unat (probe_sequence (rs_stats st)) + 1"
  proof cases
    case 1
    then show ?thesis
      using assms(2) u unfolding numbers_used_def sessions_kept_def store_usable_def
      by (metis le_add1)
  next
    case (2 now s)
    have "\<exists>n. sequence_of_id sid = Some n \<and> n \<le> unat (probe_sequence (rs_stats st'))"
      if "lookup_session (rs_sessions st') sid = Some s'" for sid s'
      using tbl.register_sources [OF u that [unfolded 2(1)]]
    proof
      assume "s' = s \<and> sid = us_session_id s"
      then show ?thesis using 2(3) by simp
    next
      assume "lookup_session (rs_sessions st) sid = Some s' \<and> now < us_expires_at s'"
      then obtain n where "sequence_of_id sid = Some n" "n \<le> unat (probe_sequence (rs_stats st))"
        using assms(2) by (auto simp: numbers_used_def)
      then show ?thesis using 2(2) inc by simp
    qed
    then show ?thesis using 2(2) inc by (simp add: numbers_used_def)
  qed
  then show "numbers_used st'"
    and "unat (probe_sequence (rs_stats st')) \<le> unat (probe_sequence (rs_stats st)) + 1" by auto
qed

text \<open>A new session's number is larger than any in the table, so it replaces no other session.\<close>

lemma effect_keeps_session:
  assumes "node_inv w st" "numbers_used st" "unat (probe_sequence (rs_stats st)) + 1 < 2 ^ 64"
    and "node_effect w st st'"
    and "lookup_session (rs_sessions st) sid = Some s" "lookup_session (rs_sessions st') sid = Some s'"
  shows "snapshot s' = snapshot s"
proof -
  have u: "store_usable (rs_sessions st)" using assms(1) by (simp add: node_inv_def)
  from assms(4) consider "sessions_kept (rs_sessions st) (rs_sessions st')"
    | now r where "rs_sessions st' = register_udp_session now r (rs_sessions st)"
        "probe_sequence (rs_stats st') = probe_sequence (rs_stats st) + 1"
        "sequence_of_id (us_session_id r) = Some (unat (probe_sequence (rs_stats st')))"
    by (auto simp: node_effect_def)
  then show ?thesis
  proof cases
    case 1
    then show ?thesis using assms(5,6) u by (fastforce simp: sessions_kept_def store_usable_def)
  next
    case (2 now r)
    have "unat (probe_sequence (rs_stats st')) = unat (probe_sequence (rs_stats st)) + 1"
      using 2(2) assms(3) by (simp add: unat_word_ariths)
    then have "sid \<noteq> us_session_id r" using assms(2,5) 2(3) by (auto simp: numbers_used_def)
    then show ?thesis
      using tbl.register_sources [OF u assms(6) [unfolded 2(1)]] assms(5) by auto
  qed
qed

lemma runtime_state_new_start [simp]:
  "node_inv w (runtime_state_new config identity now)"
  "numbers_used (runtime_state_new config identity now)"
  "probe_sequence (rs_stats (runtime_state_new config identity now)) = 0"
  by (simp_all add: node_inv_def numbers_used_def runtime_state_new_def store_usable_def
      default_stats_def) (simp add: empty_store_def)

lemma runtime_state_new_fields [frame_simps, simp]:
  "rs_identity (runtime_state_new config identity now) = identity"
  "rs_config (runtime_state_new config identity now) = config"
  by (simp_all add: runtime_state_new_def)

lemma node_run_inv:
  assumes "node_run w (runtime_state_new config identity now) n es st"
  shows "node_inv w st \<and> rs_identity st = identity \<and> rs_config st = config"
  using assms
proof (induction rule: node_run.induct)
  case start
  show ?case by simp
next
  case (step n es st es' st')
  then have "node_effect w st st'" by (simp add: node_step_effect)
  with step show ?case by (auto simp: node_inv_effect) (simp_all add: node_effect_def)
qed

lemma node_run_numbers:
  assumes "node_run w (runtime_state_new config identity now) n es st" "n < 2 ^ 64"
  shows "numbers_used st \<and> unat (probe_sequence (rs_stats st)) \<le> n"
  using assms
proof (induction rule: node_run.induct)
  case (step n es st es' st')
  then have "node_inv w st" "numbers_used st" "node_effect w st st'"
    "unat (probe_sequence (rs_stats st)) \<le> n"
    using node_run_inv [OF step(1)] node_step_effect by simp_all
  with step(4) show ?case using numbers_used_effect [of w st st'] by simp
qed simp

lemma node_run_relays:
  assumes "node_run w st0 n es st" "e \<in> set es"
  obtains m es0 st1 es1 st2 where "node_run w st0 m es0 st1" "node_step w st1 es1 st2" "e \<in> set es1"
  using assms
proof (induction arbitrary: thesis rule: node_run.induct)
  case (step n es st es' st')
  show ?case
  proof (cases "e \<in> set es")
    case True
    then show ?thesis using step.IH step.prems(1) by blast
  next
    case False
    then show ?thesis using step.hyps step.prems by auto
  qed
qed simp

section \<open>A whole connection\<close>

text \<open>Serving a connection is opening it, one step per frame, and closing it.\<close>

lemma relay_events_relays: "map (snd \<circ> snd \<circ> snd) (relay_events dns clk message relays) = relays"
  by (simp add: relay_events_def comp_def)

lemma handle_tcp_connection_run:
  assumes "\<And>i. \<exists>dns net clk write_all. turn i = (outside w dns net, clk, write_all)"
    and "handle_tcp_connection turn i st peer frames = (r, st', relays)" "node_run w st0 n es st"
  shows "\<exists>m es'. node_run w st0 m (es @ es') st' \<and> map (snd \<circ> snd \<circ> snd) es' = relays"
  using assms(2,3)
proof (induction frames arbitrary: i st st' r relays n es)
  case Nil
  then show ?case by (auto intro!: exI [of _ "[]"])
next
  case (Cons frame frames)
  obtain dns net clk write_all where turn: "turn i = (outside w dns net, clk, write_all)"
    using assms(1) by blast
  obtain q st1 rs where f: "tcp_frame write_all (outside w dns net) clk st peer frame = (q, st1, rs)"
    using prod_cases3 by blast
  have run: "node_run w st0 (Suc n) (es @ relay_events dns clk frame rs) st1"
    using Cons.prems(2) f by (intro node_run.step node_step.tcp_line)
  show ?case
  proof (cases q)
    case (Inl e)
    then have "st' = st1" "relays = rs"
      using Cons.prems(1) turn f by simp_all
    then show ?thesis
      using run relay_events_relays [of dns clk frame rs] by blast
  next
    case (Inr response)
    obtain r' st2 rs' where rest: "handle_tcp_connection turn (Suc i) st1 peer frames = (r', st2, rs')"
      using prod_cases3 by blast
    obtain m es' where "node_run w st0 m ((es @ relay_events dns clk frame rs) @ es') st2"
      "map (snd \<circ> snd \<circ> snd) es' = rs'"
      using Cons.IH [OF rest run] by blast
    then show ?thesis
      using Cons.prems(1) turn f rest Inr relay_events_relays [of dns clk frame rs]
      by (intro exI [of _ m] exI [of _ "relay_events dns clk frame rs @ es'"]) (auto simp: comp_def)
  qed
qed

lemma serve_tcp_connection_run:
  assumes "\<And>i. \<exists>dns net clk write_all. turn i = (outside w dns net, clk, write_all)"
    and "serve_tcp_connection turn st peer stream = (r, st', relays)" "node_run w st0 n es st"
  shows "\<exists>m es'. node_run w st0 m (es @ es') st' \<and> map (snd \<circ> snd \<circ> snd) es' = relays"
proof -
  have "node_run w st0 (Suc n) (es @ []) (update_stats record_tcp_open (update_stats record_tcp_accept st))"
    by (rule node_run.step [OF assms(3) node_step.tcp_open])
  moreover obtain st1 where
    h: "handle_tcp_connection turn 0 (update_stats record_tcp_open (update_stats record_tcp_accept st)) peer
      (tcp_frames stream) = (r, st1, relays)" and st': "st' = update_stats record_tcp_close st1"
    using assms(2) by (auto simp: serve_tcp_connection_def split: prod.splits)
  ultimately obtain m es' where "node_run w st0 m ((es @ []) @ es') st1" "map (snd \<circ> snd \<circ> snd) es' = relays"
    using handle_tcp_connection_run [OF assms(1) h] by blast
  then show ?thesis
    using node_run.step [OF _ node_step.tcp_close, of w st0 m "es @ es'" st1] st'
    by (intro exI [of _ "Suc m"] exI [of _ es']) simp
qed

end
