(* ===== verification/Example.thy ===== *)
theory Example
  imports Node
begin

text \<open>
  A small node that runs: concrete digests, codecs, resolver and sockets, a token bound to a
  policy, and the two packets of a client that opens a session and sends a datagram through it.
  The properties are applied to it, which shows that their hypotheses hold together.
\<close>

definition example_policy :: route_policy where
  "example_policy =
     \<lparr>policy_id = ''p1'', policy_version = 1, policy_mode = ''dynamic_targets'',
      default_protocol = None, dns_strategy = None,
      policy_targets =
        [\<lparr>rt_target_id = ''t1'', rt_purpose = None, rt_host_type = ''any'', rt_host = None,
          rt_resolved_ips = [], rt_observed_ips = [], rt_cidrs = [],
          rt_ports = [\<lparr>pr_protocol = ''udp'', pr_from = 9000, pr_to = 9010\<rparr>],
          rt_allow_client_observed_ip = None, rt_resolve_ttl_sec = None, rt_required = None\<rparr>],
      policy_capture = None\<rparr>"

definition example_hash :: string where
  "example_hash = hex_encode (sum_digest ''policy'')"

definition example_claims :: client_token_claims where
  "example_claims =
     \<lparr>ct_node_id = 7, ct_user_id = 42, ct_device_id = ''d1'', ct_game_id = 1, ct_game_key = None,
      ct_region_id = None, ct_business = None, ct_intent_id = None,
      ct_route_policy_hash = Some example_hash, ct_route_policy_id = Some ''p1'', ct_route = None,
      ct_expires_at = 2000, ct_issued_at = None, ct_nonce = None\<rparr>"

definition example_secret :: string where "example_secret = ''k''"

definition example_token :: string where
  "example_token =
     token_text (hex_encode ''c'') (hex_encode (sum_digest (example_secret @ signed_part (hex_encode ''c''))))"

definition example_probe :: client_probe_request where
  "example_probe =
     \<lparr>pq_client_nonce = None, pq_user_id = Some 42, pq_device_id = None, pq_game_id = None,
      pq_region_id = None, pq_transport = None, pq_token = Some example_token,
      pq_route_policy = Some example_policy\<rparr>"

definition example_readers :: json_readers where
  "example_readers =
     \<lparr>header_of_json = (\<lambda>_. Some \<lparr>mh_message_type = Some ''probe'', mh_protocol = Some protocol_version\<rparr>),
      probe_of_json = (\<lambda>_. Some example_probe), data_of_json = (\<lambda>_. None),
      claims_of_json = (\<lambda>_. Some example_claims)\<rparr>"

definition example_writers :: json_writers where
  "example_writers =
     \<lparr>json_of_probe = (\<lambda>_. Inr ''ok''), json_of_data = (\<lambda>_. Inr ''data''),
      json_of_error = (\<lambda>_. Inr ''error''), json_of_policy = (\<lambda>_. Inr ''policy'')\<rparr>"

definition example_upstream :: socket_addr where
  "example_upstream = SockV4 0x0A000005 9000"

definition example_dns :: resolver where
  "example_dns = (\<lambda>_. Inr [example_upstream])"

definition example_sockets :: sockets where
  "example_sockets =
     \<lparr>udp_bind = (\<lambda>_. Inr ()), udp_connect = (\<lambda>_. Inr ()), udp_send = (\<lambda>_ b. Inr (length b)),
      udp_recv = (\<lambda>_ _. Within (Inr ''pong'')), tcp_connect = (\<lambda>_ _. Within (Inr ())),
      tcp_write_all = (\<lambda>_ _ _. Within (Inr ())), tcp_read = (\<lambda>_ _. Within (Inr ''pong''))\<rparr>"

definition example_world :: world where
  "example_world =
     \<lparr>w_crypto = demo_crypto, w_readers = example_readers, w_writers = example_writers,
      w_lookup_host = example_dns, w_sockets = example_sockets\<rparr>"

definition example_identity :: identity_state where
  "example_identity =
     \<lparr>id_node_id = Some 7, id_panel_url = Some ''https://panel.test'', id_node_secret_present = True,
      id_bootstrap_response_file = None, id_created_by_installer = False,
      id_node_secret = Some example_secret\<rparr>"

definition example_config :: node_config where
  "example_config =
     \<lparr>nc_identity = \<lparr>ic_node_id = Some 7, ic_panel_url = None, ic_identity_file = ''/id''\<rparr>,
      nc_runtime = \<lparr>rc_data_dir = ''/d'', rc_log_dir = ''/l'', rc_health_addr = SockV4 0x7F000001 80,
        rc_channel = ''stable''\<rparr>,
      nc_bootstrap = None, nc_control = None, nc_network = None, nc_report = None, nc_limits = None\<rparr>"

definition example_peer :: socket_addr where "example_peer = SockV4 0x01020304 5"

definition example_clock :: clock where "example_clock = (\<lambda>_. 1000)"

definition example_start :: runtime_state where
  "example_start = runtime_state_new example_config example_identity 900"

text \<open>The session the first packet opens, and the frame the second one carries.\<close>

definition example_session_id :: string where
  "example_session_id = build_session_id Udp 1000 example_peer 1"

definition example_session :: udp_session where
  "example_session =
     udp_session_new example_session_id (Some 42) (Some ''d1'') (Some 1) None True None None
       (Some example_policy) (Some ''p1'') (Some example_hash) 30 example_peer 1000"

definition example_frame_request :: raw_udp_tunnel_request where
  "example_frame_request =
     \<lparr>ru_session_id = example_session_id, ru_target_id = None, ru_host = ''h'', ru_port = 9000,
      ru_payload = ''hi''\<rparr>"

definition example_frame :: bytes where
  "example_frame = projr (request_encode example_frame_request)"

definition example_relay :: relay where
  "example_relay = (RelayUdp, example_upstream, ''hi'', 200)"

lemmas example_defs = example_policy_def example_claims_def example_probe_def example_readers_def
  example_writers_def example_dns_def example_sockets_def example_world_def example_identity_def
  example_config_def example_clock_def example_start_def

lemma example_acceptable: "acceptable_claims (Some 7) 1000 example_claims"
proof -
  have "trim ''d1'' \<noteq> []" by code_simp
  then show ?thesis by (simp add: acceptable_claims_def example_claims_def)
qed

lemma token_verifies:
  assumes "hmac_sha256 cx secret (signed_part payload) = Some mac"
    and "CHR ''.'' \<notin> set payload" "CHR ''.'' \<notin> set signature"
    and "b64url_decode cx signature = Some mac" "b64url_decode cx payload = Some body"
    and "of_json body = Some claims" "acceptable_claims node now claims"
  shows "verify_token cx of_json (token_text payload signature) node secret now = Inr claims"
  using assms unfolding verify_token_iff by blast

lemma example_verified:
  "verify_token demo_crypto (\<lambda>_. Some example_claims) example_token (Some 7) example_secret 1000 =
     Inr example_claims"
  unfolding example_token_def
  by (rule token_verifies [where body = "''c''"])
    (simp_all only: hex_no_dot example_acceptable demo_crypto_def crypto.simps hex_roundtrip
      not_False_eq_True)

lemma example_token_trim: "trim example_token = example_token" "example_token \<noteq> []"
proof -
  have "printable ''xat.v1.''" "printable ''.''" by (simp_all add: code_of_def)
  then show "trim example_token = example_token" "example_token \<noteq> []"
    by (simp_all add: example_token_def token_text_def)
qed

lemma example_secret_trim: "trim example_secret \<noteq> []"
  by code_simp

lemma example_decision:
  "verify_probe_token demo_crypto (\<lambda>_. Some example_claims) example_probe (Some 7) (Some example_secret) 1000 =
     AuthValid example_claims"
  unfolding verify_probe_token_Valid_iff
  by (intro exI [of _ example_token] exI [of _ example_secret])
    (simp add: example_token_trim example_secret_trim example_verified match_request_claims_iff,
      simp add: example_probe_def example_claims_def)

lemma example_hash_ok:
  "hash_route_policy demo_crypto (\<lambda>_. Inr ''policy'') example_policy = Inr example_hash"
  by (simp add: hash_route_policy_def example_hash_def demo_crypto_def)

definition example_pi :: probe_identity where
  "example_pi =
     \<lparr>pi_credential_present = True, pi_credential_valid = True, pi_credential_expires_at = Some 2000,
      pi_intent_id = None, pi_route_target_addr = None, pi_route_policy = Some example_policy,
      pi_route_policy_id = Some ''p1'', pi_route_policy_hash = Some example_hash,
      pi_user_id = Some 42, pi_device_id = Some ''d1'', pi_game_id = Some 1, pi_region_id = None\<rparr>"

lemma example_world_simps [simp]:
  "w_crypto example_world = demo_crypto" "w_readers example_world = example_readers"
  "w_writers example_world = example_writers" "w_lookup_host example_world = example_dns"
  "w_sockets example_world = example_sockets"
  "claims_of_json example_readers = (\<lambda>_. Some example_claims)"
  "json_of_policy example_writers = (\<lambda>_. Inr ''policy'')"
  "json_of_probe example_writers = (\<lambda>_. Inr ''ok'')"
  "now_unix (example_clock n) = 1000"
  "id_node_id example_identity = Some 7" "id_node_secret example_identity = Some example_secret"
  by (simp_all add: example_world_def example_readers_def example_writers_def example_clock_def
      now_unix_def example_identity_def)

lemma example_start_simps [simp]:
  "rs_identity example_start = example_identity" "probe_sequence (rs_stats example_start) = 0"
  "rs_sessions example_start = empty_store"
  by (simp_all add: example_start_def) (simp add: runtime_state_new_def)

lemma example_identity_from_claims:
  "identity_from_claims example_world example_claims (Some example_policy) = Inr example_pi"
  by (simp add: identity_from_claims_def check_route_policy_def example_hash_ok example_claims_def
      example_pi_def) (simp add: example_policy_def)

lemma example_probe_answer:
  assumes "rs_identity st = example_identity"
  shows "build_probe_response example_world example_clock st Udp example_peer example_probe =
    admit_probe example_world example_clock (update_stats record_auth_ok st) Udp example_peer
      example_probe example_pi"
  using assms example_identity_from_claims example_decision
  by (simp add: build_probe_response_def) (simp add: example_probe_def)

lemma example_message: "parse_client_message example_readers ''x'' = Probe example_probe"
proof -
  have "trim ''x'' = ''x''" "from_utf8 ''x'' = Some ''x''" "\<not> eq_ignore_ascii_case ''x'' ''ping''"
    "\<not> starts_with ''x'' raw_udp_tunnel_magic" by code_simp+
  then show ?thesis by (simp add: parse_client_message_def example_readers_def)
qed

lemma example_outside [simp]: "outside example_world example_dns example_sockets = example_world"
  by (simp add: outside_def example_world_def)

lemma relay_events_Nil [simp]: "relay_events dns clk message [] = []"
  by (simp add: relay_events_def)

text \<open>The first packet opens the session.\<close>

lemma example_open:
  "\<exists>st. node_step example_world example_start [] st \<and> rs_identity st = example_identity \<and>
     probe_sequence (rs_stats st) = 1 \<and>
     rs_sessions st = register_udp_session 1000 example_session empty_store"
proof -
  let ?st = "update_stats (record_udp_rx (of_nat (length (take udp_buffer_bytes ''x'')))) example_start"
  have x: "take udp_buffer_bytes ''x'' = ''x''" by (simp add: udp_buffer_bytes_def)
  obtain r st rs where p: "build_probe_response example_world example_clock ?st Udp example_peer example_probe =
      (r, st, rs)" by (rule prod_cases3)
  have seq: "probe_sequence (record_udp_rx n s) = probe_sequence s" for n s
    by (simp add: stats_defs)
  have "probe_admits example_world example_clock ?st Udp example_peer example_pi st \<and> rs = []"
    using p by (intro admit_probe_admits [of _ _ record_auth_ok]) (simp_all add: example_probe_answer)
  then have st: "rs = []" "rs_identity st = example_identity" "probe_sequence (rs_stats st) = 1"
    "rs_sessions st = register_udp_session 1000 example_session empty_store"
    by (simp_all add: probe_admits_def same_node_def seq probe_udp_session_def example_session_def
        example_pi_def example_session_id_def probe_ttl_sec_def)
  have "handle_client_payload example_world example_clock ?st Udp example_peer ''x'' = (r, st, rs)"
    using p by (simp add: handle_client_payload_def example_message)
  then have "udp_packet (\<lambda>_. Inl ''lost'') (outside example_world example_dns example_sockets)
      example_clock example_start example_peer ''x'' = (None, st, rs)"
    by (simp add: udp_packet_def x)
  from node_step.udp [OF this] have "node_step example_world example_start (relay_events example_dns example_clock ''x'' rs) st"
    by (simp only: x)
  then show ?thesis using st by auto
qed

lemma example_run_open:
  obtains st where "node_run example_world example_start 1 [] st" "rs_identity st = example_identity"
    "probe_sequence (rs_stats st) = 1"
    "lookup_session (rs_sessions st) example_session_id = Some example_session"
    "store_usable (rs_sessions st)"
proof -
  obtain st where st: "node_step example_world example_start [] st" "rs_identity st = example_identity"
    "probe_sequence (rs_stats st) = 1"
    "rs_sessions st = register_udp_session 1000 example_session empty_store"
    using example_open by blast
  have u: "store_usable empty_store"
    by (simp add: store_usable_def) (simp add: empty_store_def)
  have "node_run example_world example_start 1 [] st"
    using node_run.step [OF node_run.start st(1)] by simp
  moreover have "us_session_id example_session = example_session_id"
    by (simp add: example_session_def udp_session_new_def)
  ultimately show ?thesis
    using that [of st] st tbl.register_lookup [OF u] tbl.usable_register [OF u] by simp
qed

lemma example_session_id_text:
  "printable example_session_id" "example_session_id \<noteq> []" "length example_session_id < 100"
proof -
  have "show_nat 1 = ''1''" "show_nat 2 = ''2''" "show_nat 3 = ''3''" "show_nat 4 = ''4''"
    "show_nat 5 = ''5''" "show_nat 1000 = ''1000''"
    by (simp_all add: show_radix.simps digit_char_def char_of_def bit_Suc_0_iff)
  then have sid: "example_session_id = ''ps-udp-1000-1-2-3-4-5-1''"
    by (simp add: example_session_id_def build_session_id_def example_peer_def show_ipv4_def Let_def
        show_u64_def show_u16_def replace_char_def)
  show "printable example_session_id" "example_session_id \<noteq> []" "length example_session_id < 100"
    unfolding sid by (simp_all add: code_of_def)
qed

lemma example_frame_ok:
  "request_frame_ok example_frame_request" "request_encode example_frame_request = Inr example_frame"
proof -
  have "printable ''h''" by (simp add: code_of_def)
  then show ok: "request_frame_ok example_frame_request"
    using example_session_id_text
    by (simp add: request_frame_ok_def example_frame_request_def utf8_valid_ascii printable_ascii)
  show "request_encode example_frame_request = Inr example_frame"
    using request_encode_frame [OF ok] by (simp add: example_frame_def)
qed

lemma example_frame_message:
  "parse_client_message example_readers example_frame = RawUdpTunnel example_frame_request"
proof -
  have "starts_with example_frame raw_udp_tunnel_magic"
    using request_encode_frame [OF example_frame_ok(1)]
    by (simp add: example_frame_def tunnel_frame_def)
  then show ?thesis
    using parse_encode [OF example_frame_ok] by (simp add: parse_client_message_def)
qed

lemma example_policy_match:
  "match_route_policy_target example_policy
     \<lparr>sd_target_id = None, sd_protocol = Some ''udp'', sd_host = ''h'', sd_port = 9000,
      sd_original_domain = None\<rparr> = Inr \<lparr>tm_target_id = ''t1'', tm_policy_id = ''p1''\<rparr>"
  by code_simp

lemma example_target:
  "resolve_session_target example_dns (tunnel_target_request example_frame_request) None
     (Some example_policy) =
   Inr (Some \<lparr>rv_protocol = RelayUdp, rv_socket_addr = example_upstream,
     rv_policy_match = Some \<lparr>tm_target_id = ''t1'', tm_policy_id = ''p1''\<rparr>\<rparr>)"
  using example_policy_match
  by (simp add: resolve_session_target_def tunnel_target_request_def example_frame_request_def
      resolve_host_port_def resolve_socket_addr_def example_dns_def)

text \<open>The second packet is relayed: the run has one relay event.\<close>

lemma example_run_relay:
  "\<exists>st es st'. node_run example_world example_start 1 [] st \<and>
     lookup_session (rs_sessions st) example_session_id = Some example_session \<and>
     node_step example_world st es st' \<and> es = [(example_dns, 1000, example_frame, example_relay)]"
proof -
  obtain st where run: "node_run example_world example_start 1 [] st"
    and found: "lookup_session (rs_sessions st) example_session_id = Some example_session"
    and u: "store_usable (rs_sessions st)"
    by (rule example_run_open)
  have len: "length example_frame \<le> udp_buffer_bytes"
    using request_codec.dec_length [OF parse_encode [OF example_frame_ok]] example_session_id_text(3)
    by (simp add: request_size_def udp_buffer_bytes_def raw_udp_header_bytes_def example_frame_request_def)
  let ?st = "update_stats (record_udp_rx (of_nat (length example_frame))) st"
  have sess: "us_expires_at example_session = 1030" "snapshot example_session =
      (snapshot example_session)\<lparr>sn_authenticated := True, sn_route_target_addr := None,
        sn_route_policy := Some example_policy\<rparr>"
    by (simp_all add: example_session_def udp_session_new_def snapshot_def)
  obtain q sessions where io: "record_udp_session_io 1000 example_session_id example_peer 2 0 (rs_sessions st) =
      (q, sessions)" by (rule prod.exhaust)
  have q: "q = Inr (snapshot example_session)"
    using tbl.account_result [OF u, of 1000 example_session_id example_peer 2 0] found io sess by simp
  obtain r st' rs where b: "build_raw_udp_tunnel_response example_world example_clock ?st Udp example_peer
      example_frame_request = (r, st', rs)" by (rule prod_cases3)
  have rs: "rs = [example_relay]"
  proof -
    have "sn_authenticated (snapshot example_session)" "sn_route_target_addr (snapshot example_session) = None"
      "sn_route_policy (snapshot example_session) = Some example_policy"
      by (simp_all add: example_session_def udp_session_new_def snapshot_def)
    then have "relay_tunnel_frame example_world example_clock (?st\<lparr>rs_sessions := sessions\<rparr>) example_peer
        example_frame_request \<lparr>rv_protocol = RelayUdp, rv_socket_addr = example_upstream,
           rv_policy_match = Some \<lparr>tm_target_id = ''t1'', tm_policy_id = ''p1''\<rparr>\<rparr> = (r, st', rs)"
      using b io q example_target
      by (simp add: build_raw_udp_tunnel_response_def Let_def) (simp add: example_frame_request_def)
    then show ?thesis
      by (auto dest!: relay_tunnel_frame_relays
          simp: example_relay_def example_frame_request_def default_relay_timeout_ms_def)
  qed
  have "handle_client_payload example_world example_clock ?st Udp example_peer example_frame = (r, st', rs)"
    using b by (simp add: handle_client_payload_def example_frame_message)
  then have "udp_packet (\<lambda>_. Inl ''lost'') (outside example_world example_dns example_sockets)
      example_clock st example_peer example_frame = (None, st', rs)"
    using len by (simp add: udp_packet_def)
  then have "node_step example_world st (relay_events example_dns example_clock example_frame rs) st'"
    using len node_step.udp by fastforce
  moreover have "relay_events example_dns example_clock example_frame rs =
      [(example_dns, 1000, example_frame, example_relay)]"
    by (simp add: relay_events_def rs)
  ultimately show ?thesis using run found by metis
qed

text \<open>A relay of session data the upstream answers, with a timeout cut to a second.\<close>

definition patient_request :: client_session_data_request where
  "patient_request = (tunnel_target_request example_frame_request)\<lparr>dq_response_timeout_ms := Some 60000\<rparr>"

theorem relay_is_bounded_witness:
  "\<exists>answer s'. relay_session_data example_world patient_request ''hi''
       \<lparr>rv_protocol = RelayUdp, rv_socket_addr = example_upstream, rv_policy_match = None\<rparr> default_stats =
       (Inr answer, s', [(RelayUdp, example_upstream, ''hi'', 1000)]) \<and>
     da_payload_bytes answer = ''pong''"
proof -
  let ?t = "\<lparr>rv_protocol = RelayUdp, rv_socket_addr = example_upstream, rv_policy_match = None\<rparr>"
  obtain r s' rs where run: "relay_session_data example_world patient_request ''hi'' ?t default_stats = (r, s', rs)"
    by (rule prod_cases3)
  have asked: "dq_response_timeout_ms patient_request = Some 60000"
    by (simp add: patient_request_def)
  obtain ms where rs: "rs = [(RelayUdp, example_upstream, ''hi'', ms)]" and ms: "unat ms = 1000"
    using relay_is_bounded [OF run] asked by auto
  have "ms = 1000" using ms by (simp add: word_unat_eq_iff)
  moreover have "\<exists>answer. r = Inr answer \<and> da_payload_bytes answer = ''pong''"
    using run
    by (auto simp: relay_session_data_def Let_def relay_payload_def relay_udp_payload_def
        read_into_buffer_def example_sockets_def max_relay_response_bytes_def)
  ultimately show ?thesis using run rs by blast
qed

end
