(* ===== verification/Api_Text.thy ===== *)
theory Api_Text
  imports Rust_Net
begin

text \<open>
  The checks and normalisations of request fields in \<open>control-api/src/main.rs\<close>: texts with a
  length limit, addresses, ports, URLs, command arguments, shell words and the closed sets of
  status words. An \<open>AppError\<close> is its HTTP status, its code and its message; an internal error
  hides its cause.
\<close>

record app_error =
  ae_status :: nat
  ae_code :: string
  ae_message :: string

definition app_error_new :: "nat \<Rightarrow> string \<Rightarrow> string \<Rightarrow> app_error" where
  "app_error_new status code message = \<lparr>ae_status = status, ae_code = code, ae_message = message\<rparr>"

definition bad_request :: "string \<Rightarrow> string \<Rightarrow> app_error" where
  "bad_request = app_error_new 400"
definition unauthorized :: "string \<Rightarrow> string \<Rightarrow> app_error" where
  "unauthorized = app_error_new 401"
definition forbidden :: "string \<Rightarrow> string \<Rightarrow> app_error" where
  "forbidden = app_error_new 403"
definition not_found :: "string \<Rightarrow> string \<Rightarrow> app_error" where
  "not_found = app_error_new 404"
definition conflict :: "string \<Rightarrow> string \<Rightarrow> app_error" where
  "conflict = app_error_new 409"
definition service_unavailable :: "string \<Rightarrow> string \<Rightarrow> app_error" where
  "service_unavailable = app_error_new 503"
definition internal_error :: app_error where
  "internal_error = app_error_new 500 ''internal_error'' ''internal operation failed''"
definition database_error :: app_error where
  "database_error = app_error_new 500 ''database_error'' ''database operation failed''"

lemmas app_error_defs = app_error_new_def bad_request_def unauthorized_def forbidden_def
  not_found_def conflict_def service_unavailable_def internal_error_def database_error_def

section \<open>Texts with a limit\<close>

definition normalize_required_text :: "string \<Rightarrow> string \<Rightarrow> nat \<Rightarrow> (app_error, string) result" where
  "normalize_required_text value field max_len =
     (let v = trim value
      in if v = [] then Inl (bad_request ''invalid_field'' (field @ '' is required''))
         else if max_len < char_count v then
           Inl (bad_request ''invalid_field''
             (field @ '' must be at most '' @ show_nat max_len @ '' characters''))
         else Inr v)"

definition nonempty_text :: "string option \<Rightarrow> string option" where
  "nonempty_text value = filter_option (\<lambda>v. v \<noteq> []) (map_option trim value)"

definition normalize_optional_text :: "string option \<Rightarrow> nat \<Rightarrow> (app_error, string option) result" where
  "normalize_optional_text value max_len =
     (case nonempty_text value of
        None \<Rightarrow> Inr None
      | Some v \<Rightarrow>
          if max_len < char_count v then
            Inl (bad_request ''invalid_field''
              (''field must be at most '' @ show_nat max_len @ '' characters''))
          else Inr (Some v))"

definition normalize_business_text :: "string option \<Rightarrow> string option" where
  "normalize_business_text value = nonempty_text value"

definition normalize_ip_text :: "string \<Rightarrow> string \<Rightarrow> (app_error, string) result" where
  "normalize_ip_text value field =
     bind_result (normalize_required_text value field 64) (\<lambda>v.
     bind_result (ok_or (bad_request ''invalid_ip'' (field @ '' must be a valid IP address''))
       (parse_ip_addr v)) (\<lambda>_. Inr v))"

definition normalize_optional_ip_text ::
  "string option \<Rightarrow> string \<Rightarrow> (app_error, string option) result"
where
  "normalize_optional_ip_text value field =
     bind_result (normalize_optional_text value 64) (\<lambda>x.
     (case x of
        None \<Rightarrow> Inr None
      | Some v \<Rightarrow>
          bind_result (ok_or (bad_request ''invalid_ip'' (field @ '' must be a valid IP address''))
            (parse_ip_addr v)) (\<lambda>_. Inr (Some v))))"

definition validate_port :: "u32 \<Rightarrow> string \<Rightarrow> (app_error, u32) result" where
  "validate_port port field =
     (if 1 \<le> port \<and> port \<le> 65535 then Inr port
      else Inl (bad_request ''invalid_port'' (field @ '' must be 1-65535'')))"

definition validate_target_addr :: "string \<Rightarrow> (app_error, string) result" where
  "validate_target_addr value =
     bind_result (normalize_required_text value ''target_addr'' 255) (\<lambda>v.
     (case rsplit_once (CHR '':'') v of
        None \<Rightarrow> Inl (bad_request ''invalid_target_addr'' ''target_addr must use host:port format'')
      | Some (host, port) \<Rightarrow>
          if trim host = [] then Inl (bad_request ''invalid_target_addr'' ''target host is required'')
          else
            bind_result (ok_or (bad_request ''invalid_target_addr'' ''target port must be numeric'')
              (parse_uint (2 ^ 32) port)) (\<lambda>p.
            bind_result (validate_port (of_nat p) ''target_port'') (\<lambda>_. Inr v))))"

section \<open>URLs, arguments, shell words\<close>

text \<open>Whether a text has a character with the property \<open>White_Space\<close>.\<close>

fun has_whitespace :: "string \<Rightarrow> bool" where
  "has_whitespace [] = False"
| "has_whitespace (a # s) =
     (ws1 a \<or> (case s of [] \<Rightarrow> False | b # r \<Rightarrow> ws2 a b \<or> (case r of [] \<Rightarrow> False | c # _ \<Rightarrow> ws3 a b c))
      \<or> has_whitespace s)"

definition trim_trailing_slash :: "string \<Rightarrow> string" where
  "trim_trailing_slash value = trim_end_matches (CHR ''/'') value"

definition normalize_url_arg :: "string \<Rightarrow> (app_error, string) result" where
  "normalize_url_arg value =
     (let v = trim value
      in if v = [] then Inl (bad_request ''invalid_url'' ''url must not be empty'')
         else if has_whitespace v then
           Inl (bad_request ''invalid_url'' ''url must not contain whitespace'')
         else if \<not> (starts_with v ''http://'' \<or> starts_with v ''https://'') then
           Inl (bad_request ''invalid_url'' ''url must start with http:// or https://'')
         else Inr (trim_trailing_slash v))"

definition normalize_optional_url_arg :: "string option \<Rightarrow> (app_error, string option) result" where
  "normalize_optional_url_arg value =
     (case nonempty_text value of
        None \<Rightarrow> Inr None
      | Some v \<Rightarrow> bind_result (normalize_url_arg v) (\<lambda>u. Inr (Some u)))"

definition is_ascii_alphanumeric :: "byte \<Rightarrow> bool" where
  "is_ascii_alphanumeric c \<longleftrightarrow>
     (48 \<le> code_of c \<and> code_of c \<le> 57) \<or> (65 \<le> code_of c \<and> code_of c \<le> 90) \<or>
     (97 \<le> code_of c \<and> code_of c \<le> 122)"

definition command_char :: "byte \<Rightarrow> bool" where
  "command_char c \<longleftrightarrow> is_ascii_alphanumeric c \<or> c \<in> {CHR ''.'', CHR ''_'', CHR ''-''}"

definition normalize_command_arg :: "string \<Rightarrow> (app_error, string) result" where
  "normalize_command_arg value =
     (let v = trim value
      in if v = [] then Inl (bad_request ''invalid_argument'' ''argument must not be empty'')
         else if list_ex (\<lambda>c. \<not> command_char c) v then
           Inl (bad_request ''invalid_argument''
             ''argument may only contain letters, numbers, dot, underscore, or dash'')
         else Inr v)"

definition quote_char :: byte where "quote_char = char_of (39::nat)"
definition backslash_char :: byte where "backslash_char = char_of (92::nat)"

definition shell_quote :: "string \<Rightarrow> string" where
  "shell_quote value =
     [quote_char] @
     concat (map (\<lambda>ch. if ch = quote_char then [quote_char, backslash_char, quote_char, quote_char]
                       else [ch]) value) @
     [quote_char]"

section \<open>Closed sets of words\<close>

definition word_of :: "string list \<Rightarrow> app_error \<Rightarrow> string \<Rightarrow> (app_error, string) result" where
  "word_of words e value = (if trim value \<in> set words then Inr (trim value) else Inl e)"

definition validate_route_rule_status :: "string \<Rightarrow> (app_error, string) result" where
  "validate_route_rule_status =
     word_of [''enabled'', ''disabled'']
       (bad_request ''invalid_route_status'' ''status must be enabled or disabled'')"

definition validate_admin_node_status :: "string \<Rightarrow> (app_error, string) result" where
  "validate_admin_node_status =
     word_of [''pending_install'', ''draining'', ''offline'', ''install_failed'', ''disabled'']
       (bad_request ''invalid_node_status''
         ''status must be pending_install, draining, offline, install_failed, or disabled; online/degraded are set by signed node reports'')"

definition validate_admin_node_task_type :: "string \<Rightarrow> (app_error, string) result" where
  "validate_admin_node_task_type =
     word_of [''restart_node''] (bad_request ''invalid_task_type'' ''task_type must be restart_node'')"

definition validate_operation_task_status :: "string \<Rightarrow> (app_error, string) result" where
  "validate_operation_task_status =
     word_of [''running'', ''succeeded'', ''failed'']
       (bad_request ''invalid_operation_task_status''
         ''operation task status must be running, succeeded, or failed'')"

definition validate_node_task_result_status :: "string \<Rightarrow> (app_error, string) result" where
  "validate_node_task_result_status =
     word_of [''succeeded'', ''failed'']
       (bad_request ''invalid_task_status'' ''task result status must be succeeded or failed'')"

definition validate_ssh_action :: "string \<Rightarrow> (app_error, string) result" where
  "validate_ssh_action =
     word_of [''test_connection'', ''restart_node_service'', ''upgrade_node'', ''reboot_server'']
       (bad_request ''invalid_ssh_action''
         ''ssh action must be test_connection, restart_node_service, upgrade_node, or reboot_server'')"

definition validate_admin_role :: "string \<Rightarrow> (app_error, string) result" where
  "validate_admin_role =
     word_of [''super_admin'', ''operator'', ''viewer'']
       (bad_request ''invalid_admin_role'' ''admin role must be super_admin, operator, or viewer'')"

definition validate_admin_user_status :: "string \<Rightarrow> (app_error, string) result" where
  "validate_admin_user_status =
     word_of [''active'', ''disabled'']
       (bad_request ''invalid_admin_status'' ''admin user status must be active or disabled'')"

definition validate_release_download_mode :: "string option \<Rightarrow> (app_error, string) result" where
  "validate_release_download_mode mode =
     (case nonempty_text mode of
        None \<Rightarrow> Inr ''github_api_first''
      | Some m \<Rightarrow>
          if m \<in> {''github_api_first'', ''standard_first'', ''custom_urls''} then Inr m
          else Inl (bad_request ''invalid_release_download_mode''
            ''release_download_mode must be github_api_first, standard_first, or custom_urls''))"

definition validate_admin_password :: "string \<Rightarrow> (app_error, unit) result" where
  "validate_admin_password value =
     (if char_count value < 8 \<or> 128 < char_count value then
        Inl (bad_request ''invalid_password'' ''password must be 8-128 characters'')
      else Inr ())"

section \<open>Numbers and log texts\<close>

definition clamp_u32 :: "u64 \<Rightarrow> u32" where
  "clamp_u32 value = ucast (min value 4294967295)"

definition clamp_limit :: "u32 option \<Rightarrow> u32 \<Rightarrow> u32 \<Rightarrow> u32" where
  "clamp_limit limit d m = min (max (unwrap_or d limit) 1) m"

definition clamp_bootstrap_ttl :: "u64 option \<Rightarrow> (app_error, u64) result" where
  "clamp_bootstrap_ttl ttl =
     (let t = unwrap_or 3600 ttl
      in if t = 0 then Inl (bad_request ''invalid_bootstrap_ttl'' ''expires_in_sec must be positive'')
         else Inr (min t 86400))"

definition api_trim_for_log :: "string \<Rightarrow> nat \<Rightarrow> string" where
  "api_trim_for_log value max_chars =
     take_chars max_chars (trim value) @
     (if max_chars < char_count (trim value) then ''...'' else [])"

definition truncate_chars :: "string \<Rightarrow> nat \<Rightarrow> string" where
  "truncate_chars value max_chars =
     (if char_count value \<le> max_chars then value else take_chars max_chars value)"

section \<open>What a normaliser promises\<close>

text \<open>
  A normaliser looks only at the trimmed text, and a value it accepts is trimmed and accepted
  again unchanged: what is stored can be sent back.
\<close>

locale normaliser =
  fixes norm :: "string \<Rightarrow> ('e, string) result"
  assumes norm_trim: "norm (trim v) = norm v"
    and norm_value: "norm v = Inr w \<Longrightarrow> w = trim v \<and> w \<noteq> []"
begin

lemma accepted_again: "norm v = Inr w \<Longrightarrow> norm w = Inr w"
  using norm_value [of v w] norm_trim [of v] by auto

lemma idempotent: "bind_result (norm v) norm = norm v"
  using accepted_again by (cases "norm v") simp_all

lemma accepted_trimmed: "norm v = Inr w \<Longrightarrow> trim w = w"
  using norm_value [of v w] by auto

lemma blank_refused: "trim v = [] \<Longrightarrow> norm v \<noteq> Inr w"
  using norm_value by force

end

lemma normalize_required_text_Inr:
  "normalize_required_text value field n = Inr w \<longleftrightarrow>
     w = trim value \<and> w \<noteq> [] \<and> char_count w \<le> n"
  by (auto simp: normalize_required_text_def Let_def)

interpretation required: normaliser "\<lambda>v. normalize_required_text v field n" for field n
  by unfold_locales (auto simp: normalize_required_text_Inr, simp add: normalize_required_text_def)

interpretation ip_text: normaliser "\<lambda>v. normalize_ip_text v field" for field
  by unfold_locales
    (auto simp: normalize_ip_text_def normalize_required_text_Inr required.norm_trim)

lemma target_port [simp]:
  "parse_uint (2 ^ 32) t = Some p \<Longrightarrow>
   validate_port (of_nat p) field = Inr q \<longleftrightarrow> q = of_nat p \<and> 1 \<le> p \<and> p \<le> 65535"
  using parse_uint_bound [of "2 ^ 32" t p]
  by (auto simp: validate_port_def word_le_nat_alt unsigned_of_nat take_bit_nat_eq_self)

lemma validate_target_addr_Inr:
  "validate_target_addr value = Inr w \<longleftrightarrow>
     w = trim value \<and> w \<noteq> [] \<and> char_count w \<le> 255 \<and>
     (\<exists>host port p. rsplit_once (CHR '':'') w = Some (host, port) \<and> trim host \<noteq> [] \<and>
        parse_uint (2 ^ 32) port = Some p \<and> 1 \<le> p \<and> p \<le> 65535)"
  unfolding validate_target_addr_def bind_result_Inr_iff normalize_required_text_Inr
  by (cases "rsplit_once (CHR '':'') (trim value)") (auto split: if_splits)

interpretation target_text: normaliser validate_target_addr
  by unfold_locales
    (simp add: validate_target_addr_def required.norm_trim, simp add: validate_target_addr_Inr)

lemma normalize_command_arg_Inr:
  "normalize_command_arg value = Inr w \<longleftrightarrow>
     w = trim value \<and> w \<noteq> [] \<and> (\<forall>c \<in> set w. command_char c)"
  by (auto simp: normalize_command_arg_def Let_def list_ex_iff)

interpretation command_text: normaliser normalize_command_arg
  by unfold_locales (simp add: normalize_command_arg_def, simp add: normalize_command_arg_Inr)

lemma word_of_normaliser: "[] \<notin> set words \<Longrightarrow> normaliser (word_of words e)"
  by unfold_locales (auto simp: word_of_def split: if_splits)

interpretation route_status: normaliser validate_route_rule_status
  unfolding validate_route_rule_status_def by (rule word_of_normaliser) simp

interpretation node_status_text: normaliser validate_admin_node_status
  unfolding validate_admin_node_status_def by (rule word_of_normaliser) simp

interpretation ssh_action: normaliser validate_ssh_action
  unfolding validate_ssh_action_def by (rule word_of_normaliser) simp

interpretation admin_role: normaliser validate_admin_role
  unfolding validate_admin_role_def by (rule word_of_normaliser) simp

text \<open>The optional forms agree with the required ones on a text that is not blank.\<close>

lemma nonempty_text_simps [simp]:
  "nonempty_text None = None"
  "nonempty_text (Some v) = (if trim v = [] then None else Some (trim v))"
  by (simp_all add: nonempty_text_def)

lemma normalize_optional_text_idem:
  "normalize_optional_text value n = Inr x \<Longrightarrow> normalize_optional_text x n = Inr x"
  by (cases "value") (auto simp: normalize_optional_text_def split: if_splits)

section \<open>URLs\<close>

lemma normalize_url_arg_Inr:
  "normalize_url_arg value = Inr w \<longleftrightarrow>
     trim value \<noteq> [] \<and> \<not> has_whitespace (trim value) \<and>
     (starts_with (trim value) ''http://'' \<or> starts_with (trim value) ''https://'') \<and>
     w = trim_trailing_slash (trim value)"
  by (auto simp: normalize_url_arg_def Let_def)

section \<open>Quoted shell words\<close>

text \<open>
  \<open>shell_words\<close> splits a command line the way a POSIX shell does, as far as the built commands
  need it: blanks, single quotes, a backslash before a character or a line end, and the pipe as
  a word. \<open>None\<close> is anything else with a meaning to the shell.
\<close>

definition shell_special :: "byte \<Rightarrow> bool" where
  "shell_special c \<longleftrightarrow> c \<in> set ''$;&()<>*?[]#~=%!{}'' \<or> code_of c \<in> {34, 96, 10, 9}"

definition flush_word :: "string option \<Rightarrow> string list option \<Rightarrow> string list option" where
  "flush_word w ws = map_option (\<lambda>r. (case w of None \<Rightarrow> r | Some x \<Rightarrow> x # r)) ws"

definition word_char :: "string option \<Rightarrow> byte \<Rightarrow> string option" where
  "word_char w c = Some (unwrap_or [] w @ [c])"

fun shell_words :: "bool \<Rightarrow> string option \<Rightarrow> string \<Rightarrow> string list option" where
  "shell_words True w [] = None"
| "shell_words True w (c # s) =
     (if c = quote_char then shell_words False w s else shell_words True (word_char w c) s)"
| "shell_words False w [] = flush_word w (Some [])"
| "shell_words False w (c # s) =
     (if c = CHR '' '' then flush_word w (shell_words False None s)
      else if c = quote_char then shell_words True (Some (unwrap_or [] w)) s
      else if c = backslash_char then
        (case s of
           [] \<Rightarrow> None
         | d # r \<Rightarrow>
             if code_of d = 10 then shell_words False w r
             else shell_words False (word_char w d) r)
      else if c = CHR ''|'' then flush_word w (flush_word (Some ''|'') (shell_words False None s))
      else if shell_special c then None
      else shell_words False (word_char w c) s)"

lemma shell_codes [simp]:
  "code_of quote_char = 39" "code_of backslash_char = 92"
  by (simp_all add: quote_char_def backslash_char_def)

lemma quote_backslash [simp]:
  "quote_char \<noteq> backslash_char" "backslash_char \<noteq> quote_char" "quote_char \<noteq> CHR '' ''"
  "CHR '' '' \<noteq> quote_char" "backslash_char \<noteq> CHR '' ''"
  by (rule notI, drule arg_cong [where f = code_of], simp add: code_of_def [of "CHR '' ''"])+

lemma shell_words_quoted_body:
  "shell_words True w (concat (map (\<lambda>ch. if ch = quote_char
       then [quote_char, backslash_char, quote_char, quote_char] else [ch]) v) @ quote_char # s) =
   shell_words False (if v = [] then w else Some (unwrap_or [] w @ v)) s"
  by (induction v arbitrary: w) (auto simp: word_char_def)

lemma shell_words_quote:
  "shell_words False w (shell_quote v @ s) = shell_words False (Some (unwrap_or [] w @ v)) s"
  by (simp add: shell_quote_def shell_words_quoted_body)

definition plain_shell_char :: "byte \<Rightarrow> bool" where
  "plain_shell_char c \<longleftrightarrow>
     c \<noteq> CHR '' '' \<and> c \<noteq> quote_char \<and> c \<noteq> backslash_char \<and> c \<noteq> CHR ''|'' \<and> \<not> shell_special c"

lemma shell_words_plain:
  "list_all plain_shell_char v \<Longrightarrow> v \<noteq> [] \<Longrightarrow>
   shell_words False w (v @ s) = shell_words False (Some (unwrap_or [] w @ v)) s"
proof (induction v arbitrary: w)
  case (Cons c v)
  then show ?case
    by (cases "v = []") (auto simp: plain_shell_char_def word_char_def)
qed simp

lemma shell_words_space:
  "shell_words False w (CHR '' '' # s) = flush_word w (shell_words False None s)"
  by simp

section \<open>Properties\<close>

text \<open>
  What the API stores can be sent back: every field normaliser accepts its own result and
  returns it unchanged, refuses what it refused, and never returns a blank or untrimmed text.
\<close>

theorem normalisers_idempotent:
  "bind_result (normalize_required_text v field n) (\<lambda>w. normalize_required_text w field n) =
      normalize_required_text v field n \<and>
   bind_result (normalize_ip_text v field) (\<lambda>w. normalize_ip_text w field) = normalize_ip_text v field \<and>
   bind_result (validate_target_addr v) validate_target_addr = validate_target_addr v \<and>
   bind_result (normalize_command_arg v) normalize_command_arg = normalize_command_arg v \<and>
   bind_result (validate_route_rule_status v) validate_route_rule_status = validate_route_rule_status v \<and>
   bind_result (validate_admin_node_status v) validate_admin_node_status = validate_admin_node_status v \<and>
   bind_result (validate_ssh_action v) validate_ssh_action = validate_ssh_action v \<and>
   bind_result (validate_admin_role v) validate_admin_role = validate_admin_role v \<and>
   bind_result (normalize_optional_text t n) (\<lambda>x. normalize_optional_text x n) = normalize_optional_text t n"
proof -
  have "bind_result (normalize_optional_text t n) (\<lambda>x. normalize_optional_text x n) = normalize_optional_text t n"
    using normalize_optional_text_idem [of t n] by (cases "normalize_optional_text t n") simp_all
  then show ?thesis
    using required.idempotent [of v field n] ip_text.idempotent [of v field] target_text.idempotent [of v]
      command_text.idempotent [of v] route_status.idempotent [of v] node_status_text.idempotent [of v]
      ssh_action.idempotent [of v] admin_role.idempotent [of v]
    by blast
qed

text \<open>
  A quoted argument is one word: whatever bytes an argument holds, blanks, quotes, dollar
  signs, newlines and pipes included, the shell reads its quoted form as exactly that word, and
  reads what follows it as it would have.
\<close>

theorem shell_quote_is_one_word:
  "shell_words False None (shell_quote v) = Some [v] \<and>
   shell_words False None (shell_quote v @ CHR '' '' # rest) = map_option (\<lambda>ws. v # ws) (shell_words False None rest)"
proof -
  have "shell_words False None (shell_quote v @ []) = Some [v]"
    unfolding shell_words_quote by (simp add: flush_word_def)
  then show ?thesis
    using shell_words_quote [of None v "CHR '' '' # rest"] by (simp add: flush_word_def)
qed

end
