(* ===== verification/Api_Auth.thy ===== *)
theory Api_Auth
  imports Api_Text Codecs
begin

text \<open>
  Authentication in \<open>control-api/src/main.rs\<close>: the constant-time comparison, tokens from
  headers, administrator sessions and roles, the signed requests of nodes, password hashes, and
  the install commands handed to a shell. A header map is a list of names and values; a value
  is \<open>None\<close> where \<open>to_str\<close> refuses it. Random bytes are arguments.
\<close>

section \<open>Comparison\<close>

definition byte_at :: "bytes \<Rightarrow> nat \<Rightarrow> u64" where
  "byte_at s i = (if i < length s then of_nat (code_of (s ! i)) else 0)"

definition constant_time_eq :: "bytes \<Rightarrow> bytes \<Rightarrow> bool" where
  "constant_time_eq left right =
     (foldl (\<lambda>diff index. diff OR (byte_at left index XOR byte_at right index))
        (of_nat (length left) XOR of_nat (length right))
        [0..<max (length left) (length right)] = (0 :: u64))"

section \<open>Headers\<close>

type_synonym headers = "(string \<times> string option) list"

text \<open>Header names compare without case.\<close>

fun header_get :: "headers \<Rightarrow> string \<Rightarrow> string option option" where
  "header_get [] name = None"
| "header_get ((k, v) # hs) name =
     (if eq_ignore_ascii_case k name then Some v else header_get hs name)"

definition header_text :: "headers \<Rightarrow> string \<Rightarrow> string option" where
  "header_text hs name = Option.bind (header_get hs name) id"

definition bearer_or :: "string \<Rightarrow> headers \<Rightarrow> string option" where
  "bearer_or name hs =
     (case Option.bind (header_text hs ''authorization'') (strip_prefix ''Bearer '') of
        Some token \<Rightarrow> Some (trim token)
      | None \<Rightarrow> map_option trim (header_text hs name))"

definition admin_token_from_headers :: "headers \<Rightarrow> string option" where
  "admin_token_from_headers = bearer_or ''X-Admin-Token''"

definition business_sync_token_from_headers :: "headers \<Rightarrow> string option" where
  "business_sync_token_from_headers = bearer_or ''X-Business-Sync-Token''"

definition client_api_token_from_headers :: "headers \<Rightarrow> string option" where
  "client_api_token_from_headers = bearer_or ''X-Client-Api-Token''"

definition required_header :: "headers \<Rightarrow> string \<Rightarrow> (app_error, string) result" where
  "required_header hs name =
     (case header_get hs name of
        None \<Rightarrow> Inl (bad_request ''missing_header'' (name @ '' is required''))
      | Some None \<Rightarrow> Inl (bad_request ''invalid_header'' (name @ '' is not valid UTF-8''))
      | Some (Some v) \<Rightarrow> Inr v)"

definition required_header_u64 :: "headers \<Rightarrow> string \<Rightarrow> (app_error, u64) result" where
  "required_header_u64 hs name =
     bind_result (required_header hs name) (\<lambda>v.
     bind_result (ok_or (bad_request ''invalid_header'' (name @ '' must be numeric''))
       (parse_uint (2 ^ 64) v)) (\<lambda>n. Inr (of_nat n)))"

section \<open>Administrators\<close>

record admin_actor =
  aa_id :: "u64 option"
  aa_username :: string
  aa_display_name :: "string option"
  aa_role :: string
  aa_auth_type :: string

record admin_session_claims =
  as_user_id :: u64
  as_username :: string
  as_display_name :: "string option"
  as_role :: string
  as_exp :: u64
  as_nonce :: string

record admin_user_row =
  au_id :: u64
  au_username :: string
  au_display_name :: "string option"
  au_role :: string

definition can_write :: "admin_actor \<Rightarrow> bool" where
  "can_write actor \<longleftrightarrow> aa_role actor = ''super_admin'' \<or> aa_role actor = ''operator''"

definition is_super_admin :: "admin_actor \<Rightarrow> bool" where
  "is_super_admin actor \<longleftrightarrow> aa_role actor = ''super_admin''"

definition admin_session_prefix :: string where "admin_session_prefix = ''xas''"
definition admin_session_version :: string where "admin_session_version = ''v1''"
definition admin_session_ttl_sec :: u64 where "admin_session_ttl_sec = 8 * 60 * 60"

definition hmac_sha256_base64 :: "crypto \<Rightarrow> string \<Rightarrow> bytes \<Rightarrow> (app_error, string) result" where
  "hmac_sha256_base64 cx secret data =
     bind_result (ok_or internal_error (hmac_sha256 cx secret data)) (\<lambda>mac. Inr (b64url_encode cx mac))"

definition random_url_token :: "crypto \<Rightarrow> bytes \<Rightarrow> string" where
  "random_url_token cx random = b64url_encode cx random"

definition create_admin_session_token ::
  "crypto \<Rightarrow> (admin_session_claims \<Rightarrow> bytes option) \<Rightarrow> u64 \<Rightarrow> bytes \<Rightarrow> string \<Rightarrow> admin_user_row \<Rightarrow>
   (app_error, string \<times> u64) result"
where
  "create_admin_session_token cx to_json now random signing_secret user =
     (let expires_at = now + admin_session_ttl_sec;
          claims = \<lparr>as_user_id = au_id user, as_username = au_username user,
                    as_display_name = au_display_name user, as_role = au_role user,
                    as_exp = expires_at, as_nonce = random_url_token cx random\<rparr>
      in bind_result (ok_or internal_error (to_json claims)) (\<lambda>json.
         let signing_input = admin_session_prefix @ ''.'' @ admin_session_version @ ''.'' @
               b64url_encode cx json
         in bind_result (hmac_sha256_base64 cx signing_secret signing_input) (\<lambda>signature.
            Inr (signing_input @ ''.'' @ signature, expires_at))))"

definition nth_part :: "string list \<Rightarrow> nat \<Rightarrow> string" where
  "nth_part parts i = (if i < length parts then parts ! i else [])"

definition verify_admin_session_token ::
  "crypto \<Rightarrow> (bytes \<Rightarrow> admin_session_claims option) \<Rightarrow> u64 \<Rightarrow> string \<Rightarrow> string \<Rightarrow>
   (app_error, admin_actor) result"
where
  "verify_admin_session_token cx of_json now signing_secret token =
     (let parts = split_on (CHR ''.'') token;
          prefix = nth_part parts 0; version = nth_part parts 1;
          payload = nth_part parts 2; signature = nth_part parts 3;
          invalid = (\<lambda>what. unauthorized ''admin_auth_failed'' (''admin session '' @ what @ '' is invalid''))
      in if 4 < length parts \<or> prefix \<noteq> admin_session_prefix \<or> version \<noteq> admin_session_version then
           Inl (invalid ''token'')
         else
           bind_result (hmac_sha256_base64 cx signing_secret (prefix @ ''.'' @ version @ ''.'' @ payload))
             (\<lambda>expected.
           if \<not> constant_time_eq expected signature then Inl (invalid ''signature'')
           else
             bind_result (ok_or (invalid ''payload'') (b64url_decode cx payload)) (\<lambda>body.
             bind_result (ok_or (invalid ''payload'') (of_json body)) (\<lambda>claims.
             if as_exp claims < now then
               Inl (unauthorized ''admin_session_expired'' ''admin session has expired'')
             else Inr \<lparr>aa_id = Some (as_user_id claims), aa_username = as_username claims,
                       aa_display_name = as_display_name claims, aa_role = as_role claims,
                       aa_auth_type = ''password''\<rparr>))))"

text \<open>\<open>bootstrap_name\<close> is the display name of the actor behind the configured token.\<close>

definition bootstrap_actor :: "string \<Rightarrow> admin_actor" where
  "bootstrap_actor bootstrap_name =
     \<lparr>aa_id = None, aa_username = ''admin-token'', aa_display_name = Some bootstrap_name,
      aa_role = ''super_admin'', aa_auth_type = ''admin_token''\<rparr>"

definition require_admin ::
  "crypto \<Rightarrow> (bytes \<Rightarrow> admin_session_claims option) \<Rightarrow> string \<Rightarrow> u64 \<Rightarrow> string option \<Rightarrow> headers \<Rightarrow>
   (app_error, admin_actor) result"
where
  "require_admin cx of_json bootstrap_name now admin_token hs =
     bind_result (ok_or (service_unavailable ''admin_disabled''
       ''admin API is disabled because XACCEL_ADMIN_TOKEN is not configured'') admin_token) (\<lambda>configured.
     bind_result (ok_or (unauthorized ''admin_auth_required'' ''admin token is required'')
       (admin_token_from_headers hs)) (\<lambda>provided.
     if constant_time_eq configured provided then Inr (bootstrap_actor bootstrap_name)
     else if starts_with provided (admin_session_prefix @ ''.'' @ admin_session_version @ ''.'') then
       verify_admin_session_token cx of_json now configured provided
     else Inl (unauthorized ''admin_auth_failed'' ''admin token is invalid'')))"

definition require_admin_write ::
  "crypto \<Rightarrow> (bytes \<Rightarrow> admin_session_claims option) \<Rightarrow> string \<Rightarrow> u64 \<Rightarrow> string option \<Rightarrow> headers \<Rightarrow>
   (app_error, admin_actor) result"
where
  "require_admin_write cx of_json bootstrap_name now admin_token hs =
     bind_result (require_admin cx of_json bootstrap_name now admin_token hs) (\<lambda>actor.
     if can_write actor then Inr actor
     else Inl (forbidden ''permission_denied'' ''current admin role can only view data''))"

definition require_admin_super ::
  "crypto \<Rightarrow> (bytes \<Rightarrow> admin_session_claims option) \<Rightarrow> string \<Rightarrow> u64 \<Rightarrow> string option \<Rightarrow> headers \<Rightarrow>
   (app_error, admin_actor) result"
where
  "require_admin_super cx of_json bootstrap_name now admin_token hs =
     bind_result (require_admin cx of_json bootstrap_name now admin_token hs) (\<lambda>actor.
     if is_super_admin actor then Inr actor
     else Inl (forbidden ''permission_denied'' ''this operation requires super admin role''))"

definition require_business_sync :: "string option \<Rightarrow> headers \<Rightarrow> (app_error, unit) result" where
  "require_business_sync token hs =
     bind_result (ok_or (service_unavailable ''business_sync_disabled''
       ''business sync API is disabled because XACCEL_BUSINESS_SYNC_TOKEN is not configured'') token)
       (\<lambda>configured.
     bind_result (ok_or (unauthorized ''business_sync_auth_required'' ''business sync token is required'')
       (business_sync_token_from_headers hs)) (\<lambda>provided.
     if constant_time_eq configured provided then Inr ()
     else Inl (unauthorized ''business_sync_auth_failed'' ''business sync token is invalid'')))"

definition require_client_api :: "string option \<Rightarrow> headers \<Rightarrow> (app_error, unit) result" where
  "require_client_api token hs =
     (case token of
        None \<Rightarrow> Inr ()
      | Some configured \<Rightarrow>
          bind_result (ok_or (unauthorized ''client_api_auth_required'' ''client api token is required'')
            (client_api_token_from_headers hs)) (\<lambda>provided.
          if constant_time_eq configured provided then Inr ()
          else Inl (unauthorized ''client_api_auth_failed'' ''client api token is invalid'')))"

section \<open>Requests of nodes\<close>


definition node_report_max_skew_sec :: u64 where "node_report_max_skew_sec = 300"

definition validate_node_report_timestamp :: "u64 \<Rightarrow> u64 \<Rightarrow> (app_error, unit) result" where
  "validate_node_report_timestamp now timestamp =
     (if timestamp = 0 then Inl (bad_request ''invalid_timestamp'' ''X-Node-Timestamp must be positive'')
      else if node_report_max_skew_sec < abs_diff timestamp now then
        Inl (unauthorized ''stale_report'' ''node report timestamp is outside the allowed window'')
      else Inr ())"

definition verify_node_signature ::
  "crypto \<Rightarrow> string \<Rightarrow> string \<Rightarrow> string \<Rightarrow> u64 \<Rightarrow> string \<Rightarrow> string \<Rightarrow> string \<Rightarrow> bytes \<Rightarrow>
   (app_error, unit) result"
where
  "verify_node_signature cx verb path secret timestamp nonce body_sha256 signature body =
     (if trim nonce = [] then Inl (bad_request ''invalid_nonce'' ''X-Node-Nonce is required'')
      else if body_sha256 \<noteq> b64_encode cx (sha256 cx body) then
        Inl (bad_request ''body_hash_mismatch'' ''X-Node-Body-Sha256 does not match request body'')
      else
        bind_result (ok_or (unauthorized ''invalid_signature'' ''node signature is not valid base64'')
          (b64_decode cx signature)) (\<lambda>mac.
        let canonical = verb @ [line_feed] @ path @ [line_feed] @ show_u64 timestamp @ [line_feed] @
              nonce @ [line_feed] @ body_sha256
        in bind_result (ok_or internal_error (hmac_sha256 cx secret canonical)) (\<lambda>expected.
           if expected = mac then Inr ()
           else Inl (unauthorized ''invalid_signature'' ''node signature mismatch''))))"

text \<open>\<open>select_node_secret\<close> is the database's answer for a node.\<close>

definition authenticate_node_request ::
  "crypto \<Rightarrow> (u64 \<Rightarrow> (app_error, string option) result) \<Rightarrow> u64 \<Rightarrow> headers \<Rightarrow> string \<Rightarrow> string \<Rightarrow> bytes \<Rightarrow>
   (app_error, u64) result"
where
  "authenticate_node_request cx select_node_secret now hs verb path body =
     bind_result (required_header_u64 hs ''X-Node-Id'') (\<lambda>node_id.
     bind_result (required_header_u64 hs ''X-Node-Timestamp'') (\<lambda>timestamp.
     bind_result (required_header hs ''X-Node-Nonce'') (\<lambda>nonce.
     bind_result (required_header hs ''X-Node-Body-Sha256'') (\<lambda>body_sha256.
     bind_result (required_header hs ''X-Node-Signature'') (\<lambda>signature.
     bind_result (validate_node_report_timestamp now timestamp) (\<lambda>_.
     bind_result (select_node_secret node_id) (\<lambda>found.
     bind_result (ok_or (unauthorized ''unknown_node'' ''node is not registered'') found) (\<lambda>secret.
     bind_result (verify_node_signature cx verb path secret timestamp nonce body_sha256 signature body)
       (\<lambda>_. Inr node_id)))))))))"

section \<open>Passwords\<close>

definition xor_byte :: "byte \<Rightarrow> byte \<Rightarrow> byte" where
  "xor_byte a b = char_of (code_of a XOR code_of b)"

definition xor_into :: "bytes \<Rightarrow> bytes \<Rightarrow> bytes" where
  "xor_into block u = map2 xor_byte block u @ drop (length u) block"

text \<open>The rounds after the first of one block.\<close>

fun pbkdf2_rounds :: "(bytes \<Rightarrow> bytes option) \<Rightarrow> nat \<Rightarrow> bytes \<Rightarrow> bytes \<Rightarrow> bytes option" where
  "pbkdf2_rounds mac 0 u block = Some block"
| "pbkdf2_rounds mac (Suc n) u block =
     (case mac u of None \<Rightarrow> None | Some u' \<Rightarrow> pbkdf2_rounds mac n u' (xor_into block u'))"

definition pbkdf2_block :: "(bytes \<Rightarrow> bytes option) \<Rightarrow> bytes \<Rightarrow> u32 \<Rightarrow> nat \<Rightarrow> bytes option" where
  "pbkdf2_block mac salt iterations index =
     (case mac (salt @ u32_be index) of
        None \<Rightarrow> None
      | Some u \<Rightarrow> pbkdf2_rounds mac (unat iterations - 1) u u)"

fun pbkdf2_blocks :: "(nat \<Rightarrow> bytes option) \<Rightarrow> nat list \<Rightarrow> bytes option" where
  "pbkdf2_blocks block [] = Some []"
| "pbkdf2_blocks block (i # is) =
     (case block i of None \<Rightarrow> None
      | Some b \<Rightarrow> map_option (\<lambda>rest. b @ rest) (pbkdf2_blocks block is))"

definition pbkdf2_hmac_sha256 ::
  "crypto \<Rightarrow> bytes \<Rightarrow> bytes \<Rightarrow> u32 \<Rightarrow> nat \<Rightarrow> (app_error, bytes) result"
where
  "pbkdf2_hmac_sha256 cx password salt iterations output_len =
     (if iterations = 0 \<or> output_len = 0 then Inl internal_error
      else
        bind_result (ok_or internal_error
          (pbkdf2_blocks (pbkdf2_block (hmac_sha256 cx password) salt iterations)
             [1..<Suc ((output_len + 31) div 32)]))
          (\<lambda>output. Inr (take output_len output)))"

definition admin_password_scheme :: string where "admin_password_scheme = ''pbkdf2-sha256''"

text \<open>The count of rounds is an argument; the code's constant is 120000.\<close>

definition admin_password_iterations :: u32 where "admin_password_iterations = 120000"

definition hash_admin_password_with ::
  "u32 \<Rightarrow> crypto \<Rightarrow> bytes \<Rightarrow> string \<Rightarrow> (app_error, string) result"
where
  "hash_admin_password_with iterations cx salt password =
     bind_result (validate_admin_password password) (\<lambda>_.
     bind_result (pbkdf2_hmac_sha256 cx password salt iterations 32) (\<lambda>derived.
     Inr (admin_password_scheme @ ''$'' @ show_nat (unat iterations) @ ''$'' @
       b64url_encode cx salt @ ''$'' @ b64url_encode cx derived)))"

definition hash_admin_password :: "crypto \<Rightarrow> bytes \<Rightarrow> string \<Rightarrow> (app_error, string) result" where
  "hash_admin_password = hash_admin_password_with admin_password_iterations"

definition verify_admin_password :: "crypto \<Rightarrow> string \<Rightarrow> string \<Rightarrow> (app_error, bool) result" where
  "verify_admin_password cx password encoded =
     (let parts = split_on (CHR ''$'') encoded
      in if length parts \<noteq> 4 \<or> parts ! 0 \<noteq> admin_password_scheme then Inr False
         else
           bind_result (ok_or internal_error (parse_uint (2 ^ 32) (parts ! 1))) (\<lambda>iterations.
           bind_result (ok_or internal_error (b64url_decode cx (parts ! 2))) (\<lambda>salt.
           bind_result (ok_or internal_error (b64url_decode cx (parts ! 3))) (\<lambda>expected.
           bind_result (pbkdf2_hmac_sha256 cx password salt (of_nat iterations) (length expected))
             (\<lambda>actual. Inr (constant_time_eq actual expected))))))"

definition hash_bootstrap_token :: "crypto \<Rightarrow> string \<Rightarrow> string" where
  "hash_bootstrap_token cx token = ''sha256:'' @ b64url_encode cx (sha256 cx (trim token))"

section \<open>Install commands\<close>

definition installer_download_mode_arg :: "string \<Rightarrow> string" where
  "installer_download_mode_arg m =
     (if m = ''standard_first'' then ''standard-first'' else ''github-api-first'')"

definition line_break :: string where
  "line_break = CHR '' '' # backslash_char # line_feed # ''  ''"

definition install_option :: "string \<Rightarrow> string \<Rightarrow> string option \<Rightarrow> string" where
  "install_option sep name value =
     (case value of None \<Rightarrow> [] | Some v \<Rightarrow> sep @ name @ '' '' @ shell_quote v)"

definition build_bootstrap_install_command ::
  "string \<Rightarrow> string \<Rightarrow> string \<Rightarrow> bool \<Rightarrow> string option \<Rightarrow> string option \<Rightarrow> string option \<Rightarrow> string \<Rightarrow> string"
where
  "build_bootstrap_install_command install_url bootstrap_url bootstrap_token enable_control_plane
     channel artifact_url sha256_url release_download_mode =
     ''curl -fsSL '' @ shell_quote install_url @ '' | sudo bash -s --'' @ line_break @
     ''--bootstrap-url '' @ shell_quote bootstrap_url @ line_break @
     ''--bootstrap-token '' @ shell_quote bootstrap_token @
     install_option line_break ''--channel'' channel @
     install_option line_break ''--artifact-url'' artifact_url @
     install_option line_break ''--sha256-url'' sha256_url @
     line_break @ ''--download-mode '' @ shell_quote (installer_download_mode_arg release_download_mode) @
     (if enable_control_plane then line_break @ ''--enable-control-plane'' else [])"

definition build_remote_bootstrap_install_command ::
  "string \<Rightarrow> string \<Rightarrow> string \<Rightarrow> bool \<Rightarrow> bool \<Rightarrow> string option \<Rightarrow> string option \<Rightarrow> string option \<Rightarrow>
   string \<Rightarrow> string"
where
  "build_remote_bootstrap_install_command install_url bootstrap_url bootstrap_token use_sudo
     enable_control_plane channel artifact_url sha256_url release_download_mode =
     ''curl -fsSL '' @ shell_quote install_url @ '' | '' @
     (if use_sudo then ''sudo -S -p '' @ [quote_char, quote_char] @ '' bash'' else ''bash'') @
     '' -s -- --bootstrap-url '' @ shell_quote bootstrap_url @
     '' --bootstrap-token '' @ shell_quote bootstrap_token @
     (if enable_control_plane then '' --enable-control-plane'' else []) @
     install_option '' '' ''--channel'' channel @
     install_option '' '' ''--artifact-url'' artifact_url @
     install_option '' '' ''--sha256-url'' sha256_url @
     '' --download-mode '' @ shell_quote (installer_download_mode_arg release_download_mode)"

section \<open>The comparison is equality\<close>

lemma word_xor_0_iff: "(a :: u64) XOR b = 0 \<longleftrightarrow> a = b"
proof
  assume "a XOR b = 0"
  then have "(a XOR b) XOR b = b" by simp
  then show "a = b" by (simp add: xor.assoc)
qed simp

lemma foldl_or_0_iff:
  "foldl (\<lambda>d i. d OR f i) (a :: u64) is = 0 \<longleftrightarrow> a = 0 \<and> (\<forall>i \<in> set is. f i = 0)"
  by (induction "is" arbitrary: a) (auto simp: or_eq_0_iff)

lemma of_nat_u64_eq: "m < 2 ^ 64 \<Longrightarrow> n < 2 ^ 64 \<Longrightarrow> (of_nat m :: u64) = of_nat n \<longleftrightarrow> m = n"
  by (simp add: word_of_nat_eq_iff take_bit_nat_eq_self)

lemma constant_time_eq_correct:
  assumes "length l < 2 ^ 64" "length r < 2 ^ 64"
  shows "constant_time_eq l r \<longleftrightarrow> l = r"
proof -
  have small: "code_of c < 2 ^ 64" for c
    by (rule less_trans [OF code_of_less]) simp
  have bytes: "byte_at l i = byte_at r i \<longleftrightarrow> l ! i = r ! i" if "i < length l" "length l = length r" for i
    using that of_nat_u64_eq [OF small small, of "l ! i" "r ! i"] by (simp add: byte_at_def)
  have "constant_time_eq l r \<longleftrightarrow>
      length l = length r \<and> (\<forall>i < max (length l) (length r). byte_at l i = byte_at r i)"
    using assms
    by (simp add: constant_time_eq_def foldl_or_0_iff word_xor_0_iff of_nat_u64_eq Ball_def)
  also have "\<dots> \<longleftrightarrow> l = r"
    using bytes by (auto intro: nth_equalityI)
  finally show ?thesis .
qed

section \<open>Sessions\<close>

lemma hmac_sha256_base64_Inr:
  "hmac_sha256_base64 cx secret data = Inr t \<longleftrightarrow>
     (\<exists>mac. hmac_sha256 cx secret data = Some mac \<and> t = b64url_encode cx mac)"
  by (auto simp: hmac_sha256_base64_def)

definition session_signed_part :: "string \<Rightarrow> string" where
  "session_signed_part payload = ''xas.v1.'' @ payload"

lemma split_four:
  "d \<notin> set a \<Longrightarrow> d \<notin> set b \<Longrightarrow> d \<notin> set c \<Longrightarrow> d \<notin> set e \<Longrightarrow>
   split_on d (a @ d # b @ d # c @ d # e) = [a, b, c, e]"
  by (simp add: split_on_append split_on_plain)

text \<open>
  Documented behaviour of the MAC's text: it is not empty and fits the address space. A session
  token with an accepted signature is then one the holder of the secret could have made: its
  last part is the encoded MAC of the rest.
\<close>

definition mac_text_ok :: "crypto \<Rightarrow> bool" where
  "mac_text_ok cx \<longleftrightarrow> (\<forall>k m mac. hmac_sha256 cx k m = Some mac \<longrightarrow>
     b64url_encode cx mac \<noteq> [] \<and> length (b64url_encode cx mac) < 2 ^ 64)"

lemma length_split_on_le: "x \<in> set (split_on d s) \<Longrightarrow> length x \<le> length s"
proof (induction s arbitrary: x)
  case (Cons c s)
  then show ?case
    by (auto split: if_splits list.splits) (fastforce intro: le_SucI)+
qed simp

lemma verify_admin_session_token_iff:
  assumes "mac_text_ok cx" "length token < 2 ^ 64"
  shows "verify_admin_session_token cx of_json now secret token = Inr actor \<longleftrightarrow>
    (\<exists>payload mac body claims.
       token = session_signed_part payload @ ''.'' @ b64url_encode cx mac \<and>
       CHR ''.'' \<notin> set payload \<and> CHR ''.'' \<notin> set (b64url_encode cx mac) \<and>
       hmac_sha256 cx secret (session_signed_part payload) = Some mac \<and>
       b64url_decode cx payload = Some body \<and> of_json body = Some claims \<and> now \<le> as_exp claims \<and>
       actor = \<lparr>aa_id = Some (as_user_id claims), aa_username = as_username claims,
                aa_display_name = as_display_name claims, aa_role = as_role claims,
                aa_auth_type = ''password''\<rparr>)"
  (is "?L \<longleftrightarrow> ?R")
proof
  assume ?L
  define parts where "parts = split_on (CHR ''.'') token"
  let ?p = "nth_part parts"
  obtain mac body claims where
    shape: "length parts \<le> 4" "?p 0 = ''xas''" "?p 1 = ''v1''" and
    mac: "hmac_sha256 cx secret (session_signed_part (?p 2)) = Some mac" and
    eq: "constant_time_eq (b64url_encode cx mac) (?p 3)" and
    rest: "b64url_decode cx (?p 2) = Some body" "of_json body = Some claims" "now \<le> as_exp claims"
      "actor = \<lparr>aa_id = Some (as_user_id claims), aa_username = as_username claims,
                aa_display_name = as_display_name claims, aa_role = as_role claims,
                aa_auth_type = ''password''\<rparr>"
    using \<open>?L\<close>
    by (auto simp: verify_admin_session_token_def Let_def parts_def [symmetric] not_less
        admin_session_prefix_def admin_session_version_def hmac_sha256_base64_Inr
        session_signed_part_def split: if_splits)
  have len: "length (?p 3) < 2 ^ 64"
  proof (cases "3 < length parts")
    case True
    then have "length (?p 3) \<le> length token"
      by (intro length_split_on_le [where d = "CHR ''.''"]) (simp add: nth_part_def parts_def)
    with assms(2) show ?thesis by simp
  qed (simp add: nth_part_def)
  have ne: "b64url_encode cx mac \<noteq> []" "length (b64url_encode cx mac) < 2 ^ 64"
    using assms(1) mac unfolding mac_text_ok_def by blast+
  have sig: "?p 3 = b64url_encode cx mac"
    by (rule iffD1 [OF constant_time_eq_correct [OF ne(2) len] eq, symmetric])
  then have "3 < length parts"
    using ne(1) by (cases "3 < length parts") (simp_all add: nth_part_def)
  with shape(1) have "length parts = Suc (Suc (Suc (Suc 0)))" by simp
  then obtain a b c d where parts: "parts = [a, b, c, d]"
    by (auto simp: length_Suc_conv)
  have "token = join_on (CHR ''.'') parts" by (simp add: parts_def)
  then have "token = session_signed_part c @ ''.'' @ d"
    using shape parts by (simp add: nth_part_def session_signed_part_def)
  moreover have "CHR ''.'' \<notin> set c" "CHR ''.'' \<notin> set d"
    using parts split_on_no_sep [of _ "CHR ''.''" token] by (auto simp: parts_def)
  moreover have "c = ?p 2" "d = b64url_encode cx mac"
    using parts sig by (simp_all add: nth_part_def)
  ultimately show ?R using mac rest by blast
next
  assume ?R
  then obtain payload mac body claims where
    tok: "token = session_signed_part payload @ ''.'' @ b64url_encode cx mac" and
    dots: "CHR ''.'' \<notin> set payload" "CHR ''.'' \<notin> set (b64url_encode cx mac)" and
    mac: "hmac_sha256 cx secret (session_signed_part payload) = Some mac" and
    rest: "b64url_decode cx payload = Some body" "of_json body = Some claims" "now \<le> as_exp claims"
      "actor = \<lparr>aa_id = Some (as_user_id claims), aa_username = as_username claims,
                aa_display_name = as_display_name claims, aa_role = as_role claims,
                aa_auth_type = ''password''\<rparr>" by blast
  have "split_on (CHR ''.'') token = [''xas'', ''v1'', payload, b64url_encode cx mac]"
    using split_four [of "CHR ''.''" "''xas''" "''v1''" payload "b64url_encode cx mac"] dots
    by (simp add: tok session_signed_part_def)
  moreover have "constant_time_eq (b64url_encode cx mac) (b64url_encode cx mac)"
    using assms(1) mac constant_time_eq_correct unfolding mac_text_ok_def by blast
  ultimately show ?L
    using mac rest
    by (auto simp: verify_admin_session_token_def Let_def nth_part_def admin_session_prefix_def
        admin_session_version_def hmac_sha256_base64_def session_signed_part_def not_less)
qed

section \<open>Roles\<close>

lemma require_admin_write_Inr:
  "require_admin_write cx of_json name now token hs = Inr actor \<longleftrightarrow>
     require_admin cx of_json name now token hs = Inr actor \<and> can_write actor"
  by (auto simp: require_admin_write_def split: if_splits)

lemma require_admin_super_Inr:
  "require_admin_super cx of_json name now token hs = Inr actor \<longleftrightarrow>
     require_admin cx of_json name now token hs = Inr actor \<and> is_super_admin actor"
  by (auto simp: require_admin_super_def split: if_splits)

text \<open>The three token checks admit exactly the bearer of the configured token.\<close>

locale bearer_gate =
  fixes provided :: "headers \<Rightarrow> string option"
    and gate :: "string option \<Rightarrow> headers \<Rightarrow> (app_error, 'a) result"
  assumes gate_sound: "gate (Some configured) hs = Inr r \<Longrightarrow> length configured < 2 ^ 64 \<Longrightarrow>
      (\<forall>p. provided hs = Some p \<longrightarrow> length p < 2 ^ 64) \<Longrightarrow> provided hs = Some configured"
    and gate_complete: "provided hs = Some configured \<Longrightarrow> length configured < 2 ^ 64 \<Longrightarrow>
      \<exists>r. gate (Some configured) hs = Inr r"
begin

lemma gate_iff:
  assumes "length configured < 2 ^ 64" "\<forall>p. provided hs = Some p \<longrightarrow> length p < 2 ^ 64"
  shows "is_ok (gate (Some configured) hs) \<longleftrightarrow> provided hs = Some configured"
proof
  assume "is_ok (gate (Some configured) hs)"
  then obtain r where "gate (Some configured) hs = Inr r"
    by (cases "gate (Some configured) hs") auto
  then show "provided hs = Some configured" using gate_sound assms by blast
next
  assume "provided hs = Some configured"
  then show "is_ok (gate (Some configured) hs)"
    using gate_complete assms(1) by (metis is_ok.simps(2))
qed

end

interpretation business_gate: bearer_gate business_sync_token_from_headers require_business_sync
  by unfold_locales
    (auto simp: require_business_sync_def constant_time_eq_correct split: if_splits)

interpretation client_gate: bearer_gate client_api_token_from_headers require_client_api
  by unfold_locales
    (auto simp: require_client_api_def constant_time_eq_correct split: if_splits)

section \<open>Signed node requests\<close>

definition node_canonical :: "string \<Rightarrow> string \<Rightarrow> u64 \<Rightarrow> string \<Rightarrow> string \<Rightarrow> string" where
  "node_canonical verb path timestamp nonce body_sha256 =
     verb @ [line_feed] @ path @ [line_feed] @ show_u64 timestamp @ [line_feed] @
     nonce @ [line_feed] @ body_sha256"

lemma verify_node_signature_Inr:
  "verify_node_signature cx verb path secret timestamp nonce body_sha256 signature body = Inr () \<longleftrightarrow>
     trim nonce \<noteq> [] \<and> body_sha256 = b64_encode cx (sha256 cx body) \<and>
     (\<exists>mac. b64_decode cx signature = Some mac \<and>
        hmac_sha256 cx secret (node_canonical verb path timestamp nonce body_sha256) = Some mac)"
  by (auto simp: verify_node_signature_def Let_def node_canonical_def)

lemma validate_node_report_timestamp_Inr:
  "validate_node_report_timestamp now t = Inr () \<longleftrightarrow> t \<noteq> 0 \<and> abs_diff t now \<le> 300"
  by (auto simp: validate_node_report_timestamp_def node_report_max_skew_sec_def not_less)

lemma authenticate_node_request_Inr:
  "authenticate_node_request cx select_secret now hs verb path body = Inr node_id \<longleftrightarrow>
     (\<exists>timestamp nonce sha signature secret.
        required_header_u64 hs ''X-Node-Id'' = Inr node_id \<and>
        required_header_u64 hs ''X-Node-Timestamp'' = Inr timestamp \<and>
        required_header hs ''X-Node-Nonce'' = Inr nonce \<and>
        required_header hs ''X-Node-Body-Sha256'' = Inr sha \<and>
        required_header hs ''X-Node-Signature'' = Inr signature \<and>
        validate_node_report_timestamp now timestamp = Inr () \<and>
        select_secret node_id = Inr (Some secret) \<and>
        verify_node_signature cx verb path secret timestamp nonce sha signature body = Inr ())"
  by (auto simp: authenticate_node_request_def)

section \<open>Passwords\<close>

text \<open>Documented behaviour: HMAC-SHA256 has 32 bytes, and the URL-safe alphabet has no dollar sign.\<close>

definition hmac_32 :: "crypto \<Rightarrow> bool" where
  "hmac_32 cx \<longleftrightarrow> (\<forall>k m. \<exists>d. hmac_sha256 cx k m = Some d \<and> length d = 32)"

definition b64url_no_dollar :: "crypto \<Rightarrow> bool" where
  "b64url_no_dollar cx \<longleftrightarrow> (\<forall>b. CHR ''$'' \<notin> set (b64url_encode cx b))"

lemma length_xor_into [simp]: "length (xor_into block u) = length block"
  by (simp add: xor_into_def)

lemma pbkdf2_rounds_total:
  "(\<And>m. \<exists>d. mac m = Some d \<and> length d = 32) \<Longrightarrow> \<exists>b. pbkdf2_rounds mac n u block = Some b \<and> length b = length block"
proof (induction n arbitrary: u block)
  case (Suc n)
  obtain d where "mac u = Some d" using Suc.prems by blast
  then show ?case using Suc.IH [OF Suc.prems, of d "xor_into block d"] by simp
qed simp

lemma pbkdf2_block_total:
  assumes "\<And>m. \<exists>d. mac m = Some d \<and> length d = 32"
  shows "\<exists>b. pbkdf2_block mac salt iterations i = Some b \<and> length b = 32"
proof -
  obtain d where "mac (salt @ u32_be i) = Some d" "length d = 32" using assms by blast
  then show ?thesis
    using pbkdf2_rounds_total [where mac = mac and n = "unat iterations - 1" and u = d and block = d, OF assms] by (simp add: pbkdf2_block_def)
qed

lemma pbkdf2_blocks_total:
  "(\<And>i. \<exists>b. block i = Some b \<and> length b = 32) \<Longrightarrow>
   \<exists>out. pbkdf2_blocks block idxs = Some out \<and> length out = 32 * length idxs"
proof (induction idxs)
  case (Cons i idxs)
  obtain b where "block i = Some b" "length b = 32" using Cons.prems by blast
  then show ?case using Cons.IH [OF Cons.prems] by auto
qed simp

lemma pbkdf2_total:
  assumes "hmac_32 cx" "iterations \<noteq> 0" "n \<noteq> 0"
  shows "\<exists>out. pbkdf2_hmac_sha256 cx password salt iterations n = Inr out \<and> length out = n"
proof -
  have "\<exists>b. pbkdf2_block (hmac_sha256 cx password) salt iterations i = Some b \<and> length b = 32" for i
    using assms(1) by (intro pbkdf2_block_total) (simp add: hmac_32_def)
  from pbkdf2_blocks_total [where block = "pbkdf2_block (hmac_sha256 cx password) salt iterations"
      and idxs = "[1..<Suc ((n + 31) div 32)]", OF this]
  obtain out where "pbkdf2_blocks (pbkdf2_block (hmac_sha256 cx password) salt iterations)
      [1..<Suc ((n + 31) div 32)] = Some out" "length out = 32 * ((n + 31) div 32)" by auto
  moreover have "n \<le> 32 * ((n + 31) div 32)" by linarith
  ultimately show ?thesis using assms(2,3) by (simp add: pbkdf2_hmac_sha256_def del: upt_Suc)
qed

text \<open>What verifying a freshly made hash computes.\<close>

lemma verify_made_hash:
  assumes "b64url_roundtrip cx" "b64url_no_dollar cx" "iterations \<noteq> 0"
    and "pbkdf2_hmac_sha256 cx password salt iterations 32 = Inr derived" "length derived = 32"
    and "hash_admin_password_with iterations cx salt password = Inr encoded"
  shows "verify_admin_password cx attempt encoded =
    bind_result (pbkdf2_hmac_sha256 cx attempt salt iterations 32)
      (\<lambda>actual. Inr (constant_time_eq actual derived))"
proof -
  have "CHR ''$'' \<notin> set (show_nat (unat iterations))"
    by (rule show_nat_avoids) (simp add: code_of_def)
  then have parts: "split_on (CHR ''$'') encoded =
      [admin_password_scheme, show_nat (unat iterations), b64url_encode cx salt, b64url_encode cx derived]"
    using assms(2,4,6) split_four [of "CHR ''$''" admin_password_scheme "show_nat (unat iterations)"
        "b64url_encode cx salt" "b64url_encode cx derived"]
    by (auto simp: hash_admin_password_with_def b64url_no_dollar_def admin_password_scheme_def)
  have "unat iterations < 2 ^ 32" using unsigned_less [of iterations] by simp
  then show ?thesis
    using assms(1,5) unfolding verify_admin_password_def parts
    by (simp add: b64url_roundtrip_def Let_def)
qed

section \<open>Install commands as a shell reads them\<close>

lemma plain_shell_chars [simp]:
  "list_all plain_shell_char ''curl''" "list_all plain_shell_char ''-fsSL''"
  "list_all plain_shell_char ''sudo''" "list_all plain_shell_char ''bash''"
  "list_all plain_shell_char ''-s''" "list_all plain_shell_char ''--''"
  "list_all plain_shell_char ''--bootstrap-url''" "list_all plain_shell_char ''--bootstrap-token''"
  "list_all plain_shell_char ''--channel''" "list_all plain_shell_char ''--artifact-url''"
  "list_all plain_shell_char ''--sha256-url''" "list_all plain_shell_char ''--download-mode''"
  "list_all plain_shell_char ''--enable-control-plane''"
  by code_simp+


lemma shell_words_break:
  "shell_words False w (line_break @ s) = flush_word w (shell_words False None s)"
proof -
  have lf: "code_of line_feed = 10" by (simp add: line_feed_def)
  have blanks: "shell_words False None ('' '' @ s) = shell_words False None s"
    "shell_words False None (''  '' @ s) = shell_words False None s" for s
    by (simp_all add: flush_word_def option.map_ident)
  show ?thesis using blanks(2) [of s] by (simp add: line_break_def lf)
qed

definition option_words :: "string \<Rightarrow> string option \<Rightarrow> string list" where
  "option_words name value = (case value of None \<Rightarrow> [] | Some v \<Rightarrow> [name, v])"

lemma flush_word_Some [simp]: "flush_word (Some x) (Some ws) = Some (x # ws)" "flush_word None r = r"
  by (simp_all add: flush_word_def option.map_ident)

text \<open>An option adds its two words, whatever its value is, and nothing else.\<close>

lemma install_option_words:
  assumes "list_all plain_shell_char name" "name \<noteq> []"
    and "\<And>w s. shell_words False w (sep @ s) = flush_word w (shell_words False None s)"
    and "\<And>x. shell_words False (Some x) s = Some (x # ws)"
  shows "shell_words False (Some x) (install_option sep name value @ s) =
    Some (x # option_words name value @ ws)"
proof (cases "value")
  case (Some v)
  have "shell_words False None (name @ CHR '' '' # shell_quote v @ s) =
      flush_word (Some name) (shell_words False None (shell_quote v @ s))"
    using assms(1,2) by (simp add: shell_words_plain shell_words_space)
  also have "\<dots> = Some (name # v # ws)"
    by (simp add: shell_words_quote assms(4))
  finally show ?thesis
    using Some by (simp add: install_option_def option_words_def assms(3))
qed (simp add: install_option_def option_words_def assms(4))


text \<open>
  C40. The install command an operator copies is what it says, whatever the URLs, the token and the
  options hold: a shell splits it into the download, the pipe into the installer, and one word
  for each argument, with no argument able to add a command, an option or a second word.
\<close>

theorem install_command_words:
  "shell_words False None (build_bootstrap_install_command install_url bootstrap_url token enable
     channel artifact sha m) =
   Some ([''curl'', ''-fsSL'', install_url, ''|'', ''sudo'', ''bash'', ''-s'', ''--'',
     ''--bootstrap-url'', bootstrap_url, ''--bootstrap-token'', token] @
     option_words ''--channel'' channel @ option_words ''--artifact-url'' artifact @
     option_words ''--sha256-url'' sha @
     [''--download-mode'', installer_download_mode_arg m] @
     (if enable then [''--enable-control-plane''] else []))"
proof -
  let ?tail = "line_break @ ''--download-mode'' @ CHR '' '' # shell_quote (installer_download_mode_arg m) @
     (if enable then line_break @ ''--enable-control-plane'' @ [] else [])"
  let ?tw = "[''--download-mode'', installer_download_mode_arg m] @
     (if enable then [''--enable-control-plane''] else [])"
  note steps = shell_words_plain shell_words_space shell_words_quote shell_words_break plain_shell_chars
    list.distinct not_False_eq_True unwrap_or_simps append_Nil flush_word_Some shell_words.simps(3)
  have t: "shell_words False (Some x) ?tail = Some (x # ?tw)" for x
  proof (cases enable)
    case True
    then have e: "enable = True" by simp
    show ?thesis unfolding e if_True by (simp only: steps) simp
  next
    case False
    then have e: "enable = False" by simp
    show ?thesis unfolding e if_False by (simp only: steps) simp
  qed
  note opt = install_option_words [OF _ _ shell_words_break]
  have o3: "shell_words False (Some x) (install_option line_break ''--sha256-url'' sha @ ?tail) =
      Some (x # option_words ''--sha256-url'' sha @ ?tw)" for x
    by (rule opt) (simp_all only: plain_shell_chars list.distinct not_False_eq_True t)
  have o2: "shell_words False (Some x) (install_option line_break ''--artifact-url'' artifact @
      install_option line_break ''--sha256-url'' sha @ ?tail) =
      Some (x # option_words ''--artifact-url'' artifact @ option_words ''--sha256-url'' sha @ ?tw)" for x
    by (rule opt) (simp_all only: plain_shell_chars list.distinct not_False_eq_True o3)
  have o1: "shell_words False (Some x) (install_option line_break ''--channel'' channel @
      install_option line_break ''--artifact-url'' artifact @
      install_option line_break ''--sha256-url'' sha @ ?tail) =
      Some (x # option_words ''--channel'' channel @ option_words ''--artifact-url'' artifact @
        option_words ''--sha256-url'' sha @ ?tw)" for x
    by (rule opt) (simp_all only: plain_shell_chars list.distinct not_False_eq_True o2)
  let ?rest = "install_option line_break ''--channel'' channel @
      install_option line_break ''--artifact-url'' artifact @
      install_option line_break ''--sha256-url'' sha @ ?tail"
  have pipe: "shell_words False w (CHR ''|'' # s) = flush_word w (flush_word (Some ''|'') (shell_words False None s))"
    for w s by (simp add: quote_char_def backslash_char_def char_of_def)
  have "build_bootstrap_install_command install_url bootstrap_url token enable channel artifact sha m =
    ''curl'' @ CHR '' '' # ''-fsSL'' @ CHR '' '' # shell_quote install_url @ CHR '' '' # CHR ''|'' #
    CHR '' '' # ''sudo'' @ CHR '' '' # ''bash'' @ CHR '' '' # ''-s'' @ CHR '' '' # ''--'' @ line_break @
    ''--bootstrap-url'' @ CHR '' '' # shell_quote bootstrap_url @ line_break @
    ''--bootstrap-token'' @ CHR '' '' # shell_quote token @ ?rest"
    by (simp add: build_bootstrap_install_command_def)
  then show ?thesis
    by (simp only: steps pipe o1) simp
qed

section \<open>Properties\<close>

text \<open>
  A node's request is authenticated exactly when all five headers are there, the timestamp is
  within five minutes of the server's clock and not zero, the node is registered, the nonce is
  not blank, the body hash is that of the body received, and the signature decodes to the MAC,
  under that node's secret, of verb, path, timestamp, nonce and body hash.
\<close>

theorem node_request_authenticated_iff:
  "authenticate_node_request cx select_secret now hs verb path body = Inr node_id \<longleftrightarrow>
     (\<exists>timestamp nonce signature secret mac.
        required_header_u64 hs ''X-Node-Id'' = Inr node_id \<and>
        required_header_u64 hs ''X-Node-Timestamp'' = Inr timestamp \<and>
        timestamp \<noteq> 0 \<and> abs_diff timestamp now \<le> 300 \<and>
        required_header hs ''X-Node-Nonce'' = Inr nonce \<and> trim nonce \<noteq> [] \<and>
        required_header hs ''X-Node-Body-Sha256'' = Inr (b64_encode cx (sha256 cx body)) \<and>
        required_header hs ''X-Node-Signature'' = Inr signature \<and>
        select_secret node_id = Inr (Some secret) \<and> b64_decode cx signature = Some mac \<and>
        hmac_sha256 cx secret
          (node_canonical verb path timestamp nonce (b64_encode cx (sha256 cx body))) = Some mac)"
  unfolding authenticate_node_request_Inr verify_node_signature_Inr validate_node_report_timestamp_Inr
  by (rule iffI; elim exE conjE; blast)

text \<open>
  An administrator may write exactly with the configured token itself, or with a session token
  whose last part is the MAC of the rest under the configured token, whose claims are not
  expired, and whose role is operator or super admin.
\<close>

theorem admin_write_iff:
  assumes "mac_text_ok cx" "length configured < 2 ^ 64"
    and "\<forall>p. admin_token_from_headers hs = Some p \<longrightarrow> length p < 2 ^ 64"
  shows "require_admin_write cx of_json name now (Some configured) hs = Inr actor \<longleftrightarrow>
    can_write actor \<and>
    (\<exists>provided. admin_token_from_headers hs = Some provided \<and>
       (if provided = configured then actor = bootstrap_actor name
        else \<exists>payload mac body claims.
          provided = session_signed_part payload @ ''.'' @ b64url_encode cx mac \<and>
          CHR ''.'' \<notin> set payload \<and> CHR ''.'' \<notin> set (b64url_encode cx mac) \<and>
          hmac_sha256 cx configured (session_signed_part payload) = Some mac \<and>
          b64url_decode cx payload = Some body \<and> of_json body = Some claims \<and> now \<le> as_exp claims \<and>
          actor = \<lparr>aa_id = Some (as_user_id claims), aa_username = as_username claims,
                   aa_display_name = as_display_name claims, aa_role = as_role claims,
                   aa_auth_type = ''password''\<rparr>))"
proof (cases "admin_token_from_headers hs")
  case None
  then show ?thesis by (simp add: require_admin_write_Inr require_admin_def)
next
  case (Some provided)
  then have len: "length provided < 2 ^ 64" using assms(3) by simp
  have prefix: "starts_with (session_signed_part payload @ ''.'' @ t) (admin_session_prefix @ ''.'' @ admin_session_version @ ''.'')"
    for payload t
    by (simp add: session_signed_part_def admin_session_prefix_def admin_session_version_def)
  note iff = verify_admin_session_token_iff [OF assms(1) len, of of_json now configured actor]
  have eq: "constant_time_eq configured provided \<longleftrightarrow> provided = configured"
    using constant_time_eq_correct [OF assms(2) len] by auto
  show ?thesis
  proof (cases "provided = configured")
    case True
    with Some eq show ?thesis by (auto simp: require_admin_write_Inr require_admin_def)
  next
    case False
    with Some eq have "require_admin_write cx of_json name now (Some configured) hs = Inr actor \<longleftrightarrow>
        can_write actor \<and>
        starts_with provided (admin_session_prefix @ ''.'' @ admin_session_version @ ''.'') \<and>
        verify_admin_session_token cx of_json now configured provided = Inr actor"
      by (auto simp: require_admin_write_Inr require_admin_def)
    with Some False show ?thesis
      unfolding iff using prefix by auto
  qed
qed

text \<open>Instances of the parameters for the concrete cases.\<close>

lemma demo_mac_text_ok: "mac_text_ok demo_crypto"
  by (simp add: mac_text_ok_def demo_crypto_def sum_digest_def hex_encode_def)

theorem admin_write_iff_witness:
  "require_admin_write demo_crypto (\<lambda>_. None) ''token'' 100 (Some ''s3cret'') [(''x-admin-token'', Some ''s3cret'')] =
     Inr (bootstrap_actor ''token'')"
proof -
  have found: "admin_token_from_headers [(''x-admin-token'', Some ''s3cret'')] = Some ''s3cret''"
  proof -
    have "trim ''s3cret'' = ''s3cret''"
      by (subst trim_printable) (simp_all add: code_of_def)
    moreover have "\<not> eq_ignore_ascii_case ''x-admin-token'' ''authorization''"
      "eq_ignore_ascii_case ''x-admin-token'' ''X-Admin-Token''"
      by (simp_all add: eq_ignore_ascii_case_def ascii_lower_def code_of_def char_of_def bit_Suc_0_iff)
    ultimately show ?thesis by (simp add: admin_token_from_headers_def bearer_or_def header_text_def)
  qed
  have "length ''s3cret'' < 2 ^ 64" by simp
  moreover have "can_write (bootstrap_actor ''token'')" by (simp add: can_write_def bootstrap_actor_def)
  ultimately show ?thesis
    using admin_write_iff [OF demo_mac_text_ok, of "''s3cret''" "[(''x-admin-token'', Some ''s3cret'')]"
        "\<lambda>_. None" "''token''" 100 "bootstrap_actor ''token''"] found
    by simp
qed

text \<open>
  A session an administrator was given holds for eight hours and no longer: it verifies, with
  the user's name and role, exactly until its expiry, and is then refused as expired.
\<close>

theorem created_session_verifies:
  assumes "b64url_roundtrip cx" "mac_text_ok cx" "length token < 2 ^ 64"
    and "create_admin_session_token cx to_json now random secret user = Inr (token, expires)"
    and "\<And>c body. to_json c = Some body \<Longrightarrow> of_json body = Some c"
  shows "verify_admin_session_token cx of_json at secret token =
      (if at \<le> now + 28800 then
         Inr \<lparr>aa_id = Some (au_id user), aa_username = au_username user,
              aa_display_name = au_display_name user, aa_role = au_role user, aa_auth_type = ''password''\<rparr>
       else Inl (unauthorized ''admin_session_expired'' ''admin session has expired'')) \<and>
    expires = now + 28800"
proof -
  let ?claims = "\<lparr>as_user_id = au_id user, as_username = au_username user,
      as_display_name = au_display_name user, as_role = au_role user,
      as_exp = now + 28800, as_nonce = random_url_token cx random\<rparr>"
  from assms(4) obtain body mac where
    body: "to_json ?claims = Some body" and
    mac: "hmac_sha256 cx secret (session_signed_part (b64url_encode cx body)) = Some mac" and
    token: "token = session_signed_part (b64url_encode cx body) @ ''.'' @ b64url_encode cx mac" and
    expires: "expires = now + 28800"
    by (auto simp: create_admin_session_token_def Let_def admin_session_ttl_sec_def
        hmac_sha256_base64_Inr admin_session_prefix_def admin_session_version_def session_signed_part_def)
  have dots: "CHR ''.'' \<notin> set (b64url_encode cx x)" "b64url_decode cx (b64url_encode cx x) = Some x" for x
    using assms(1) by (simp_all add: b64url_roundtrip_def)
  have "split_on (CHR ''.'') token = [''xas'', ''v1'', b64url_encode cx body, b64url_encode cx mac]"
    using split_four [of "CHR ''.''" "''xas''" "''v1''" "b64url_encode cx body" "b64url_encode cx mac"] dots
    by (simp add: token session_signed_part_def)
  moreover have "constant_time_eq (b64url_encode cx mac) (b64url_encode cx mac)"
    using assms(2) mac constant_time_eq_correct unfolding mac_text_ok_def by blast
  ultimately show ?thesis
    using mac dots assms(5) [OF body] expires
    by (auto simp: verify_admin_session_token_def Let_def nth_part_def admin_session_prefix_def
        admin_session_version_def hmac_sha256_base64_def session_signed_part_def not_less)
qed

theorem created_session_verifies_witness:
  "\<exists>token. verify_admin_session_token demo_crypto (\<lambda>_. Some
       \<lparr>as_user_id = 3, as_username = ''ann'', as_display_name = None, as_role = ''operator'',
        as_exp = 28900, as_nonce = hex_encode ''r''\<rparr>) 30000 ''key'' token =
     Inl (unauthorized ''admin_session_expired'' ''admin session has expired'')"
proof -
  let ?claims = "\<lparr>as_user_id = 3, as_username = ''ann'', as_display_name = None, as_role = ''operator'',
        as_exp = 28900, as_nonce = hex_encode ''r''\<rparr> :: admin_session_claims"
  let ?user = "\<lparr>au_id = 3, au_username = ''ann'', au_display_name = None, au_role = ''operator''\<rparr>"
  let ?to_json = "\<lambda>c. if c = ?claims then Some ''{}'' else None"
  obtain token expires where t: "create_admin_session_token demo_crypto ?to_json 100 ''r'' ''key'' ?user =
      Inr (token, expires)" and len: "length token < 100"
    by (simp add: create_admin_session_token_def admin_session_ttl_sec_def random_url_token_def
        hmac_sha256_base64_def demo_crypto_def sum_digest_def hex_encode_def admin_session_prefix_def
        admin_session_version_def)
  have json: "\<And>c body. ?to_json c = Some body \<Longrightarrow> (\<lambda>_. Some ?claims) body = Some c"
    by (simp split: if_splits)
  have "length token < 2 ^ 64" using len by simp
  from created_session_verifies [OF _ demo_mac_text_ok this t json, where at = 30000] show ?thesis
    by (intro exI [of _ token]) (simp add: word_le_nat_alt)
qed

text \<open>
  A stored password is checked by the derived key: the password itself is always accepted, and
  another one is accepted exactly when PBKDF2 derives the same 32 bytes from it.
\<close>

theorem password_round_trip:
  assumes "b64url_roundtrip cx" "b64url_no_dollar cx" "hmac_32 cx"
    and "hash_admin_password cx salt password = Inr encoded"
  shows "verify_admin_password cx password encoded = Inr True \<and>
    (verify_admin_password cx attempt encoded = Inr True \<longleftrightarrow>
       pbkdf2_hmac_sha256 cx attempt salt 120000 32 = pbkdf2_hmac_sha256 cx password salt 120000 32)"
proof -
  obtain derived where derived: "pbkdf2_hmac_sha256 cx password salt 120000 32 = Inr derived" "length derived = 32"
    using pbkdf2_total [OF assms(3), of 120000 32] by auto
  obtain tried where tried: "pbkdf2_hmac_sha256 cx attempt salt 120000 32 = Inr tried" "length tried = 32"
    using pbkdf2_total [OF assms(3), of 120000 32] by auto
  note check = verify_made_hash [OF assms(1,2) _ derived assms(4) [unfolded hash_admin_password_def
      admin_password_iterations_def]]
  have small: "length derived < 2 ^ 64" "length tried < 2 ^ 64" using derived(2) tried(2) by simp_all
  show ?thesis
    using check [of password] check [of attempt] derived(1) tried(1)
      constant_time_eq_correct [OF small(1) small(1)] constant_time_eq_correct [OF small(2,1)]
    by simp
qed

theorem password_round_trip_witness:
  "\<exists>encoded. verify_admin_password (demo_crypto\<lparr>hmac_sha256 := \<lambda>_ _. Some (replicate 32 (CHR ''d''))\<rparr>)
     ''correct horse'' encoded = Inr True"
proof -
  let ?cx = "demo_crypto\<lparr>hmac_sha256 := \<lambda>_ _. Some (replicate 32 (CHR ''d''))\<rparr>"
  have digit: "digit_char d \<noteq> CHR ''$''" if "d < 16" for d
    using that code_of_digit_char [of d] by (auto simp: code_of_def split: if_splits)
  have half: "code_of c div 16 < 16" for c
    using code_of_less [of c] by (simp add: div_less_iff_less_mult)
  have "CHR ''$'' \<notin> set (hex_encode b)" for b
    using digit half by (auto simp: hex_encode_def eq_commute [of "CHR ''$''"])
  then have laws: "b64url_roundtrip ?cx" "b64url_no_dollar ?cx" "hmac_32 ?cx"
    by (simp_all add: b64url_roundtrip_def b64url_no_dollar_def hmac_32_def demo_crypto_def hex_no_dot)
  obtain derived where "pbkdf2_hmac_sha256 ?cx ''correct horse'' ''salt'' 120000 32 = Inr derived"
    using pbkdf2_total [OF laws(3), of 120000 32] by auto
  moreover have "validate_admin_password ''correct horse'' = Inr ()"
    by (simp add: validate_admin_password_def char_count_def is_cont_def code_of_def)
  ultimately obtain encoded where "hash_admin_password ?cx ''salt'' ''correct horse'' = Inr encoded"
    by (auto simp: hash_admin_password_def hash_admin_password_with_def admin_password_iterations_def)
  from password_round_trip [OF laws this, of "''x''"] show ?thesis by blast
qed

text \<open>
  The business and client interfaces admit exactly the bearers of their configured tokens; the
  comparison, which does not stop at the first difference, is equality.
\<close>

theorem bearer_gates_exact:
  assumes "length configured < 2 ^ 64"
    and "\<forall>p. business_sync_token_from_headers hs = Some p \<longrightarrow> length p < 2 ^ 64"
    and "\<forall>p. client_api_token_from_headers hs = Some p \<longrightarrow> length p < 2 ^ 64"
  shows "(is_ok (require_business_sync (Some configured) hs) \<longleftrightarrow>
      business_sync_token_from_headers hs = Some configured) \<and>
    (is_ok (require_client_api (Some configured) hs) \<longleftrightarrow>
      client_api_token_from_headers hs = Some configured) \<and>
    \<not> is_ok (require_business_sync None hs) \<and> is_ok (require_client_api None hs)"
  using business_gate.gate_iff [OF assms(1,2)] client_gate.gate_iff [OF assms(1,3)]
  by (simp add: require_business_sync_def require_client_api_def)

theorem bearer_gates_exact_witness:
  "\<not> is_ok (require_business_sync (Some ''right'') []) \<and> \<not> is_ok (require_client_api (Some ''right'') [])"
proof -
  have none: "business_sync_token_from_headers [] = None" "client_api_token_from_headers [] = None"
    by (simp_all add: business_sync_token_from_headers_def client_api_token_from_headers_def
        bearer_or_def header_text_def)
  have "length ''right'' < 2 ^ 64" by simp
  from bearer_gates_exact [OF this, of "[]"] none show ?thesis by simp
qed

end
