(* ===== verification/Api_Connect.thy ===== *)
theory Api_Connect
  imports Api_Auth Auth
begin

text \<open>
  Connect intents in \<open>control-api/src/main.rs\<close>: the checks of a request, the normal form of a
  route policy and its hash, the route of a per-session ticket, and the issue of the signed
  token a client shows to a node. The database's answers, the JSON codecs and the clock are
  parameters. The policy structs of the two programs have the same fields, so the record of
  \<open>Route_Policy\<close> stands for both.
\<close>

section \<open>Route policies\<close>

record route_policy_binding =
  rb_policy :: route_policy
  rb_hash :: string

definition invalid_policy :: "string \<Rightarrow> app_error" where
  "invalid_policy message = bad_request ''invalid_route_policy'' message"

definition udp_or_tcp :: "string \<Rightarrow> bool" where
  "udp_or_tcp p \<longleftrightarrow> p = ''udp'' \<or> p = ''tcp''"

definition lower_trim :: "string \<Rightarrow> string" where
  "lower_trim s = to_ascii_lowercase (trim s)"

definition validate_port_range :: "port_range \<Rightarrow> (app_error, port_range) result" where
  "validate_port_range r =
     (let p = lower_trim (pr_protocol r)
      in if \<not> udp_or_tcp p then
           Inl (invalid_policy ''route_policy.targets[].ports[].protocol must be udp or tcp'')
         else if pr_from r = 0 \<or> pr_to r = 0 \<or> pr_to r < pr_from r then
           Inl (invalid_policy ''route_policy.targets[].ports[] must use a valid port range'')
         else Inr (r\<lparr>pr_protocol := p\<rparr>))"

definition known_host_types :: "string list" where
  "known_host_types =
     [''domain'', ''ipv4'', ''ipv6'', ''cidr'', ''observed_ip'', ''steam_sdr'', ''any'']"

definition validate_route_target :: "route_target \<Rightarrow> (app_error, route_target) result" where
  "validate_route_target t =
     bind_result (normalize_required_text (rt_target_id t) ''route_policy.targets[].target_id'' 128)
       (\<lambda>target_id.
     bind_result (normalize_required_text (rt_host_type t) ''route_policy.targets[].host_type'' 32)
       (\<lambda>ht.
     let host_type = to_ascii_lowercase ht in
     if host_type \<notin> set known_host_types then
       Inl (invalid_policy ''route_policy.targets[].host_type is unsupported'')
     else
     bind_result (case rt_host t of
         None \<Rightarrow> Inr None
       | Some h \<Rightarrow> bind_result (normalize_required_text h ''route_policy.targets[].host'' 255)
           (\<lambda>h'. Inr (Some h'))) (\<lambda>host.
     if rt_ports t = [] then
       Inl (invalid_policy ''route_policy.targets[].ports must not be empty'')
     else if 32 < length (rt_ports t) then
       Inl (invalid_policy ''route_policy.targets[].ports must not exceed 32 entries'')
     else bind_result (map_result validate_port_range (rt_ports t)) (\<lambda>ports.
       Inr (t\<lparr>rt_target_id := target_id, rt_host_type := host_type, rt_host := host,
              rt_ports := ports\<rparr>)))))"

definition validate_default_protocol :: "string option \<Rightarrow> (app_error, string option) result" where
  "validate_default_protocol p =
     (case p of
        None \<Rightarrow> Inr None
      | Some v \<Rightarrow>
          if udp_or_tcp (lower_trim v) then Inr (Some (lower_trim v))
          else Inl (invalid_policy ''route_policy.default_protocol must be udp or tcp''))"

text \<open>The checks in the code's order, giving the normal form.\<close>

definition normalize_route_policy :: "route_policy \<Rightarrow> (app_error, route_policy) result" where
  "normalize_route_policy p =
     bind_result (normalize_required_text (policy_id p) ''route_policy.policy_id'' 128) (\<lambda>pid.
     if policy_version p = 0 then
       Inl (invalid_policy ''route_policy.policy_version must be positive'')
     else
     bind_result (normalize_required_text (policy_mode p) ''route_policy.mode'' 32) (\<lambda>m.
     let policy_mode' = to_ascii_lowercase m in
     if policy_mode' \<noteq> ''dynamic_targets'' then
       Inl (invalid_policy ''route_policy.mode must be dynamic_targets'')
     else
     bind_result (validate_default_protocol (default_protocol p)) (\<lambda>protocol.
     if policy_targets p = [] then
       Inl (invalid_policy ''route_policy.targets must not be empty'')
     else if 128 < length (policy_targets p) then
       Inl (invalid_policy ''route_policy.targets must not exceed 128 entries'')
     else bind_result (map_result validate_route_target (policy_targets p)) (\<lambda>targets.
       Inr (p\<lparr>policy_id := pid, policy_mode := policy_mode', default_protocol := protocol,
              policy_targets := targets\<rparr>)))))"

definition validate_route_policy ::
  "crypto \<Rightarrow> (route_policy \<Rightarrow> (string, bytes) result) \<Rightarrow> route_policy \<Rightarrow>
   (app_error, route_policy_binding) result"
where
  "validate_route_policy cx policy_json p =
     bind_result (normalize_route_policy p) (\<lambda>policy.
     bind_result (map_err (\<lambda>_. internal_error) (policy_json policy)) (\<lambda>b.
     Inr \<lparr>rb_policy = policy, rb_hash = b64url_encode cx (sha256 cx b)\<rparr>))"

definition format_endpoint :: "string \<Rightarrow> u16 \<Rightarrow> string" where
  "format_endpoint host port =
     (if parse_ipv6_addr host \<noteq> None then ''['' @ host @ '']:'' @ show_u16 port
      else host @ '':'' @ show_u16 port)"

definition first_of :: "'a list \<Rightarrow> 'a option" where
  "first_of xs = (case xs of [] \<Rightarrow> None | x # _ \<Rightarrow> Some x)"

fun representative_route_policy_target :: "route_target list \<Rightarrow> string \<Rightarrow> (app_error, string) result" where
  "representative_route_policy_target [] protocol =
     Inl (invalid_policy ''route_policy must include at least one target for the selected protocol or target_addr must be provided'')"
| "representative_route_policy_target (t # ts) protocol =
     (case find (\<lambda>p. pr_protocol p = protocol) (rt_ports t) of
        None \<Rightarrow> representative_route_policy_target ts protocol
      | Some port \<Rightarrow>
          (case or_option (rt_host t) (or_option (first_of (rt_resolved_ips t)) (first_of (rt_observed_ips t))) of
             Some host \<Rightarrow> validate_target_addr (format_endpoint host (pr_from port))
           | None \<Rightarrow>
               if rt_host_type t = ''any'' \<or> rt_host_type t = ''steam_sdr'' then
                 Inr (''0.0.0.0:'' @ show_u16 (pr_from port))
               else representative_route_policy_target ts protocol))"

section \<open>Requests\<close>

record connect_intent_request =
  ci_user_id :: u64
  ci_device_id :: string
  ci_game_id :: u64
  ci_game_key :: "string option"
  ci_region_id :: "u64 option"
  ci_platform :: "string option"
  ci_client_isp :: "string option"
  ci_client_ip :: "string option"
  ci_bandwidth_quality :: "string option"

record business_connect_intent_request =
  bi_request_id :: "string option"
  bi_entitlement_id :: "string option"
  bi_order_id :: "string option"
  bi_subscription_id :: "string option"
  bi_business_session_id :: "string option"
  bi_entitlement_verified :: "bool option"
  bi_device_verified :: "bool option"
  bi_entitlement_expires_at :: "u64 option"
  bi_risk_level :: "string option"
  bi_business_trace_id :: "string option"
  bi_user_id :: u64
  bi_device_id :: string
  bi_game_id :: u64
  bi_game_key :: "string option"
  bi_region_id :: "u64 option"
  bi_node_id :: "u64 option"
  bi_target_addr :: "string option"
  bi_protocol :: "string option"
  bi_region_name :: "string option"
  bi_platform :: "string option"
  bi_client_isp :: "string option"
  bi_client_ip :: "string option"
  bi_bandwidth_quality :: "string option"
  bi_client_version :: "string option"
  bi_route_policy :: "route_policy option"

definition to_connect_intent_request ::
  "business_connect_intent_request \<Rightarrow> connect_intent_request"
where
  "to_connect_intent_request r =
     \<lparr>ci_user_id = bi_user_id r, ci_device_id = bi_device_id r, ci_game_id = bi_game_id r,
      ci_game_key = normalize_business_text (bi_game_key r), ci_region_id = bi_region_id r,
      ci_platform = bi_platform r, ci_client_isp = bi_client_isp r,
      ci_client_ip = bi_client_ip r, ci_bandwidth_quality = bi_bandwidth_quality r\<rparr>"

definition auth_context :: "business_connect_intent_request \<Rightarrow> business_auth_context" where
  "auth_context r =
     \<lparr>ba_entitlement_id = normalize_business_text (bi_entitlement_id r),
      ba_order_id = normalize_business_text (bi_order_id r),
      ba_subscription_id = normalize_business_text (bi_subscription_id r),
      ba_business_session_id = normalize_business_text (bi_business_session_id r),
      ba_entitlement_verified = unwrap_or False (bi_entitlement_verified r),
      ba_device_verified = unwrap_or False (bi_device_verified r),
      ba_entitlement_expires_at = bi_entitlement_expires_at r,
      ba_risk_level = normalize_business_text (bi_risk_level r),
      ba_business_trace_id = normalize_business_text (bi_business_trace_id r)\<rparr>"

record business_per_session_route =
  br_node_id :: u64
  br_target_addr :: string
  br_protocol :: string
  br_region_id :: "u64 option"
  br_region_name :: "string option"
  br_route_policy :: "route_policy_binding option"

definition per_session_route ::
  "crypto \<Rightarrow> (route_policy \<Rightarrow> (string, bytes) result) \<Rightarrow> business_connect_intent_request \<Rightarrow>
   (app_error, business_per_session_route option) result"
where
  "per_session_route cx policy_json r =
     bind_result (case bi_route_policy r of
         None \<Rightarrow> Inr None
       | Some p \<Rightarrow> bind_result (validate_route_policy cx policy_json p) (\<lambda>b. Inr (Some b)))
       (\<lambda>binding.
     let target = nonempty_text (bi_target_addr r) in
     if target = None \<and> binding = None then
       (if bi_node_id r \<noteq> None \<or> bi_protocol r \<noteq> None \<or> bi_region_name r \<noteq> None then
          Inl (bad_request ''incomplete_accel_ticket''
            ''node_id and target_addr or route_policy are required for per-session acceleration'')
        else Inr None)
     else
     bind_result (ok_or (bad_request ''incomplete_accel_ticket''
         ''node_id is required for per-session acceleration'') (bi_node_id r)) (\<lambda>node_id.
     if node_id = 0 then Inl (bad_request ''invalid_node'' ''node_id must be positive'')
     else
     let protocol = to_ascii_lowercase (unwrap_or ''udp'' (or_option (nonempty_text (bi_protocol r))
           (Option.bind binding (\<lambda>b. default_protocol (rb_policy b))))) in
     if \<not> udp_or_tcp protocol then
       Inl (bad_request ''invalid_ticket_protocol''
         ''per-session acceleration currently supports udp or tcp'')
     else
     bind_result (case target of
         Some t \<Rightarrow> validate_target_addr t
       | None \<Rightarrow> representative_route_policy_target
           (case binding of None \<Rightarrow> [] | Some b \<Rightarrow> policy_targets (rb_policy b)) protocol)
       (\<lambda>target_addr.
     bind_result (normalize_optional_text (bi_region_name r) 128) (\<lambda>region_name.
     Inr (Some \<lparr>br_node_id = node_id, br_target_addr = target_addr, br_protocol = protocol,
       br_region_id = bi_region_id r, br_region_name = region_name,
       br_route_policy = binding\<rparr>)))))"

definition validate_connect_intent_request :: "connect_intent_request \<Rightarrow> (app_error, unit) result" where
  "validate_connect_intent_request r =
     (if ci_user_id r = 0 then Inl (bad_request ''invalid_user'' ''user_id must be positive'')
      else if trim (ci_device_id r) = [] then
        Inl (bad_request ''invalid_device'' ''device_id is required'')
      else if ci_game_id r = 0 then Inl (bad_request ''invalid_game'' ''game_id must be positive'')
      else if ci_region_id r = Some 0 then
        Inl (bad_request ''invalid_region'' ''region_id must be positive'')
      else if is_some_and (\<lambda>q. q \<notin> {''fast'', ''normal'', ''slow''}) (ci_bandwidth_quality r) then
        Inl (bad_request ''invalid_quality'' ''bandwidth_quality must be fast, normal, or slow'')
      else Inr ())"

definition validate_optional_business_text ::
  "string option \<Rightarrow> string \<Rightarrow> nat \<Rightarrow> (app_error, unit) result"
where
  "validate_optional_business_text x field max_chars =
     (case x of
        None \<Rightarrow> Inr ()
      | Some v \<Rightarrow>
          if trim v = [] then Inl (bad_request ''invalid_business_field''
            (field @ '' must not be empty when provided''))
          else if max_chars < char_count v then Inl (bad_request ''invalid_business_field''
            (field @ '' must not exceed '' @ show_nat max_chars @ '' characters''))
          else Inr ())"

definition validate_business_connect_intent_request ::
  "crypto \<Rightarrow> (route_policy \<Rightarrow> (string, bytes) result) \<Rightarrow> u64 \<Rightarrow> business_connect_intent_request \<Rightarrow>
   (app_error, unit) result"
where
  "validate_business_connect_intent_request cx policy_json now r =
     bind_result (validate_connect_intent_request (to_connect_intent_request r)) (\<lambda>_.
     bind_result (validate_optional_business_text (bi_request_id r) ''request_id'' 128) (\<lambda>_.
     bind_result (validate_optional_business_text (bi_entitlement_id r) ''entitlement_id'' 128) (\<lambda>_.
     bind_result (validate_optional_business_text (bi_order_id r) ''order_id'' 128) (\<lambda>_.
     bind_result (validate_optional_business_text (bi_subscription_id r) ''subscription_id'' 128) (\<lambda>_.
     bind_result (validate_optional_business_text (bi_business_session_id r) ''business_session_id'' 128)
       (\<lambda>_.
     bind_result (validate_optional_business_text (bi_client_version r) ''client_version'' 64) (\<lambda>_.
     bind_result (validate_optional_business_text (bi_risk_level r) ''risk_level'' 32) (\<lambda>_.
     bind_result (validate_optional_business_text (bi_business_trace_id r) ''business_trace_id'' 128)
       (\<lambda>_.
     bind_result (per_session_route cx policy_json r) (\<lambda>_.
     if bi_entitlement_verified r \<noteq> Some True then
       Inl (forbidden ''entitlement_not_verified''
         ''business backend must confirm entitlement before issuing connect-intent'')
     else if bi_device_verified r \<noteq> Some True then
       Inl (forbidden ''device_not_verified''
         ''business backend must confirm device before issuing connect-intent'')
     else if is_some_and (\<lambda>e. e \<le> now) (bi_entitlement_expires_at r) then
       Inl (forbidden ''entitlement_expired'' ''business entitlement is expired'')
     else (case map_option trim (bi_risk_level r) of
         None \<Rightarrow> Inr ()
       | Some risk \<Rightarrow>
           if risk \<notin> {''low'', ''normal'', ''medium'', ''high'', ''blocked''} then
             Inl (bad_request ''invalid_risk_level''
               ''risk_level must be low, normal, medium, high, or blocked'')
           else if risk = ''blocked'' then
             Inl (forbidden ''risk_blocked'' ''business backend marked this connect-intent as blocked'')
           else Inr ())))))))))))"

section \<open>Issuing a token\<close>

record candidate_row =
  cw_node_id :: u64
  cw_server_ip :: string
  cw_server_port :: u32
  cw_area :: string
  cw_tag :: "string option"
  cw_bandwidth_quality :: string
  cw_node_secret :: string
  cw_target_addr :: string
  cw_protocol :: string
  cw_region_id :: "u64 option"
  cw_region_name :: "string option"
  cw_route_priority :: u32
  cw_latest_active_sessions :: "u32 option"
  cw_latest_udp_sessions :: "u32 option"
  cw_latest_tcp_sessions :: "u32 option"
  cw_latest_reported_at :: "u64 option"

record api_route_claims =
  ar_target_addr :: string
  ar_protocol :: string
  ar_region_id :: "u64 option"
  ar_region_name :: "string option"

record api_token_claims =
  at_node_id :: u64
  at_user_id :: u64
  at_device_id :: string
  at_game_id :: u64
  at_game_key :: "string option"
  at_region_id :: "u64 option"
  at_business :: "business_auth_context option"
  at_intent_id :: "string option"
  at_route_policy_hash :: "string option"
  at_route_policy_id :: "string option"
  at_route :: "api_route_claims option"
  at_expires_at :: u64
  at_issued_at :: "u64 option"
  at_nonce :: "string option"

record candidate_scheduler_info =
  cs_requested_region_id :: "u64 option"
  cs_selected_region_id :: "u64 option"
  cs_region_match :: string
  cs_requested_bandwidth_quality :: string
  cs_bandwidth_quality_match :: bool
  cs_route_priority :: u32
  cs_latest_active_sessions :: u32
  cs_latest_udp_sessions :: u32
  cs_latest_tcp_sessions :: u32
  cs_latest_reported_at :: "u64 option"
  cs_latest_report_age_sec :: "u64 option"
  cs_report_fresh :: bool
  cs_selection_reasons :: "string list"

definition region_match :: "u64 option \<Rightarrow> u64 option \<Rightarrow> string" where
  "region_match requested selected =
     (case (requested, selected) of
        (Some a, Some b) \<Rightarrow> if a = b then ''exact'' else ''mismatch''
      | (Some _, None) \<Rightarrow> ''fallback''
      | (None, None) \<Rightarrow> ''global''
      | _ \<Rightarrow> ''mismatch'')"

definition scheduler_info :: "candidate_row \<Rightarrow> u64 \<Rightarrow> u64 option \<Rightarrow> string \<Rightarrow> candidate_scheduler_info" where
  "scheduler_info row now requested_region quality =
     (let age = map_option (saturating_sub now) (cw_latest_reported_at row);
          fresh = is_some_and (\<lambda>a. a \<le> 90) age;
          rm = region_match requested_region (cw_region_id row);
          qm = cw_bandwidth_quality row = quality
      in \<lparr>cs_requested_region_id = requested_region, cs_selected_region_id = cw_region_id row,
          cs_region_match = rm, cs_requested_bandwidth_quality = quality,
          cs_bandwidth_quality_match = qm, cs_route_priority = cw_route_priority row,
          cs_latest_active_sessions = unwrap_or 0 (cw_latest_active_sessions row),
          cs_latest_udp_sessions = unwrap_or 0 (cw_latest_udp_sessions row),
          cs_latest_tcp_sessions = unwrap_or 0 (cw_latest_tcp_sessions row),
          cs_latest_reported_at = cw_latest_reported_at row,
          cs_latest_report_age_sec = age, cs_report_fresh = fresh,
          cs_selection_reasons =
            [if rm = ''exact'' then ''region_exact'' else if rm = ''fallback'' then ''region_fallback''
             else if rm = ''global'' then ''region_global'' else ''region_mismatch'',
             if qm then ''quality_match'' else ''quality_fallback'',
             if fresh then ''fresh_report'' else ''stale_or_missing_report'',
             ''lowest_route_priority'', ''lowest_active_sessions'']\<rparr>)"

record credential_info =
  ck_token :: string
  ck_expires_at :: u64
  ck_intent_id :: string
  ck_route :: api_route_claims
  ck_route_policy_hash :: "string option"
  ck_route_policy_id :: "string option"

text \<open>The constant parts of the answer (probe, transports, token type) are not carried.\<close>

record node_candidate =
  cn_node_id :: u64
  cn_area :: string
  cn_tag :: string
  cn_host :: string
  cn_port :: u16
  cn_bandwidth_quality :: string
  cn_route :: api_route_claims
  cn_route_policy :: "route_policy option"
  cn_credential :: credential_info
  cn_scheduler :: candidate_scheduler_info

record connect_intent_response =
  ir_intent_id :: string
  ir_ttl_sec :: u64
  ir_issue_mode :: string
  ir_bandwidth_quality :: string
  ir_request :: connect_intent_request
  ir_auth_context :: "business_auth_context option"
  ir_candidates :: "node_candidate list"

definition intent_id_of :: "connect_intent_request \<Rightarrow> u64 \<Rightarrow> candidate_row \<Rightarrow> string" where
  "intent_id_of r issued_at row =
     ''intent-'' @ show_u64 (ci_user_id r) @ ''-'' @ show_u64 (ci_game_id r) @ ''-'' @
     show_u64 issued_at @ ''-'' @ show_u64 (cw_node_id row)"

definition route_claims_of :: "candidate_row \<Rightarrow> api_route_claims" where
  "route_claims_of row =
     \<lparr>ar_target_addr = cw_target_addr row, ar_protocol = cw_protocol row,
      ar_region_id = cw_region_id row, ar_region_name = cw_region_name row\<rparr>"

definition token_claims_of ::
  "u64 \<Rightarrow> u64 \<Rightarrow> connect_intent_request \<Rightarrow> business_auth_context option \<Rightarrow> candidate_row \<Rightarrow>
   route_policy_binding option \<Rightarrow> api_token_claims"
where
  "token_claims_of issued_at ttl_sec r context row binding =
     \<lparr>at_node_id = cw_node_id row, at_user_id = ci_user_id r, at_device_id = ci_device_id r,
      at_game_id = ci_game_id r, at_game_key = ci_game_key r, at_region_id = ci_region_id r,
      at_business = context, at_intent_id = Some (intent_id_of r issued_at row),
      at_route_policy_hash = map_option rb_hash binding,
      at_route_policy_id = map_option (\<lambda>b. policy_id (rb_policy b)) binding,
      at_route = Some (route_claims_of row), at_expires_at = issued_at + ttl_sec,
      at_issued_at = Some issued_at,
      at_nonce = Some (show_u64 issued_at @ ''-'' @ show_u64 (cw_node_id row) @ ''-'' @ ci_device_id r)\<rparr>"

text \<open>
  The intents are stored in a table \<open>'i\<close>. An insertion returns the new table or an error, and a
  request that fails after it leaves the intent stored: \<open>with_store\<close> ends a request with the table
  as it is when a step fails.
\<close>

type_synonym 'i intent_insert =
  "'i \<Rightarrow> string \<Rightarrow> connect_intent_request \<Rightarrow> candidate_row \<Rightarrow> u64 \<Rightarrow> (app_error, 'i) result"

definition with_store :: "'i \<Rightarrow> (app_error, 'a) result \<Rightarrow> ('a \<Rightarrow> (app_error, 'b) result \<times> 'i) \<Rightarrow>
    (app_error, 'b) result \<times> 'i"
where
  "with_store store x f = (case x of Inl e \<Rightarrow> (Inl e, store) | Inr a \<Rightarrow> f a)"

lemma with_store_simps [simp]:
  "with_store store (Inl e) f = (Inl e, store)"
  "with_store store (Inr a) f = f a"
  "fst (with_store store x f) = bind_result x (\<lambda>a. fst (f a))"
  by (cases x; simp add: with_store_def)+

definition issue_connect_intent_for_row ::
  "crypto \<Rightarrow> (api_token_claims \<Rightarrow> (string, bytes) result) \<Rightarrow> 'i intent_insert \<Rightarrow> 'i \<Rightarrow> u64 \<Rightarrow> u64 \<Rightarrow>
   connect_intent_request \<Rightarrow> business_auth_context option \<Rightarrow> candidate_row \<Rightarrow> string \<Rightarrow>
   route_policy_binding option \<Rightarrow> string \<Rightarrow> (app_error, connect_intent_response) result \<times> 'i"
where
  "issue_connect_intent_for_row cx to_json insert_intent store issued_at ttl_sec r context row
     issue_mode binding quality =
     (let expires_at = issued_at + ttl_sec;
          intent_id = intent_id_of r issued_at row;
          route = route_claims_of row
      in with_store store (map_err (\<lambda>_. internal_error)
           (sign_client_token cx to_json (token_claims_of issued_at ttl_sec r context row binding)
              (cw_node_secret row))) (\<lambda>token.
         with_store store (insert_intent store intent_id r row expires_at) (\<lambda>store'.
         (bind_result (if cw_server_port row \<le> 65535 then Inr (ucast (cw_server_port row) :: u16)
             else Inl (app_error_new 500 ''invalid_node_port''
               ''selected node port is outside 1-65535'')) (\<lambda>port.
         Inr \<lparr>ir_intent_id = intent_id, ir_ttl_sec = ttl_sec, ir_issue_mode = issue_mode,
              ir_bandwidth_quality = quality, ir_request = r, ir_auth_context = context,
              ir_candidates =
                [\<lparr>cn_node_id = cw_node_id row, cn_area = cw_area row,
                  cn_tag = unwrap_or ''default'' (cw_tag row), cn_host = cw_server_ip row,
                  cn_port = port, cn_bandwidth_quality = cw_bandwidth_quality row,
                  cn_route = route, cn_route_policy = map_option rb_policy binding,
                  cn_credential =
                    \<lparr>ck_token = token, ck_expires_at = expires_at, ck_intent_id = intent_id,
                     ck_route = route, ck_route_policy_hash = map_option rb_hash binding,
                     ck_route_policy_id = map_option (\<lambda>b. policy_id (rb_policy b)) binding\<rparr>,
                  cn_scheduler = scheduler_info row issued_at (ci_region_id r) quality\<rparr>]\<rparr>), store'))))"

text \<open>The database: the catalogue's candidate for a request, and the row of a chosen node.\<close>

record 'i intent_database =
  db_select_candidate :: "connect_intent_request \<Rightarrow> string \<Rightarrow> (app_error, candidate_row option) result"
  db_select_per_session :: "business_per_session_route \<Rightarrow> (app_error, candidate_row option) result"
  db_insert_intent :: "'i intent_insert"

definition requested_quality :: "connect_intent_request \<Rightarrow> string" where
  "requested_quality r = unwrap_or ''normal'' (ci_bandwidth_quality r)"

definition issue_connect_intent ::
  "crypto \<Rightarrow> (api_token_claims \<Rightarrow> (string, bytes) result) \<Rightarrow> 'i intent_database \<Rightarrow> 'i \<Rightarrow> u64 \<Rightarrow> u64 \<Rightarrow>
   connect_intent_request \<Rightarrow> business_auth_context option \<Rightarrow>
   (app_error, connect_intent_response) result \<times> 'i"
where
  "issue_connect_intent cx to_json db store now ttl_sec r context =
     with_store store (db_select_candidate db r (requested_quality r)) (\<lambda>found.
     with_store store (ok_or (not_found ''no_candidate'' ''no available node'') found) (\<lambda>row.
     issue_connect_intent_for_row cx to_json (db_insert_intent db) store now ttl_sec r context row
       ''catalog'' None (requested_quality r)))"

definition issue_per_session_connect_intent ::
  "crypto \<Rightarrow> (api_token_claims \<Rightarrow> (string, bytes) result) \<Rightarrow> 'i intent_database \<Rightarrow> 'i \<Rightarrow> u64 \<Rightarrow> u64 \<Rightarrow>
   connect_intent_request \<Rightarrow> business_auth_context option \<Rightarrow> business_per_session_route \<Rightarrow>
   (app_error, connect_intent_response) result \<times> 'i"
where
  "issue_per_session_connect_intent cx to_json db store now ttl_sec r context route =
     with_store store (db_select_per_session db route) (\<lambda>found.
     with_store store (ok_or (not_found ''no_candidate'' ''selected node is not available'') found) (\<lambda>row.
     issue_connect_intent_for_row cx to_json (db_insert_intent db) store now ttl_sec r context row
       ''per_session'' (br_route_policy route) (requested_quality r)))"

section \<open>The two endpoints\<close>

definition connect_intent ::
  "crypto \<Rightarrow> (api_token_claims \<Rightarrow> (string, bytes) result) \<Rightarrow> 'i intent_database \<Rightarrow> 'i \<Rightarrow>
   string option \<Rightarrow> u64 \<Rightarrow> u64 \<Rightarrow> headers \<Rightarrow> connect_intent_request \<Rightarrow>
   (app_error, connect_intent_response) result \<times> 'i"
where
  "connect_intent cx to_json db store client_token now ttl_sec hs r =
     with_store store (require_client_api client_token hs) (\<lambda>_.
     with_store store (validate_connect_intent_request r) (\<lambda>_.
     issue_connect_intent cx to_json db store now ttl_sec r None))"

record accel_ticket =
  ak_ticket_id :: string
  ak_ttl_sec :: u64
  ak_issue_mode :: string
  ak_client :: connect_intent_request
  ak_bandwidth_quality :: string
  ak_node_id :: u64
  ak_host :: string
  ak_port :: u16
  ak_route :: api_route_claims
  ak_route_policy :: "route_policy option"
  ak_credential :: credential_info
  ak_auth_context :: business_auth_context

definition ticket_from_connect_intent ::
  "connect_intent_response \<Rightarrow> connect_intent_request \<Rightarrow> business_auth_context \<Rightarrow>
   (app_error, accel_ticket) result"
where
  "ticket_from_connect_intent response r context =
     bind_result (ok_or internal_error (first_of (ir_candidates response))) (\<lambda>c.
     Inr \<lparr>ak_ticket_id = ir_intent_id response, ak_ttl_sec = ir_ttl_sec response,
          ak_issue_mode = ir_issue_mode response, ak_client = r,
          ak_bandwidth_quality = ir_bandwidth_quality response, ak_node_id = cn_node_id c,
          ak_host = cn_host c, ak_port = cn_port c, ak_route = cn_route c,
          ak_route_policy = cn_route_policy c, ak_credential = cn_credential c,
          ak_auth_context = context\<rparr>)"

text \<open>The log rows the endpoint writes on the side, whose failures it ignores, are in \<open>Api_Business\<close>.\<close>

definition issue_business_ticket ::
  "crypto \<Rightarrow> (route_policy \<Rightarrow> (string, bytes) result) \<Rightarrow> (api_token_claims \<Rightarrow> (string, bytes) result) \<Rightarrow>
   'i intent_database \<Rightarrow> 'i \<Rightarrow> u64 \<Rightarrow> u64 \<Rightarrow> u64 \<Rightarrow> business_connect_intent_request \<Rightarrow>
   (app_error, accel_ticket) result \<times> 'i"
where
  "issue_business_ticket cx policy_json to_json db store checked_at now ttl_sec r =
     with_store store (validate_business_connect_intent_request cx policy_json checked_at r) (\<lambda>_.
     with_store store (per_session_route cx policy_json r) (\<lambda>route_opt.
     let (issued, store') =
       (case route_opt of
          Some route \<Rightarrow> issue_per_session_connect_intent cx to_json db store now ttl_sec
              (to_connect_intent_request r) (Some (auth_context r)) route
        | None \<Rightarrow> issue_connect_intent cx to_json db store now ttl_sec
              (to_connect_intent_request r) (Some (auth_context r)))
     in (bind_result issued (\<lambda>response.
           ticket_from_connect_intent response (to_connect_intent_request r) (auth_context r)),
         store')))"

text \<open>The clock is read when the request is checked and again when the token is issued.\<close>

definition business_connect_intent ::
  "crypto \<Rightarrow> (route_policy \<Rightarrow> (string, bytes) result) \<Rightarrow> (api_token_claims \<Rightarrow> (string, bytes) result) \<Rightarrow>
   'i intent_database \<Rightarrow> 'i \<Rightarrow> string option \<Rightarrow> u64 \<Rightarrow> u64 \<Rightarrow> u64 \<Rightarrow> headers \<Rightarrow>
   business_connect_intent_request \<Rightarrow> (app_error, accel_ticket) result \<times> 'i"
where
  "business_connect_intent cx policy_json to_json db store sync_token checked_at now ttl_sec hs r =
     with_store store (require_business_sync sync_token hs) (\<lambda>_.
     issue_business_ticket cx policy_json to_json db store checked_at now ttl_sec r)"

text \<open>An administrator tries the same request from the dashboard.\<close>

definition admin_business_api_connect_intent ::
  "crypto \<Rightarrow> (route_policy \<Rightarrow> (string, bytes) result) \<Rightarrow> (api_token_claims \<Rightarrow> (string, bytes) result) \<Rightarrow>
   'i intent_database \<Rightarrow> 'i \<Rightarrow> (app_error, admin_actor) result \<Rightarrow> u64 \<Rightarrow> u64 \<Rightarrow> u64 \<Rightarrow>
   business_connect_intent_request \<Rightarrow> (app_error, accel_ticket) result \<times> 'i"
where
  "admin_business_api_connect_intent cx policy_json to_json db store admin checked_at now ttl_sec r =
     with_store store admin (\<lambda>_.
     issue_business_ticket cx policy_json to_json db store checked_at now ttl_sec r)"

section \<open>Normal forms\<close>

lemma udp_or_tcp_lower:
  assumes "udp_or_tcp (lower_trim v)"
  shows "lower_trim (lower_trim v) = lower_trim v"
  by (simp add: lower_trim_def trim_to_ascii_lowercase)

text \<open>A port range of a normal policy: a lower-case protocol and ports in order, from 1 on.\<close>

definition port_range_ok :: "port_range \<Rightarrow> bool" where
  "port_range_ok r \<longleftrightarrow>
     udp_or_tcp (pr_protocol r) \<and> lower_trim (pr_protocol r) = pr_protocol r \<and>
     1 \<le> unat (pr_from r) \<and> unat (pr_from r) \<le> unat (pr_to r)"

lemma unat_pos_iff: "1 \<le> unat w \<longleftrightarrow> w \<noteq> 0"
  by (metis One_nat_def Suc_leI gr0I not_one_le_zero unat_eq_zero)

lemma validate_port_range_Inr:
  assumes "validate_port_range r = Inr r'"
  shows "port_range_ok r' \<and> validate_port_range r' = Inr r'"
  using assms
  by (auto simp: validate_port_range_def Let_def port_range_ok_def udp_or_tcp_lower
      unat_pos_iff [unfolded One_nat_def] word_le_nat_alt not_less split: if_splits)

definition route_target_ok :: "route_target \<Rightarrow> bool" where
  "route_target_ok t \<longleftrightarrow>
     trim (rt_target_id t) = rt_target_id t \<and> rt_target_id t \<noteq> [] \<and>
     rt_host_type t \<in> set known_host_types \<and>
     rt_ports t \<noteq> [] \<and> length (rt_ports t) \<le> 32 \<and> (\<forall>r \<in> set (rt_ports t). port_range_ok r)"

lemma map_result_each:
  assumes "map_result f xs = Inr ys" "y \<in> set ys"
  shows "\<exists>x \<in> set xs. f x = Inr y"
  using assms by (induction xs arbitrary: ys) auto

lemma map_result_stable:
  assumes "\<And>x y. f x = Inr y \<Longrightarrow> f y = Inr y" "map_result f xs = Inr ys"
  shows "map_result f ys = Inr ys"
  using assms(2) assms(1) by (induction xs arbitrary: ys) auto

lemma char_count_lower [simp]: "char_count (to_ascii_lowercase s) = char_count s"
proof -
  have "is_cont (ascii_lower c) = is_cont c" for c
    by (auto simp: is_cont_def code_of_ascii_lower simp del: code_of_inject)
  then show ?thesis by (simp add: char_count_def to_ascii_lowercase_def filter_map comp_def)
qed

lemma required_lower:
  assumes "normalize_required_text v field n = Inr w"
  shows "normalize_required_text (to_ascii_lowercase w) field' n = Inr (to_ascii_lowercase w)"
proof -
  have "to_ascii_lowercase w \<noteq> []" if "w \<noteq> []" using that by (simp add: to_ascii_lowercase_def)
  with assms show ?thesis by (auto simp: normalize_required_text_Inr trim_to_ascii_lowercase)
qed

lemma validate_route_target_Inr:
  assumes "validate_route_target t = Inr t'"
  shows "route_target_ok t' \<and> validate_route_target t' = Inr t'"
proof -
  from assms obtain tid ht host ports where
    tid: "normalize_required_text (rt_target_id t) ''route_policy.targets[].target_id'' 128 = Inr tid" and
    ht: "normalize_required_text (rt_host_type t) ''route_policy.targets[].host_type'' 32 = Inr ht" and
    known: "to_ascii_lowercase ht \<in> set known_host_types" and
    host: "(case rt_host t of None \<Rightarrow> Inr None
       | Some h \<Rightarrow> bind_result (normalize_required_text h ''route_policy.targets[].host'' 255)
           (\<lambda>h'. Inr (Some h'))) = Inr host" and
    len: "rt_ports t \<noteq> []" "length (rt_ports t) \<le> 32" and
    ports: "map_result validate_port_range (rt_ports t) = Inr ports" and
    t': "t' = t\<lparr>rt_target_id := tid, rt_host_type := to_ascii_lowercase ht, rt_host := host,
              rt_ports := ports\<rparr>"
    by (auto simp: validate_route_target_def Let_def split: if_splits)
  have host': "(case host of None \<Rightarrow> Inr None
       | Some h \<Rightarrow> bind_result (normalize_required_text h ''route_policy.targets[].host'' 255)
           (\<lambda>h'. Inr (Some h'))) = Inr host"
    using host required.accepted_again by (auto split: option.splits)
  have stable: "map_result validate_port_range ports = Inr ports"
    by (rule map_result_stable [OF _ ports]) (simp add: validate_port_range_Inr)
  have n: "length ports = length (rt_ports t)" using map_result_length [OF ports] .
  have "\<forall>r \<in> set ports. port_range_ok r"
    using map_result_each [OF ports] validate_port_range_Inr by metis
  moreover have "tid \<noteq> []" "trim tid = tid"
    using tid by (auto simp: normalize_required_text_Inr)
  moreover have "ports \<noteq> []" using n len(1) by auto
  ultimately show ?thesis
    using known len n stable host' required.accepted_again [OF tid] required_lower [OF ht]
    by (simp add: t' route_target_ok_def validate_route_target_def Let_def)
qed

text \<open>A policy in normal form: what the control plane signs the hash of.\<close>

definition route_policy_ok :: "route_policy \<Rightarrow> bool" where
  "route_policy_ok p \<longleftrightarrow>
     trim (policy_id p) = policy_id p \<and> policy_id p \<noteq> [] \<and> policy_version p \<noteq> 0 \<and>
     policy_mode p = ''dynamic_targets'' \<and>
     (\<forall>q. default_protocol p = Some q \<longrightarrow> udp_or_tcp q) \<and>
     policy_targets p \<noteq> [] \<and> length (policy_targets p) \<le> 128 \<and>
     (\<forall>t \<in> set (policy_targets p). route_target_ok t)"

lemma validate_default_protocol_Inr:
  assumes "validate_default_protocol q = Inr q'"
  shows "(\<forall>v. q' = Some v \<longrightarrow> udp_or_tcp v) \<and> validate_default_protocol q' = Inr q'"
  using assms
  by (auto simp: validate_default_protocol_def udp_or_tcp_lower split: option.splits if_splits)

lemma normalize_route_policy_Inr:
  assumes "normalize_route_policy p = Inr q"
  shows "route_policy_ok q \<and> normalize_route_policy q = Inr q"
proof -
  from assms obtain pid m protocol targets where
    pid: "normalize_required_text (policy_id p) ''route_policy.policy_id'' 128 = Inr pid" and
    version: "policy_version p \<noteq> 0" and
    m: "normalize_required_text (policy_mode p) ''route_policy.mode'' 32 = Inr m" and
    mode: "to_ascii_lowercase m = ''dynamic_targets''" and
    protocol: "validate_default_protocol (default_protocol p) = Inr protocol" and
    len: "policy_targets p \<noteq> []" "length (policy_targets p) \<le> 128" and
    targets: "map_result validate_route_target (policy_targets p) = Inr targets" and
    q: "q = p\<lparr>policy_id := pid, policy_mode := to_ascii_lowercase m, default_protocol := protocol,
              policy_targets := targets\<rparr>"
    by (auto simp: normalize_route_policy_def Let_def split: if_splits)
  have stable: "map_result validate_route_target targets = Inr targets"
    by (rule map_result_stable [OF _ targets]) (simp add: validate_route_target_Inr)
  have "\<forall>t \<in> set targets. route_target_ok t"
    using map_result_each [OF targets] validate_route_target_Inr by metis
  moreover have n: "length targets = length (policy_targets p)" using map_result_length [OF targets] .
  moreover have "targets \<noteq> []" using n len(1) by auto
  moreover have "pid \<noteq> []" "trim pid = pid"
    using pid by (auto simp: normalize_required_text_Inr)
  moreover have "to_ascii_lowercase ''dynamic_targets'' = ''dynamic_targets''"
    by (simp flip: mode)
  ultimately show ?thesis
    using version mode len stable validate_default_protocol_Inr [OF protocol]
      required.accepted_again [OF pid] required_lower [OF m, of "''route_policy.mode''"]
    by (simp add: q route_policy_ok_def normalize_route_policy_def Let_def)
qed

end
