(* ===== verification/Api_Database.thy ===== *)
theory Api_Database
  imports Api_Auth
begin

text \<open>
  The tables of \<open>control-api/src/main.rs\<close> that its node endpoints read and write, as lists of rows,
  and the SQL statements they use: a condition and an update of rows, the first row that meets a
  condition, an insertion with the next auto-increment id. A transaction returns the new tables
  or, when a statement fails, an error, which leaves them as they were; a row lock is held to the
  end, so a transaction is one atomic step.

  What MySQL itself contributes is a parameter: whether the \<open>i\<close>-th statement of a call fails,
  its time stamp, and which Unix times it can represent.
\<close>

record mysql =
  my_fault :: "nat \<Rightarrow> (app_error, unit) result"
  my_now :: "nat \<Rightarrow> u64"
  my_from_unixtime :: "u64 \<Rightarrow> u64 option"

record node_row =
  nd_id :: u64
  nd_name :: string
  nd_server_ip :: string
  nd_server_port :: u32
  nd_relay_server_ip :: "string option"
  nd_relay_server_port :: "u32 option"
  nd_is_support_ipv6 :: bool
  nd_bandwidth_quality :: string
  nd_disable_quic :: bool
  nd_area :: string
  nd_telecom_ip :: "string option"
  nd_mobile_ip :: "string option"
  nd_unicom_ip :: "string option"
  nd_tag :: "string option"
  nd_status :: string
  nd_node_secret :: "string option"
  nd_installed_at :: "u64 option"
  nd_last_seen_at :: "u64 option"
  nd_last_report_at :: "u64 option"
  nd_kernel_version :: "string option"
  nd_config_revision :: u64

record bootstrap_token_row =
  bt_id :: u64
  bt_node_id :: u64
  bt_token_hash :: string
  bt_expires_at :: u64
  bt_used_at :: "u64 option"
  bt_used_by_ip :: "string option"
  bt_created_by :: "u64 option"

record node_task_row =
  nt_id :: u64
  nt_node_id :: u64
  nt_task_type :: string
  nt_status :: string
  nt_message :: "string option"
  nt_output :: "string option"
  nt_error_message :: "string option"
  nt_created_at :: "u64 option"
  nt_claimed_at :: "u64 option"
  nt_started_at :: "u64 option"
  nt_finished_at :: "u64 option"

record audit_row =
  al_node_id :: u64
  al_actor_type :: string
  al_actor_id :: "u64 option"
  al_action :: string
  al_detail :: json

record runtime_report_row =
  rr_node_id :: u64
  rr_config_revision :: u64
  rr_report_status :: string
  rr_active_sessions :: u32
  rr_udp_sessions :: u32
  rr_tcp_sessions :: u32
  rr_raw_json :: string
  rr_reported_at :: "u64 option"

record config_revision_row =
  cv_node_id :: u64
  cv_revision :: u64
  cv_config :: json

record database =
  dt_nodes :: "node_row list"
  dt_next_node :: u64
  dt_tokens :: "bootstrap_token_row list"
  dt_next_token :: u64
  dt_tasks :: "node_task_row list"
  dt_next_task :: u64
  dt_audit :: "audit_row list"
  dt_reports :: "runtime_report_row list"
  dt_revisions :: "config_revision_row list"

section \<open>Statements\<close>

definition stmt :: "mysql \<Rightarrow> nat \<Rightarrow> 'a \<Rightarrow> (app_error, 'a) result" where
  "stmt my i a = bind_result (my_fault my i) (\<lambda>_. Inr a)"

definition update_rows :: "('r \<Rightarrow> bool) \<Rightarrow> ('r \<Rightarrow> 'r) \<Rightarrow> 'r list \<Rightarrow> 'r list" where
  "update_rows p f rows = map (\<lambda>r. if p r then f r else r) rows"

text \<open>An exhausted auto-increment column refuses insertions.\<close>

definition auto_id :: "u64 \<Rightarrow> (app_error, u64) result" where
  "auto_id next_id = (if next_id = - 1 then Inl database_error else Inr next_id)"

definition find_node :: "u64 \<Rightarrow> database \<Rightarrow> node_row option" where
  "find_node node_id db = find (\<lambda>n. nd_id n = node_id) (dt_nodes db)"

definition update_node :: "u64 \<Rightarrow> (node_row \<Rightarrow> node_row) \<Rightarrow> database \<Rightarrow> database" where
  "update_node node_id f db = db\<lparr>dt_nodes := update_rows (\<lambda>n. nd_id n = node_id) f (dt_nodes db)\<rparr>"

definition insert_audit :: "audit_row \<Rightarrow> database \<Rightarrow> database" where
  "insert_audit row db = db\<lparr>dt_audit := dt_audit db @ [row]\<rparr>"

definition audit_actor_type :: "admin_actor \<Rightarrow> string" where
  "audit_actor_type actor = (if aa_id actor \<noteq> None then ''admin_user'' else ''admin_api'')"

text \<open>The foreign key \<open>node_id\<close> of the tables below \<open>accel_nodes\<close>.\<close>

definition foreign_key :: "u64 \<Rightarrow> database \<Rightarrow> (app_error, unit) result" where
  "foreign_key node_id db = ensure (find_node node_id db \<noteq> None) database_error"

definition insert_node_audit :: "audit_row \<Rightarrow> database \<Rightarrow> (app_error, database) result" where
  "insert_node_audit row db = bind_result (foreign_key (al_node_id row) db) (\<lambda>_. Inr (insert_audit row db))"

text \<open>\<open>FROM_UNIXTIME\<close> into a column that is \<open>NOT NULL\<close>.\<close>

definition required_time :: "mysql \<Rightarrow> u64 \<Rightarrow> (app_error, u64) result" where
  "required_time my t = ok_or database_error (my_from_unixtime my t)"

definition json_text :: "string option \<Rightarrow> json" where
  "json_text x = (case x of None \<Rightarrow> JNull | Some s \<Rightarrow> JString s)"

text \<open>A node with a secret to check its signatures against.\<close>

definition select_node_secret :: "database \<Rightarrow> u64 \<Rightarrow> string option" where
  "select_node_secret db node_id =
     Option.bind (find_node node_id db) (\<lambda>n. filter_option (\<lambda>s. s \<noteq> []) (nd_node_secret n))"

definition ensure_admin_node_exists :: "mysql \<Rightarrow> nat \<Rightarrow> database \<Rightarrow> u64 \<Rightarrow> (app_error, unit) result" where
  "ensure_admin_node_exists my i db node_id =
     (if node_id = 0 then Inl (bad_request ''invalid_node'' ''node_id must be positive'')
      else bind_result (stmt my i (find_node node_id db)) (\<lambda>found.
        ensure (found \<noteq> None) (not_found ''node_not_found'' ''node does not exist'')))"

section \<open>Rows\<close>

lemma stmt_Inr [simp]: "stmt my i a = Inr b \<longleftrightarrow> my_fault my i = Inr () \<and> b = a"
  by (auto simp: stmt_def)

lemma auto_id_Inr [simp]: "auto_id n = Inr i \<longleftrightarrow> i = n \<and> unat n + 1 < 2 ^ 64"
proof -
  have "n = - 1 \<longleftrightarrow> unat n = 2 ^ 64 - 1"
    by (simp add: word_unat_eq_iff unsigned_minus_1_eq_mask mask_eq_exp_minus_1)
  moreover have "unat n < 2 ^ 64" using unsigned_less [of n] by simp
  ultimately show ?thesis by (auto simp: auto_id_def)
qed

lemma foreign_key_Inr [simp]: "foreign_key k db = Inr u \<longleftrightarrow> find_node k db \<noteq> None"
  by (simp add: foreign_key_def)

lemma insert_node_audit_Inr [simp]:
  "insert_node_audit row db = Inr db' \<longleftrightarrow> find_node (al_node_id row) db \<noteq> None \<and> db' = insert_audit row db"
  by (auto simp: insert_node_audit_def)

lemma required_time_Inr [simp]: "required_time my t = Inr s \<longleftrightarrow> my_from_unixtime my t = Some s"
  by (simp add: required_time_def)

lemma update_rows_simps [simp]:
  "update_rows p f [] = []"
  "update_rows p f (r # rs) = (if p r then f r else r) # update_rows p f rs"
  "length (update_rows p f rs) = length rs"
  by (simp_all add: update_rows_def)

lemma set_update_rows: "r \<in> set (update_rows p f rows) \<longleftrightarrow>
    (\<exists>r0 \<in> set rows. r = (if p r0 then f r0 else r0))"
  by (auto simp: update_rows_def)

lemma map_update_rows [simp]:
  "(\<And>r. g (f r) = g r) \<Longrightarrow> map g (update_rows p f rows) = map g rows"
  by (simp add: update_rows_def)

lemma find_update_rows:
  assumes "\<And>r. key (f r) = key r"
  shows "find (\<lambda>r. key r = k) (update_rows (\<lambda>r. key r = k') f rows) =
    map_option (\<lambda>r. if k = k' then f r else r) (find (\<lambda>r. key r = k) rows)"
  using assms by (induction rows) auto

lemma find_node_update:
  assumes "\<And>n. nd_id (f n) = nd_id n"
  shows "find_node node_id (update_node node_id' f db) =
    map_option (\<lambda>n. if node_id = node_id' then f n else n) (find_node node_id db)"
  unfolding find_node_def update_node_def using find_update_rows [of nd_id f node_id node_id'] assms
  by simp

lemma find_node_insert_audit [simp]: "find_node k (insert_audit row db) = find_node k db"
  by (simp add: find_node_def insert_audit_def)

lemma database_fields [simp]:
  "dt_nodes (insert_audit row db) = dt_nodes db" "dt_tokens (insert_audit row db) = dt_tokens db"
  "dt_tasks (insert_audit row db) = dt_tasks db" "dt_next_task (insert_audit row db) = dt_next_task db"
  "dt_reports (insert_audit row db) = dt_reports db" "dt_revisions (insert_audit row db) = dt_revisions db"
  "dt_tokens (update_node k f db) = dt_tokens db" "dt_tasks (update_node k f db) = dt_tasks db"
  "dt_next_task (update_node k f db) = dt_next_task db" "dt_revisions (update_node k f db) = dt_revisions db"
  "dt_audit (update_node k f db) = dt_audit db" "dt_next_token (update_node k f db) = dt_next_token db"
  by (simp_all add: insert_audit_def update_node_def)

lemma find_Some_set: "find p xs = Some x \<Longrightarrow> x \<in> set xs \<and> p x"
  by (rule find_Some_first)

section \<open>Tables with an auto-increment key\<close>

text \<open>Rows stand in the order of their keys, and the next key is above them all.\<close>

definition rows_ok :: "('r \<Rightarrow> u64) \<Rightarrow> 'r list \<Rightarrow> u64 \<Rightarrow> bool" where
  "rows_ok key rows next_id \<longleftrightarrow>
     sorted_wrt (<) (map key rows) \<and> (\<forall>r \<in> set rows. key r < next_id)"

lemma rows_ok_Nil [simp]: "rows_ok key [] n"
  by (simp add: rows_ok_def)

lemma rows_ok_unique:
  "rows_ok key rows n \<Longrightarrow> r \<in> set rows \<Longrightarrow> s \<in> set rows \<Longrightarrow> key r = key s \<Longrightarrow> r = s"
  unfolding rows_ok_def strict_sorted_iff by (metis distinct_map inj_onD)

lemma rows_ok_fresh: "rows_ok key rows n \<Longrightarrow> r \<in> set rows \<Longrightarrow> key r \<noteq> n"
  by (auto simp: rows_ok_def)

lemma less_next_id: "unat n + 1 < 2 ^ 64 \<Longrightarrow> (m :: u64) \<le> n \<Longrightarrow> m < n + 1"
  by (simp add: word_less_nat_alt word_le_nat_alt unat_word_ariths)

lemma rows_ok_append:
  assumes "rows_ok key rows n" "unat n + 1 < 2 ^ 64" "key r = n"
  shows "rows_ok key (rows @ [r]) (n + 1)"
  using assms less_next_id [OF assms(2)] unfolding rows_ok_def
  by (auto simp: sorted_wrt_append intro: less_imp_le)

lemma rows_ok_update:
  "rows_ok key rows n \<Longrightarrow> (\<And>r. key (f r) = key r) \<Longrightarrow> rows_ok key (update_rows p f rows) n"
  unfolding rows_ok_def by (auto simp: set_update_rows)

lemma rows_ok_filter: "rows_ok key rows n \<Longrightarrow> rows_ok key (filter p rows) n"
  unfolding rows_ok_def by (simp add: sorted_wrt_map sorted_wrt_filter)

lemma rows_ok_find:
  assumes "rows_ok key rows n"
  shows "find (\<lambda>r. key r = k) rows = Some r \<longleftrightarrow> r \<in> set rows \<and> key r = k"
proof
  assume r: "r \<in> set rows \<and> key r = k"
  then obtain s where s: "find (\<lambda>r. key r = k) rows = Some s"
    by (cases "find (\<lambda>r. key r = k) rows") (auto simp: find_None_iff)
  then show "find (\<lambda>r. key r = k) rows = Some r"
    using find_Some_set [OF s] r rows_ok_unique [OF assms] by blast
qed (rule find_Some_set)

end
