(* ===== verification/Api_Catalog.thy ===== *)
theory Api_Catalog
  imports Api_Connect Api_Database
begin

text \<open>
  The game catalogue in \<open>control-api/src/main.rs\<close>: the requests that edit games, regions and route
  rules one by one, and the synchronisation request of the business backend, whose regions and
  rules may be nested under games and regions. A request is normalised as a whole before any
  table is touched; here are its normal forms, in \<open>Api_Catalog_Store\<close> the tables.
\<close>

section \<open>Requests and their normal forms\<close>

record admin_game_request =
  ag_game_id :: u64
  ag_name :: string
  ag_platform :: "string option"
  ag_category :: "string option"
  ag_icon_url :: "string option"
  ag_status :: "string option"
  ag_remark :: "string option"

record admin_route_rule_request =
  ax_game_id :: u64
  ax_game_name :: string
  ax_region_id :: "u64 option"
  ax_region_name :: "string option"
  ax_node_id :: u64
  ax_target_addr :: string
  ax_protocol :: "string option"
  ax_area :: "string option"
  ax_tag :: "string option"
  ax_priority :: "u32 option"
  ax_status :: "string option"

record business_sync_route_rule =
  sr_external_id :: "string option"
  sr_game_id :: "u64 option"
  sr_game_name :: "string option"
  sr_region_id :: "u64 option"
  sr_region_name :: "string option"
  sr_node_id :: u64
  sr_target_addr :: string
  sr_protocol :: "string option"
  sr_area :: "string option"
  sr_tag :: "string option"
  sr_priority :: "u32 option"
  sr_status :: "string option"

record business_sync_region =
  sz_game_id :: "u64 option"
  sz_region_id :: u64
  sz_name :: string
  sz_area :: "string option"
  sz_status :: "string option"
  sz_remark :: "string option"
  sz_route_rules :: "business_sync_route_rule list"

record business_sync_game =
  sg_game_id :: u64
  sg_name :: string
  sg_platform :: "string option"
  sg_category :: "string option"
  sg_categories :: "string list option"
  sg_icon_url :: "string option"
  sg_status :: "string option"
  sg_remark :: "string option"
  sg_regions :: "business_sync_region list"
  sg_route_rules :: "business_sync_route_rule list"

record business_sync_catalog_request =
  sq_source :: "string option"
  sq_revision :: "string option"
  sq_games :: "business_sync_game list"
  sq_regions :: "business_sync_region list"
  sq_route_rules :: "business_sync_route_rule list"

record business_delete_catalog_request =
  dq_game_ids :: "u64 list"
  dq_regions :: "(u64 \<times> u64) list"
  dq_route_rule_ids :: "u64 list"
  dq_route_external_ids :: "string list"
  dq_source :: "string option"

record normalized_game =
  ng_game_id :: u64
  ng_name :: string
  ng_platform :: string
  ng_category :: "string option"
  ng_categories :: "string list"
  ng_icon_url :: "string option"
  ng_status :: string
  ng_remark :: "string option"

record normalized_game_region =
  nr_game_id :: u64
  nr_region_id :: u64
  nr_name :: string
  nr_area :: "string option"
  nr_status :: string
  nr_remark :: "string option"

record normalized_route_rule =
  ru_game_id :: u64
  ru_game_name :: string
  ru_region_id :: "u64 option"
  ru_region_name :: "string option"
  ru_node_id :: u64
  ru_target_addr :: string
  ru_protocol :: string
  ru_area :: "string option"
  ru_tag :: "string option"
  ru_priority :: u32
  ru_status :: string
  ru_sync_source :: "string option"
  ru_external_id :: "string option"

record business_sync_catalog =
  sc_source :: string
  sc_revision :: "string option"
  sc_games :: "normalized_game list"
  sc_regions :: "normalized_game_region list"
  sc_route_rules :: "normalized_route_rule list"

record normalized_business_delete_catalog =
  nc_game_ids :: "u64 list"
  nc_regions :: "(u64 \<times> u64) list"
  nc_route_rule_ids :: "u64 list"
  nc_route_external_ids :: "string list"
  nc_source :: "string option"

section \<open>Games\<close>

definition invalid_game :: "string \<Rightarrow> app_error" where
  "invalid_game message = bad_request ''invalid_game'' message"

definition invalid_region :: "string \<Rightarrow> app_error" where
  "invalid_region message = bad_request ''invalid_region'' message"

definition validate_game_platform :: "string \<Rightarrow> (app_error, string) result" where
  "validate_game_platform platform =
     (let p = trim platform
      in if p = [] \<or> p = ''pc'' then Inr ''pc''
         else if p \<in> set [''android'', ''ios'', ''multi''] then Inr p
         else Inl (bad_request ''invalid_game_platform''
           ''platform must be pc, android, ios, or multi''))"

definition validate_game_status :: "string \<Rightarrow> (app_error, string) result" where
  "validate_game_status status =
     (let s = trim status
      in if s = [] \<or> s = ''enabled'' then Inr ''enabled''
         else if s = ''disabled'' then Inr ''disabled''
         else Inl (bad_request ''invalid_game_status'' ''status must be enabled or disabled''))"

text \<open>
  \<open>if seen.insert(key(x)) { out.push(x) }\<close> over a list. The loops that use it may stop at an error
  of an element, which does not depend on \<open>seen\<close>: all elements are checked first.
\<close>

fun dedup_by :: "('a \<Rightarrow> 'k) \<Rightarrow> 'k list \<Rightarrow> 'a list \<Rightarrow> 'a list" where
  "dedup_by key seen [] = []"
| "dedup_by key seen (x # xs) =
     (if key x \<in> set seen then dedup_by key seen xs else x # dedup_by key (key x # seen) xs)"

definition normalize_business_game_categories ::
  "string option \<Rightarrow> string list option \<Rightarrow> (app_error, string list) result"
where
  "normalize_business_game_categories primary categories =
     (if is_some_and (\<lambda>items. 16 < length items) categories then
        Inl (bad_request ''invalid_game_categories'' ''categories must contain at most 16 items'')
      else bind_result (map_result (\<lambda>v. normalize_optional_text v 64)
          (primary # map Some (unwrap_or [] categories))) (\<lambda>values.
        Inr (dedup_by to_ascii_lowercase [] (List.map_filter id values))))"

definition normalize_game_request :: "admin_game_request \<Rightarrow> (app_error, normalized_game) result" where
  "normalize_game_request r =
     (if ag_game_id r = 0 then Inl (invalid_game ''game_id must be positive'')
      else
      bind_result (validate_game_platform (unwrap_or ''pc'' (ag_platform r))) (\<lambda>platform.
      bind_result (validate_game_status (unwrap_or ''enabled'' (ag_status r))) (\<lambda>status.
      bind_result (normalize_optional_text (ag_icon_url r) 512) (\<lambda>icon_url.
      bind_result (case icon_url of
          None \<Rightarrow> Inr ()
        | Some u \<Rightarrow> bind_result (normalize_url_arg u) (\<lambda>_. Inr ())) (\<lambda>_.
      bind_result (normalize_required_text (ag_name r) ''name'' 128) (\<lambda>name.
      bind_result (normalize_optional_text (ag_category r) 64) (\<lambda>category.
      bind_result (normalize_business_game_categories (ag_category r) None) (\<lambda>categories.
      bind_result (normalize_optional_text (ag_remark r) 512) (\<lambda>remark.
      Inr \<lparr>ng_game_id = ag_game_id r, ng_name = name, ng_platform = platform,
           ng_category = category, ng_categories = categories, ng_icon_url = icon_url,
           ng_status = status, ng_remark = remark\<rparr>)))))))))"

definition normalize_business_game :: "business_sync_game \<Rightarrow> (app_error, normalized_game) result" where
  "normalize_business_game r =
     bind_result (normalize_business_game_categories (sg_category r) (sg_categories r)) (\<lambda>categories.
     bind_result (normalize_game_request
       \<lparr>ag_game_id = sg_game_id r, ag_name = sg_name r, ag_platform = sg_platform r,
        ag_category = first_of categories, ag_icon_url = sg_icon_url r, ag_status = sg_status r,
        ag_remark = sg_remark r\<rparr>) (\<lambda>game.
     Inr (game\<lparr>ng_categories := categories\<rparr>)))"

section \<open>Regions and rules\<close>

definition normalize_nested_game_id ::
  "u64 option \<Rightarrow> u64 option \<Rightarrow> string \<Rightarrow> (app_error, u64) result"
where
  "normalize_nested_game_id own parent scope =
     (case (own, parent) of
        (Some g, Some p) \<Rightarrow>
          if g \<noteq> p then Inl (invalid_game (''nested '' @ scope @ ''.game_id must match parent game_id''))
          else Inr g
      | (Some g, None) \<Rightarrow> Inr g
      | (None, Some p) \<Rightarrow> Inr p
      | (None, None) \<Rightarrow>
          Inl (invalid_game (scope @ ''.game_id is required when it is not nested under a game'')))"

definition normalize_business_region ::
  "business_sync_region \<Rightarrow> u64 option \<Rightarrow> (app_error, normalized_game_region) result"
where
  "normalize_business_region r parent =
     bind_result (normalize_nested_game_id (sz_game_id r) parent ''region'') (\<lambda>game_id.
     if game_id = 0 then Inl (invalid_game ''game_id must be positive'')
     else if sz_region_id r = 0 then Inl (invalid_region ''region_id must be positive'')
     else
     bind_result (normalize_required_text (sz_name r) ''name'' 128) (\<lambda>name.
     bind_result (normalize_optional_text (sz_area r) 32) (\<lambda>area.
     bind_result (validate_game_status (unwrap_or ''enabled'' (sz_status r))) (\<lambda>status.
     bind_result (normalize_optional_text (sz_remark r) 512) (\<lambda>remark.
     Inr \<lparr>nr_game_id = game_id, nr_region_id = sz_region_id r, nr_name = name, nr_area = area,
          nr_status = status, nr_remark = remark\<rparr>)))))"

definition region_text :: "u64 option \<Rightarrow> string" where
  "region_text region_id = (case region_id of None \<Rightarrow> ''global'' | Some r \<Rightarrow> show_u64 r)"

definition default_business_route_external_id ::
  "crypto \<Rightarrow> u64 \<Rightarrow> u64 option \<Rightarrow> u64 \<Rightarrow> string \<Rightarrow> string \<Rightarrow> string"
where
  "default_business_route_external_id cx game_id region_id node_id target_addr protocol =
     (let seed = show_u64 game_id @ '':'' @ region_text region_id @ '':'' @ show_u64 node_id @ '':'' @
            target_addr @ '':'' @ protocol;
          short_hash = b64url_encode cx (take 9 (sha256 cx seed))
      in ''route-'' @ show_u64 game_id @ ''-'' @ region_text region_id @ ''-'' @ short_hash)"

definition route_protocol :: "string option \<Rightarrow> (app_error, string) result" where
  "route_protocol protocol =
     (let p = unwrap_or ''udp'' (nonempty_text protocol)
      in if p \<noteq> ''udp'' then Inl (bad_request ''invalid_route_protocol'' ''protocol must be udp'')
         else Inr p)"

definition normalize_business_route_rule ::
  "crypto \<Rightarrow> business_sync_route_rule \<Rightarrow> string \<Rightarrow> u64 option \<Rightarrow> string option \<Rightarrow> u64 option \<Rightarrow>
   string option \<Rightarrow> (app_error, normalized_route_rule) result"
where
  "normalize_business_route_rule cx r source parent_game parent_game_name parent_region
     parent_region_name =
     bind_result (normalize_nested_game_id (sr_game_id r) parent_game ''route_rule'') (\<lambda>game_id.
     if game_id = 0 then Inl (invalid_game ''game_id must be positive'')
     else if sr_node_id r = 0 then Inl (bad_request ''invalid_node'' ''node_id must be positive'')
     else if sr_region_id r = Some 0 then Inl (invalid_region ''region_id must be positive'')
     else if sr_region_id r \<noteq> None \<and> parent_region \<noteq> None \<and> sr_region_id r \<noteq> parent_region then
       Inl (invalid_region ''nested route_rule.region_id must match parent region_id'')
     else
     bind_result (route_protocol (sr_protocol r)) (\<lambda>protocol.
     bind_result (validate_target_addr (sr_target_addr r)) (\<lambda>target_addr.
     bind_result (normalize_optional_text (sr_game_name r) 128) (\<lambda>own_name.
     let game_name = unwrap_or (''Game '' @ show_u64 game_id) (or_option own_name parent_game_name);
         region_id = or_option (sr_region_id r) parent_region
     in
     bind_result (normalize_optional_text (sr_external_id r) 128) (\<lambda>own_external.
     let external_id = or_option own_external (Some (default_business_route_external_id cx game_id
           region_id (sr_node_id r) target_addr protocol))
     in
     bind_result (normalize_optional_text (sr_region_name r) 128) (\<lambda>own_region_name.
     bind_result (normalize_optional_text (sr_area r) 32) (\<lambda>area.
     bind_result (normalize_optional_text (sr_tag r) 64) (\<lambda>tag.
     bind_result (validate_route_rule_status (unwrap_or ''enabled'' (sr_status r))) (\<lambda>status.
     Inr \<lparr>ru_game_id = game_id, ru_game_name = game_name, ru_region_id = region_id,
          ru_region_name = or_option own_region_name parent_region_name, ru_node_id = sr_node_id r,
          ru_target_addr = target_addr, ru_protocol = protocol, ru_area = area, ru_tag = tag,
          ru_priority = unwrap_or 100 (sr_priority r), ru_status = status,
          ru_sync_source = Some source, ru_external_id = external_id\<rparr>)))))))))"

definition normalize_route_rule_request ::
  "admin_route_rule_request \<Rightarrow> (app_error, normalized_route_rule) result"
where
  "normalize_route_rule_request r =
     (if ax_game_id r = 0 then Inl (invalid_game ''game_id must be positive'')
      else if ax_node_id r = 0 then Inl (bad_request ''invalid_node'' ''node_id must be positive'')
      else if ax_region_id r = Some 0 then Inl (invalid_region ''region_id must be positive'')
      else
      bind_result (route_protocol (ax_protocol r)) (\<lambda>protocol.
      bind_result (normalize_required_text (ax_game_name r) ''game_name'' 128) (\<lambda>game_name.
      bind_result (normalize_optional_text (ax_region_name r) 128) (\<lambda>region_name.
      bind_result (validate_target_addr (ax_target_addr r)) (\<lambda>target_addr.
      bind_result (normalize_optional_text (ax_area r) 32) (\<lambda>area.
      bind_result (normalize_optional_text (ax_tag r) 64) (\<lambda>tag.
      bind_result (validate_route_rule_status (unwrap_or ''enabled'' (ax_status r))) (\<lambda>status.
      Inr \<lparr>ru_game_id = ax_game_id r, ru_game_name = game_name, ru_region_id = ax_region_id r,
           ru_region_name = region_name, ru_node_id = ax_node_id r, ru_target_addr = target_addr,
           ru_protocol = protocol, ru_area = area, ru_tag = tag,
           ru_priority = unwrap_or 100 (ax_priority r), ru_status = status,
           ru_sync_source = None, ru_external_id = None\<rparr>))))))))"

section \<open>The whole request\<close>

text \<open>A region and its rules; \<open>parent\<close> is the game around it, with its name.\<close>

definition normalize_region_with_rules ::
  "crypto \<Rightarrow> string \<Rightarrow> (u64 \<times> string) option \<Rightarrow> business_sync_region \<Rightarrow>
   (app_error, normalized_game_region \<times> normalized_route_rule list) result"
where
  "normalize_region_with_rules cx source parent r =
     bind_result (normalize_business_region r (map_option fst parent)) (\<lambda>region.
     bind_result (map_result (\<lambda>q. normalize_business_route_rule cx q source
         (Some (case parent of None \<Rightarrow> nr_game_id region | Some (g, _) \<Rightarrow> g)) (map_option snd parent)
         (Some (nr_region_id region)) (Some (nr_name region))) (sz_route_rules r)) (\<lambda>rules.
     Inr (region, rules)))"

definition normalize_game_with_nested ::
  "crypto \<Rightarrow> string \<Rightarrow> business_sync_game \<Rightarrow>
   (app_error, normalized_game \<times> normalized_game_region list \<times> normalized_route_rule list) result"
where
  "normalize_game_with_nested cx source r =
     bind_result (normalize_business_game r) (\<lambda>game.
     bind_result (map_result (normalize_region_with_rules cx source (Some (ng_game_id game, ng_name game)))
       (sg_regions r)) (\<lambda>regions.
     bind_result (map_result (\<lambda>q. normalize_business_route_rule cx q source (Some (ng_game_id game))
         (Some (ng_name game)) None None) (sg_route_rules r)) (\<lambda>rules.
     Inr (game, map fst regions, concat (map snd regions) @ rules))))"

definition normalize_business_sync_catalog ::
  "crypto \<Rightarrow> business_sync_catalog_request \<Rightarrow> (app_error, business_sync_catalog) result"
where
  "normalize_business_sync_catalog cx r =
     (if sq_games r = [] \<and> sq_regions r = [] \<and> sq_route_rules r = [] then
        Inl (bad_request ''empty_sync_catalog''
          ''at least one game, region, or route_rule is required'')
      else
      bind_result (normalize_optional_text (sq_source r) 32) (\<lambda>own_source.
      let source = unwrap_or ''business'' own_source in
      bind_result (normalize_optional_text (sq_revision r) 128) (\<lambda>revision.
      bind_result (map_result (normalize_game_with_nested cx source) (sq_games r)) (\<lambda>games.
      bind_result (map_result (normalize_region_with_rules cx source None) (sq_regions r)) (\<lambda>regions.
      bind_result (map_result (\<lambda>q. normalize_business_route_rule cx q source None None None None)
        (sq_route_rules r)) (\<lambda>rules.
      Inr \<lparr>sc_source = source, sc_revision = revision, sc_games = map fst games,
           sc_regions = concat (map (fst \<circ> snd) games) @ map fst regions,
           sc_route_rules = concat (map (snd \<circ> snd) games) @ concat (map snd regions) @ rules\<rparr>))))))"

definition normalize_positive_u64_set :: "u64 list \<Rightarrow> string \<Rightarrow> (app_error, u64 list) result" where
  "normalize_positive_u64_set values field =
     (if 0 \<in> set values then Inl (bad_request ''invalid_id'' (field @ '' must be positive''))
      else Inr (dedup_by id [] values))"

definition delete_region_ref :: "u64 \<times> u64 \<Rightarrow> (app_error, u64 \<times> u64) result" where
  "delete_region_ref r =
     (if fst r = 0 then Inl (invalid_game ''region.game_id must be positive'')
      else if snd r = 0 then Inl (invalid_region ''region.region_id must be positive'')
      else Inr r)"

definition normalize_business_delete_catalog ::
  "business_delete_catalog_request \<Rightarrow> (app_error, normalized_business_delete_catalog) result"
where
  "normalize_business_delete_catalog r =
     bind_result (normalize_positive_u64_set (dq_game_ids r) ''game_id'') (\<lambda>game_ids.
     bind_result (normalize_positive_u64_set (dq_route_rule_ids r) ''route_rule_id'') (\<lambda>rule_ids.
     bind_result (map_result delete_region_ref (dq_regions r)) (\<lambda>regions.
     bind_result (map_result (\<lambda>e. normalize_required_text e ''route_external_id'' 128)
       (dq_route_external_ids r)) (\<lambda>external_ids.
     bind_result (normalize_optional_text (dq_source r) 32) (\<lambda>source.
     if game_ids = [] \<and> regions = [] \<and> rule_ids = [] \<and> external_ids = [] then
       Inl (bad_request ''empty_delete_catalog''
         ''at least one game_id, region, route_rule_id, or route_external_id is required'')
     else Inr \<lparr>nc_game_ids = game_ids, nc_regions = dedup_by id [] regions,
       nc_route_rule_ids = rule_ids, nc_route_external_ids = dedup_by to_ascii_lowercase [] external_ids,
       nc_source = source\<rparr>)))))"

section \<open>Normal forms\<close>

lemma set_dedup_by: "set (dedup_by key seen xs) \<subseteq> set xs"
  by (induction key seen xs rule: dedup_by.induct) auto

lemma dedup_by_keys:
  "distinct (map key (dedup_by key seen xs)) \<and>
   key ` set (dedup_by key seen xs) = key ` set xs - set seen"
  by (induction key seen xs rule: dedup_by.induct) auto

lemma route_protocol_Inr [simp]: "route_protocol p = Inr q \<longleftrightarrow> unwrap_or ''udp'' (nonempty_text p) = ''udp'' \<and> q = ''udp''"
  by (auto simp: route_protocol_def Let_def)

lemma validate_game_status_Inr:
  "validate_game_status s = Inr t \<Longrightarrow> t = ''enabled'' \<or> t = ''disabled''"
  by (auto simp: validate_game_status_def Let_def split: if_splits)

lemma validate_route_rule_status_Inr:
  "validate_route_rule_status s = Inr t \<Longrightarrow> t = ''enabled'' \<or> t = ''disabled''"
  by (auto simp: validate_route_rule_status_def word_of_def split: if_splits)

text \<open>What the tables may hold: a rule the scheduler can use, a game and a region with identity.\<close>

definition rule_normal :: "normalized_route_rule \<Rightarrow> bool" where
  "rule_normal r \<longleftrightarrow>
     ru_game_id r \<noteq> 0 \<and> ru_node_id r \<noteq> 0 \<and> ru_region_id r \<noteq> Some 0 \<and> ru_protocol r = ''udp'' \<and>
     validate_target_addr (ru_target_addr r) = Inr (ru_target_addr r) \<and>
     (ru_status r = ''enabled'' \<or> ru_status r = ''disabled'')"

definition region_normal :: "normalized_game_region \<Rightarrow> bool" where
  "region_normal r \<longleftrightarrow>
     nr_game_id r \<noteq> 0 \<and> nr_region_id r \<noteq> 0 \<and> trim (nr_name r) = nr_name r \<and> nr_name r \<noteq> [] \<and>
     (nr_status r = ''enabled'' \<or> nr_status r = ''disabled'')"

definition game_normal :: "normalized_game \<Rightarrow> bool" where
  "game_normal g \<longleftrightarrow>
     ng_game_id g \<noteq> 0 \<and> trim (ng_name g) = ng_name g \<and> ng_name g \<noteq> [] \<and>
     ng_platform g \<in> {''pc'', ''android'', ''ios'', ''multi''} \<and>
     (ng_status g = ''enabled'' \<or> ng_status g = ''disabled'') \<and> length (ng_categories g) \<le> 17 \<and>
     distinct (map to_ascii_lowercase (ng_categories g)) \<and> [] \<notin> set (ng_categories g)"

lemma normalize_route_rule_request_normal:
  "normalize_route_rule_request q = Inr r \<Longrightarrow> rule_normal r"
  by (auto simp: normalize_route_rule_request_def rule_normal_def
      dest: validate_route_rule_status_Inr target_text.accepted_again split: if_splits)

lemma normalize_business_route_rule_Inr:
  assumes "normalize_business_route_rule cx q source pg pn pr prn = Inr r"
  shows "ru_game_id r \<noteq> 0 \<and> sr_node_id q \<noteq> 0 \<and> sr_region_id q \<noteq> Some 0 \<and>
    ru_node_id r = sr_node_id q \<and> ru_region_id r = or_option (sr_region_id q) pr \<and>
    ru_protocol r = ''udp'' \<and> validate_target_addr (sr_target_addr q) = Inr (ru_target_addr r) \<and>
    (\<exists>s. validate_route_rule_status s = Inr (ru_status r)) \<and>
    ru_sync_source r = Some source \<and> ru_external_id r \<noteq> None"
proof -
  have "or_option x (Some y) \<noteq> None" for x :: "string option" and y by (cases x) auto
  with assms show ?thesis
    by (auto simp: normalize_business_route_rule_def Let_def split: if_splits)
qed

lemma normalize_business_route_rule_normal:
  assumes "normalize_business_route_rule cx q source pg pn pr prn = Inr r" "pr \<noteq> Some 0"
  shows "rule_normal r \<and> ru_sync_source r = Some source \<and> ru_external_id r \<noteq> None"
proof -
  have "or_option (sr_region_id q) pr \<noteq> Some 0" if "sr_region_id q \<noteq> Some 0"
    using that assms(2) by (cases "sr_region_id q") auto
  then show ?thesis
    using normalize_business_route_rule_Inr [OF assms(1)] target_text.accepted_again
      validate_route_rule_status_Inr unfolding rule_normal_def by metis
qed

lemma normalize_business_region_normal:
  "normalize_business_region q parent = Inr r \<Longrightarrow> region_normal r"
  by (auto simp: normalize_business_region_def region_normal_def normalize_required_text_Inr
      dest: validate_game_status_Inr split: if_splits)

lemma normalize_optional_text_Inr:
  "normalize_optional_text v n = Inr (Some w) \<Longrightarrow> w \<noteq> [] \<and> trim w = w \<and> char_count w \<le> n"
  by (auto simp: normalize_optional_text_def nonempty_text_def filter_option_def
      split: option.splits if_splits)

lemma categories_normal:
  assumes "normalize_business_game_categories p cs = Inr out"
  shows "length out \<le> 17 \<and> distinct (map to_ascii_lowercase out) \<and> [] \<notin> set out"
proof -
  from assms obtain vals where few: "\<not> is_some_and (\<lambda>items. 16 < length items) cs" and
    vs: "map_result (\<lambda>v. normalize_optional_text v 64) (p # map Some (unwrap_or [] cs)) = Inr vals" and
    out: "out = dedup_by to_ascii_lowercase [] (List.map_filter id vals)"
    by (auto simp: normalize_business_game_categories_def simp del: map_result.simps split: if_splits)
  have shorter: "length (dedup_by key seen xs) \<le> length xs" for key :: "string \<Rightarrow> string" and seen xs
    by (induction key seen xs rule: dedup_by.induct) auto
  have "length out \<le> length vals"
    using shorter [of to_ascii_lowercase "[]" "List.map_filter id vals"]
    by (simp add: out map_filter_def) (meson le_trans length_filter_le)
  also have "length vals \<le> 17"
    using map_result_length [OF vs] few by (cases cs) auto
  finally have len: "length out \<le> 17" .
  have "w \<noteq> []" if "w \<in> set out" for w
  proof -
    have "Some w \<in> set vals"
      using that set_dedup_by [of to_ascii_lowercase "[]" "List.map_filter id vals"]
      by (auto simp: out map_filter_def)
    then obtain x where "normalize_optional_text x 64 = Inr (Some w)"
      using map_result_each [OF vs] by blast
    then show ?thesis using normalize_optional_text_Inr by blast
  qed
  then show ?thesis using len dedup_by_keys [of to_ascii_lowercase "[]"] by (auto simp: out)
qed

lemma normalize_game_request_normal:
  assumes "normalize_game_request q = Inr g"
  shows "game_normal g"
  using assms categories_normal
  by (auto simp: normalize_game_request_def game_normal_def normalize_required_text_Inr
      validate_game_platform_def Let_def dest: validate_game_status_Inr split: if_splits)

lemma normalize_business_game_normal:
  assumes "normalize_business_game q = Inr g"
  shows "game_normal g"
proof -
  from assms obtain cs g' where "normalize_business_game_categories (sg_category q) (sg_categories q) = Inr cs"
    "game_normal g'" "g = g'\<lparr>ng_categories := cs\<rparr>"
    using normalize_game_request_normal by (auto simp: normalize_business_game_def)
  then show ?thesis using categories_normal by (auto simp: game_normal_def)
qed

text \<open>A synchronisation request in normal form.\<close>

definition catalog_normal :: "business_sync_catalog \<Rightarrow> bool" where
  "catalog_normal c \<longleftrightarrow>
     (\<forall>g \<in> set (sc_games c). game_normal g) \<and> (\<forall>r \<in> set (sc_regions c). region_normal r) \<and>
     (\<forall>r \<in> set (sc_route_rules c). rule_normal r \<and> ru_sync_source r = Some (sc_source c) \<and>
        ru_external_id r \<noteq> None)"

lemma normalize_region_with_rules_normal:
  assumes "normalize_region_with_rules cx source parent q = Inr (region, rules)"
  shows "region_normal region \<and>
    (\<forall>r \<in> set rules. rule_normal r \<and> ru_sync_source r = Some source \<and> ru_external_id r \<noteq> None)"
proof -
  from assms have region: "normalize_business_region q (map_option fst parent) = Inr region" and
    rules: "map_result (\<lambda>q. normalize_business_route_rule cx q source
         (Some (case parent of None \<Rightarrow> nr_game_id region | Some (g, _) \<Rightarrow> g)) (map_option snd parent)
         (Some (nr_region_id region)) (Some (nr_name region))) (sz_route_rules q) = Inr rules"
    by (auto simp: normalize_region_with_rules_def)
  have "region_normal region" by (rule normalize_business_region_normal [OF region])
  moreover from this have "Some (nr_region_id region) \<noteq> Some 0" by (simp add: region_normal_def)
  ultimately show ?thesis
    using map_result_each [OF rules] normalize_business_route_rule_normal by blast
qed

lemma normalize_game_with_nested_normal:
  assumes "normalize_game_with_nested cx source q = Inr (game, regions, rules)"
  shows "game_normal game \<and> (\<forall>r \<in> set regions. region_normal r) \<and>
    (\<forall>r \<in> set rules. rule_normal r \<and> ru_sync_source r = Some source \<and> ru_external_id r \<noteq> None)"
proof -
  from assms obtain rs own where game: "normalize_business_game q = Inr game" and
    rs: "map_result (normalize_region_with_rules cx source (Some (ng_game_id game, ng_name game)))
       (sg_regions q) = Inr rs" and
    own: "map_result (\<lambda>q. normalize_business_route_rule cx q source (Some (ng_game_id game))
         (Some (ng_name game)) None None) (sg_route_rules q) = Inr own" and
    out: "regions = map fst rs" "rules = concat (map snd rs) @ own"
    by (auto simp: normalize_game_with_nested_def)
  have nested: "region_normal (fst x) \<and> (\<forall>r \<in> set (snd x). rule_normal r \<and> ru_sync_source r = Some source \<and>
      ru_external_id r \<noteq> None)" if "x \<in> set rs" for x
    using map_result_each [OF rs that] normalize_region_with_rules_normal
    by (metis prod.collapse)
  have "rule_normal r \<and> ru_sync_source r = Some source \<and> ru_external_id r \<noteq> None" if "r \<in> set own" for r
    using map_result_each [OF own that] normalize_business_route_rule_normal by blast
  then show ?thesis
    using nested normalize_business_game_normal [OF game] by (auto simp: out)
qed

lemma normalize_business_sync_catalog_normal:
  assumes "normalize_business_sync_catalog cx q = Inr c"
  shows "catalog_normal c"
proof -
  from assms obtain source revision games regions rules where
    games: "map_result (normalize_game_with_nested cx source) (sq_games q) = Inr games" and
    regions: "map_result (normalize_region_with_rules cx source None) (sq_regions q) = Inr regions" and
    rules: "map_result (\<lambda>q. normalize_business_route_rule cx q source None None None None)
        (sq_route_rules q) = Inr rules" and
    c: "c = \<lparr>sc_source = source, sc_revision = revision, sc_games = map fst games,
           sc_regions = concat (map (fst \<circ> snd) games) @ map fst regions,
           sc_route_rules = concat (map (snd \<circ> snd) games) @ concat (map snd regions) @ rules\<rparr>"
    by (auto simp: normalize_business_sync_catalog_def Let_def split: if_splits)
  have "game_normal (fst x) \<and> (\<forall>r \<in> set (fst (snd x)). region_normal r) \<and>
    (\<forall>r \<in> set (snd (snd x)). rule_normal r \<and> ru_sync_source r = Some source \<and> ru_external_id r \<noteq> None)"
    if "x \<in> set games" for x
    using map_result_each [OF games that] normalize_game_with_nested_normal
    by (metis prod.collapse)
  moreover have "region_normal (fst x) \<and> (\<forall>r \<in> set (snd x). rule_normal r \<and>
      ru_sync_source r = Some source \<and> ru_external_id r \<noteq> None)" if "x \<in> set regions" for x
    using map_result_each [OF regions that] normalize_region_with_rules_normal
    by (metis prod.collapse)
  moreover have "rule_normal r \<and> ru_sync_source r = Some source \<and> ru_external_id r \<noteq> None" if "r \<in> set rules" for r
    using map_result_each [OF rules that] normalize_business_route_rule_normal by blast
  ultimately show ?thesis by (auto simp: c catalog_normal_def)
qed

end
