(* ===== verification/Api_Labels.thy ===== *)
theory Api_Labels
  imports Api_Auth
begin

text \<open>
  The texts that \<open>control-api/src/main.rs\<close> shows an administrator. They are Chinese: \<open>utf8\<close> gives the
  bytes of a text from its code points, which its Rust literal holds.
\<close>

section \<open>Texts by code points\<close>

definition utf8_char :: "nat \<Rightarrow> string" where
  "utf8_char n =
     (if n < 0x80 then [char_of n]
      else if n < 0x800 then [char_of (0xC0 + n div 64), char_of (0x80 + n mod 64)]
      else if n < 0x10000 then
        [char_of (0xE0 + n div 4096), char_of (0x80 + n div 64 mod 64), char_of (0x80 + n mod 64)]
      else
        [char_of (0xF0 + n div 262144), char_of (0x80 + n div 4096 mod 64),
         char_of (0x80 + n div 64 mod 64), char_of (0x80 + n mod 64)])"

definition utf8 :: "nat list \<Rightarrow> string" where
  "utf8 cs = concat (map utf8_char cs)"

text \<open>Code points of the basic plane below the surrogates, and the full-width forms.\<close>

definition plain_scalar :: "nat \<Rightarrow> bool" where
  "plain_scalar n \<longleftrightarrow> 0x800 \<le> n \<and> n < 0xD800 \<or> 0xE000 \<le> n \<and> n < 0x10000"

lemma utf8_char_valid:
  assumes "plain_scalar n"
  shows "utf8_valid (utf8_char n @ s) = utf8_valid s"
proof -
  have n: "0x800 \<le> n" "n < 0x10000" "\<not> (0xD800 \<le> n \<and> n < 0xE000)"
    using assms by (auto simp: plain_scalar_def)
  define a b c where "a = n div 4096" and "b = n div 64 mod 64" and "c = n mod 64"
  have bounds: "a < 16" "b < 64" "c < 64"
    using n by (simp_all add: a_def b_def c_def)
  have first: "32 \<le> b" if "a = 0" using that n(1) by (simp add: a_def b_def)
  have surrogate: "b < 32" if a13: "a = 13"
  proof -
    have high: "n div 64 div 64 = 13" using a13 by (simp add: a_def div_mult2_eq)
    have "n < 57344" using a13 by (simp add: a_def)
    with n(3) have "n div 64 < 864" by simp
    moreover have "n div 64 = 64 * 13 + b"
      using high mult_div_mod_eq [of 64 "n div 64"] by (simp add: b_def)
    ultimately show ?thesis by simp
  qed
  have codes: "code_of (char_of (0xE0 + a)) = 0xE0 + a" "code_of (char_of (0x80 + b)) = 0x80 + b"
      "code_of (char_of (0x80 + c)) = 0x80 + c"
    using bounds by (simp_all add: code_of_char_of)
  have "utf8_char n = [char_of (0xE0 + a), char_of (0x80 + b), char_of (0x80 + c)]"
    using n by (simp add: utf8_char_def a_def b_def c_def)
  then show ?thesis
    using bounds first surrogate codes
    by (auto simp: utf8_second_def is_cont_def)
qed

lemma utf8_texts_valid:
  assumes "list_all plain_scalar cs"
  shows "utf8_valid (utf8 cs @ s) = utf8_valid s"
  using assms by (induction cs) (simp_all add: utf8_def utf8_char_valid)

section \<open>Labels\<close>

definition node_status_value_text :: "string \<Rightarrow> string" where
  "node_status_value_text status =
     (if status = ''online'' then utf8 [0x5728, 0x7EBF]
      else if status = ''pending_install'' then utf8 [0x5F85, 0x5B89, 0x88C5]
      else if status = ''installing'' then utf8 [0x5B89, 0x88C5, 0x4E2D]
      else if status = ''disabled'' then utf8 [0x7981, 0x7528]
      else if status = ''draining'' then utf8 [0x6392, 0x7A7A]
      else if status = ''offline'' then utf8 [0x79BB, 0x7EBF]
      else if status = ''install_failed'' then utf8 [0x5B89, 0x88C5, 0x5931, 0x8D25]
      else if status = ''degraded'' then utf8 [0x964D, 0x7EA7]
      else utf8 [0x672A, 0x77E5, 0x72B6, 0x6001])"

definition report_status_value_text :: "string \<Rightarrow> string" where
  "report_status_value_text status =
     (if status = ''ready'' then utf8 [0x5C31, 0x7EEA]
      else if status = ''error'' then utf8 [0x5F02, 0x5E38]
      else if status = ''degraded'' then utf8 [0x964D, 0x7EA7]
      else utf8 [0x672A, 0x77E5])"

definition age_label :: "u64 \<Rightarrow> string" where
  "age_label age =
     (if age < 60 then show_u64 age @ ('' '' @ utf8 [0x79D2])
      else if age < 3600 then show_u64 (age div 60) @ ('' '' @ utf8 [0x5206, 0x949F])
      else show_u64 (age div 3600) @ ('' '' @ utf8 [0x5C0F, 0x65F6]))"

definition flag_label :: "string \<Rightarrow> bool option \<Rightarrow> string" where
  "flag_label name flag =
     name @ (case flag of
         Some True \<Rightarrow> ('' '' @ utf8 [0x6B63, 0x5E38])
       | Some False \<Rightarrow> ('' '' @ utf8 [0x5F02, 0x5E38])
       | None \<Rightarrow> ('' '' @ utf8 [0x672A, 0x4E0A, 0x62A5]))"

definition listener_flags_label :: "bool option \<Rightarrow> bool option \<Rightarrow> string" where
  "listener_flags_label udp tcp = flag_label ''UDP'' udp @ '' / '' @ flag_label ''TCP'' tcp"

definition operation_action_label :: "string \<Rightarrow> string" where
  "operation_action_label action =
     (if action = ''test_connection'' then (utf8 [0x6D4B, 0x8BD5] @ '' SSH '' @ utf8 [0x8FDE, 0x63A5])
      else if action = ''restart_node_service'' then utf8 [0x91CD, 0x542F, 0x8282, 0x70B9, 0x670D, 0x52A1]
      else if action = ''upgrade_node'' then utf8 [0x5347, 0x7EA7, 0x8282, 0x70B9, 0x5185, 0x6838]
      else if action = ''reboot_server'' then utf8 [0x91CD, 0x542F, 0x670D, 0x52A1, 0x5668]
      else if action = ''deploy_node'' then utf8 [0x4E00, 0x952E, 0x90E8, 0x7F72, 0x8282, 0x70B9]
      else utf8 [0x8FDC, 0x7A0B, 0x8FD0, 0x7EF4])"

definition version_label :: "string option \<Rightarrow> string" where
  "version_label version = unwrap_or ''--'' (filter_option (\<lambda>v. trim v \<noteq> []) version)"

definition control_token_name :: string where
  "control_token_name = utf8 [0x63A7, 0x5236, 0x9762, 0x4EE4, 0x724C]"

end
