(* ===== verification/Api_Catalog_Store.thy ===== *)
theory Api_Catalog_Store
  imports Api_Catalog Api_Labels
begin

text \<open>
  The catalogue's tables in \<open>control-api/src/main.rs\<close>: games, their categories, regions and route
  rules, with the unique keys and the foreign key of the schema, and every statement sequence
  that writes them. \<open>same\<close> compares texts as the collation of the tables does. A synchronisation
  and a deletion are one transaction each; an administrator's edit of a game is two, and the
  catalogue between them is an argument. Ids that an upsert of an existing row skips are not
  modelled.
\<close>

record game_row =
  gm_game_id :: u64
  gm_name :: string
  gm_platform :: string
  gm_category :: "string option"
  gm_icon_url :: "string option"
  gm_status :: string
  gm_remark :: "string option"

record game_category_row =
  gc_game_id :: u64
  gc_category :: string
  gc_sort_order :: u32

record route_rule_row =
  rl_id :: u64
  rl_rule :: normalized_route_rule

text \<open>A row of a region has the columns of its normal form.\<close>

record catalogue =
  cg_games :: "game_row list"
  cg_categories :: "game_category_row list"
  cg_regions :: "normalized_game_region list"
  cg_rules :: "route_rule_row list"
  cg_next_rule :: u64

type_synonym collation = "string \<Rightarrow> string \<Rightarrow> bool"

text \<open>A sequence of statements inside a transaction counts them.\<close>

type_synonym tx = "nat \<times> catalogue"

fun fold_result :: "('x \<Rightarrow> 's \<Rightarrow> ('e, 's) result) \<Rightarrow> 'x list \<Rightarrow> 's \<Rightarrow> ('e, 's) result" where
  "fold_result f [] s = Inr s"
| "fold_result f (x # xs) s = bind_result (f x s) (fold_result f xs)"

section \<open>Upserts\<close>

text \<open>\<open>INSERT ... ON DUPLICATE KEY UPDATE\<close>: \<open>dup\<close> finds the row with the key of the new one.\<close>

definition upsert_rows :: "('r \<Rightarrow> bool) \<Rightarrow> ('r \<Rightarrow> 'r) \<Rightarrow> 'r \<Rightarrow> 'r list \<Rightarrow> 'r list" where
  "upsert_rows dup f new rows = (if list_ex dup rows then update_rows dup f rows else rows @ [new])"

definition game_row_of :: "normalized_game \<Rightarrow> game_row" where
  "game_row_of g =
     \<lparr>gm_game_id = ng_game_id g, gm_name = ng_name g, gm_platform = ng_platform g,
      gm_category = ng_category g, gm_icon_url = ng_icon_url g, gm_status = ng_status g,
      gm_remark = ng_remark g\<rparr>"

definition insert_category :: "collation \<Rightarrow> mysql \<Rightarrow> u64 \<Rightarrow> nat \<times> string \<Rightarrow> tx \<Rightarrow> (app_error, tx) result" where
  "insert_category same my game_id x s =
     stmt my (fst s) (Suc (fst s), (snd s)\<lparr>cg_categories :=
       upsert_rows (\<lambda>c. gc_game_id c = game_id \<and> same (gc_category c) (snd x))
         (\<lambda>c. c\<lparr>gc_sort_order := of_nat (fst x)\<rparr>)
         \<lparr>gc_game_id = game_id, gc_category = snd x, gc_sort_order = of_nat (fst x)\<rparr>
         (cg_categories (snd s))\<rparr>)"

definition replace_business_game_categories ::
  "collation \<Rightarrow> mysql \<Rightarrow> normalized_game \<Rightarrow> tx \<Rightarrow> (app_error, tx) result"
where
  "replace_business_game_categories same my game s =
     bind_result (stmt my (fst s) (Suc (fst s), (snd s)\<lparr>cg_categories :=
       filter (\<lambda>c. gc_game_id c \<noteq> ng_game_id game) (cg_categories (snd s))\<rparr>))
     (fold_result (insert_category same my (ng_game_id game)) (enumerate 0 (ng_categories game)))"

definition upsert_business_game ::
  "collation \<Rightarrow> mysql \<Rightarrow> normalized_game \<Rightarrow> tx \<Rightarrow> (app_error, tx) result"
where
  "upsert_business_game same my game s =
     bind_result (stmt my (fst s) (Suc (fst s), (snd s)\<lparr>cg_games :=
       upsert_rows (\<lambda>g. gm_game_id g = ng_game_id game) (\<lambda>_. game_row_of game) (game_row_of game)
         (cg_games (snd s))\<rparr>))
     (replace_business_game_categories same my game)"

definition upsert_business_region ::
  "mysql \<Rightarrow> normalized_game_region \<Rightarrow> tx \<Rightarrow> (app_error, tx) result"
where
  "upsert_business_region my region s =
     stmt my (fst s) (Suc (fst s), (snd s)\<lparr>cg_regions :=
       upsert_rows (\<lambda>r. nr_game_id r = nr_game_id region \<and> nr_region_id r = nr_region_id region)
         (\<lambda>_. region) region (cg_regions (snd s))\<rparr>)"

text \<open>The unique key of rules, (\<open>sync_source\<close>, \<open>external_id\<close>), in which NULL equals nothing.\<close>

definition same_external :: "collation \<Rightarrow> normalized_route_rule \<Rightarrow> normalized_route_rule \<Rightarrow> bool" where
  "same_external same r q \<longleftrightarrow>
     (case (ru_sync_source r, ru_external_id r, ru_sync_source q, ru_external_id q) of
        (Some s, Some e, Some s', Some e') \<Rightarrow> same s s' \<and> same e e'
      | _ \<Rightarrow> False)"

definition route_rule_node :: "normalized_route_rule \<Rightarrow> database \<Rightarrow> (app_error, unit) result" where
  "route_rule_node rule db =
     ensure (find_node (ru_node_id rule) db \<noteq> None) (not_found ''node_not_found'' ''node does not exist'')"

definition upsert_business_route_rule ::
  "collation \<Rightarrow> mysql \<Rightarrow> database \<Rightarrow> normalized_route_rule \<Rightarrow> tx \<Rightarrow> (app_error, tx) result"
where
  "upsert_business_route_rule same my db rule s =
     bind_result (stmt my (fst s) ()) (\<lambda>_.
     bind_result (route_rule_node rule db) (\<lambda>_.
     let cat = snd s in
     if list_ex (\<lambda>r. same_external same (rl_rule r) rule) (cg_rules cat) then
       Inr (Suc (fst s), cat\<lparr>cg_rules := update_rows (\<lambda>r. same_external same (rl_rule r) rule)
         (\<lambda>r. r\<lparr>rl_rule := rule\<rparr>) (cg_rules cat)\<rparr>)
     else
       bind_result (auto_id (cg_next_rule cat)) (\<lambda>rule_id.
       Inr (Suc (fst s), cat\<lparr>cg_rules := cg_rules cat @ [\<lparr>rl_id = rule_id, rl_rule = rule\<rparr>],
         cg_next_rule := rule_id + 1\<rparr>))))"

definition sync_business_catalog ::
  "collation \<Rightarrow> mysql \<Rightarrow> database \<Rightarrow> business_sync_catalog \<Rightarrow> catalogue \<Rightarrow> (app_error, catalogue) result"
where
  "sync_business_catalog same my db c cat =
     bind_result (fold_result (upsert_business_game same my) (sc_games c) (0, cat)) (\<lambda>s1.
     bind_result (fold_result (upsert_business_region my) (sc_regions c) s1) (\<lambda>s2.
     bind_result (fold_result (upsert_business_route_rule same my db) (sc_route_rules c) s2) (\<lambda>s3.
     bind_result (stmt my (fst s3) ()) (\<lambda>_. Inr (snd s3)))))"

section \<open>Deletions\<close>

record deleted_counts =
  de_games :: nat
  de_regions :: nat
  de_rules :: nat

text \<open>A deletion counts the rows it affects.\<close>

definition delete_rules ::
  "mysql \<Rightarrow> (route_rule_row \<Rightarrow> bool) \<Rightarrow> deleted_counts \<times> tx \<Rightarrow> (app_error, deleted_counts \<times> tx) result"
where
  "delete_rules my p x =
     (let (n, i, cat) = x in
      stmt my i (n\<lparr>de_rules := de_rules n + length (filter p (cg_rules cat))\<rparr>, Suc i,
        cat\<lparr>cg_rules := filter (\<lambda>r. \<not> p r) (cg_rules cat)\<rparr>))"

definition delete_regions ::
  "mysql \<Rightarrow> (normalized_game_region \<Rightarrow> bool) \<Rightarrow> deleted_counts \<times> tx \<Rightarrow>
   (app_error, deleted_counts \<times> tx) result"
where
  "delete_regions my p x =
     (let (n, i, cat) = x in
      stmt my i (n\<lparr>de_regions := de_regions n + length (filter p (cg_regions cat))\<rparr>, Suc i,
        cat\<lparr>cg_regions := filter (\<lambda>r. \<not> p r) (cg_regions cat)\<rparr>))"

definition delete_games_of ::
  "mysql \<Rightarrow> u64 \<Rightarrow> deleted_counts \<times> tx \<Rightarrow> (app_error, deleted_counts \<times> tx) result"
where
  "delete_games_of my game_id x =
     (let (n, i, cat) = x in
      bind_result (stmt my i (cat\<lparr>cg_categories :=
        filter (\<lambda>c. gc_game_id c \<noteq> game_id) (cg_categories cat)\<rparr>)) (\<lambda>cat1.
      stmt my (Suc i) (n\<lparr>de_games := de_games n +
          length (filter (\<lambda>g. gm_game_id g = game_id) (cg_games cat1))\<rparr>, Suc (Suc i),
        cat1\<lparr>cg_games := filter (\<lambda>g. gm_game_id g \<noteq> game_id) (cg_games cat1)\<rparr>)))"

definition external_rule :: "collation \<Rightarrow> string option \<Rightarrow> string \<Rightarrow> route_rule_row \<Rightarrow> bool" where
  "external_rule same source external_id r \<longleftrightarrow>
     is_some_and (\<lambda>e. same e external_id) (ru_external_id (rl_rule r)) \<and>
     (case source of None \<Rightarrow> True | Some s \<Rightarrow> is_some_and (\<lambda>s'. same s' s) (ru_sync_source (rl_rule r)))"

definition region_rule :: "u64 \<times> u64 \<Rightarrow> route_rule_row \<Rightarrow> bool" where
  "region_rule x r \<longleftrightarrow> ru_game_id (rl_rule r) = fst x \<and> ru_region_id (rl_rule r) = Some (snd x)"

definition delete_business_catalog ::
  "collation \<Rightarrow> mysql \<Rightarrow> normalized_business_delete_catalog \<Rightarrow> catalogue \<Rightarrow>
   (app_error, deleted_counts \<times> catalogue) result"
where
  "delete_business_catalog same my q cat =
     bind_result (fold_result (\<lambda>rule_id. delete_rules my (\<lambda>r. rl_id r = rule_id)) (nc_route_rule_ids q)
       (\<lparr>de_games = 0, de_regions = 0, de_rules = 0\<rparr>, 0, cat)) (\<lambda>x1.
     bind_result (fold_result (\<lambda>e. delete_rules my (external_rule same (nc_source q) e))
       (nc_route_external_ids q) x1) (\<lambda>x2.
     bind_result (fold_result (\<lambda>g x. bind_result (delete_rules my (region_rule g) x)
         (delete_regions my (\<lambda>r. nr_game_id r = fst g \<and> nr_region_id r = snd g)))
       (nc_regions q) x2) (\<lambda>x3.
     bind_result (fold_result (\<lambda>game_id x.
         bind_result (delete_rules my (\<lambda>r. ru_game_id (rl_rule r) = game_id) x) (\<lambda>y.
         bind_result (delete_regions my (\<lambda>r. nr_game_id r = game_id) y)
           (delete_games_of my game_id)))
       (nc_game_ids q) x3) (\<lambda>x4.
     bind_result (stmt my (fst (snd x4)) ()) (\<lambda>_. Inr (fst x4, snd (snd x4)))))))"

section \<open>Edits of one row\<close>

definition insert_admin_game ::
  "collation \<Rightarrow> mysql \<Rightarrow> admin_game_request \<Rightarrow> catalogue \<Rightarrow> (app_error, u64 \<times> catalogue) result"
where
  "insert_admin_game same my request cat =
     bind_result (normalize_game_request request) (\<lambda>game.
     bind_result (stmt my 0 ()) (\<lambda>_.
     if list_ex (\<lambda>g. gm_game_id g = ng_game_id game) (cg_games cat) then
       Inl (conflict ''game_exists'' ''a game with the same game_id already exists'')
     else
       bind_result (replace_business_game_categories same my game
         (1, cat\<lparr>cg_games := cg_games cat @ [game_row_of game]\<rparr>)) (\<lambda>s.
       stmt my (fst s) (ng_game_id game, snd s))))"

text \<open>The row is committed before its categories are replaced, in the catalogue as it is \<open>later\<close>.\<close>

definition update_admin_game ::
  "collation \<Rightarrow> mysql \<Rightarrow> u64 \<Rightarrow> admin_game_request \<Rightarrow> (catalogue \<Rightarrow> catalogue) \<Rightarrow> catalogue \<Rightarrow>
   (app_error, unit) result \<times> catalogue"
where
  "update_admin_game same my game_id request later cat =
     (if game_id = 0 then (Inl (invalid_game ''game_id must be positive''), cat)
      else if ag_game_id request \<noteq> game_id then
        (Inl (invalid_game ''request game_id must match path game_id''), cat)
      else
        with_store cat (normalize_game_request request) (\<lambda>game.
        with_store cat (stmt my 0 (list_ex (\<lambda>g. gm_game_id g = game_id) (cg_games cat))) (\<lambda>found.
        if \<not> found then (Inl (not_found ''game_not_found'' ''game does not exist''), cat)
        else
          let cat1 = later (cat\<lparr>cg_games := update_rows (\<lambda>g. gm_game_id g = game_id)
                (\<lambda>g. (game_row_of game)\<lparr>gm_game_id := gm_game_id g\<rparr>) (cg_games cat)\<rparr>)
          in with_store cat1 (replace_business_game_categories same my game (1, cat1)) (\<lambda>s.
             with_store cat1 (stmt my (fst s) ()) (\<lambda>_. (Inr (), snd s))))))"

definition delete_admin_game ::
  "mysql \<Rightarrow> u64 \<Rightarrow> (catalogue \<Rightarrow> catalogue) \<Rightarrow> catalogue \<Rightarrow> (app_error, bool) result \<times> catalogue"
where
  "delete_admin_game my game_id later cat =
     with_store cat (stmt my 0 ()) (\<lambda>_.
     let cat1 = later (cat\<lparr>cg_categories :=
           filter (\<lambda>c. gc_game_id c \<noteq> game_id) (cg_categories cat)\<rparr>)
     in with_store cat1 (stmt my 1 ()) (\<lambda>_.
        (Inr (list_ex (\<lambda>g. gm_game_id g = game_id) (cg_games cat1)),
         cat1\<lparr>cg_games := filter (\<lambda>g. gm_game_id g \<noteq> game_id) (cg_games cat1)\<rparr>)))"

definition insert_admin_route_rule ::
  "mysql \<Rightarrow> admin_route_rule_request \<Rightarrow> database \<Rightarrow> database \<Rightarrow> catalogue \<Rightarrow>
   (app_error, u64 \<times> catalogue) result"
where
  "insert_admin_route_rule my request seen db cat =
     bind_result (normalize_route_rule_request request) (\<lambda>rule.
     bind_result (ensure_admin_node_exists my 0 seen (ru_node_id rule)) (\<lambda>_.
     bind_result (stmt my 1 ()) (\<lambda>_.
     bind_result (route_rule_node rule db) (\<lambda>_.
     bind_result (auto_id (cg_next_rule cat)) (\<lambda>rule_id.
     Inr (rule_id, cat\<lparr>cg_rules := cg_rules cat @ [\<lparr>rl_id = rule_id, rl_rule = rule\<rparr>],
       cg_next_rule := rule_id + 1\<rparr>))))))"

definition update_admin_route_rule ::
  "mysql \<Rightarrow> u64 \<Rightarrow> admin_route_rule_request \<Rightarrow> database \<Rightarrow> database \<Rightarrow> catalogue \<Rightarrow>
   (app_error, catalogue) result"
where
  "update_admin_route_rule my rule_id request seen db cat =
     (if rule_id = 0 then Inl (bad_request ''invalid_route_rule'' ''rule_id must be positive'')
      else
        bind_result (normalize_route_rule_request request) (\<lambda>rule.
        bind_result (ensure_admin_node_exists my 0 seen (ru_node_id rule)) (\<lambda>_.
        bind_result (stmt my 1 (list_ex (\<lambda>r. rl_id r = rule_id) (cg_rules cat))) (\<lambda>found.
        if \<not> found then Inl (not_found ''route_rule_not_found'' ''route rule does not exist'')
        else
          bind_result (route_rule_node rule db) (\<lambda>_.
          Inr (cat\<lparr>cg_rules := update_rows (\<lambda>r. rl_id r = rule_id)
            (\<lambda>r. r\<lparr>rl_rule := rule\<lparr>ru_sync_source := ru_sync_source (rl_rule r),
               ru_external_id := ru_external_id (rl_rule r)\<rparr>\<rparr>) (cg_rules cat)\<rparr>))))))"

definition delete_admin_route_rule ::
  "mysql \<Rightarrow> u64 \<Rightarrow> catalogue \<Rightarrow> (app_error, bool \<times> catalogue) result"
where
  "delete_admin_route_rule my rule_id cat =
     stmt my 0 (list_ex (\<lambda>r. rl_id r = rule_id) (cg_rules cat),
       cat\<lparr>cg_rules := filter (\<lambda>r. rl_id r \<noteq> rule_id) (cg_rules cat)\<rparr>)"

section \<open>Endpoints\<close>

text \<open>
  A game as the dashboard shows it: its row, with the text \<open>GROUP_CONCAT\<close> makes of its categories
  (up to the length MySQL limits it to), and the number of its rules. The join pairs every
  category with every rule of the game, so a game with several rules has its categories repeated.
\<close>

definition joined_categories :: "catalogue \<Rightarrow> u64 \<Rightarrow> string list" where
  "joined_categories cat game_id =
     (let rules = length (filter (\<lambda>r. ru_game_id (rl_rule r) = game_id) (cg_rules cat))
      in concat (map (\<lambda>c. replicate (max 1 rules) (gc_category c))
           (sort_key (\<lambda>c. unat (gc_sort_order c))
             (filter (\<lambda>c. gc_game_id c = game_id) (cg_categories cat)))))"

definition game_category_text :: "catalogue \<Rightarrow> game_row \<Rightarrow> string option" where
  "game_category_text cat g =
     (case joined_categories cat (gm_game_id g) of
        [] \<Rightarrow> gm_category g
      | c # cs \<Rightarrow> Some (concat (c # map (\<lambda>d. '' / '' @ d) cs)))"

definition select_admin_game ::
  "mysql \<Rightarrow> nat \<Rightarrow> catalogue \<Rightarrow> u64 \<Rightarrow> (app_error, (game_row \<times> nat) option) result"
where
  "select_admin_game my i cat game_id =
     stmt my i (map_option (\<lambda>g. (g\<lparr>gm_category := game_category_text cat g\<rparr>,
         length (filter (\<lambda>r. ru_game_id (rl_rule r) = game_id) (cg_rules cat))))
       (find (\<lambda>g. gm_game_id g = game_id) (cg_games cat)))"

definition shown_name :: "normalized_route_rule \<Rightarrow> normalized_route_rule" where
  "shown_name r = r\<lparr>ru_game_name :=
     if ru_game_name r = [] then utf8 [0x6E38, 0x620F] @ '' '' @ show_u64 (ru_game_id r) else ru_game_name r\<rparr>"

definition shown_rule :: "route_rule_row \<Rightarrow> route_rule_row" where
  "shown_rule r = r\<lparr>rl_rule := shown_name (rl_rule r)\<rparr>"

definition select_admin_route_rule ::
  "mysql \<Rightarrow> nat \<Rightarrow> database \<Rightarrow> catalogue \<Rightarrow> u64 \<Rightarrow> (app_error, (route_rule_row \<times> node_row) option) result"
where
  "select_admin_route_rule my i db cat rule_id =
     stmt my i (Option.bind (find (\<lambda>r. rl_id r = rule_id) (cg_rules cat)) (\<lambda>r.
       map_option (Pair (shown_rule r)) (find_node (ru_node_id (rl_rule r)) db)))"

text \<open>
  The handlers. \<open>admin\<close> is the answer of \<open>require_admin_write\<close>, of \<open>require_admin_super\<close> for a
  deletion. \<open>my'\<close> and \<open>later\<close> are MySQL and the catalogue when the answer is read.
\<close>

definition admin_create_game ::
  "collation \<Rightarrow> mysql \<Rightarrow> mysql \<Rightarrow> (app_error, admin_actor) result \<Rightarrow> admin_game_request \<Rightarrow>
   (catalogue \<Rightarrow> catalogue) \<Rightarrow> catalogue \<Rightarrow> (app_error, game_row \<times> nat) result \<times> catalogue"
where
  "admin_create_game same my my' admin request later cat =
     with_store cat admin (\<lambda>_.
     with_store cat (insert_admin_game same my request cat) (\<lambda>(game_id, cat1).
     (bind_result (select_admin_game my' 0 (later cat1) game_id)
        (ok_or (not_found ''game_not_found'' ''created game does not exist'')), later cat1)))"

definition admin_update_game ::
  "collation \<Rightarrow> mysql \<Rightarrow> mysql \<Rightarrow> (app_error, admin_actor) result \<Rightarrow> u64 \<Rightarrow> admin_game_request \<Rightarrow>
   (catalogue \<Rightarrow> catalogue) \<Rightarrow> catalogue \<Rightarrow> (app_error, game_row \<times> nat) result \<times> catalogue"
where
  "admin_update_game same my my' admin game_id request later cat =
     with_store cat admin (\<lambda>_.
     let (updated, cat1) = update_admin_game same my game_id request later cat in
     with_store cat1 updated (\<lambda>_.
     (bind_result (select_admin_game my' 0 (later cat1) game_id)
        (ok_or (not_found ''game_not_found'' ''updated game does not exist'')), later cat1)))"

definition admin_delete_game ::
  "mysql \<Rightarrow> (app_error, admin_actor) result \<Rightarrow> u64 \<Rightarrow> (catalogue \<Rightarrow> catalogue) \<Rightarrow> catalogue \<Rightarrow>
   (app_error, bool) result \<times> catalogue"
where
  "admin_delete_game my admin game_id later cat =
     with_store cat admin (\<lambda>_.
     if game_id = 0 then (Inl (invalid_game ''game_id must be positive''), cat)
     else delete_admin_game my game_id later cat)"

definition admin_create_route_rule ::
  "mysql \<Rightarrow> mysql \<Rightarrow> (app_error, admin_actor) result \<Rightarrow> admin_route_rule_request \<Rightarrow>
   database \<Rightarrow> database \<Rightarrow> (catalogue \<Rightarrow> catalogue) \<Rightarrow> catalogue \<Rightarrow>
   (app_error, route_rule_row \<times> node_row) result \<times> catalogue"
where
  "admin_create_route_rule my my' admin request seen db later cat =
     with_store cat admin (\<lambda>_.
     with_store cat (insert_admin_route_rule my request seen db cat) (\<lambda>(rule_id, cat1).
     (bind_result (select_admin_route_rule my' 0 db (later cat1) rule_id)
        (ok_or (not_found ''route_rule_not_found'' ''created rule does not exist'')), later cat1)))"

definition admin_update_route_rule ::
  "mysql \<Rightarrow> mysql \<Rightarrow> (app_error, admin_actor) result \<Rightarrow> u64 \<Rightarrow> admin_route_rule_request \<Rightarrow>
   database \<Rightarrow> database \<Rightarrow> (catalogue \<Rightarrow> catalogue) \<Rightarrow> catalogue \<Rightarrow>
   (app_error, route_rule_row \<times> node_row) result \<times> catalogue"
where
  "admin_update_route_rule my my' admin rule_id request seen db later cat =
     with_store cat admin (\<lambda>_.
     with_store cat (update_admin_route_rule my rule_id request seen db cat) (\<lambda>cat1.
     (bind_result (select_admin_route_rule my' 0 db (later cat1) rule_id)
        (ok_or (not_found ''route_rule_not_found'' ''updated rule does not exist'')), later cat1)))"

definition admin_delete_route_rule ::
  "mysql \<Rightarrow> (app_error, admin_actor) result \<Rightarrow> u64 \<Rightarrow> catalogue \<Rightarrow> (app_error, bool) result \<times> catalogue"
where
  "admin_delete_route_rule my admin rule_id cat =
     with_store cat admin (\<lambda>_.
     if rule_id = 0 then (Inl (bad_request ''invalid_route_rule'' ''rule_id must be positive''), cat)
     else with_store cat (delete_admin_route_rule my rule_id cat) (\<lambda>(deleted, cat'). (Inr deleted, cat')))"

text \<open>The business backend. The log rows written on the side, whose failures are ignored, are in \<open>Api_Business\<close>.\<close>

definition business_sync_catalog ::
  "crypto \<Rightarrow> collation \<Rightarrow> mysql \<Rightarrow> string option \<Rightarrow> headers \<Rightarrow> business_sync_catalog_request \<Rightarrow>
   database \<Rightarrow> catalogue \<Rightarrow> (app_error, business_sync_catalog) result \<times> catalogue"
where
  "business_sync_catalog cx same my sync_token hs request db cat =
     with_store cat (require_business_sync sync_token hs) (\<lambda>_.
     with_store cat (normalize_business_sync_catalog cx request) (\<lambda>c.
     with_store cat (sync_business_catalog same my db c cat) (\<lambda>cat'. (Inr c, cat'))))"

definition business_delete_catalog ::
  "collation \<Rightarrow> mysql \<Rightarrow> string option \<Rightarrow> headers \<Rightarrow> business_delete_catalog_request \<Rightarrow> catalogue \<Rightarrow>
   (app_error, deleted_counts) result \<times> catalogue"
where
  "business_delete_catalog same my sync_token hs request cat =
     with_store cat (require_business_sync sync_token hs) (\<lambda>_.
     with_store cat (normalize_business_delete_catalog request) (\<lambda>q.
     with_store cat (delete_business_catalog same my q cat) (\<lambda>(n, cat'). (Inr n, cat'))))"

section \<open>Tables written by upserts\<close>

text \<open>
  What a table with a unique key and an upsert need: \<open>dup x r\<close> says that the new value \<open>x\<close> has the key
  of the row \<open>r\<close>, \<open>over x r\<close> is the row overwritten.
\<close>

definition unique_rows :: "('x \<Rightarrow> 'r \<Rightarrow> bool) \<Rightarrow> 'r list \<Rightarrow> bool" where
  "unique_rows dup rows \<longleftrightarrow> sorted_wrt (\<lambda>r s. \<forall>x. \<not> (dup x r \<and> dup x s)) rows"

definition overwrite :: "('x \<Rightarrow> 'r \<Rightarrow> bool) \<Rightarrow> ('x \<Rightarrow> 'r \<Rightarrow> 'r) \<Rightarrow> 'x \<Rightarrow> 'r \<Rightarrow> 'r" where
  "overwrite dup over x r = (if dup x r then over x r else r)"

text \<open>Every value of the list is in the table, and writing them all again changes no row.\<close>

definition settled :: "('x \<Rightarrow> 'r \<Rightarrow> bool) \<Rightarrow> ('x \<Rightarrow> 'r \<Rightarrow> 'r) \<Rightarrow> 'x list \<Rightarrow> 'r list \<Rightarrow> bool" where
  "settled dup over xs rows \<longleftrightarrow>
     (\<forall>r \<in> set rows. fold (overwrite dup over) xs r = r) \<and> (\<forall>x \<in> set xs. \<exists>r \<in> set rows. dup x r)"

locale upsert_table =
  fixes dup :: "'x \<Rightarrow> 'r \<Rightarrow> bool" and over :: "'x \<Rightarrow> 'r \<Rightarrow> 'r"
  assumes key_kept: "dup y r \<Longrightarrow> dup x (over y r) \<longleftrightarrow> dup x r"
    and last_wins: "dup y r \<Longrightarrow> over x (over y r) = over x r"
    and same_key: "dup x r \<Longrightarrow> dup y r \<Longrightarrow> dup y s \<Longrightarrow> dup x s"
begin

lemma overwrite_key: "dup x (overwrite dup over y r) \<longleftrightarrow> dup x r"
  by (simp add: overwrite_def key_kept)

lemma fold_overwrite_key: "dup x (fold (overwrite dup over) ys r) \<longleftrightarrow> dup x r"
  by (induction ys arbitrary: r) (simp_all add: overwrite_key)

lemma over_fold: "dup x r \<Longrightarrow> over x (fold (overwrite dup over) ys r) = over x r"
  by (induction ys arbitrary: r) (simp_all add: overwrite_key, simp add: overwrite_def last_wins)

lemma update_is_map: "update_rows (dup x) (over x) rows = map (overwrite dup over x) rows"
  by (simp add: update_rows_def overwrite_def)

lemma unique_upsert:
  assumes "unique_rows dup rows" "dup x new"
  shows "unique_rows dup (upsert_rows (dup x) (over x) new rows)"
proof (cases "list_ex (dup x) rows")
  case True
  with assms(1) show ?thesis
    by (simp add: unique_rows_def upsert_rows_def update_is_map sorted_wrt_map overwrite_key)
next
  case False
  have "\<not> (dup y r \<and> dup y new)" if "r \<in> set rows" for r y
    using that False same_key [OF assms(2), of y r] unfolding list_ex_iff by blast
  with False assms(1) show ?thesis
    by (simp add: unique_rows_def upsert_rows_def sorted_wrt_append)
qed

lemma settled_upsert:
  assumes rows: "settled dup over xs rows" and new: "dup x new" "over x new = new"
  shows "settled dup over (xs @ [x]) (upsert_rows (dup x) (over x) new rows)"
proof -
  have fixed: "overwrite dup over x (fold (overwrite dup over) xs r) = r"
    if mem: "r \<in> set (upsert_rows (dup x) (over x) new rows)" for r
  proof (cases "dup x r")
    case True
    have "over x r = r"
    proof (cases "list_ex (dup x) rows")
      case present: True
      then obtain r0 where "r = overwrite dup over x r0"
        using mem by (auto simp: upsert_rows_def update_is_map)
      moreover from this have "dup x r0" using True by (simp add: overwrite_key)
      ultimately show ?thesis using last_wins by (simp add: overwrite_def)
    next
      case False
      with mem True new show ?thesis by (auto simp: upsert_rows_def list_ex_iff)
    qed
    with True show ?thesis by (simp add: overwrite_def fold_overwrite_key over_fold)
  next
    case False
    then have "r \<in> set rows"
      using mem new(1) overwrite_key
      by (fastforce simp: upsert_rows_def update_is_map overwrite_def split: if_splits)
    with rows False show ?thesis by (simp add: settled_def overwrite_def)
  qed
  have "\<exists>r \<in> set (upsert_rows (dup x) (over x) new rows). dup y r" if "y \<in> set (xs @ [x])" for y
  proof (cases "list_ex (dup x) rows")
    case True
    then have "\<exists>r \<in> set rows. dup y r" using that rows by (auto simp: settled_def list_ex_iff)
    with True show ?thesis by (auto simp: upsert_rows_def update_is_map overwrite_key)
  next
    case False
    then show ?thesis using that rows new(1) by (auto simp: settled_def upsert_rows_def)
  qed
  with fixed show ?thesis by (simp add: settled_def)
qed

lemma fold_single:
  assumes "dup y r" "\<And>x. x \<in> set xs \<Longrightarrow> dup x r \<Longrightarrow> x = y"
  shows "fold (overwrite dup over) xs r = (if y \<in> set xs then over y r else r)"
  using assms
proof (induction xs arbitrary: r)
  case (Cons x xs)
  show ?case
  proof (cases "dup x r")
    case True
    then have x: "x = y" using Cons.prems(2) by simp
    have "fold (overwrite dup over) xs (over y r) = (if y \<in> set xs then over y (over y r) else over y r)"
    proof (rule Cons.IH)
      show "dup y (over y r)" unfolding key_kept [OF Cons.prems(1)] by (rule Cons.prems(1))
      show "z = y" if "z \<in> set xs" "dup z (over y r)" for z
        using that Cons.prems(2) unfolding key_kept [OF Cons.prems(1)] by simp
    qed
    moreover have "overwrite dup over x r = over y r" by (simp add: x overwrite_def Cons.prems(1))
    ultimately show ?thesis by (simp add: x last_wins [OF Cons.prems(1)])
  next
    case False
    then have "x \<noteq> y" using Cons.prems(1) by blast
    moreover have "fold (overwrite dup over) xs r = (if y \<in> set xs then over y r else r)"
      by (rule Cons.IH [OF Cons.prems(1)]) (rule Cons.prems(2), simp_all)
    moreover have "overwrite dup over x r = r" using False by (simp add: overwrite_def)
    ultimately show ?thesis using \<open>x \<noteq> y\<close> by simp
  qed
qed simp

lemma settled_row:
  assumes "settled dup over ys rows" "y \<in> set ys" "r \<in> set rows" "dup y r"
    and "\<And>x. x \<in> set ys \<Longrightarrow> dup x r \<Longrightarrow> x = y"
  shows "over y r = r"
proof -
  have "fold (overwrite dup over) ys r = over y r"
    using fold_single [OF assms(4), of ys] assms(2,5) by simp
  with assms(1,3) show ?thesis by (simp add: settled_def)
qed

lemma settled_again:
  assumes "settled dup over (xs @ x # ys) before"
    and "rows = map (fold (overwrite dup over) xs) before"
  shows "list_ex (dup x) rows \<and>
    update_rows (dup x) (over x) rows = map (fold (overwrite dup over) (xs @ [x])) before"
  using assms by (auto simp: settled_def list_ex_iff fold_overwrite_key update_is_map)

end

end
