(* ===== verification/Api_Catalog_Log.thy ===== *)
theory Api_Catalog_Log
  imports Api_Catalog_Store
begin

text \<open>
  What every request that writes the catalogue's tables keeps of them, and what a synchronisation and
  a deletion do to the tables as a whole. The runs of these requests are in \<open>Api_Catalog_Run\<close>.
\<close>

section \<open>The four tables\<close>

lemma fold_result_invariant:
  assumes "fold_result f xs s = Inr s'" "P s"
    and "\<And>x s s'. x \<in> set xs \<Longrightarrow> f x s = Inr s' \<Longrightarrow> P s \<Longrightarrow> P s'"
  shows "P s'"
  using assms by (induction xs arbitrary: s) auto

lemma fold_result_append:
  "fold_result f (xs @ ys) s = bind_result (fold_result f xs s) (fold_result f ys)"
proof (induction xs arbitrary: s)
  case (Cons x xs)
  then show ?case by (cases "f x s") simp_all
qed simp

definition game_dup :: "normalized_game \<Rightarrow> game_row \<Rightarrow> bool" where
  "game_dup x r \<longleftrightarrow> gm_game_id r = ng_game_id x"

definition region_dup :: "normalized_game_region \<Rightarrow> normalized_game_region \<Rightarrow> bool" where
  "region_dup x r \<longleftrightarrow> nr_game_id r = nr_game_id x \<and> nr_region_id r = nr_region_id x"

definition rule_dup :: "collation \<Rightarrow> normalized_route_rule \<Rightarrow> route_rule_row \<Rightarrow> bool" where
  "rule_dup same x r \<longleftrightarrow> same_external same (rl_rule r) x"

definition rule_over :: "normalized_route_rule \<Rightarrow> route_rule_row \<Rightarrow> route_rule_row" where
  "rule_over x r = r\<lparr>rl_rule := x\<rparr>"

definition category_dup :: "collation \<Rightarrow> u64 \<times> nat \<times> string \<Rightarrow> game_category_row \<Rightarrow> bool" where
  "category_dup same x r \<longleftrightarrow> gc_game_id r = fst x \<and> same (gc_category r) (snd (snd x))"

definition category_over :: "u64 \<times> nat \<times> string \<Rightarrow> game_category_row \<Rightarrow> game_category_row" where
  "category_over x r = r\<lparr>gc_sort_order := of_nat (fst (snd x))\<rparr>"

interpretation games: upsert_table game_dup "\<lambda>x _. game_row_of x"
  by unfold_locales (auto simp: game_dup_def game_row_of_def)

interpretation regions: upsert_table region_dup "\<lambda>x _. x"
  by unfold_locales (auto simp: region_dup_def)

lemma dup_self [simp]: "game_dup g (game_row_of g)" "region_dup r r"
  by (simp_all add: game_dup_def game_row_of_def region_dup_def)

lemma same_external_iff: "same_external same r q \<longleftrightarrow>
    (\<exists>a b c d. ru_sync_source r = Some a \<and> ru_external_id r = Some b \<and> ru_sync_source q = Some c \<and>
       ru_external_id q = Some d \<and> same a c \<and> same b d)"
  by (auto simp: same_external_def split: option.splits)

lemma collation_laws:
  assumes "equivp same"
  shows "same a a" and "same a b \<Longrightarrow> same b a" and "same a b \<Longrightarrow> same b c \<Longrightarrow> same a c"
  by (fact equivp_reflp [OF assms], erule equivp_symp [OF assms], erule (1) equivp_transp [OF assms])

lemma same_external_per:
  assumes "equivp same"
  shows "same_external same r q \<Longrightarrow> same_external same q r"
    and "same_external same r q \<Longrightarrow> same_external same q t \<Longrightarrow> same_external same r t"
    and "same_external same r q \<Longrightarrow> same_external same r r"
proof -
  show "same_external same r q \<Longrightarrow> same_external same q r"
    unfolding same_external_iff using collation_laws(2) [OF assms] by blast
  show "same_external same r t" if rq: "same_external same r q" and qt: "same_external same q t"
  proof -
    obtain a b c d where "ru_sync_source r = Some a" "ru_external_id r = Some b"
      "ru_sync_source q = Some c" "ru_external_id q = Some d" "same a c" "same b d"
      using rq unfolding same_external_iff by blast
    moreover from this qt obtain e f where "ru_sync_source t = Some e" "ru_external_id t = Some f"
      "same c e" "same d f"
      unfolding same_external_iff by auto
    ultimately show ?thesis
      using collation_laws(3) [OF assms, of a c e] collation_laws(3) [OF assms, of b d f]
      by (simp add: same_external_iff)
  qed
  show "same_external same r q \<Longrightarrow> same_external same r r"
    unfolding same_external_iff using collation_laws(1) [OF assms] by blast
qed

lemma same_external_shift:
  assumes "equivp same" "same_external same r y"
  shows "same_external same r x \<longleftrightarrow> same_external same y x"
  using same_external_per(2) [OF assms(1)] same_external_per(1) [OF assms] assms(2) by metis

lemma rule_table:
  assumes "equivp same"
  shows "upsert_table (rule_dup same) rule_over"
proof
  fix x y r s
  show "rule_dup same y r \<Longrightarrow> rule_dup same x (rule_over y r) = rule_dup same x r"
    unfolding rule_dup_def rule_over_def using same_external_shift [OF assms, of "rl_rule r" y x] by simp
  show "rule_over x (rule_over y r) = rule_over x r" by (simp add: rule_over_def)
  show "rule_dup same x r \<Longrightarrow> rule_dup same y r \<Longrightarrow> rule_dup same y s \<Longrightarrow> rule_dup same x s"
    unfolding rule_dup_def using same_external_shift [OF assms] same_external_per(2) [OF assms] by metis
qed

lemma category_table:
  assumes "equivp same"
  shows "upsert_table (category_dup same) category_over"
proof
  fix x y r s
  show "category_dup same x (category_over y r) = category_dup same x r"
    by (simp add: category_dup_def category_over_def)
  show "category_over x (category_over y r) = category_over x r" by (simp add: category_over_def)
  show "category_dup same x r \<Longrightarrow> category_dup same y r \<Longrightarrow> category_dup same y s \<Longrightarrow> category_dup same x s"
    unfolding category_dup_def using collation_laws [OF assms] by metis
qed

section \<open>Well-formed catalogues\<close>

definition distinct_rows :: "('r \<Rightarrow> 'r \<Rightarrow> bool) \<Rightarrow> 'r list \<Rightarrow> bool" where
  "distinct_rows clash rows \<longleftrightarrow> sorted_wrt (\<lambda>r s. \<not> clash r s) rows"

definition category_clash :: "collation \<Rightarrow> game_category_row \<Rightarrow> game_category_row \<Rightarrow> bool" where
  "category_clash same c d \<longleftrightarrow> gc_game_id c = gc_game_id d \<and> same (gc_category c) (gc_category d)"

definition catalogue_ok :: "collation \<Rightarrow> catalogue \<Rightarrow> bool" where
  "catalogue_ok same cat \<longleftrightarrow>
     distinct (map gm_game_id (cg_games cat)) \<and>
     distinct (map (\<lambda>r. (nr_game_id r, nr_region_id r)) (cg_regions cat)) \<and>
     distinct_rows (category_clash same) (cg_categories cat) \<and>
     distinct_rows (\<lambda>r s. same_external same (rl_rule r) (rl_rule s)) (cg_rules cat) \<and>
     rows_ok rl_id (cg_rules cat) (cg_next_rule cat) \<and>
     (\<forall>g \<in> set (cg_games cat). gm_game_id g \<noteq> 0 \<and> (gm_status g = ''enabled'' \<or> gm_status g = ''disabled'')) \<and>
     (\<forall>r \<in> set (cg_regions cat). region_normal r) \<and>
     (\<forall>r \<in> set (cg_rules cat). rule_normal (rl_rule r))"

lemma distinct_sorted: "distinct xs \<longleftrightarrow> sorted_wrt (\<noteq>) xs"
  by (induction xs) auto

lemma unique_games: "unique_rows game_dup rows \<longleftrightarrow> distinct (map gm_game_id rows)"
proof -
  have "(\<forall>x. \<not> (game_dup x r \<and> game_dup x s)) \<longleftrightarrow> gm_game_id r \<noteq> gm_game_id s" for r s
    by (auto simp: game_dup_def dest: spec [where x = "undefined\<lparr>ng_game_id := gm_game_id r\<rparr>"])
  then show ?thesis by (simp add: unique_rows_def distinct_sorted sorted_wrt_map)
qed

lemma unique_regions:
  "unique_rows region_dup rows \<longleftrightarrow> distinct (map (\<lambda>r. (nr_game_id r, nr_region_id r)) rows)"
proof -
  have "(\<forall>x. \<not> (region_dup x r \<and> region_dup x s)) \<longleftrightarrow>
      (nr_game_id r, nr_region_id r) \<noteq> (nr_game_id s, nr_region_id s)" for r s
    by (auto simp: region_dup_def dest: spec [where x = r])
  then show ?thesis by (simp add: unique_rows_def distinct_sorted sorted_wrt_map)
qed

lemma unique_rules:
  assumes "equivp same"
  shows "unique_rows (rule_dup same) rows \<longleftrightarrow>
    distinct_rows (\<lambda>r s. same_external same (rl_rule r) (rl_rule s)) rows"
proof -
  have "(\<forall>x. \<not> (rule_dup same x r \<and> rule_dup same x s)) \<longleftrightarrow>
      \<not> same_external same (rl_rule r) (rl_rule s)" for r s
    unfolding rule_dup_def using same_external_per [OF assms] by metis
  then show ?thesis by (simp add: unique_rows_def distinct_rows_def)
qed

lemma unique_categories:
  assumes "equivp same"
  shows "unique_rows (category_dup same) rows \<longleftrightarrow> distinct_rows (category_clash same) rows"
proof -
  have "\<not> category_clash same r s" if free: "\<forall>x. \<not> (category_dup same x r \<and> category_dup same x s)" for r s
    using free [rule_format, of "(gc_game_id s, 0, gc_category s)"] collation_laws(1) [OF assms]
    by (auto simp: category_dup_def category_clash_def)
  moreover have "category_clash same r s" if "category_dup same x r" "category_dup same x s" for x r s
    using that collation_laws(2,3) [OF assms] unfolding category_dup_def category_clash_def by metis
  ultimately have "(\<forall>x. \<not> (category_dup same x r \<and> category_dup same x s)) \<longleftrightarrow> \<not> category_clash same r s"
    for r s by blast
  then show ?thesis by (simp add: unique_rows_def distinct_rows_def)
qed

lemma distinct_rows_filter: "distinct_rows clash rows \<Longrightarrow> distinct_rows clash (filter p rows)"
  by (simp add: distinct_rows_def sorted_wrt_filter)

lemma distinct_map_filter': "distinct (map f xs) \<Longrightarrow> distinct (map f (filter p xs))"
  by (induction xs) auto

section \<open>Every operation keeps the tables well-formed\<close>

lemma catalogue_ok_rows:
  assumes "equivp same"
  shows "catalogue_ok same cat \<longleftrightarrow>
     unique_rows game_dup (cg_games cat) \<and> unique_rows region_dup (cg_regions cat) \<and>
     unique_rows (category_dup same) (cg_categories cat) \<and> unique_rows (rule_dup same) (cg_rules cat) \<and>
     rows_ok rl_id (cg_rules cat) (cg_next_rule cat) \<and>
     (\<forall>g \<in> set (cg_games cat). gm_game_id g \<noteq> 0 \<and> (gm_status g = ''enabled'' \<or> gm_status g = ''disabled'')) \<and>
     (\<forall>r \<in> set (cg_regions cat). region_normal r) \<and>
     (\<forall>r \<in> set (cg_rules cat). rule_normal (rl_rule r))"
  by (auto simp: catalogue_ok_def unique_games unique_regions unique_rules [OF assms]
      unique_categories [OF assms])

lemma unique_rows_filter: "unique_rows dup rows \<Longrightarrow> unique_rows dup (filter p rows)"
  by (simp add: unique_rows_def sorted_wrt_filter)

lemma set_upsert_rows: "r \<in> set (upsert_rows d f new rows) \<Longrightarrow> r = new \<or> (\<exists>s \<in> set rows. r = s \<or> r = f s)"
  by (auto simp: upsert_rows_def set_update_rows split: if_splits)

lemma game_row_of_normal:
  "game_normal g \<Longrightarrow> gm_game_id (game_row_of g) \<noteq> 0 \<and>
     (gm_status (game_row_of g) = ''enabled'' \<or> gm_status (game_row_of g) = ''disabled'')"
  by (auto simp: game_normal_def game_row_of_def)

lemma insert_category_ok:
  assumes same: "equivp same" and "insert_category same my game_id x s = Inr s'" "catalogue_ok same (snd s)"
  shows "catalogue_ok same (snd s')"
proof -
  have "upsert_rows (\<lambda>c. gc_game_id c = game_id \<and> same (gc_category c) (snd x))
      (\<lambda>c. c\<lparr>gc_sort_order := of_nat (fst x)\<rparr>) new rows =
    upsert_rows (category_dup same (game_id, x)) (category_over (game_id, x)) new rows" for new rows
    by (simp add: category_dup_def [abs_def] category_over_def [abs_def])
  moreover have "category_dup same (game_id, x)
      \<lparr>gc_game_id = game_id, gc_category = snd x, gc_sort_order = of_nat (fst x)\<rparr>"
    by (simp add: category_dup_def collation_laws(1) [OF same])
  ultimately show ?thesis
    using assms(2,3) upsert_table.unique_upsert [OF category_table [OF same]]
    by (auto simp: insert_category_def catalogue_ok_rows [OF same])
qed

lemma replace_categories_ok:
  assumes same: "equivp same" and "replace_business_game_categories same my game s = Inr s'" "catalogue_ok same (snd s)"
  shows "catalogue_ok same (snd s')"
proof -
  from assms(2) obtain s1 where s1: "s1 = (Suc (fst s), (snd s)\<lparr>cg_categories :=
       filter (\<lambda>c. gc_game_id c \<noteq> ng_game_id game) (cg_categories (snd s))\<rparr>)"
    and run: "fold_result (insert_category same my (ng_game_id game))
       (enumerate 0 (ng_categories game)) s1 = Inr s'"
    by (auto simp: replace_business_game_categories_def)
  have "catalogue_ok same (snd s1)"
    using assms(3) by (simp add: s1 catalogue_ok_rows [OF same] unique_rows_filter)
  then show ?thesis
    using fold_result_invariant [OF run, where P = "\<lambda>s. catalogue_ok same (snd s)"] insert_category_ok [OF same]
    by blast
qed

lemma upsert_game_ok:
  assumes same: "equivp same" and "upsert_business_game same my game s = Inr s'" "catalogue_ok same (snd s)" "game_normal game"
  shows "catalogue_ok same (snd s')"
proof -
  let ?up = "upsert_rows (game_dup game) (\<lambda>_. game_row_of game) (game_row_of game) (cg_games (snd s))"
  have "replace_business_game_categories same my game (Suc (fst s), (snd s)\<lparr>cg_games := ?up\<rparr>) = Inr s'"
    using assms(2) by (auto simp: upsert_business_game_def game_dup_def [abs_def])
  moreover have "unique_rows game_dup ?up"
    using assms(3) by (intro games.unique_upsert) (auto simp: catalogue_ok_rows [OF same] game_dup_def game_row_of_def)
  then have "catalogue_ok same ((snd s)\<lparr>cg_games := ?up\<rparr>)"
    using assms(3) game_row_of_normal [OF assms(4)]
    by (auto simp: catalogue_ok_rows [OF same] dest!: set_upsert_rows)
  ultimately show ?thesis using replace_categories_ok [OF same] by fastforce
qed

lemma upsert_region_ok:
  assumes same: "equivp same" and "upsert_business_region my region s = Inr s'" "catalogue_ok same (snd s)" "region_normal region"
  shows "catalogue_ok same (snd s')"
proof -
  let ?up = "upsert_rows (region_dup region) (\<lambda>_. region) region (cg_regions (snd s))"
  have s': "s' = (Suc (fst s), (snd s)\<lparr>cg_regions := ?up\<rparr>)"
    using assms(2) by (auto simp: upsert_business_region_def region_dup_def [abs_def])
  have "unique_rows region_dup ?up"
    using assms(3) by (intro regions.unique_upsert) (auto simp: catalogue_ok_rows [OF same] region_dup_def)
  then show ?thesis
    using assms(3,4) by (auto simp: s' catalogue_ok_rows [OF same] dest!: set_upsert_rows)
qed

lemma upsert_rule_cases:
  assumes "upsert_business_route_rule same my db rule s = Inr s'"
  obtains new where "cg_rules (snd s') = upsert_rows (rule_dup same rule) (rule_over rule) new (cg_rules (snd s))"
    "rl_rule new = rule" "rl_id new = cg_next_rule (snd s)" "fst s' = Suc (fst s)"
    "snd s' = (snd s)\<lparr>cg_rules := cg_rules (snd s'), cg_next_rule := cg_next_rule (snd s')\<rparr>"
    "if list_ex (rule_dup same rule) (cg_rules (snd s)) then cg_next_rule (snd s') = cg_next_rule (snd s)
     else cg_next_rule (snd s') = cg_next_rule (snd s) + 1 \<and> unat (cg_next_rule (snd s)) + 1 < 2 ^ 64"
    "find_node (ru_node_id rule) db \<noteq> None"
  using assms
  by (intro that [of "\<lparr>rl_id = cg_next_rule (snd s), rl_rule = rule\<rparr>"])
    (auto simp: upsert_business_route_rule_def upsert_rows_def route_rule_node_def Let_def
      rule_dup_def [abs_def] rule_over_def [abs_def] split: if_splits)

lemma upsert_rule_ok:
  assumes same: "equivp same" and "upsert_business_route_rule same my db rule s = Inr s'" "catalogue_ok same (snd s)"
    and "rule_normal rule" "ru_sync_source rule \<noteq> None" "ru_external_id rule \<noteq> None"
  shows "catalogue_ok same (snd s')"
proof -
  obtain new where rules: "cg_rules (snd s') = upsert_rows (rule_dup same rule) (rule_over rule) new (cg_rules (snd s))"
    and new: "rl_rule new = rule" "rl_id new = cg_next_rule (snd s)"
    and rest: "snd s' = (snd s)\<lparr>cg_rules := cg_rules (snd s'), cg_next_rule := cg_next_rule (snd s')\<rparr>"
    and next_id: "if list_ex (rule_dup same rule) (cg_rules (snd s)) then cg_next_rule (snd s') = cg_next_rule (snd s)
     else cg_next_rule (snd s') = cg_next_rule (snd s) + 1 \<and> unat (cg_next_rule (snd s)) + 1 < 2 ^ 64"
    using assms(2) by (rule upsert_rule_cases)
  have ok: "unique_rows (rule_dup same) (cg_rules (snd s))" "rows_ok rl_id (cg_rules (snd s)) (cg_next_rule (snd s))"
    using assms(3) by (auto simp: catalogue_ok_rows [OF same])
  have "rule_dup same rule new"
    using assms(5,6) new collation_laws(1) [OF same] by (auto simp: rule_dup_def same_external_iff)
  then have "unique_rows (rule_dup same) (cg_rules (snd s'))"
    unfolding rules by (intro upsert_table.unique_upsert [OF rule_table [OF same]] ok)
  moreover have "rows_ok rl_id (cg_rules (snd s')) (cg_next_rule (snd s'))"
    using ok(2) next_id new
    by (auto simp: rules upsert_rows_def rule_over_def intro: rows_ok_update rows_ok_append split: if_splits)
  moreover have "\<forall>r \<in> set (cg_rules (snd s')). rule_normal (rl_rule r)"
    using assms(3,4) new
    by (auto simp: rules catalogue_ok_def rule_over_def dest!: set_upsert_rows)
  moreover have "cg_games (snd s') = cg_games (snd s)" "cg_regions (snd s') = cg_regions (snd s)"
    "cg_categories (snd s') = cg_categories (snd s)"
    by (subst rest, simp)+
  ultimately show ?thesis using assms(3) by (simp add: catalogue_ok_rows [OF same])
qed

section \<open>Deletions\<close>

text \<open>The rows \<open>P\<close>, \<open>Q\<close> and \<open>G\<close> select are gone and counted, and nothing else has changed.\<close>

definition removed ::
  "(route_rule_row \<Rightarrow> bool) \<Rightarrow> (normalized_game_region \<Rightarrow> bool) \<Rightarrow> (u64 \<Rightarrow> bool) \<Rightarrow>
   deleted_counts \<times> tx \<Rightarrow> deleted_counts \<times> tx \<Rightarrow> bool"
where
  "removed P Q G x y \<longleftrightarrow>
     fst y = \<lparr>de_games = de_games (fst x) + length (filter (\<lambda>g. G (gm_game_id g)) (cg_games (snd (snd x)))),
       de_regions = de_regions (fst x) + length (filter Q (cg_regions (snd (snd x)))),
       de_rules = de_rules (fst x) + length (filter P (cg_rules (snd (snd x))))\<rparr> \<and>
     snd (snd y) = (snd (snd x))\<lparr>
       cg_games := filter (\<lambda>g. \<not> G (gm_game_id g)) (cg_games (snd (snd x))),
       cg_categories := filter (\<lambda>c. \<not> G (gc_game_id c)) (cg_categories (snd (snd x))),
       cg_regions := filter (\<lambda>r. \<not> Q r) (cg_regions (snd (snd x))),
       cg_rules := filter (\<lambda>r. \<not> P r) (cg_rules (snd (snd x)))\<rparr>"

lemma length_filter_or:
  "length (filter p xs) + length (filter q (filter (\<lambda>x. \<not> p x) xs)) = length (filter (\<lambda>x. p x \<or> q x) xs)"
  by (induction xs) auto

lemma filter_not_or: "filter (\<lambda>x. \<not> q x) (filter (\<lambda>x. \<not> p x) xs) = filter (\<lambda>x. \<not> (p x \<or> q x)) xs"
  by (simp add: conj_commute)

lemma removed_trans:
  assumes "removed P Q G x y" "removed P' Q' G' y z"
  shows "removed (\<lambda>r. P r \<or> P' r) (\<lambda>r. Q r \<or> Q' r) (\<lambda>g. G g \<or> G' g) x z"
  using assms unfolding removed_def
  by (simp only: catalogue.simps deleted_counts.simps filter_not_or length_filter_or [symmetric] add.assoc)
    simp

lemma removed_cong:
  assumes "removed P Q G x y" "\<And>r. P r = P' r" "\<And>r. Q r = Q' r" "\<And>g. G g = G' g"
  shows "removed P' Q' G' x y"
proof -
  have "P' = P" "Q' = Q" "G' = G" using assms(2-4) by auto
  with assms(1) show ?thesis by simp
qed

lemma removed_refl: "removed (\<lambda>_. False) (\<lambda>_. False) (\<lambda>_. False) x x"
  by (simp add: removed_def)

lemma delete_rules_removed: "delete_rules my p x = Inr y \<Longrightarrow> removed p (\<lambda>_. False) (\<lambda>_. False) x y"
  by (auto simp: delete_rules_def removed_def split: prod.splits)

lemma delete_regions_removed: "delete_regions my p x = Inr y \<Longrightarrow> removed (\<lambda>_. False) p (\<lambda>_. False) x y"
  by (auto simp: delete_regions_def removed_def split: prod.splits)

lemma delete_games_removed:
  "delete_games_of my g x = Inr y \<Longrightarrow> removed (\<lambda>_. False) (\<lambda>_. False) (\<lambda>h. h = g) x y"
  by (auto simp: delete_games_of_def removed_def split: prod.splits)

lemma region_step_removed:
  assumes "bind_result (delete_rules my P x) (delete_regions my Q) = Inr y"
  shows "removed P Q (\<lambda>_. False) x y"
proof -
  obtain z where "delete_rules my P x = Inr z" "delete_regions my Q z = Inr y"
    using assms unfolding bind_result_Inr_iff by blast
  from removed_trans [OF delete_rules_removed [OF this(1)] delete_regions_removed [OF this(2)]]
  show ?thesis by simp
qed

lemma game_step_removed:
  assumes "bind_result (delete_rules my P x) (\<lambda>y. bind_result (delete_regions my Q y) (delete_games_of my g)) = Inr y"
  shows "removed P Q (\<lambda>h. h = g) x y"
proof -
  obtain z where "bind_result (delete_rules my P x) (delete_regions my Q) = Inr z" "delete_games_of my g z = Inr y"
    using assms unfolding bind_result_Inr_iff by blast
  from removed_trans [OF region_step_removed [OF this(1)] delete_games_removed [OF this(2)]]
  show ?thesis by simp
qed

lemma fold_removed:
  assumes "fold_result f xs x = Inr y"
    and "\<And>a x y. f a x = Inr y \<Longrightarrow> removed (P a) (Q a) (G a) x y"
  shows "removed (\<lambda>r. \<exists>a \<in> set xs. P a r) (\<lambda>r. \<exists>a \<in> set xs. Q a r) (\<lambda>g. \<exists>a \<in> set xs. G a g) x y"
  using assms(1)
proof (induction xs arbitrary: x)
  case Nil
  then show ?case by (simp add: removed_refl)
next
  case (Cons a xs)
  then obtain z where "f a x = Inr z" "fold_result f xs z = Inr y" by auto
  from removed_trans [OF assms(2) [OF this(1)] Cons.IH [OF this(2)]] show ?case by simp
qed

definition doomed_rule :: "collation \<Rightarrow> normalized_business_delete_catalog \<Rightarrow> route_rule_row \<Rightarrow> bool" where
  "doomed_rule same q r \<longleftrightarrow>
     rl_id r \<in> set (nc_route_rule_ids q) \<or>
     (\<exists>e \<in> set (nc_route_external_ids q). external_rule same (nc_source q) e r) \<or>
     (\<exists>g \<in> set (nc_regions q). region_rule g r) \<or> ru_game_id (rl_rule r) \<in> set (nc_game_ids q)"

definition doomed_region :: "normalized_business_delete_catalog \<Rightarrow> normalized_game_region \<Rightarrow> bool" where
  "doomed_region q r \<longleftrightarrow>
     (nr_game_id r, nr_region_id r) \<in> set (nc_regions q) \<or> nr_game_id r \<in> set (nc_game_ids q)"

lemma delete_business_catalog_removed:
  assumes "delete_business_catalog same my q cat = Inr (n, cat')"
  shows "removed (doomed_rule same q) (doomed_region q) (\<lambda>g. g \<in> set (nc_game_ids q))
    (\<lparr>de_games = 0, de_regions = 0, de_rules = 0\<rparr>, 0, cat) (n, i, cat')"
proof -
  let ?no = "\<lambda>_. False"
  from assms obtain x1 x2 x3 x4 where
    "fold_result (\<lambda>rule_id. delete_rules my (\<lambda>r. rl_id r = rule_id)) (nc_route_rule_ids q)
       (\<lparr>de_games = 0, de_regions = 0, de_rules = 0\<rparr>, 0, cat) = Inr x1"
    "fold_result (\<lambda>e. delete_rules my (external_rule same (nc_source q) e)) (nc_route_external_ids q) x1 = Inr x2"
    "fold_result (\<lambda>g x. bind_result (delete_rules my (region_rule g) x)
         (delete_regions my (\<lambda>r. nr_game_id r = fst g \<and> nr_region_id r = snd g))) (nc_regions q) x2 = Inr x3"
    "fold_result (\<lambda>game_id x. bind_result (delete_rules my (\<lambda>r. ru_game_id (rl_rule r) = game_id) x) (\<lambda>y.
         bind_result (delete_regions my (\<lambda>r. nr_game_id r = game_id) y) (delete_games_of my game_id)))
       (nc_game_ids q) x3 = Inr x4"
    and out: "n = fst x4" "cat' = snd (snd x4)"
    by (auto simp: delete_business_catalog_def)
  note folds = this(1-4)
  have "removed (\<lambda>r. \<exists>a \<in> set (nc_route_rule_ids q). rl_id r = a) ?no ?no
      (\<lparr>de_games = 0, de_regions = 0, de_rules = 0\<rparr>, 0, cat) x1"
    using fold_removed [OF folds(1), where P = "\<lambda>a r. rl_id r = a" and Q = "\<lambda>_ _. False" and G = "\<lambda>_ _. False"]
      delete_rules_removed by simp
  moreover have "removed (\<lambda>r. \<exists>e \<in> set (nc_route_external_ids q). external_rule same (nc_source q) e r) ?no ?no x1 x2"
    using fold_removed [OF folds(2), where P = "\<lambda>e. external_rule same (nc_source q) e" and
        Q = "\<lambda>_ _. False" and G = "\<lambda>_ _. False"] delete_rules_removed by simp
  moreover have "removed (\<lambda>r. \<exists>g \<in> set (nc_regions q). region_rule g r)
      (\<lambda>r. \<exists>g \<in> set (nc_regions q). nr_game_id r = fst g \<and> nr_region_id r = snd g) ?no x2 x3"
    using fold_removed [OF folds(3), where P = region_rule and G = "\<lambda>_ _. False" and
        Q = "\<lambda>g r. nr_game_id r = fst g \<and> nr_region_id r = snd g"] region_step_removed by simp
  moreover have "removed (\<lambda>r. \<exists>g \<in> set (nc_game_ids q). ru_game_id (rl_rule r) = g)
      (\<lambda>r. \<exists>g \<in> set (nc_game_ids q). nr_game_id r = g) (\<lambda>h. \<exists>g \<in> set (nc_game_ids q). h = g) x3 x4"
    by (rule fold_removed [OF folds(4)]) (rule game_step_removed)
  ultimately have "removed (doomed_rule same q) (doomed_region q) (\<lambda>g. g \<in> set (nc_game_ids q))
      (\<lparr>de_games = 0, de_regions = 0, de_rules = 0\<rparr>, 0, cat) x4"
    by (rule removed_cong [OF removed_trans [OF removed_trans [OF removed_trans]]])
      (force simp: doomed_rule_def doomed_region_def)+
  then show ?thesis by (simp add: removed_def out)
qed

section \<open>Every request keeps the tables well-formed\<close>

lemma with_store_cases:
  assumes "with_store store x f = (a, store')"
  obtains (error) e where "x = Inl e" "a = Inl e" "store' = store"
    | (fine) v where "x = Inr v" "f v = (a, store')"
  using assms by (cases x) auto

lemma sync_business_catalog_ok:
  assumes same: "equivp same" and sync: "sync_business_catalog same my db c cat = Inr cat'"
    and normal: "catalog_normal c" and ok: "catalogue_ok same cat"
  shows "catalogue_ok same cat'"
proof -
  from sync obtain s1 s2 s3 where
    games: "fold_result (upsert_business_game same my) (sc_games c) (0, cat) = Inr s1" and
    regions: "fold_result (upsert_business_region my) (sc_regions c) s1 = Inr s2" and
    rules: "fold_result (upsert_business_route_rule same my db) (sc_route_rules c) s2 = Inr s3" and
    out: "cat' = snd s3"
    by (auto simp: sync_business_catalog_def)
  let ?P = "\<lambda>s :: tx. catalogue_ok same (snd s)"
  have "?P s1"
    by (rule fold_result_invariant [OF games, where P = ?P])
      (use ok normal upsert_game_ok [OF same] in \<open>auto simp: catalog_normal_def\<close>)
  then have "?P s2"
    by (rule fold_result_invariant [OF regions, where P = ?P])
      (use normal upsert_region_ok [OF same] in \<open>auto simp: catalog_normal_def\<close>)
  then have "?P s3"
    by (rule fold_result_invariant [OF rules, where P = ?P])
      (use normal upsert_rule_ok [OF same] in \<open>fastforce simp: catalog_normal_def\<close>)
  then show ?thesis by (simp add: out)
qed

lemma delete_business_catalog_ok:
  assumes "equivp same" "delete_business_catalog same my q cat = Inr (n, cat')" "catalogue_ok same cat"
  shows "catalogue_ok same cat'"
  using delete_business_catalog_removed [OF assms(2), of 0] assms(3)
  by (simp add: removed_def catalogue_ok_rows [OF assms(1)] unique_rows_filter rows_ok_filter)

lemma insert_admin_game_ok:
  assumes same: "equivp same" and "insert_admin_game same my q cat = Inr (g, cat')" "catalogue_ok same cat"
  shows "catalogue_ok same cat'"
proof -
  from assms(2) obtain game s where
    game: "normalize_game_request q = Inr game" and
    fresh: "\<not> list_ex (\<lambda>g. gm_game_id g = ng_game_id game) (cg_games cat)" and
    s: "replace_business_game_categories same my game
         (1, cat\<lparr>cg_games := cg_games cat @ [game_row_of game]\<rparr>) = Inr s" "cat' = snd s"
    by (auto simp: insert_admin_game_def split: if_splits)
  have "catalogue_ok same (cat\<lparr>cg_games := cg_games cat @ [game_row_of game]\<rparr>)"
    using assms(3) fresh game_row_of_normal [OF normalize_game_request_normal [OF game]]
    by (auto simp: catalogue_ok_def list_ex_iff game_row_of_def)
  then show ?thesis using replace_categories_ok [OF same s(1)] by (simp add: s(2))
qed

lemma ball_update_rows:
  "\<forall>r \<in> set rows. Q r \<Longrightarrow> (\<And>r. r \<in> set rows \<Longrightarrow> Q r \<Longrightarrow> Q (f r)) \<Longrightarrow> \<forall>r \<in> set (update_rows p f rows). Q r"
  by (auto simp: update_rows_def)

lemma update_admin_game_ok:
  assumes same: "equivp same" and "update_admin_game same my game_id q later cat = (a, cat')"
    and ok: "catalogue_ok same cat" and later: "\<And>c. catalogue_ok same c \<Longrightarrow> catalogue_ok same (later c)"
  shows "catalogue_ok same cat'"
proof (cases "cat' = cat")
  case changed: False
  obtain game where game: "normalize_game_request q = Inr game"
    using assms(2) changed
    by (cases "normalize_game_request q") (auto simp: update_admin_game_def split: if_splits)
  let ?cat1 = "cat\<lparr>cg_games := update_rows (\<lambda>g. gm_game_id g = game_id)
    (\<lambda>g. (game_row_of game)\<lparr>gm_game_id := gm_game_id g\<rparr>) (cg_games cat)\<rparr>"
  let ?row_ok = "\<lambda>g. gm_game_id g \<noteq> 0 \<and> (gm_status g = ''enabled'' \<or> gm_status g = ''disabled'')"
  have "\<forall>g \<in> set (cg_games cat). ?row_ok g" using ok unfolding catalogue_ok_def by blast
  then have "\<forall>g \<in> set (update_rows (\<lambda>g. gm_game_id g = game_id)
      (\<lambda>g. (game_row_of game)\<lparr>gm_game_id := gm_game_id g\<rparr>) (cg_games cat)). ?row_ok g"
    by (rule ball_update_rows) (use game_row_of_normal [OF normalize_game_request_normal [OF game]] in simp)
  then have "catalogue_ok same ?cat1" using ok by (simp add: catalogue_ok_def)
  then have "catalogue_ok same (later ?cat1)" by (rule later)
  moreover have "cat' = later ?cat1 \<or>
      (\<exists>s. replace_business_game_categories same my game (1, later ?cat1) = Inr s \<and> cat' = snd s)"
    using assms(2) changed game
    by (auto simp: update_admin_game_def Let_def split: if_splits elim!: with_store_cases)
  ultimately show ?thesis using replace_categories_ok [OF same] by fastforce
qed (use ok in simp)

lemma delete_admin_game_ok:
  assumes same: "equivp same" and "delete_admin_game my game_id later cat = (a, cat')"
    and ok: "catalogue_ok same cat" and later: "\<And>c. catalogue_ok same c \<Longrightarrow> catalogue_ok same (later c)"
  shows "catalogue_ok same cat'"
proof -
  have filtered: "catalogue_ok same (c\<lparr>cg_categories := filter p (cg_categories c)\<rparr>)"
    "catalogue_ok same (c\<lparr>cg_games := filter p' (cg_games c)\<rparr>)" if "catalogue_ok same c" for c p p'
    using that by (simp_all add: catalogue_ok_rows [OF same] unique_rows_filter)
  let ?cat1 = "later (cat\<lparr>cg_categories := filter (\<lambda>c. gc_game_id c \<noteq> game_id) (cg_categories cat)\<rparr>)"
  have "catalogue_ok same ?cat1" by (intro later filtered ok)
  moreover have "cat' \<in> {cat, ?cat1, ?cat1\<lparr>cg_games := filter (\<lambda>g. gm_game_id g \<noteq> game_id) (cg_games ?cat1)\<rparr>}"
    using assms(2) by (auto simp: delete_admin_game_def Let_def elim!: with_store_cases)
  ultimately show ?thesis using ok filtered(2) by auto
qed

lemma no_external_distinct:
  assumes "distinct_rows (\<lambda>r s. same_external same (rl_rule r) (rl_rule s)) rows"
    and "ru_sync_source (rl_rule new) = None"
  shows "distinct_rows (\<lambda>r s. same_external same (rl_rule r) (rl_rule s)) (rows @ [new])"
  using assms by (simp add: distinct_rows_def sorted_wrt_append same_external_iff)

lemma insert_admin_route_rule_ok:
  assumes "insert_admin_route_rule my q seen db cat = Inr (rule_id, cat')" "catalogue_ok same cat"
  shows "catalogue_ok same cat'"
proof -
  from assms(1) obtain rule where
    rule: "normalize_route_rule_request q = Inr rule" and room: "unat (cg_next_rule cat) + 1 < 2 ^ 64" and
    cat': "cat' = cat\<lparr>cg_rules := cg_rules cat @ [\<lparr>rl_id = cg_next_rule cat, rl_rule = rule\<rparr>],
       cg_next_rule := cg_next_rule cat + 1\<rparr>"
    by (auto simp: insert_admin_route_rule_def)
  have "ru_sync_source rule = None" "rule_normal rule"
    using rule normalize_route_rule_request_normal by (auto simp: normalize_route_rule_request_def split: if_splits)
  then show ?thesis
    using assms(2) room by (auto simp: cat' catalogue_ok_def no_external_distinct intro: rows_ok_append)
qed

lemma update_admin_route_rule_ok:
  assumes "update_admin_route_rule my rule_id q seen db cat = Inr cat'" "catalogue_ok same cat"
  shows "catalogue_ok same cat'"
proof -
  from assms(1) obtain rule where rule: "normalize_route_rule_request q = Inr rule" and
    cat': "cat' = cat\<lparr>cg_rules := update_rows (\<lambda>r. rl_id r = rule_id)
        (\<lambda>r. r\<lparr>rl_rule := rule\<lparr>ru_sync_source := ru_sync_source (rl_rule r),
           ru_external_id := ru_external_id (rl_rule r)\<rparr>\<rparr>) (cg_rules cat)\<rparr>"
    by (auto simp: update_admin_route_rule_def split: if_splits)
  have "rule_normal (rule\<lparr>ru_sync_source := s, ru_external_id := e\<rparr>)" for s e
    using normalize_route_rule_request_normal [OF rule] by (simp add: rule_normal_def)
  moreover have "distinct_rows (\<lambda>r s. same_external same (rl_rule r) (rl_rule s)) (cg_rules cat')"
    using assms(2)
    by (simp add: cat' catalogue_ok_def distinct_rows_def update_rows_def sorted_wrt_map same_external_iff if_distrib)
  ultimately show ?thesis
    using assms(2) by (auto simp: cat' catalogue_ok_def set_update_rows intro!: rows_ok_update)
qed

lemma delete_admin_route_rule_ok:
  assumes "equivp same" "delete_admin_route_rule my rule_id cat = Inr (b, cat')" "catalogue_ok same cat"
  shows "catalogue_ok same cat'"
  using assms(2,3)
  by (simp add: delete_admin_route_rule_def catalogue_ok_rows [OF assms(1)] unique_rows_filter rows_ok_filter)

definition empty_catalogue :: catalogue where
  "empty_catalogue =
     \<lparr>cg_games = [], cg_categories = [], cg_regions = [], cg_rules = [], cg_next_rule = 1\<rparr>"

lemma empty_catalogue_ok: "catalogue_ok same empty_catalogue"
  by (simp add: catalogue_ok_def empty_catalogue_def distinct_rows_def)

section \<open>Synchronising again\<close>

text \<open>The rows a pass of upserts leaves are settled, and a pass over settled rows changes nothing.\<close>

lemma fold_settled:
  assumes "fold_result f xs s = Inr s'"
    and step: "\<And>x s s'. x \<in> set xs \<Longrightarrow> f x s = Inr s' \<Longrightarrow>
      \<exists>new. rows s' = upsert_rows (dup x) (over x) new (rows s) \<and> dup x new \<and> over x new = new"
    and table: "upsert_table dup over"
  shows "settled dup over xs (rows s')"
  using assms(1) step
proof (induction xs arbitrary: s' rule: rev_induct)
  case Nil
  then show ?case by (simp add: settled_def)
next
  case (snoc x xs)
  then obtain s1 where s1: "fold_result f xs s = Inr s1" "f x s1 = Inr s'"
    by (auto simp: fold_result_append)
  then have "settled dup over xs (rows s1)" using snoc by simp
  moreover obtain new where "rows s' = upsert_rows (dup x) (over x) new (rows s1)" "dup x new" "over x new = new"
    using snoc.prems(2) [OF _ s1(2)] by auto
  ultimately show ?case using upsert_table.settled_upsert [OF table] by metis
qed

lemma fold_unchanged:
  assumes "fold_result f xs s = Inr s'" "settled dup over xs (rows s)"
    and step: "\<And>x s s'. x \<in> set xs \<Longrightarrow> f x s = Inr s' \<Longrightarrow>
      list_ex (dup x) (rows s) \<Longrightarrow> rows s' = update_rows (dup x) (over x) (rows s) \<and> rest s' = rest s"
    and table: "upsert_table dup over"
  shows "rows s' = rows s \<and> rest s' = rest s"
proof -
  have "rows s2 = map (fold (overwrite dup over) ys) (rows s) \<and> rest s2 = rest s"
    if "xs = ys @ zs" "fold_result f ys s = Inr s2" for ys zs s2
    using that
  proof (induction ys arbitrary: zs s2 rule: rev_induct)
    case (snoc y ys)
    then obtain s1 where s1: "fold_result f ys s = Inr s1" "f y s1 = Inr s2"
      by (auto simp: fold_result_append)
    have IH: "rows s1 = map (fold (overwrite dup over) ys) (rows s)" "rest s1 = rest s"
      using snoc.IH [OF _ s1(1)] snoc.prems(1) by auto
    have again: "list_ex (dup y) (rows s1)"
      "update_rows (dup y) (over y) (rows s1) = map (fold (overwrite dup over) (ys @ [y])) (rows s)"
      using upsert_table.settled_again [OF table, where xs = ys and x = y and ys = zs and before = "rows s"] assms(2) snoc.prems(1) IH(1)
      by auto
    then show ?case using step [OF _ s1(2) again(1)] snoc.prems(1) IH(2) by simp
  qed simp
  from this [of xs "[]" s'] assms(1) have "rows s' = map (fold (overwrite dup over) xs) (rows s)" "rest s' = rest s"
    by simp_all
  moreover have "map (fold (overwrite dup over) xs) (rows s) = rows s"
    using assms(2) by (simp add: settled_def map_idI)
  ultimately show ?thesis by simp
qed

definition categories_of :: "u64 \<Rightarrow> catalogue \<Rightarrow> game_category_row list" where
  "categories_of game_id cat = filter (\<lambda>c. gc_game_id c = game_id) (cg_categories cat)"

text \<open>The categories a game has after its own were replaced: they depend on nothing else.\<close>

definition category_rows :: "collation \<Rightarrow> normalized_game \<Rightarrow> game_category_row list" where
  "category_rows same game =
     fold (\<lambda>x. upsert_rows (\<lambda>c. same (gc_category c) (snd x)) (\<lambda>c. c\<lparr>gc_sort_order := of_nat (fst x)\<rparr>)
        \<lparr>gc_game_id = ng_game_id game, gc_category = snd x, gc_sort_order = of_nat (fst x)\<rparr>)
       (enumerate 0 (ng_categories game)) []"

lemma filter_upsert_rows:
  assumes "\<And>r. p (f r) = p r" "p new"
  shows "filter p (upsert_rows (\<lambda>r. p r \<and> d r) f new rows) = upsert_rows d f new (filter p rows)"
proof -
  have "filter p (update_rows (\<lambda>r. p r \<and> d r) f rows) = update_rows d f (filter p rows)"
    using assms(1) by (induction rows) auto
  moreover have "list_ex d (filter p rows) = list_ex (\<lambda>r. p r \<and> d r) rows"
    by (auto simp: list_ex_iff)
  ultimately show ?thesis using assms(2) by (simp add: upsert_rows_def)
qed

lemma filter_other_upsert:
  assumes "\<And>r. q (f r) = q r" "\<And>r. d r \<Longrightarrow> \<not> q r" "\<not> q new"
  shows "filter q (upsert_rows d f new rows) = filter q rows"
proof -
  have "filter q (update_rows d f rows) = filter q rows"
    using assms(1,2) by (induction rows) auto
  then show ?thesis using assms(3) by (simp add: upsert_rows_def)
qed

definition other_tables :: "catalogue \<Rightarrow> game_row list \<times> normalized_game_region list \<times> route_rule_row list \<times> u64" where
  "other_tables cat = (cg_games cat, cg_regions cat, cg_rules cat, cg_next_rule cat)"

lemma insert_category_rows:
  assumes "insert_category same my g x s = Inr s'"
  shows "categories_of g (snd s') = upsert_rows (\<lambda>c. same (gc_category c) (snd x))
      (\<lambda>c. c\<lparr>gc_sort_order := of_nat (fst x)\<rparr>)
      \<lparr>gc_game_id = g, gc_category = snd x, gc_sort_order = of_nat (fst x)\<rparr> (categories_of g (snd s)) \<and>
    (\<forall>h. h \<noteq> g \<longrightarrow> categories_of h (snd s') = categories_of h (snd s)) \<and>
    other_tables (snd s') = other_tables (snd s)"
proof -
  let ?d = "\<lambda>c. same (gc_category c) (snd x)" and ?f = "\<lambda>c. c\<lparr>gc_sort_order := of_nat (fst x)\<rparr>"
  let ?new = "\<lparr>gc_game_id = g, gc_category = snd x, gc_sort_order = of_nat (fst x)\<rparr>"
  have s': "snd s' = (snd s)\<lparr>cg_categories :=
      upsert_rows (\<lambda>c. gc_game_id c = g \<and> ?d c) ?f ?new (cg_categories (snd s))\<rparr>"
    using assms by (auto simp: insert_category_def)
  have "filter (\<lambda>c. gc_game_id c = g) (upsert_rows (\<lambda>c. gc_game_id c = g \<and> ?d c) ?f ?new rows) =
      upsert_rows ?d ?f ?new (filter (\<lambda>c. gc_game_id c = g) rows)" for rows
    by (rule filter_upsert_rows) simp_all
  moreover have "filter (\<lambda>c. gc_game_id c = h) (upsert_rows (\<lambda>c. gc_game_id c = g \<and> ?d c) ?f ?new rows) =
      filter (\<lambda>c. gc_game_id c = h) rows" if "h \<noteq> g" for h rows
    by (rule filter_other_upsert) (use that in auto)
  ultimately show ?thesis by (simp add: s' categories_of_def other_tables_def)
qed

lemma replace_categories_rows:
  assumes "replace_business_game_categories same my game s = Inr s'"
  shows "categories_of h (snd s') =
      (if h = ng_game_id game then category_rows same game else categories_of h (snd s)) \<and>
    other_tables (snd s') = other_tables (snd s)"
proof -
  let ?g = "ng_game_id game"
  from assms obtain s1 where s1: "snd s1 = (snd s)\<lparr>cg_categories :=
       filter (\<lambda>c. gc_game_id c \<noteq> ?g) (cg_categories (snd s))\<rparr>"
    and run: "fold_result (insert_category same my ?g) (enumerate 0 (ng_categories game)) s1 = Inr s'"
    by (auto simp: replace_business_game_categories_def)
  have "categories_of ?g (snd t') = fold (\<lambda>x. upsert_rows (\<lambda>c. same (gc_category c) (snd x))
        (\<lambda>c. c\<lparr>gc_sort_order := of_nat (fst x)\<rparr>)
        \<lparr>gc_game_id = ?g, gc_category = snd x, gc_sort_order = of_nat (fst x)\<rparr>) xs (categories_of ?g (snd t)) \<and>
      (\<forall>h. h \<noteq> ?g \<longrightarrow> categories_of h (snd t') = categories_of h (snd t)) \<and>
      other_tables (snd t') = other_tables (snd t)"
    if "fold_result (insert_category same my ?g) xs t = Inr t'" for xs t t'
    using that
  proof (induction xs arbitrary: t)
    case (Cons x xs)
    then obtain u where u: "insert_category same my ?g x t = Inr u" "fold_result (insert_category same my ?g) xs u = Inr t'"
      by auto
    show ?case
      using insert_category_rows [OF u(1)] Cons.IH [OF u(2)]
      by simp
  qed simp
  note this [OF run]
  moreover have "filter (\<lambda>x. gc_game_id x \<noteq> ?g \<and> gc_game_id x = h) rows = filter (\<lambda>c. gc_game_id c = h) rows"
    if "h \<noteq> ?g" for rows by (rule filter_cong) (use that in auto)
  ultimately show ?thesis
    by (auto simp: s1 categories_of_def category_rows_def other_tables_def)
qed

lemma fold_games_categories:
  assumes "fold_result (upsert_business_game same my) gs s = Inr s'"
  shows "categories_of h (snd s') = (case find (\<lambda>g. ng_game_id g = h) (rev gs) of
      None \<Rightarrow> categories_of h (snd s) | Some g \<Rightarrow> category_rows same g)"
  using assms
proof (induction gs arbitrary: s' rule: rev_induct)
  case (snoc g gs)
  then obtain s1 where s1: "fold_result (upsert_business_game same my) gs s = Inr s1"
    "upsert_business_game same my g s1 = Inr s'" by (auto simp: fold_result_append)
  then obtain t where "replace_business_game_categories same my g t = Inr s'"
    "cg_categories (snd t) = cg_categories (snd s1)" by (auto simp: upsert_business_game_def)
  then have "categories_of h (snd s') = (if h = ng_game_id g then category_rows same g else categories_of h (snd s1))"
    using replace_categories_rows [of same my g t s' h] by (simp add: categories_of_def)
  then show ?case using snoc.IH [OF s1(1)] by auto
qed simp

lemma upsert_game_rows:
  assumes "upsert_business_game same my g s = Inr s'"
  shows "cg_games (snd s') = upsert_rows (game_dup g) (\<lambda>_. game_row_of g) (game_row_of g) (cg_games (snd s)) \<and>
    (cg_regions (snd s'), cg_rules (snd s'), cg_next_rule (snd s')) =
    (cg_regions (snd s), cg_rules (snd s), cg_next_rule (snd s))"
proof -
  from assms obtain t where "replace_business_game_categories same my g t = Inr s'"
    "snd t = (snd s)\<lparr>cg_games := upsert_rows (game_dup g) (\<lambda>_. game_row_of g) (game_row_of g) (cg_games (snd s))\<rparr>"
    by (auto simp: upsert_business_game_def game_dup_def [abs_def])
  then show ?thesis
    using replace_categories_rows [of same my g t s'] by (simp add: other_tables_def)
qed

lemma upsert_region_rows:
  assumes "upsert_business_region my r s = Inr s'"
  shows "cg_regions (snd s') = upsert_rows (region_dup r) (\<lambda>_. r) r (cg_regions (snd s)) \<and>
    (cg_games (snd s'), cg_categories (snd s'), cg_rules (snd s'), cg_next_rule (snd s')) =
    (cg_games (snd s), cg_categories (snd s), cg_rules (snd s), cg_next_rule (snd s))"
  using assms by (auto simp: upsert_business_region_def region_dup_def [abs_def])

lemma upsert_rule_frame:
  assumes "upsert_business_route_rule same my db r s = Inr s'"
  shows "(cg_games (snd s'), cg_categories (snd s'), cg_regions (snd s')) =
    (cg_games (snd s), cg_categories (snd s), cg_regions (snd s))"
  using assms by (auto simp: upsert_business_route_rule_def Let_def split: if_splits)

lemma fold_frame:
  assumes "fold_result f xs s = Inr s'" "\<And>x s s'. f x s = Inr s' \<Longrightarrow> g s' = g s"
  shows "g s' = g s"
  by (rule fold_result_invariant [OF assms(1), where P = "\<lambda>t. g t = g s"]) (use assms(2) in auto)

lemma sync_tables:
  assumes "sync_business_catalog same my db c cat = Inr cat'"
  obtains s1 s2 s3 where
    "fold_result (upsert_business_game same my) (sc_games c) (0, cat) = Inr s1"
    "fold_result (upsert_business_region my) (sc_regions c) s1 = Inr s2"
    "fold_result (upsert_business_route_rule same my db) (sc_route_rules c) s2 = Inr s3" "cat' = snd s3"
    "cg_games cat' = cg_games (snd s1)" "cg_categories cat' = cg_categories (snd s1)"
    "cg_regions (snd s1) = cg_regions cat" "cg_regions cat' = cg_regions (snd s2)"
    "cg_rules (snd s2) = cg_rules cat" "cg_next_rule (snd s2) = cg_next_rule cat"
proof -
  from assms obtain s1 s2 s3 where
    games: "fold_result (upsert_business_game same my) (sc_games c) (0, cat) = Inr s1" and
    regions: "fold_result (upsert_business_region my) (sc_regions c) s1 = Inr s2" and
    rules: "fold_result (upsert_business_route_rule same my db) (sc_route_rules c) s2 = Inr s3" and
    out: "cat' = snd s3"
    by (auto simp: sync_business_catalog_def)
  have "(cg_regions (snd s1), cg_rules (snd s1), cg_next_rule (snd s1)) =
      (cg_regions cat, cg_rules cat, cg_next_rule cat)"
    using fold_frame [OF games, where g = "\<lambda>s. (cg_regions (snd s), cg_rules (snd s), cg_next_rule (snd s))"]
      upsert_game_rows by auto
  moreover have "(cg_games (snd s2), cg_categories (snd s2), cg_rules (snd s2), cg_next_rule (snd s2)) =
      (cg_games (snd s1), cg_categories (snd s1), cg_rules (snd s1), cg_next_rule (snd s1))"
    by (rule fold_frame [OF regions]) (use upsert_region_rows in blast)
  moreover have "(cg_games (snd s3), cg_categories (snd s3), cg_regions (snd s3)) =
      (cg_games (snd s2), cg_categories (snd s2), cg_regions (snd s2))"
    by (rule fold_frame [OF rules]) (use upsert_rule_frame in blast)
  ultimately show ?thesis by (intro that [OF games regions rules out]) (auto simp: out)
qed

lemma rule_step_settles:
  assumes same: "equivp same" and "catalog_normal c" "r \<in> set (sc_route_rules c)"
    and "upsert_business_route_rule same my db r s = Inr s'"
  shows "\<exists>new. cg_rules (snd s') = upsert_rows (rule_dup same r) (rule_over r) new (cg_rules (snd s)) \<and>
    rule_dup same r new \<and> rule_over r new = new"
proof -
  obtain new where new: "cg_rules (snd s') = upsert_rows (rule_dup same r) (rule_over r) new (cg_rules (snd s))"
    "rl_rule new = r" using assms(4) by (rule upsert_rule_cases)
  have "same_external same r r"
    using assms(2,3) collation_laws(1) [OF same] by (fastforce simp: catalog_normal_def same_external_iff)
  then show ?thesis using new by (auto simp: rule_dup_def rule_over_def)
qed

lemma sync_settled:
  assumes same: "equivp same" and normal: "catalog_normal c" and "sync_business_catalog same my db c cat = Inr cat'"
  shows "settled game_dup (\<lambda>x _. game_row_of x) (sc_games c) (cg_games cat')"
    and "settled region_dup (\<lambda>x _. x) (sc_regions c) (cg_regions cat')"
    and "settled (rule_dup same) rule_over (sc_route_rules c) (cg_rules cat')"
proof -
  obtain s1 s2 s3 where run:
    "fold_result (upsert_business_game same my) (sc_games c) (0, cat) = Inr s1"
    "fold_result (upsert_business_region my) (sc_regions c) s1 = Inr s2"
    "fold_result (upsert_business_route_rule same my db) (sc_route_rules c) s2 = Inr s3"
    and out: "cat' = snd s3" "cg_games cat' = cg_games (snd s1)" "cg_regions cat' = cg_regions (snd s2)"
    using assms(3) by (rule sync_tables)
  show "settled game_dup (\<lambda>x _. game_row_of x) (sc_games c) (cg_games cat')"
    unfolding out(2)
    by (rule fold_settled [OF run(1), where rows = "\<lambda>s. cg_games (snd s)"])
      (use upsert_game_rows games.upsert_table_axioms in auto)
  show "settled region_dup (\<lambda>x _. x) (sc_regions c) (cg_regions cat')"
    unfolding out(3)
    by (rule fold_settled [OF run(2), where rows = "\<lambda>s. cg_regions (snd s)"])
      (use upsert_region_rows regions.upsert_table_axioms in auto)
  show "settled (rule_dup same) rule_over (sc_route_rules c) (cg_rules cat')"
    unfolding out(1)
    by (rule fold_settled [OF run(3), where rows = "\<lambda>s. cg_rules (snd s)"])
      (use rule_step_settles [OF same normal] rule_table [OF same] in auto)
qed

lemma resync:
  assumes same: "equivp same" and normal: "catalog_normal c"
    and first: "sync_business_catalog same my db c cat = Inr cat1"
    and again: "sync_business_catalog same my' db' c cat1 = Inr cat2"
  shows "other_tables cat2 = other_tables cat1 \<and> categories_of h cat2 = categories_of h cat1"
proof -
  obtain s1 s2 s3 where fst_run:
    "fold_result (upsert_business_game same my) (sc_games c) (0, cat) = Inr s1"
    "fold_result (upsert_business_region my) (sc_regions c) s1 = Inr s2"
    "fold_result (upsert_business_route_rule same my db) (sc_route_rules c) s2 = Inr s3"
    and one: "cat1 = snd s3" "cg_games cat1 = cg_games (snd s1)" "cg_categories cat1 = cg_categories (snd s1)"
    "cg_regions cat1 = cg_regions (snd s2)" using first by (rule sync_tables)
  obtain t1 t2 t3 where snd_run:
    "fold_result (upsert_business_game same my') (sc_games c) (0, cat1) = Inr t1"
    "fold_result (upsert_business_region my') (sc_regions c) t1 = Inr t2"
    "fold_result (upsert_business_route_rule same my' db') (sc_route_rules c) t2 = Inr t3"
    and two: "cat2 = snd t3" "cg_games cat2 = cg_games (snd t1)" "cg_categories cat2 = cg_categories (snd t1)"
    "cg_regions (snd t1) = cg_regions cat1" "cg_regions cat2 = cg_regions (snd t2)"
    "cg_rules (snd t2) = cg_rules cat1" "cg_next_rule (snd t2) = cg_next_rule cat1"
    using again by (rule sync_tables)
  have "settled game_dup (\<lambda>x _. game_row_of x) (sc_games c) (cg_games cat1)"
    by (rule sync_settled(1) [OF same normal first])
  then have "cg_games (snd t1) = cg_games cat1 \<and> () = ()"
    using fold_unchanged [OF snd_run(1), where rows = "\<lambda>s. cg_games (snd s)" and rest = "\<lambda>_. ()"]
      upsert_game_rows games.upsert_table_axioms by (fastforce simp: upsert_rows_def)
  moreover have "settled region_dup (\<lambda>x _. x) (sc_regions c) (cg_regions cat1)"
    by (rule sync_settled(2) [OF same normal first])
  then have "cg_regions (snd t2) = cg_regions (snd t1) \<and> () = ()"
    using fold_unchanged [OF snd_run(2), where rows = "\<lambda>s. cg_regions (snd s)" and rest = "\<lambda>_. ()"]
      upsert_region_rows regions.upsert_table_axioms two(4) by (fastforce simp: upsert_rows_def)
  moreover have "settled (rule_dup same) rule_over (sc_route_rules c) (cg_rules cat1)"
    by (rule sync_settled(3) [OF same normal first])
  then have "cg_rules (snd t3) = cg_rules (snd t2) \<and> cg_next_rule (snd t3) = cg_next_rule (snd t2)"
    by (intro fold_unchanged [OF snd_run(3), where rows = "\<lambda>s. cg_rules (snd s)" and dup = "rule_dup same"
        and over = rule_over and rest = "\<lambda>s. cg_next_rule (snd s)"])
      (use two(6) rule_table [OF same] in \<open>auto simp: upsert_rows_def elim!: upsert_rule_cases\<close>)
  moreover have "categories_of h cat2 = categories_of h cat1"
    using fold_games_categories [OF fst_run(1), of h] fold_games_categories [OF snd_run(1), of h] one(3) two(3)
    by (simp add: categories_of_def split: option.splits)
  ultimately show ?thesis using two by (simp add: other_tables_def)
qed

section \<open>Properties\<close>

text \<open>
  C10. Synchronising is idempotent. The same request, accepted twice in a row, leaves after the second
  time exactly the games, regions, rules and rule ids the first left, and for every game the same
  categories in the same order, even if the request names a row several times.
\<close>

theorem sync_idempotent:
  assumes "equivp same"
    and "business_sync_catalog cx same my sync_token hs request db cat = (Inr c, cat1)"
    and "business_sync_catalog cx same my' sync_token' hs' request db' cat1 = (Inr c', cat2)"
  shows "cg_games cat2 = cg_games cat1 \<and> cg_regions cat2 = cg_regions cat1 \<and>
    cg_rules cat2 = cg_rules cat1 \<and> cg_next_rule cat2 = cg_next_rule cat1 \<and>
    categories_of game_id cat2 = categories_of game_id cat1"
proof -
  from assms(2) have norm: "normalize_business_sync_catalog cx request = Inr c" and
    first: "sync_business_catalog same my db c cat = Inr cat1"
    by (auto simp: business_sync_catalog_def elim!: with_store_cases)
  from assms(3) norm have again: "sync_business_catalog same my' db' c cat1 = Inr cat2"
    by (auto simp: business_sync_catalog_def elim!: with_store_cases)
  from resync [OF assms(1) normalize_business_sync_catalog_normal [OF norm] first again]
  show ?thesis by (simp add: other_tables_def)
qed

lemma removed_count: "length (filter p xs) = length xs - length (filter (\<lambda>x. \<not> p x) xs)"
  using sum_length_filter_compl [of p xs] by simp

text \<open>
  C13. A deletion removes what it names and nothing else. When the business backend deletes games,
  regions, rules by id and rules by external id, the rules left are those none of the four parts
  names, the regions and games left are those not named (or of a game not named), the categories
  of the named games go with them, and the answer counts the removed rows of each table exactly.
\<close>

theorem deletion_exact:
  assumes "business_delete_catalog same my sync_token hs request cat = (Inr n, cat')"
  shows "\<exists>q. normalize_business_delete_catalog request = Inr q \<and>
    cg_rules cat' = filter (\<lambda>r. \<not> doomed_rule same q r) (cg_rules cat) \<and>
    cg_regions cat' = filter (\<lambda>r. \<not> doomed_region q r) (cg_regions cat) \<and>
    cg_games cat' = filter (\<lambda>g. gm_game_id g \<notin> set (nc_game_ids q)) (cg_games cat) \<and>
    cg_categories cat' = filter (\<lambda>c. gc_game_id c \<notin> set (nc_game_ids q)) (cg_categories cat) \<and>
    de_rules n = length (cg_rules cat) - length (cg_rules cat') \<and>
    de_regions n = length (cg_regions cat) - length (cg_regions cat') \<and>
    de_games n = length (cg_games cat) - length (cg_games cat')"
proof -
  from assms obtain q where norm: "normalize_business_delete_catalog request = Inr q" and
    del: "delete_business_catalog same my q cat = Inr (n, cat')"
    by (auto simp: business_delete_catalog_def elim!: with_store_cases)
  from norm delete_business_catalog_removed [OF del, of 0] show ?thesis
    by (auto simp: removed_def removed_count [of "doomed_rule same q"] removed_count [of "doomed_region q"]
        removed_count [of "\<lambda>g. gm_game_id g \<in> set (nc_game_ids q)"])
qed

end
