(* ===== verification/Api_Candidates.thy ===== *)
theory Api_Candidates
  imports Api_Catalog_Log
begin

text \<open>
  The scheduler of \<open>control-api/src/main.rs\<close> on its tables: which node a connect intent is sold for,
  and the row that records the intent. A candidate is a rule of the game joined with its node and
  the node's latest report; the best one in the order of the query is taken, and where several
  are equally good MySQL's choice is a parameter (\<open>tie\<close>).
\<close>

section \<open>The latest report of a node\<close>

text \<open>\<open>ORDER BY reported_at DESC, id DESC LIMIT 1\<close>; rows stand in the order of their ids.\<close>

definition report_age_key :: "runtime_report_row \<Rightarrow> nat" where
  "report_age_key r = (case rr_reported_at r of None \<Rightarrow> 0 | Some t \<Rightarrow> Suc (unat t))"

definition latest_report :: "database \<Rightarrow> u64 \<Rightarrow> runtime_report_row option" where
  "latest_report db node_id =
     (case filter (\<lambda>r. rr_node_id r = node_id) (dt_reports db) of
        [] \<Rightarrow> None
      | r # rs \<Rightarrow>
          Some (foldl (\<lambda>best s. if report_age_key best \<le> report_age_key s then s else best) r rs))"

definition latest_reported_at :: "database \<Rightarrow> u64 \<Rightarrow> u64 option" where
  "latest_reported_at db node_id = Option.bind (latest_report db node_id) rr_reported_at"

section \<open>Candidates\<close>

definition node_available :: "node_row \<Rightarrow> bool" where
  "node_available n \<longleftrightarrow>
     nd_status n = ''online'' \<and> \<not> nd_disable_quic n \<and> is_some_and (\<lambda>s. s \<noteq> []) (nd_node_secret n)"

definition candidate_of ::
  "database \<Rightarrow> node_row \<Rightarrow> string \<Rightarrow> string \<Rightarrow> u64 option \<Rightarrow> string option \<Rightarrow> u32 \<Rightarrow> candidate_row"
where
  "candidate_of db n target_addr protocol region_id region_name priority =
     (let lr = latest_report db (nd_id n)
      in \<lparr>cw_node_id = nd_id n, cw_server_ip = nd_server_ip n, cw_server_port = nd_server_port n,
          cw_area = nd_area n, cw_tag = nd_tag n, cw_bandwidth_quality = nd_bandwidth_quality n,
          cw_node_secret = unwrap_or [] (nd_node_secret n), cw_target_addr = target_addr,
          cw_protocol = protocol, cw_region_id = region_id, cw_region_name = region_name,
          cw_route_priority = priority,
          cw_latest_active_sessions = map_option rr_active_sessions lr,
          cw_latest_udp_sessions = map_option rr_udp_sessions lr,
          cw_latest_tcp_sessions = map_option rr_tcp_sessions lr,
          cw_latest_reported_at = latest_reported_at db (nd_id n)\<rparr>)"

lemma candidate_of_fields [simp]:
  "cw_node_id (candidate_of db n t p r rn pr) = nd_id n"
  "cw_target_addr (candidate_of db n t p r rn pr) = t" "cw_protocol (candidate_of db n t p r rn pr) = p"
  "cw_node_secret (candidate_of db n t p r rn pr) = unwrap_or [] (nd_node_secret n)"
  by (simp_all add: candidate_of_def Let_def)

definition select_per_session_candidate ::
  "mysql \<Rightarrow> nat \<Rightarrow> database \<Rightarrow> business_per_session_route \<Rightarrow> (app_error, candidate_row option) result"
where
  "select_per_session_candidate my i db route =
     stmt my i (map_option (\<lambda>n. candidate_of db n (br_target_addr route) (br_protocol route)
         (br_region_id route) (br_region_name route) 0)
       (filter_option node_available (find_node (br_node_id route) db)))"

type_synonym candidate = "normalized_route_rule \<times> node_row"

definition eligible :: "connect_intent_request \<Rightarrow> candidate \<Rightarrow> bool" where
  "eligible r c \<longleftrightarrow>
     ru_game_id (fst c) = ci_game_id r \<and> ru_status (fst c) = ''enabled'' \<and> ru_protocol (fst c) = ''udp'' \<and>
     node_available (snd c) \<and> (ru_region_id (fst c) = ci_region_id r \<or> ru_region_id (fst c) = None)"

definition candidates :: "database \<Rightarrow> catalogue \<Rightarrow> connect_intent_request \<Rightarrow> candidate list" where
  "candidates db cat r =
     filter (eligible r) (List.map_filter (\<lambda>row.
       map_option (Pair (rl_rule row)) (find_node (ru_node_id (rl_rule row)) db)) (cg_rules cat))"

text \<open>The \<open>ORDER BY\<close> as a list of numbers, smaller first; without a region the first is left out.\<close>

definition rank :: "u64 \<Rightarrow> database \<Rightarrow> connect_intent_request \<Rightarrow> string \<Rightarrow> candidate \<Rightarrow> nat list" where
  "rank now db r quality c =
     (let n = snd c; lr = latest_report db (nd_id n)
      in (case ci_region_id r of
            None \<Rightarrow> []
          | Some region \<Rightarrow>
              [if ru_region_id (fst c) = Some region then 0
               else if ru_region_id (fst c) = None then 1 else 2]) @
         [if nd_bandwidth_quality n = quality then 0 else 1,
          case latest_reported_at db (nd_id n) of
            None \<Rightarrow> 1
          | Some t \<Rightarrow> if int (unat now) - int (unat t) > 90 then 1 else 0,
          unat (ru_priority (fst c)),
          unat (unwrap_or 0 (map_option rr_active_sessions lr)),
          unat (unwrap_or 0 (map_option rr_udp_sessions lr)),
          2 ^ 64 - (case nd_last_seen_at n of None \<Rightarrow> 0 | Some t \<Rightarrow> Suc (unat t)),
          unat (nd_id n)])"

fun lex_le :: "nat list \<Rightarrow> nat list \<Rightarrow> bool" where
  "lex_le [] ys = True"
| "lex_le (x # xs) [] = False"
| "lex_le (x # xs) (y # ys) = (x < y \<or> x = y \<and> lex_le xs ys)"

definition first_by :: "('c \<Rightarrow> nat list) \<Rightarrow> nat \<Rightarrow> 'c list \<Rightarrow> 'c option" where
  "first_by key tie cs =
     (let best = filter (\<lambda>c. list_all (\<lambda>d. lex_le (key c) (key d)) cs) cs
      in if best = [] then None else Some (best ! (tie mod length best)))"

definition select_candidate ::
  "mysql \<Rightarrow> nat \<Rightarrow> nat \<Rightarrow> database \<Rightarrow> catalogue \<Rightarrow> connect_intent_request \<Rightarrow> string \<Rightarrow>
   (app_error, candidate_row option) result"
where
  "select_candidate my i tie db cat r quality =
     stmt my i (map_option (\<lambda>(rule, n). candidate_of db n (ru_target_addr rule) (ru_protocol rule)
         (ru_region_id rule) (ru_region_name rule) (ru_priority rule))
       (first_by (rank (my_now my i) db r quality) tie (candidates db cat r)))"

section \<open>Intents\<close>

record connect_intent_row =
  ix_intent_id :: string
  ix_user_id :: u64
  ix_device_id :: string
  ix_game_id :: u64
  ix_region_id :: "u64 option"
  ix_node_id :: u64
  ix_target_addr :: string
  ix_protocol :: string
  ix_client_ip :: "string option"
  ix_client_isp :: "string option"
  ix_platform :: "string option"
  ix_bandwidth_quality :: string
  ix_expires_at :: u64

definition intent_row :: "string \<Rightarrow> connect_intent_request \<Rightarrow> candidate_row \<Rightarrow> u64 \<Rightarrow> connect_intent_row" where
  "intent_row intent_id r row expires_at =
     \<lparr>ix_intent_id = intent_id, ix_user_id = ci_user_id r, ix_device_id = ci_device_id r,
      ix_game_id = ci_game_id r, ix_region_id = ci_region_id r, ix_node_id = cw_node_id row,
      ix_target_addr = cw_target_addr row, ix_protocol = cw_protocol row,
      ix_client_ip = ci_client_ip r, ix_client_isp = ci_client_isp r, ix_platform = ci_platform r,
      ix_bandwidth_quality = unwrap_or (cw_bandwidth_quality row) (ci_bandwidth_quality r),
      ix_expires_at = expires_at\<rparr>"

lemma intent_row_fields [simp]:
  "ix_intent_id (intent_row i r row t) = i" "ix_user_id (intent_row i r row t) = ci_user_id r"
  "ix_device_id (intent_row i r row t) = ci_device_id r" "ix_node_id (intent_row i r row t) = cw_node_id row"
  "ix_expires_at (intent_row i r row t) = t"
  by (simp_all add: intent_row_def)

text \<open>Texts longer than their column are an error of the statement.\<close>

definition intent_fits :: "connect_intent_row \<Rightarrow> bool" where
  "intent_fits x \<longleftrightarrow>
     char_count (ix_intent_id x) \<le> 96 \<and> char_count (ix_device_id x) \<le> 128 \<and>
     char_count (ix_target_addr x) \<le> 255 \<and> \<not> is_some_and (\<lambda>s. 64 < char_count s) (ix_client_ip x) \<and>
     \<not> is_some_and (\<lambda>s. 64 < char_count s) (ix_client_isp x) \<and>
     \<not> is_some_and (\<lambda>s. 32 < char_count s) (ix_platform x)"

definition insert_connect_intent ::
  "collation \<Rightarrow> mysql \<Rightarrow> nat \<Rightarrow> database \<Rightarrow> connect_intent_row list intent_insert"
where
  "insert_connect_intent same my i db intents intent_id r row expires_at =
     bind_result (stmt my i (intent_row intent_id r row expires_at)) (\<lambda>x.
     bind_result (required_time my expires_at) (\<lambda>_.
     bind_result (foreign_key (ix_node_id x) db) (\<lambda>_.
     bind_result (ensure (intent_fits x) database_error) (\<lambda>_.
     bind_result (ensure (\<not> list_ex (\<lambda>y. same (ix_intent_id y) intent_id) intents) database_error) (\<lambda>_.
     Inr (intents @ [x]))))))"

text \<open>
  The tables as the database of \<open>Api_Connect\<close>. The candidate is read from \<open>seen\<close>, the intent is
  stored while the nodes are \<open>db\<close>: other requests may run in between.
\<close>

definition intent_tables ::
  "collation \<Rightarrow> mysql \<Rightarrow> nat \<Rightarrow> database \<Rightarrow> catalogue \<Rightarrow> database \<Rightarrow> connect_intent_row list intent_database"
where
  "intent_tables same my tie seen cat db =
     \<lparr>db_select_candidate = select_candidate my 0 tie seen cat,
      db_select_per_session = select_per_session_candidate my 0 seen,
      db_insert_intent = insert_connect_intent same my 1 db\<rparr>"

section \<open>The best candidate\<close>

lemma lex_le_refl [simp]: "lex_le xs xs"
  by (induction xs) auto

lemma lex_le_trans: "lex_le xs ys \<Longrightarrow> lex_le ys zs \<Longrightarrow> lex_le xs zs"
proof (induction xs ys arbitrary: zs rule: lex_le.induct)
  case (3 x xs y ys)
  then show ?case by (cases zs) auto
qed simp_all

lemma lex_le_total: "lex_le xs ys \<or> lex_le ys xs"
  by (induction xs ys rule: lex_le.induct) auto

lemma minimum_exists:
  "cs \<noteq> [] \<Longrightarrow> \<exists>c \<in> set cs. \<forall>d \<in> set cs. lex_le (key c) (key d)"
proof (induction cs)
  case (Cons c cs)
  show ?case
  proof (cases "cs = []")
    case False
    then obtain m where m: "m \<in> set cs" "\<forall>d \<in> set cs. lex_le (key m) (key d)" using Cons by blast
    then show ?thesis
      using lex_le_total [of "key c" "key m"] lex_le_trans by (metis lex_le_refl set_ConsD list.set_intros)
  qed simp
qed simp

lemma first_by_Some:
  "first_by key tie cs = Some c \<Longrightarrow> c \<in> set cs \<and> (\<forall>d \<in> set cs. lex_le (key c) (key d))"
proof -
  let ?best = "filter (\<lambda>c. list_all (\<lambda>d. lex_le (key c) (key d)) cs) cs"
  assume "first_by key tie cs = Some c"
  then have "?best \<noteq> []" "c = ?best ! (tie mod length ?best)"
    by (auto simp: first_by_def Let_def split: if_splits)
  then have "c \<in> set ?best" by (metis length_greater_0_conv mod_less_divisor nth_mem)
  then show ?thesis by (simp add: list_all_iff)
qed

lemma first_by_None: "first_by key tie cs = None \<longleftrightarrow> cs = []"
proof
  show "cs = []" if none: "first_by key tie cs = None"
  proof (rule ccontr)
    assume "cs \<noteq> []"
    then obtain c where "c \<in> set cs" "\<forall>d \<in> set cs. lex_le (key c) (key d)"
      using minimum_exists by blast
    then have "filter (\<lambda>c. list_all (\<lambda>d. lex_le (key c) (key d)) cs) cs \<noteq> []"
      by (auto simp: filter_empty_conv list_all_iff)
    with none show False by (simp add: first_by_def Let_def)
  qed
qed (simp add: first_by_def)

lemma set_candidates:
  "(rule, n) \<in> set (candidates db cat r) \<longleftrightarrow>
     eligible r (rule, n) \<and> (\<exists>row \<in> set (cg_rules cat). rl_rule row = rule) \<and>
     find_node (ru_node_id rule) db = Some n"
  by (force simp: candidates_def map_filter_def)

section \<open>What a ticket rests on\<close>

text \<open>The id of an intent always fits its column.\<close>

lemma intent_id_fits: "char_count (intent_id_of r now row) \<le> 96"
proof -
  have "length (intent_id_of r now row) = 10 + length (show_u64 (ci_user_id r)) +
      length (show_u64 (ci_game_id r)) + length (show_u64 now) + length (show_u64 (cw_node_id row))"
    by (simp add: intent_id_of_def)
  also have "\<dots> \<le> 10 + 20 + 20 + 20 + 20" by (intro add_mono show_u64_length order_refl)
  finally have "length (intent_id_of r now row) \<le> 96" by simp
  moreover have "char_count (intent_id_of r now row) \<le> length (intent_id_of r now row)"
    by (simp add: char_count_def)
  ultimately show ?thesis by (rule le_trans [rotated])
qed

lemma issued_row_stored:
  assumes "issue_connect_intent_for_row cx to_json ins store issued_at ttl_sec r context row mode
    binding quality = (Inr response, store')"
  shows "ins store (intent_id_of r issued_at row) r row (issued_at + ttl_sec) = Inr store' \<and>
    ir_intent_id response = intent_id_of r issued_at row \<and>
    (\<exists>c. ir_candidates response = [c] \<and> cn_node_id c = cw_node_id row)"
  using assms
  by (auto simp: issue_connect_intent_for_row_def Let_def split: if_splits elim!: with_store_cases)

lemma business_ticket_stored:
  assumes "business_connect_intent cx policy_json to_json db store sync checked_at now ttl hs r = (Inr k, store')"
  obtains route_opt row where "per_session_route cx policy_json r = Inr route_opt"
    "(case route_opt of
        Some route \<Rightarrow> db_select_per_session db route = Inr (Some row)
      | None \<Rightarrow> db_select_candidate db (to_connect_intent_request r)
          (requested_quality (to_connect_intent_request r)) = Inr (Some row))"
    "db_insert_intent db store (ak_ticket_id k) (to_connect_intent_request r) row (now + ttl) = Inr store'"
    "ak_ticket_id k = intent_id_of (to_connect_intent_request r) now row" "ak_node_id k = cw_node_id row"
proof -
  let ?r = "to_connect_intent_request r"
  from assms obtain route_opt response where
    route: "per_session_route cx policy_json r = Inr route_opt" and
    issued: "(case route_opt of
         Some route \<Rightarrow> issue_per_session_connect_intent cx to_json db store now ttl ?r
             (Some (auth_context r)) route
       | None \<Rightarrow> issue_connect_intent cx to_json db store now ttl ?r (Some (auth_context r))) =
       (Inr response, store')" and
    k: "ticket_from_connect_intent response ?r (auth_context r) = Inr k"
    by (auto simp: business_connect_intent_def issue_business_ticket_def Let_def
        split: prod.splits elim!: with_store_cases)
  from issued obtain row mode where
    row: "(case route_opt of
        Some route \<Rightarrow> db_select_per_session db route = Inr (Some row)
      | None \<Rightarrow> db_select_candidate db ?r (requested_quality ?r) = Inr (Some row))" and
    signed_row: "issue_connect_intent_for_row cx to_json (db_insert_intent db) store now ttl ?r
       (Some (auth_context r)) row mode (Option.bind route_opt br_route_policy) (requested_quality ?r) =
       (Inr response, store')"
    by (cases route_opt) (auto simp: issue_per_session_connect_intent_def issue_connect_intent_def
        elim!: with_store_cases)
  note stored = issued_row_stored [OF signed_row]
  from k stored have "ak_ticket_id k = intent_id_of ?r now row" "ak_node_id k = cw_node_id row"
    by (auto simp: ticket_from_connect_intent_def first_of_def)
  with stored show ?thesis by (intro that [OF route row]) simp_all
qed

lemma insert_connect_intent_Inr [simp]:
  "insert_connect_intent same my i db intents intent_id r row expires_at = Inr intents' \<longleftrightarrow>
     my_fault my i = Inr () \<and> my_from_unixtime my expires_at \<noteq> None \<and>
     find_node (cw_node_id row) db \<noteq> None \<and> intent_fits (intent_row intent_id r row expires_at) \<and>
     \<not> list_ex (\<lambda>y. same (ix_intent_id y) intent_id) intents \<and>
     intents' = intents @ [intent_row intent_id r row expires_at]"
  by (auto simp: insert_connect_intent_def)

lemma Some_map_option: "Some y = map_option f x \<longleftrightarrow> (\<exists>z. x = Some z \<and> y = f z)"
  by (cases x) auto

lemma find_node_id: "find_node node_id db = Some n \<Longrightarrow> nd_id n = node_id"
  unfolding find_node_def by (drule find_Some_set) simp

lemma selected_node_available:
  assumes "select_candidate my i tie db cat r quality = Inr (Some row)"
  shows "\<exists>n. find_node (cw_node_id row) db = Some n \<and> node_available n \<and> nd_node_secret n = Some (cw_node_secret row)"
proof -
  from assms obtain rule n where best: "(rule, n) \<in> set (candidates db cat r)" and
    row: "row = candidate_of db n (ru_target_addr rule) (ru_protocol rule)
         (ru_region_id rule) (ru_region_name rule) (ru_priority rule)"
    by (auto simp: select_candidate_def Some_map_option dest!: first_by_Some)
  then show ?thesis
    using find_node_id
    by (cases "nd_node_secret n") (auto simp: set_candidates eligible_def candidate_of_def node_available_def Let_def)
qed

lemma per_session_node_available:
  assumes "select_per_session_candidate my i db route = Inr (Some row)"
  shows "\<exists>n. find_node (br_node_id route) db = Some n \<and> node_available n \<and>
    cw_node_id row = br_node_id route \<and> cw_target_addr row = br_target_addr route \<and>
    cw_protocol row = br_protocol route \<and> nd_node_secret n = Some (cw_node_secret row)"
proof -
  from assms obtain n where n: "find_node (br_node_id route) db = Some n" "node_available n" and
    row: "row = candidate_of db n (br_target_addr route) (br_protocol route) (br_region_id route)
      (br_region_name route) 0"
    by (auto simp: select_per_session_candidate_def Some_map_option filter_option_Some_iff)
  have "nd_node_secret n = Some (unwrap_or [] (nd_node_secret n))"
    using n(2) by (cases "nd_node_secret n") (simp_all add: node_available_def)
  then show ?thesis using n find_node_id [OF n(1)] unfolding row candidate_of_fields by blast
qed

section \<open>What the query asks for\<close>

text \<open>
  The specification of the query, which shares no definition with the selection: which pairs of a
  rule and a node it joins, which report of a node counts, and which pair comes first.
\<close>

definition offers :: "database \<Rightarrow> catalogue \<Rightarrow> connect_intent_request \<Rightarrow> normalized_route_rule \<Rightarrow> node_row \<Rightarrow> bool" where
  "offers db cat r rule n \<longleftrightarrow>
     (\<exists>row \<in> set (cg_rules cat). rl_rule row = rule) \<and> find_node (ru_node_id rule) db = Some n \<and>
     ru_game_id rule = ci_game_id r \<and> ru_status rule = ''enabled'' \<and> ru_protocol rule = ''udp'' \<and>
     (ru_region_id rule = None \<or> ru_region_id rule = ci_region_id r) \<and>
     nd_status n = ''online'' \<and> \<not> nd_disable_quic n \<and>
     (\<exists>secret. nd_node_secret n = Some secret \<and> secret \<noteq> [])"

text \<open>No time is before every time, as MySQL sorts \<open>NULL\<close>.\<close>

definition time_order :: "u64 option \<Rightarrow> nat" where
  "time_order t = (case t of None \<Rightarrow> 0 | Some t \<Rightarrow> Suc (unat t))"

definition report_time :: "runtime_report_row \<Rightarrow> nat" where
  "report_time rep = time_order (rr_reported_at rep)"

text \<open>\<open>newest db lr\<close>: \<open>lr\<close> gives each node's last report, the later row of two of one time.\<close>

definition newest :: "database \<Rightarrow> (u64 \<Rightarrow> runtime_report_row option) \<Rightarrow> bool" where
  "newest db lr \<longleftrightarrow>
     (\<forall>node. case lr node of
        None \<Rightarrow> \<forall>rep \<in> set (dt_reports db). rr_node_id rep \<noteq> node
      | Some rep \<Rightarrow> rr_node_id rep = node \<and>
          (\<exists>before later. dt_reports db = before @ rep # later \<and>
             (\<forall>q \<in> set before. rr_node_id q = node \<longrightarrow> report_time q \<le> report_time rep) \<and>
             (\<forall>q \<in> set later. rr_node_id q = node \<longrightarrow> report_time q < report_time rep)))"

text \<open>
  The order, criterion by criterion: the requested region before no region, the requested quality,
  a report of the last 90 seconds, the smaller priority, fewer active sessions, fewer UDP
  sessions, the later contact, the smaller id.
\<close>

definition sorts_first ::
  "u64 \<Rightarrow> (u64 \<Rightarrow> runtime_report_row option) \<Rightarrow> connect_intent_request \<Rightarrow> string \<Rightarrow>
   normalized_route_rule \<Rightarrow> node_row \<Rightarrow> normalized_route_rule \<Rightarrow> node_row \<Rightarrow> bool"
where
  "sorts_first now lr r quality rule n rule' n' \<longleftrightarrow>
     (let exact = (\<lambda>rule. ru_region_id rule = ci_region_id r);
          wanted = (\<lambda>n. nd_bandwidth_quality n = quality);
          fresh = (\<lambda>n. \<exists>rep t. lr (nd_id n) = Some rep \<and> rr_reported_at rep = Some t \<and>
            unat now \<le> unat t + 90);
          load = (\<lambda>f n. case lr (nd_id n) of None \<Rightarrow> 0 | Some rep \<Rightarrow> unat (f rep :: u32));
          seen = (\<lambda>n. time_order (nd_last_seen_at n))
      in exact rule \<and> \<not> exact rule' \<or> (exact rule \<longleftrightarrow> exact rule') \<and> (
         wanted n \<and> \<not> wanted n' \<or> (wanted n \<longleftrightarrow> wanted n') \<and> (
         fresh n \<and> \<not> fresh n' \<or> (fresh n \<longleftrightarrow> fresh n') \<and> (
         unat (ru_priority rule) < unat (ru_priority rule') \<or> ru_priority rule = ru_priority rule' \<and> (
         load rr_active_sessions n < load rr_active_sessions n' \<or>
           load rr_active_sessions n = load rr_active_sessions n' \<and> (
         load rr_udp_sessions n < load rr_udp_sessions n' \<or>
           load rr_udp_sessions n = load rr_udp_sessions n' \<and> (
         seen n > seen n' \<or> seen n = seen n' \<and> unat (nd_id n) \<le> unat (nd_id n'))))))))"

lemma offers_candidates: "(rule, n) \<in> set (candidates db cat r) \<longleftrightarrow> offers db cat r rule n"
  by (cases "nd_node_secret n") (auto simp: set_candidates offers_def eligible_def node_available_def)

lemma report_age_time: "report_age_key q \<le> report_age_key rep \<longleftrightarrow> report_time q \<le> report_time rep"
  by (simp add: report_age_key_def report_time_def time_order_def)

lemma last_of_best:
  fixes rs :: "runtime_report_row list"
  defines "later \<equiv> \<lambda>best s. if report_age_key best \<le> report_age_key s then s else best"
  shows "\<exists>before after. r # rs = before @ foldl later r rs # after \<and>
     (\<forall>q \<in> set before. report_time q \<le> report_time (foldl later r rs)) \<and>
     (\<forall>q \<in> set after. report_time q < report_time (foldl later r rs))"
proof (induction rs rule: rev_induct)
  case (snoc x rs)
  let ?b = "foldl later r rs"
  obtain before after where IH: "r # rs = before @ ?b # after"
    "\<forall>q \<in> set before. report_time q \<le> report_time ?b" "\<forall>q \<in> set after. report_time q < report_time ?b"
    using snoc by blast
  show ?case
  proof (cases "report_time ?b \<le> report_time x")
    case True
    then have "foldl later r (rs @ [x]) = x" by (simp add: later_def report_age_time)
    moreover have "\<forall>q \<in> set (r # rs). report_time q \<le> report_time x"
      unfolding IH(1) using IH(2,3) True by fastforce
    ultimately show ?thesis by (intro exI [of _ "r # rs"] exI [of _ "[]"]) simp
  next
    case False
    then have "foldl later r (rs @ [x]) = ?b" by (simp add: later_def report_age_time)
    then show ?thesis
      using IH False by (intro exI [of _ before] exI [of _ "after @ [x]"]) auto
  qed
qed (auto intro!: exI [of _ "[]"])

lemma filter_split_Cons:
  assumes "filter p xs = before @ y # after"
  shows "\<exists>xs1 xs2. xs = xs1 @ y # xs2 \<and> filter p xs1 = before \<and> filter p xs2 = after \<and> p y"
  using assms
proof (induction xs arbitrary: before)
  case (Cons x xs)
  show ?case
  proof (cases "p x \<and> before = []")
    case True
    then show ?thesis using Cons.prems by (intro exI [of _ "[]"] exI [of _ xs]) auto
  next
    case False
    then obtain before' where b: "before = filter p [x] @ before'" "filter p xs = before' @ y # after"
      using Cons.prems by (cases before) (auto split: if_splits)
    then obtain xs1 xs2 where "xs = xs1 @ y # xs2" "filter p xs1 = before'" "filter p xs2 = after" "p y"
      using Cons.IH by blast
    then show ?thesis using b by (intro exI [of _ "x # xs1"] exI [of _ xs2]) auto
  qed
qed simp

lemma latest_report_newest: "newest db (latest_report db)"
  unfolding newest_def
proof
  fix node
  show "case latest_report db node of
        None \<Rightarrow> \<forall>rep \<in> set (dt_reports db). rr_node_id rep \<noteq> node
      | Some rep \<Rightarrow> rr_node_id rep = node \<and>
          (\<exists>before later. dt_reports db = before @ rep # later \<and>
             (\<forall>q \<in> set before. rr_node_id q = node \<longrightarrow> report_time q \<le> report_time rep) \<and>
             (\<forall>q \<in> set later. rr_node_id q = node \<longrightarrow> report_time q < report_time rep))"
  proof (cases "filter (\<lambda>r. rr_node_id r = node) (dt_reports db)")
    case Nil
    then show ?thesis by (simp add: latest_report_def filter_empty_conv)
  next
    case (Cons r rs)
    define rep where "rep = foldl (\<lambda>best s. if report_age_key best \<le> report_age_key s then s else best) r rs"
    have rep: "latest_report db node = Some rep" by (simp add: latest_report_def Cons rep_def)
    obtain before after where split: "r # rs = before @ rep # after"
      "\<forall>q \<in> set before. report_time q \<le> report_time rep" "\<forall>q \<in> set after. report_time q < report_time rep"
      unfolding rep_def using last_of_best [of r rs] by blast
    obtain xs1 xs2 where xs: "dt_reports db = xs1 @ rep # xs2" "rr_node_id rep = node"
      and parts: "filter (\<lambda>r. rr_node_id r = node) xs1 = before" "filter (\<lambda>r. rr_node_id r = node) xs2 = after"
      using filter_split_Cons [OF Cons [unfolded split(1)]] by blast
    have "\<forall>q \<in> set xs1. rr_node_id q = node \<longrightarrow> report_time q \<le> report_time rep"
      "\<forall>q \<in> set xs2. rr_node_id q = node \<longrightarrow> report_time q < report_time rep"
      using split(2,3) unfolding parts [symmetric] by simp_all
    then show ?thesis
      using xs unfolding rep option.case by blast
  qed
qed

lemma time_order_bound: "time_order t \<le> 2 ^ 64"
  using unsigned_less [of "the t"] by (cases t) (auto simp: time_order_def Suc_le_eq)

lemma later_first:
  "2 ^ 64 - time_order a < 2 ^ 64 - time_order b \<longleftrightarrow> time_order b < time_order a"
  "2 ^ 64 - time_order a = 2 ^ 64 - time_order b \<longleftrightarrow> time_order a = time_order b"
  using time_order_bound [of a] time_order_bound [of b] by arith+

lemma fresh_rank:
  "(case latest_reported_at db node of None \<Rightarrow> 1
     | Some t \<Rightarrow> if int (unat now) - int (unat t) > 90 then 1 else (0 :: nat)) =
   (if \<exists>rep t. latest_report db node = Some rep \<and> rr_reported_at rep = Some t \<and> unat now \<le> unat t + 90
    then 0 else 1)"
proof -
  have "int (unat now) - int (unat t) > 90 \<longleftrightarrow> \<not> unat now \<le> unat t + 90" for t :: u64 by linarith
  then show ?thesis
    by (cases "latest_report db node")
      (auto simp: latest_reported_at_def simp del: int_nat_eq split: option.splits)
qed

lemma load_rank:
  "unat (unwrap_or 0 (map_option f lr)) = (case lr of None \<Rightarrow> 0 | Some rep \<Rightarrow> unat (f rep :: u32))"
  by (cases lr) simp_all

lemma lex_le_Cons: "lex_le (x # xs) (y # ys) \<longleftrightarrow> x < y \<or> x = y \<and> lex_le xs ys"
  by simp

lemma flag_order:
  "(if p then 0 else 1) < (if q then 0 else (1 :: nat)) \<longleftrightarrow> p \<and> \<not> q"
  "(if p then 0 else 1) = (if q then 0 else (1 :: nat)) \<longleftrightarrow> (p \<longleftrightarrow> q)"
  by simp_all

lemma rank_sorts_first:
  assumes "offers db cat r rule n" "offers db cat r rule' n'"
  shows "lex_le (rank now db r quality (rule, n)) (rank now db r quality (rule', n')) \<longleftrightarrow>
    sorts_first now (latest_report db) r quality rule n rule' n'"
proof -
  have region: "ru_region_id rule = None \<or> ru_region_id rule = ci_region_id r"
    "ru_region_id rule' = None \<or> ru_region_id rule' = ci_region_id r"
    using assms by (auto simp: offers_def)
  have id: "lex_le [unat (nd_id n)] [unat (nd_id n')] \<longleftrightarrow> unat (nd_id n) \<le> unat (nd_id n')" by auto
  have priority: "unat (ru_priority rule) = unat (ru_priority rule') \<longleftrightarrow> ru_priority rule = ru_priority rule'"
    by (rule word_unat_eq_iff [symmetric])
  note lists = rank_def Let_def fst_conv snd_conv fresh_rank load_rank time_order_def [symmetric]
    append.simps lex_le_Cons [of _ "_ # _" _ "_ # _"] id flag_order later_first priority sorts_first_def
  show ?thesis
  proof (cases "ci_region_id r")
    case None
    then have "ru_region_id rule = None" "ru_region_id rule' = None" using region by auto
    then show ?thesis using None by (simp only: lists option.case simp_thms)
  next
    case (Some region)
    have exact: "(if ru_region_id x = Some region then 0 else if ru_region_id x = None then 1 else 2) =
        (if ru_region_id x = Some region then 0 else (1 :: nat))" if "ru_region_id x = None \<or> ru_region_id x = Some region" for x
      using that by auto
    show ?thesis
      using exact [of rule] exact [of rule'] region unfolding Some
      by (simp only: lists option.case Some)
  qed
qed

section \<open>Properties\<close>


text \<open>
  C5. Every ticket is for a node in service and is on record. When the business endpoint issues a
  ticket, the node it names was online with a secret and QUIC enabled in the tables it was
  chosen from, still existed when the intent was stored, and the only change of the intents is
  one new row: the ticket's id, user, device, node and expiry.
\<close>

theorem ticket_recorded:
  assumes "business_connect_intent cx policy_json to_json (intent_tables same my tie seen cat db) intents
    sync checked_at now ttl hs r = (Inr k, intents')"
  shows "\<exists>n x. find_node (ak_node_id k) seen = Some n \<and> node_available n \<and>
    find_node (ak_node_id k) db \<noteq> None \<and> intents' = intents @ [x] \<and>
    ix_intent_id x = ak_ticket_id k \<and> ix_user_id x = bi_user_id r \<and> ix_device_id x = bi_device_id r \<and>
    ix_node_id x = ak_node_id k \<and> ix_expires_at x = now + ttl"
proof -
  from assms obtain route_opt row where
    row: "(case route_opt of
        Some route \<Rightarrow> db_select_per_session (intent_tables same my tie seen cat db) route = Inr (Some row)
      | None \<Rightarrow> db_select_candidate (intent_tables same my tie seen cat db) (to_connect_intent_request r)
          (requested_quality (to_connect_intent_request r)) = Inr (Some row))" and
    stored: "db_insert_intent (intent_tables same my tie seen cat db) intents (ak_ticket_id k)
       (to_connect_intent_request r) row (now + ttl) = Inr intents'" and
    k: "ak_node_id k = cw_node_id row"
    by (rule business_ticket_stored)
  have "\<exists>n. find_node (cw_node_id row) seen = Some n \<and> node_available n"
    using row selected_node_available per_session_node_available
    by (auto simp: intent_tables_def split: option.splits) fastforce+
  with stored show ?thesis
    by (auto simp: k intent_tables_def to_connect_intent_request_def)
qed

text \<open>
  C8. A second ticket of the same user, game and node in the same second is refused: once the intent of
  a ticket is on record, no later request of that second, whatever its device or route, obtains
  a ticket for the same user, game and node, because the id of an intent carries nothing else.
\<close>

theorem same_second_refused:
  assumes "equivp same"
    and "business_connect_intent cx policy_json to_json (intent_tables same my tie seen cat db) intents
      sync checked_at now ttl hs r = (Inr k, intents1)"
    and "set intents1 \<subseteq> set intents2" and "bi_user_id r' = bi_user_id r" "bi_game_id r' = bi_game_id r"
  shows "\<forall>k'. fst (business_connect_intent cx policy_json' to_json' (intent_tables same my' tie' seen' cat' db')
      intents2 sync' checked_at' now ttl' hs' r') = Inr k' \<longrightarrow> ak_node_id k' \<noteq> ak_node_id k"
proof (intro allI impI notI)
  fix k'
  assume "fst (business_connect_intent cx policy_json' to_json' (intent_tables same my' tie' seen' cat' db')
      intents2 sync' checked_at' now ttl' hs' r') = Inr k'" and node: "ak_node_id k' = ak_node_id k"
  then obtain intents3 where later: "business_connect_intent cx policy_json' to_json'
      (intent_tables same my' tie' seen' cat' db') intents2 sync' checked_at' now ttl' hs' r' = (Inr k', intents3)"
    by (metis prod.collapse)
  obtain row where row: "db_insert_intent (intent_tables same my tie seen cat db) intents (ak_ticket_id k)
       (to_connect_intent_request r) row (now + ttl) = Inr intents1"
    "ak_ticket_id k = intent_id_of (to_connect_intent_request r) now row" "ak_node_id k = cw_node_id row"
    using assms(2) by (rule business_ticket_stored)
  obtain row' where row': "db_insert_intent (intent_tables same my' tie' seen' cat' db') intents2 (ak_ticket_id k')
       (to_connect_intent_request r') row' (now + ttl') = Inr intents3"
    "ak_ticket_id k' = intent_id_of (to_connect_intent_request r') now row'" "ak_node_id k' = cw_node_id row'"
    using later by (rule business_ticket_stored)
  have "ak_ticket_id k' = ak_ticket_id k"
    using row(2,3) row'(2,3) node assms(4,5) by (simp add: intent_id_of_def to_connect_intent_request_def)
  moreover have "\<exists>x \<in> set intents2. ix_intent_id x = ak_ticket_id k"
    using row(1) assms(3) by (intro bexI [where x = "last intents1"]) (auto simp: intent_tables_def)
  ultimately show False
    using row'(1) collation_laws(1) [OF assms(1)] by (auto simp: intent_tables_def list_ex_iff)
qed

section \<open>A synchronised rule is sold\<close>

lemma fold_overwrite_only:
  assumes table: "upsert_table dup over"
    and "x \<in> set xs" "dup x r" "\<And>y. y \<in> set xs \<Longrightarrow> dup y r \<Longrightarrow> y = x"
  shows "fold (overwrite dup over) xs r = over x r"
  using assms(2-4)
proof (induction xs arbitrary: r)
  case (Cons y ys)
  have key: "dup z (over x r) \<longleftrightarrow> dup z r" and again: "over x (over x r) = over x r" for z
    using Cons.prems(2) upsert_table.key_kept [OF table] upsert_table.last_wins [OF table] by blast+
  show ?case
  proof (cases "dup y r")
    case True
    then have first: "overwrite dup over y r = over x r" using Cons.prems(3) [of y] by (simp add: overwrite_def)
    have "fold (overwrite dup over) ys (over x r) = over x r"
    proof (cases "x \<in> set ys")
      case True
      have "fold (overwrite dup over) ys (over x r) = over x (over x r)"
        by (rule Cons.IH [OF True]) (simp add: key Cons.prems(2), rule Cons.prems(3), simp_all add: key)
      then show ?thesis by (simp only: again)
    next
      case False
      then have "overwrite dup over z (over x r) = over x r" if "z \<in> set ys" for z
        using that Cons.prems(3) [of z] by (auto simp: overwrite_def key)
      then show ?thesis by (induction ys) auto
    qed
    then show ?thesis by (simp add: first)
  next
    case False
    then have rest: "x \<in> set ys" "overwrite dup over y r = r" using Cons.prems(1,2) by (auto simp: overwrite_def)
    have "fold (overwrite dup over) ys r = over x r"
      by (rule Cons.IH [OF rest(1) Cons.prems(2)]) (rule Cons.prems(3), simp_all)
    then show ?thesis by (simp add: rest(2))
  qed
qed simp

lemma synced_rule_present:
  assumes same: "equivp same" and normal: "catalog_normal c"
    and sync: "sync_business_catalog same my db c cat = Inr cat'"
    and rule: "rule \<in> set (sc_route_rules c)"
    and only: "\<And>q. q \<in> set (sc_route_rules c) \<Longrightarrow> same_external same q rule \<Longrightarrow> q = rule"
  shows "\<exists>row \<in> set (cg_rules cat'). rl_rule row = rule"
proof -
  obtain s2 s3 where run: "fold_result (upsert_business_route_rule same my db) (sc_route_rules c) s2 = Inr s3"
    and cat': "cat' = snd s3" using sync by (rule sync_tables)
  have "settled (rule_dup same) rule_over (sc_route_rules c) (cg_rules cat')"
    unfolding cat'
    by (rule fold_settled [OF run, where rows = "\<lambda>s. cg_rules (snd s)"])
      (use rule_step_settles [OF same normal] rule_table [OF same] in auto)
  then obtain row where row: "row \<in> set (cg_rules cat')" "rule_dup same rule row"
    "fold (overwrite (rule_dup same) rule_over) (sc_route_rules c) row = row"
    using rule unfolding settled_def by blast
  have "y = rule" if "y \<in> set (sc_route_rules c)" "rule_dup same y row" for y
    using that row(2) only same_external_shift [OF same, of "rl_rule row" y rule]
    by (simp add: rule_dup_def)
  then have "rule_over rule row = row"
    using fold_overwrite_only [OF rule_table [OF same] rule row(2)] row(3) by simp
  then have "rl_rule row = rule" by (metis rule_over_def route_rule_row.select_convs(2) route_rule_row.surjective route_rule_row.update_convs(2))
  with row(1) show ?thesis by blast
qed

text \<open>
  C7. What the business backend synchronises is sold. After a successful synchronisation, an enabled
  rule of it whose external id no other rule of the request has, and whose node is in service,
  makes its game connectable: a request for the game, in the rule's region or in any region when
  the rule has none, finds a candidate as soon as MySQL answers.
\<close>

theorem synced_rule_connectable:
  assumes "equivp same"
    and "business_sync_catalog cx same my sync_token hs request db cat = (Inr c, cat')"
    and "rule \<in> set (sc_route_rules c)" and "ru_status rule = ''enabled''"
    and "\<And>q. q \<in> set (sc_route_rules c) \<Longrightarrow> same_external same q rule \<Longrightarrow> q = rule"
    and "find_node (ru_node_id rule) seen = Some n" and "node_available n"
    and "ci_game_id r = ru_game_id rule" and "ru_region_id rule = ci_region_id r \<or> ru_region_id rule = None"
    and "my_fault my' i = Inr ()"
  shows "\<exists>row. select_candidate my' i tie seen cat' r quality = Inr (Some row)"
proof -
  from assms(2) have norm: "normalize_business_sync_catalog cx request = Inr c" and
    sync: "sync_business_catalog same my db c cat = Inr cat'"
    by (auto simp: business_sync_catalog_def elim!: with_store_cases)
  note normal = normalize_business_sync_catalog_normal [OF norm]
  have "\<exists>row \<in> set (cg_rules cat'). rl_rule row = rule"
    by (rule synced_rule_present [OF assms(1) normal sync assms(3)]) (rule assms(5))
  moreover have "ru_protocol rule = ''udp''"
    using normal assms(3) by (auto simp: catalog_normal_def rule_normal_def)
  ultimately have "(rule, n) \<in> set (candidates seen cat' r)"
    using assms(4,6-9) by (auto simp: set_candidates eligible_def)
  then have "candidates seen cat' r \<noteq> []" by auto
  then show ?thesis
    using assms(10) first_by_None [of "rank (my_now my' i) seen r quality" tie "candidates seen cat' r"]
    by (auto simp: select_candidate_def stmt_def)
qed

end
