(* ===== verification/Control_Plane.thy ===== *)
theory Control_Plane
  imports Node
begin

text \<open>
  \<open>node-core/src/control_plane.rs\<close>: the signed requests a node sends to its control plane, one
  tick of each of the three loops (handshake and report, configuration, tasks), and the
  conditions under which they run. The HTTP client, the JSON codecs, the file system and the
  shell are parameters; \<open>NONCE_COUNTER\<close> is threaded.
\<close>

section \<open>Signed requests\<close>

definition report_path :: string where "report_path = ''/api/node/v1/report''"
definition handshake_path :: string where "handshake_path = ''/api/node/v1/handshake''"
definition config_path :: string where "config_path = ''/api/node/v1/config''"
definition tasks_path :: string where "tasks_path = ''/api/node/v1/tasks''"

record signed_request =
  sr_body_sha256 :: string
  sr_signature :: string

definition canonical_request :: "string \<Rightarrow> string \<Rightarrow> string \<Rightarrow> string \<Rightarrow> string \<Rightarrow> string" where
  "canonical_request verb path timestamp nonce body_sha256 =
     verb @ [newline_byte] @ path @ [newline_byte] @ timestamp @ [newline_byte] @ nonce @
     [newline_byte] @ body_sha256"

definition sign_request ::
  "crypto \<Rightarrow> string \<Rightarrow> string \<Rightarrow> u64 \<Rightarrow> string \<Rightarrow> bytes \<Rightarrow> string \<Rightarrow> (string, signed_request) result"
where
  "sign_request cx verb path timestamp nonce body secret =
     (let body_sha256 = b64_encode cx (sha256 cx body);
          canonical = canonical_request verb path (show_u64 timestamp) nonce body_sha256
      in bind_result (ok_or ''failed to initialize HMAC signer'' (hmac_sha256 cx secret canonical))
           (\<lambda>mac. Inr \<lparr>sr_body_sha256 = body_sha256, sr_signature = b64_encode cx mac\<rparr>))"

definition next_nonce :: "u32 \<Rightarrow> u64 \<Rightarrow> u64 \<Rightarrow> string \<times> u64" where
  "next_nonce process_id timestamp ctr =
     (show_nat (unat process_id) @ ''-'' @ show_u64 timestamp @ ''-'' @ show_u64 ctr, ctr + 1)"

definition is_placeholder_panel_url :: "string \<Rightarrow> bool" where
  "is_placeholder_panel_url panel_url =
     contains (to_ascii_lowercase (trim panel_url)) ''api.example.com''"

definition trim_for_log :: "string \<Rightarrow> nat \<Rightarrow> string" where
  "trim_for_log value max_chars = take_chars max_chars value"

record http_request =
  rq_verb :: string
  rq_url :: string
  rq_headers :: "(string \<times> string) list"
  rq_body :: bytes

text \<open>No response, or a status and the body, unless reading the body fails.\<close>

datatype http_reply = Unreachable string | Responded u16 "string option"

definition is_success :: "u16 \<Rightarrow> bool" where
  "is_success status \<longleftrightarrow> 200 \<le> status \<and> status < 300"

definition reply_text :: "string option \<Rightarrow> string" where
  "reply_text body = unwrap_or ''failed to read response body'' body"

text \<open>\<open>signed_call\<close> signs and sends; \<open>json_body\<close> adds the content type.\<close>

record caller =
  ca_crypto :: crypto
  ca_process_id :: u32
  ca_send :: "http_request \<Rightarrow> http_reply"
  ca_node_id :: u64
  ca_panel_url :: string
  ca_secret :: string

definition signed_http_request ::
  "caller \<Rightarrow> string \<Rightarrow> string \<Rightarrow> bool \<Rightarrow> u64 \<Rightarrow> string \<Rightarrow> bytes \<Rightarrow> signed_request \<Rightarrow> http_request"
where
  "signed_http_request c verb path json_body timestamp nonce body sgn_req =
     \<lparr>rq_verb = verb, rq_url = ca_panel_url c @ path,
      rq_headers = (if json_body then [(''Content-Type'', ''application/json'')] else []) @
        [(''X-Node-Id'', show_u64 (ca_node_id c)), (''X-Node-Timestamp'', show_u64 timestamp),
         (''X-Node-Nonce'', nonce), (''X-Node-Body-Sha256'', sr_body_sha256 sgn_req),
         (''X-Node-Signature'', sr_signature sgn_req)],
      rq_body = body\<rparr>"

section \<open>Handshake\<close>

record node_handshake =
  nh_node_id :: u64
  nh_node_version :: string
  nh_os :: string
  nh_arch :: string
  nh_boot_id :: string
  nh_timestamp :: u64
  nh_nonce :: string
  nh_config_revision :: u64
  nh_listen_addr :: "string option"

record node_handshake_response =
  hr_status :: string
  hr_node_id :: u64
  hr_server_time :: u64
  hr_config_revision :: u64
  hr_min_node_version :: string

text \<open>\<open>boot_id\<close> is what reading the kernel's file gave.\<close>

definition read_boot_id :: "u32 \<Rightarrow> u64 \<Rightarrow> string option \<Rightarrow> string" where
  "read_boot_id process_id now boot_id =
     unwrap_or (''pid-'' @ show_nat (unat process_id) @ ''-'' @ show_u64 now) (nonempty_trimmed boot_id)"

text \<open>Clock: 0 stamps the request, 1 the boot id, 2 the outcome.\<close>

definition send_handshake ::
  "caller \<Rightarrow> (node_handshake \<Rightarrow> (string, bytes) result) \<Rightarrow> (string \<Rightarrow> node_handshake_response option) \<Rightarrow>
   string \<Rightarrow> string \<Rightarrow> string option \<Rightarrow> clock \<Rightarrow> runtime_state \<Rightarrow> u64 \<Rightarrow>
   (string, unit) result \<times> runtime_state \<times> u64"
where
  "send_handshake c to_json of_json os arch boot_id clk st ctr =
     (let timestamp = now_unix (clk 0);
          (nonce, ctr') = next_nonce (ca_process_id c) timestamp ctr;
          handshake =
            \<lparr>nh_node_id = ca_node_id c, nh_node_version = node_version, nh_os = os, nh_arch = arch,
             nh_boot_id = read_boot_id (ca_process_id c) (now_unix (clk 1)) boot_id,
             nh_timestamp = timestamp, nh_nonce = nonce, nh_config_revision = config_revision st,
             nh_listen_addr = map_option listen_endpoint (effective_network st)\<rparr>
      in case bind_result (map_err (\<lambda>_. ''failed to encode node handshake'') (to_json handshake)) (\<lambda>body.
           bind_result (sign_request (ca_crypto c) ''POST'' handshake_path timestamp nonce body (ca_secret c))
             (\<lambda>sgn_req. Inr (signed_http_request c ''POST'' handshake_path True timestamp nonce body sgn_req))) of
           Inl e \<Rightarrow> (Inl e, st, ctr')
         | Inr request \<Rightarrow>
             (case ca_send c request of
                Unreachable e \<Rightarrow>
                  (Inl e, update_stats (record_handshake_failure (now_unix (clk 2)) None e) st, ctr')
              | Responded status body \<Rightarrow>
                  if \<not> is_success status then
                    (let message = trim_for_log (reply_text body) 200
                     in (Inl (''handshake rejected: http '' @ show_u16 status @ '' '' @ message),
                         update_stats (record_handshake_failure (now_unix (clk 2)) (Some status) message) st,
                         ctr'))
                  else (case Option.bind body of_json of
                      None \<Rightarrow> (Inl ''failed to decode handshake response'', st, ctr')
                    | Some _ \<Rightarrow>
                        (Inr (), update_stats (record_handshake_success (now_unix (clk 2)) status) st,
                         ctr'))))"

section \<open>Reports\<close>

record node_report =
  np_node_id :: u64
  np_config_revision :: u64
  np_node_version :: string
  np_status :: string
  np_timestamp :: u64
  np_health :: health_snapshot

text \<open>Clock: 0 the report, 1 and 2 its health snapshot, 3 the request, 4 the outcome.\<close>

definition send_report ::
  "caller \<Rightarrow> (node_report \<Rightarrow> (string, bytes) result) \<Rightarrow> clock \<Rightarrow> runtime_state \<Rightarrow> u64 \<Rightarrow>
   (string, unit) result \<times> runtime_state \<times> u64"
where
  "send_report c to_json clk st0 ctr =
     (let (health, st) = health_snapshot_of (now_unix (clk 1)) (now_unix (clk 2)) st0;
          report =
            \<lparr>np_node_id = ca_node_id c, np_config_revision = config_revision st0,
             np_node_version = node_version, np_status = status_text (rs_status st0),
             np_timestamp = now_unix (clk 0), np_health = health\<rparr>
      in case map_err (\<lambda>_. ''failed to encode node report'') (to_json report) of
           Inl e \<Rightarrow> (Inl e, st, ctr)
         | Inr body \<Rightarrow>
             (let timestamp = now_unix (clk 3);
                  (nonce, ctr') = next_nonce (ca_process_id c) timestamp ctr
              in case sign_request (ca_crypto c) ''POST'' report_path timestamp nonce body (ca_secret c) of
                   Inl e \<Rightarrow> (Inl e, st, ctr')
                 | Inr sgn_req \<Rightarrow>
                     (case ca_send c
                        (signed_http_request c ''POST'' report_path True timestamp nonce body sgn_req) of
                        Unreachable e \<Rightarrow>
                          (Inl e, update_stats (record_control_failure (now_unix (clk 4)) None e) st, ctr')
                      | Responded status rbody \<Rightarrow>
                          if is_success status then
                            (Inr (), update_stats (record_control_success (now_unix (clk 4)) status) st, ctr')
                          else
                            (let message = trim_for_log (reply_text rbody) 200
                             in (Inl (''report rejected: http '' @ show_u16 status @ '' '' @ message),
                                 update_stats
                                   (record_control_failure (now_unix (clk 4)) (Some status) message) st,
                                 ctr')))))"

section \<open>Configuration\<close>

record node_config_response =
  ncr_config_revision :: u64
  ncr_network :: network_config

record config_files =
  cf_parse :: "string \<Rightarrow> (string, toml) result"
  cf_print :: "toml \<Rightarrow> (string, string) result"
  cf_path :: string

text \<open>
  A newer configuration is written to the configuration file before it is applied, and not
  applied when that fails. Clock: 0 the request, 1 the outcome.
\<close>

definition install_config ::
  "'fs file_system \<Rightarrow> config_files \<Rightarrow> u64 \<Rightarrow> u16 \<Rightarrow> node_config_response \<Rightarrow> runtime_state \<Rightarrow> 'fs \<Rightarrow>
   (string, unit) result \<times> runtime_state \<times> 'fs"
where
  "install_config fsys files now status remote st fs =
     (let (persisted, fs') =
        (if config_revision st < ncr_config_revision remote then
           persist_remote_network_config fsys (cf_parse files) (cf_print files) (cf_path files)
             (ncr_config_revision remote) (ncr_network remote) fs
         else (Inr (), fs))
      in case persisted of
           Inl e \<Rightarrow>
             (let message = ''failed to persist remote node config: '' @ e
              in (Inl message, update_stats (record_config_failure now (Some status) message) st, fs'))
         | Inr _ \<Rightarrow>
             (Inr (), update_stats (record_config_success now status)
                (snd (apply_remote_network_config (ncr_config_revision remote) (ncr_network remote) st)), fs'))"

definition fetch_and_apply_config ::
  "caller \<Rightarrow> (string \<Rightarrow> node_config_response option) \<Rightarrow> 'fs file_system \<Rightarrow> config_files \<Rightarrow> clock \<Rightarrow>
   runtime_state \<Rightarrow> u64 \<Rightarrow> 'fs \<Rightarrow> (string, unit) result \<times> runtime_state \<times> u64 \<times> 'fs"
where
  "fetch_and_apply_config c of_json fsys files clk st ctr fs =
     (let timestamp = now_unix (clk 0);
          (nonce, ctr') = next_nonce (ca_process_id c) timestamp ctr
      in case sign_request (ca_crypto c) ''GET'' config_path timestamp nonce [] (ca_secret c) of
           Inl e \<Rightarrow> (Inl e, st, ctr', fs)
         | Inr sgn_req \<Rightarrow>
             (case ca_send c (signed_http_request c ''GET'' config_path False timestamp nonce [] sgn_req) of
                Unreachable _ \<Rightarrow> (Inl ''config request failed'', st, ctr', fs)
              | Responded status body \<Rightarrow>
                  if \<not> is_success status then
                    (Inl (''config sync rejected: http '' @ show_u16 status @ '' '' @
                       trim_for_log (reply_text body) 200), st, ctr', fs)
                  else (case Option.bind body of_json of
                      None \<Rightarrow> (Inl ''failed to decode config response'', st, ctr', fs)
                    | Some remote \<Rightarrow>
                        (case install_config fsys files (now_unix (clk 1)) status remote st fs of
                           (r, st', fs') \<Rightarrow> (r, st', ctr', fs')))))"

text \<open>One turn of \<open>run_config_loop\<close>: a failure is counted. Clock: 2 that count.\<close>

definition config_tick ::
  "caller \<Rightarrow> (string \<Rightarrow> node_config_response option) \<Rightarrow> 'fs file_system \<Rightarrow> config_files \<Rightarrow> clock \<Rightarrow>
   runtime_state \<Rightarrow> u64 \<Rightarrow> 'fs \<Rightarrow> runtime_state \<times> u64 \<times> 'fs"
where
  "config_tick c of_json fsys files clk st ctr fs =
     (case fetch_and_apply_config c of_json fsys files clk st ctr fs of
        (Inr _, st', ctr', fs') \<Rightarrow> (st', ctr', fs')
      | (Inl e, st', ctr', fs') \<Rightarrow>
          (update_stats (record_config_failure (now_unix (clk 2)) None e) st', ctr', fs'))"

section \<open>Tasks\<close>

record remote_node_task =
  tk_task_id :: u64
  tk_task_type :: string
  tk_status :: string
  tk_message :: "string option"

record node_tasks_response =
  tr_status :: string
  tr_node_id :: u64
  tr_tasks :: "remote_node_task list"

record node_task_result =
  nr_node_id :: u64
  nr_task_id :: u64
  nr_status :: string
  nr_message :: "string option"
  nr_output :: "string option"
  nr_started_at :: u64
  nr_finished_at :: u64

record task_execution =
  te_status :: string
  te_message :: string
  te_output :: "string option"

text \<open>\<open>sh -c\<close> either does not start, or ends with a status, successful or not.\<close>

type_synonym shell = "string \<Rightarrow> (string, bool \<times> string) result"

definition restart_command :: string where
  "restart_command = ''(sleep 2; systemctl restart xaccel-node >/dev/null 2>&1) &''"

definition schedule_node_restart :: "shell \<Rightarrow> (string, unit) result" where
  "schedule_node_restart sh =
     bind_result (map_err (\<lambda>_. ''failed to schedule xaccel-node restart'') (sh restart_command))
       (\<lambda>(ok, status). if ok then Inr () else Inl (''restart scheduler exited with status '' @ status))"

text \<open>The result and the commands given to the shell.\<close>

definition execute_remote_task ::
  "shell \<Rightarrow> remote_node_task \<Rightarrow> (string, task_execution) result \<times> string list"
where
  "execute_remote_task sh task =
     (if tk_status task \<noteq> ''running'' then
        (Inl (''task '' @ show_u64 (tk_task_id task) @ '' has unexpected status '' @ tk_status task), [])
      else if tk_task_type task = ''restart_node'' then
        (bind_result (schedule_node_restart sh) (\<lambda>_.
           Inr \<lparr>te_status = ''succeeded'',
                te_message = ''restart scheduled; xaccel-node will restart in about 2 seconds'',
                te_output = tk_message task\<rparr>), [restart_command])
      else (Inl (''unsupported task type: '' @ tk_task_type task), []))"

definition task_result_of ::
  "u64 \<Rightarrow> u64 \<Rightarrow> u64 \<Rightarrow> remote_node_task \<Rightarrow> (string, task_execution) result \<Rightarrow> node_task_result"
where
  "task_result_of node_id started finished task r =
     (case r of
        Inr ex \<Rightarrow>
          \<lparr>nr_node_id = node_id, nr_task_id = tk_task_id task, nr_status = te_status ex,
           nr_message = Some (te_message ex), nr_output = te_output ex,
           nr_started_at = started, nr_finished_at = finished\<rparr>
      | Inl e \<Rightarrow>
          \<lparr>nr_node_id = node_id, nr_task_id = tk_task_id task, nr_status = ''failed'',
           nr_message = Some (trim_for_log e 512), nr_output = None,
           nr_started_at = started, nr_finished_at = finished\<rparr>)"

definition task_result_path :: "u64 \<Rightarrow> string" where
  "task_result_path task_id = ''/api/node/v1/tasks/'' @ show_u64 task_id @ ''/result''"

definition send_task_result ::
  "caller \<Rightarrow> (node_task_result \<Rightarrow> (string, bytes) result) \<Rightarrow> u64 \<Rightarrow> node_task_result \<Rightarrow> u64 \<Rightarrow>
   (string, unit) result \<times> u64"
where
  "send_task_result c to_json timestamp result ctr =
     (case map_err (\<lambda>_. ''failed to encode task result'') (to_json result) of
        Inl e \<Rightarrow> (Inl e, ctr)
      | Inr body \<Rightarrow>
          (let (nonce, ctr') = next_nonce (ca_process_id c) timestamp ctr;
               path = task_result_path (nr_task_id result)
           in (bind_result (sign_request (ca_crypto c) ''POST'' path timestamp nonce body (ca_secret c))
                 (\<lambda>sgn_req.
               (case ca_send c (signed_http_request c ''POST'' path True timestamp nonce body sgn_req) of
                  Unreachable _ \<Rightarrow> Inl ''task result request failed''
                | Responded status rbody \<Rightarrow>
                    if is_success status then Inr ()
                    else Inl (''task result rejected: http '' @ show_u16 status @ '' '' @
                      trim_for_log (reply_text rbody) 200))), ctr')))"

text \<open>
  The tasks in turn; a result that cannot be sent ends the sweep. The trace has the commands
  run and the results posted. Clock, for task \<open>i\<close>: readings \<open>3 i + 1\<close> to \<open>3 i + 3\<close>.
\<close>

datatype task_event = RanShell string | PostedResult node_task_result

fun run_tasks ::
  "caller \<Rightarrow> (node_task_result \<Rightarrow> (string, bytes) result) \<Rightarrow> shell \<Rightarrow> clock \<Rightarrow> nat \<Rightarrow>
   remote_node_task list \<Rightarrow> u64 \<Rightarrow> (string, unit) result \<times> u64 \<times> task_event list"
where
  "run_tasks c to_json sh clk i [] ctr = (Inr (), ctr, [])"
| "run_tasks c to_json sh clk i (task # tasks) ctr =
     (let (r, commands) = execute_remote_task sh task;
          result = task_result_of (ca_node_id c) (now_unix (clk (3 * i + 1)))
            (now_unix (clk (3 * i + 2))) task r;
          (sent, ctr') = send_task_result c to_json (now_unix (clk (3 * i + 3))) result ctr;
          events = map RanShell commands @ [PostedResult result]
      in case sent of
           Inl e \<Rightarrow> (Inl e, ctr', events)
         | Inr _ \<Rightarrow>
             (case run_tasks c to_json sh clk (Suc i) tasks ctr' of
                (r', ctr'', events') \<Rightarrow> (r', ctr'', events @ events')))"

definition fetch_and_execute_tasks ::
  "caller \<Rightarrow> (string \<Rightarrow> node_tasks_response option) \<Rightarrow> (node_task_result \<Rightarrow> (string, bytes) result) \<Rightarrow>
   shell \<Rightarrow> clock \<Rightarrow> u64 \<Rightarrow> (string, unit) result \<times> u64 \<times> task_event list"
where
  "fetch_and_execute_tasks c of_json to_json sh clk ctr =
     (let timestamp = now_unix (clk 0);
          (nonce, ctr') = next_nonce (ca_process_id c) timestamp ctr
      in case sign_request (ca_crypto c) ''GET'' tasks_path timestamp nonce [] (ca_secret c) of
           Inl e \<Rightarrow> (Inl e, ctr', [])
         | Inr sgn_req \<Rightarrow>
             (case ca_send c (signed_http_request c ''GET'' tasks_path False timestamp nonce [] sgn_req) of
                Unreachable _ \<Rightarrow> (Inl ''task request failed'', ctr', [])
              | Responded status body \<Rightarrow>
                  if \<not> is_success status then
                    (Inl (''task sync rejected: http '' @ show_u16 status @ '' '' @
                       trim_for_log (reply_text body) 200), ctr', [])
                  else (case Option.bind body of_json of
                      None \<Rightarrow> (Inl ''failed to decode task response'', ctr', [])
                    | Some payload \<Rightarrow>
                        if tr_status payload \<noteq> ''ok'' then
                          (Inl (''task response status is '' @ tr_status payload), ctr', [])
                        else if tr_node_id payload \<noteq> ca_node_id c then
                          (Inl ''task response node_id mismatch'', ctr', [])
                        else run_tasks c to_json sh clk 0 (tr_tasks payload) ctr')))"

section \<open>Starting the loops\<close>

record control_loops =
  cl_node_id :: u64
  cl_panel_url :: string
  cl_secret :: string
  cl_report_interval_sec :: u64
  cl_config_poll_interval_sec :: u64
  cl_task_poll_interval_sec :: u64

definition spawn_control_plane :: "runtime_state \<Rightarrow> control_loops option" where
  "spawn_control_plane st =
     (case nc_control (rs_config st) of
        None \<Rightarrow> None
      | Some control \<Rightarrow>
          if \<not> cc_enabled control then None
          else (case control_plane_credentials (rs_identity st) of
              None \<Rightarrow> None
            | Some (node_id, panel_url, node_secret) \<Rightarrow>
                if is_placeholder_panel_url panel_url then None
                else
                  (let poll = max (cc_config_poll_interval_sec control) 5
                   in Some
                     \<lparr>cl_node_id = node_id, cl_panel_url = trim_end_matches (CHR ''/'') panel_url,
                      cl_secret = node_secret,
                      cl_report_interval_sec =
                        max (unwrap_or 30 (map_option rp_interval_sec (nc_report (rs_config st)))) 5,
                      cl_config_poll_interval_sec = poll,
                      cl_task_poll_interval_sec = max poll 5\<rparr>)))"

section \<open>Properties of the operations\<close>

lemma dash_not_in_nat: "CHR ''-'' \<notin> set (show_nat n)"
  by (rule show_nat_avoids) (simp add: code_of_def)

text \<open>A nonce determines its counter.\<close>

lemma next_nonce_counter:
  assumes "fst (next_nonce p t n) = fst (next_nonce p' t' m)"
  shows "n = m"
proof -
  let ?l = "\<lambda>p t. show_nat (unat p) @ ''-'' @ show_u64 t"
  have shape: "fst (next_nonce p t n) = ?l p t @ CHR ''-'' # show_u64 n" for p t n
    by (simp add: next_nonce_def)
  have "show_u64 n = show_u64 m"
    by (rule last_field_unique [OF assms [unfolded shape] dash_not_in_number dash_not_in_number])
  then show ?thesis by (auto simp: show_u64_def intro: unsigned_word_eqI)
qed

lemma execute_remote_task_commands:
  "execute_remote_task sh task = (r, commands) \<Longrightarrow> cmd \<in> set commands \<Longrightarrow>
   cmd = restart_command \<and> tk_status task = ''running'' \<and> tk_task_type task = ''restart_node''"
  by (auto simp: execute_remote_task_def split: if_splits)

lemma execute_remote_task_succeeds:
  "execute_remote_task sh task = (Inr ex, commands) \<Longrightarrow>
   commands = [restart_command] \<and> (\<exists>s. sh restart_command = Inr (True, s)) \<and> te_status ex = ''succeeded''"
  by (auto simp: execute_remote_task_def schedule_node_restart_def split: if_splits)

lemma run_tasks_shell:
  "run_tasks c to_json sh clk i tasks ctr = (r, ctr', events) \<Longrightarrow> RanShell cmd \<in> set events \<Longrightarrow>
   cmd = restart_command \<and>
   (\<exists>task \<in> set tasks. tk_status task = ''running'' \<and> tk_task_type task = ''restart_node'')"
proof (induction tasks arbitrary: i ctr r ctr' events)
  case (Cons task tasks)
  then show ?case
    by (auto simp: Let_def split: prod.splits sum.splits dest!: execute_remote_task_commands) blast+
qed simp

fun posted_ids :: "task_event list \<Rightarrow> u64 list" where
  "posted_ids [] = []"
| "posted_ids (RanShell cmd # es) = posted_ids es"
| "posted_ids (PostedResult r # es) = nr_task_id r # posted_ids es"

lemma posted_ids_append [simp]: "posted_ids (xs @ ys) = posted_ids xs @ posted_ids ys"
  by (induction xs rule: posted_ids.induct) simp_all

lemma posted_ids_commands [simp]: "posted_ids (map RanShell cmds) = []"
  by (induction cmds) simp_all

lemma task_result_of_id [simp]: "nr_task_id (task_result_of n s f task r) = tk_task_id task"
  by (simp add: task_result_of_def split: sum.splits)

lemma run_tasks_posted:
  "run_tasks c to_json sh clk i tasks ctr = (r, ctr', events) \<Longrightarrow>
   (\<exists>rest. map tk_task_id tasks = posted_ids events @ rest) \<and>
   (r = Inr () \<longrightarrow> posted_ids events = map tk_task_id tasks)"
proof (induction tasks arbitrary: i ctr r ctr' events)
  case (Cons task tasks)
  then show ?case
    by (auto simp: Let_def split: prod.splits sum.splits)
qed simp

section \<open>Installing a configuration\<close>

lemma config_revision_update_stats [simp]: "config_revision (update_stats f st) = config_revision st"
  by (simp add: config_revision_def)

lemma apply_older: "revision \<le> config_revision st \<Longrightarrow> lock_value (rs_runtime_config st) \<noteq> None \<Longrightarrow>
   snd (apply_remote_network_config revision remote st) = st"
  by (auto simp: apply_remote_network_config_def config_revision_def Let_def split: option.splits)

lemma install_config_cases:
  assumes "install_config fsys files now status remote st fs = (r, st', fs')"
  obtains (failed) e where
      "persist_remote_network_config fsys (cf_parse files) (cf_print files) (cf_path files)
         (ncr_config_revision remote) (ncr_network remote) fs = (Inl e, fs')"
      "config_revision st < ncr_config_revision remote" "r \<noteq> Inr ()"
      "rs_runtime_config st' = rs_runtime_config st"
  | (kept) "\<not> config_revision st < ncr_config_revision remote" "r = Inr ()" "fs' = fs"
      "rs_runtime_config st' =
         rs_runtime_config (snd (apply_remote_network_config (ncr_config_revision remote) (ncr_network remote) st))"
  | (installed) "persist_remote_network_config fsys (cf_parse files) (cf_print files) (cf_path files)
         (ncr_config_revision remote) (ncr_network remote) fs = (Inr (), fs')"
      "config_revision st < ncr_config_revision remote" "r = Inr ()"
      "rs_runtime_config st' =
         rs_runtime_config (snd (apply_remote_network_config (ncr_config_revision remote) (ncr_network remote) st))"
proof -
  obtain p fs2 where p: "persist_remote_network_config fsys (cf_parse files) (cf_print files) (cf_path files)
         (ncr_config_revision remote) (ncr_network remote) fs = (p, fs2)" by (rule prod.exhaust)
  let ?st = "snd (apply_remote_network_config (ncr_config_revision remote) (ncr_network remote) st)"
  consider "\<not> config_revision st < ncr_config_revision remote"
    | e where "config_revision st < ncr_config_revision remote" "p = Inl e"
    | "config_revision st < ncr_config_revision remote" "p = Inr ()"
    by (cases p) auto
  then show ?thesis
  proof cases
    case 1
    then have "r = Inr ()" "fs' = fs" "st' = update_stats (record_config_success now status) ?st"
      using assms by (simp_all add: install_config_def)
    then show ?thesis using kept 1 by simp
  next
    case (2 e)
    then have "r \<noteq> Inr ()" "fs' = fs2" "rs_runtime_config st' = rs_runtime_config st"
      using assms p by (auto simp: install_config_def Let_def)
    then show ?thesis using failed 2 p by simp
  next
    case 3
    then have "r = Inr ()" "fs' = fs2" "st' = update_stats (record_config_success now status) ?st"
      using assms p by (auto simp: install_config_def)
    then show ?thesis using installed 3 p by simp
  qed
qed

lemma spawn_control_plane_Some:
  "spawn_control_plane st = Some loops \<longleftrightarrow>
     (\<exists>control node_id url secret.
        nc_control (rs_config st) = Some control \<and> cc_enabled control \<and>
        control_plane_credentials (rs_identity st) = Some (node_id, url, secret) \<and>
        \<not> is_placeholder_panel_url url \<and>
        loops =
          \<lparr>cl_node_id = node_id, cl_panel_url = trim_end_matches (CHR ''/'') url, cl_secret = secret,
           cl_report_interval_sec =
             max (unwrap_or 30 (map_option rp_interval_sec (nc_report (rs_config st)))) 5,
           cl_config_poll_interval_sec = max (cc_config_poll_interval_sec control) 5,
           cl_task_poll_interval_sec = max (cc_config_poll_interval_sec control) 5\<rparr>)"
  by (auto simp: spawn_control_plane_def Let_def max_def split: option.splits if_splits)

section \<open>Properties\<close>

text \<open>
  C27. The running configuration never gets ahead of the disk. One turn of the configuration loop
  either leaves it as it is, or the control plane answered with a newer revision, the file was
  rewritten with it successfully, and only then it became the running one.
\<close>

theorem config_persisted_before_applied:
  assumes "config_tick c of_json fsys files clk st ctr fs = (st', ctr', fs')"
    and "lock_value (rs_runtime_config st) \<noteq> None"
  shows "rs_runtime_config st' = rs_runtime_config st \<or>
    (\<exists>body remote. of_json body = Some remote \<and>
       config_revision st < ncr_config_revision remote \<and>
       persist_remote_network_config fsys (cf_parse files) (cf_print files) (cf_path files)
         (ncr_config_revision remote) (ncr_network remote) fs = (Inr (), fs') \<and>
       rs_runtime_config st' = rs_runtime_config (snd (apply_remote_network_config
         (ncr_config_revision remote) (ncr_network remote) st)))"
proof -
  obtain r st1 where fetch: "fetch_and_apply_config c of_json fsys files clk st ctr fs = (r, st1, ctr', fs')"
    and runtime: "rs_runtime_config st' = rs_runtime_config st1"
    using assms(1) by (auto simp: config_tick_def split: prod.splits sum.splits)
  from fetch have "rs_runtime_config st1 = rs_runtime_config st \<or>
    (\<exists>body remote now status. of_json body = Some remote \<and>
       install_config fsys files now status remote st fs = (r, st1, fs'))"
    by (auto simp: fetch_and_apply_config_def Let_def bind_eq_Some_conv
        split: prod.splits sum.splits http_reply.splits if_splits option.splits)
  then show ?thesis
  proof (elim disjE exE conjE)
    fix body remote now status
    assume body: "of_json body = Some remote"
      and i: "install_config fsys files now status remote st fs = (r, st1, fs')"
    from i show ?thesis
    proof (cases rule: install_config_cases)
      case kept
      then show ?thesis
        using apply_older [of "ncr_config_revision remote" st "ncr_network remote"] assms(2) runtime
        by (simp add: not_less)
    qed (use body runtime in auto)
  qed (simp add: runtime)
qed

text \<open>A control plane that answers every request with status 200.\<close>

definition sample_caller :: caller where
  "sample_caller =
     \<lparr>ca_crypto = demo_crypto, ca_process_id = 1, ca_send = (\<lambda>_. Responded 200 (Some ''{}'')),
      ca_node_id = 7, ca_panel_url = ''https://panel'', ca_secret = ''key''\<rparr>"

definition sample_files :: "string file_system" where
  "sample_files = \<lparr>fs_exists = (\<lambda>_ _. True), fs_read = (\<lambda>_ s. Inr s), fs_write = (\<lambda>_ t _. (Inr (), t))\<rparr>"

lemma sample_call:
  "ca_send sample_caller request = Responded 200 (Some ''{}'')" "is_success 200"
  "\<exists>s. sign_request (ca_crypto sample_caller) verb path ts nonce body (ca_secret sample_caller) = Inr s"
  by (simp_all add: sample_caller_def is_success_def sign_request_def Let_def demo_crypto_def)

theorem config_persisted_before_applied_witness:
  "\<exists>st' ctr' fs'. config_tick sample_caller (\<lambda>_. None) sample_files
       \<lparr>cf_parse = (\<lambda>_. Inr (TTable [])), cf_print = (\<lambda>_. Inr ''T''), cf_path = ''c''\<rparr> (\<lambda>_. 5)
       sample_state 0 ''old'' = (st', ctr', fs') \<and>
     rs_runtime_config st' = rs_runtime_config sample_state"
proof -
  let ?files = "\<lparr>cf_parse = (\<lambda>_. Inr (TTable [])), cf_print = (\<lambda>_. Inr ''T''), cf_path = ''c''\<rparr>"
  obtain st' ctr' fs' where t: "config_tick sample_caller (\<lambda>_. None) sample_files ?files (\<lambda>_. 5)
      sample_state 0 ''old'' = (st', ctr', fs')" by (rule prod_cases3)
  have "lock_value (rs_runtime_config sample_state) \<noteq> None" by (simp add: sample_state_config)
  from config_persisted_before_applied [OF t this] t show ?thesis by auto
qed

text \<open>
  A node runs nothing it is sent except its own restart. Whatever the control plane answers
  to the task request, the only command given to a shell is the restart command; tasks are
  touched only when the answer names this node; and one result is posted per task, in the order
  of the tasks, for all of them unless posting fails.
\<close>

theorem tasks_only_restart:
  assumes "fetch_and_execute_tasks c of_json to_json sh clk ctr = (r, ctr', events)"
  shows "(\<forall>cmd. RanShell cmd \<in> set events \<longrightarrow> cmd = restart_command) \<and>
    (events \<noteq> [] \<longrightarrow> (\<exists>body payload. of_json body = Some payload \<and> tr_status payload = ''ok'' \<and>
       tr_node_id payload = ca_node_id c \<and>
       (\<exists>rest. map tk_task_id (tr_tasks payload) = posted_ids events @ rest) \<and>
       (r = Inr () \<longrightarrow> posted_ids events = map tk_task_id (tr_tasks payload))))"
proof -
  from assms have "events = [] \<or>
    (\<exists>body payload ctr0. of_json body = Some payload \<and> tr_status payload = ''ok'' \<and>
       tr_node_id payload = ca_node_id c \<and>
       run_tasks c to_json sh clk 0 (tr_tasks payload) ctr0 = (r, ctr', events))"
    by (auto simp: fetch_and_execute_tasks_def Let_def bind_eq_Some_conv
        split: prod.splits sum.splits http_reply.splits if_splits option.splits)
  then show ?thesis
  proof (elim disjE exE conjE)
    fix body payload ctr0
    assume found: "of_json body = Some payload" "tr_status payload = ''ok''" "tr_node_id payload = ca_node_id c"
      and run: "run_tasks c to_json sh clk 0 (tr_tasks payload) ctr0 = (r, ctr', events)"
    show ?thesis
      using found run_tasks_shell [OF run] run_tasks_posted [OF run] by blast
  qed simp
qed

theorem tasks_only_restart_witness:
  "\<exists>r ctr' events. fetch_and_execute_tasks sample_caller
       (\<lambda>_. Some \<lparr>tr_status = ''ok'', tr_node_id = 7, tr_tasks =
          [\<lparr>tk_task_id = 1, tk_task_type = ''format_disk'', tk_status = ''running'', tk_message = None\<rparr>]\<rparr>)
       (\<lambda>_. Inr ''{}'') (\<lambda>_. Inr (True, ''0'')) (\<lambda>_. 5) 0 = (r, ctr', events) \<and>
     \<not> (\<exists>cmd. RanShell cmd \<in> set events \<and> cmd \<noteq> restart_command)"
proof -
  let ?run = "fetch_and_execute_tasks sample_caller
       (\<lambda>_. Some \<lparr>tr_status = ''ok'', tr_node_id = 7, tr_tasks =
          [\<lparr>tk_task_id = 1, tk_task_type = ''format_disk'', tk_status = ''running'', tk_message = None\<rparr>]\<rparr>)
       (\<lambda>_. Inr ''{}'') (\<lambda>_. Inr (True, ''0'')) (\<lambda>_. 5) 0"
  obtain r ctr' events where t: "?run = (r, ctr', events)" by (rule prod_cases3)
  have "\<not> (\<exists>cmd. RanShell cmd \<in> set events \<and> cmd \<noteq> restart_command)"
    using tasks_only_restart [OF t] by blast
  then show ?thesis using t by blast
qed

text \<open>
  No nonce is used twice by a running node: within any \<open>2 ^ 64\<close> successive requests the
  nonces are distinct, even when the clock stands still or runs backwards.
\<close>

theorem nonces_distinct:
  assumes "n \<le> 2 ^ 64"
  shows "distinct (map (\<lambda>i. fst (next_nonce (pid i) (ts i) (ctr + of_nat i))) [0..<n])"
proof -
  have "i = j" if "i < n" "j < n"
    "fst (next_nonce (pid i) (ts i) (ctr + of_nat i)) = fst (next_nonce (pid j) (ts j) (ctr + of_nat j))" for i j
  proof -
    have "(of_nat i :: u64) = of_nat j" using next_nonce_counter [OF that(3)] by simp
    moreover have "i < 2 ^ LENGTH(64)" "j < 2 ^ LENGTH(64)" using that(1,2) assms by simp_all
    ultimately show ?thesis by (simp add: of_nat_inverse word_of_nat_eq_iff take_bit_nat_eq_self)
  qed
  then show ?thesis by (auto simp: distinct_map inj_on_def)
qed

theorem nonces_distinct_witness:
  "fst (next_nonce 1 500 (- 1)) \<noteq> fst (next_nonce 1 500 0)"
proof -
  have "distinct (map (\<lambda>i. fst (next_nonce 1 500 (- 1 + of_nat i))) [0..<2])"
    by (rule nonces_distinct) simp
  then show ?thesis by (simp add: numeral_2_eq_2)
qed

text \<open>
  A node talks to a control plane only with an identity of its own: the loops of a node started
  from an identity file run exactly when the configuration enables them, the file or the
  configuration gives id, URL and secret, and the URL is not the placeholder; the secret is
  then not blank, the node starts as ready, and every interval is at least five seconds.
\<close>

theorem control_plane_needs_identity:
  assumes "identity_from_config fsys identity_json config fs = Inr identity"
    and "spawn_control_plane (runtime_state_new config identity t0) = Some loops"
  shows "trim (cl_secret loops) \<noteq> [] \<and> id_node_secret identity = Some (cl_secret loops) \<and>
    id_node_id identity = Some (cl_node_id loops) \<and>
    rs_status (runtime_state_new config identity t0) = Ready \<and>
    \<not> is_placeholder_panel_url (unwrap_or [] (id_panel_url identity)) \<and>
    5 \<le> cl_report_interval_sec loops \<and> 5 \<le> cl_config_poll_interval_sec loops \<and>
    5 \<le> cl_task_poll_interval_sec loops"
proof -
  have fields: "rs_config (runtime_state_new config identity t0) = config"
    "rs_identity (runtime_state_new config identity t0) = identity"
    by (simp_all add: runtime_state_new_def)
  have ok: "identity_ok identity" using assms(1) by (rule identity_from_config_ok)
  from assms(2) obtain node_id url secret report config_poll where
    l: "control_plane_credentials identity = Some (node_id, url, secret)" "\<not> is_placeholder_panel_url url" and
    loops: "loops = \<lparr>cl_node_id = node_id, cl_panel_url = trim_end_matches (CHR ''/'') url,
       cl_secret = secret, cl_report_interval_sec = max report 5,
       cl_config_poll_interval_sec = max config_poll 5, cl_task_poll_interval_sec = max config_poll 5\<rparr>"
    unfolding spawn_control_plane_Some fields by blast
  then have "rs_status (runtime_state_new config identity t0) = Ready"
    using credentials_not_placeholder [OF ok] by (simp add: runtime_state_new_def)
  then show ?thesis
    using l ok by (auto simp: loops control_plane_credentials_iff identity_ok_def)
qed

theorem control_plane_needs_identity_witness:
  "\<exists>loops. spawn_control_plane (runtime_state_new
      ((rs_config sample_state)\<lparr>nc_control := Some \<lparr>cc_enabled = True, cc_config_revision = 1,
         cc_request_timeout_sec = 10, cc_config_poll_interval_sec = 1\<rparr>\<rparr>)
      \<lparr>id_node_id = Some 7, id_panel_url = Some ''https://panel'', id_node_secret_present = True,
       id_bootstrap_response_file = None, id_created_by_installer = True, id_node_secret = Some ''key''\<rparr> 0) =
      Some loops \<and> 5 \<le> cl_config_poll_interval_sec loops"
proof -
  let ?config = "(rs_config sample_state)\<lparr>nc_control := Some \<lparr>cc_enabled = True, cc_config_revision = 1,
         cc_request_timeout_sec = 10, cc_config_poll_interval_sec = 1\<rparr>\<rparr>"
  let ?identity = "\<lparr>id_node_id = Some 7, id_panel_url = Some ''https://panel'', id_node_secret_present = True,
       id_bootstrap_response_file = None, id_created_by_installer = True, id_node_secret = Some ''key''\<rparr>"
  let ?file = "\<lparr>if_node_id = Some 7, if_panel_url = Some ''https://panel'', if_node_secret = Some ''key'',
       if_bootstrap_response_file = None, if_created_by_installer = Some True\<rparr>"
  have key: "trim ''key'' \<noteq> []"
    by (subst trim_printable) (simp_all add: code_of_def)
  have ident: "identity_from_config sample_files (\<lambda>_. Inr ?file) ?config ''x'' = Inr ?identity"
    using key by (simp add: identity_from_config_def sample_files_def filter_option_def Let_def)
  have "printable ''https://panel''" by (simp add: code_of_def)
  then have "trim ''https://panel'' = ''https://panel''" by simp
  then have url: "\<not> is_placeholder_panel_url ''https://panel''"
    by (simp add: is_placeholder_panel_url_def to_ascii_lowercase_def ascii_lower_def code_of_def)
  have "rs_config (runtime_state_new ?config ?identity 0) = ?config"
    "rs_identity (runtime_state_new ?config ?identity 0) = ?identity"
    by (simp_all add: runtime_state_new_def)
  then obtain loops where l: "spawn_control_plane (runtime_state_new ?config ?identity 0) = Some loops"
    using url by (simp add: spawn_control_plane_def control_plane_credentials_def Let_def)
  show ?thesis
    using control_plane_needs_identity [OF ident l] l by simp
qed

end
