(* ===== verification/Node_Main.thy ===== *)
theory Node_Main
  imports Control_Plane
begin

text \<open>
  \<open>node-core/src/main.rs\<close> and \<open>cli.rs\<close>: what the command line makes the process do, and the
  client token it prints on request. Argument parsing itself is \<open>clap\<close>'s.
\<close>

record cli =
  cli_config :: "string option"
  cli_check_config :: "string option"
  cli_version :: bool
  cli_make_client_token :: bool
  cli_token_user_id :: "u64 option"
  cli_token_device_id :: "string option"
  cli_token_game_id :: "u64 option"
  cli_token_ttl_sec :: u64
  cli_token_nonce :: "string option"
  cli_token_intent_id :: "string option"
  cli_token_target_addr :: "string option"

definition token_route :: "string option \<Rightarrow> (string, client_route_claims option) result" where
  "token_route target =
     (case target of
        None \<Rightarrow> Inr None
      | Some addr \<Rightarrow>
          if trim addr = [] then Inl ''--token-target-addr must not be empty''
          else Inr (Some \<lparr>cr_target_addr = trim addr, cr_protocol = ''udp''\<rparr>))"

definition make_client_token ::
  "crypto \<Rightarrow> (client_token_claims \<Rightarrow> (string, bytes) result) \<Rightarrow> cli \<Rightarrow> identity_state \<Rightarrow> u64 \<Rightarrow>
   (string, string) result"
where
  "make_client_token cx claims_to_json c identity issued_at =
     bind_result (ok_or ''node_id is required to create a client token'' (id_node_id identity))
       (\<lambda>node_id.
     bind_result (ok_or ''node_secret is required to create a client token'' (id_node_secret identity))
       (\<lambda>secret.
     bind_result (ok_or ''--token-user-id is required with --make-client-token'' (cli_token_user_id c))
       (\<lambda>user_id.
     bind_result (ok_or ''--token-device-id is required with --make-client-token'' (cli_token_device_id c))
       (\<lambda>device_id.
     bind_result (ok_or ''--token-game-id is required with --make-client-token'' (cli_token_game_id c))
       (\<lambda>game_id.
     bind_result (token_route (cli_token_target_addr c)) (\<lambda>route.
     sign_client_token cx claims_to_json
       \<lparr>ct_node_id = node_id, ct_user_id = user_id, ct_device_id = device_id,
        ct_game_id = game_id, ct_game_key = None, ct_region_id = None, ct_business = None,
        ct_intent_id = cli_token_intent_id c, ct_route_policy_hash = None,
        ct_route_policy_id = None, ct_route = route,
        ct_expires_at = issued_at + max (cli_token_ttl_sec c) 1,
        ct_issued_at = Some issued_at, ct_nonce = cli_token_nonce c\<rparr> secret))))))"

section \<open>Starting\<close>

text \<open>
  The process prints a line and ends, fails, or goes on as a node with the state it starts in.
  \<open>load\<close> is \<open>NodeConfig::from_file\<close> and \<open>load_identity\<close> is \<open>IdentityState::from_config\<close>.
\<close>

datatype process_start = Printed string | Failed string | Serving runtime_state

definition default_config_path :: string where
  "default_config_path = ''/etc/xaccel-node/config.toml''"

definition main_start ::
  "(string \<Rightarrow> (string, node_config) result) \<Rightarrow> (node_config \<Rightarrow> (string, identity_state) result) \<Rightarrow>
   crypto \<Rightarrow> (client_token_claims \<Rightarrow> (string, bytes) result) \<Rightarrow> u64 \<Rightarrow> cli \<Rightarrow> process_start"
where
  "main_start load load_identity cx claims_to_json now c =
     (if cli_version c then Printed (''xaccel-node '' @ node_version)
      else
        (let config_path = unwrap_or default_config_path (cli_config c) in
         case map_err (\<lambda>_. ''failed to load config: '' @ config_path) (load config_path) of
           Inl e \<Rightarrow> Failed e
         | Inr config \<Rightarrow>
             (case cli_check_config c of
                Some check_path \<Rightarrow>
                  (case load check_path of
                     Inl _ \<Rightarrow> Failed (''failed to check config: '' @ check_path)
                   | Inr _ \<Rightarrow> Printed (''config ok: '' @ check_path))
              | None \<Rightarrow>
                  (case load_identity config of
                     Inl e \<Rightarrow> Failed e
                   | Inr identity \<Rightarrow>
                       if cli_make_client_token c then
                         (case make_client_token cx claims_to_json c identity now of
                            Inl e \<Rightarrow> Failed e
                          | Inr token \<Rightarrow> Printed token)
                       else Serving (runtime_state_new config identity now)))))"

section \<open>The printed token\<close>

lemma token_route_Inr:
  "token_route target = Inr route \<Longrightarrow>
   (case route of None \<Rightarrow> target = None
    | Some r \<Rightarrow> trim (cr_target_addr r) \<noteq> [] \<and> cr_protocol r = ''udp'')"
  by (auto simp: token_route_def split: option.splits if_splits)

text \<open>\<open>claims_roundtrip\<close>: \<open>serde_json\<close> reads back the claims it wrote.\<close>

definition claims_roundtrip ::
  "(client_token_claims \<Rightarrow> (string, bytes) result) \<Rightarrow> (bytes \<Rightarrow> client_token_claims option) \<Rightarrow> bool"
where
  "claims_roundtrip to_json of_json \<longleftrightarrow> (\<forall>c body. to_json c = Inr body \<longrightarrow> of_json body = Some c)"

lemma make_client_token_verifies_aux:
  assumes "b64url_roundtrip cx" "claims_roundtrip to_json of_json"
    and "make_client_token cx to_json c identity issued = Inr token"
    and "is_some_and (\<lambda>d. trim d \<noteq> []) (cli_token_device_id c)"
    and "now < issued + max (cli_token_ttl_sec c) 1"
  obtains claims key where "id_node_secret identity = Some key"
    "verify_token cx of_json token (id_node_id identity) key now = Inr claims"
    "ct_user_id claims = unwrap_or 0 (cli_token_user_id c)"
    "ct_expires_at claims = issued + max (cli_token_ttl_sec c) 1"
proof -
  from assms(3) obtain node key user device game route where
    parts: "id_node_id identity = Some node" "id_node_secret identity = Some key"
      "cli_token_user_id c = Some user" "cli_token_device_id c = Some device"
      "token_route (cli_token_target_addr c) = Inr route" and
    tok: "sign_client_token cx to_json
       \<lparr>ct_node_id = node, ct_user_id = user, ct_device_id = device,
        ct_game_id = game, ct_game_key = None, ct_region_id = None, ct_business = None,
        ct_intent_id = cli_token_intent_id c, ct_route_policy_hash = None,
        ct_route_policy_id = None, ct_route = route,
        ct_expires_at = issued + max (cli_token_ttl_sec c) 1,
        ct_issued_at = Some issued, ct_nonce = cli_token_nonce c\<rparr> key = Inr token"
    (is "sign_client_token cx to_json ?claims key = _")
    by (auto simp: make_client_token_def)
  have "acceptable_claims (id_node_id identity) now ?claims"
    using parts assms(4,5) token_route_Inr [OF parts(5)]
    by (auto simp: acceptable_claims_def split: option.splits)
  then have "verify_token cx of_json token (id_node_id identity) key now = Inr ?claims"
    using assms(2) by (intro verify_signed [OF assms(1) tok]) (auto simp: claims_roundtrip_def)
  then show ?thesis using that [of key ?claims] parts by simp
qed

section \<open>Properties\<close>

text \<open>
  C28. What the node prints with \<open>--make-client-token\<close>, the node accepts: while the token lasts, and
  provided the device id is not blank, it verifies against the node's own id and secret, for
  the user on the command line.
\<close>

theorem printed_token_verifies:
  assumes "b64url_roundtrip cx" "claims_roundtrip to_json of_json"
    and "main_start load load_identity cx to_json issued c = Printed token"
    and "\<not> cli_version c" "cli_check_config c = None"
    and "is_some_and (\<lambda>d. trim d \<noteq> []) (cli_token_device_id c)"
    and "now < issued + max (cli_token_ttl_sec c) 1"
  shows "\<exists>config identity claims key. load_identity config = Inr identity \<and>
    id_node_secret identity = Some key \<and>
    verify_token cx of_json token (id_node_id identity) key now = Inr claims \<and>
    Some (ct_user_id claims) = cli_token_user_id c \<and>
    ct_expires_at claims = issued + max (cli_token_ttl_sec c) 1"
proof -
  from assms(3-5) obtain config identity where
    i: "load_identity config = Inr identity" and
    m: "make_client_token cx to_json c identity issued = Inr token"
    by (auto simp: main_start_def Let_def split: sum.splits if_splits)
  obtain claims key where "id_node_secret identity = Some key"
    "verify_token cx of_json token (id_node_id identity) key now = Inr claims"
    "ct_user_id claims = unwrap_or 0 (cli_token_user_id c)"
    "ct_expires_at claims = issued + max (cli_token_ttl_sec c) 1"
    by (rule make_client_token_verifies_aux [OF assms(1,2) m assms(6,7)])
  moreover obtain user where "cli_token_user_id c = Some user"
    using m by (auto simp: make_client_token_def)
  ultimately show ?thesis using i by auto
qed

theorem printed_token_verifies_witness:
  "\<exists>token claims. verify_token demo_crypto (\<lambda>_. Some
       \<lparr>ct_node_id = 7, ct_user_id = 42, ct_device_id = ''d1'', ct_game_id = 1, ct_game_key = None,
        ct_region_id = None, ct_business = None, ct_intent_id = None, ct_route_policy_hash = None,
        ct_route_policy_id = None, ct_route = None, ct_expires_at = 160, ct_issued_at = Some 100,
        ct_nonce = None\<rparr>) token (Some 7) ''key'' 120 = Inr claims \<and> ct_user_id claims = 42"
proof -
  let ?claims = "\<lparr>ct_node_id = 7, ct_user_id = 42, ct_device_id = ''d1'', ct_game_id = 1, ct_game_key = None,
        ct_region_id = None, ct_business = None, ct_intent_id = None, ct_route_policy_hash = None,
        ct_route_policy_id = None, ct_route = None, ct_expires_at = 160, ct_issued_at = Some 100,
        ct_nonce = None\<rparr> :: client_token_claims"
  let ?to_json = "\<lambda>c. if c = ?claims then Inr ''{}'' else Inl ''unwritable''"
  let ?identity = "\<lparr>id_node_id = Some 7, id_panel_url = None, id_node_secret_present = True,
       id_bootstrap_response_file = None, id_created_by_installer = True, id_node_secret = Some ''key''\<rparr>"
  let ?cli = "\<lparr>cli_config = None, cli_check_config = None, cli_version = False,
       cli_make_client_token = True, cli_token_user_id = Some 42, cli_token_device_id = Some ''d1'',
       cli_token_game_id = Some 1, cli_token_ttl_sec = 60, cli_token_nonce = None,
       cli_token_intent_id = None, cli_token_target_addr = None\<rparr>"
  have "claims_roundtrip ?to_json (\<lambda>_. Some ?claims)"
    by (simp add: claims_roundtrip_def)
  moreover have "max (60 :: u64) 1 = 60" by (simp add: max_def word_le_nat_alt)
  then obtain token where "main_start (\<lambda>_. Inr (rs_config sample_state)) (\<lambda>_. Inr ?identity)
      demo_crypto ?to_json 100 ?cli = Printed token"
    by (simp add: main_start_def make_client_token_def token_route_def sign_client_token_def Let_def
        demo_crypto_def)
  moreover have "printable ''d1''" by (simp add: code_of_def)
  ultimately show ?thesis
    using printed_token_verifies [of demo_crypto ?to_json "\<lambda>_. Some ?claims" "\<lambda>_. Inr (rs_config sample_state)"
        "\<lambda>_. Inr ?identity" 100 ?cli token 120]
    by (auto simp: max_def word_le_nat_alt)
qed

end
