(* ===== verification/Interop.thy ===== *)
theory Interop
  imports Api_Candidates Node_Main
begin

text \<open>
  The two programs together: a request a node signs is one the control API authenticates, and a
  ticket the control API issues is one the node it names admits, with the policy the ticket
  carries.
\<close>

section \<open>Tokens survive trimming\<close>

text \<open>Documented behaviour: the URL-safe alphabet is printable ASCII.\<close>

definition b64url_printable :: "crypto \<Rightarrow> bool" where
  "b64url_printable cx \<longleftrightarrow> (\<forall>b. printable (b64url_encode cx b))"

lemma trim_token:
  assumes "b64url_printable cx" "sign_client_token cx to_json c key = Inr token"
  shows "trim token = token" and "token \<noteq> []"
proof -
  obtain body mac where "token = token_text (b64url_encode cx body) (b64url_encode cx mac)"
    using assms(2) by (rule sign_client_token_shape)
  moreover have "printable ''xat.v1.''" "printable ''.''" by (simp_all add: code_of_def)
  ultimately show "trim token = token" "token \<noteq> []"
    using assms(1) by (simp_all add: token_text_def b64url_printable_def)
qed

section \<open>Signed requests\<close>

text \<open>The request as the control API's server sees its headers.\<close>

definition received_headers :: "http_request \<Rightarrow> headers" where
  "received_headers request = map (\<lambda>(k, v). (k, Some v)) (rq_headers request)"

lemma node_header_names:
  "\<not> eq_ignore_ascii_case ''Content-Type'' ''X-Node-Id''"
  "\<not> eq_ignore_ascii_case ''Content-Type'' ''X-Node-Timestamp''"
  "\<not> eq_ignore_ascii_case ''Content-Type'' ''X-Node-Nonce''"
  "\<not> eq_ignore_ascii_case ''Content-Type'' ''X-Node-Body-Sha256''"
  "\<not> eq_ignore_ascii_case ''Content-Type'' ''X-Node-Signature''"
  "\<not> eq_ignore_ascii_case ''X-Node-Id'' ''X-Node-Timestamp''"
  "\<not> eq_ignore_ascii_case ''X-Node-Id'' ''X-Node-Nonce''"
  "\<not> eq_ignore_ascii_case ''X-Node-Id'' ''X-Node-Body-Sha256''"
  "\<not> eq_ignore_ascii_case ''X-Node-Id'' ''X-Node-Signature''"
  "\<not> eq_ignore_ascii_case ''X-Node-Timestamp'' ''X-Node-Nonce''"
  "\<not> eq_ignore_ascii_case ''X-Node-Timestamp'' ''X-Node-Body-Sha256''"
  "\<not> eq_ignore_ascii_case ''X-Node-Timestamp'' ''X-Node-Signature''"
  "\<not> eq_ignore_ascii_case ''X-Node-Nonce'' ''X-Node-Body-Sha256''"
  "\<not> eq_ignore_ascii_case ''X-Node-Nonce'' ''X-Node-Signature''"
  "\<not> eq_ignore_ascii_case ''X-Node-Body-Sha256'' ''X-Node-Signature''"
  by (simp_all add: eq_ignore_ascii_case_def ascii_lower_def code_of_def)

lemma received_node_headers:
  assumes hs_def: "hs = received_headers (signed_http_request c verb path json_body ts nonce body s)"
  shows "header_get hs ''X-Node-Id'' = Some (Some (show_u64 (ca_node_id c)))"
    and "header_get hs ''X-Node-Timestamp'' = Some (Some (show_u64 ts))"
    and "header_get hs ''X-Node-Nonce'' = Some (Some nonce)"
    and "header_get hs ''X-Node-Body-Sha256'' = Some (Some (sr_body_sha256 s))"
    and "header_get hs ''X-Node-Signature'' = Some (Some (sr_signature s))"
  by (simp_all add: hs_def received_headers_def signed_http_request_def node_header_names)

lemma required_header_u64_show:
  "header_get hs name = Some (Some (show_u64 n)) \<Longrightarrow> required_header_u64 hs name = Inr n"
  using unat_lt_size [of n]
  by (simp add: required_header_u64_def required_header_def show_u64_def)

lemma newline_line_feed: "newline_byte = line_feed"
  by (simp add: newline_byte_def line_feed_def)

lemma signed_request_authenticates_aux:
  assumes "b64_roundtrip (ca_crypto c)"
    and "sign_request (ca_crypto c) verb path ts nonce body (ca_secret c) = Inr s"
    and "trim nonce \<noteq> []" "ts \<noteq> 0" "abs_diff ts now \<le> 300"
    and "select_secret (ca_node_id c) = Inr (Some (ca_secret c))"
  shows "authenticate_node_request (ca_crypto c) select_secret now
      (received_headers (signed_http_request c verb path json_body ts nonce body s)) verb path body =
    Inr (ca_node_id c)"
proof -
  have sgn_ok: "verify_node_signature (ca_crypto c) verb path (ca_secret c) ts nonce (sr_body_sha256 s)
      (sr_signature s) body = Inr ()"
    using assms(1-3)
    by (auto simp: verify_node_signature_Inr sign_request_def Let_def canonical_request_def
        node_canonical_def newline_line_feed b64_roundtrip_def)
  show ?thesis
    unfolding authenticate_node_request_Inr
    by (intro exI conjI) (use assms sgn_ok in \<open>simp_all add: required_header_u64_show
      required_header_def received_node_headers [OF refl] validate_node_report_timestamp_Inr\<close>)
qed

lemma next_nonce_printable: "next_nonce pid ts ctr = (nonce, ctr') \<Longrightarrow> printable nonce \<and> nonce \<noteq> []"
  by (auto simp: next_nonce_def show_u64_def code_of_def)

text \<open>The canonical text determines what was signed.\<close>

lemma line_feed_field:
  "(d :: byte) \<notin> set a \<Longrightarrow> d \<notin> set b \<Longrightarrow> a @ d # x = b @ d # y \<Longrightarrow> a = b \<and> x = y"
  using split_once_Some_iff [of d "a @ d # x" a x] split_once_Some_iff [of d "a @ d # x" b y] by simp

lemma line_feed_not_in_number: "line_feed \<notin> set (show_u64 n)"
  unfolding show_u64_def by (rule show_nat_avoids) (simp add: line_feed_def)

lemma show_u64_inject [simp]: "show_u64 m = show_u64 n \<longleftrightarrow> m = n"
  by (simp add: show_u64_def word_unat_eq_iff)

lemma node_canonical_injective:
  assumes "node_canonical verb path ts nonce sha = node_canonical verb' path' ts' nonce' sha'"
    and "line_feed \<notin> set verb" "line_feed \<notin> set verb'" "line_feed \<notin> set path" "line_feed \<notin> set path'"
    and "line_feed \<notin> set nonce" "line_feed \<notin> set nonce'"
  shows "verb = verb' \<and> path = path' \<and> ts = ts' \<and> nonce = nonce' \<and> sha = sha'"
proof -
  note step = line_feed_field [of line_feed]
  have "verb = verb' \<and> path @ line_feed # show_u64 ts @ line_feed # nonce @ line_feed # sha =
      path' @ line_feed # show_u64 ts' @ line_feed # nonce' @ line_feed # sha'"
    using assms(1) by (intro step assms(2,3)) (simp add: node_canonical_def)
  moreover from this have "path = path' \<and> show_u64 ts @ line_feed # nonce @ line_feed # sha =
      show_u64 ts' @ line_feed # nonce' @ line_feed # sha'"
    by (intro step assms(4,5)) simp
  moreover from this have "show_u64 ts = show_u64 ts' \<and> nonce @ line_feed # sha = nonce' @ line_feed # sha'"
    by (intro step line_feed_not_in_number) simp
  moreover from this have "nonce = nonce' \<and> sha = sha'"
    by (intro step assms(6,7)) simp
  ultimately show ?thesis by simp
qed

section \<open>Tickets\<close>

text \<open>
  The node reads the fields of the control plane's claims that it knows; the query for a chosen
  node returns the route's own columns, and the secret the node was installed with.
\<close>

definition node_claims :: "api_token_claims \<Rightarrow> client_token_claims" where
  "node_claims c =
     \<lparr>ct_node_id = at_node_id c, ct_user_id = at_user_id c, ct_device_id = at_device_id c,
      ct_game_id = at_game_id c, ct_game_key = at_game_key c, ct_region_id = at_region_id c,
      ct_business = at_business c, ct_intent_id = at_intent_id c,
      ct_route_policy_hash = at_route_policy_hash c, ct_route_policy_id = at_route_policy_id c,
      ct_route = map_option (\<lambda>r. \<lparr>cr_target_addr = ar_target_addr r, cr_protocol = ar_protocol r\<rparr>)
        (at_route c),
      ct_expires_at = at_expires_at c, ct_issued_at = at_issued_at c, ct_nonce = at_nonce c\<rparr>"

definition claims_readable ::
  "(api_token_claims \<Rightarrow> (string, bytes) result) \<Rightarrow> (bytes \<Rightarrow> client_token_claims option) \<Rightarrow> bool"
where
  "claims_readable to_json of_json \<longleftrightarrow>
     (\<forall>c body. to_json c = Inr body \<longrightarrow> of_json body = Some (node_claims c))"

definition per_session_rows :: "(u64 \<Rightarrow> string) \<Rightarrow> 'i intent_database \<Rightarrow> bool" where
  "per_session_rows secret_of db \<longleftrightarrow>
     (\<forall>route row. db_select_per_session db route = Inr (Some row) \<longrightarrow>
        cw_node_id row = br_node_id route \<and> cw_target_addr row = br_target_addr route \<and>
        cw_protocol row = br_protocol route \<and> cw_node_secret row = secret_of (br_node_id route))"

text \<open>The rows the tables give have these columns, with the secrets of the nodes' rows.\<close>

definition table_secret :: "database \<Rightarrow> u64 \<Rightarrow> string" where
  "table_secret db node_id = unwrap_or [] (select_node_secret db node_id)"

lemma tables_per_session_rows:
  "per_session_rows (table_secret seen) (intent_tables same my tie seen cat db)"
proof -
  have "cw_node_id row = br_node_id route \<and> cw_target_addr row = br_target_addr route \<and>
      cw_protocol row = br_protocol route \<and> cw_node_secret row = table_secret seen (br_node_id route)"
    if sel: "select_per_session_candidate my 0 seen route = Inr (Some row)" for route row
  proof -
    obtain n where n: "find_node (br_node_id route) seen = Some n" "node_available n"
      "nd_node_secret n = Some (cw_node_secret row)" and cols: "cw_node_id row = br_node_id route"
      "cw_target_addr row = br_target_addr route" "cw_protocol row = br_protocol route"
      using per_session_node_available [OF sel] by blast
    have "table_secret seen (br_node_id route) = cw_node_secret row"
      using n by (simp add: table_secret_def select_node_secret_def node_available_def)
    with cols show ?thesis by simp
  qed
  then show ?thesis by (simp add: per_session_rows_def intent_tables_def)
qed

lemma validate_target_addr_nonblank: "validate_target_addr t = Inr a \<Longrightarrow> trim a \<noteq> []"
  by (auto simp: validate_target_addr_Inr)

lemma representative_target_nonblank:
  "representative_route_policy_target ts protocol = Inr a \<Longrightarrow> trim a \<noteq> []"
proof (induction ts protocol rule: representative_route_policy_target.induct)
  case (2 t ts protocol)
  have any: "trim (''0.0.0.0:'' @ show_u16 p) \<noteq> []" for p
  by (subst trim_printable) (simp_all add: code_of_def show_u16_def)
  from 2 show ?case
    using validate_target_addr_nonblank any
    by (auto split: option.splits if_splits simp del: trim_printable)
qed simp

lemma per_session_route_policy:
  assumes "per_session_route cx policy_json r = Inr x" "bi_route_policy r = Some p"
  obtains route policy where "x = Some route" "normalize_route_policy p = Inr policy"
    "br_route_policy route = Some \<lparr>rb_policy = policy, rb_hash = rb_hash (the (br_route_policy route))\<rparr>"
    "hash_route_policy cx policy_json policy = Inr (rb_hash (the (br_route_policy route)))"
    "bi_node_id r = Some (br_node_id route)" "br_node_id route \<noteq> 0"
    "trim (br_target_addr route) \<noteq> []" "br_protocol route \<in> {''udp'', ''tcp''}"
proof -
  obtain binding where v: "validate_route_policy cx policy_json p = Inr binding"
    using assms by (cases "validate_route_policy cx policy_json p") (auto simp: per_session_route_def)
  then obtain policy body where
    norm: "normalize_route_policy p = Inr policy" and body: "policy_json policy = Inr body" and
    binding: "binding = \<lparr>rb_policy = policy, rb_hash = b64url_encode cx (sha256 cx body)\<rparr>"
    by (cases "policy_json (projr (normalize_route_policy p))") (auto simp: validate_route_policy_def)
  from assms(1) obtain node_id protocol target region where
    n: "bi_node_id r = Some node_id" "node_id \<noteq> 0" and proto: "udp_or_tcp protocol" and
    target: "(case nonempty_text (bi_target_addr r) of
         Some t \<Rightarrow> validate_target_addr t
       | None \<Rightarrow> representative_route_policy_target
           (case Some binding of None \<Rightarrow> [] | Some b \<Rightarrow> policy_targets (rb_policy b)) protocol) =
       Inr target" and
    x: "x = Some \<lparr>br_node_id = node_id, br_target_addr = target, br_protocol = protocol,
       br_region_id = bi_region_id r, br_region_name = region, br_route_policy = Some binding\<rparr>"
    by (auto simp: per_session_route_def assms(2) v Let_def split: if_splits)
  have "trim target \<noteq> []"
    using target validate_target_addr_nonblank representative_target_nonblank
    by (auto split: option.splits)
  then show ?thesis
    using that [of "the x" policy] n proto norm body x binding
    by (auto simp: hash_route_policy_def udp_or_tcp_def)
qed

lemma issued_for_row:
  assumes "fst (issue_connect_intent_for_row cx to_json ins store issued_at ttl_sec r context row mode
    binding quality) = Inr response"
  obtains c where "ir_candidates response = [c]" "cn_node_id c = cw_node_id row"
    "cn_route_policy c = map_option rb_policy binding"
    "sign_client_token cx to_json (token_claims_of issued_at ttl_sec r context row binding)
       (cw_node_secret row) = Inr (ck_token (cn_credential c))"
    "ck_expires_at (cn_credential c) = issued_at + ttl_sec" "cw_server_port row \<le> 65535"
proof -
  from assms obtain token where
    tok: "sign_client_token cx to_json (token_claims_of issued_at ttl_sec r context row binding)
       (cw_node_secret row) = Inr token"
    by (cases "sign_client_token cx to_json (token_claims_of issued_at ttl_sec r context row binding)
       (cw_node_secret row)") (auto simp: issue_connect_intent_for_row_def Let_def)
  with assms show ?thesis
    by (intro that [of "hd (ir_candidates response)"])
      (auto simp: issue_connect_intent_for_row_def Let_def split: if_splits)
qed

text \<open>What a business ticket rests on: every gate passed, and the token signed for the chosen row.\<close>

lemma business_ticket_cases:
  assumes "fst (business_connect_intent cx policy_json to_json db store sync checked_at now ttl hs r) = Inr k"
  obtains route_opt row where
    "require_business_sync sync hs = Inr ()"
    "validate_business_connect_intent_request cx policy_json checked_at r = Inr ()"
    "per_session_route cx policy_json r = Inr route_opt"
    "(case route_opt of
        Some route \<Rightarrow> db_select_per_session db route = Inr (Some row)
      | None \<Rightarrow> db_select_candidate db (to_connect_intent_request r)
          (requested_quality (to_connect_intent_request r)) = Inr (Some row))"
    "sign_client_token cx to_json
       (token_claims_of now ttl (to_connect_intent_request r) (Some (auth_context r)) row
          (Option.bind route_opt br_route_policy)) (cw_node_secret row) =
       Inr (ck_token (ak_credential k))"
    "ak_node_id k = cw_node_id row"
    "ak_route_policy k = map_option rb_policy (Option.bind route_opt br_route_policy)"
    "ck_expires_at (ak_credential k) = now + ttl"
proof -
  from assms obtain route_opt response where
    gates: "require_business_sync sync hs = Inr ()"
      "validate_business_connect_intent_request cx policy_json checked_at r = Inr ()"
      "per_session_route cx policy_json r = Inr route_opt" and
    issued: "fst (case route_opt of
         Some route \<Rightarrow> issue_per_session_connect_intent cx to_json db store now ttl
             (to_connect_intent_request r) (Some (auth_context r)) route
       | None \<Rightarrow> issue_connect_intent cx to_json db store now ttl
             (to_connect_intent_request r) (Some (auth_context r))) = Inr response" and
    k: "ticket_from_connect_intent response (to_connect_intent_request r) (auth_context r) = Inr k"
    by (auto simp: business_connect_intent_def issue_business_ticket_def split_def Let_def)
  from issued obtain row mode where
    row: "(case route_opt of
        Some route \<Rightarrow> db_select_per_session db route = Inr (Some row)
      | None \<Rightarrow> db_select_candidate db (to_connect_intent_request r)
          (requested_quality (to_connect_intent_request r)) = Inr (Some row))" and
    signed_row: "fst (issue_connect_intent_for_row cx to_json (db_insert_intent db) store now ttl
       (to_connect_intent_request r) (Some (auth_context r)) row mode
       (Option.bind route_opt br_route_policy) (requested_quality (to_connect_intent_request r))) =
       Inr response"
    by (cases route_opt) (auto simp: issue_per_session_connect_intent_def issue_connect_intent_def)
  from signed_row obtain c where "ir_candidates response = [c]" "cn_node_id c = cw_node_id row"
    "cn_route_policy c = map_option rb_policy (Option.bind route_opt br_route_policy)"
    "sign_client_token cx to_json
       (token_claims_of now ttl (to_connect_intent_request r) (Some (auth_context r)) row
          (Option.bind route_opt br_route_policy)) (cw_node_secret row) =
       Inr (ck_token (cn_credential c))"
    "ck_expires_at (cn_credential c) = now + ttl"
    by (rule issued_for_row)
  with k show ?thesis
    by (intro that [OF gates row]) (auto simp: ticket_from_connect_intent_def first_of_def)
qed

text \<open>The gates, as facts about the request.\<close>

lemma business_request_valid:
  assumes "validate_business_connect_intent_request cx policy_json now r = Inr ()"
  shows "bi_user_id r \<noteq> 0" and "trim (bi_device_id r) \<noteq> []" and "bi_game_id r \<noteq> 0"
    and "bi_entitlement_verified r = Some True" and "bi_device_verified r = Some True"
    and "\<forall>e. bi_entitlement_expires_at r = Some e \<longrightarrow> now < e"
    and "\<forall>risk. bi_risk_level r = Some risk \<longrightarrow> trim risk \<noteq> ''blocked''"
proof -
  from assms have
    base: "validate_connect_intent_request (to_connect_intent_request r) = Inr ()" and
    ent: "bi_entitlement_verified r = Some True" and dev: "bi_device_verified r = Some True" and
    live: "\<not> is_some_and (\<lambda>e. e \<le> now) (bi_entitlement_expires_at r)" and
    risk: "(case map_option trim (bi_risk_level r) of
         None \<Rightarrow> Inr ()
       | Some risk \<Rightarrow>
           if risk \<notin> {''low'', ''normal'', ''medium'', ''high'', ''blocked''} then
             Inl (bad_request ''invalid_risk_level''
               ''risk_level must be low, normal, medium, high, or blocked'')
           else if risk = ''blocked'' then
             Inl (forbidden ''risk_blocked'' ''business backend marked this connect-intent as blocked'')
           else Inr ()) = Inr ()"
    unfolding validate_business_connect_intent_request_def
    by (auto split: if_splits)
  show "bi_user_id r \<noteq> 0" and "trim (bi_device_id r) \<noteq> []" and "bi_game_id r \<noteq> 0"
    using base by (auto simp: validate_connect_intent_request_def to_connect_intent_request_def
        split: if_splits)
  show "bi_entitlement_verified r = Some True" "bi_device_verified r = Some True" by fact+
  show "\<forall>e. bi_entitlement_expires_at r = Some e \<longrightarrow> now < e" using live by (auto simp: not_le)
  show "\<forall>risk. bi_risk_level r = Some risk \<longrightarrow> trim risk \<noteq> ''blocked''"
    using risk by (auto split: if_splits)
qed

text \<open>
  A ticket that carries a policy is admitted by its node while it lasts. The probe shows the
  ticket's token and its policy.
\<close>

definition ticket_probe :: "accel_ticket \<Rightarrow> string option \<Rightarrow> client_probe_request" where
  "ticket_probe k nonce =
     \<lparr>pq_client_nonce = nonce, pq_user_id = None, pq_device_id = None, pq_game_id = None,
      pq_region_id = None, pq_transport = None, pq_token = Some (ck_token (ak_credential k)),
      pq_route_policy = ak_route_policy k\<rparr>"

definition node_of_ticket :: "(u64 \<Rightarrow> string) \<Rightarrow> accel_ticket \<Rightarrow> identity_state \<Rightarrow> bool" where
  "node_of_ticket secret_of k ident \<longleftrightarrow>
     id_node_id ident = Some (ak_node_id k) \<and> id_node_secret ident = Some (secret_of (ak_node_id k)) \<and>
     trim (secret_of (ak_node_id k)) \<noteq> []"

lemma ticket_verifies:
  assumes "fst (business_connect_intent cx policy_json to_json db store sync checked_at now ttl hs r) = Inr k"
    and "bi_route_policy r = Some p"
    and laws: "b64url_roundtrip cx" "b64url_printable cx" "claims_readable to_json of_json"
      "per_session_rows secret_of db"
    and node: "node_of_ticket secret_of k ident" and live: "at < now + ttl"
  obtains claims policy h where
    "verify_probe_token cx of_json (ticket_probe k nonce) (id_node_id ident) (id_node_secret ident) at =
       AuthValid claims"
    "ct_user_id claims = bi_user_id r" "ct_device_id claims = bi_device_id r"
    "normalize_route_policy p = Inr policy" "ak_route_policy k = Some policy"
    "ct_route_policy_hash claims = Some h" "hash_route_policy cx policy_json policy = Inr h"
    "ct_route_policy_id claims = Some (policy_id policy)"
proof -
  from assms(1) obtain route_opt row where
    valid: "validate_business_connect_intent_request cx policy_json checked_at r = Inr ()" and
    route_opt: "per_session_route cx policy_json r = Inr route_opt" and
    row: "(case route_opt of
        Some route \<Rightarrow> db_select_per_session db route = Inr (Some row)
      | None \<Rightarrow> db_select_candidate db (to_connect_intent_request r)
          (requested_quality (to_connect_intent_request r)) = Inr (Some row))" and
    tok: "sign_client_token cx to_json
       (token_claims_of now ttl (to_connect_intent_request r) (Some (auth_context r)) row
          (Option.bind route_opt br_route_policy)) (cw_node_secret row) =
       Inr (ck_token (ak_credential k))" and
    k: "ak_node_id k = cw_node_id row"
      "ak_route_policy k = map_option rb_policy (Option.bind route_opt br_route_policy)"
    by (rule business_ticket_cases)
  from route_opt assms(2) obtain route policy where
    route: "route_opt = Some route" and norm: "normalize_route_policy p = Inr policy" and
    binding: "br_route_policy route =
      Some \<lparr>rb_policy = policy, rb_hash = rb_hash (the (br_route_policy route))\<rparr>" and
    hash: "hash_route_policy cx policy_json policy = Inr (rb_hash (the (br_route_policy route)))" and
    target: "trim (br_target_addr route) \<noteq> []" "br_protocol route \<in> {''udp'', ''tcp''}"
    by (rule per_session_route_policy)
  define h where "h = rb_hash (the (br_route_policy route))"
  have b: "Option.bind route_opt br_route_policy = Some \<lparr>rb_policy = policy, rb_hash = h\<rparr>"
    using route binding by (simp add: h_def)
  have cols: "cw_node_id row = br_node_id route" "cw_target_addr row = br_target_addr route"
    "cw_protocol row = br_protocol route" "cw_node_secret row = secret_of (br_node_id route)"
    using laws(4) row route by (auto simp: per_session_rows_def)
  let ?c = "token_claims_of now ttl (to_connect_intent_request r) (Some (auth_context r)) row
      (Some \<lparr>rb_policy = policy, rb_hash = h\<rparr>)"
  have acceptable: "acceptable_claims (id_node_id ident) at (node_claims ?c)"
    using node k(1) cols target live business_request_valid(2) [OF valid]
    by (auto simp: acceptable_claims_def node_claims_def token_claims_of_def node_of_ticket_def
        route_claims_of_def to_connect_intent_request_def)
  have "verify_token cx of_json (ck_token (ak_credential k)) (id_node_id ident) (cw_node_secret row) at =
      Inr (node_claims ?c)"
    by (rule verify_signed [OF laws(1) tok [unfolded b] _ acceptable])
      (use laws(3) in \<open>simp add: claims_readable_def\<close>)
  then have "verify_probe_token cx of_json (ticket_probe k nonce) (id_node_id ident)
      (id_node_secret ident) at = AuthValid (node_claims ?c)"
    using node k(1) cols trim_token [OF laws(2) tok]
    by (auto simp: verify_probe_token_Valid_iff ticket_probe_def node_of_ticket_def
        match_request_claims_iff)
  then show ?thesis
    using that [of "node_claims ?c" policy h] norm k(2) b hash
    by (simp add: node_claims_def token_claims_of_def to_connect_intent_request_def h_def)
qed

lemma ticket_admitted_aux:
  assumes "fst (business_connect_intent cx policy_json to_json db store sync checked_at now ttl hs r) = Inr k"
    and "bi_route_policy r = Some p"
    and laws: "b64url_roundtrip cx" "b64url_printable cx"
      "claims_readable to_json (claims_of_json (w_readers w))" "per_session_rows secret_of db"
    and same: "w_crypto w = cx" "json_of_policy (w_writers w) = policy_json"
    and node: "node_of_ticket secret_of k (rs_identity st)" and live: "now_unix (clk 0) < now + ttl"
    and answer: "build_probe_response w clk st transport peer (ticket_probe k nonce) = (reply, st', relays)"
  obtains s policy where
    "rs_sessions st' = register_udp_session (now_unix (clk 3)) s (rs_sessions st)"
    "us_authenticated s" "us_user_id s = Some (bi_user_id r)" "us_device_id s = Some (bi_device_id r)"
    "normalize_route_policy p = Inr policy" "us_route_policy s = Some policy"
    "us_route_target_addr s = None"
proof -
  obtain claims policy h where
    v: "verify_probe_token cx (claims_of_json (w_readers w)) (ticket_probe k nonce)
       (id_node_id (rs_identity st)) (id_node_secret (rs_identity st)) (now_unix (clk 0)) = AuthValid claims" and
    who: "ct_user_id claims = bi_user_id r" "ct_device_id claims = bi_device_id r" and
    policy: "normalize_route_policy p = Inr policy" "ak_route_policy k = Some policy"
      "ct_route_policy_hash claims = Some h" "hash_route_policy cx policy_json policy = Inr h"
      "ct_route_policy_id claims = Some (policy_id policy)"
    using ticket_verifies [OF assms(1,2) laws node live] by blast
  let ?request = "ticket_probe k nonce"
  have req: "pq_route_policy ?request = Some policy" by (simp add: ticket_probe_def policy(2))
  have "check_route_policy w claims (Some policy) = Inr ()"
    using policy same by (simp add: check_route_policy_Inr)
  then obtain identity where ident: "identity_from_claims w claims (Some policy) = Inr identity"
    by (simp add: identity_from_claims_def Let_def)
  have "admit_probe w clk (update_stats record_auth_ok st) transport peer ?request identity =
      (reply, st', relays)"
    using answer v same ident req by (simp add: build_probe_response_def)
  then have "probe_admits w clk st transport peer identity st'"
    using admit_probe_admits by simp
  moreover have "pi_credential_valid identity" "pi_user_id identity = Some (ct_user_id claims)"
    "pi_device_id identity = Some (ct_device_id claims)" "pi_route_policy identity = Some policy"
    "pi_route_target_addr identity = None"
    using ident policy(3) by (auto simp: identity_from_claims_def)
  ultimately show ?thesis
    using who policy(1)
    by (intro that [of "probe_udp_session clk transport peer identity (probe_sequence (rs_stats st) + 1)" policy])
      (simp_all add: probe_admits_def probe_udp_session_def udp_session_new_def)
qed

end
