(* ===== verification/Example_Ticket.thy ===== *)
theory Example_Ticket
  imports Example Interop
begin

text \<open>
  A concrete sale for the instances of the properties that span both programs: a business backend
  asks for a ticket with the example policy, the control API issues it, and the example node is
  the one it names. The parameters satisfy every law the properties assume.
\<close>

definition sale_request :: business_connect_intent_request where
  "sale_request =
     \<lparr>bi_request_id = None, bi_entitlement_id = None,
      bi_order_id = None, bi_subscription_id = None, bi_business_session_id = None,
      bi_entitlement_verified = Some True, bi_device_verified = Some True,
      bi_entitlement_expires_at = Some 5000, bi_risk_level = None, bi_business_trace_id = None,
      bi_user_id = 42, bi_device_id = ''d1'', bi_game_id = 1, bi_game_key = None, bi_region_id = None, bi_node_id = Some 7,
      bi_target_addr = None, bi_protocol = None, bi_region_name = None, bi_platform = None,
      bi_client_isp = None, bi_client_ip = None, bi_bandwidth_quality = None,
      bi_client_version = None, bi_route_policy = Some example_policy\<rparr>"

text \<open>The tables: the example node, online, and nothing else.\<close>

definition sale_node :: node_row where
  "sale_node =
     \<lparr>nd_id = 7, nd_name = ''n'', nd_server_ip = ''10.0.0.1'', nd_server_port = 9000,
      nd_relay_server_ip = None, nd_relay_server_port = None, nd_is_support_ipv6 = False,
      nd_bandwidth_quality = ''normal'', nd_disable_quic = False, nd_area = ''a'',
      nd_telecom_ip = None, nd_mobile_ip = None, nd_unicom_ip = None, nd_tag = None,
      nd_status = ''online'', nd_node_secret = Some example_secret, nd_installed_at = None,
      nd_last_seen_at = Some 990, nd_last_report_at = None, nd_kernel_version = None,
      nd_config_revision = 1\<rparr>"

definition sale_db :: database where
  "sale_db =
     \<lparr>dt_nodes = [sale_node], dt_next_node = 8, dt_tokens = [], dt_next_token = 1, dt_tasks = [],
      dt_next_task = 1, dt_audit = [], dt_reports = [], dt_revisions = []\<rparr>"

definition sale_mysql :: mysql where
  "sale_mysql = \<lparr>my_fault = (\<lambda>_. Inr ()), my_now = (\<lambda>_. 1000), my_from_unixtime = Some\<rparr>"

abbreviation sale_database :: "connect_intent_row list intent_database" where
  "sale_database \<equiv> intent_tables (=) sale_mysql 0 sale_db empty_catalogue sale_db"

definition sale_row :: "business_per_session_route \<Rightarrow> candidate_row" where
  "sale_row route =
     \<lparr>cw_node_id = 7, cw_server_ip = ''10.0.0.1'', cw_server_port = 9000,
      cw_area = ''a'', cw_tag = None, cw_bandwidth_quality = ''normal'',
      cw_node_secret = example_secret, cw_target_addr = br_target_addr route,
      cw_protocol = br_protocol route, cw_region_id = br_region_id route,
      cw_region_name = br_region_name route,
      cw_route_priority = 0, cw_latest_active_sessions = None, cw_latest_udp_sessions = None,
      cw_latest_tcp_sessions = None, cw_latest_reported_at = None\<rparr>"

lemma sale_selects:
  "br_node_id route = 7 \<Longrightarrow> select_per_session_candidate sale_mysql 0 sale_db route = Inr (Some (sale_row route))"
  by (simp add: select_per_session_candidate_def stmt_def sale_mysql_def find_node_def sale_db_def sale_node_def
      node_available_def candidate_of_def latest_report_def latest_reported_at_def sale_row_def example_secret_def)

lemma char_count_le: "char_count s \<le> length s"
  by (simp add: char_count_def)

lemma sale_stores:
  assumes "cw_node_id row = 7" "char_count (cw_target_addr row) \<le> 255"
  shows "insert_connect_intent (=) sale_mysql 1 sale_db [] (intent_id_of (to_connect_intent_request sale_request) 1000 row)
      (to_connect_intent_request sale_request) row 1060 =
    Inr [intent_row (intent_id_of (to_connect_intent_request sale_request) 1000 row)
      (to_connect_intent_request sale_request) row 1060]"
proof -
  let ?id = "intent_id_of (to_connect_intent_request sale_request) 1000 row"
  have "char_count ?id \<le> 96" by (rule intent_id_fits)
  then have "intent_fits (intent_row ?id (to_connect_intent_request sale_request) row 1060)"
    using assms(2)
    by (simp add: intent_fits_def intent_row_def to_connect_intent_request_def sale_request_def char_count_def is_cont_def)
  then show ?thesis
    using assms(1) by (simp add: sale_mysql_def find_node_def sale_db_def sale_node_def)
qed

definition sale_route :: business_per_session_route where
  "sale_route =
     \<lparr>br_node_id = 7, br_target_addr = ''0.0.0.0:'' @ show_u16 9000, br_protocol = ''udp'',
      br_region_id = None, br_region_name = None,
      br_route_policy = Some \<lparr>rb_policy = example_policy, rb_hash = example_hash\<rparr>\<rparr>"

definition sale_claims :: client_token_claims where
  "sale_claims = node_claims (token_claims_of 1000 60 (to_connect_intent_request sale_request)
     (Some (auth_context sale_request)) (sale_row sale_route) (br_route_policy sale_route))"

definition sale_to_json :: "api_token_claims \<Rightarrow> (string, bytes) result" where
  "sale_to_json c = (if node_claims c = sale_claims then Inr ''sale'' else Inl ''unwritable'')"

definition sale_headers :: headers where
  "sale_headers = [(''X-Business-Sync-Token'', Some ''sync'')]"

text \<open>The node of the example, reading the claims of the sale.\<close>

definition sale_world :: world where
  "sale_world = example_world\<lparr>w_readers := example_readers\<lparr>claims_of_json := (\<lambda>_. Some sale_claims)\<rparr>\<rparr>"

lemma sale_world_simps [simp]:
  "w_crypto sale_world = demo_crypto" "claims_of_json (w_readers sale_world) = (\<lambda>_. Some sale_claims)"
  "json_of_policy (w_writers sale_world) = (\<lambda>_. Inr ''policy'')"
  by (simp_all add: sale_world_def)

lemma sale_laws:
  "b64url_roundtrip demo_crypto" "b64url_printable demo_crypto"
  "claims_readable sale_to_json (\<lambda>_. Some sale_claims)"
  by (auto simp: b64url_printable_def claims_readable_def sale_to_json_def) (simp add: demo_crypto_def)

lemma sale_secret: "table_secret sale_db 7 = example_secret"
  by (simp add: table_secret_def select_node_secret_def find_node_def sale_db_def sale_node_def example_secret_def)

lemma sale_texts [simp]:
  "trim ''p1'' = ''p1''" "trim ''dynamic_targets'' = ''dynamic_targets''" "trim ''t1'' = ''t1''"
  "trim ''any'' = ''any''" "trim ''udp'' = ''udp''" "trim ''d1'' = ''d1''" "trim ''sync'' = ''sync''"
  by (subst trim_printable, simp_all add: code_of_def)+

lemma sale_lower [simp]:
  "to_ascii_lowercase ''dynamic_targets'' = ''dynamic_targets''" "to_ascii_lowercase ''any'' = ''any''"
  "to_ascii_lowercase ''udp'' = ''udp''"
  by (simp_all add: to_ascii_lowercase_def ascii_lower_def code_of_def)

lemma sale_required [simp]:
  "normalize_required_text ''p1'' field 128 = Inr ''p1''"
  "normalize_required_text ''dynamic_targets'' field 32 = Inr ''dynamic_targets''"
  "normalize_required_text ''t1'' field 128 = Inr ''t1''"
  "normalize_required_text ''any'' field 32 = Inr ''any''"
  by (simp_all add: normalize_required_text_Inr char_count_def is_cont_def code_of_def)

lemma sale_policy: "normalize_route_policy example_policy = Inr example_policy"
  by (simp add: normalize_route_policy_def example_policy_def validate_default_protocol_def
      validate_route_target_def known_host_types_def validate_port_range_def lower_trim_def
      udp_or_tcp_def word_le_nat_alt word_less_nat_alt Let_def)

lemma sale_per_session:
  "per_session_route demo_crypto (\<lambda>_. Inr ''policy'') sale_request = Inr (Some sale_route)"
proof -
  have bound: "validate_route_policy demo_crypto (\<lambda>_. Inr ''policy'') example_policy =
      Inr \<lparr>rb_policy = example_policy, rb_hash = example_hash\<rparr>"
    by (simp add: validate_route_policy_def sale_policy) (simp add: demo_crypto_def example_hash_def)
  have target: "representative_route_policy_target (policy_targets example_policy) ''udp'' =
      Inr (''0.0.0.0:'' @ show_u16 9000)"
    by (simp add: example_policy_def first_of_def)
  have "default_protocol example_policy = None" by (simp add: example_policy_def)
  then show ?thesis
    using bound target
    by (simp add: per_session_route_def sale_request_def Let_def udp_or_tcp_def normalize_optional_text_def
        sale_route_def)
qed

lemma sale_valid:
  "validate_business_connect_intent_request demo_crypto (\<lambda>_. Inr ''policy'') 1000 sale_request = Inr ()"
  unfolding validate_business_connect_intent_request_def sale_per_session
  by (simp add: sale_request_def to_connect_intent_request_def validate_connect_intent_request_def
      validate_optional_business_text_def word_le_nat_alt)

lemma sale_gate: "require_business_sync (Some ''sync'') sale_headers = Inr ()"
proof -
  have "\<not> eq_ignore_ascii_case ''X-Business-Sync-Token'' ''authorization''"
    "eq_ignore_ascii_case ''X-Business-Sync-Token'' ''X-Business-Sync-Token''"
    by (simp_all add: eq_ignore_ascii_case_def ascii_lower_def code_of_def)
  then have "business_sync_token_from_headers sale_headers = Some ''sync''"
    by (simp add: business_sync_token_from_headers_def bearer_or_def header_text_def sale_headers_def)
  moreover have "constant_time_eq ''sync'' ''sync''"
    by (subst constant_time_eq_correct) simp_all
  ultimately show ?thesis by (simp add: require_business_sync_def)
qed

lemma sale_issued:
  obtains k where "fst (business_connect_intent demo_crypto (\<lambda>_. Inr ''policy'') sale_to_json sale_database []
      (Some ''sync'') 1000 1000 60 sale_headers sale_request) = Inr k"
    "node_of_ticket (table_secret sale_db) k example_identity" "ak_node_id k = 7"
proof -
  let ?r = "to_connect_intent_request sale_request"
  let ?claims = "token_claims_of 1000 60 ?r (Some (auth_context sale_request)) (sale_row sale_route)
    (br_route_policy sale_route)"
  have "sale_to_json ?claims = Inr ''sale''"
    by (simp add: sale_to_json_def sale_claims_def)
  then obtain token where
    "sign_client_token demo_crypto sale_to_json ?claims (cw_node_secret (sale_row sale_route)) = Inr token"
    by (simp add: sign_client_token_def Let_def) (simp add: demo_crypto_def)
  moreover have "char_count (cw_target_addr (sale_row sale_route)) \<le> 255"
    using char_count_le [of "br_target_addr sale_route"] show_u16_length [of 9000]
    by (simp add: sale_row_def sale_route_def)
  then have "insert_connect_intent (=) sale_mysql 1 sale_db [] (intent_id_of ?r 1000 (sale_row sale_route)) ?r
      (sale_row sale_route) 1060 = Inr [intent_row (intent_id_of ?r 1000 (sale_row sale_route)) ?r (sale_row sale_route) 1060]"
    by (intro sale_stores) (simp_all add: sale_row_def)
  moreover have "select_per_session_candidate sale_mysql 0 sale_db sale_route = Inr (Some (sale_row sale_route))"
    by (rule sale_selects) (simp add: sale_route_def)
  moreover have "cw_server_port (sale_row sale_route) \<le> 65535" by (simp add: sale_row_def word_le_nat_alt)
  ultimately obtain response where issued: "fst (issue_per_session_connect_intent demo_crypto sale_to_json
      sale_database [] 1000 60 ?r (Some (auth_context sale_request)) sale_route) = Inr response"
    by (simp add: issue_per_session_connect_intent_def intent_tables_def issue_connect_intent_for_row_def Let_def
        del: insert_connect_intent_Inr)
  then obtain c where c: "ir_candidates response = [c]" "cn_node_id c = cw_node_id (sale_row sale_route)"
    using sale_selects [of sale_route]
    by (auto simp: issue_per_session_connect_intent_def intent_tables_def sale_route_def elim!: issued_for_row)
  obtain k where k: "ticket_from_connect_intent response ?r (auth_context sale_request) = Inr k"
    "ak_node_id k = cn_node_id c"
    using c by (simp add: ticket_from_connect_intent_def first_of_def)
  then have "fst (business_connect_intent demo_crypto (\<lambda>_. Inr ''policy'') sale_to_json sale_database []
      (Some ''sync'') 1000 1000 60 sale_headers sale_request) = Inr k"
    using issued by (simp add: business_connect_intent_def issue_business_ticket_def split_def Let_def sale_gate sale_valid sale_per_session)
  moreover have "ak_node_id k = 7" using k(2) c(2) by (simp add: sale_row_def sale_route_def)
  moreover from this have "node_of_ticket (table_secret sale_db) k example_identity"
    by (simp add: node_of_ticket_def example_secret_trim sale_secret)
  ultimately show ?thesis using that by blast
qed

end
