(* ===== verification/Api_Tasks.thy ===== *)
theory Api_Tasks
  imports Api_Database
begin

text \<open>
  The remote tasks of \<open>control-api/src/main.rs\<close>: an administrator creates a task, the node claims
  the oldest pending one, and posts its result. A task's status goes from pending to running to
  succeeded or failed; the tables enforce it, because a claim takes pending tasks only and a
  result is stored for unfinished ones only.
\<close>

record node_task_item =
  ni_task_id :: u64
  ni_task_type :: string
  ni_status :: string
  ni_message :: "string option"
  ni_created_at :: "u64 option"

definition node_task_item_of :: "node_task_row \<Rightarrow> node_task_item" where
  "node_task_item_of row =
     \<lparr>ni_task_id = nt_id row, ni_task_type = nt_task_type row, ni_status = nt_status row,
      ni_message = nt_message row, ni_created_at = nt_created_at row\<rparr>"

record node_task_result_request =
  nq_node_id :: u64
  nq_task_id :: u64
  nq_status :: string
  nq_message :: "string option"
  nq_output :: "string option"
  nq_started_at :: "u64 option"
  nq_finished_at :: "u64 option"

section \<open>Statements\<close>

definition select_node_task_for_update ::
  "mysql \<Rightarrow> nat \<Rightarrow> database \<Rightarrow> u64 \<Rightarrow> u64 \<Rightarrow> (app_error, node_task_row) result"
where
  "select_node_task_for_update my i db node_id task_id =
     bind_result (stmt my i (find (\<lambda>t. nt_id t = task_id \<and> nt_node_id t = node_id) (dt_tasks db)))
       (ok_or (not_found ''task_not_found'' ''node task does not exist''))"

definition insert_admin_node_task ::
  "mysql \<Rightarrow> u64 \<Rightarrow> string \<Rightarrow> string option \<Rightarrow> admin_actor \<Rightarrow> database \<Rightarrow> database \<Rightarrow>
   (app_error, node_task_row \<times> database) result"
where
  "insert_admin_node_task my node_id task_type message actor seen db =
     bind_result (ensure_admin_node_exists my 0 seen node_id) (\<lambda>_.
     bind_result (stmt my 1 ()) (\<lambda>_.
     bind_result (foreign_key node_id db) (\<lambda>_.
     bind_result (auto_id (dt_next_task db)) (\<lambda>task_id.
     let row = \<lparr>nt_id = task_id, nt_node_id = node_id, nt_task_type = task_type,
                nt_status = ''pending'', nt_message = message, nt_output = None,
                nt_error_message = None, nt_created_at = Some (my_now my 1), nt_claimed_at = None,
                nt_started_at = None, nt_finished_at = None\<rparr>;
         db1 = db\<lparr>dt_tasks := dt_tasks db @ [row], dt_next_task := task_id + 1\<rparr>;
         detail = JObject [(''task_id'', JNumber (show_u64 task_id)),
                           (''task_type'', JString task_type), (''message'', json_text message)];
         audit = \<lparr>al_node_id = node_id, al_actor_type = audit_actor_type actor,
                  al_actor_id = aa_id actor, al_action = ''node.task.create'', al_detail = detail\<rparr>
     in bind_result (bind_result (stmt my 2 ()) (\<lambda>_. insert_node_audit audit db1)) (\<lambda>db2.
     bind_result (select_node_task_for_update my 3 db2 node_id task_id) (\<lambda>task.
     stmt my 4 (task, db2)))))))"

text \<open>The ids are handed out in increasing order, so the first pending row is the oldest.\<close>

definition next_pending :: "u64 \<Rightarrow> node_task_row list \<Rightarrow> u64 option" where
  "next_pending node_id tasks =
     (case filter (\<lambda>t. nt_node_id t = node_id \<and> nt_status t = ''pending'') tasks of
        [] \<Rightarrow> None
      | t # ts \<Rightarrow> Some (fold min (map nt_id ts) (nt_id t)))"

definition claim_next_node_task ::
  "mysql \<Rightarrow> u64 \<Rightarrow> database \<Rightarrow> (app_error, node_task_row option \<times> database) result"
where
  "claim_next_node_task my node_id db =
     bind_result (stmt my 0 (next_pending node_id (dt_tasks db))) (\<lambda>found.
     case found of
       None \<Rightarrow> stmt my 1 (None, db)
     | Some task_id \<Rightarrow>
         bind_result (stmt my 1 (db\<lparr>dt_tasks := update_rows
             (\<lambda>t. nt_id t = task_id \<and> nt_node_id t = node_id)
             (\<lambda>t. t\<lparr>nt_status := ''running'', nt_claimed_at := Some (my_now my 1),
                     nt_started_at := Some (my_now my 1)\<rparr>) (dt_tasks db)\<rparr>)) (\<lambda>db1.
         bind_result (select_node_task_for_update my 2 db1 node_id task_id) (\<lambda>task.
         stmt my 3 (Some task, db1))))"

definition stored_text :: "string option \<Rightarrow> nat \<Rightarrow> string option" where
  "stored_text x n = map_option (take_chars n) (nonempty_text x)"

definition unfinished :: "node_task_row \<Rightarrow> bool" where
  "unfinished t \<longleftrightarrow> nt_status t = ''pending'' \<or> nt_status t = ''running''"

definition update_node_task_result ::
  "mysql \<Rightarrow> u64 \<Rightarrow> u64 \<Rightarrow> string \<Rightarrow> node_task_result_request \<Rightarrow> database \<Rightarrow>
   (app_error, database) result"
where
  "update_node_task_result my node_id task_id status request db =
     (let message = stored_text (nq_message request) 512;
          output = stored_text (nq_output request) 4096;
          error_message = (if status = ''failed'' then message else None);
          hit = (\<lambda>t. nt_id t = task_id \<and> nt_node_id t = node_id \<and> unfinished t);
          unix = (\<lambda>x. Option.bind x (my_from_unixtime my));
          change = (\<lambda>t. t\<lparr>nt_status := status, nt_message := or_option message (nt_message t),
              nt_output := output, nt_error_message := error_message,
              nt_started_at := or_option (unix (nq_started_at request)) (nt_started_at t),
              nt_finished_at := or_option (unix (nq_finished_at request)) (Some (my_now my 0))\<rparr>)
      in bind_result (stmt my 0 (db\<lparr>dt_tasks := update_rows hit change (dt_tasks db)\<rparr>)) (\<lambda>db1.
         if filter hit (dt_tasks db) = [] then
           Inl (not_found ''task_not_found'' ''node task does not exist or is already finished'')
         else
           let detail = JObject [(''task_id'', JNumber (show_u64 task_id)),
                 (''status'', JString status), (''message'', json_text message)];
               audit = \<lparr>al_node_id = node_id, al_actor_type = ''node'', al_actor_id = None,
                 al_action = ''node.task.result'', al_detail = detail\<rparr>
           in bind_result (bind_result (stmt my 1 ()) (\<lambda>_. insert_node_audit audit db1)) (\<lambda>db2.
              stmt my 2 db2)))"

definition validate_node_task_result ::
  "u64 \<Rightarrow> u64 \<Rightarrow> node_task_result_request \<Rightarrow> (app_error, unit) result"
where
  "validate_node_task_result header_node_id path_task_id request =
     (if nq_node_id request \<noteq> header_node_id then
        Inl (bad_request ''node_id_mismatch'' ''header node id does not match task result body'')
      else if nq_task_id request \<noteq> path_task_id then
        Inl (bad_request ''task_id_mismatch'' ''path task id does not match task result body'')
      else if nq_task_id request = 0 then
        Inl (bad_request ''invalid_task_id'' ''task_id must be positive'')
      else Inr ())"

section \<open>The endpoints\<close>

definition node_tasks_path :: string where "node_tasks_path = ''/api/node/v1/tasks''"

text \<open>Authentication reads the node's secret from the tables of that moment.\<close>

definition authenticated ::
  "crypto \<Rightarrow> mysql \<Rightarrow> u64 \<Rightarrow> database \<Rightarrow> headers \<Rightarrow> string \<Rightarrow> string \<Rightarrow> bytes \<Rightarrow> (app_error, u64) result"
where
  "authenticated cx my now seen = authenticate_node_request cx
     (\<lambda>node_id. stmt my 0 (select_node_secret seen node_id)) now"

text \<open>\<open>my'\<close> is the database during the second transaction of a request.\<close>

definition node_tasks ::
  "crypto \<Rightarrow> mysql \<Rightarrow> mysql \<Rightarrow> u64 \<Rightarrow> headers \<Rightarrow> database \<Rightarrow> database \<Rightarrow>
   (app_error, u64 \<times> node_task_item list) result \<times> database"
where
  "node_tasks cx my my' now hs seen db =
     (case bind_result (authenticated cx my now seen hs ''GET'' node_tasks_path []) (\<lambda>node_id.
          bind_result (claim_next_node_task my' node_id db) (\<lambda>(task, db'). Inr (node_id, task, db'))) of
        Inl e \<Rightarrow> (Inl e, db)
      | Inr (node_id, task, db') \<Rightarrow>
          (Inr (node_id, (case task of None \<Rightarrow> [] | Some t \<Rightarrow> [node_task_item_of t])), db'))"

definition node_task_result ::
  "crypto \<Rightarrow> mysql \<Rightarrow> mysql \<Rightarrow> (bytes \<Rightarrow> node_task_result_request option) \<Rightarrow> u64 \<Rightarrow> headers \<Rightarrow> u64 \<Rightarrow> bytes \<Rightarrow>
   database \<Rightarrow> database \<Rightarrow> (app_error, u64) result \<times> database"
where
  "node_task_result cx my my' of_json now hs task_id body seen db =
     (let path = ''/api/node/v1/tasks/'' @ show_u64 task_id @ ''/result''
      in case bind_result (authenticated cx my now seen hs ''POST'' path body) (\<lambda>node_id.
          bind_result (ok_or (bad_request ''invalid_task_result'' ''invalid node task result body'')
            (of_json body)) (\<lambda>request.
          bind_result (validate_node_task_result node_id task_id request) (\<lambda>_.
          bind_result (validate_node_task_result_status (nq_status request)) (\<lambda>status.
          bind_result (update_node_task_result my' node_id task_id status request db) (\<lambda>db'.
          Inr (node_id, db')))))) of
           Inl e \<Rightarrow> (Inl e, db)
         | Inr (node_id, db') \<Rightarrow> (Inr node_id, db'))"

definition admin_create_node_task ::
  "mysql \<Rightarrow> (app_error, admin_actor) result \<Rightarrow> u64 \<Rightarrow> string \<Rightarrow> string option \<Rightarrow> database \<Rightarrow>
   database \<Rightarrow> (app_error, node_task_row) result \<times> database"
where
  "admin_create_node_task my admin node_id task_type message seen db =
     (case bind_result admin (\<lambda>actor.
          bind_result (validate_admin_node_task_type task_type) (\<lambda>task_type.
          insert_admin_node_task my node_id task_type (stored_text message 512) actor seen db)) of
        Inl e \<Rightarrow> (Inl e, db)
      | Inr (task, db') \<Rightarrow> (Inr task, db'))"

section \<open>What the transactions do\<close>

definition tasks_ok :: "database \<Rightarrow> bool" where
  "tasks_ok db \<longleftrightarrow> rows_ok nt_id (dt_tasks db) (dt_next_task db)"

lemma task_unique:
  "tasks_ok db \<Longrightarrow> t \<in> set (dt_tasks db) \<Longrightarrow> t' \<in> set (dt_tasks db) \<Longrightarrow> nt_id t = nt_id t' \<Longrightarrow> t = t'"
  unfolding tasks_ok_def by (rule rows_ok_unique)

lemma tasks_ok_update:
  "tasks_ok db \<Longrightarrow> dt_tasks db' = update_rows p f (dt_tasks db) \<Longrightarrow> dt_next_task db' = dt_next_task db \<Longrightarrow>
   (\<And>t. nt_id (f t) = nt_id t) \<Longrightarrow> tasks_ok db'"
  by (simp add: tasks_ok_def rows_ok_update)

lemma select_node_task_Inr:
  "select_node_task_for_update my i db node_id task_id = Inr t \<Longrightarrow>
   t \<in> set (dt_tasks db) \<and> nt_id t = task_id \<and> nt_node_id t = node_id"
  by (auto simp: select_node_task_for_update_def dest: find_Some_set)

lemma insert_task:
  assumes "insert_admin_node_task my node_id task_type message actor seen db = Inr (task, db')" "tasks_ok db"
  shows "tasks_ok db'" "dt_tasks db' = dt_tasks db @ [task]"
    "nt_id task = dt_next_task db" "nt_status task = ''pending''" "nt_node_id task = node_id"
    "nt_task_type task = task_type" "find_node node_id db \<noteq> None"
    "dt_next_task db' = dt_next_task db + 1" "unat (dt_next_task db) + 1 < 2 ^ 64"
proof -
  let ?row = "\<lparr>nt_id = dt_next_task db, nt_node_id = node_id, nt_task_type = task_type,
                nt_status = ''pending'', nt_message = message, nt_output = None,
                nt_error_message = None, nt_created_at = Some (my_now my 1), nt_claimed_at = None,
                nt_started_at = None, nt_finished_at = None\<rparr>"
  from assms(1) have
    tasks: "dt_tasks db' = dt_tasks db @ [?row]" "dt_next_task db' = dt_next_task db + 1" and
    bound: "unat (dt_next_task db) + 1 < 2 ^ 64" and
    sel: "select_node_task_for_update my 3 db' node_id (dt_next_task db) = Inr task" and
    node: "find_node node_id db \<noteq> None"
    by (auto simp: insert_admin_node_task_def Let_def ensure_admin_node_exists_def split: if_splits)
  have fresh: "nt_id t \<noteq> dt_next_task db" if "t \<in> set (dt_tasks db)" for t
    using assms(2) that unfolding tasks_ok_def by (rule rows_ok_fresh)
  have "task = ?row"
    using select_node_task_Inr [OF sel] fresh tasks(1) by auto
  then show "dt_tasks db' = dt_tasks db @ [task]" "nt_id task = dt_next_task db"
    "nt_status task = ''pending''" "nt_node_id task = node_id" "nt_task_type task = task_type"
    "find_node node_id db \<noteq> None" "dt_next_task db' = dt_next_task db + 1"
    "unat (dt_next_task db) + 1 < 2 ^ 64"
    using tasks node bound by simp_all
  show "tasks_ok db'"
    using assms(2) tasks bound unfolding tasks_ok_def by (simp add: rows_ok_append)
qed

text \<open>With the rows in the order of their ids, the smallest pending id is that of the first row.\<close>

definition pending_ids :: "u64 \<Rightarrow> database \<Rightarrow> u64 list" where
  "pending_ids node_id db =
     map nt_id (filter (\<lambda>t. nt_node_id t = node_id \<and> nt_status t = ''pending'') (dt_tasks db))"

definition first_id :: "u64 list \<Rightarrow> u64 option" where
  "first_id ids = (case ids of [] \<Rightarrow> None | i # _ \<Rightarrow> Some i)"

lemma fold_min_first: "(\<And>x. x \<in> set xs \<Longrightarrow> a \<le> x) \<Longrightarrow> fold min xs (a :: u64) = a"
  by (induction xs) (simp_all add: min_absorb2)

lemma pending_ids_sorted: "tasks_ok db \<Longrightarrow> sorted_wrt (<) (pending_ids node_id db)"
  unfolding tasks_ok_def rows_ok_def pending_ids_def by (simp add: sorted_wrt_map sorted_wrt_filter)

lemma next_pending_first:
  assumes "tasks_ok db"
  shows "next_pending node_id (dt_tasks db) = first_id (pending_ids node_id db)"
proof (cases "filter (\<lambda>t. nt_node_id t = node_id \<and> nt_status t = ''pending'') (dt_tasks db)")
  case Nil
  then show ?thesis by (simp add: next_pending_def first_id_def pending_ids_def)
next
  case (Cons t ts)
  have "fold min (map nt_id ts) (nt_id t) = nt_id t"
    using pending_ids_sorted [OF assms, of node_id] Cons
    by (intro fold_min_first) (auto simp: pending_ids_def)
  then show ?thesis using Cons by (simp add: next_pending_def first_id_def pending_ids_def)
qed

lemma claim_update:
  assumes "claim_next_node_task my node_id db = Inr (found, db')"
  obtains (none) "found = None" "db' = db" "next_pending node_id (dt_tasks db) = None"
  | (claimed) i t where "found = Some t" "nt_id t = i" "next_pending node_id (dt_tasks db) = Some i"
      "dt_next_task db' = dt_next_task db"
      "dt_tasks db' = update_rows (\<lambda>t. nt_id t = i \<and> nt_node_id t = node_id)
         (\<lambda>t. t\<lparr>nt_status := ''running'', nt_claimed_at := Some (my_now my 1),
                 nt_started_at := Some (my_now my 1)\<rparr>) (dt_tasks db)"
proof (cases "next_pending node_id (dt_tasks db)")
  case None
  then show thesis
    using assms none by (simp add: claim_next_node_task_def)
next
  case (Some i)
  from assms obtain t where
    db': "db' = db\<lparr>dt_tasks := update_rows (\<lambda>t. nt_id t = i \<and> nt_node_id t = node_id)
      (\<lambda>t. t\<lparr>nt_status := ''running'', nt_claimed_at := Some (my_now my 1),
              nt_started_at := Some (my_now my 1)\<rparr>) (dt_tasks db)\<rparr>" and found: "found = Some t" and
    sel: "select_node_task_for_update my 2 db' node_id i = Inr t"
    by (auto simp: claim_next_node_task_def Some)
  have "nt_id t = i" using select_node_task_Inr [OF sel] by simp
  then show thesis using db' by (intro claimed [OF found _ Some]) simp_all
qed

lemma result_update:
  assumes "update_node_task_result my node_id task_id status request db = Inr db'"
  obtains f where "\<And>t. nt_id (f t) = nt_id t" "\<And>t. nt_node_id (f t) = nt_node_id t"
    "\<And>t. nt_task_type (f t) = nt_task_type t" "\<And>t. nt_status (f t) = status"
    "\<exists>t \<in> set (dt_tasks db). nt_id t = task_id \<and> nt_node_id t = node_id \<and> unfinished t"
    "dt_tasks db' = update_rows (\<lambda>t. nt_id t = task_id \<and> nt_node_id t = node_id \<and> unfinished t) f (dt_tasks db)"
    "dt_next_task db' = dt_next_task db"
proof -
  let ?p = "\<lambda>t. nt_id t = task_id \<and> nt_node_id t = node_id \<and> unfinished t"
  from assms obtain f where tasks: "dt_tasks db' = update_rows ?p f (dt_tasks db)"
    "dt_next_task db' = dt_next_task db" and
    f: "\<And>t. nt_id (f t) = nt_id t" "\<And>t. nt_node_id (f t) = nt_node_id t"
      "\<And>t. nt_task_type (f t) = nt_task_type t" "\<And>t. nt_status (f t) = status" and
    hit: "filter ?p (dt_tasks db) \<noteq> []"
    by (auto simp: update_node_task_result_def Let_def split: if_splits)
  have "\<exists>t \<in> set (dt_tasks db). ?p t" using hit by (auto simp: filter_empty_conv)
  then show thesis by (intro that [OF f _ tasks])
qed

end
