(* ===== verification/Api_Nodes.thy ===== *)
theory Api_Nodes
  imports Api_Tasks Api_Labels
begin

text \<open>
  The life of a node in \<open>control-api/src/main.rs\<close>: an administrator registers it and hands out a
  one-time bootstrap token, the installer exchanges the token for the node's secret, and the node
  then shakes hands, reports and fetches its configuration with signed requests. An administrator
  edits the node, which gives its configuration a new revision, sets its status or deletes it.
\<close>

section \<open>Requests\<close>

record bootstrap_request =
  bq_bootstrap_token :: string
  bq_hostname :: string
  bq_os :: string
  bq_arch :: string
  bq_kernel :: string
  bq_ips :: "string list"
  bq_installer_version :: string

record admin_create_node_request =
  an_name :: string
  an_server_ip :: string
  an_server_port :: u32
  an_relay_server_ip :: "string option"
  an_relay_server_port :: "u32 option"
  an_is_support_ipv6 :: "bool option"
  an_bandwidth_quality :: "string option"
  an_disable_quic :: "bool option"
  an_area :: "string option"
  an_telecom_ip :: "string option"
  an_mobile_ip :: "string option"
  an_unicom_ip :: "string option"
  an_tag :: "string option"

text \<open>The \<open>TINYINT(1)\<close> flags, which \<open>bool_i8\<close> writes and \<open>!= 0\<close> reads, are booleans.\<close>

record normalized_create_node =
  nn_name :: string
  nn_server_ip :: string
  nn_server_port :: u32
  nn_relay_server_ip :: "string option"
  nn_relay_server_port :: "u32 option"
  nn_is_support_ipv6 :: bool
  nn_bandwidth_quality :: string
  nn_disable_quic :: bool
  nn_area :: string
  nn_telecom_ip :: "string option"
  nn_mobile_ip :: "string option"
  nn_unicom_ip :: "string option"
  nn_tag :: "string option"

record node_listener_snapshot =
  ln_udp_listening :: bool
  ln_tcp_listening :: bool
  ln_listen_addr :: "string option"

record node_traffic_snapshot =
  tn_udp_rx_packets :: u64
  tn_udp_rx_bytes :: u64
  tn_udp_tx_packets :: u64
  tn_udp_tx_bytes :: u64
  tn_tcp_accepted :: u64
  tn_tcp_rx_bytes :: u64
  tn_tcp_tx_bytes :: u64

record node_session_snapshot =
  sn_active_tcp_connections :: u64
  sn_active_udp_sessions :: u64
  sn_extra :: "(string \<times> json) list"

record node_health_snapshot =
  hn_listeners :: node_listener_snapshot
  hn_traffic :: node_traffic_snapshot
  hn_sessions :: node_session_snapshot
  hn_extra :: "(string \<times> json) list"

record node_report_request =
  qr_node_id :: u64
  qr_config_revision :: u64
  qr_node_version :: string
  qr_status :: string
  qr_timestamp :: u64
  qr_health :: node_health_snapshot

record node_handshake_request =
  qh_node_id :: u64
  qh_node_version :: string
  qh_os :: string
  qh_arch :: string
  qh_boot_id :: string
  qh_timestamp :: u64
  qh_nonce :: string
  qh_config_revision :: u64
  qh_listen_addr :: "string option"

text \<open>The network of a configuration, as the node and the installer are sent it.\<close>

record operator_ips_response =
  oq_telecom_ip :: "string option"
  oq_mobile_ip :: "string option"
  oq_unicom_ip :: "string option"

record network_response =
  nw_server_ip :: string
  nw_listen_ip :: string
  nw_server_port :: u32
  nw_relay_server_ip :: "string option"
  nw_relay_server_port :: "u32 option"
  nw_is_support_ipv6 :: bool
  nw_disable_quic :: bool
  nw_area :: string
  nw_bandwidth_quality :: string
  nw_tag :: "string option"
  nw_operator_ips :: operator_ips_response

record node_config_reply =
  cr_node_id :: u64
  cr_config_revision :: u64
  cr_server_time :: u64
  cr_network :: network_response

record bootstrap_response =
  bs_node_id :: u64
  bs_node_secret :: string
  bs_panel_url :: string
  bs_server_ip :: string
  bs_server_port :: u32
  bs_config_revision :: u64
  bs_network :: network_response

record node_handshake_reply =
  ha_node_id :: u64
  ha_server_time :: u64
  ha_config_revision :: u64
  ha_min_node_version :: string

section \<open>Validation\<close>

definition validate_bootstrap_request :: "bootstrap_request \<Rightarrow> (app_error, unit) result" where
  "validate_bootstrap_request r =
     (if trim (bq_bootstrap_token r) = [] then
        Inl (bad_request ''invalid_bootstrap_token'' ''bootstrap_token is required'')
      else if trim (bq_hostname r) = [] then Inl (bad_request ''invalid_hostname'' ''hostname is required'')
      else if bq_os r \<noteq> ''linux'' then Inl (bad_request ''invalid_os'' ''only linux bootstrap is supported'')
      else if bq_arch r \<noteq> ''x86_64'' \<and> bq_arch r \<noteq> ''aarch64'' then
        Inl (bad_request ''invalid_arch'' ''arch must be x86_64 or aarch64'')
      else if trim (bq_kernel r) = [] then Inl (bad_request ''invalid_kernel'' ''kernel is required'')
      else if trim (bq_installer_version r) = [] then
        Inl (bad_request ''invalid_installer_version'' ''installer_version is required'')
      else if bq_ips r = [] then Inl (bad_request ''invalid_ips'' ''at least one host IP is required'')
      else Inr ())"

definition optional_port :: "u32 option \<Rightarrow> string \<Rightarrow> (app_error, u32 option) result" where
  "optional_port port field =
     (case port of None \<Rightarrow> Inr None
      | Some p \<Rightarrow> bind_result (validate_port p field) (\<lambda>p. Inr (Some p)))"

definition normalize_create_node_request ::
  "admin_create_node_request \<Rightarrow> (app_error, normalized_create_node) result"
where
  "normalize_create_node_request r =
     bind_result (normalize_required_text (an_name r) ''name'' 128) (\<lambda>name.
     bind_result (normalize_ip_text (an_server_ip r) ''server_ip'') (\<lambda>server_ip.
     bind_result (validate_port (an_server_port r) ''server_port'') (\<lambda>server_port.
     bind_result (normalize_optional_ip_text (an_relay_server_ip r) ''relay_server_ip'') (\<lambda>relay_ip.
     bind_result (optional_port (an_relay_server_port r) ''relay_server_port'') (\<lambda>relay_port.
     if relay_ip = None \<and> relay_port \<noteq> None then
       Inl (bad_request ''invalid_relay''
         ''relay_server_ip is required when relay_server_port is provided'')
     else let quality = unwrap_or ''normal'' (nonempty_text (an_bandwidth_quality r)) in
     if quality \<notin> {''fast'', ''normal'', ''slow''} then
       Inl (bad_request ''invalid_quality'' ''bandwidth_quality must be fast, normal, or slow'')
     else
     bind_result (normalize_optional_text (an_area r) 32) (\<lambda>area.
     bind_result (normalize_optional_ip_text (an_telecom_ip r) ''telecom_ip'') (\<lambda>telecom.
     bind_result (normalize_optional_ip_text (an_mobile_ip r) ''mobile_ip'') (\<lambda>mobile.
     bind_result (normalize_optional_ip_text (an_unicom_ip r) ''unicom_ip'') (\<lambda>unicom.
     bind_result (normalize_optional_text (an_tag r) 64) (\<lambda>tag.
     Inr \<lparr>nn_name = name, nn_server_ip = server_ip, nn_server_port = server_port,
          nn_relay_server_ip = relay_ip, nn_relay_server_port = relay_port,
          nn_is_support_ipv6 = unwrap_or False (an_is_support_ipv6 r), nn_bandwidth_quality = quality,
          nn_disable_quic = unwrap_or False (an_disable_quic r), nn_area = unwrap_or ''UNKNOWN'' area,
          nn_telecom_ip = telecom, nn_mobile_ip = mobile, nn_unicom_ip = unicom, nn_tag = tag\<rparr>))))))))))"

definition validate_node_handshake_request ::
  "u64 \<Rightarrow> u64 \<Rightarrow> string \<Rightarrow> node_handshake_request \<Rightarrow> (app_error, unit) result"
where
  "validate_node_handshake_request header_node_id header_timestamp header_nonce r =
     (if qh_node_id r = 0 then Inl (bad_request ''invalid_node'' ''handshake node_id must be positive'')
      else if qh_node_id r \<noteq> header_node_id then
        Inl (bad_request ''node_id_mismatch'' ''header node id does not match handshake body'')
      else if qh_timestamp r \<noteq> header_timestamp then
        Inl (bad_request ''timestamp_mismatch'' ''header timestamp does not match handshake body'')
      else if qh_nonce r \<noteq> header_nonce then
        Inl (bad_request ''nonce_mismatch'' ''header nonce does not match handshake body'')
      else if trim (qh_node_version r) = [] then
        Inl (bad_request ''invalid_node_version'' ''node_version is required'')
      else if qh_os r \<noteq> ''linux'' then
        Inl (bad_request ''invalid_os'' ''only linux node handshakes are supported'')
      else if trim (qh_arch r) = [] then Inl (bad_request ''invalid_arch'' ''arch is required'')
      else if trim (qh_boot_id r) = [] then Inl (bad_request ''invalid_boot_id'' ''boot_id is required'')
      else if is_some_and (\<lambda>a. 128 < char_count a) (qh_listen_addr r) then
        Inl (bad_request ''invalid_listen_addr'' ''listen_addr must be at most 128 characters'')
      else Inr ())"

definition validate_node_report_request :: "u64 \<Rightarrow> node_report_request \<Rightarrow> (app_error, unit) result" where
  "validate_node_report_request header_node_id r =
     (if qr_node_id r = 0 then Inl (bad_request ''invalid_node'' ''report node_id must be positive'')
      else if qr_node_id r \<noteq> header_node_id then
        Inl (bad_request ''node_id_mismatch'' ''header node id does not match report body'')
      else if trim (qr_node_version r) = [] then
        Inl (bad_request ''invalid_node_version'' ''node_version is required'')
      else if trim (qr_status r) = [] then Inl (bad_request ''invalid_status'' ''status is required'')
      else if qr_timestamp r = 0 then
        Inl (bad_request ''invalid_report_timestamp'' ''report timestamp must be positive'')
      else Inr ())"

definition report_database_status :: "node_report_request \<Rightarrow> string" where
  "report_database_status r =
     (if qr_status r = ''ready'' \<and> ln_udp_listening (hn_listeners (qr_health r)) \<and>
         ln_tcp_listening (hn_listeners (qr_health r)) then ''online'' else ''degraded'')"

section \<open>Nodes\<close>

definition node_endpoint_exists_error :: app_error where
  "node_endpoint_exists_error = conflict ''node_endpoint_exists''
     (utf8 [0x8282, 0x70B9, 0x5165, 0x53E3, 0x5DF2, 0x5B58, 0x5728, 0xFF1A] @ ''server_ip '' @
      utf8 [0x548C] @ '' server_port '' @ utf8 [0x4E0D, 0x80FD, 0x91CD, 0x590D, 0x3002, 0x5DF2, 0x6709,
      0x8282, 0x70B9, 0x8BF7, 0x4F7F, 0x7528, 0x4FEE, 0x6539, 0x8282, 0x70B9, 0x3002])"

text \<open>\<open>same\<close> compares texts as the collation of the table does.\<close>

definition select_node_id_by_endpoint ::
  "(string \<Rightarrow> string \<Rightarrow> bool) \<Rightarrow> database \<Rightarrow> string \<Rightarrow> u32 \<Rightarrow> u64 option \<Rightarrow> u64 option"
where
  "select_node_id_by_endpoint same db server_ip server_port exclude =
     map_option nd_id (find (\<lambda>n. same (nd_server_ip n) server_ip \<and> nd_server_port n = server_port \<and>
       exclude \<noteq> Some (nd_id n)) (dt_nodes db))"

definition set_node_network :: "normalized_create_node \<Rightarrow> node_row \<Rightarrow> node_row" where
  "set_node_network node n = n\<lparr>nd_name := nn_name node, nd_server_ip := nn_server_ip node,
     nd_server_port := nn_server_port node, nd_relay_server_ip := nn_relay_server_ip node,
     nd_relay_server_port := nn_relay_server_port node, nd_is_support_ipv6 := nn_is_support_ipv6 node,
     nd_bandwidth_quality := nn_bandwidth_quality node, nd_disable_quic := nn_disable_quic node,
     nd_area := nn_area node, nd_telecom_ip := nn_telecom_ip node, nd_mobile_ip := nn_mobile_ip node,
     nd_unicom_ip := nn_unicom_ip node, nd_tag := nn_tag node\<rparr>"

definition new_node_row :: "u64 \<Rightarrow> normalized_create_node \<Rightarrow> node_row" where
  "new_node_row node_id node =
     \<lparr>nd_id = node_id, nd_name = nn_name node, nd_server_ip = nn_server_ip node,
      nd_server_port = nn_server_port node, nd_relay_server_ip = nn_relay_server_ip node,
      nd_relay_server_port = nn_relay_server_port node, nd_is_support_ipv6 = nn_is_support_ipv6 node,
      nd_bandwidth_quality = nn_bandwidth_quality node, nd_disable_quic = nn_disable_quic node,
      nd_area = nn_area node, nd_telecom_ip = nn_telecom_ip node, nd_mobile_ip = nn_mobile_ip node,
      nd_unicom_ip = nn_unicom_ip node, nd_tag = nn_tag node, nd_status = ''pending_install'',
      nd_node_secret = None, nd_installed_at = None, nd_last_seen_at = None, nd_last_report_at = None,
      nd_kernel_version = None, nd_config_revision = 1\<rparr>"

definition insert_admin_node ::
  "(string \<Rightarrow> string \<Rightarrow> bool) \<Rightarrow> mysql \<Rightarrow> admin_create_node_request \<Rightarrow> database \<Rightarrow> database \<Rightarrow>
   (app_error, u64 \<times> database) result"
where
  "insert_admin_node same my request seen db =
     bind_result (normalize_create_node_request request) (\<lambda>node.
     bind_result (stmt my 0
       (select_node_id_by_endpoint same seen (nn_server_ip node) (nn_server_port node) None)) (\<lambda>taken.
     if taken \<noteq> None then Inl node_endpoint_exists_error
     else
       bind_result (stmt my 1 ()) (\<lambda>_.
       if select_node_id_by_endpoint same db (nn_server_ip node) (nn_server_port node) None \<noteq> None then
         Inl node_endpoint_exists_error
       else
         bind_result (auto_id (dt_next_node db)) (\<lambda>node_id.
         Inr (node_id, db\<lparr>dt_nodes := dt_nodes db @ [new_node_row node_id node],
                         dt_next_node := node_id + 1\<rparr>)))))"

definition config_json :: "normalized_create_node \<Rightarrow> json" where
  "config_json node =
     JObject [(''network'', JObject
       [(''server_ip'', JString (nn_server_ip node)), (''listen_ip'', JString ''0.0.0.0''),
        (''server_port'', JNumber (show_nat (unat (nn_server_port node)))),
        (''relay_server_ip'', json_text (nn_relay_server_ip node)),
        (''relay_server_port'', (case nn_relay_server_port node of
            None \<Rightarrow> JNull | Some p \<Rightarrow> JNumber (show_nat (unat p)))),
        (''is_support_ipv6'', JBool (nn_is_support_ipv6 node)),
        (''disable_quic'', JBool (nn_disable_quic node)), (''area'', JString (nn_area node)),
        (''bandwidth_quality'', JString (nn_bandwidth_quality node)), (''tag'', json_text (nn_tag node)),
        (''operator_ips'', JObject [(''telecom_ip'', json_text (nn_telecom_ip node)),
          (''mobile_ip'', json_text (nn_mobile_ip node)), (''unicom_ip'', json_text (nn_unicom_ip node))])])]"

text \<open>A revision above the largest number the column holds is an error of the statement.\<close>

definition update_admin_node_config ::
  "(string \<Rightarrow> string \<Rightarrow> bool) \<Rightarrow> mysql \<Rightarrow> u64 \<Rightarrow> admin_create_node_request \<Rightarrow> database \<Rightarrow> database \<Rightarrow>
   (app_error, database) result"
where
  "update_admin_node_config same my node_id request seen db =
     bind_result (normalize_create_node_request request) (\<lambda>node.
     bind_result (stmt my 0
       (select_node_id_by_endpoint same seen (nn_server_ip node) (nn_server_port node) (Some node_id)))
       (\<lambda>taken.
     if taken \<noteq> None then Inl node_endpoint_exists_error
     else
       bind_result (stmt my 1 (find_node node_id db)) (\<lambda>found.
       case found of
         None \<Rightarrow> Inl (not_found ''node_not_found'' ''node does not exist'')
       | Some old \<Rightarrow>
           if nd_config_revision old = - 1 then Inl database_error
           else if select_node_id_by_endpoint same db (nn_server_ip node) (nn_server_port node)
                     (Some node_id) \<noteq> None then Inl node_endpoint_exists_error
           else
             let revision = nd_config_revision old + 1;
                 db1 = update_node node_id
                   (\<lambda>n. (set_node_network node n)\<lparr>nd_config_revision := nd_config_revision n + 1\<rparr>) db
             in bind_result (stmt my 2 ()) (\<lambda>_.
                if \<exists>v \<in> set (dt_revisions db1). cv_node_id v = node_id \<and> cv_revision v = revision then
                  Inl database_error
                else
                  let row = \<lparr>cv_node_id = node_id, cv_revision = revision, cv_config = config_json node\<rparr>
                  in stmt my 3 (db1\<lparr>dt_revisions := dt_revisions db1 @ [row]\<rparr>)))))"

definition delete_admin_node :: "mysql \<Rightarrow> u64 \<Rightarrow> database \<Rightarrow> (app_error, bool \<times> database) result" where
  "delete_admin_node my node_id db =
     (if node_id = 0 then Inl (bad_request ''invalid_node'' ''node_id must be positive'')
      else stmt my 0 (find_node node_id db \<noteq> None,
        db\<lparr>dt_nodes := filter (\<lambda>n. nd_id n \<noteq> node_id) (dt_nodes db),
           dt_tokens := filter (\<lambda>t. bt_node_id t \<noteq> node_id) (dt_tokens db),
           dt_tasks := filter (\<lambda>t. nt_node_id t \<noteq> node_id) (dt_tasks db),
           dt_audit := filter (\<lambda>a. al_node_id a \<noteq> node_id) (dt_audit db),
           dt_reports := filter (\<lambda>r. rr_node_id r \<noteq> node_id) (dt_reports db),
           dt_revisions := filter (\<lambda>v. cv_node_id v \<noteq> node_id) (dt_revisions db)\<rparr>))"

text \<open>The previous status is read without a lock, from what the transaction saw first.\<close>

definition update_admin_node_status ::
  "mysql \<Rightarrow> u64 \<Rightarrow> string \<Rightarrow> string option \<Rightarrow> admin_actor \<Rightarrow> database \<Rightarrow> database \<Rightarrow>
   (app_error, string \<times> database) result"
where
  "update_admin_node_status my node_id next_status reason actor seen db =
     bind_result (stmt my 0 (map_option nd_status (find_node node_id seen))) (\<lambda>found.
     bind_result (ok_or (not_found ''node_not_found'' ''node does not exist'') found) (\<lambda>previous.
     bind_result (stmt my 1 (update_node node_id (\<lambda>n. n\<lparr>nd_status := next_status\<rparr>) db)) (\<lambda>db1.
     let detail = JObject [(''previous_status'', JString previous),
           (''current_status'', JString next_status), (''reason'', json_text reason)];
         audit = \<lparr>al_node_id = node_id, al_actor_type = audit_actor_type actor,
           al_actor_id = aa_id actor, al_action = ''node.status.update'', al_detail = detail\<rparr>
     in bind_result (bind_result (stmt my 2 ()) (\<lambda>_. insert_node_audit audit db1)) (\<lambda>db2.
        stmt my 3 (previous, db2)))))"

end
