(* ===== verification/Api_Node_Sync.thy ===== *)
theory Api_Node_Sync
  imports Api_Nodes
begin

text \<open>
  The requests of nodes and installers in \<open>control-api/src/main.rs\<close>: the exchange of a bootstrap
  token, the handshake, the report and the fetch of the configuration, with the administrator's
  handlers of nodes and tokens. What the random generator and the JSON codecs return is a
  parameter; the summaries that the administrator is shown are left out of the results.
\<close>

section \<open>Bootstrap tokens\<close>

definition generate_bootstrap_token :: "crypto \<Rightarrow> bytes \<Rightarrow> string" where
  "generate_bootstrap_token cx random = ''xbt.'' @ b64url_encode cx random"

definition generate_node_secret :: "crypto \<Rightarrow> bytes \<Rightarrow> string" where
  "generate_node_secret cx random = b64_encode cx random"

definition create_bootstrap_token ::
  "crypto \<Rightarrow> (string \<Rightarrow> string \<Rightarrow> bool) \<Rightarrow> mysql \<Rightarrow> bytes \<Rightarrow> u64 \<Rightarrow> u64 option \<Rightarrow> u64 \<Rightarrow> database \<Rightarrow> database \<Rightarrow>
   (app_error, string \<times> u64 \<times> database) result"
where
  "create_bootstrap_token cx same my random node_id created_by expires_at seen db =
     (if node_id = 0 then Inl (bad_request ''invalid_node'' ''node_id must be positive'')
      else if created_by = Some 0 then
        Inl (bad_request ''invalid_actor'' ''created_by must be positive when provided'')
      else
        bind_result (stmt my 0 (find_node node_id seen)) (\<lambda>found.
        if found = None then Inl (not_found ''node_not_found'' ''node does not exist'')
        else
          let token = generate_bootstrap_token cx random;
              token_hash = hash_bootstrap_token cx token
          in bind_result (stmt my 1 ()) (\<lambda>_.
             bind_result (foreign_key node_id db) (\<lambda>_.
             bind_result (required_time my expires_at) (\<lambda>expires.
             if \<exists>t \<in> set (dt_tokens db). same (bt_token_hash t) token_hash then Inl database_error
             else
               bind_result (auto_id (dt_next_token db)) (\<lambda>token_id.
               let row = \<lparr>bt_id = token_id, bt_node_id = node_id, bt_token_hash = token_hash,
                     bt_expires_at = expires, bt_used_at = None, bt_used_by_ip = None,
                     bt_created_by = created_by\<rparr>
               in Inr (token, token_id,
                    db\<lparr>dt_tokens := dt_tokens db @ [row], dt_next_token := token_id + 1\<rparr>)))))))"

definition network_response_of :: "node_row \<Rightarrow> network_response" where
  "network_response_of n =
     \<lparr>nw_server_ip = nd_server_ip n, nw_listen_ip = ''0.0.0.0'', nw_server_port = nd_server_port n,
      nw_relay_server_ip = nd_relay_server_ip n, nw_relay_server_port = nd_relay_server_port n,
      nw_is_support_ipv6 = nd_is_support_ipv6 n, nw_disable_quic = nd_disable_quic n,
      nw_area = nd_area n, nw_bandwidth_quality = nd_bandwidth_quality n, nw_tag = nd_tag n,
      nw_operator_ips = \<lparr>oq_telecom_ip = nd_telecom_ip n, oq_mobile_ip = nd_mobile_ip n,
        oq_unicom_ip = nd_unicom_ip n\<rparr>\<rparr>"

text \<open>\<open>now\<close> is the clock when the token's expiry is checked.\<close>

definition exchange_bootstrap_token ::
  "crypto \<Rightarrow> (string \<Rightarrow> string \<Rightarrow> bool) \<Rightarrow> mysql \<Rightarrow> u64 \<Rightarrow> bytes \<Rightarrow> bootstrap_request \<Rightarrow> string \<Rightarrow> database \<Rightarrow>
   (app_error, u64 \<times> bootstrap_response \<times> database) result"
where
  "exchange_bootstrap_token cx same my now random request panel_url db =
     (let token_hash = hash_bootstrap_token cx (bq_bootstrap_token request);
          row = Option.bind (find (\<lambda>t. same (bt_token_hash t) token_hash) (dt_tokens db))
            (\<lambda>t. map_option (\<lambda>n. (t, n)) (find_node (bt_node_id t) db))
      in bind_result (stmt my 0 row) (\<lambda>row.
         bind_result (ok_or (bad_request ''invalid_bootstrap_token'' ''bootstrap token is invalid'') row)
           (\<lambda>(t, n).
         if bt_used_at t \<noteq> None then
           Inl (bad_request ''bootstrap_token_used'' ''bootstrap token was already used'')
         else if bt_expires_at t \<le> now then
           Inl (bad_request ''bootstrap_token_expired'' ''bootstrap token is expired'')
         else
           let node_secret = unwrap_or (generate_node_secret cx random)
                 (filter_option (\<lambda>s. trim s \<noteq> []) (nd_node_secret n));
               config_revision = max (nd_config_revision n) 1;
               used_by_ip = (case bq_ips request of [] \<Rightarrow> None | ip # _ \<Rightarrow> Some ip)
           in bind_result (stmt my 1 (db\<lparr>dt_tokens := update_rows (\<lambda>s. bt_id s = bt_id t)
                (\<lambda>s. s\<lparr>bt_used_at := Some (my_now my 1), bt_used_by_ip := used_by_ip\<rparr>) (dt_tokens db)\<rparr>))
                (\<lambda>db1.
              bind_result (stmt my 2 (update_node (bt_node_id t)
                (\<lambda>m. m\<lparr>nd_status := ''installing'', nd_node_secret := Some node_secret,
                       nd_config_revision := config_revision, nd_installed_at := Some (my_now my 2)\<rparr>) db1))
                (\<lambda>db2.
              stmt my 3 (bt_id t,
                \<lparr>bs_node_id = bt_node_id t, bs_node_secret = node_secret, bs_panel_url = panel_url,
                 bs_server_ip = nd_server_ip n, bs_server_port = nd_server_port n,
                 bs_config_revision = config_revision, bs_network = network_response_of n\<rparr>, db2))))))"

definition resolve_public_base_url :: "string option \<Rightarrow> headers \<Rightarrow> (app_error, string) result" where
  "resolve_public_base_url public_base_url hs =
     (case public_base_url of
        Some url \<Rightarrow> Inr url
      | None \<Rightarrow>
          let host = nonempty_text (Option.bind
                (or_option (header_get hs ''x-forwarded-host'') (header_get hs ''host'')) id);
              proto = unwrap_or ''http'' (nonempty_text (header_text hs ''x-forwarded-proto''))
          in bind_result (ok_or (bad_request ''missing_host''
               ''Host or X-Forwarded-Host header is required to derive public base URL'') host)
             (\<lambda>host. normalize_url_arg (proto @ ''://'' @ host)))"

definition node_bootstrap ::
  "crypto \<Rightarrow> (string \<Rightarrow> string \<Rightarrow> bool) \<Rightarrow> mysql \<Rightarrow> u64 \<Rightarrow> bytes \<Rightarrow> string option \<Rightarrow> headers \<Rightarrow> bootstrap_request \<Rightarrow>
   database \<Rightarrow> (app_error, u64 \<times> bootstrap_response) result \<times> database"
where
  "node_bootstrap cx same my now random public_base_url hs request db =
     (case bind_result (validate_bootstrap_request request) (\<lambda>_.
          bind_result (resolve_public_base_url public_base_url hs) (\<lambda>panel_url.
          exchange_bootstrap_token cx same my now random request panel_url db)) of
        Inl e \<Rightarrow> (Inl e, db)
      | Inr (token_id, response, db') \<Rightarrow> (Inr (token_id, response), db'))"

section \<open>Handshake\<close>

text \<open>
  The update is a statement of its own; the revision of the answer is read after it, when the
  tables are \<open>later\<close>. The result is paired with the tables after the update.
\<close>

definition persist_node_handshake ::
  "mysql \<Rightarrow> node_handshake_request \<Rightarrow> (database \<Rightarrow> database) \<Rightarrow> database \<Rightarrow>
   (app_error, u64) result \<times> database"
where
  "persist_node_handshake my h later db =
     (let seen_at = max (qh_timestamp h) 1 in
      case stmt my 0 (update_node (qh_node_id h)
          (\<lambda>n. n\<lparr>nd_status := (if nd_status n \<in> {''disabled'', ''draining''} then nd_status n else ''online''),
                 nd_kernel_version := Some (qh_node_version h),
                 nd_config_revision := max (nd_config_revision n) (max (qh_config_revision h) 1),
                 nd_last_seen_at := my_from_unixtime my seen_at\<rparr>) db) of
        Inl e \<Rightarrow> (Inl e, db)
      | Inr db' \<Rightarrow>
          (bind_result (stmt my 1 (find_node (qh_node_id h) (later db'))) (\<lambda>found.
             bind_result (ok_or (not_found ''node_not_found'' ''node does not exist'') found) (\<lambda>n.
             Inr (nd_config_revision n))), db'))"

definition node_handshake_path :: string where "node_handshake_path = ''/api/node/v1/handshake''"
definition node_report_path :: string where "node_report_path = ''/api/node/v1/report''"
definition node_config_path :: string where "node_config_path = ''/api/node/v1/config''"

text \<open>The checks before the body is read are those of \<open>authenticate_node_request\<close>.\<close>

definition node_handshake ::
  "crypto \<Rightarrow> mysql \<Rightarrow> mysql \<Rightarrow> (bytes \<Rightarrow> node_handshake_request option) \<Rightarrow> u64 \<Rightarrow> u64 \<Rightarrow> headers \<Rightarrow> bytes \<Rightarrow>
   database \<Rightarrow> (database \<Rightarrow> database) \<Rightarrow> database \<Rightarrow> (app_error, node_handshake_reply) result \<times> database"
where
  "node_handshake cx my my' of_json now server_time hs body seen later db =
     (case bind_result (authenticated cx my now seen hs ''POST'' node_handshake_path body) (\<lambda>node_id.
          bind_result (required_header_u64 hs ''X-Node-Timestamp'') (\<lambda>timestamp.
          bind_result (required_header hs ''X-Node-Nonce'') (\<lambda>nonce.
          bind_result (ok_or (bad_request ''invalid_handshake'' ''invalid handshake body'') (of_json body))
            (\<lambda>request.
          bind_result (validate_node_handshake_request node_id timestamp nonce request) (\<lambda>_.
          Inr request))))) of
        Inl e \<Rightarrow> (Inl e, db)
      | Inr request \<Rightarrow>
          (case persist_node_handshake my' request later db of
             (Inl e, db') \<Rightarrow> (Inl e, db')
           | (Inr config_revision, db') \<Rightarrow>
               (Inr \<lparr>ha_node_id = qh_node_id request, ha_server_time = server_time,
                     ha_config_revision = config_revision, ha_min_node_version = ''0.1.0''\<rparr>, db')))"

section \<open>Reports\<close>

definition saturating_add_u32 :: "u32 \<Rightarrow> u32 \<Rightarrow> u32" where
  "saturating_add_u32 a b = (if unat a + unat b < 2 ^ 32 then a + b else - 1)"

definition persist_node_report ::
  "mysql \<Rightarrow> node_report_request \<Rightarrow> (app_error, string) result \<Rightarrow> database \<Rightarrow> (app_error, database) result"
where
  "persist_node_report my report raw_json db =
     bind_result raw_json (\<lambda>raw.
     let udp_sessions = clamp_u32 (sn_active_udp_sessions (hn_sessions (qr_health report)));
         tcp_sessions = clamp_u32 (sn_active_tcp_connections (hn_sessions (qr_health report)));
         active_sessions = saturating_add_u32 udp_sessions tcp_sessions;
         db_status = report_database_status report;
         reported_at = max (qr_timestamp report) 1
     in bind_result (stmt my 0 ()) (\<lambda>_.
        bind_result (foreign_key (qr_node_id report) db) (\<lambda>_.
        bind_result (required_time my reported_at) (\<lambda>at.
        let row = \<lparr>rr_node_id = qr_node_id report, rr_config_revision = qr_config_revision report,
              rr_report_status = qr_status report, rr_active_sessions = active_sessions,
              rr_udp_sessions = udp_sessions, rr_tcp_sessions = tcp_sessions, rr_raw_json = raw,
              rr_reported_at = Some at\<rparr>;
            db1 = db\<lparr>dt_reports := dt_reports db @ [row]\<rparr>
        in bind_result (stmt my 1 (update_node (qr_node_id report)
             (\<lambda>n. if nd_status n \<in> {''disabled'', ''draining''} then n
                  else n\<lparr>nd_status := db_status, nd_kernel_version := Some (qr_node_version report),
                         nd_config_revision := max (nd_config_revision n) (qr_config_revision report),
                         nd_last_seen_at := my_from_unixtime my reported_at,
                         nd_last_report_at := Some (my_now my 1)\<rparr>) db1)) (\<lambda>db2.
           stmt my 2 db2)))))"

text \<open>\<open>of_json\<close> gives the report and what writing its JSON value again gave.\<close>

definition node_report ::
  "crypto \<Rightarrow> mysql \<Rightarrow> mysql \<Rightarrow> (bytes \<Rightarrow> (node_report_request \<times> (app_error, string) result) option) \<Rightarrow>
   u64 \<Rightarrow> headers \<Rightarrow> bytes \<Rightarrow> database \<Rightarrow> database \<Rightarrow> (app_error, u64) result \<times> database"
where
  "node_report cx my my' of_json now hs body seen db =
     (case bind_result (authenticated cx my now seen hs ''POST'' node_report_path body) (\<lambda>node_id.
          bind_result (ok_or (bad_request ''invalid_report'' ''invalid report body'') (of_json body))
            (\<lambda>(report, raw_json).
          bind_result (validate_node_report_request node_id report) (\<lambda>_.
          bind_result (persist_node_report my' report raw_json db) (\<lambda>db'.
          Inr (qr_node_id report, db'))))) of
        Inl e \<Rightarrow> (Inl e, db)
      | Inr (node_id, db') \<Rightarrow> (Inr node_id, db'))"

section \<open>Configuration\<close>

definition node_config_reply_of :: "u64 \<Rightarrow> node_row \<Rightarrow> node_config_reply" where
  "node_config_reply_of server_time n =
     \<lparr>cr_node_id = nd_id n, cr_config_revision = max (nd_config_revision n) 1,
      cr_server_time = server_time, cr_network = network_response_of n\<rparr>"

definition node_config ::
  "crypto \<Rightarrow> mysql \<Rightarrow> mysql \<Rightarrow> u64 \<Rightarrow> u64 \<Rightarrow> headers \<Rightarrow> database \<Rightarrow> database \<Rightarrow> (app_error, node_config_reply) result"
where
  "node_config cx my my' now server_time hs seen db =
     bind_result (authenticated cx my now seen hs ''GET'' node_config_path []) (\<lambda>node_id.
     bind_result (stmt my' 0 (find_node node_id db)) (\<lambda>found.
     bind_result (ok_or (not_found ''node_not_found'' ''node does not exist'') found) (\<lambda>n.
     Inr (node_config_reply_of server_time n))))"

section \<open>Administration\<close>

text \<open>\<open>admin\<close> is the answer of \<open>require_admin_write\<close> or \<open>require_admin_super\<close>.\<close>

definition admin_create_node ::
  "(string \<Rightarrow> string \<Rightarrow> bool) \<Rightarrow> mysql \<Rightarrow> (app_error, admin_actor) result \<Rightarrow> admin_create_node_request \<Rightarrow>
   database \<Rightarrow> database \<Rightarrow> (app_error, u64) result \<times> database"
where
  "admin_create_node same my admin request seen db =
     (case bind_result admin (\<lambda>_. insert_admin_node same my request seen db) of
        Inl e \<Rightarrow> (Inl e, db)
      | Inr (node_id, db') \<Rightarrow>
          (bind_result (stmt my 2 (find_node node_id db')) (\<lambda>found.
             bind_result (ok_or (not_found ''node_not_found'' ''created node does not exist'') found)
               (\<lambda>_. Inr node_id)), db'))"

definition admin_update_node ::
  "(string \<Rightarrow> string \<Rightarrow> bool) \<Rightarrow> mysql \<Rightarrow> (app_error, admin_actor) result \<Rightarrow> u64 \<Rightarrow>
   admin_create_node_request \<Rightarrow> database \<Rightarrow> database \<Rightarrow> (app_error, node_row) result \<times> database"
where
  "admin_update_node same my admin node_id request seen db =
     (case bind_result admin (\<lambda>_. update_admin_node_config same my node_id request seen db) of
        Inl e \<Rightarrow> (Inl e, db)
      | Inr db' \<Rightarrow>
          (bind_result (stmt my 4 (find_node node_id db'))
             (ok_or (not_found ''node_not_found'' ''updated node does not exist'')), db'))"

definition admin_delete_node ::
  "mysql \<Rightarrow> (app_error, admin_actor) result \<Rightarrow> u64 \<Rightarrow> database \<Rightarrow> (app_error, bool) result \<times> database"
where
  "admin_delete_node my admin node_id db =
     (case bind_result admin (\<lambda>_. delete_admin_node my node_id db) of
        Inl e \<Rightarrow> (Inl e, db)
      | Inr (deleted, db') \<Rightarrow> (Inr deleted, db'))"

definition admin_update_node_status ::
  "mysql \<Rightarrow> (app_error, admin_actor) result \<Rightarrow> u64 \<Rightarrow> string \<Rightarrow> string option \<Rightarrow> database \<Rightarrow> database \<Rightarrow>
   (app_error, string) result \<times> database"
where
  "admin_update_node_status my admin node_id status reason seen db =
     (case bind_result admin (\<lambda>actor.
          bind_result (validate_admin_node_status status) (\<lambda>next_status.
          update_admin_node_status my node_id next_status (nonempty_text reason) actor seen db)) of
        Inl e \<Rightarrow> (Inl e, db)
      | Inr (previous, db') \<Rightarrow> (Inr previous, db'))"

record create_bootstrap_token_request =
  ct_expires_in_sec :: "u64 option"
  ct_created_by :: "u64 option"
  ct_public_base_url :: "string option"
  ct_install_url :: "string option"
  ct_enable_control_plane :: "bool option"
  ct_channel :: "string option"

text \<open>The columns of \<open>system_settings\<close> that install commands are built from.\<close>

record install_settings =
  is_node_install_url :: string
  is_node_artifact_url :: "string option"
  is_node_sha256_url :: "string option"
  is_release_download_mode :: string

record created_bootstrap_token =
  bc_token_id :: u64
  bc_bootstrap_token :: string
  bc_bootstrap_url :: string
  bc_expires_at :: u64
  bc_install_command :: string

definition optional_arg ::
  "(string \<Rightarrow> (app_error, string) result) \<Rightarrow> string option \<Rightarrow> (app_error, string option) result"
where
  "optional_arg f value =
     (case value of None \<Rightarrow> Inr None | Some v \<Rightarrow> bind_result (f v) (\<lambda>u. Inr (Some u)))"

text \<open>The base URL is derived from the headers even where the request gives one.\<close>

definition admin_create_bootstrap_token ::
  "crypto \<Rightarrow> (string \<Rightarrow> string \<Rightarrow> bool) \<Rightarrow> mysql \<Rightarrow> bytes \<Rightarrow> u64 \<Rightarrow> (app_error, admin_actor) result \<Rightarrow>
   (app_error, install_settings) result \<Rightarrow> string option \<Rightarrow> headers \<Rightarrow> u64 \<Rightarrow>
   create_bootstrap_token_request \<Rightarrow> database \<Rightarrow> database \<Rightarrow>
   (app_error, created_bootstrap_token) result \<times> database"
where
  "admin_create_bootstrap_token cx same my random now admin settings public_base_url hs node_id r seen db =
     (case bind_result admin (\<lambda>_.
          bind_result settings (\<lambda>s.
          bind_result (optional_arg normalize_url_arg (ct_public_base_url r)) (\<lambda>given.
          bind_result (resolve_public_base_url public_base_url hs) (\<lambda>resolved.
          bind_result (optional_arg normalize_url_arg (ct_install_url r)) (\<lambda>install.
          bind_result (optional_arg normalize_command_arg (ct_channel r)) (\<lambda>channel.
          bind_result (clamp_bootstrap_ttl (ct_expires_in_sec r)) (\<lambda>ttl.
          let expires_at = now + ttl in
          bind_result (create_bootstrap_token cx same my random node_id (ct_created_by r) expires_at seen db)
            (\<lambda>(token, token_id, db').
          let bootstrap_url = unwrap_or resolved given @ ''/api/node/v1/bootstrap'' in
          Inr (\<lparr>bc_token_id = token_id, bc_bootstrap_token = token, bc_bootstrap_url = bootstrap_url,
                bc_expires_at = expires_at,
                bc_install_command = build_bootstrap_install_command
                  (unwrap_or (is_node_install_url s) install) bootstrap_url token
                  (unwrap_or True (ct_enable_control_plane r)) channel (is_node_artifact_url s)
                  (is_node_sha256_url s) (is_release_download_mode s)\<rparr>, db'))))))))) of
        Inl e \<Rightarrow> (Inl e, db)
      | Inr (created, db') \<Rightarrow> (Inr created, db'))"

end
