(* ===== verification/Api_Settings.thy ===== *)
theory Api_Settings
  imports Api_Labels Api_Node_Sync
begin

text \<open>
  The settings of \<open>control-api/src/main.rs\<close> that an administrator changes at run time: the download
  sources in the table \<open>system_settings\<close>, the check of those sources, and the business token, which
  is kept in memory and in the environment file the service is started with.
\<close>

record system_settings =
  ss_node_install_url :: string
  ss_node_artifact_url :: "string option"
  ss_node_sha256_url :: "string option"
  ss_control_install_url :: string
  ss_control_artifact_url :: "string option"
  ss_control_sha256_url :: "string option"
  ss_release_download_mode :: string

record update_settings_request =
  us_node_install_url :: "string option"
  us_node_artifact_url :: "string option"
  us_node_sha256_url :: "string option"
  us_control_install_url :: "string option"
  us_control_artifact_url :: "string option"
  us_control_sha256_url :: "string option"
  us_release_download_mode :: "string option"

text \<open>The rows of \<open>system_settings\<close>: \<open>setting_key\<close> and \<open>setting_value\<close>.\<close>

type_synonym setting_rows = "(string \<times> string option) list"

definition default_install_url :: string where
  "default_install_url = ''https://raw.githubusercontent.com/xinbaopiaoliang-ui/cll/main/install/install.sh''"

definition default_control_install_url :: string where
  "default_control_install_url =
     ''https://raw.githubusercontent.com/xinbaopiaoliang-ui/cll/main/install/control-api-install.sh''"

section \<open>Reading and writing\<close>

definition setting_value :: "setting_rows \<Rightarrow> string \<Rightarrow> string option" where
  "setting_value rows key = Option.bind (map_of rows key) (\<lambda>v. v)"

definition settings_of_rows :: "setting_rows \<Rightarrow> system_settings" where
  "settings_of_rows rows =
     \<lparr>ss_node_install_url = unwrap_or default_install_url (setting_value rows ''node_install_url''),
      ss_node_artifact_url = setting_value rows ''node_artifact_url'',
      ss_node_sha256_url = setting_value rows ''node_sha256_url'',
      ss_control_install_url =
        unwrap_or default_control_install_url (setting_value rows ''control_install_url''),
      ss_control_artifact_url = setting_value rows ''control_artifact_url'',
      ss_control_sha256_url = setting_value rows ''control_sha256_url'',
      ss_release_download_mode =
        unwrap_or ''github_api_first'' (setting_value rows ''release_download_mode'')\<rparr>"

definition select_system_settings :: "mysql \<Rightarrow> nat \<Rightarrow> setting_rows \<Rightarrow> (app_error, system_settings) result" where
  "select_system_settings my i rows = stmt my i (settings_of_rows rows)"

definition setting_entries :: "system_settings \<Rightarrow> setting_rows" where
  "setting_entries s =
     [(''node_install_url'', Some (ss_node_install_url s)),
      (''node_artifact_url'', ss_node_artifact_url s),
      (''node_sha256_url'', ss_node_sha256_url s),
      (''control_install_url'', Some (ss_control_install_url s)),
      (''control_artifact_url'', ss_control_artifact_url s),
      (''control_sha256_url'', ss_control_sha256_url s),
      (''release_download_mode'', Some (ss_release_download_mode s))]"

text \<open>
  One statement an entry, and no transaction around them: an error leaves the rows written before
  it. The keys are compared exactly, as the primary key tells these seven apart.
\<close>

fun upsert_settings :: "mysql \<Rightarrow> nat \<Rightarrow> setting_rows \<Rightarrow> setting_rows \<Rightarrow> (app_error, unit) result \<times> setting_rows" where
  "upsert_settings my i [] rows = (Inr (), rows)"
| "upsert_settings my i ((key, value) # entries) rows =
     (case my_fault my i of
        Inl e \<Rightarrow> (Inl e, rows)
      | Inr _ \<Rightarrow> upsert_settings my (Suc i) entries (AList.update key value rows))"

definition upsert_system_settings ::
  "mysql \<Rightarrow> system_settings \<Rightarrow> setting_rows \<Rightarrow> (app_error, unit) result \<times> setting_rows"
where
  "upsert_system_settings my settings rows = upsert_settings my 0 (setting_entries settings) rows"

definition normalize_system_settings_request ::
  "update_settings_request \<Rightarrow> (app_error, system_settings) result"
where
  "normalize_system_settings_request r =
     bind_result (validate_release_download_mode (us_release_download_mode r)) (\<lambda>mode.
     bind_result (optional_arg normalize_url_arg (us_node_install_url r)) (\<lambda>node_install_url.
     bind_result (normalize_optional_url_arg (us_node_artifact_url r)) (\<lambda>node_artifact_url.
     bind_result (normalize_optional_url_arg (us_node_sha256_url r)) (\<lambda>node_sha256_url.
     bind_result (optional_arg normalize_url_arg (us_control_install_url r)) (\<lambda>control_install_url.
     bind_result (normalize_optional_url_arg (us_control_artifact_url r)) (\<lambda>control_artifact_url.
     bind_result (normalize_optional_url_arg (us_control_sha256_url r)) (\<lambda>control_sha256_url.
     Inr \<lparr>ss_node_install_url = unwrap_or default_install_url node_install_url,
          ss_node_artifact_url = node_artifact_url, ss_node_sha256_url = node_sha256_url,
          ss_control_install_url = unwrap_or default_control_install_url control_install_url,
          ss_control_artifact_url = control_artifact_url,
          ss_control_sha256_url = control_sha256_url, ss_release_download_mode = mode\<rparr>)))))))"

text \<open>What install commands are built from.\<close>

definition install_settings_of :: "system_settings \<Rightarrow> install_settings" where
  "install_settings_of s =
     \<lparr>is_node_install_url = ss_node_install_url s, is_node_artifact_url = ss_node_artifact_url s,
      is_node_sha256_url = ss_node_sha256_url s, is_release_download_mode = ss_release_download_mode s\<rparr>"

section \<open>The business token\<close>

text \<open>\<open>char::is_control\<close>: the code points below 32 and from 127 to 159.\<close>

fun has_control :: "string \<Rightarrow> bool" where
  "has_control [] = False"
| "has_control (a # s) =
     (code_of a < 32 \<or> code_of a = 127 \<or>
      (case s of [] \<Rightarrow> False | b # _ \<Rightarrow> code_of a = 0xC2 \<and> code_of b < 0xA0) \<or> has_control s)"

definition double_quote :: byte where "double_quote = char_of (34::nat)"

definition normalize_business_sync_token :: "string option \<Rightarrow> (app_error, string option) result" where
  "normalize_business_sync_token value =
     (case value of
        None \<Rightarrow> Inr None
      | Some v \<Rightarrow>
          let v = trim v
          in if v = [] then Inr None
             else if char_count v < 16 then
               Inl (bad_request ''invalid_business_sync_token''
                 ''business sync token must be at least 16 characters'')
             else if 256 < char_count v then
               Inl (bad_request ''invalid_business_sync_token''
                 ''business sync token must be at most 256 characters'')
             else if has_control v \<or> has_whitespace v \<or> quote_char \<in> set v \<or> double_quote \<in> set v then
               Inl (bad_request ''invalid_business_sync_token''
                 ''business sync token must not contain spaces, quotes, or control characters'')
             else Inr (Some v))"

definition token_line_start :: string where
  "token_line_start = ''XACCEL_BUSINESS_SYNC_TOKEN=''"

definition token_line :: "string \<Rightarrow> string" where
  "token_line token = token_line_start @ [quote_char] @ token @ [quote_char]"

definition other_lines :: "string \<Rightarrow> string list" where
  "other_lines current = filter (\<lambda>l. \<not> starts_with (trim_start l) token_line_start) (text_lines current)"

definition render_env_with_business_sync_token :: "string \<Rightarrow> string option \<Rightarrow> string" where
  "render_env_with_business_sync_token current token =
     (let env_lines = other_lines current @ (case token of None \<Rightarrow> [] | Some t \<Rightarrow> [token_line t])
      in join_on line_feed env_lines @ [line_feed])"

text \<open>
  \<open>fault\<close> is what the file system answers to reading the file, making its directory, writing it and
  setting its permissions; a write that fails leaves \<open>torn\<close> in the file. A missing file is empty.
\<close>

definition persist_business_sync_token ::
  "(nat \<Rightarrow> (app_error, unit) result) \<Rightarrow> string option \<Rightarrow> string option \<Rightarrow> string option \<Rightarrow>
   (app_error, unit) result \<times> string option"
where
  "persist_business_sync_token fault torn token file =
     (case bind_result (fault 0) (\<lambda>_. fault 1) of
        Inl e \<Rightarrow> (Inl e, file)
      | Inr _ \<Rightarrow>
          (case fault 2 of
             Inl e \<Rightarrow> (Inl e, torn)
           | Inr _ \<Rightarrow> (fault 3, Some (render_env_with_business_sync_token (unwrap_or [] file) token))))"

record token_state =
  tk_memory :: "string option mutex"
  tk_file :: "string option"

definition poisoned_lock :: app_error where "poisoned_lock = internal_error"

definition current_business_sync_token :: "token_state \<Rightarrow> (app_error, string option) result" where
  "current_business_sync_token st = ok_or poisoned_lock (lock_value (tk_memory st))"

definition set_business_sync_token ::
  "string option \<Rightarrow> token_state \<Rightarrow> (app_error, token_state) result"
where
  "set_business_sync_token token st =
     bind_result (ok_or poisoned_lock (lock_value (tk_memory st)))
       (\<lambda>_. Inr (st\<lparr>tk_memory := set_locked token (tk_memory st)\<rparr>))"

text \<open>\<open>admin\<close> is the answer of \<open>require_admin_super\<close>.\<close>

definition admin_get_business_token ::
  "(app_error, admin_actor) result \<Rightarrow> token_state \<Rightarrow> (app_error, string option) result"
where
  "admin_get_business_token admin st = bind_result admin (\<lambda>_. current_business_sync_token st)"

definition admin_update_business_token ::
  "(nat \<Rightarrow> (app_error, unit) result) \<Rightarrow> string option \<Rightarrow> (app_error, admin_actor) result \<Rightarrow> string option \<Rightarrow>
   token_state \<Rightarrow> (app_error, string option) result \<times> token_state"
where
  "admin_update_business_token fault torn admin requested st =
     (case bind_result admin (\<lambda>_. normalize_business_sync_token requested) of
        Inl e \<Rightarrow> (Inl e, st)
      | Inr token \<Rightarrow>
          let (written, file) = persist_business_sync_token fault torn token (tk_file st);
              st1 = st\<lparr>tk_file := file\<rparr>
          in (case bind_result written (\<lambda>_. set_business_sync_token token st1) of
                Inl e \<Rightarrow> (Inl e, st1)
              | Inr st2 \<Rightarrow> (Inr token, st2)))"

text \<open>The settings' endpoints also say whether a business token is configured.\<close>

definition admin_get_system_settings ::
  "mysql \<Rightarrow> (app_error, admin_actor) result \<Rightarrow> token_state \<Rightarrow> setting_rows \<Rightarrow>
   (app_error, system_settings \<times> bool) result"
where
  "admin_get_system_settings my admin st rows =
     bind_result admin (\<lambda>_.
     bind_result (select_system_settings my 0 rows) (\<lambda>s.
     bind_result (current_business_sync_token st) (\<lambda>token. Inr (s, token \<noteq> None))))"

definition admin_update_system_settings ::
  "mysql \<Rightarrow> (app_error, admin_actor) result \<Rightarrow> update_settings_request \<Rightarrow> token_state \<Rightarrow> setting_rows \<Rightarrow>
   (app_error, system_settings \<times> bool) result \<times> setting_rows"
where
  "admin_update_system_settings my admin r st rows =
     (case bind_result admin (\<lambda>_. normalize_system_settings_request r) of
        Inl e \<Rightarrow> (Inl e, rows)
      | Inr s \<Rightarrow>
          let (written, rows') = upsert_system_settings my s rows
          in (bind_result written (\<lambda>_.
              bind_result (current_business_sync_token st) (\<lambda>token. Inr (s, token \<noteq> None))), rows'))"

section \<open>Checking the download sources\<close>

datatype download_check_method = Head | GetJson

primrec method_label :: "download_check_method \<Rightarrow> string" where
  "method_label Head = ''HEAD''"
| "method_label GetJson = ''GET''"

record download_check_target =
  dl_key :: string
  dl_label :: string
  dl_source :: string
  dl_url :: string
  dl_method :: download_check_method
  dl_suggestion :: "string option"

record curl_probe_result =
  cp_exit_code :: "int option"
  cp_stdout :: string
  cp_stderr :: string
  cp_timed_out :: bool

record download_check_item =
  di_key :: string
  di_label :: string
  di_source :: string
  di_url :: string
  di_method :: string
  di_status :: string
  di_http_code :: "u16 option"
  di_exit_code :: "int option"
  di_duration_ms :: u128
  di_message :: string
  di_suggestion :: "string option"

record download_check_response =
  dr_status :: string
  dr_total :: u32
  dr_ok :: u32
  dr_failed :: u32
  dr_duration_ms :: u128
  dr_checks :: "download_check_item list"

definition latest_download_url :: "string \<Rightarrow> string" where
  "latest_download_url asset_name =
     ''https://github.com/xinbaopiaoliang-ui/cll/releases/latest/download/'' @ asset_name"

definition github_latest_release_api_url :: string where
  "github_latest_release_api_url = ''https://api.github.com/repos/xinbaopiaoliang-ui/cll/releases/latest''"

definition node_release_artifact :: string where
  "node_release_artifact = ''xaccel-node-linux-x86_64.tar.gz''"

definition control_release_artifact :: string where
  "control_release_artifact = ''xaccel-control-api-linux-x86_64.tar.gz''"

definition custom_or_default :: "string \<Rightarrow> string option \<Rightarrow> string" where
  "custom_or_default custom url = (if url = None then (utf8 [0x9ED8, 0x8BA4] @ '' GitHub Release'') else custom)"

definition head_target ::
  "string \<Rightarrow> string \<Rightarrow> string \<Rightarrow> string \<Rightarrow> string \<Rightarrow> download_check_target"
where
  "head_target key label source url suggestion =
     \<lparr>dl_key = key, dl_label = label, dl_source = source, dl_url = url, dl_method = Head,
      dl_suggestion = Some suggestion\<rparr>"

definition system_download_check_targets :: "system_settings \<Rightarrow> download_check_target list" where
  "system_download_check_targets s =
     [head_target ''node_install_url'' (utf8 [0x8282, 0x70B9, 0x5B89, 0x88C5, 0x811A, 0x672C]) (utf8 [0x7CFB,
       0x7EDF, 0x914D, 0x7F6E]) (ss_node_install_url s)
        ((utf8 [0x68C0, 0x67E5] @ '' raw.githubusercontent.com '' @ utf8 [0x6216, 0x81EA, 0x5B9A, 0x4E49,
          0x811A, 0x672C, 0x5730, 0x5740, 0x662F, 0x5426, 0x80FD, 0x4ECE, 0x63A7, 0x5236, 0x9762, 0x670D,
            0x52A1, 0x5668, 0x8BBF, 0x95EE, 0x3002])),
      head_target ''control_install_url'' (utf8 [0x63A7, 0x5236, 0x9762, 0x5B89, 0x88C5, 0x811A,
        0x672C]) (utf8 [0x7CFB, 0x7EDF, 0x914D, 0x7F6E]) (ss_control_install_url s)
        (utf8 [0x68C0, 0x67E5, 0x63A7, 0x5236, 0x9762, 0x5B89, 0x88C5, 0x811A, 0x672C, 0x5730, 0x5740,
          0xFF0C, 0x6216, 0x5728, 0x4E0B, 0x8F7D, 0x6E90, 0x914D, 0x7F6E, 0x91CC, 0x5207, 0x6362, 0x5230,
            0x53EF, 0x8BBF, 0x95EE, 0x7684, 0x955C, 0x50CF, 0x3002]),
      head_target ''node_artifact_url'' ((utf8 [0x8282, 0x70B9] @ '' release '' @ utf8 [0x5305]))
        (custom_or_default (utf8 [0x81EA, 0x5B9A, 0x4E49, 0x5305, 0x5730, 0x5740]) (ss_node_artifact_url s))
        (unwrap_or (latest_download_url node_release_artifact) (ss_node_artifact_url s))
        ((utf8 [0x5982, 0x679C] @ '' GitHub latest/download '' @ utf8 [0x5076,
          0x53D1] @ '' 504'' @ utf8 [0xFF0C, 0x53EF, 0x6539, 0x6210] @ '' GitHub API '' @ utf8 [0x4F18,
            0x5148, 0x6216, 0x586B, 0x5199, 0x81EA, 0x5B9A, 0x4E49, 0x5305, 0x5730, 0x5740, 0x3002])),
      head_target ''node_sha256_url'' ((utf8 [0x8282, 0x70B9] @ '' sha256 '' @ utf8 [0x6821, 0x9A8C]))
        (custom_or_default (utf8 [0x81EA, 0x5B9A, 0x4E49, 0x6821, 0x9A8C, 0x5730, 0x5740]) (ss_node_sha256_url s))
        (unwrap_or (latest_download_url (node_release_artifact @ ''.sha256'')) (ss_node_sha256_url s))
        ((''sha256 '' @ utf8 [0x6587, 0x4EF6, 0x5FC5, 0x987B, 0x548C, 0x8282,
          0x70B9] @ '' release '' @ utf8 [0x5305, 0x540C, 0x7248, 0x672C, 0xFF0C, 0x5426, 0x5219, 0x5B89,
            0x88C5, 0x5668, 0x4F1A, 0x62D2, 0x7EDD, 0x5B89, 0x88C5, 0x3002])),
      head_target ''control_artifact_url'' ((utf8 [0x63A7, 0x5236, 0x9762] @ '' release '' @ utf8 [0x5305]))
        (custom_or_default (utf8 [0x81EA, 0x5B9A, 0x4E49, 0x5305, 0x5730, 0x5740]) (ss_control_artifact_url s))
        (unwrap_or (latest_download_url control_release_artifact) (ss_control_artifact_url s))
        (utf8 [0x63A7, 0x5236, 0x9762, 0x5347, 0x7EA7, 0x5931, 0x8D25, 0x65F6, 0xFF0C, 0x4F18, 0x5148,
          0x68C0, 0x67E5, 0x8FD9, 0x4E2A, 0x5305, 0x5730, 0x5740, 0x548C, 0x670D, 0x52A1, 0x5668, 0x51FA,
            0x7F51, 0x3002]),
      head_target ''control_sha256_url'' ((utf8 [0x63A7, 0x5236, 0x9762] @ '' sha256 '' @ utf8 [0x6821, 0x9A8C]))
        (custom_or_default (utf8 [0x81EA, 0x5B9A, 0x4E49, 0x6821, 0x9A8C, 0x5730, 0x5740]) (ss_control_sha256_url s))
        (unwrap_or (latest_download_url (control_release_artifact @ ''.sha256'')) (ss_control_sha256_url s))
        ((''sha256 '' @ utf8 [0x6587, 0x4EF6, 0x4E0B, 0x8F7D, 0x5931, 0x8D25, 0x4F1A, 0x5BFC, 0x81F4, 0x63A7,
          0x5236, 0x9762, 0x5347, 0x7EA7, 0x4E2D, 0x65AD, 0x3002])),
      \<lparr>dl_key = ''github_release_api'', dl_label = (''GitHub API '' @ utf8 [0x6700, 0x65B0] @ '' Release''),
       dl_source = utf8 [0x5B89, 0x88C5, 0x5668, 0x515C, 0x5E95, 0x901A,
         0x9053], dl_url = github_latest_release_api_url, dl_method = GetJson,
       dl_suggestion = Some ((utf8 [0x5982, 0x679C, 0x8FD9, 0x91CC, 0x5931, 0x8D25, 0xFF0C, 0x8BF4, 0x660E,
         0x63A7, 0x5236, 0x9762, 0x670D, 0x52A1, 0x5668, 0x8BBF,
           0x95EE] @ '' api.github.com '' @ utf8 [0x6709, 0x95EE, 0x9898, 0xFF0C, 0x53EF, 0x4F7F, 0x7528,
             0x81EA, 0x5B9A, 0x4E49, 0x5305, 0x5730, 0x5740, 0x3002]))\<rparr>]"

text \<open>
  The last run of digits of the trimmed output, read as a \<open>u16\<close>. Trimming takes no digit away, so
  it is left out.
\<close>

definition parse_curl_http_code :: "string \<Rightarrow> u16 option" where
  "parse_curl_http_code output =
     (let digits = rev (takeWhile (is_digit 10) (dropWhile (\<lambda>c. \<not> is_digit 10 c) (rev output)))
      in if digits = [] then None else map_option of_nat (parse_uint (2 ^ 16) digits))"

definition first_non_empty_line :: "string \<Rightarrow> string option" where
  "first_non_empty_line value = find (\<lambda>l. l \<noteq> []) (map trim (text_lines value))"

text \<open>
  \<open>probe\<close> is what running \<open>curl\<close> gave: an error of the operating system (whether \<open>curl\<close> is missing,
  and its text) or a result; \<open>elapsed\<close> is the time it took.
\<close>

definition run_download_check_target ::
  "(bool \<times> string, curl_probe_result) result \<Rightarrow> u128 \<Rightarrow> download_check_target \<Rightarrow> download_check_item"
where
  "run_download_check_target probe elapsed target =
     (let item = (\<lambda>status http_code exit_code message suggestion.
            \<lparr>di_key = dl_key target, di_label = dl_label target, di_source = dl_source target,
             di_url = dl_url target, di_method = method_label (dl_method target), di_status = status,
             di_http_code = http_code, di_exit_code = exit_code, di_duration_ms = elapsed,
             di_message = message, di_suggestion = suggestion\<rparr>)
      in (case probe of
            Inr p \<Rightarrow>
              if cp_timed_out p then
                item ''failed'' None (cp_exit_code p)
                  ((utf8 [0x68C0, 0x6D4B, 0x8D85, 0x8FC7] @ '' 28 '' @ utf8 [0x79D2, 0xFF0C, 0x670D, 0x52A1,
                    0x5668, 0x8BBF, 0x95EE, 0x8FD9, 0x4E2A, 0x5730, 0x5740, 0x592A, 0x6162, 0x6216, 0x65E0,
                      0x54CD, 0x5E94, 0x3002])) (dl_suggestion target)
              else
                let http_code = parse_curl_http_code (cp_stdout p);
                    ok = cp_exit_code p = Some 0 \<and> is_some_and (\<lambda>code. 200 \<le> code \<and> code < 400) http_code;
                    error_detail = unwrap_or ''curl did not return a successful response''
                      (or_option (first_non_empty_line (cp_stderr p)) (first_non_empty_line (cp_stdout p)))
                in item (if ok then ''ok'' else ''failed'') http_code (cp_exit_code p)
                     (if ok then (utf8 [0x8BBF, 0x95EE, 0x6B63, 0x5E38,
                       0xFF0C] @ ''HTTP '') @ show_u16 (unwrap_or 0 http_code)
                      else utf8 [0x8BBF, 0x95EE, 0x5931, 0x8D25] @
                        (case http_code of None \<Rightarrow> [] | Some code \<Rightarrow> (utf8 [0xFF0C] @ ''HTTP '') @ show_u16 code) @
                        utf8 [0xFF1A] @ truncate_chars error_detail 180)
                     (if ok then None else dl_suggestion target)
          | Inl (missing, error) \<Rightarrow>
              item ''failed'' None None
                (if missing then (utf8 [0x63A7, 0x5236, 0x9762, 0x670D, 0x52A1, 0x5668, 0x6CA1, 0x6709,
                  0x5B89, 0x88C5] @ '' curl'' @ utf8 [0xFF0C, 0x65E0, 0x6CD5, 0x68C0, 0x6D4B, 0x4E0B, 0x8F7D,
                    0x6E90, 0x3002])
                 else (utf8 [0x6267, 0x884C] @ '' curl '' @ utf8 [0x5931, 0x8D25, 0xFF1A]) @ error)
                (Some ((utf8 [0x5148, 0x5728, 0x63A7, 0x5236, 0x9762, 0x670D, 0x52A1, 0x5668, 0x5B89,
                  0x88C5] @ '' curl'' @ utf8 [0xFF0C, 0x518D, 0x91CD, 0x65B0, 0x68C0, 0x6D4B, 0x3002])))))"

definition run_system_download_check ::
  "(string \<Rightarrow> download_check_method \<Rightarrow> (bool \<times> string, curl_probe_result) result \<times> u128) \<Rightarrow> u128 \<Rightarrow>
   system_settings \<Rightarrow> download_check_response"
where
  "run_system_download_check curl elapsed settings =
     (let checks = map (\<lambda>target. let (probe, took) = curl (dl_url target) (dl_method target)
            in run_download_check_target probe took target) (system_download_check_targets settings);
          ok = of_nat (length (filter (\<lambda>item. di_status item = ''ok'') checks));
          failed = of_nat (length checks) - ok
      in \<lparr>dr_status = if failed = 0 then ''ok'' else ''warning'', dr_total = of_nat (length checks),
          dr_ok = ok, dr_failed = failed, dr_duration_ms = elapsed, dr_checks = checks\<rparr>)"

definition admin_system_download_check ::
  "mysql \<Rightarrow> (string \<Rightarrow> download_check_method \<Rightarrow> (bool \<times> string, curl_probe_result) result \<times> u128) \<Rightarrow> u128 \<Rightarrow>
   (app_error, admin_actor) result \<Rightarrow> setting_rows \<Rightarrow> (app_error, download_check_response) result"
where
  "admin_system_download_check my curl elapsed admin rows =
     bind_result admin (\<lambda>_.
     bind_result (select_system_settings my 0 rows) (\<lambda>s.
     Inr (run_system_download_check curl elapsed s)))"

section \<open>Settings are read as they were written\<close>

lemma upsert_settings_all:
  assumes "\<And>i. my_fault my i = Inr ()"
  shows "upsert_settings my i entries rows = (Inr (), fold (\<lambda>(k, v). AList.update k v) entries rows)"
  by (induction entries arbitrary: i rows) (auto simp: assms)

lemma map_of_setting: "map_of (AList.update k v rows) q = (if q = k then Some v else map_of rows q)"
  by (simp add: update_conv')

text \<open>
  The first statement that fails stops the update: the entries before it are written, the others
  keep what they had.
\<close>

lemma upsert_settings_torn:
  assumes "n < length entries" "my_fault my (i + n) = Inl e" "\<And>j. j < n \<Longrightarrow> my_fault my (i + j) = Inr ()"
  shows "upsert_settings my i entries rows = (Inl e, fold (\<lambda>(k, v). AList.update k v) (take n entries) rows)"
  using assms
proof (induction n arbitrary: i entries rows)
  case 0
  then show ?case by (cases entries) auto
next
  case (Suc n)
  then obtain k v rest where entries: "entries = (k, v) # rest" by (cases entries) auto
  have "my_fault my i = Inr ()" using Suc.prems(3) [of 0] by simp
  moreover have "upsert_settings my (Suc i) rest (AList.update k v rows) =
      (Inl e, fold (\<lambda>(k, v). AList.update k v) (take n rest) (AList.update k v rows))"
    using Suc.prems(1,2) Suc.prems(3) [of "Suc j" for j]
    by (intro Suc.IH) (simp_all add: entries)
  ultimately show ?case by (simp add: entries)
qed

text \<open>
  Settings that were saved are the settings that are read, the optional ones that were left blank
  included, whatever the table held before.
\<close>

theorem settings_round_trip:
  assumes "\<And>i. my_fault my i = Inr ()"
  shows "select_system_settings my n (snd (upsert_system_settings my settings rows)) = Inr settings"
  unfolding upsert_system_settings_def upsert_settings_all [OF assms] select_system_settings_def stmt_def assms
  by (simp add: setting_entries_def settings_of_rows_def setting_value_def map_of_setting)

theorem settings_round_trip_witness:
  "select_system_settings \<lparr>my_fault = \<lambda>_. Inr (), my_now = \<lambda>_. 5, my_from_unixtime = Some\<rparr> 0
     (snd (upsert_system_settings \<lparr>my_fault = \<lambda>_. Inr (), my_now = \<lambda>_. 5, my_from_unixtime = Some\<rparr>
       (settings_of_rows []) [(''node_sha256_url'', Some ''https://old'')])) = Inr (settings_of_rows [])"
  by (rule settings_round_trip) simp

section \<open>The environment file\<close>

lemma has_control_low: "c \<in> set s \<Longrightarrow> code_of c < 32 \<Longrightarrow> has_control s"
  by (induction s) auto

lemma normalized_token_chars:
  assumes "normalize_business_sync_token requested = Inr (Some token)"
  shows "line_feed \<notin> set token \<and> carriage_return \<notin> set token"
proof -
  have "\<not> has_control token"
    using assms by (auto simp: normalize_business_sync_token_def Let_def split: option.splits if_splits)
  then show ?thesis
    using has_control_low [of line_feed token] has_control_low [of carriage_return token]
    by (auto simp: line_feed_def carriage_return_def code_of_def)
qed

lemma update_token_Inr:
  assumes "admin_update_business_token fault torn admin requested st = (Inr token, st')"
  shows "normalize_business_sync_token requested = Inr token \<and>
    lock_value (tk_memory st') = Some token \<and>
    tk_file st' = Some (render_env_with_business_sync_token (unwrap_or [] (tk_file st)) token)"
  using assms
  by (auto simp: admin_update_business_token_def persist_business_sync_token_def
      set_business_sync_token_def Let_def split: sum.splits prod.splits)

text \<open>
  A new business token replaces the old one in the environment file and touches no other line of
  it: read by lines, the file is what it was without the token's lines, then the new token's line.
\<close>

theorem token_file_lines:
  assumes "admin_update_business_token fault torn admin requested st = (Inr (Some token), st')"
    and "carriage_return \<notin> set (unwrap_or [] (tk_file st))"
  shows "map_option text_lines (tk_file st') =
    Some (other_lines (unwrap_or [] (tk_file st)) @ [token_line token])"
proof -
  let ?old = "unwrap_or [] (tk_file st)"
  note new = update_token_Inr [OF assms(1)]
  have "line_feed \<notin> set (token_line token) \<and> carriage_return \<notin> set (token_line token)"
    using normalized_token_chars new
    by (auto simp: token_line_def token_line_start_def line_feed_def carriage_return_def quote_char_def
        char_of_def bit_Suc_0_iff)
  moreover have "line_feed \<notin> set l \<and> carriage_return \<notin> set l" if "l \<in> set (other_lines ?old)" for l
    using that text_lines_chars [of l ?old] assms(2) by (auto simp: other_lines_def)
  ultimately have "text_lines (render_env_with_business_sync_token ?old (Some token)) =
      other_lines ?old @ [token_line token]"
    unfolding render_env_with_business_sync_token_def Let_def
    by (subst text_lines_join) auto
  with new show ?thesis by simp
qed

text \<open>
  From the moment the update answers, the business interface admits the bearer of the new token
  and nobody else; the old token is refused.
\<close>

theorem business_token_replaced:
  assumes "admin_update_business_token fault torn admin requested st = (Inr (Some token), st')"
    and "length token < 2 ^ 64"
    and "business_sync_token_from_headers hs = Some given" "length given < 2 ^ 64"
  shows "is_ok (bind_result (current_business_sync_token st') (\<lambda>t. require_business_sync t hs)) \<longleftrightarrow>
    given = token"
proof -
  have "current_business_sync_token st' = Inr (Some token)"
    using update_token_Inr [OF assms(1)] by (simp add: current_business_sync_token_def)
  then show ?thesis
    using business_gate.gate_iff [of token hs] assms(2-4) by simp
qed

text \<open>The old token's line goes, wherever it stands and however it is indented.\<close>

lemma replaced_token_example:
  "admin_update_business_token (\<lambda>_. Inr ()) None (Inr (bootstrap_actor [])) (Some '' new-token-1234567 '')
     \<lparr>tk_memory = Healthy (Some ''old''), tk_file = Some (''A=1'' @ [line_feed] @ token_line_start @ ''old'' @ [line_feed])\<rparr> =
   (Inr (Some ''new-token-1234567''),
    \<lparr>tk_memory = Healthy (Some ''new-token-1234567''),
     tk_file = Some (''A=1'' @ [line_feed] @ token_line ''new-token-1234567'' @ [line_feed])\<rparr>)"
  by code_simp

theorem token_file_lines_witness:
  "map_option text_lines (Some (''A=1'' @ [line_feed] @ token_line ''new-token-1234567'' @ [line_feed])) =
     Some [''A=1'', token_line ''new-token-1234567'']"
proof -
  let ?old = "''A=1'' @ [line_feed] @ token_line_start @ ''old'' @ [line_feed]"
  have "carriage_return \<notin> set (unwrap_or [] (Some ?old))" "other_lines (unwrap_or [] (Some ?old)) = [''A=1'']"
    by code_simp+
  with token_file_lines [OF replaced_token_example] show ?thesis by simp
qed

theorem business_token_replaced_witness:
  "\<not> is_ok (require_business_sync (Some ''new-token-1234567'') [(''x-business-sync-token'', Some ''old'')])"
proof -
  have "business_sync_token_from_headers [(''x-business-sync-token'', Some ''old'')] = Some ''old''" by code_simp
  from business_token_replaced [OF replaced_token_example _ this] show ?thesis
    by (simp add: current_business_sync_token_def)
qed

section \<open>The answer of the download check\<close>

lemma download_targets_7: "length (system_download_check_targets s) = 7"
  by (simp add: system_download_check_targets_def)

lemma item_ok_iff:
  "di_status (run_download_check_target probe took target) = ''ok'' \<longleftrightarrow>
     (\<exists>p code. probe = Inr p \<and> \<not> cp_timed_out p \<and> cp_exit_code p = Some 0 \<and>
        parse_curl_http_code (cp_stdout p) = Some code \<and> 200 \<le> code \<and> code < 400)"
  by (cases probe; cases "parse_curl_http_code (cp_stdout (projr probe))")
    (auto simp: run_download_check_target_def Let_def split: prod.splits)

lemma filter_full: "length (filter P xs) = length xs \<longleftrightarrow> list_all P xs"
proof (induction xs)
  case (Cons x xs)
  have "length (filter P xs) \<noteq> Suc (length xs)" by (metis Suc_n_not_le_n length_filter_le)
  with Cons show ?case by auto
qed simp

lemma of_nat_u32_small: "m < 2 ^ 32 \<Longrightarrow> n < 2 ^ 32 \<Longrightarrow> (of_nat m :: u32) = of_nat n \<longleftrightarrow> m = n"
  by (simp add: word_of_nat_eq_iff take_bit_nat_eq_self)

lemma list_all_map: "list_all P (map f xs) \<longleftrightarrow> list_all (P \<circ> f) xs"
  by (simp add: list.pred_map)

lemma ok_or_warning: "(if b then ''ok'' else ''warning'') = ''ok'' \<longleftrightarrow> b"
  by simp

text \<open>
  The check answers \<open>ok\<close> exactly when \<open>curl\<close> reached every one of the seven sources: it ended in time
  with exit code 0 and printed a status from 200 to 399.
\<close>

theorem download_check_exact:
  "dr_status (run_system_download_check curl elapsed settings) = ''ok'' \<longleftrightarrow>
     list_all (\<lambda>t. \<exists>p code. fst (curl (dl_url t) (dl_method t)) = Inr p \<and> \<not> cp_timed_out p \<and>
         cp_exit_code p = Some 0 \<and> parse_curl_http_code (cp_stdout p) = Some code \<and>
         200 \<le> code \<and> code < 400) (system_download_check_targets settings)"
proof -
  let ?item = "\<lambda>t. let (probe, took) = curl (dl_url t) (dl_method t) in run_download_check_target probe took t"
  let ?checks = "map ?item (system_download_check_targets settings)"
  let ?good = "filter (\<lambda>item. di_status item = ''ok'') ?checks"
  have checks: "length ?checks = 7" by (simp only: length_map download_targets_7)
  have good: "length ?good \<le> 7" unfolding checks [symmetric] by (rule length_filter_le)
  have "dr_status (run_system_download_check curl elapsed settings) =
      (if (of_nat (length ?checks) :: u32) - of_nat (length ?good) = 0 then ''ok'' else ''warning'')"
    by (simp only: run_system_download_check_def Let_def download_check_response.select_convs)
  then have "dr_status (run_system_download_check curl elapsed settings) = ''ok'' \<longleftrightarrow>
      (of_nat (length ?checks) :: u32) - of_nat (length ?good) = 0"
    by (simp only: ok_or_warning)
  also have "\<dots> \<longleftrightarrow> (of_nat 7 :: u32) = of_nat (length ?good)"
    by (simp only: right_minus_eq checks)
  also have "\<dots> \<longleftrightarrow> 7 = length ?good"
    by (rule of_nat_u32_small) (use good in simp_all)
  also have "\<dots> \<longleftrightarrow> list_all (\<lambda>item. di_status item = ''ok'') ?checks"
    unfolding filter_full [symmetric] checks by (rule eq_commute)
  finally show ?thesis
    by (simp only: list_all_map comp_def split_def item_ok_iff Let_def)
qed

end
