(* ===== verification/Api_Ssh.thy ===== *)
theory Api_Ssh
  imports Api_Settings
begin

text \<open>
  The operations that \<open>control-api/src/main.rs\<close> runs on a node over SSH: the credentials and their
  encryption, the command of each action, and how \<open>ssh\<close> is called and its outcome read. The tables
  are those of \<open>Api_Database\<close>, \<open>node_ssh_credentials\<close> and \<open>node_operation_tasks\<close>. The cipher and the
  processes are parameters.
\<close>

section \<open>Tables\<close>

record ssh_credential_row =
  sc_node_id :: u64
  sc_host :: string
  sc_port :: u32
  sc_username :: string
  sc_password_ciphertext :: string
  sc_password_nonce :: string
  sc_auth_status :: string
  sc_last_error :: "string option"
  sc_last_checked_at :: "u64 option"

record upgrade_version_check =
  vc_before_version :: "string option"
  vc_after_version :: "string option"
  vc_version_changed :: bool
  vc_report_refreshed :: bool
  vc_before_report_at :: "u64 option"
  vc_after_report_at :: "u64 option"
  vc_waited_ms :: u128
  vc_message :: string

text \<open>The column \<open>version_check_json\<close> holds what serialising the check gives, which reads back as it.\<close>

record operation_task_row =
  ot_id :: u64
  ot_node_id :: u64
  ot_action :: string
  ot_executor :: string
  ot_status :: string
  ot_command_label :: string
  ot_exit_code :: "int option"
  ot_duration_ms :: "u64 option"
  ot_output :: "string option"
  ot_error_message :: "string option"
  ot_version_check :: "upgrade_version_check option"
  ot_created_at :: u64
  ot_started_at :: "u64 option"
  ot_finished_at :: "u64 option"

record operations =
  op_db :: database
  op_settings :: setting_rows
  op_credentials :: "ssh_credential_row list"
  op_tasks :: "operation_task_row list"
  op_next_task :: u64

text \<open>A node as administrators see it: its row, its newest report and its credential.\<close>

record admin_node_row =
  ar_node :: node_row
  ar_report :: "runtime_report_row option"
  ar_credential :: "ssh_credential_row option"

definition newest_report :: "database \<Rightarrow> u64 \<Rightarrow> runtime_report_row option" where
  "newest_report db node_id =
     (case filter (\<lambda>r. rr_node_id r = node_id) (dt_reports db) of [] \<Rightarrow> None | rs \<Rightarrow> Some (last rs))"

definition select_ssh_credential :: "operations \<Rightarrow> u64 \<Rightarrow> ssh_credential_row option" where
  "select_ssh_credential ops node_id = find (\<lambda>c. sc_node_id c = node_id) (op_credentials ops)"

definition admin_node_of :: "operations \<Rightarrow> node_row \<Rightarrow> admin_node_row" where
  "admin_node_of ops n =
     \<lparr>ar_node = n, ar_report = newest_report (op_db ops) (nd_id n),
      ar_credential = select_ssh_credential ops (nd_id n)\<rparr>"

definition select_admin_node :: "mysql \<Rightarrow> nat \<Rightarrow> operations \<Rightarrow> u64 \<Rightarrow> (app_error, admin_node_row option) result" where
  "select_admin_node my i ops node_id =
     stmt my i (map_option (admin_node_of ops) (find_node node_id (op_db ops)))"

text \<open>Reported nodes first, the latest report first; rows stand in the order of their ids.\<close>

definition report_order :: "node_row \<Rightarrow> nat" where
  "report_order n = (case nd_last_report_at n of None \<Rightarrow> 2 ^ 64 + 1 | Some t \<Rightarrow> 2 ^ 64 - unat t)"

definition select_admin_nodes :: "mysql \<Rightarrow> nat \<Rightarrow> operations \<Rightarrow> u32 \<Rightarrow> (app_error, admin_node_row list) result" where
  "select_admin_nodes my i ops limit =
     stmt my i (map (admin_node_of ops) (take (unat limit) (sort_key report_order (dt_nodes (op_db ops)))))"

definition node_endpoint :: "node_row \<Rightarrow> string" where
  "node_endpoint n = nd_server_ip n @ '':'' @ show_nat (unat (nd_server_port n))"

section \<open>Credentials\<close>

record ssh_credential_request =
  cq_host :: "string option"
  cq_port :: "u16 option"
  cq_username :: string
  cq_password :: string

record normalized_ssh_credential =
  nc_host :: string
  nc_port :: u16
  nc_username :: string
  nc_password :: string

definition normalize_ssh_host :: "string \<Rightarrow> (app_error, string) result" where
  "normalize_ssh_host value =
     bind_result (normalize_required_text value ''ssh host'' 128) (\<lambda>host.
     if \<not> list_all (\<lambda>c. command_char c \<or> c = CHR '':'') host \<or> starts_with host ''-'' then
       Inl (bad_request ''invalid_ssh_host'' ''ssh host contains unsupported characters'')
     else Inr host)"

definition normalize_ssh_username :: "string \<Rightarrow> (app_error, string) result" where
  "normalize_ssh_username value =
     bind_result (normalize_required_text value ''username'' 64) (\<lambda>username.
     if \<not> list_all command_char username \<or> starts_with username ''-'' then
       Inl (bad_request ''invalid_ssh_username'' ''ssh username contains unsupported characters'')
     else Inr username)"

definition normalize_ssh_credential_request ::
  "admin_node_row \<Rightarrow> ssh_credential_request \<Rightarrow> (app_error, normalized_ssh_credential) result"
where
  "normalize_ssh_credential_request node request =
     bind_result (normalize_ssh_host (unwrap_or (nd_server_ip (ar_node node)) (nonempty_text (cq_host request))))
       (\<lambda>host.
     let port = unwrap_or 22 (cq_port request)
     in if port = 0 then
          Inl (bad_request ''invalid_ssh_port'' ''ssh port must be between 1 and 65535'')
        else
          bind_result (normalize_ssh_username (cq_username request)) (\<lambda>username.
          bind_result (normalize_required_text (cq_password request) ''password'' 2048) (\<lambda>password.
          Inr \<lparr>nc_host = host, nc_port = port, nc_username = username, nc_password = password\<rparr>)))"

text \<open>\<open>Aes256Gcm\<close>: sealing with a key and a nonce, and opening, which fails on a forged text.\<close>

record aead =
  aead_seal :: "bytes \<Rightarrow> bytes \<Rightarrow> bytes \<Rightarrow> bytes option"
  aead_open :: "bytes \<Rightarrow> bytes \<Rightarrow> bytes \<Rightarrow> bytes option"

definition credential_key :: "crypto \<Rightarrow> string option \<Rightarrow> (app_error, bytes) result" where
  "credential_key cx configured =
     bind_result (ok_or (service_unavailable ''credential_key_missing''
       ''XACCEL_CREDENTIAL_KEY is required before storing SSH passwords'') configured) (\<lambda>key.
     bind_result (ok_or (service_unavailable ''credential_key_invalid''
       ''XACCEL_CREDENTIAL_KEY must be base64 encoded 32 bytes'') (b64_decode cx key)) (\<lambda>decoded.
     if length decoded \<noteq> 32 then
       Inl (service_unavailable ''credential_key_invalid''
         ''XACCEL_CREDENTIAL_KEY must decode to exactly 32 bytes'')
     else Inr decoded))"

definition encrypt_credential_secret ::
  "crypto \<Rightarrow> aead \<Rightarrow> bytes \<Rightarrow> bytes \<Rightarrow> string \<Rightarrow> (app_error, string \<times> string) result"
where
  "encrypt_credential_secret cx ae nonce key plaintext =
     bind_result (ok_or internal_error (aead_seal ae key nonce plaintext)) (\<lambda>ciphertext.
     Inr (b64_encode cx ciphertext, b64_encode cx nonce))"

definition decrypt_credential_secret ::
  "crypto \<Rightarrow> aead \<Rightarrow> bytes \<Rightarrow> string \<Rightarrow> string \<Rightarrow> (app_error, string) result"
where
  "decrypt_credential_secret cx ae key ciphertext nonce =
     bind_result (ok_or (service_unavailable ''credential_decode_failed'' ''stored credential is invalid'')
       (b64_decode cx ciphertext)) (\<lambda>sealed.
     bind_result (ok_or (service_unavailable ''credential_decode_failed'' ''stored credential nonce is invalid'')
       (b64_decode cx nonce)) (\<lambda>nonce.
     if length nonce \<noteq> 12 then
       Inl (service_unavailable ''credential_decode_failed'' ''stored credential nonce has invalid length'')
     else
       bind_result (ok_or (service_unavailable ''credential_decrypt_failed''
         ''stored credential cannot be decrypted with current key'') (aead_open ae key nonce sealed)) (\<lambda>plaintext.
       ok_or (service_unavailable ''credential_decode_failed'' ''stored credential is not UTF-8'')
         (from_utf8 plaintext))))"

definition new_credential_row :: "u64 \<Rightarrow> normalized_ssh_credential \<Rightarrow> string \<Rightarrow> string \<Rightarrow> ssh_credential_row" where
  "new_credential_row node_id credential ciphertext nonce =
     \<lparr>sc_node_id = node_id, sc_host = nc_host credential, sc_port = ucast (nc_port credential),
      sc_username = nc_username credential, sc_password_ciphertext = ciphertext,
      sc_password_nonce = nonce, sc_auth_status = ''untested'', sc_last_error = None,
      sc_last_checked_at = None\<rparr>"

definition put_credential :: "ssh_credential_row \<Rightarrow> ssh_credential_row list \<Rightarrow> ssh_credential_row list" where
  "put_credential row rows =
     (if list_ex (\<lambda>c. sc_node_id c = sc_node_id row) rows
      then update_rows (\<lambda>c. sc_node_id c = sc_node_id row) (\<lambda>_. row) rows else rows @ [row])"

text \<open>The transaction, and the row read after it.\<close>

definition upsert_ssh_credential ::
  "mysql \<Rightarrow> u64 \<Rightarrow> normalized_ssh_credential \<Rightarrow> string \<Rightarrow> string \<Rightarrow> admin_actor \<Rightarrow> operations \<Rightarrow>
   (app_error, ssh_credential_row) result \<times> operations"
where
  "upsert_ssh_credential my node_id credential ciphertext nonce actor ops =
     (case bind_result (ensure_admin_node_exists my 0 (op_db ops) node_id) (\<lambda>_.
          bind_result (stmt my 1 ()) (\<lambda>_.
          bind_result (foreign_key node_id (op_db ops)) (\<lambda>_.
          bind_result (stmt my 2 ()) (\<lambda>_.
          bind_result (insert_node_audit
            \<lparr>al_node_id = node_id, al_actor_type = audit_actor_type actor, al_actor_id = aa_id actor,
             al_action = ''node.ssh_credential.upsert'',
             al_detail = JObject [(''host'', JString (nc_host credential)),
               (''port'', JNumber (show_u16 (nc_port credential))),
               (''username'', JString (nc_username credential))]\<rparr> (op_db ops)) (\<lambda>db.
          stmt my 3 (ops\<lparr>op_db := db, op_credentials :=
            put_credential (new_credential_row node_id credential ciphertext nonce) (op_credentials ops)\<rparr>)))))) of
        Inl e \<Rightarrow> (Inl e, ops)
      | Inr ops' \<Rightarrow>
          (bind_result (stmt my 4 (select_ssh_credential ops' node_id))
             (ok_or (not_found ''ssh_not_found'' ''ssh credential was not stored'')), ops'))"

definition delete_ssh_credential ::
  "mysql \<Rightarrow> u64 \<Rightarrow> admin_actor \<Rightarrow> operations \<Rightarrow> (app_error, bool \<times> operations) result"
where
  "delete_ssh_credential my node_id actor ops =
     bind_result (stmt my 0 (filter (\<lambda>c. sc_node_id c \<noteq> node_id) (op_credentials ops))) (\<lambda>kept.
     let deleted = select_ssh_credential ops node_id \<noteq> None
     in bind_result
          (if deleted then
             bind_result (stmt my 1 ()) (\<lambda>_. insert_node_audit
               \<lparr>al_node_id = node_id, al_actor_type = audit_actor_type actor, al_actor_id = aa_id actor,
                al_action = ''node.ssh_credential.delete'', al_detail = JNull\<rparr> (op_db ops))
           else Inr (op_db ops)) (\<lambda>db.
        stmt my 2 (deleted, ops\<lparr>op_db := db, op_credentials := kept\<rparr>)))"

definition update_ssh_credential_status ::
  "mysql \<Rightarrow> nat \<Rightarrow> u64 \<Rightarrow> string \<Rightarrow> string option \<Rightarrow> operations \<Rightarrow> (app_error, operations) result"
where
  "update_ssh_credential_status my i node_id auth_status last_error ops =
     stmt my i (ops\<lparr>op_credentials := update_rows (\<lambda>c. sc_node_id c = node_id)
       (\<lambda>c. c\<lparr>sc_auth_status := auth_status,
              sc_last_error := map_option (\<lambda>e. truncate_chars e 4096) last_error,
              sc_last_checked_at := Some (my_now my i)\<rparr>) (op_credentials ops)\<rparr>)"

text \<open>\<open>admin\<close> is the answer of \<open>require_admin_write\<close>; the summary shows no password.\<close>

definition admin_upsert_ssh_credential ::
  "crypto \<Rightarrow> aead \<Rightarrow> mysql \<Rightarrow> mysql \<Rightarrow> bytes \<Rightarrow> string option \<Rightarrow> (app_error, admin_actor) result \<Rightarrow> u64 \<Rightarrow>
   ssh_credential_request \<Rightarrow> operations \<Rightarrow> operations \<Rightarrow> (app_error, ssh_credential_row) result \<times> operations"
where
  "admin_upsert_ssh_credential cx ae my my' nonce configured admin node_id request seen ops =
     (case bind_result admin (\<lambda>actor.
          bind_result (select_admin_node my 0 seen node_id) (\<lambda>found.
          bind_result (ok_or (not_found ''node_not_found'' ''node does not exist'') found) (\<lambda>node.
          bind_result (normalize_ssh_credential_request node request) (\<lambda>normalized.
          bind_result (credential_key cx configured) (\<lambda>key.
          bind_result (encrypt_credential_secret cx ae nonce key (nc_password normalized)) (\<lambda>(ciphertext, nonce).
          Inr (actor, normalized, ciphertext, nonce))))))) of
        Inl e \<Rightarrow> (Inl e, ops)
      | Inr (actor, normalized, ciphertext, nonce) \<Rightarrow>
          upsert_ssh_credential my' node_id normalized ciphertext nonce actor ops)"

definition admin_delete_ssh_credential ::
  "mysql \<Rightarrow> (app_error, admin_actor) result \<Rightarrow> u64 \<Rightarrow> operations \<Rightarrow> (app_error, bool) result \<times> operations"
where
  "admin_delete_ssh_credential my admin node_id ops =
     (case bind_result admin (\<lambda>actor. delete_ssh_credential my node_id actor ops) of
        Inl e \<Rightarrow> (Inl e, ops)
      | Inr (deleted, ops') \<Rightarrow> (Inr deleted, ops'))"

section \<open>Plans\<close>

record ssh_action_plan =
  pl_command_label :: string
  pl_remote_command :: string
  pl_send_password :: bool

definition sudo_prefix :: "bool \<Rightarrow> string" where
  "sudo_prefix is_root = (if is_root then [] else ''sudo -S -p '' @ [quote_char, quote_char] @ '' '')"

definition quoted_text :: "string \<Rightarrow> string" where
  "quoted_text s = [quote_char] @ s @ [quote_char]"

text \<open>
  An upgrade hands the node a bootstrap token for an hour, so its plan changes the tables; \<open>seen\<close>
  is what the check before that insertion read.
\<close>

definition build_ssh_action_plan ::
  "crypto \<Rightarrow> (string \<Rightarrow> string \<Rightarrow> bool) \<Rightarrow> mysql \<Rightarrow> bytes \<Rightarrow> u64 \<Rightarrow> u64 \<Rightarrow> string \<Rightarrow> ssh_credential_row \<Rightarrow>
   string option \<Rightarrow> database \<Rightarrow> operations \<Rightarrow> (app_error, ssh_action_plan) result \<times> operations"
where
  "build_ssh_action_plan cx same my random now node_id action credential public_base_url seen ops =
     (let is_root = sc_username credential = ''root'';
          sudo = sudo_prefix is_root
      in if action = ''test_connection'' then
           (Inr \<lparr>pl_command_label = (utf8 [0x6D4B, 0x8BD5] @ '' SSH '' @ utf8 [0x8FDE, 0x63A5]),
                pl_remote_command = ''printf '' @ quoted_text (''xaccel-ssh-ok'' @ [backslash_char] @ ''n''),
                pl_send_password = False\<rparr>, ops)
         else if action = ''restart_node_service'' then
           (Inr \<lparr>pl_command_label = utf8 [0x91CD, 0x542F, 0x8282, 0x70B9, 0x670D, 0x52A1],
                pl_remote_command = sudo @ ''systemctl restart xaccel-node && '' @ sudo @
                  ''systemctl is-active xaccel-node'',
                pl_send_password = \<not> is_root\<rparr>, ops)
         else if action = ''reboot_server'' then
           (Inr \<lparr>pl_command_label = utf8 [0x91CD, 0x542F, 0x670D, 0x52A1, 0x5668],
                pl_remote_command = sudo @ ''shutdown -r +1 '' @ quoted_text ''xaccel control scheduled reboot'',
                pl_send_password = \<not> is_root\<rparr>, ops)
         else if action = ''upgrade_node'' then
           (case bind_result (ok_or (service_unavailable ''public_base_url_missing''
                ''public base url is required for node upgrade'') public_base_url) (\<lambda>base.
              bind_result (create_bootstrap_token cx same my random node_id None (now + 3600) seen (op_db ops))
                (\<lambda>(token, token_id, db). Inr (base, token, db))) of
              Inl e \<Rightarrow> (Inl e, ops)
            | Inr (base, token, db) \<Rightarrow>
                (bind_result (select_system_settings my 2 (op_settings ops)) (\<lambda>s.
                   Inr \<lparr>pl_command_label = utf8 [0x5347, 0x7EA7, 0x8282, 0x70B9, 0x5185, 0x6838],
                        pl_remote_command = build_remote_bootstrap_install_command (ss_node_install_url s)
                          (base @ ''/api/node/v1/bootstrap'') token (\<not> is_root) True None
                          (ss_node_artifact_url s) (ss_node_sha256_url s) (ss_release_download_mode s),
                        pl_send_password = \<not> is_root\<rparr>), ops\<lparr>op_db := db\<rparr>))
         else (Inl (bad_request ''invalid_ssh_action'' ''unsupported ssh action''), ops))"

section \<open>Running ssh\<close>

definition ssh_arguments :: "ssh_credential_row \<Rightarrow> ssh_action_plan \<Rightarrow> string list" where
  "ssh_arguments credential plan =
     [''-e'', ''ssh'', ''-o'', ''BatchMode=no'', ''-o'', ''ConnectTimeout=10'', ''-o'',
      ''StrictHostKeyChecking=accept-new'', ''-o'',
      ''UserKnownHostsFile=/var/lib/xaccel-control-api/known_hosts'', ''-p'',
      show_nat (unat (sc_port credential)), sc_username credential @ ''@'' @ sc_host credential,
      pl_remote_command plan]"

definition ssh_stdin :: "string \<Rightarrow> ssh_action_plan \<Rightarrow> bytes option" where
  "ssh_stdin password plan =
     (if pl_send_password plan then
        Some (password @ [line_feed] @ password @ [line_feed] @ password @ [line_feed])
      else None)"

text \<open>
  What became of the process \<open>sshpass\<close>: its directory could not be made, it could not be started
  (not found, or another error), it did not end in time, waiting for it failed, or it ended with
  an exit code, its success and its status' text, and the outputs \<open>from_utf8_lossy\<close> reads.
\<close>

datatype ssh_outcome =
    Mkdir_failed string | Sshpass_missing | Spawn_failed string | Ssh_timeout | Wait_failed string
  | Ssh_exited "int option" bool string string string

record ssh_command_output =
  sx_exit_code :: "int option"
  sx_combined :: string

record ssh_command_error =
  se_exit_code :: "int option"
  se_message :: string

definition combined_output :: "string \<Rightarrow> string \<Rightarrow> string" where
  "combined_output stdout stderr =
     api_trim_for_log (stdout @ (if stderr = [] then []
       else (if trim stdout \<noteq> [] then [line_feed] else []) @ stderr)) 4096"

primrec run_ssh_command :: "ssh_outcome \<Rightarrow> (ssh_command_error, ssh_command_output) result" where
  "run_ssh_command (Mkdir_failed error) =
     Inl \<lparr>se_exit_code = None, se_message = ''failed to prepare ssh known_hosts directory: '' @ error\<rparr>"
| "run_ssh_command Sshpass_missing =
     Inl \<lparr>se_exit_code = None, se_message =
       ''sshpass is not installed on the control server; install sshpass and openssh-client''\<rparr>"
| "run_ssh_command (Spawn_failed error) =
     Inl \<lparr>se_exit_code = None, se_message = ''failed to start ssh command: '' @ error\<rparr>"
| "run_ssh_command Ssh_timeout =
     Inl \<lparr>se_exit_code = None, se_message = ''ssh action timed out after 120s''\<rparr>"
| "run_ssh_command (Wait_failed error) =
     Inl \<lparr>se_exit_code = None, se_message = ''failed to wait for ssh command: '' @ error\<rparr>"
| "run_ssh_command (Ssh_exited exit_code success stdout stderr status) =
     (let combined = combined_output stdout stderr
      in if success then Inr \<lparr>sx_exit_code = exit_code, sx_combined = combined\<rparr>
         else Inl \<lparr>se_exit_code = exit_code, se_message =
           if trim combined = [] then ''ssh command exited with status '' @ status else combined\<rparr>)"

end
