(* ===== verification/Api_Catalog_List.thy ===== *)
theory Api_Catalog_List
  imports Api_Ssh Api_Catalog_Log
begin

text \<open>
  The lists of the catalogue in \<open>control-api/src/main.rs\<close>: games, regions and route rules as the
  dashboard and the business backend see them, and the snapshot of all three. A synchronised
  catalogue is shown as it was sent.
\<close>

section \<open>Queries\<close>

record list_games_query =
  gq_status :: "string option"
  gq_platform :: "string option"
  gq_keyword :: "string option"
  gq_limit :: "u32 option"

record list_route_rules_query =
  rq_game_id :: "u64 option"
  rq_region_id :: "u64 option"
  rq_node_id :: "u64 option"
  rq_status :: "string option"
  rq_limit :: "u32 option"

record catalog_snapshot_query =
  kq_game_id :: "u64 option"
  kq_node_id :: "u64 option"
  kq_status :: "string option"
  kq_limit :: "u32 option"

definition validate_game_query :: "list_games_query \<Rightarrow> (app_error, unit) result" where
  "validate_game_query q =
     bind_result (case nonempty_text (gq_status q) of
         None \<Rightarrow> Inr ()
       | Some s \<Rightarrow> bind_result (validate_game_status s) (\<lambda>_. Inr ())) (\<lambda>_.
     bind_result (case nonempty_text (gq_platform q) of
         None \<Rightarrow> Inr ()
       | Some p \<Rightarrow> bind_result (validate_game_platform p) (\<lambda>_. Inr ())) (\<lambda>_.
     ensure (\<not> is_some_and (\<lambda>k. 128 < char_count k) (gq_keyword q))
       (bad_request ''invalid_keyword'' ''keyword must be at most 128 characters'')))"

definition validate_route_rule_query :: "list_route_rules_query \<Rightarrow> (app_error, unit) result" where
  "validate_route_rule_query q =
     (if rq_game_id q = Some 0 then Inl (invalid_game ''game_id must be positive'')
      else if rq_region_id q = Some 0 then Inl (invalid_region ''region_id must be positive'')
      else if rq_node_id q = Some 0 then Inl (bad_request ''invalid_node'' ''node_id must be positive'')
      else
        (case rq_status q of
           None \<Rightarrow> Inr ()
         | Some s \<Rightarrow> bind_result (validate_route_rule_status s) (\<lambda>_. Inr ())))"

definition normalize_business_catalog_snapshot_query ::
  "catalog_snapshot_query \<Rightarrow> (app_error, catalog_snapshot_query) result"
where
  "normalize_business_catalog_snapshot_query q =
     (if kq_game_id q = Some 0 then Inl (invalid_game ''game_id must be positive'')
      else if kq_node_id q = Some 0 then Inl (bad_request ''invalid_node'' ''node_id must be positive'')
      else
        bind_result (normalize_optional_text (kq_status q) 32) (\<lambda>given.
        bind_result (case given of
            None \<Rightarrow> Inr None
          | Some s \<Rightarrow> bind_result (validate_game_status s) (\<lambda>v. Inr (Some v))) (\<lambda>status.
        Inr (q\<lparr>kq_status := status\<rparr>))))"

section \<open>Games\<close>

text \<open>An \<open>ENUM\<close> is ordered by the position of its value.\<close>

definition status_position :: "string \<Rightarrow> nat" where
  "status_position s = (if s = ''enabled'' then 1 else 2)"

definition game_order :: "game_row list \<Rightarrow> game_row list" where
  "game_order games =
     sort_key (\<lambda>g. status_position (gm_status g)) (sort_key (\<lambda>g. unat (gm_game_id g)) games)"

definition route_count :: "catalogue \<Rightarrow> u64 \<Rightarrow> nat" where
  "route_count cat game_id = length (filter (\<lambda>r. ru_game_id (rl_rule r) = game_id) (cg_rules cat))"

text \<open>
  The dashboard's query. A keyword is a condition on the joined rows: where only some categories of a
  game match it, the game is shown with these alone. \<open>like\<close> is MySQL's \<open>LIKE\<close> with the pattern.
\<close>

definition keyword_categories ::
  "(string \<Rightarrow> string \<Rightarrow> bool) \<Rightarrow> catalogue \<Rightarrow> string option \<Rightarrow> game_row \<Rightarrow> catalogue option"
where
  "keyword_categories like cat keyword g =
     (case keyword of
        None \<Rightarrow> Some cat
      | Some k \<Rightarrow>
          let pattern = ''%'' @ k @ ''%''
          in if like (gm_name g) pattern \<or> like (show_u64 (gm_game_id g)) pattern then Some cat
             else
               let cat' = cat\<lparr>cg_categories := filter (\<lambda>c. like (gc_category c) pattern) (cg_categories cat)\<rparr>
               in if list_ex (\<lambda>c. gc_game_id c = gm_game_id g) (cg_categories cat') then Some cat' else None)"

definition select_admin_games ::
  "(string \<Rightarrow> string \<Rightarrow> bool) \<Rightarrow> mysql \<Rightarrow> nat \<Rightarrow> catalogue \<Rightarrow> list_games_query \<Rightarrow> u32 \<Rightarrow>
   (app_error, (game_row \<times> nat) list) result"
where
  "select_admin_games like my i cat q limit =
     stmt my i (take (unat limit) (List.map_filter (\<lambda>g.
         map_option (\<lambda>cat'. (g\<lparr>gm_category := game_category_text cat' g\<rparr>, route_count cat (gm_game_id g)))
           (keyword_categories like cat (nonempty_text (gq_keyword q)) g))
       (game_order (filter (\<lambda>g.
         (case nonempty_text (gq_status q) of None \<Rightarrow> True | Some s \<Rightarrow> gm_status g = s) \<and>
         (case nonempty_text (gq_platform q) of None \<Rightarrow> True | Some p \<Rightarrow> gm_platform g = p))
         (cg_games cat)))))"

definition admin_list_games ::
  "(string \<Rightarrow> string \<Rightarrow> bool) \<Rightarrow> mysql \<Rightarrow> (app_error, admin_actor) result \<Rightarrow> list_games_query \<Rightarrow> catalogue \<Rightarrow>
   (app_error, (game_row \<times> nat) list) result"
where
  "admin_list_games like my admin q cat =
     bind_result admin (\<lambda>_.
     bind_result (validate_game_query q) (\<lambda>_.
     select_admin_games like my 0 cat q (clamp_limit (gq_limit q) 200 500)))"

text \<open>A region or a rule on the node that the query names.\<close>

definition on_node :: "catalogue \<Rightarrow> u64 option \<Rightarrow> (normalized_route_rule \<Rightarrow> bool) \<Rightarrow> bool" where
  "on_node cat node_id p \<longleftrightarrow>
     (case node_id of
        None \<Rightarrow> True
      | Some n \<Rightarrow> list_ex (\<lambda>r. p (rl_rule r) \<and> ru_node_id (rl_rule r) = n) (cg_rules cat))"

definition select_business_catalog_games ::
  "mysql \<Rightarrow> nat \<Rightarrow> catalogue \<Rightarrow> catalog_snapshot_query \<Rightarrow> u32 \<Rightarrow> (app_error, (game_row \<times> nat) list) result"
where
  "select_business_catalog_games my i cat q limit =
     stmt my i (map (\<lambda>g. (g\<lparr>gm_category := game_category_text cat g\<rparr>, route_count cat (gm_game_id g)))
       (take (unat limit) (game_order (filter (\<lambda>g.
         (case kq_game_id q of None \<Rightarrow> True | Some x \<Rightarrow> gm_game_id g = x) \<and>
         (case kq_status q of None \<Rightarrow> True | Some s \<Rightarrow> gm_status g = s) \<and>
         on_node cat (kq_node_id q) (\<lambda>r. ru_game_id r = gm_game_id g)) (cg_games cat)))))"

section \<open>Regions and rules\<close>

definition select_business_catalog_regions ::
  "mysql \<Rightarrow> nat \<Rightarrow> catalogue \<Rightarrow> catalog_snapshot_query \<Rightarrow> u32 \<Rightarrow> (app_error, normalized_game_region list) result"
where
  "select_business_catalog_regions my i cat q limit =
     stmt my i (take (unat limit)
       (sort_key (\<lambda>g. unat (nr_game_id g)) (sort_key (\<lambda>g. unat (nr_region_id g)) (filter (\<lambda>g.
         (case kq_game_id q of None \<Rightarrow> True | Some x \<Rightarrow> nr_game_id g = x) \<and>
         (case kq_status q of None \<Rightarrow> True | Some s \<Rightarrow> nr_status g = s) \<and>
         on_node cat (kq_node_id q) (\<lambda>r. ru_game_id r = nr_game_id g \<and> ru_region_id r = Some (nr_region_id g)))
         (cg_regions cat)))))"

text \<open>By game, region (none first), priority and id, in which the rows stand.\<close>

definition rule_order :: "route_rule_row list \<Rightarrow> route_rule_row list" where
  "rule_order rules =
     sort_key (\<lambda>r. unat (ru_game_id (rl_rule r)))
       (sort_key (\<lambda>r. case ru_region_id (rl_rule r) of None \<Rightarrow> 0 | Some x \<Rightarrow> Suc (unat x))
         (sort_key (\<lambda>r. unat (ru_priority (rl_rule r))) rules))"

definition select_admin_route_rules ::
  "mysql \<Rightarrow> nat \<Rightarrow> database \<Rightarrow> catalogue \<Rightarrow> list_route_rules_query \<Rightarrow> u32 \<Rightarrow>
   (app_error, (route_rule_row \<times> node_row) list) result"
where
  "select_admin_route_rules my i db cat q limit =
     stmt my i (take (unat limit) (List.map_filter (\<lambda>r.
         map_option (Pair (shown_rule r)) (find_node (ru_node_id (rl_rule r)) db))
       (rule_order (filter (\<lambda>r.
         (case rq_game_id q of None \<Rightarrow> True | Some x \<Rightarrow> ru_game_id (rl_rule r) = x) \<and>
         (case rq_region_id q of None \<Rightarrow> True | Some x \<Rightarrow> ru_region_id (rl_rule r) = Some x) \<and>
         (case rq_node_id q of None \<Rightarrow> True | Some x \<Rightarrow> ru_node_id (rl_rule r) = x) \<and>
         (case nonempty_text (rq_status q) of None \<Rightarrow> True | Some s \<Rightarrow> ru_status (rl_rule r) = s))
         (cg_rules cat)))))"

definition admin_list_route_rules ::
  "mysql \<Rightarrow> (app_error, admin_actor) result \<Rightarrow> list_route_rules_query \<Rightarrow> database \<Rightarrow> catalogue \<Rightarrow>
   (app_error, (route_rule_row \<times> node_row) list) result"
where
  "admin_list_route_rules my admin q db cat =
     bind_result admin (\<lambda>_.
     bind_result (validate_route_rule_query q) (\<lambda>_.
     select_admin_route_rules my 0 db cat q (clamp_limit (rq_limit q) 200 500)))"

section \<open>The snapshot\<close>

record catalog_snapshot =
  ks_games :: "(game_row \<times> nat) list"
  ks_regions :: "normalized_game_region list"
  ks_rules :: "(route_rule_row \<times> node_row) list"

text \<open>Three statements, each on the tables as they are then: \<open>cats i\<close> and \<open>db\<close>.\<close>

definition select_catalog_snapshot ::
  "mysql \<Rightarrow> (nat \<Rightarrow> catalogue) \<Rightarrow> database \<Rightarrow> catalog_snapshot_query \<Rightarrow> (app_error, catalog_snapshot) result"
where
  "select_catalog_snapshot my cats db q =
     (let limit = clamp_limit (kq_limit q) 200 500
      in bind_result (select_business_catalog_games my 0 (cats 0) q limit) (\<lambda>games.
         bind_result (select_business_catalog_regions my 1 (cats 1) q limit) (\<lambda>regions.
         bind_result (select_admin_route_rules my 2 db (cats 2)
           \<lparr>rq_game_id = kq_game_id q, rq_region_id = None, rq_node_id = kq_node_id q, rq_status = kq_status q,
            rq_limit = Some limit\<rparr> limit) (\<lambda>rules.
         Inr \<lparr>ks_games = games, ks_regions = regions, ks_rules = rules\<rparr>))))"

section \<open>A synchronised catalogue is shown\<close>

lemma map_filter_set: "set (List.map_filter f xs) = {y. \<exists>x \<in> set xs. f x = Some y}"
  by (induction xs) (auto simp: List.map_filter_simps split: option.splits)

lemma game_order_set [simp]: "set (game_order gs) = set gs" "length (game_order gs) = length gs"
  by (simp_all add: game_order_def)

lemma rule_order_set [simp]: "set (rule_order rs) = set rs" "length (rule_order rs) = length rs"
  by (simp_all add: rule_order_def)

lemma length_map_filter: "length (List.map_filter f xs) \<le> length xs"
  by (induction xs) (auto simp: List.map_filter_simps split: option.splits)

definition everything :: catalog_snapshot_query where
  "everything = \<lparr>kq_game_id = None, kq_node_id = None, kq_status = None, kq_limit = Some 500\<rparr>"

lemma whole_snapshot:
  assumes "select_catalog_snapshot my (\<lambda>_. cat) db everything = Inr snap"
    and "length (cg_games cat) \<le> 500" "length (cg_regions cat) \<le> 500" "length (cg_rules cat) \<le> 500"
  shows "set (ks_games snap) = (\<lambda>g. (g\<lparr>gm_category := game_category_text cat g\<rparr>, route_count cat (gm_game_id g))) `
      set (cg_games cat)"
    and "set (ks_regions snap) = set (cg_regions cat)"
    and "set (ks_rules snap) = {(shown_rule r, n) |r n. r \<in> set (cg_rules cat) \<and>
      find_node (ru_node_id (rl_rule r)) db = Some n}"
proof -
  have limit: "clamp_limit (Some 500) 200 500 = (500 :: u32)" by (simp add: clamp_limit_def)
  have rules: "length (List.map_filter f (rule_order (cg_rules cat))) \<le> 500"
    for f :: "route_rule_row \<Rightarrow> (route_rule_row \<times> node_row) option"
    using length_map_filter [of f "rule_order (cg_rules cat)"] assms(4) by simp
  note defs = select_catalog_snapshot_def everything_def limit Let_def stmt_def select_business_catalog_games_def
    select_business_catalog_regions_def select_admin_route_rules_def on_node_def
  show "set (ks_games snap) = (\<lambda>g. (g\<lparr>gm_category := game_category_text cat g\<rparr>, route_count cat (gm_game_id g))) `
      set (cg_games cat)"
    using assms(1,2) by (auto simp: defs)
  show "set (ks_regions snap) = set (cg_regions cat)"
    using assms(1,3) by (auto simp: defs)
  show "set (ks_rules snap) = {(shown_rule r, n) |r n. r \<in> set (cg_rules cat) \<and>
      find_node (ru_node_id (rl_rule r)) db = Some n}"
    using assms(1) rules by (auto simp: defs map_filter_set)
qed

lemma distinct_key: "distinct (map f xs) \<Longrightarrow> x \<in> set xs \<Longrightarrow> y \<in> set xs \<Longrightarrow> f x = f y \<Longrightarrow> x = y"
  by (meson distinct_map inj_onD)

lemma distinct_rows_key:
  assumes "distinct_rows clash xs" "x \<in> set xs" "y \<in> set xs" "clash x y" "clash y x"
  shows "x = y"
proof (rule ccontr)
  assume "x \<noteq> y"
  then obtain as bs cs where "xs = as @ x # bs @ y # cs \<or> xs = as @ y # bs @ x # cs"
    using assms(2,3) by (metis (no_types, lifting) Un_iff append.assoc append_Cons in_set_conv_decomp set_ConsD set_append)
  with assms(1,4,5) show False
    by (auto simp: distinct_rows_def sorted_wrt_append)
qed

lemma same_external_common:
  assumes same: "equivp same" and "same_external same q r" "same_external same q s"
  shows "same_external same r s"
proof -
  from assms(2) obtain a b c d where r: "ru_sync_source q = Some a" "ru_external_id q = Some b"
    "ru_sync_source r = Some c" "ru_external_id r = Some d" "same a c" "same b d"
    by (auto simp: same_external_iff)
  with assms(3) obtain e f where s: "ru_sync_source s = Some e" "ru_external_id s = Some f" "same a e" "same b f"
    by (auto simp: same_external_iff)
  have "same c e" "same d f"
    using equivp_transp [OF same equivp_symp [OF same r(5)] s(3)] equivp_transp [OF same equivp_symp [OF same r(6)] s(4)]
    by simp_all
  then show ?thesis using r(3,4) s(1,2) by (simp add: same_external_iff)
qed

text \<open>Categories that differ in the collation are stored one by one, in their order.\<close>

lemma fold_category_rows:
  assumes "distinct_rows same cs" "\<forall>r \<in> set rows. \<forall>c \<in> set cs. \<not> same (gc_category r) c"
  shows "fold (\<lambda>x. upsert_rows (\<lambda>c. same (gc_category c) (snd x)) (\<lambda>c. c\<lparr>gc_sort_order := of_nat (fst x)\<rparr>)
        \<lparr>gc_game_id = game_id, gc_category = snd x, gc_sort_order = of_nat (fst x)\<rparr>) (enumerate n cs) rows =
    rows @ map (\<lambda>x. \<lparr>gc_game_id = game_id, gc_category = snd x, gc_sort_order = of_nat (fst x)\<rparr>) (enumerate n cs)"
  using assms
proof (induction cs arbitrary: rows n)
  case (Cons c cs)
  let ?row = "\<lparr>gc_game_id = game_id, gc_category = c, gc_sort_order = of_nat n\<rparr> :: game_category_row"
  have "\<not> list_ex (\<lambda>r. same (gc_category r) c) rows" using Cons.prems(2) by (auto simp: list_ex_iff)
  then have "upsert_rows (\<lambda>r. same (gc_category r) c) (\<lambda>r. r\<lparr>gc_sort_order := of_nat n\<rparr>) ?row rows = rows @ [?row]"
    by (simp add: upsert_rows_def)
  moreover have "\<forall>r \<in> set (rows @ [?row]). \<forall>d \<in> set cs. \<not> same (gc_category r) d"
    using Cons.prems by (auto simp: distinct_rows_def)
  ultimately show ?case
    using Cons.IH [of "rows @ [?row]" "Suc n"] Cons.prems(1) by (simp add: distinct_rows_def)
qed simp

lemma sorted_enumerate_rows:
  assumes "n + length cs \<le> 2 ^ 32"
  shows "sorted (map (\<lambda>c. unat (gc_sort_order c)) (map (\<lambda>x. \<lparr>gc_game_id = game_id, gc_category = snd x,
      gc_sort_order = of_nat (fst x)\<rparr>) (enumerate n cs)))"
proof -
  have "map (\<lambda>x. unat (of_nat (fst x) :: u32)) (enumerate n cs) = map fst (enumerate n cs)"
  proof (rule map_cong)
    fix x assume "x \<in> set (enumerate n cs)"
    then have "fst x < 2 ^ 32" using assms by (auto simp: in_set_enumerate_eq)
    then show "unat (of_nat (fst x) :: u32) = fst x" by (simp add: unsigned_of_nat take_bit_nat_eq_self)
  qed simp
  then show ?thesis by (simp add: comp_def)
qed

lemma map_snd_enumerated: "map (\<lambda>x. f (snd x)) (enumerate n xs) = map f xs"
  by (induction xs arbitrary: n) simp_all

lemma synced_categories:
  assumes sync: "sync_business_catalog same my db c cat = Inr cat'" and g: "g \<in> set (sc_games c)"
    and keys: "distinct (map ng_game_id (sc_games c))" "distinct_rows same (ng_categories g)"
    and few: "length (ng_categories g) \<le> 17"
  shows "joined_categories cat' (ng_game_id g) =
    concat (map (replicate (max 1 (route_count cat' (ng_game_id g)))) (ng_categories g))"
proof -
  let ?row = "\<lambda>x. \<lparr>gc_game_id = ng_game_id g, gc_category = snd x, gc_sort_order = of_nat (fst x)\<rparr> :: game_category_row"
  obtain s1 where s1: "fold_result (upsert_business_game same my) (sc_games c) (0, cat) = Inr s1"
    "cg_categories cat' = cg_categories (snd s1)"
    using sync by (rule sync_tables)
  have "find (\<lambda>x. ng_game_id x = ng_game_id g) (rev (sc_games c)) = Some g"
  proof (cases "find (\<lambda>x. ng_game_id x = ng_game_id g) (rev (sc_games c))")
    case None
    then show ?thesis using g by (auto simp: find_None_iff)
  next
    case (Some x)
    then show ?thesis
      using distinct_key [OF keys(1) _ g] by (auto dest: find_Some_set)
  qed
  then have "categories_of (ng_game_id g) cat' = category_rows same g"
    using fold_games_categories [OF s1(1), of "ng_game_id g"] s1(2) by (simp add: categories_of_def)
  also have "\<dots> = map ?row (enumerate 0 (ng_categories g))"
    unfolding category_rows_def using fold_category_rows [OF keys(2), of "[]"] by simp
  finally have rows: "filter (\<lambda>c. gc_game_id c = ng_game_id g) (cg_categories cat') =
      map ?row (enumerate 0 (ng_categories g))" by (simp add: categories_of_def)
  have "sorted (map (\<lambda>c. unat (gc_sort_order c)) (map ?row (enumerate 0 (ng_categories g))))"
    by (rule sorted_enumerate_rows) (use few in simp)
  then have sorted: "sort_key (\<lambda>c. unat (gc_sort_order c)) (map ?row (enumerate 0 (ng_categories g))) =
      map ?row (enumerate 0 (ng_categories g))"
    by (rule sort_key_id_if_sorted)
  have "map (\<lambda>c. replicate k (gc_category c)) (map ?row (enumerate 0 (ng_categories g))) =
      map (replicate k) (ng_categories g)" for k
    by (simp add: comp_def map_snd_enumerated)
  then show ?thesis
    by (simp only: joined_categories_def rows sorted route_count_def Let_def)
qed


end
