(* ===== verification/Api_Business.thy ===== *)
theory Api_Business
  imports Api_Catalog_List Api_Nodes
begin

text \<open>
  The API of the business backend in \<open>control-api/src/main.rs\<close> and its counterpart on the dashboard:
  the table \<open>business_api_logs\<close>, and the endpoints that list and edit nodes, read and write the
  catalogue and issue tickets, each of which records in that table how it ended. A log row that
  cannot be written is lost and the answer is the same.
\<close>

section \<open>The log\<close>

record new_business_api_log =
  nl_endpoint :: string
  nl_action :: string
  nl_source :: string
  nl_request_id :: "string option"
  nl_status :: string
  nl_http_status :: "nat option"
  nl_user_id :: "u64 option"
  nl_game_id :: "u64 option"
  nl_region_id :: "u64 option"
  nl_error_code :: "string option"
  nl_error_message :: "string option"
  nl_detail :: json

record business_api_log_row = new_business_api_log +
  bl_id :: u64
  bl_created_at :: u64

record log_table =
  lg_rows :: "business_api_log_row list"
  lg_next :: u64

text \<open>The columns whose lengths nothing else limits. Endpoints, actions and codes are constants.\<close>

definition log_fits :: "new_business_api_log \<Rightarrow> bool" where
  "log_fits l \<longleftrightarrow> char_count (nl_source l) \<le> 64 \<and> \<not> is_some_and (\<lambda>r. 128 < char_count r) (nl_request_id l)"

definition log_row :: "u64 \<Rightarrow> u64 \<Rightarrow> new_business_api_log \<Rightarrow> business_api_log_row" where
  "log_row log_id now l = new_business_api_log.extend
     (l\<lparr>nl_error_message := map_option (\<lambda>m. truncate_chars m 4096) (nl_error_message l)\<rparr>)
     (business_api_log_row.fields log_id now)"

definition insert_business_api_log ::
  "mysql \<Rightarrow> nat \<Rightarrow> new_business_api_log \<Rightarrow> log_table \<Rightarrow> (app_error, log_table) result"
where
  "insert_business_api_log my i l t =
     bind_result (stmt my i ()) (\<lambda>_.
     bind_result (ensure (log_fits l) database_error) (\<lambda>_.
     bind_result (auto_id (lg_next t)) (\<lambda>log_id.
     Inr \<lparr>lg_rows = lg_rows t @ [log_row log_id (my_now my i) l], lg_next = log_id + 1\<rparr>)))"

definition record_business_api_log :: "mysql \<Rightarrow> nat \<Rightarrow> new_business_api_log \<Rightarrow> log_table \<Rightarrow> log_table" where
  "record_business_api_log my i l t = (case insert_business_api_log my i l t of Inl e \<Rightarrow> t | Inr t' \<Rightarrow> t')"

text \<open>What a handler logs of itself, whatever the outcome.\<close>

record log_context =
  lx_endpoint :: string
  lx_action :: string
  lx_source :: string
  lx_request_id :: "string option"
  lx_user_id :: "u64 option"
  lx_game_id :: "u64 option"
  lx_region_id :: "u64 option"

definition context_of :: "string \<Rightarrow> string \<Rightarrow> string \<Rightarrow> log_context" where
  "context_of endpoint action source =
     \<lparr>lx_endpoint = endpoint, lx_action = action, lx_source = source, lx_request_id = None,
      lx_user_id = None, lx_game_id = None, lx_region_id = None\<rparr>"

definition failure_log :: "log_context \<Rightarrow> app_error \<Rightarrow> new_business_api_log" where
  "failure_log x e =
     \<lparr>nl_endpoint = lx_endpoint x, nl_action = lx_action x, nl_source = lx_source x,
      nl_request_id = lx_request_id x, nl_status = ''failed'', nl_http_status = Some (ae_status e),
      nl_user_id = lx_user_id x, nl_game_id = lx_game_id x, nl_region_id = lx_region_id x,
      nl_error_code = Some (ae_code e), nl_error_message = Some (ae_message e),
      nl_detail = JObject [(''error_code'', JString (ae_code e)), (''error_message'', JString (ae_message e))]\<rparr>"

definition success_log :: "log_context \<Rightarrow> json \<Rightarrow> new_business_api_log" where
  "success_log x detail =
     \<lparr>nl_endpoint = lx_endpoint x, nl_action = lx_action x, nl_source = lx_source x,
      nl_request_id = lx_request_id x, nl_status = ''succeeded'', nl_http_status = Some 200,
      nl_user_id = lx_user_id x, nl_game_id = lx_game_id x, nl_region_id = lx_region_id x,
      nl_error_code = None, nl_error_message = None, nl_detail = detail\<rparr>"

definition record_business_api_failure ::
  "mysql \<Rightarrow> nat \<Rightarrow> log_context \<Rightarrow> app_error \<Rightarrow> log_table \<Rightarrow> log_table"
where
  "record_business_api_failure my i x e t = record_business_api_log my i (failure_log x e) t"

text \<open>
  An answer and its log row. \<open>later\<close> is what other requests did to the log before it is written.
\<close>

definition logged ::
  "mysql \<Rightarrow> (log_table \<Rightarrow> log_table) \<Rightarrow> log_context \<Rightarrow> ('a \<Rightarrow> json) \<Rightarrow> (app_error, 'a) result \<times> 's \<Rightarrow> log_table \<Rightarrow>
   (app_error, 'a) result \<times> 's \<times> log_table"
where
  "logged my later x detail answer t =
     (fst answer, snd answer,
      (case fst answer of
         Inl e \<Rightarrow> record_business_api_failure my 0 x e (later t)
       | Inr a \<Rightarrow> record_business_api_log my 0 (success_log x (detail a)) (later t)))"

text \<open>Nothing is logged of a request that is not authorised.\<close>

definition gated ::
  "(app_error, 'g) result \<Rightarrow> 's \<Rightarrow> log_table \<Rightarrow> ('g \<Rightarrow> (app_error, 'a) result \<times> 's \<times> log_table) \<Rightarrow>
   (app_error, 'a) result \<times> 's \<times> log_table"
where
  "gated gate s t f = (case gate of Inl e \<Rightarrow> (Inl e, s, t) | Inr g \<Rightarrow> f g)"

section \<open>Nodes\<close>

definition json_number :: "nat \<Rightarrow> json" where "json_number n = JNumber (show_nat n)"

definition json_u64 :: "u64 \<Rightarrow> json" where "json_u64 n = JNumber (show_u64 n)"

definition node_list_detail :: "u32 \<Rightarrow> admin_node_row list \<Rightarrow> json" where
  "node_list_detail limit nodes =
     JObject [(''limit'', json_number (unat limit)), (''total'', json_number (length nodes))]"

definition business_list_nodes ::
  "mysql \<Rightarrow> mysql \<Rightarrow> (log_table \<Rightarrow> log_table) \<Rightarrow> string option \<Rightarrow> headers \<Rightarrow> u32 option \<Rightarrow> operations \<Rightarrow> log_table \<Rightarrow>
   (app_error, admin_node_row list) result \<times> operations \<times> log_table"
where
  "business_list_nodes my my' later sync_token hs limit s t =
     gated (require_business_sync sync_token hs) s t (\<lambda>_.
     let n = clamp_limit limit 200 500
     in logged my' later (context_of ''nodes'' ''business.node.list'' ''business_api'') (node_list_detail n)
          (select_admin_nodes my 0 s n, s) t)"

definition admin_business_api_list_nodes ::
  "mysql \<Rightarrow> mysql \<Rightarrow> (log_table \<Rightarrow> log_table) \<Rightarrow> (app_error, admin_actor) result \<Rightarrow> u32 option \<Rightarrow> operations \<Rightarrow> log_table \<Rightarrow>
   (app_error, admin_node_row list) result \<times> operations \<times> log_table"
where
  "admin_business_api_list_nodes my my' later admin limit s t =
     gated admin s t (\<lambda>_.
     let n = clamp_limit limit 200 500
     in logged my' later (context_of ''nodes'' ''admin.business.node.list'' ''admin_debug'') (node_list_detail n)
          (select_admin_nodes my 0 s n, s) t)"

definition node_detail :: "admin_node_row \<Rightarrow> json" where
  "node_detail node =
     JObject [(''node_id'', json_u64 (nd_id (ar_node node))), (''endpoint'', JString (node_endpoint (ar_node node))),
       (''status'', JString (nd_status (ar_node node)))]"

definition existing_node :: "mysql \<Rightarrow> nat \<Rightarrow> operations \<Rightarrow> u64 \<Rightarrow> string \<Rightarrow> (app_error, admin_node_row) result" where
  "existing_node my i s node_id message =
     bind_result (select_admin_node my i s node_id) (ok_or (not_found ''node_not_found'' message))"

definition business_get_node ::
  "mysql \<Rightarrow> mysql \<Rightarrow> (log_table \<Rightarrow> log_table) \<Rightarrow> string option \<Rightarrow> headers \<Rightarrow> u64 \<Rightarrow> operations \<Rightarrow> log_table \<Rightarrow>
   (app_error, admin_node_row) result \<times> operations \<times> log_table"
where
  "business_get_node my my' later sync_token hs node_id s t =
     gated (require_business_sync sync_token hs) s t (\<lambda>_.
     logged my' later (context_of ''nodes'' ''business.node.get'' ''business_api'') node_detail
       (existing_node my 0 s node_id ''node does not exist'', s) t)"

definition admin_business_api_get_node ::
  "mysql \<Rightarrow> mysql \<Rightarrow> (log_table \<Rightarrow> log_table) \<Rightarrow> (app_error, admin_actor) result \<Rightarrow> u64 \<Rightarrow> operations \<Rightarrow> log_table \<Rightarrow>
   (app_error, admin_node_row) result \<times> operations \<times> log_table"
where
  "admin_business_api_get_node my my' later admin node_id s t =
     gated admin s t (\<lambda>_.
     logged my' later (context_of ''nodes'' ''admin.business.node.get'' ''admin_debug'') node_detail
       (existing_node my 0 s node_id ''node does not exist'', s) t)"

text \<open>An audit row whose failure is only logged.\<close>

definition audit_best_effort :: "mysql \<Rightarrow> nat \<Rightarrow> audit_row \<Rightarrow> operations \<Rightarrow> operations" where
  "audit_best_effort my i row s =
     (case bind_result (stmt my i ()) (\<lambda>_. insert_node_audit row (op_db s)) of
        Inl e \<Rightarrow> s
      | Inr db \<Rightarrow> s\<lparr>op_db := db\<rparr>)"

text \<open>
  The change of a node, the node read after it, and the audit row; \<open>change\<close> answers the node's id, and
  between its transaction and the reading the requests of others run (\<open>meanwhile\<close>).
\<close>

definition changed_node ::
  "mysql \<Rightarrow> (operations \<Rightarrow> operations) \<Rightarrow> string \<Rightarrow> (u64 \<Rightarrow> audit_row) \<Rightarrow> (app_error, u64 \<times> database) result \<Rightarrow> operations \<Rightarrow>
   (app_error, admin_node_row) result \<times> operations"
where
  "changed_node my meanwhile missing audit change s =
     (case change of
        Inl e \<Rightarrow> (Inl e, s)
      | Inr (node_id, db) \<Rightarrow>
          let s1 = meanwhile (s\<lparr>op_db := db\<rparr>)
          in (case existing_node my 0 s1 node_id missing of
                Inl e \<Rightarrow> (Inl e, s1)
              | Inr node \<Rightarrow> (Inr node, audit_best_effort my 1 (audit node_id) s1)))"

definition node_request_fields :: "admin_create_node_request \<Rightarrow> (string \<times> json) list" where
  "node_request_fields r =
     [(''name'', JString (an_name r)), (''server_ip'', JString (an_server_ip r)),
      (''server_port'', json_number (unat (an_server_port r))), (''area'', json_text (an_area r)),
      (''tag'', json_text (an_tag r)), (''bandwidth_quality'', json_text (an_bandwidth_quality r))]"

definition node_audit :: "string \<Rightarrow> u64 option \<Rightarrow> string \<Rightarrow> json \<Rightarrow> u64 \<Rightarrow> audit_row" where
  "node_audit actor_type actor_id action detail node_id =
     \<lparr>al_node_id = node_id, al_actor_type = actor_type, al_actor_id = actor_id, al_action = action,
      al_detail = detail\<rparr>"

definition created_node_detail :: "admin_node_row \<Rightarrow> json" where
  "created_node_detail node =
     (let n = ar_node node
      in JObject [(''node_id'', json_u64 (nd_id n)), (''name'', JString (nd_name n)),
           (''endpoint'', JString (node_endpoint n)), (''server_ip'', JString (nd_server_ip n)),
           (''server_port'', json_number (unat (nd_server_port n))), (''status'', JString (nd_status n)),
           (''area'', JString (nd_area n)), (''tag'', json_text (nd_tag n)),
           (''bandwidth_quality'', JString (nd_bandwidth_quality n))])"

definition business_create_node ::
  "(string \<Rightarrow> string \<Rightarrow> bool) \<Rightarrow> mysql \<Rightarrow> mysql \<Rightarrow> mysql \<Rightarrow> (operations \<Rightarrow> operations) \<Rightarrow> (log_table \<Rightarrow> log_table) \<Rightarrow>
   string option \<Rightarrow> headers \<Rightarrow> admin_create_node_request \<Rightarrow> database \<Rightarrow> operations \<Rightarrow> log_table \<Rightarrow>
   (app_error, admin_node_row) result \<times> operations \<times> log_table"
where
  "business_create_node same my my1 my' meanwhile later sync_token hs r seen s t =
     gated (require_business_sync sync_token hs) s t (\<lambda>_.
     logged my' later (context_of ''nodes'' ''business.node.create'' ''business_api'') created_node_detail
       (changed_node my1 meanwhile ''created node does not exist''
          (node_audit ''business_api'' None ''node.business_create'' (JObject (node_request_fields r)))
          (insert_admin_node same my r seen (op_db s)) s) t)"

definition admin_business_api_create_node ::
  "(string \<Rightarrow> string \<Rightarrow> bool) \<Rightarrow> mysql \<Rightarrow> mysql \<Rightarrow> mysql \<Rightarrow> (operations \<Rightarrow> operations) \<Rightarrow> (log_table \<Rightarrow> log_table) \<Rightarrow>
   (app_error, admin_actor) result \<Rightarrow> admin_create_node_request \<Rightarrow> database \<Rightarrow> operations \<Rightarrow> log_table \<Rightarrow>
   (app_error, admin_node_row) result \<times> operations \<times> log_table"
where
  "admin_business_api_create_node same my my1 my' meanwhile later admin r seen s t =
     gated admin s t (\<lambda>actor.
     logged my' later (context_of ''nodes'' ''admin.business.node.create'' ''admin_debug'')
       (\<lambda>node. JObject [(''request'', JObject (node_request_fields r)),
          (''node_id'', json_u64 (nd_id (ar_node node))), (''endpoint'', JString (node_endpoint (ar_node node))),
          (''status'', JString (nd_status (ar_node node)))])
       (changed_node my1 meanwhile ''created node does not exist''
          (node_audit ''admin_api'' (aa_id actor) ''node.business_debug_create'' (JObject (node_request_fields r)))
          (insert_admin_node same my r seen (op_db s)) s) t)"

definition updated_node_detail :: "u64 \<Rightarrow> admin_create_node_request \<Rightarrow> json" where
  "updated_node_detail node_id r = JObject ((''node_id'', json_u64 node_id) # node_request_fields r)"

definition business_update_node ::
  "(string \<Rightarrow> string \<Rightarrow> bool) \<Rightarrow> mysql \<Rightarrow> mysql \<Rightarrow> mysql \<Rightarrow> (operations \<Rightarrow> operations) \<Rightarrow> (log_table \<Rightarrow> log_table) \<Rightarrow>
   string option \<Rightarrow> headers \<Rightarrow> u64 \<Rightarrow> admin_create_node_request \<Rightarrow> database \<Rightarrow> operations \<Rightarrow> log_table \<Rightarrow>
   (app_error, admin_node_row) result \<times> operations \<times> log_table"
where
  "business_update_node same my my1 my' meanwhile later sync_token hs node_id r seen s t =
     gated (require_business_sync sync_token hs) s t (\<lambda>_.
     logged my' later (context_of ''nodes'' ''business.node.update'' ''business_api'')
       (\<lambda>_. updated_node_detail node_id r)
       (changed_node my1 meanwhile ''updated node does not exist''
          (node_audit ''business_api'' None ''node.business_update'' (updated_node_detail node_id r))
          (bind_result (update_admin_node_config same my node_id r seen (op_db s)) (\<lambda>db. Inr (node_id, db))) s) t)"

definition admin_business_api_update_node ::
  "(string \<Rightarrow> string \<Rightarrow> bool) \<Rightarrow> mysql \<Rightarrow> mysql \<Rightarrow> mysql \<Rightarrow> (operations \<Rightarrow> operations) \<Rightarrow> (log_table \<Rightarrow> log_table) \<Rightarrow>
   (app_error, admin_actor) result \<Rightarrow> u64 \<Rightarrow> admin_create_node_request \<Rightarrow> database \<Rightarrow> operations \<Rightarrow> log_table \<Rightarrow>
   (app_error, admin_node_row) result \<times> operations \<times> log_table"
where
  "admin_business_api_update_node same my my1 my' meanwhile later admin node_id r seen s t =
     gated admin s t (\<lambda>actor.
     logged my' later (context_of ''nodes'' ''admin.business.node.update'' ''admin_debug'')
       (\<lambda>_. updated_node_detail node_id r)
       (changed_node my1 meanwhile ''updated node does not exist''
          (node_audit ''admin_api'' (aa_id actor) ''node.business_debug_update'' (updated_node_detail node_id r))
          (bind_result (update_admin_node_config same my node_id r seen (op_db s)) (\<lambda>db. Inr (node_id, db))) s) t)"

text \<open>
  The deletion of a node, with the credentials, operation tasks and route rules that the foreign keys
  delete; its intents and health alerts, in tables of other theories, go the same way.
\<close>

definition delete_node_cascade ::
  "mysql \<Rightarrow> u64 \<Rightarrow> operations \<times> catalogue \<Rightarrow> (app_error, bool) result \<times> operations \<times> catalogue"
where
  "delete_node_cascade my node_id x =
     (case delete_admin_node my node_id (op_db (fst x)) of
        Inl e \<Rightarrow> (Inl e, x)
      | Inr (deleted, db) \<Rightarrow>
          (Inr deleted,
           (fst x)\<lparr>op_db := db, op_credentials := filter (\<lambda>c. sc_node_id c \<noteq> node_id) (op_credentials (fst x)),
             op_tasks := filter (\<lambda>q. ot_node_id q \<noteq> node_id) (op_tasks (fst x))\<rparr>,
           (snd x)\<lparr>cg_rules := filter (\<lambda>r. ru_node_id (rl_rule r) \<noteq> node_id) (cg_rules (snd x))\<rparr>))"

text \<open>The dashboard's own deletion of a node, which \<open>admin_delete_node\<close> models on the tables of nodes.\<close>

definition admin_delete_node_cascade ::
  "mysql \<Rightarrow> (app_error, admin_actor) result \<Rightarrow> u64 \<Rightarrow> operations \<times> catalogue \<Rightarrow>
   (app_error, bool) result \<times> operations \<times> catalogue"
where
  "admin_delete_node_cascade my admin node_id x =
     (case admin of Inl e \<Rightarrow> (Inl e, x) | Inr _ \<Rightarrow> delete_node_cascade my node_id x)"

definition deleted_node_detail :: "u64 \<Rightarrow> bool \<Rightarrow> json" where
  "deleted_node_detail node_id deleted = JObject [(''node_id'', json_u64 node_id), (''deleted'', JBool deleted)]"

definition business_delete_node ::
  "mysql \<Rightarrow> mysql \<Rightarrow> (log_table \<Rightarrow> log_table) \<Rightarrow> string option \<Rightarrow> headers \<Rightarrow> u64 \<Rightarrow> operations \<times> catalogue \<Rightarrow> log_table \<Rightarrow>
   (app_error, bool) result \<times> (operations \<times> catalogue) \<times> log_table"
where
  "business_delete_node my my' later sync_token hs node_id x t =
     gated (require_business_sync sync_token hs) x t (\<lambda>_.
     logged my' later (context_of ''nodes'' ''business.node.delete'' ''business_api'') (deleted_node_detail node_id)
       (delete_node_cascade my node_id x) t)"

definition admin_business_api_delete_node ::
  "mysql \<Rightarrow> mysql \<Rightarrow> (log_table \<Rightarrow> log_table) \<Rightarrow> (app_error, admin_actor) result \<Rightarrow> u64 \<Rightarrow> operations \<times> catalogue \<Rightarrow>
   log_table \<Rightarrow> (app_error, bool) result \<times> (operations \<times> catalogue) \<times> log_table"
where
  "admin_business_api_delete_node my my' later admin node_id x t =
     gated admin x t (\<lambda>_.
     logged my' later (context_of ''nodes'' ''admin.business.node.delete'' ''admin_debug'') (deleted_node_detail node_id)
       (delete_node_cascade my node_id x) t)"

section \<open>Status\<close>

record business_status_response =
  by_api_enabled :: bool
  by_client_auth_required :: bool
  by_nodes_total :: nat
  by_nodes_online :: nat
  by_games_enabled :: nat
  by_routes_enabled :: nat

definition build_business_status_response ::
  "mysql \<Rightarrow> (app_error, string option) result \<Rightarrow> string option \<Rightarrow> database \<Rightarrow> catalogue \<Rightarrow>
   (app_error, business_status_response) result"
where
  "build_business_status_response my sync_token client_api_token db cat =
     bind_result (stmt my 0 (length (dt_nodes db))) (\<lambda>nodes_total.
     bind_result (stmt my 1 (length (filter (\<lambda>n. nd_status n = ''online'') (dt_nodes db)))) (\<lambda>nodes_online.
     bind_result (stmt my 2 (length (filter (\<lambda>g. gm_status g = ''enabled'') (cg_games cat)))) (\<lambda>games_enabled.
     bind_result (stmt my 3 (length (filter (\<lambda>r. ru_status (rl_rule r) = ''enabled'') (cg_rules cat))))
       (\<lambda>routes_enabled.
     bind_result sync_token (\<lambda>token.
     Inr \<lparr>by_api_enabled = (token \<noteq> None), by_client_auth_required = (client_api_token \<noteq> None),
          by_nodes_total = nodes_total, by_nodes_online = nodes_online, by_games_enabled = games_enabled,
          by_routes_enabled = routes_enabled\<rparr>)))))"

definition status_detail :: "business_status_response \<Rightarrow> json" where
  "status_detail r =
     JObject [(''nodes_total'', json_number (by_nodes_total r)), (''nodes_online'', json_number (by_nodes_online r)),
       (''games_enabled'', json_number (by_games_enabled r)),
       (''routes_enabled'', json_number (by_routes_enabled r))]"

text \<open>\<open>token\<close> is what reading the token gives when the request is checked, \<open>token'\<close> when it is answered.\<close>

definition business_status ::
  "mysql \<Rightarrow> mysql \<Rightarrow> (log_table \<Rightarrow> log_table) \<Rightarrow> string option \<Rightarrow> headers \<Rightarrow> (app_error, string option) result \<Rightarrow>
   string option \<Rightarrow> database \<Rightarrow> catalogue \<Rightarrow> log_table \<Rightarrow>
   (app_error, business_status_response) result \<times> unit \<times> log_table"
where
  "business_status my my' later sync_token hs token' client_api_token db cat t =
     gated (require_business_sync sync_token hs) () t (\<lambda>_.
     logged my' later (context_of ''status'' ''business.status'' ''business_api'') status_detail
       (build_business_status_response my token' client_api_token db cat, ()) t)"

definition admin_business_api_status ::
  "mysql \<Rightarrow> mysql \<Rightarrow> (log_table \<Rightarrow> log_table) \<Rightarrow> (app_error, admin_actor) result \<Rightarrow> (app_error, string option) result \<Rightarrow>
   string option \<Rightarrow> database \<Rightarrow> catalogue \<Rightarrow> log_table \<Rightarrow>
   (app_error, business_status_response) result \<times> unit \<times> log_table"
where
  "admin_business_api_status my my' later admin token' client_api_token db cat t =
     gated admin () t (\<lambda>_.
     logged my' later (context_of ''status'' ''admin.business.status'' ''admin_debug'') status_detail
       (build_business_status_response my token' client_api_token db cat, ()) t)"

section \<open>The catalogue\<close>

definition snapshot_detail :: "catalog_snapshot_query \<Rightarrow> catalog_snapshot \<Rightarrow> json" where
  "snapshot_detail q s =
     JObject [(''node_id'', case kq_node_id q of None \<Rightarrow> JNull | Some n \<Rightarrow> json_u64 n),
       (''status_filter'', json_text (kq_status q)),
       (''limit'', json_number (unat (clamp_limit (kq_limit q) 200 500))),
       (''total_games'', json_number (length (ks_games s))), (''total_regions'', json_number (length (ks_regions s))),
       (''total_route_rules'', json_number (length (ks_rules s)))]"

text \<open>A failure is logged without the game the query names.\<close>

definition get_catalog ::
  "mysql \<Rightarrow> mysql \<Rightarrow> (log_table \<Rightarrow> log_table) \<Rightarrow> log_context \<Rightarrow> catalog_snapshot_query \<Rightarrow> (nat \<Rightarrow> catalogue) \<Rightarrow> database \<Rightarrow>
   log_table \<Rightarrow> (app_error, catalog_snapshot) result \<times> unit \<times> log_table"
where
  "get_catalog my my' later x query cats db t =
     (case normalize_business_catalog_snapshot_query query of
        Inl e \<Rightarrow> (Inl e, (), record_business_api_failure my' 0 x e (later t))
      | Inr q \<Rightarrow>
          (case select_catalog_snapshot my cats db q of
             Inl e \<Rightarrow> (Inl e, (), record_business_api_failure my' 0 x e (later t))
           | Inr s \<Rightarrow>
               (Inr s, (), record_business_api_log my' 0
                  (success_log (x\<lparr>lx_game_id := kq_game_id q\<rparr>) (snapshot_detail q s)) (later t))))"

definition business_get_catalog ::
  "mysql \<Rightarrow> mysql \<Rightarrow> (log_table \<Rightarrow> log_table) \<Rightarrow> string option \<Rightarrow> headers \<Rightarrow> catalog_snapshot_query \<Rightarrow>
   (nat \<Rightarrow> catalogue) \<Rightarrow> database \<Rightarrow> log_table \<Rightarrow> (app_error, catalog_snapshot) result \<times> unit \<times> log_table"
where
  "business_get_catalog my my' later sync_token hs query cats db t =
     gated (require_business_sync sync_token hs) () t (\<lambda>_.
     get_catalog my my' later (context_of ''sync-catalog'' ''business.catalog.get'' ''business_api'') query cats db t)"

definition admin_business_api_get_catalog ::
  "mysql \<Rightarrow> mysql \<Rightarrow> (log_table \<Rightarrow> log_table) \<Rightarrow> (app_error, admin_actor) result \<Rightarrow> catalog_snapshot_query \<Rightarrow>
   (nat \<Rightarrow> catalogue) \<Rightarrow> database \<Rightarrow> log_table \<Rightarrow> (app_error, catalog_snapshot) result \<times> unit \<times> log_table"
where
  "admin_business_api_get_catalog my my' later admin query cats db t =
     gated admin () t (\<lambda>_.
     get_catalog my my' later (context_of ''sync-catalog'' ''admin.business.catalog.get'' ''admin_debug'') query cats
       db t)"

text \<open>
  A synchronisation: the source of the log row is the fixed one until the request is normal, and then
  \<open>source c\<close>, with the revision as the id of the request.
\<close>

definition sync_counts :: "business_sync_catalog \<Rightarrow> (string \<times> json) list" where
  "sync_counts c =
     [(''games_upserted'', json_number (length (sc_games c))),
      (''categories_upserted'', json_number (sum_list (map (\<lambda>g. length (ng_categories g)) (sc_games c)))),
      (''regions_upserted'', json_number (length (sc_regions c))),
      (''route_rules_upserted'', json_number (length (sc_route_rules c)))]"

definition sync_catalog_logged ::
  "crypto \<Rightarrow> collation \<Rightarrow> mysql \<Rightarrow> mysql \<Rightarrow> (log_table \<Rightarrow> log_table) \<Rightarrow> log_context \<Rightarrow>
   (business_sync_catalog \<Rightarrow> string) \<Rightarrow> (business_sync_catalog \<Rightarrow> json) \<Rightarrow> business_sync_catalog_request \<Rightarrow>
   database \<Rightarrow> catalogue \<Rightarrow> log_table \<Rightarrow> (app_error, business_sync_catalog) result \<times> catalogue \<times> log_table"
where
  "sync_catalog_logged cx same my my' later x source detail request db cat t =
     (case normalize_business_sync_catalog cx request of
        Inl e \<Rightarrow> (Inl e, cat, record_business_api_failure my' 0 x e (later t))
      | Inr c \<Rightarrow>
          logged my' later (x\<lparr>lx_source := source c, lx_request_id := sc_revision c\<rparr>) (\<lambda>_. detail c)
            (case sync_business_catalog same my db c cat of
               Inl e \<Rightarrow> (Inl e, cat)
             | Inr cat' \<Rightarrow> (Inr c, cat')) t)"

definition business_sync_catalog_logged ::
  "crypto \<Rightarrow> collation \<Rightarrow> mysql \<Rightarrow> mysql \<Rightarrow> (log_table \<Rightarrow> log_table) \<Rightarrow> string option \<Rightarrow> headers \<Rightarrow>
   business_sync_catalog_request \<Rightarrow> database \<Rightarrow> catalogue \<Rightarrow> log_table \<Rightarrow>
   (app_error, business_sync_catalog) result \<times> catalogue \<times> log_table"
where
  "business_sync_catalog_logged cx same my my' later sync_token hs request db cat t =
     gated (require_business_sync sync_token hs) cat t (\<lambda>_.
     sync_catalog_logged cx same my my' later (context_of ''sync-catalog'' ''business.sync_catalog'' ''business_api'')
       sc_source (\<lambda>c. JObject (sync_counts c @ [(''revision'', json_text (sc_revision c))])) request db cat t)"

definition admin_business_api_sync_catalog ::
  "crypto \<Rightarrow> collation \<Rightarrow> mysql \<Rightarrow> mysql \<Rightarrow> (log_table \<Rightarrow> log_table) \<Rightarrow> (app_error, admin_actor) result \<Rightarrow>
   business_sync_catalog_request \<Rightarrow> database \<Rightarrow> catalogue \<Rightarrow> log_table \<Rightarrow>
   (app_error, business_sync_catalog) result \<times> catalogue \<times> log_table"
where
  "admin_business_api_sync_catalog cx same my my' later admin request db cat t =
     gated admin cat t (\<lambda>_.
     sync_catalog_logged cx same my my' later
       (context_of ''sync-catalog'' ''admin.business.sync_catalog'' ''admin_debug'') (\<lambda>_. ''admin_debug'')
       (\<lambda>c. JObject ([(''source'', JString (sc_source c)), (''revision'', json_text (sc_revision c))] @ sync_counts c))
       request db cat t)"

definition delete_request_detail :: "normalized_business_delete_catalog \<Rightarrow> json" where
  "delete_request_detail q =
     JObject [(''game_ids'', JArray (map json_u64 (nc_game_ids q))),
       (''regions'', JArray (map (\<lambda>g. JObject [(''game_id'', json_u64 (fst g)), (''region_id'', json_u64 (snd g))])
          (nc_regions q))),
       (''route_rule_ids'', JArray (map json_u64 (nc_route_rule_ids q))),
       (''route_external_ids'', JArray (map JString (nc_route_external_ids q))),
       (''source'', json_text (nc_source q))]"

definition delete_catalog_logged ::
  "collation \<Rightarrow> mysql \<Rightarrow> mysql \<Rightarrow> (log_table \<Rightarrow> log_table) \<Rightarrow> log_context \<Rightarrow>
   (normalized_business_delete_catalog \<Rightarrow> string) \<Rightarrow> business_delete_catalog_request \<Rightarrow> catalogue \<Rightarrow> log_table \<Rightarrow>
   (app_error, deleted_counts) result \<times> catalogue \<times> log_table"
where
  "delete_catalog_logged same my my' later x source request cat t =
     (case normalize_business_delete_catalog request of
        Inl e \<Rightarrow> (Inl e, cat, record_business_api_failure my' 0 x e (later t))
      | Inr q \<Rightarrow>
          logged my' later (x\<lparr>lx_source := source q\<rparr>)
            (\<lambda>n. JObject [(''request'', delete_request_detail q), (''games_deleted'', json_number (de_games n)),
               (''regions_deleted'', json_number (de_regions n)), (''route_rules_deleted'', json_number (de_rules n))])
            (case delete_business_catalog same my q cat of
               Inl e \<Rightarrow> (Inl e, cat)
             | Inr (n, cat') \<Rightarrow> (Inr n, cat')) t)"

definition business_delete_catalog_logged ::
  "collation \<Rightarrow> mysql \<Rightarrow> mysql \<Rightarrow> (log_table \<Rightarrow> log_table) \<Rightarrow> string option \<Rightarrow> headers \<Rightarrow>
   business_delete_catalog_request \<Rightarrow> catalogue \<Rightarrow> log_table \<Rightarrow>
   (app_error, deleted_counts) result \<times> catalogue \<times> log_table"
where
  "business_delete_catalog_logged same my my' later sync_token hs request cat t =
     gated (require_business_sync sync_token hs) cat t (\<lambda>_.
     delete_catalog_logged same my my' later (context_of ''sync-catalog'' ''business.catalog.delete'' ''business_api'')
       (\<lambda>q. unwrap_or ''business_api'' (nc_source q)) request cat t)"

definition admin_business_api_delete_catalog ::
  "collation \<Rightarrow> mysql \<Rightarrow> mysql \<Rightarrow> (log_table \<Rightarrow> log_table) \<Rightarrow> (app_error, admin_actor) result \<Rightarrow>
   business_delete_catalog_request \<Rightarrow> catalogue \<Rightarrow> log_table \<Rightarrow>
   (app_error, deleted_counts) result \<times> catalogue \<times> log_table"
where
  "admin_business_api_delete_catalog same my my' later admin request cat t =
     gated admin cat t (\<lambda>_.
     delete_catalog_logged same my my' later
       (context_of ''sync-catalog'' ''admin.business.catalog.delete'' ''admin_debug'') (\<lambda>_. ''admin_debug'')
       request cat t)"

section \<open>Tickets\<close>

definition optional_field :: "string \<Rightarrow> ('a \<Rightarrow> json) \<Rightarrow> 'a option \<Rightarrow> (string \<times> json) list" where
  "optional_field name f x = (case x of None \<Rightarrow> [] | Some v \<Rightarrow> [(name, f v)])"

definition auth_context_json :: "business_auth_context \<Rightarrow> json" where
  "auth_context_json c = JObject
     (optional_field ''entitlement_id'' JString (ba_entitlement_id c) @
      optional_field ''order_id'' JString (ba_order_id c) @
      optional_field ''subscription_id'' JString (ba_subscription_id c) @
      optional_field ''business_session_id'' JString (ba_business_session_id c) @
      [(''entitlement_verified'', JBool (ba_entitlement_verified c)),
       (''device_verified'', JBool (ba_device_verified c))] @
      optional_field ''entitlement_expires_at'' json_u64 (ba_entitlement_expires_at c) @
      optional_field ''risk_level'' JString (ba_risk_level c) @
      optional_field ''business_trace_id'' JString (ba_business_trace_id c))"

definition ticket_context :: "string \<Rightarrow> string \<Rightarrow> business_connect_intent_request \<Rightarrow> log_context" where
  "ticket_context action source r =
     \<lparr>lx_endpoint = ''connect-intent'', lx_action = action, lx_source = source, lx_request_id = bi_request_id r,
      lx_user_id = Some (bi_user_id r), lx_game_id = Some (bi_game_id r), lx_region_id = bi_region_id r\<rparr>"

definition issued_detail :: "business_connect_intent_request \<Rightarrow> connect_intent_response \<Rightarrow> json" where
  "issued_detail r i =
     JObject [(''auth_context'', auth_context_json (auth_context r)),
       (''client_version'', json_text (bi_client_version r)), (''issue_mode'', JString (ir_issue_mode i)),
       (''target_addr'', case first_of (ir_candidates i) of None \<Rightarrow> JNull
          | Some c \<Rightarrow> JString (ar_target_addr (cn_route c))),
       (''candidate_count'', json_number (length (ir_candidates i))),
       (''candidate_node_ids'', JArray (map (\<lambda>c. json_u64 (cn_node_id c)) (ir_candidates i)))]"

text \<open>
  The two exits the code leaves by \<open>?\<close>, a route that cannot be read and an answer without a
  candidate, write no log row.
\<close>

definition issue_ticket_logged ::
  "crypto \<Rightarrow> (route_policy \<Rightarrow> (string, bytes) result) \<Rightarrow> (api_token_claims \<Rightarrow> (string, bytes) result) \<Rightarrow>
   mysql \<Rightarrow> (log_table \<Rightarrow> log_table) \<Rightarrow> log_context \<Rightarrow> 'i intent_database \<Rightarrow> 'i \<Rightarrow> u64 \<Rightarrow> u64 \<Rightarrow> u64 \<Rightarrow>
   business_connect_intent_request \<Rightarrow> log_table \<Rightarrow> (app_error, accel_ticket) result \<times> 'i \<times> log_table"
where
  "issue_ticket_logged cx policy_json to_json my' later x db store checked_at now ttl_sec r t =
     (case validate_business_connect_intent_request cx policy_json checked_at r of
        Inl e \<Rightarrow> (Inl e, store, record_business_api_failure my' 0 x e (later t))
      | Inr _ \<Rightarrow>
     (case per_session_route cx policy_json r of
        Inl e \<Rightarrow> (Inl e, store, t)
      | Inr route_opt \<Rightarrow>
     let (issued, store') =
       (case route_opt of
          Some route \<Rightarrow> issue_per_session_connect_intent cx to_json db store now ttl_sec
              (to_connect_intent_request r) (Some (auth_context r)) route
        | None \<Rightarrow> issue_connect_intent cx to_json db store now ttl_sec
              (to_connect_intent_request r) (Some (auth_context r)))
     in (case issued of
           Inl e \<Rightarrow> (Inl e, store', record_business_api_failure my' 0 x e (later t))
         | Inr response \<Rightarrow>
     (case ticket_from_connect_intent response (to_connect_intent_request r) (auth_context r) of
        Inl e \<Rightarrow> (Inl e, store', t)
      | Inr ticket \<Rightarrow>
          (Inr ticket, store',
           record_business_api_log my' 0 (success_log x (issued_detail r response)) (later t))))))"

definition business_connect_intent_logged ::
  "crypto \<Rightarrow> (route_policy \<Rightarrow> (string, bytes) result) \<Rightarrow> (api_token_claims \<Rightarrow> (string, bytes) result) \<Rightarrow>
   mysql \<Rightarrow> (log_table \<Rightarrow> log_table) \<Rightarrow> 'i intent_database \<Rightarrow> 'i \<Rightarrow> string option \<Rightarrow> u64 \<Rightarrow> u64 \<Rightarrow> u64 \<Rightarrow> headers \<Rightarrow>
   business_connect_intent_request \<Rightarrow> log_table \<Rightarrow> (app_error, accel_ticket) result \<times> 'i \<times> log_table"
where
  "business_connect_intent_logged cx policy_json to_json my' later db store sync_token checked_at now ttl_sec hs r t =
     gated (require_business_sync sync_token hs) store t (\<lambda>_.
     issue_ticket_logged cx policy_json to_json my' later
       (ticket_context ''business.connect_intent'' ''business_api'' r) db store checked_at now ttl_sec r t)"

definition admin_connect_intent_logged ::
  "crypto \<Rightarrow> (route_policy \<Rightarrow> (string, bytes) result) \<Rightarrow> (api_token_claims \<Rightarrow> (string, bytes) result) \<Rightarrow>
   mysql \<Rightarrow> (log_table \<Rightarrow> log_table) \<Rightarrow> 'i intent_database \<Rightarrow> 'i \<Rightarrow> (app_error, admin_actor) result \<Rightarrow> u64 \<Rightarrow> u64 \<Rightarrow> u64 \<Rightarrow>
   business_connect_intent_request \<Rightarrow> log_table \<Rightarrow> (app_error, accel_ticket) result \<times> 'i \<times> log_table"
where
  "admin_connect_intent_logged cx policy_json to_json my' later db store admin checked_at now ttl_sec r t =
     gated admin store t (\<lambda>_.
     issue_ticket_logged cx policy_json to_json my' later
       (ticket_context ''admin.business.connect_intent'' ''admin_debug'' r) db store checked_at now ttl_sec r t)"

section \<open>Reading the logs\<close>

definition one_of_texts :: "string list \<Rightarrow> app_error \<Rightarrow> nat \<Rightarrow> string option \<Rightarrow> (app_error, string option) result" where
  "one_of_texts allowed e max_chars value =
     bind_result (normalize_optional_text value max_chars) (\<lambda>v.
     case v of None \<Rightarrow> Inr None | Some s \<Rightarrow> if List.member allowed s then Inr (Some s) else Inl e)"

definition normalize_business_log_endpoint_filter :: "string option \<Rightarrow> (app_error, string option) result" where
  "normalize_business_log_endpoint_filter value =
     one_of_texts [''status'', ''sync-catalog'', ''connect-intent'', ''nodes'']
       (bad_request ''invalid_business_log_endpoint''
          ''endpoint must be status, nodes, sync-catalog, or connect-intent'') 64 value"

definition normalize_business_log_status_filter :: "string option \<Rightarrow> (app_error, string option) result" where
  "normalize_business_log_status_filter value =
     one_of_texts [''succeeded'', ''failed'']
       (bad_request ''invalid_business_log_status'' ''status must be succeeded or failed'') 32 value"

definition select_business_api_logs ::
  "mysql \<Rightarrow> nat \<Rightarrow> log_table \<Rightarrow> string option \<Rightarrow> string option \<Rightarrow> u32 \<Rightarrow> (app_error, business_api_log_row list) result"
where
  "select_business_api_logs my i t endpoint status limit =
     stmt my i (take (unat limit) (rev (sort_key (\<lambda>l. unat (bl_id l)) (filter (\<lambda>l.
        \<not> is_some_and (\<lambda>e. nl_endpoint l \<noteq> e) endpoint \<and> \<not> is_some_and (\<lambda>s. nl_status l \<noteq> s) status) (lg_rows t)))))"

definition admin_list_business_api_logs ::
  "mysql \<Rightarrow> (app_error, unit) result \<Rightarrow> string option \<Rightarrow> string option \<Rightarrow> u32 option \<Rightarrow> log_table \<Rightarrow>
   (app_error, business_api_log_row list) result"
where
  "admin_list_business_api_logs my admin endpoint status limit t =
     bind_result admin (\<lambda>_.
     bind_result (normalize_business_log_endpoint_filter endpoint) (\<lambda>endpoint.
     bind_result (normalize_business_log_status_filter status) (\<lambda>status.
     select_business_api_logs my 0 t endpoint status (clamp_limit limit 100 500))))"

text \<open>The audit trail, newest first, with the nodes its rows belong to.\<close>

definition select_admin_audit_logs ::
  "collation \<Rightarrow> mysql \<Rightarrow> nat \<Rightarrow> database \<Rightarrow> u64 option \<Rightarrow> string option \<Rightarrow> u32 \<Rightarrow>
   (app_error, (audit_row \<times> node_row) list) result"
where
  "select_admin_audit_logs same my i db node_id action limit =
     stmt my i (take (unat limit) (List.map_filter (\<lambda>a.
        if is_some_and (\<lambda>n. al_node_id a \<noteq> n) node_id \<or> is_some_and (\<lambda>x. \<not> same (al_action a) x) action then None
        else map_option (Pair a) (find_node (al_node_id a) db)) (rev (dt_audit db))))"

definition admin_list_audit_logs ::
  "collation \<Rightarrow> mysql \<Rightarrow> (app_error, unit) result \<Rightarrow> u64 option \<Rightarrow> string option \<Rightarrow> u32 option \<Rightarrow> database \<Rightarrow>
   (app_error, (audit_row \<times> node_row) list) result"
where
  "admin_list_audit_logs same my admin node_id action limit db =
     bind_result admin (\<lambda>_.
     select_admin_audit_logs same my 0 db node_id (nonempty_text action) (clamp_limit limit 100 500))"

end
