(* ===== verification/Api_Catalog_Run.thy ===== *)
theory Api_Catalog_Run
  imports Api_Business
begin

text \<open>
  The runs of everything that writes the catalogue's tables: the endpoints of the business backend
  and of the dashboard, the deletion of a node with its rules, and what a start of the service
  seeds. A run is any sequence of them; between the two transactions of one request any run of
  others may take place.
\<close>

section \<open>What a start seeds\<close>

text \<open>\<open>INSERT IGNORE\<close>: a row whose key is taken is left out.\<close>

definition insert_ignore :: "('r \<Rightarrow> bool) \<Rightarrow> 'r \<Rightarrow> 'r list \<Rightarrow> 'r list" where
  "insert_ignore dup new rows = (if list_ex dup rows then rows else rows @ [new])"

text \<open>\<open>accel_game_categories\<close> from the category of each game.\<close>

definition seed_game_categories :: "collation \<Rightarrow> catalogue \<Rightarrow> catalogue" where
  "seed_game_categories same cat =
     fold (\<lambda>g cat. case gm_category g of
         None \<Rightarrow> cat
       | Some c \<Rightarrow>
           if same c [] then cat
           else cat\<lparr>cg_categories :=
             insert_ignore (\<lambda>d. gc_game_id d = gm_game_id g \<and> same (gc_category d) c)
               \<lparr>gc_game_id = gm_game_id g, gc_category = c, gc_sort_order = 0\<rparr> (cg_categories cat)\<rparr>)
       (cg_games cat) cat"

text \<open>
  \<open>accel_games\<close> from the games of the rules. \<open>max_text\<close> is MySQL's \<open>MAX\<close> of texts.
\<close>

definition seeded_game :: "collation \<Rightarrow> (string list \<Rightarrow> string) \<Rightarrow> route_rule_row list \<Rightarrow> u64 \<Rightarrow> game_row" where
  "seeded_game same max_text rules game_id =
     (let name = max_text (map (\<lambda>r. ru_game_name (rl_rule r))
            (filter (\<lambda>r. ru_game_id (rl_rule r) = game_id) rules))
      in \<lparr>gm_game_id = game_id,
          gm_name = (if same name [] then utf8 [0x6E38, 0x620F] @ '' '' @ show_u64 game_id else name),
          gm_platform = ''pc'', gm_category = None, gm_icon_url = None, gm_status = ''enabled'',
          gm_remark = None\<rparr>)"

definition seed_game_catalog_from_routes ::
  "collation \<Rightarrow> (string list \<Rightarrow> string) \<Rightarrow> catalogue \<Rightarrow> catalogue"
where
  "seed_game_catalog_from_routes same max_text cat =
     cat\<lparr>cg_games := fold (\<lambda>game_id. insert_ignore (\<lambda>g. gm_game_id g = game_id)
         (seeded_game same max_text (cg_rules cat) game_id))
       (remdups (map (\<lambda>r. ru_game_id (rl_rule r)) (cg_rules cat))) (cg_games cat)\<rparr>"

section \<open>Runs\<close>

record catalog_env =
  kx_crypto :: crypto
  kx_same :: collation
  kx_sync_token :: "string option"
  kx_max_text :: "string list \<Rightarrow> string"

text \<open>
  All of them, in any order and with any answers of MySQL and any log. \<open>later\<close> is what other
  requests do to the catalogue between the transactions of this one: any run, for any catalogue
  it starts from.
\<close>

inductive catalog_run :: "catalog_env \<Rightarrow> catalogue \<Rightarrow> catalogue \<Rightarrow> bool" for env where
  start: "catalog_run env cat cat"
| sync: "catalog_run env cat c1 \<Longrightarrow>
    business_sync_catalog_logged (kx_crypto env) (kx_same env) my my' logs (kx_sync_token env) hs request db c1 t
      = (a, c2, t') \<Longrightarrow> catalog_run env cat c2"
| debug_sync: "catalog_run env cat c1 \<Longrightarrow>
    admin_business_api_sync_catalog (kx_crypto env) (kx_same env) my my' logs admin request db c1 t
      = (a, c2, t') \<Longrightarrow> catalog_run env cat c2"
| delete: "catalog_run env cat c1 \<Longrightarrow>
    business_delete_catalog_logged (kx_same env) my my' logs (kx_sync_token env) hs q c1 t = (n, c2, t') \<Longrightarrow>
    catalog_run env cat c2"
| debug_delete: "catalog_run env cat c1 \<Longrightarrow>
    admin_business_api_delete_catalog (kx_same env) my my' logs admin q c1 t = (n, c2, t') \<Longrightarrow>
    catalog_run env cat c2"
| create_game: "catalog_run env cat c1 \<Longrightarrow> (\<And>c. catalog_run env c (later c)) \<Longrightarrow>
    admin_create_game (kx_same env) my my' admin g later c1 = (x, c2) \<Longrightarrow> catalog_run env cat c2"
| update_game: "catalog_run env cat c1 \<Longrightarrow> (\<And>c. catalog_run env c (later c)) \<Longrightarrow>
    admin_update_game (kx_same env) my my' admin game_id g later c1 = (x, c2) \<Longrightarrow> catalog_run env cat c2"
| delete_game: "catalog_run env cat c1 \<Longrightarrow> (\<And>c. catalog_run env c (later c)) \<Longrightarrow>
    admin_delete_game my admin game_id later c1 = (b, c2) \<Longrightarrow> catalog_run env cat c2"
| create_rule: "catalog_run env cat c1 \<Longrightarrow> (\<And>c. catalog_run env c (later c)) \<Longrightarrow>
    admin_create_route_rule my my' admin r seen db later c1 = (y, c2) \<Longrightarrow> catalog_run env cat c2"
| update_rule: "catalog_run env cat c1 \<Longrightarrow> (\<And>c. catalog_run env c (later c)) \<Longrightarrow>
    admin_update_route_rule my my' admin rule_id r seen db later c1 = (y, c2) \<Longrightarrow> catalog_run env cat c2"
| delete_rule: "catalog_run env cat c1 \<Longrightarrow>
    admin_delete_route_rule my admin rule_id c1 = (b, c2) \<Longrightarrow> catalog_run env cat c2"
| business_delete_node: "catalog_run env cat c1 \<Longrightarrow>
    business_delete_node my my' logs (kx_sync_token env) hs node_id (ops, c1) t = (b, (ops', c2), t') \<Longrightarrow>
    catalog_run env cat c2"
| debug_delete_node: "catalog_run env cat c1 \<Longrightarrow>
    admin_business_api_delete_node my my' logs admin node_id (ops, c1) t = (b, (ops', c2), t') \<Longrightarrow>
    catalog_run env cat c2"
| delete_node: "catalog_run env cat c1 \<Longrightarrow>
    admin_delete_node_cascade my admin node_id (ops, c1) = (b, ops', c2) \<Longrightarrow> catalog_run env cat c2"
| seed_categories: "catalog_run env cat c1 \<Longrightarrow> catalog_run env cat (seed_game_categories (kx_same env) c1)"
| seed_games: "catalog_run env cat c1 \<Longrightarrow>
    catalog_run env cat (seed_game_catalog_from_routes (kx_same env) (kx_max_text env) c1)"

section \<open>Every step keeps the tables well-formed\<close>

lemma seed_game_categories_ok:
  assumes same: "equivp same" and "catalogue_ok same cat"
  shows "catalogue_ok same (seed_game_categories same cat)"
proof -
  let ?f = "\<lambda>g cat. case gm_category g of
         None \<Rightarrow> cat
       | Some c \<Rightarrow>
           if same c [] then cat
           else cat\<lparr>cg_categories :=
             insert_ignore (\<lambda>d. gc_game_id d = gm_game_id g \<and> same (gc_category d) c)
               \<lparr>gc_game_id = gm_game_id g, gc_category = c, gc_sort_order = 0\<rparr> (cg_categories cat)\<rparr>"
  have step: "catalogue_ok same (?f g cat)" if "catalogue_ok same cat" for g cat
    using that
    by (cases "gm_category g")
      (auto simp: catalogue_ok_def insert_ignore_def distinct_rows_def sorted_wrt_append category_clash_def list_ex_iff)
  have "catalogue_ok same (fold ?f gs cat)" if "catalogue_ok same cat" for gs cat
    using that by (induction gs arbitrary: cat) (simp_all only: fold_simps step)
  then show ?thesis unfolding seed_game_categories_def using assms(2) by blast
qed

lemma seed_games_ok:
  assumes "catalogue_ok same cat"
  shows "catalogue_ok same (seed_game_catalog_from_routes same max_text cat)"
proof -
  let ?row_ok = "\<lambda>g. gm_game_id g \<noteq> 0 \<and> (gm_status g = ''enabled'' \<or> gm_status g = ''disabled'')"
  let ?f = "\<lambda>game_id. insert_ignore (\<lambda>g. gm_game_id g = game_id) (seeded_game same max_text (cg_rules cat) game_id)"
  have seeds: "distinct (map gm_game_id (fold ?f ids games)) \<and> (\<forall>g \<in> set (fold ?f ids games). ?row_ok g)"
    if "\<forall>i \<in> set ids. i \<noteq> 0" "distinct (map gm_game_id games)" "\<forall>g \<in> set games. ?row_ok g" for ids games
    using that
  proof (induction ids arbitrary: games)
    case (Cons i ids)
    have "distinct (map gm_game_id (?f i games)) \<and> (\<forall>g \<in> set (?f i games). ?row_ok g)"
      using Cons.prems by (auto simp: insert_ignore_def seeded_game_def Let_def list_ex_iff)
    then show ?case using Cons.IH [of "?f i games"] Cons.prems(1) by simp
  qed simp
  have ids: "\<forall>i \<in> set (remdups (map (\<lambda>r. ru_game_id (rl_rule r)) (cg_rules cat))). i \<noteq> 0"
    using assms by (auto simp: catalogue_ok_def rule_normal_def)
  have "distinct (map gm_game_id (cg_games cat))" "\<forall>g \<in> set (cg_games cat). ?row_ok g"
    using assms unfolding catalogue_ok_def by blast+
  from seeds [OF ids this] have "distinct (map gm_game_id (cg_games (seed_game_catalog_from_routes same max_text cat))) \<and>
      (\<forall>g \<in> set (cg_games (seed_game_catalog_from_routes same max_text cat)). ?row_ok g)"
    by (simp add: seed_game_catalog_from_routes_def)
  then show ?thesis using assms by (simp add: seed_game_catalog_from_routes_def catalogue_ok_def)
qed

lemma sync_catalog_logged_cases:
  assumes "sync_catalog_logged cx same my my' logs x source detail request db cat t = (a, cat', t')"
  shows "cat' = cat \<or> (\<exists>c. normalize_business_sync_catalog cx request = Inr c \<and>
    sync_business_catalog same my db c cat = Inr cat')"
  using assms by (auto simp: sync_catalog_logged_def logged_def split: sum.splits)

lemma delete_catalog_logged_cases:
  assumes "delete_catalog_logged same my my' logs x source request cat t = (a, cat', t')"
  shows "cat' = cat \<or> (\<exists>q n. delete_business_catalog same my q cat = Inr (n, cat'))"
  using assms by (auto simp: delete_catalog_logged_def logged_def split: sum.splits prod.splits)

lemma delete_node_cascade_rules:
  "snd (delete_node_cascade my node_id (ops, cat)) = (ops', cat') \<Longrightarrow>
   cat' = cat \<or> cat' = cat\<lparr>cg_rules := filter (\<lambda>r. ru_node_id (rl_rule r) \<noteq> node_id) (cg_rules cat)\<rparr>"
  by (auto simp: delete_node_cascade_def split: sum.splits prod.splits)

lemma sync_catalog_logged_ok:
  "equivp same \<Longrightarrow> sync_catalog_logged cx same my my' logs x source detail request db cat t = (a, cat', t') \<Longrightarrow>
   catalogue_ok same cat \<Longrightarrow> catalogue_ok same cat'"
  using sync_catalog_logged_cases sync_business_catalog_ok normalize_business_sync_catalog_normal by metis

lemma delete_catalog_logged_ok:
  "equivp same \<Longrightarrow> delete_catalog_logged same my my' logs x source request cat t = (a, cat', t') \<Longrightarrow>
   catalogue_ok same cat \<Longrightarrow> catalogue_ok same cat'"
  using delete_catalog_logged_cases delete_business_catalog_ok by metis

lemma delete_node_cascade_ok:
  assumes "equivp same" "snd (delete_node_cascade my node_id (ops, cat)) = (ops', cat')" "catalogue_ok same cat"
  shows "catalogue_ok same cat'"
  using delete_node_cascade_rules [OF assms(2)] assms(3)
  by (auto simp: catalogue_ok_rows [OF assms(1)] unique_rows_filter rows_ok_filter)

lemma catalog_run_ok:
  assumes "catalog_run env cat cat'" and same: "equivp (kx_same env)" and "catalogue_ok (kx_same env) cat"
  shows "catalogue_ok (kx_same env) cat'"
  using assms(1,3)
proof induction
  case (sync cat c1 my my' logs hs request db t a c2 t')
  then show ?case
    using sync_catalog_logged_ok [OF same]
    by (auto simp: business_sync_catalog_logged_def gated_def split: sum.splits)
next
  case (debug_sync cat c1 my my' logs admin request db t a c2 t')
  then show ?case
    using sync_catalog_logged_ok [OF same]
    by (auto simp: admin_business_api_sync_catalog_def gated_def split: sum.splits)
next
  case (delete cat c1 my my' logs hs q t n c2 t')
  then show ?case
    using delete_catalog_logged_ok [OF same]
    by (auto simp: business_delete_catalog_logged_def gated_def split: sum.splits)
next
  case (debug_delete cat c1 my my' logs admin q t n c2 t')
  then show ?case
    using delete_catalog_logged_ok [OF same]
    by (auto simp: admin_business_api_delete_catalog_def gated_def split: sum.splits)
next
  case (business_delete_node cat c1 my my' logs hs node_id ops t b ops' c2 t')
  then show ?case
    using delete_node_cascade_ok [OF same]
    by (auto simp: business_delete_node_def gated_def logged_def split: sum.splits)
next
  case (debug_delete_node cat c1 my my' logs admin node_id ops t b ops' c2 t')
  then show ?case
    using delete_node_cascade_ok [OF same]
    by (auto simp: admin_business_api_delete_node_def gated_def logged_def split: sum.splits)
next
  case (delete_node cat c1 my admin node_id ops b ops' c2)
  then have "c2 = c1 \<or> snd (delete_node_cascade my node_id (ops, c1)) = (ops', c2)"
    by (auto simp: admin_delete_node_cascade_def split: sum.splits)
  then show ?case
    using delete_node_cascade_ok [OF same] delete_node by blast
next
  case (seed_categories cat c1)
  then show ?case using seed_game_categories_ok [OF same] by blast
next
  case (seed_games cat c1)
  then show ?case using seed_games_ok by blast
next
  case (create_game cat c1 later my my' admin g x c2)
  then show ?case
    using insert_admin_game_ok [OF same]
    by (auto simp: admin_create_game_def elim!: with_store_cases split: prod.splits)
next
  case (update_game cat c1 later my my' admin game_id g x c2)
  then have ok: "catalogue_ok (kx_same env) c1" by blast
  obtain u c where u: "update_admin_game (kx_same env) my game_id g later c1 = (u, c)"
    by (rule prod.exhaust)
  have "catalogue_ok (kx_same env) c"
    by (rule update_admin_game_ok [OF same u ok]) (use update_game.IH(2) in blast)
  then show ?case
    using update_game ok u
    by (auto simp: admin_update_game_def elim!: with_store_cases split: prod.splits)
next
  case (delete_game cat c1 later my admin game_id b c2)
  then have ok: "catalogue_ok (kx_same env) c1" by blast
  have "catalogue_ok (kx_same env) c" if "delete_admin_game my game_id later c1 = (a, c)" for a c
    by (rule delete_admin_game_ok [OF same that ok]) (use delete_game.IH(2) in blast)
  then show ?case
    using delete_game.hyps ok by (auto simp: admin_delete_game_def elim!: with_store_cases split: if_splits)
next
  case (create_rule cat c1 later my my' admin r seen db y c2)
  then show ?case
    using insert_admin_route_rule_ok
    by (auto simp: admin_create_route_rule_def elim!: with_store_cases split: prod.splits)
next
  case (update_rule cat c1 later my my' admin rule_id r seen db y c2)
  then show ?case
    using update_admin_route_rule_ok
    by (auto simp: admin_update_route_rule_def elim!: with_store_cases split: prod.splits)
next
  case (delete_rule cat c1 my admin rule_id b c2)
  then show ?case
    using delete_admin_route_rule_ok [OF same]
    by (auto simp: admin_delete_route_rule_def elim!: with_store_cases split: prod.splits if_splits)
qed

section \<open>Properties\<close>

text \<open>
  C9. The catalogue stays well-formed. In every run, from empty tables, of everything that writes it
  (synchronisations and deletions of the business backend and their copies in the dashboard, the
  dashboard's own creation, change and deletion of games and rules, the three deletions of a
  node, whose rules go with it, and the rows a start of the service seeds), with the transactions of
  different requests interleaved in any way, game ids, the regions of a game, the categories of a
  game (up to the collation), rule ids and the external ids of a source (up to the collation)
  stay unique, and every region and rule is in normal form: positive ids, a usable target, a known
  status, UDP.
\<close>

theorem catalogue_stays_well_formed:
  assumes "catalog_run env empty_catalogue cat" and "equivp (kx_same env)"
  shows "catalogue_ok (kx_same env) cat"
  by (rule catalog_run_ok [OF assms empty_catalogue_ok])

end
