(* ===== verification/Example_Catalog.thy ===== *)
theory Example_Catalog
  imports Example_Ticket Api_Catalog_Run
begin

text \<open>
  A concrete catalogue for the instances of the properties of the catalogue and the scheduler: the
  business backend synchronises a game with one rule for the example node, which a client then
  connects to.
\<close>

definition shop_rule :: business_sync_route_rule where
  "shop_rule =
     \<lparr>sr_external_id = Some ''r1'', sr_game_id = None, sr_game_name = None, sr_region_id = None,
      sr_region_name = None, sr_node_id = 7, sr_target_addr = ''h:9'', sr_protocol = None,
      sr_area = None, sr_tag = None, sr_priority = None, sr_status = None\<rparr>"

definition shop_game :: business_sync_game where
  "shop_game =
     \<lparr>sg_game_id = 1, sg_name = ''G'', sg_platform = None, sg_category = Some ''c'',
      sg_categories = None, sg_icon_url = None, sg_status = None, sg_remark = None,
      sg_regions = [], sg_route_rules = [shop_rule]\<rparr>"

definition shop_request :: business_sync_catalog_request where
  "shop_request =
     \<lparr>sq_source = None, sq_revision = None, sq_games = [shop_game], sq_regions = [],
      sq_route_rules = []\<rparr>"

definition sold_rule :: normalized_route_rule where
  "sold_rule =
     \<lparr>ru_game_id = 1, ru_game_name = ''G'', ru_region_id = None, ru_region_name = None,
      ru_node_id = 7, ru_target_addr = ''h:9'', ru_protocol = ''udp'', ru_area = None,
      ru_tag = None, ru_priority = 100, ru_status = ''enabled'',
      ru_sync_source = Some ''business'', ru_external_id = Some ''r1''\<rparr>"

definition sold_game :: normalized_game where
  "sold_game =
     \<lparr>ng_game_id = 1, ng_name = ''G'', ng_platform = ''pc'', ng_category = Some ''c'',
      ng_categories = [''c''], ng_icon_url = None, ng_status = ''enabled'', ng_remark = None\<rparr>"

definition sold_catalog :: business_sync_catalog where
  "sold_catalog =
     \<lparr>sc_source = ''business'', sc_revision = None, sc_games = [sold_game], sc_regions = [],
      sc_route_rules = [sold_rule]\<rparr>"

definition shop_catalogue :: catalogue where
  "shop_catalogue =
     \<lparr>cg_games = [game_row_of sold_game],
      cg_categories = [\<lparr>gc_game_id = 1, gc_category = ''c'', gc_sort_order = 0\<rparr>],
      cg_regions = [], cg_rules = [\<lparr>rl_id = 1, rl_rule = sold_rule\<rparr>], cg_next_rule = 2\<rparr>"

lemma shop_texts [simp]:
  "trim ''G'' = ''G''" "trim ''c'' = ''c''" "trim ''r1'' = ''r1''" "trim ''h:9'' = ''h:9''"
  "trim ''enabled'' = ''enabled''" "trim ''pc'' = ''pc''" "trim ''h'' = ''h''"
  by (subst trim_printable, simp_all add: code_of_def)+

lemma shop_target: "validate_target_addr ''h:9'' = Inr ''h:9''"
proof -
  have "parse_uint (2 ^ 32) ''9'' = Some 9"
    by (simp add: parse_uint_def is_digit_def digit_value_def digits_value_def code_of_def Let_def)
  moreover have "rsplit_once (CHR '':'') ''h:9'' = Some (''h'', ''9'')"
    by (simp add: rsplit_once_def split_once_def)
  ultimately show ?thesis
    by (auto simp: validate_target_addr_Inr char_count_def is_cont_def code_of_def)
qed

lemma shop_required [simp]:
  "normalize_required_text ''G'' field 128 = Inr ''G''"
  by (simp add: normalize_required_text_Inr char_count_def is_cont_def code_of_def)

lemma shop_optional [simp]:
  "normalize_optional_text None n = Inr None"
  "normalize_optional_text (Some ''c'') 64 = Inr (Some ''c'')"
  "normalize_optional_text (Some ''r1'') 128 = Inr (Some ''r1'')"
  by (simp_all add: normalize_optional_text_def nonempty_text_def char_count_def is_cont_def code_of_def)

lemma shop_categories:
  "normalize_business_game_categories (Some ''c'') None = Inr [''c'']"
  by (simp add: normalize_business_game_categories_def map_filter_def)

lemma shop_game_normal: "normalize_business_game shop_game = Inr sold_game"
  by (simp add: normalize_business_game_def shop_game_def shop_categories normalize_game_request_def first_of_def
      validate_game_platform_def validate_game_status_def sold_game_def Let_def)

lemma shop_rule_normal:
  "normalize_business_route_rule cx shop_rule ''business'' (Some 1) (Some ''G'') None None = Inr sold_rule"
  by (simp add: normalize_business_route_rule_def shop_rule_def normalize_nested_game_id_def route_protocol_def
      nonempty_text_def shop_target validate_route_rule_status_def word_of_def sold_rule_def Let_def)

lemma shop_normal: "normalize_business_sync_catalog cx shop_request = Inr sold_catalog"
proof -
  have "normalize_game_with_nested cx ''business'' shop_game = Inr (sold_game, [], [sold_rule])"
    unfolding normalize_game_with_nested_def shop_game_normal
    by (simp add: shop_game_def sold_game_def shop_rule_normal)
  then show ?thesis
    by (simp add: normalize_business_sync_catalog_def shop_request_def sold_catalog_def Let_def)
qed

lemma shop_synced:
  "business_sync_catalog demo_crypto (=) sale_mysql (Some ''sync'') sale_headers shop_request sale_db
     empty_catalogue = (Inr sold_catalog, shop_catalogue)"
proof -
  have "find_node 7 sale_db = Some sale_node" by (simp add: find_node_def sale_db_def sale_node_def)
  moreover have "my_fault sale_mysql i = Inr ()" for i by (simp add: sale_mysql_def)
  ultimately have "sync_business_catalog (=) sale_mysql sale_db sold_catalog empty_catalogue = Inr shop_catalogue"
    by (simp add: sync_business_catalog_def sold_catalog_def upsert_business_game_def stmt_def
        replace_business_game_categories_def insert_category_def upsert_rows_def empty_catalogue_def
        sold_game_def upsert_business_route_rule_def route_rule_node_def sold_rule_def auto_id_def
        shop_catalogue_def Let_def)
  then show ?thesis by (simp add: business_sync_catalog_def sale_gate shop_normal)
qed

section \<open>Instances\<close>

definition shop_env :: catalog_env where
  "shop_env = \<lparr>kx_crypto = demo_crypto, kx_same = (=), kx_sync_token = Some ''sync'',
     kx_max_text = (\<lambda>names. if names = [] then [] else last names)\<rparr>"

lemma equality_collation: "equivp ((=) :: string \<Rightarrow> string \<Rightarrow> bool)"
  by (rule identity_equivp)

theorem catalogue_stays_well_formed_witness:
  "catalog_run shop_env empty_catalogue shop_catalogue \<and> catalogue_ok (=) shop_catalogue"
proof -
  have "sync_business_catalog (=) sale_mysql sale_db sold_catalog empty_catalogue = Inr shop_catalogue"
    using shop_synced by (auto simp: business_sync_catalog_def shop_normal elim!: with_store_cases)
  then have "\<exists>t'. business_sync_catalog_logged demo_crypto (=) sale_mysql sale_mysql (\<lambda>t. t) (Some ''sync'')
      sale_headers shop_request sale_db empty_catalogue \<lparr>lg_rows = [], lg_next = 1\<rparr> =
      (Inr sold_catalog, shop_catalogue, t')"
    by (simp add: business_sync_catalog_logged_def gated_def sale_gate sync_catalog_logged_def shop_normal logged_def)
  then obtain t' where "business_sync_catalog_logged (kx_crypto shop_env) (kx_same shop_env) sale_mysql sale_mysql
      (\<lambda>t. t) (kx_sync_token shop_env) sale_headers shop_request sale_db empty_catalogue
      \<lparr>lg_rows = [], lg_next = 1\<rparr> = (Inr sold_catalog, shop_catalogue, t')"
    by (auto simp: shop_env_def)
  then have "catalog_run shop_env empty_catalogue shop_catalogue"
    by (rule catalog_run.sync [OF catalog_run.start])
  moreover from this have "catalogue_ok (kx_same shop_env) shop_catalogue"
    by (rule catalogue_stays_well_formed) (simp add: shop_env_def equality_collation)
  ultimately show ?thesis by (simp add: shop_env_def)
qed

lemma shop_synced_again:
  "business_sync_catalog demo_crypto (=) sale_mysql (Some ''sync'') sale_headers shop_request sale_db
     shop_catalogue = (Inr sold_catalog, shop_catalogue)"
proof -
  have "find_node 7 sale_db = Some sale_node" by (simp add: find_node_def sale_db_def sale_node_def)
  moreover have "my_fault sale_mysql i = Inr ()" for i by (simp add: sale_mysql_def)
  ultimately have "sync_business_catalog (=) sale_mysql sale_db sold_catalog shop_catalogue = Inr shop_catalogue"
    by (simp add: sync_business_catalog_def sold_catalog_def upsert_business_game_def stmt_def
        replace_business_game_categories_def insert_category_def upsert_rows_def
        sold_game_def upsert_business_route_rule_def route_rule_node_def sold_rule_def same_external_def
        shop_catalogue_def game_row_of_def Let_def)
  then show ?thesis by (simp add: business_sync_catalog_def sale_gate shop_normal)
qed

theorem sync_idempotent_witness:
  "fst (business_sync_catalog demo_crypto (=) sale_mysql (Some ''sync'') sale_headers shop_request sale_db
     shop_catalogue) = Inr sold_catalog \<and> cg_next_rule shop_catalogue = 2 \<and>
   categories_of 1 shop_catalogue = categories_of 1 shop_catalogue"
  using sync_idempotent [OF equality_collation shop_synced shop_synced_again, of 1] shop_synced_again
  by (simp add: shop_catalogue_def)


definition shop_deletion :: business_delete_catalog_request where
  "shop_deletion =
     \<lparr>dq_game_ids = [1], dq_regions = [], dq_route_rule_ids = [], dq_route_external_ids = [],
      dq_source = None\<rparr>"

lemma shop_deleted:
  "business_delete_catalog (=) sale_mysql (Some ''sync'') sale_headers shop_deletion shop_catalogue =
     (Inr \<lparr>de_games = 1, de_regions = 0, de_rules = 1\<rparr>, empty_catalogue\<lparr>cg_next_rule := 2\<rparr>)"
proof -
  have "my_fault sale_mysql i = Inr ()" for i by (simp add: sale_mysql_def)
  then show ?thesis
    by (simp add: business_delete_catalog_def sale_gate normalize_business_delete_catalog_def shop_deletion_def
        normalize_positive_u64_set_def delete_business_catalog_def stmt_def delete_rules_def delete_regions_def
        delete_games_of_def shop_catalogue_def empty_catalogue_def sold_rule_def sold_game_def game_row_of_def Let_def)
qed

theorem deletion_exact_witness:
  "\<exists>q. normalize_business_delete_catalog shop_deletion = Inr q \<and>
     filter (\<lambda>r. \<not> doomed_rule (=) q r) (cg_rules shop_catalogue) = []"
  using deletion_exact [OF shop_deleted] by (auto simp: empty_catalogue_def)

definition shop_client :: connect_intent_request where
  "shop_client =
     \<lparr>ci_user_id = 42, ci_device_id = ''d1'', ci_game_id = 1, ci_game_key = None, ci_region_id = None,
      ci_platform = None, ci_client_isp = None, ci_client_ip = None, ci_bandwidth_quality = None\<rparr>"

lemma shop_node: "find_node 7 sale_db = Some sale_node" "node_available sale_node"
  by (simp_all add: find_node_def sale_db_def sale_node_def node_available_def example_secret_def)

theorem synced_rule_connectable_witness:
  "\<exists>row. select_candidate sale_mysql 0 0 sale_db shop_catalogue shop_client ''normal'' = Inr (Some row)"
  by (rule synced_rule_connectable [OF equality_collation shop_synced, where rule = sold_rule and n = sale_node])
    (simp_all add: sold_catalog_def sold_rule_def shop_node shop_client_def sale_mysql_def)

lemma shop_selected:
  obtains row where "select_candidate sale_mysql 0 0 sale_db shop_catalogue shop_client ''normal'' = Inr (Some row)"
    "cw_node_id row = 7"
proof -
  have "candidates sale_db shop_catalogue shop_client = [(sold_rule, sale_node)]"
    using shop_node
    by (simp add: candidates_def shop_catalogue_def map_filter_def eligible_def sold_rule_def shop_client_def)
  then show ?thesis
    by (intro that) (auto simp: select_candidate_def stmt_def sale_mysql_def first_by_def sale_node_def)
qed


lemma sale_complete:
  obtains k intents where "business_connect_intent demo_crypto (\<lambda>_. Inr ''policy'') sale_to_json sale_database []
      (Some ''sync'') 1000 1000 60 sale_headers sale_request = (Inr k, intents)" "ak_node_id k = 7"
  using sale_issued by (metis prod.collapse)

theorem ticket_recorded_witness:
  "\<exists>k x. business_connect_intent demo_crypto (\<lambda>_. Inr ''policy'') sale_to_json sale_database []
      (Some ''sync'') 1000 1000 60 sale_headers sale_request = (Inr k, [x]) \<and>
    ix_intent_id x = ak_ticket_id k \<and> ix_user_id x = 42 \<and> ix_expires_at x = 1060"
proof -
  obtain k intents where k: "business_connect_intent demo_crypto (\<lambda>_. Inr ''policy'') sale_to_json sale_database []
      (Some ''sync'') 1000 1000 60 sale_headers sale_request = (Inr k, intents)"
    by (rule sale_complete)
  from ticket_recorded [OF k] k show ?thesis by (auto simp: sale_request_def)
qed

text \<open>The same request sent twice within a second: the second is refused.\<close>

theorem same_second_refused_witness:
  "\<exists>k intents e. business_connect_intent demo_crypto (\<lambda>_. Inr ''policy'') sale_to_json sale_database []
      (Some ''sync'') 1000 1000 60 sale_headers sale_request = (Inr k, intents) \<and>
    fst (business_connect_intent demo_crypto (\<lambda>_. Inr ''policy'') sale_to_json sale_database intents
      (Some ''sync'') 1000 1000 60 sale_headers sale_request) = Inl e"
proof -
  obtain k intents where k: "business_connect_intent demo_crypto (\<lambda>_. Inr ''policy'') sale_to_json sale_database []
      (Some ''sync'') 1000 1000 60 sale_headers sale_request = (Inr k, intents)" "ak_node_id k = 7"
    by (rule sale_complete)
  let ?again = "business_connect_intent demo_crypto (\<lambda>_. Inr ''policy'') sale_to_json sale_database intents
      (Some ''sync'') 1000 1000 60 sale_headers sale_request"
  have "\<nexists>k'. fst ?again = Inr k'"
  proof
    assume "\<exists>k'. fst ?again = Inr k'"
    then obtain k' where k': "fst ?again = Inr k'" by blast
    then have "?again = (Inr k', snd ?again)" by (metis prod.collapse)
    then obtain route_opt row where "per_session_route demo_crypto (\<lambda>_. Inr ''policy'') sale_request = Inr route_opt"
      "(case route_opt of
        Some route \<Rightarrow> db_select_per_session sale_database route = Inr (Some row)
      | None \<Rightarrow> db_select_candidate sale_database (to_connect_intent_request sale_request)
          (requested_quality (to_connect_intent_request sale_request)) = Inr (Some row))"
      "ak_node_id k' = cw_node_id row" by (rule business_ticket_stored)
    then have "ak_node_id k' = 7"
      using sale_selects [of sale_route]
      by (auto simp: sale_per_session intent_tables_def sale_route_def sale_row_def)
    with same_second_refused [OF equality_collation k(1) order_refl refl refl, rule_format, OF k'] k(2)
    show False by simp
  qed
  then obtain e where "fst ?again = Inl e" by (cases "fst ?again") auto
  with k(1) show ?thesis by blast
qed

end
