(* ===== verification/Api_Business_Log.thy ===== *)
theory Api_Business_Log
  imports Api_Business Api_Candidates
begin

text \<open>
  What the log of the business API shows: the logging handlers answer and store what the handlers of
  \<open>Api_Connect\<close> and \<open>Api_Catalog_Store\<close> do, and an authorised request leaves one row, which the
  dashboard lists first.
\<close>

section \<open>The table\<close>

definition log_table_ok :: "log_table \<Rightarrow> bool" where
  "log_table_ok t \<longleftrightarrow> sorted (map (\<lambda>l. unat (bl_id l)) (lg_rows t)) \<and>
     list_all (\<lambda>l. unat (bl_id l) < unat (lg_next t)) (lg_rows t)"

definition empty_log :: log_table where "empty_log = \<lparr>lg_rows = [], lg_next = 1\<rparr>"

lemma empty_log_ok: "log_table_ok empty_log"
  by (simp add: log_table_ok_def empty_log_def)

lemma log_row_fields [simp]:
  "bl_id (log_row log_id now l) = log_id" "bl_created_at (log_row log_id now l) = now"
  "nl_endpoint (log_row log_id now l) = nl_endpoint l" "nl_action (log_row log_id now l) = nl_action l"
  "nl_source (log_row log_id now l) = nl_source l" "nl_request_id (log_row log_id now l) = nl_request_id l"
  "nl_status (log_row log_id now l) = nl_status l" "nl_http_status (log_row log_id now l) = nl_http_status l"
  "nl_user_id (log_row log_id now l) = nl_user_id l" "nl_game_id (log_row log_id now l) = nl_game_id l"
  "nl_error_code (log_row log_id now l) = nl_error_code l" "nl_detail (log_row log_id now l) = nl_detail l"
  by (simp_all add: log_row_def new_business_api_log.defs business_api_log_row.defs)

lemma insert_business_api_log_Inr:
  "insert_business_api_log my i l t = Inr t' \<longleftrightarrow>
     my_fault my i = Inr () \<and> log_fits l \<and> unat (lg_next t) + 1 < 2 ^ 64 \<and>
     t' = \<lparr>lg_rows = lg_rows t @ [log_row (lg_next t) (my_now my i) l], lg_next = lg_next t + 1\<rparr>"
  by (auto simp: insert_business_api_log_def)

lemma record_business_api_log_cases:
  obtains "record_business_api_log my i l t = t"
  | "insert_business_api_log my i l t = Inr (record_business_api_log my i l t)"
  by (cases "insert_business_api_log my i l t") (simp_all add: record_business_api_log_def)

lemma log_table_ok_record:
  assumes "log_table_ok t"
  shows "log_table_ok (record_business_api_log my i l t)"
proof (cases rule: record_business_api_log_cases [of my i l t])
  case 2
  then have room: "unat (lg_next t) + 1 < 2 ^ 64" and
    t': "record_business_api_log my i l t =
      \<lparr>lg_rows = lg_rows t @ [log_row (lg_next t) (my_now my i) l], lg_next = lg_next t + 1\<rparr>"
    by (simp_all add: insert_business_api_log_Inr)
  have "unat (lg_next t + 1) = unat (lg_next t) + 1" using room by (simp add: unat_word_ariths)
  then show ?thesis using assms
    by (auto simp: t' log_table_ok_def list_all_iff sorted_append intro: less_imp_le)
qed (simp add: assms)

text \<open>A table that takes the row: the statement works, the columns hold it and an id is left.\<close>

definition log_takes :: "mysql \<Rightarrow> new_business_api_log \<Rightarrow> log_table \<Rightarrow> bool" where
  "log_takes my l t \<longleftrightarrow> my_fault my 0 = Inr () \<and> log_fits l \<and> unat (lg_next t) + 1 < 2 ^ 64"

lemma recorded:
  assumes "log_takes my l t"
  shows "lg_rows (record_business_api_log my 0 l t) = lg_rows t @ [log_row (lg_next t) (my_now my 0) l]"
proof -
  have "insert_business_api_log my 0 l t =
      Inr \<lparr>lg_rows = lg_rows t @ [log_row (lg_next t) (my_now my 0) l], lg_next = lg_next t + 1\<rparr>"
    unfolding insert_business_api_log_Inr using assms by (simp add: log_takes_def)
  then show ?thesis by (simp add: record_business_api_log_def)
qed

text \<open>The row written last is the first of every list whose filters it passes.\<close>

lemma last_listed_first:
  assumes "log_table_ok t" "lg_rows t = rows @ [l]"
    "\<not> is_some_and (\<lambda>e. nl_endpoint l \<noteq> e) endpoint" "\<not> is_some_and (\<lambda>s. nl_status l \<noteq> s) status"
    "my_fault my i = Inr ()" "0 < limit"
  obtains rest where "select_business_api_logs my i t endpoint status limit = Inr (l # rest)"
proof -
  let ?p = "\<lambda>l. \<not> is_some_and (\<lambda>e. nl_endpoint l \<noteq> e) endpoint \<and> \<not> is_some_and (\<lambda>s. nl_status l \<noteq> s) status"
  have "sorted (map (\<lambda>l. unat (bl_id l)) (filter ?p (lg_rows t)))"
    using assms(1) by (simp add: log_table_ok_def sorted_filter)
  then have "rev (sort_key (\<lambda>l. unat (bl_id l)) (filter ?p (lg_rows t))) = l # rev (filter ?p rows)"
    using assms(2-4) by (simp add: sort_key_id_if_sorted)
  moreover obtain n where "unat limit = Suc n" using assms(6) by (metis gr0_conv_Suc unat_gt_0 word_neq_0_conv)
  ultimately show ?thesis using that assms(5) by (simp add: select_business_api_logs_def)
qed

section \<open>The same answers\<close>

lemma gated_Inr [simp]: "gated (Inr g) s t f = f g"
  by (simp add: gated_def)

lemma gated_Inl [simp]: "gated (Inl e) s t f = (Inl e, s, t)"
  by (simp add: gated_def)

definition unlogged :: "'a \<times> 's \<times> log_table \<Rightarrow> 'a \<times> 's" where "unlogged x = (fst x, fst (snd x))"

lemma unlogged_pair [simp]: "unlogged (a, s, t) = (a, s)"
  by (simp add: unlogged_def)

lemma unlogged_logged [simp]: "unlogged (logged my later x detail answer t) = answer"
  by (simp add: logged_def)

lemma unlogged_ticket:
  "unlogged (issue_ticket_logged cx policy_json to_json my' later x db store checked_at now ttl_sec r t) =
     issue_business_ticket cx policy_json to_json db store checked_at now ttl_sec r"
  by (simp add: issue_ticket_logged_def issue_business_ticket_def Let_def with_store_def split: sum.split prod.split)

lemma unlogged_business_connect_intent:
  "unlogged (business_connect_intent_logged cx policy_json to_json my' later db store sync_token checked_at now
       ttl_sec hs r t) =
     business_connect_intent cx policy_json to_json db store sync_token checked_at now ttl_sec hs r"
  by (simp add: business_connect_intent_logged_def business_connect_intent_def gated_def with_store_def unlogged_ticket
      split: sum.split)

lemma unlogged_sync_catalog:
  "unlogged (business_sync_catalog_logged cx same my my' later sync_token hs request db cat t) =
     business_sync_catalog cx same my sync_token hs request db cat"
  by (simp add: business_sync_catalog_logged_def business_sync_catalog_def sync_catalog_logged_def gated_def
      with_store_def split: sum.split)

lemma unlogged_delete_catalog:
  "unlogged (business_delete_catalog_logged same my my' later sync_token hs request cat t) =
     business_delete_catalog same my sync_token hs request cat"
  by (auto simp: business_delete_catalog_logged_def business_delete_catalog_def delete_catalog_logged_def gated_def
      with_store_def split: sum.split)

section \<open>Every outcome logged\<close>

text \<open>What a row says of the answer it was written for.\<close>

definition row_tells ::
  "log_context \<Rightarrow> (app_error, 'a) result \<Rightarrow> 'z new_business_api_log_scheme \<Rightarrow> bool"
where
  "row_tells x answer l \<longleftrightarrow>
     nl_endpoint l = lx_endpoint x \<and> nl_action l = lx_action x \<and> nl_source l = lx_source x \<and>
     nl_request_id l = lx_request_id x \<and> nl_user_id l = lx_user_id x \<and> nl_game_id l = lx_game_id x \<and>
     (case answer of
        Inr a \<Rightarrow> nl_status l = ''succeeded'' \<and> nl_http_status l = Some 200 \<and> nl_error_code l = None
      | Inl e \<Rightarrow> nl_status l = ''failed'' \<and> nl_http_status l = Some (ae_status e) \<and> nl_error_code l = Some (ae_code e))"

lemma outcome_rows:
  "row_tells x (Inl e :: (app_error, 'a) result) (failure_log x e)"
  "row_tells x (Inr a) (success_log x detail)"
  by (simp_all add: row_tells_def failure_log_def success_log_def)

lemma logged_outcome:
  obtains l where "row_tells x (fst (logged my later x detail answer t)) l"
    "snd (snd (logged my later x detail answer t)) = record_business_api_log my 0 l (later t)"
  by (cases "fst answer")
    (use outcome_rows in \<open>fastforce simp: logged_def record_business_api_failure_def\<close>)+

lemma valid_ticket_route:
  "validate_business_connect_intent_request cx policy_json now r = Inr () \<Longrightarrow>
   \<exists>route_opt. per_session_route cx policy_json r = Inr route_opt"
  by (cases "per_session_route cx policy_json r") (auto simp: validate_business_connect_intent_request_def)

lemma issued_has_candidate:
  assumes "(case route_opt of
      Some route \<Rightarrow> issue_per_session_connect_intent cx to_json db store now ttl r context route
    | None \<Rightarrow> issue_connect_intent cx to_json db store now ttl r context) = (Inr response, store')"
  shows "\<exists>k. ticket_from_connect_intent response r' c = Inr k"
proof -
  obtain row mode binding quality where
    "issue_connect_intent_for_row cx to_json (db_insert_intent db) store now ttl r context row mode binding quality =
       (Inr response, store')"
    using assms by (cases route_opt)
      (auto simp: issue_per_session_connect_intent_def issue_connect_intent_def elim!: with_store_cases)
  then show ?thesis using issued_row_stored
    by (fastforce simp: ticket_from_connect_intent_def first_of_def)
qed

lemma ticket_outcome:
  assumes "out = issue_ticket_logged cx policy_json to_json my' later x db store checked_at now ttl_sec r t"
  obtains l where "row_tells x (fst out) l" "snd (snd out) = record_business_api_log my' 0 l (later t)"
proof (cases "validate_business_connect_intent_request cx policy_json checked_at r")
  case (Inl e)
  then show ?thesis
    by (intro that [of "failure_log x e"])
      (simp_all add: assms issue_ticket_logged_def record_business_api_failure_def outcome_rows)
next
  case (Inr u)
  then obtain route_opt where route: "per_session_route cx policy_json r = Inr route_opt"
    using valid_ticket_route by fastforce
  obtain issued store' where issue: "(case route_opt of
      Some route \<Rightarrow> issue_per_session_connect_intent cx to_json db store now ttl_sec
          (to_connect_intent_request r) (Some (auth_context r)) route
    | None \<Rightarrow> issue_connect_intent cx to_json db store now ttl_sec
          (to_connect_intent_request r) (Some (auth_context r))) = (issued, store')" by fastforce
  show ?thesis
  proof (cases issued)
    case (Inl e)
    then show ?thesis
      by (intro that [of "failure_log x e"])
        (simp_all add: assms issue_ticket_logged_def record_business_api_failure_def outcome_rows
          \<open>_ = Inr u\<close> route issue)
  next
    case (Inr response)
    then obtain k where "ticket_from_connect_intent response (to_connect_intent_request r) (auth_context r) = Inr k"
      using issued_has_candidate [OF issue [unfolded Inr]] by blast
    then show ?thesis
      by (intro that [of "success_log x (issued_detail r response)"])
        (simp_all add: assms issue_ticket_logged_def outcome_rows \<open>_ = Inr u\<close> route issue Inr)
  qed
qed

lemma row_fits:
  assumes "row_tells x answer l" "char_count (lx_source x) \<le> 64"
    "\<not> is_some_and (\<lambda>r. 128 < char_count r) (lx_request_id x)"
  shows "log_fits l"
  using assms by (simp add: row_tells_def log_fits_def)

lemma row_tells_log_row [simp]: "row_tells x answer (log_row i now l) \<longleftrightarrow> row_tells x answer l"
  by (simp add: row_tells_def split: sum.split)

lemma admin_list_connect_intents:
  "admin_list_business_api_logs my (Inr ()) (Some ''connect-intent'') None limit t =
     select_business_api_logs my 0 t (Some ''connect-intent'') None (clamp_limit limit 100 500)"
proof -
  have "nonempty_text (Some ''connect-intent'') = Some ''connect-intent''"
    by code_simp
  then have "normalize_business_log_endpoint_filter (Some ''connect-intent'') = Inr (Some ''connect-intent'')"
    by (simp add: normalize_business_log_endpoint_filter_def one_of_texts_def normalize_optional_text_def char_count_def)
  moreover have "normalize_business_log_status_filter None = Inr None"
    by (simp add: normalize_business_log_status_filter_def one_of_texts_def normalize_optional_text_def nonempty_text_def)
  ultimately show ?thesis by (simp add: admin_list_business_api_logs_def)
qed

lemma clamp_limit_pos: "0 < clamp_limit limit d 500"
  by (auto simp: clamp_limit_def min_def max_def word_gt_0 word_le_nat_alt split: if_splits)

text \<open>
  C12. Every authorised request for a ticket is answered and stored as without the log, and leaves
  exactly one log row, which says how it ended: the status, the HTTP status and the code of the error,
  with the request id, user and game of the request. The dashboard lists that row first. This holds when
  the insertion works; the id of the request must fit its column.
\<close>

theorem ticket_requests_logged:
  assumes "require_business_sync sync_token hs = Inr ()" "my_fault my' 0 = Inr ()" "my_fault my'' 0 = Inr ()"
    "\<not> is_some_and (\<lambda>i. 128 < char_count i) (bi_request_id r)"
    "log_table_ok (later t)" "unat (lg_next (later t)) + 1 < 2 ^ 64"
  shows "\<exists>answer store' t' row rest.
    business_connect_intent_logged cx policy_json to_json my' later db store sync_token checked_at now ttl_sec hs r t =
      (answer, store', t') \<and>
    business_connect_intent cx policy_json to_json db store sync_token checked_at now ttl_sec hs r = (answer, store') \<and>
    lg_rows t' = lg_rows (later t) @ [row] \<and>
    row_tells (ticket_context ''business.connect_intent'' ''business_api'' r) answer row \<and>
    admin_list_business_api_logs my'' (Inr ()) (Some ''connect-intent'') None limit t' = Inr (row # rest)"
proof -
  let ?x = "ticket_context ''business.connect_intent'' ''business_api'' r"
  define out where "out = issue_ticket_logged cx policy_json to_json my' later ?x db store checked_at now ttl_sec r t"
  obtain answer store' t' where parts: "out = (answer, store', t')" by (cases out)
  have whole: "business_connect_intent_logged cx policy_json to_json my' later db store sync_token checked_at now
      ttl_sec hs r t = out"
    by (simp add: business_connect_intent_logged_def out_def assms(1))
  obtain l where l: "row_tells ?x answer l" "t' = record_business_api_log my' 0 l (later t)"
    using ticket_outcome [OF out_def] by (auto simp: parts)
  let ?row = "log_row (lg_next (later t)) (my_now my' 0) l"
  have "log_takes my' l (later t)"
    using assms(2,4,6) row_fits [OF l(1)] by (simp add: log_takes_def ticket_context_def char_count_def)
  then have rows: "lg_rows t' = lg_rows (later t) @ [?row]" unfolding l(2) by (rule recorded)
  moreover have "log_table_ok t'" unfolding l(2) by (rule log_table_ok_record [OF assms(5)])
  moreover have "nl_endpoint ?row = ''connect-intent''"
    using l(1) by (simp add: row_tells_def ticket_context_def)
  ultimately obtain rest where
    "select_business_api_logs my'' 0 t' (Some ''connect-intent'') None (clamp_limit limit 100 500) = Inr (?row # rest)"
    by (elim last_listed_first [where l = ?row and endpoint = "Some ''connect-intent''" and status = None, OF _ _ _ _ assms(3) clamp_limit_pos])
      simp_all
  moreover have "business_connect_intent cx policy_json to_json db store sync_token checked_at now ttl_sec hs r =
      (answer, store')"
    using unlogged_business_connect_intent [of cx policy_json to_json my' later db store sync_token checked_at now
        ttl_sec hs r t] by (simp add: whole parts)
  ultimately show ?thesis
    using l(1) rows by (auto simp: whole parts admin_list_connect_intents)
qed

end
