(* ===== verification/Example_Business.thy ===== *)
theory Example_Business
  imports Example_Ticket Api_Business_Log
begin

text \<open>The sale of \<open>Example_Ticket\<close> with its log: the row of the request is the first the dashboard shows.\<close>

theorem ticket_requests_logged_witness:
  "\<exists>answer store' t' row rest.
    business_connect_intent_logged demo_crypto (\<lambda>_. Inr ''policy'') sale_to_json sale_mysql id sale_database []
      (Some ''sync'') 1000 1000 60 sale_headers sale_request empty_log = (answer, store', t') \<and>
    lg_rows t' = [row] \<and> nl_user_id row = Some 42 \<and>
    admin_list_business_api_logs sale_mysql (Inr ()) (Some ''connect-intent'') None None t' = Inr (row # rest)"
proof -
  have ok: "my_fault sale_mysql 0 = Inr ()" by (simp add: sale_mysql_def)
  have "\<not> is_some_and (\<lambda>i. 128 < char_count i) (bi_request_id sale_request)" by (simp add: sale_request_def)
  note logged = ticket_requests_logged [where later = id and r = sale_request and t = empty_log, OF sale_gate ok ok this]
  have "log_table_ok (id empty_log)" "unat (lg_next (id empty_log)) + 1 < 2 ^ 64"
    using empty_log_ok by (simp_all add: empty_log_def)
  from logged [OF this] obtain answer store' t' row rest where
    "business_connect_intent_logged demo_crypto (\<lambda>_. Inr ''policy'') sale_to_json sale_mysql id sale_database []
      (Some ''sync'') 1000 1000 60 sale_headers sale_request empty_log = (answer, store', t')"
    "lg_rows t' = [row]" "row_tells (ticket_context ''business.connect_intent'' ''business_api'' sale_request) answer row"
    "admin_list_business_api_logs sale_mysql (Inr ()) (Some ''connect-intent'') None None t' = Inr (row # rest)"
    unfolding empty_log_def by fastforce
  then show ?thesis by (auto simp: row_tells_def ticket_context_def sale_request_def)
qed

end
