(* ===== verification/Api_Service.thy ===== *)
theory Api_Service
  imports Api_Node_Sync
begin

text \<open>
  The node endpoints together: one function serves a request on the tables, and a run is any
  sequence of requests in any order, from nodes, installers and administrators. What the request
  changed is an event. A request reads outside its transaction from tables \<open>seen\<close> that are
  arbitrary, which over-approximates every interleaving with other requests. The handlers of the
  business backend, the deployment and the SSH actions write these tables through the same
  functions behind gates of their own, so \<open>admin\<close> stands for whichever gate let a request through.
\<close>

section \<open>Serving requests\<close>

record api_env =
  ae_crypto :: crypto
  ae_same :: "string \<Rightarrow> string \<Rightarrow> bool"
  ae_public_base_url :: "string option"
  ae_handshake_json :: "bytes \<Rightarrow> node_handshake_request option"
  ae_report_json :: "bytes \<Rightarrow> (node_report_request \<times> (app_error, string) result) option"
  ae_result_json :: "bytes \<Rightarrow> node_task_result_request option"

text \<open>The circumstances of one request: MySQL in its two accesses, the clock, randomness.\<close>

record moment =
  mo_mysql :: mysql
  mo_mysql2 :: mysql
  mo_now :: u64
  mo_random :: bytes
  mo_seen :: database
  mo_later :: "database \<Rightarrow> database"

datatype api_request =
    CreateNode "(app_error, admin_actor) result" admin_create_node_request
  | UpdateNode "(app_error, admin_actor) result" u64 admin_create_node_request
  | DeleteNode "(app_error, admin_actor) result" u64
  | SetNodeStatus "(app_error, admin_actor) result" u64 string "string option"
  | CreateToken "(app_error, admin_actor) result" "(app_error, install_settings) result" headers u64
      create_bootstrap_token_request
  | Bootstrap headers bootstrap_request
  | Handshake headers bytes
  | Report headers bytes
  | CreateTask "(app_error, admin_actor) result" u64 string "string option"
  | PollTasks headers
  | PostTaskResult headers u64 bytes

datatype api_event =
    NodeCreated u64
  | NodeUpdated u64 u64
  | NodeDeleted u64
  | NodeStatusSet u64
  | TokenCreated u64 u64
  | TokenExchanged u64 u64
  | ShookHands u64
  | Reported u64
  | TaskCreated u64 u64
  | TasksPolled u64 "u64 option"
  | TaskFinished u64 u64

definition event_of :: "('a \<Rightarrow> api_event) \<Rightarrow> (app_error, 'a) result \<times> database \<Rightarrow> api_event option \<times> database" where
  "event_of f x = (case fst x of Inl _ \<Rightarrow> None | Inr a \<Rightarrow> Some (f a), snd x)"

definition polled :: "u64 \<times> node_task_item list \<Rightarrow> api_event" where
  "polled x = TasksPolled (fst x) (case snd x of [] \<Rightarrow> None | t # _ \<Rightarrow> Some (ni_task_id t))"

fun serve :: "api_env \<Rightarrow> moment \<Rightarrow> api_request \<Rightarrow> database \<Rightarrow> api_event option \<times> database" where
  "serve env mo (CreateNode admin r) db =
     event_of NodeCreated (admin_create_node (ae_same env) (mo_mysql mo) admin r (mo_seen mo) db)"
| "serve env mo (UpdateNode admin node_id r) db =
     event_of (\<lambda>n. NodeUpdated node_id (nd_config_revision n))
       (admin_update_node (ae_same env) (mo_mysql mo) admin node_id r (mo_seen mo) db)"
| "serve env mo (DeleteNode admin node_id) db =
     event_of (\<lambda>_. NodeDeleted node_id) (admin_delete_node (mo_mysql mo) admin node_id db)"
| "serve env mo (SetNodeStatus admin node_id status reason) db =
     event_of (\<lambda>_. NodeStatusSet node_id)
       (admin_update_node_status (mo_mysql mo) admin node_id status reason (mo_seen mo) db)"
| "serve env mo (CreateToken admin settings hs node_id r) db =
     event_of (\<lambda>c. TokenCreated (bc_token_id c) node_id)
       (admin_create_bootstrap_token (ae_crypto env) (ae_same env) (mo_mysql mo) (mo_random mo) (mo_now mo)
         admin settings (ae_public_base_url env) hs node_id r (mo_seen mo) db)"
| "serve env mo (Bootstrap hs r) db =
     event_of (\<lambda>(token_id, response). TokenExchanged token_id (bs_node_id response))
       (node_bootstrap (ae_crypto env) (ae_same env) (mo_mysql mo) (mo_now mo) (mo_random mo)
         (ae_public_base_url env) hs r db)"
| "serve env mo (Handshake hs body) db =
     event_of (\<lambda>r. ShookHands (ha_node_id r))
       (node_handshake (ae_crypto env) (mo_mysql mo) (mo_mysql2 mo) (ae_handshake_json env) (mo_now mo)
         (mo_now mo) hs body (mo_seen mo) (mo_later mo) db)"
| "serve env mo (Report hs body) db =
     event_of Reported (node_report (ae_crypto env) (mo_mysql mo) (mo_mysql2 mo) (ae_report_json env)
       (mo_now mo) hs body (mo_seen mo) db)"
| "serve env mo (CreateTask admin node_id task_type message) db =
     event_of (\<lambda>t. TaskCreated node_id (nt_id t))
       (admin_create_node_task (mo_mysql mo) admin node_id task_type message (mo_seen mo) db)"
| "serve env mo (PollTasks hs) db =
     event_of polled (node_tasks (ae_crypto env) (mo_mysql mo) (mo_mysql2 mo) (mo_now mo) hs (mo_seen mo) db)"
| "serve env mo (PostTaskResult hs task_id body) db =
     event_of (\<lambda>node_id. TaskFinished node_id task_id)
       (node_task_result (ae_crypto env) (mo_mysql mo) (mo_mysql2 mo) (ae_result_json env) (mo_now mo) hs
         task_id body (mo_seen mo) db)"

definition event_list :: "api_event option \<Rightarrow> api_event list" where
  "event_list ev = (case ev of None \<Rightarrow> [] | Some e \<Rightarrow> [e])"

text \<open>The events of a run, oldest first.\<close>

inductive served :: "api_env \<Rightarrow> database \<Rightarrow> api_event list \<Rightarrow> database \<Rightarrow> bool" for env db0 where
  started: "served env db0 [] db0"
| request: "served env db0 log db \<Longrightarrow> serve env mo r db = (ev, db') \<Longrightarrow>
    served env db0 (log @ event_list ev) db'"

definition no_rows :: database where
  "no_rows = \<lparr>dt_nodes = [], dt_next_node = 1, dt_tokens = [], dt_next_token = 1, dt_tasks = [],
     dt_next_task = 1, dt_audit = [], dt_reports = [], dt_revisions = []\<rparr>"

section \<open>What each request leaves alone\<close>

abbreviation same_tasks :: "database \<Rightarrow> database \<Rightarrow> bool" where
  "same_tasks db db' \<equiv> dt_tasks db' = dt_tasks db \<and> dt_next_task db' = dt_next_task db"

abbreviation same_tokens :: "database \<Rightarrow> database \<Rightarrow> bool" where
  "same_tokens db db' \<equiv> dt_tokens db' = dt_tokens db \<and> dt_next_token db' = dt_next_token db"

abbreviation same_nodes :: "database \<Rightarrow> database \<Rightarrow> bool" where
  "same_nodes db db' \<equiv> dt_nodes db' = dt_nodes db \<and> dt_next_node db' = dt_next_node db \<and>
     dt_revisions db' = dt_revisions db"

lemma event_of_eq:
  "event_of f x = (ev, db) \<longleftrightarrow> snd x = db \<and> ev = (case fst x of Inl _ \<Rightarrow> None | Inr a \<Rightarrow> Some (f a))"
  by (auto simp: event_of_def)

lemma insert_admin_node_Inr:
  assumes "insert_admin_node same my r seen db = Inr (node_id, db')"
  obtains node where "normalize_create_node_request r = Inr node" "node_id = dt_next_node db"
    "unat (dt_next_node db) + 1 < 2 ^ 64"
    "db' = db\<lparr>dt_nodes := dt_nodes db @ [new_node_row node_id node], dt_next_node := node_id + 1\<rparr>"
  using assms by (auto simp: insert_admin_node_def split: if_splits)

lemma create_node_cases:
  assumes "admin_create_node same my admin r seen db = (x, db')"
  obtains (refused) e where "db' = db" "x = Inl e"
  | (created) node where "normalize_create_node_request r = Inr node"
      "unat (dt_next_node db) + 1 < 2 ^ 64"
      "db' = db\<lparr>dt_nodes := dt_nodes db @ [new_node_row (dt_next_node db) node],
                dt_next_node := dt_next_node db + 1\<rparr>"
      "x = Inr (dt_next_node db) \<or> (\<exists>e. x = Inl e)"
  using assms unfolding admin_create_node_def
proof (rule handler_cases)
  fix p assume r: "bind_result admin (\<lambda>_. insert_admin_node same my r seen db) = Inr p"
    and x: "(case p of (node_id, db1) \<Rightarrow> (bind_result (stmt my 2 (find_node node_id db1)) (\<lambda>found.
         bind_result (ok_or (not_found ''node_not_found'' ''created node does not exist'') found)
           (\<lambda>_. Inr node_id)), db1)) = (x, db')"
  obtain node_id where p: "p = (node_id, db')" using x by (cases p) simp
  have "insert_admin_node same my r seen db = Inr (node_id, db')" using r p by auto
  then show thesis
  proof (rule insert_admin_node_Inr)
    fix node assume "normalize_create_node_request r = Inr node" "node_id = dt_next_node db"
      "unat (dt_next_node db) + 1 < 2 ^ 64"
      "db' = db\<lparr>dt_nodes := dt_nodes db @ [new_node_row node_id node], dt_next_node := node_id + 1\<rparr>"
    moreover have "x = Inr node_id \<or> (\<exists>e. x = Inl e)"
      using x p by (cases x) auto
    ultimately show thesis using created by simp
  qed
qed (use refused in simp)

lemma update_node_cases:
  assumes "admin_update_node same my admin node_id r seen db = (x, db')"
  obtains (refused) e where "db' = db" "x = Inl e"
  | (updated) node old where "normalize_create_node_request r = Inr node" "find_node node_id db = Some old"
      "nd_config_revision old \<noteq> - 1"
      "\<not> (\<exists>v \<in> set (dt_revisions db). cv_node_id v = node_id \<and> cv_revision v = nd_config_revision old + 1)"
      "db' = (update_node node_id
          (\<lambda>n. (set_node_network node n)\<lparr>nd_config_revision := nd_config_revision n + 1\<rparr>) db)
        \<lparr>dt_revisions := dt_revisions db @ [\<lparr>cv_node_id = node_id, cv_revision = nd_config_revision old + 1,
           cv_config = config_json node\<rparr>]\<rparr>"
      "(\<exists>n. x = Inr n \<and> find_node node_id db' = Some n) \<or> (\<exists>e. x = Inl e)"
  using assms unfolding admin_update_node_def
proof (rule handler_cases)
  fix db1 assume r: "bind_result admin (\<lambda>_. update_admin_node_config same my node_id r seen db) = Inr db1"
    and x: "(bind_result (stmt my 4 (find_node node_id db1))
        (ok_or (not_found ''node_not_found'' ''updated node does not exist'')), db1) = (x, db')"
  have "update_admin_node_config same my node_id r seen db = Inr db'" using r x by auto
  moreover have "(\<exists>n. x = Inr n \<and> find_node node_id db' = Some n) \<or> (\<exists>e. x = Inl e)"
    using x by (cases x) auto
  ultimately show thesis
    using updated by (auto simp: update_admin_node_config_def Let_def split: if_splits option.splits)
qed (use refused in simp)

lemma delete_node_cases:
  assumes "admin_delete_node my admin node_id db = (x, db')"
  obtains (refused) e where "db' = db" "x = Inl e"
  | (deleted) b where "x = Inr b" "dt_nodes db' = filter (\<lambda>n. nd_id n \<noteq> node_id) (dt_nodes db)"
      "dt_tokens db' = filter (\<lambda>t. bt_node_id t \<noteq> node_id) (dt_tokens db)"
      "dt_tasks db' = filter (\<lambda>t. nt_node_id t \<noteq> node_id) (dt_tasks db)"
      "dt_revisions db' = filter (\<lambda>v. cv_node_id v \<noteq> node_id) (dt_revisions db)"
      "dt_next_node db' = dt_next_node db" "dt_next_token db' = dt_next_token db"
      "dt_next_task db' = dt_next_task db"
  using assms unfolding admin_delete_node_def
proof (rule handler_cases)
  fix p assume r: "bind_result admin (\<lambda>_. delete_admin_node my node_id db) = Inr p"
    and x: "(case p of (b, db1) \<Rightarrow> (Inr b, db1)) = (x, db')"
  obtain b where p: "p = (b, db')" and b: "x = Inr b" using x by (cases p) simp
  have "delete_admin_node my node_id db = Inr (b, db')" using r p by auto
  then show thesis by (intro deleted [OF b]) (auto simp: delete_admin_node_def split: if_splits)
qed (use refused in simp)

lemma node_status_cases:
  assumes "admin_update_node_status my admin node_id status reason seen db = (x, db')"
  obtains (refused) e where "db' = db" "x = Inl e"
  | (changed) s audit y where "validate_admin_node_status status = Inr s" "x = Inr y"
      "db' = insert_audit audit (update_node node_id (\<lambda>n. n\<lparr>nd_status := s\<rparr>) db)"
  using assms unfolding admin_update_node_status_def
proof (rule handler_cases)
  fix p assume r: "bind_result admin (\<lambda>actor. bind_result (validate_admin_node_status status) (\<lambda>next_status.
      update_admin_node_status my node_id next_status (nonempty_text reason) actor seen db)) = Inr p"
    and x: "(case p of (previous, db1) \<Rightarrow> (Inr previous, db1)) = (x, db')"
  obtain y where p: "p = (y, db')" and y: "x = Inr y" using x by (cases p) simp
  from r p obtain actor s where s: "validate_admin_node_status status = Inr s" and
    u: "update_admin_node_status my node_id s (nonempty_text reason) actor seen db = Inr (y, db')" by auto
  from u obtain audit where "db' = insert_audit audit (update_node node_id (\<lambda>n. n\<lparr>nd_status := s\<rparr>) db)"
    by (auto simp: update_admin_node_status_def Let_def)
  then show thesis using changed s y by blast
qed (use refused in simp)

lemma create_token_cases:
  assumes "admin_create_bootstrap_token cx same my random now admin settings url hs node_id r seen db = (x, db')"
  obtains (refused) e where "db' = db" "x = Inl e"
  | (created) c row where "x = Inr c" "bc_token_id c = dt_next_token db" "bt_id row = dt_next_token db"
      "bt_node_id row = node_id" "bt_used_at row = None" "unat (dt_next_token db) + 1 < 2 ^ 64"
      "find_node node_id db \<noteq> None"
      "bt_token_hash row = hash_bootstrap_token cx (bc_bootstrap_token c)"
      "my_from_unixtime my (bc_expires_at c) = Some (bt_expires_at row)"
      "db' = db\<lparr>dt_tokens := dt_tokens db @ [row], dt_next_token := dt_next_token db + 1\<rparr>"
  using assms unfolding admin_create_bootstrap_token_def
proof (rule handler_cases)
  fix p assume r: "bind_result admin (\<lambda>_. bind_result settings (\<lambda>s.
      bind_result (optional_arg normalize_url_arg (ct_public_base_url r)) (\<lambda>given.
      bind_result (resolve_public_base_url url hs) (\<lambda>resolved.
      bind_result (optional_arg normalize_url_arg (ct_install_url r)) (\<lambda>install.
      bind_result (optional_arg normalize_command_arg (ct_channel r)) (\<lambda>channel.
      bind_result (clamp_bootstrap_ttl (ct_expires_in_sec r)) (\<lambda>ttl.
      let expires_at = now + ttl in
      bind_result (create_bootstrap_token cx same my random node_id (ct_created_by r) expires_at seen db)
        (\<lambda>(token, token_id, db').
      let bootstrap_url = unwrap_or resolved given @ ''/api/node/v1/bootstrap'' in
      Inr (\<lparr>bc_token_id = token_id, bc_bootstrap_token = token, bc_bootstrap_url = bootstrap_url,
            bc_expires_at = expires_at,
            bc_install_command = build_bootstrap_install_command
              (unwrap_or (is_node_install_url s) install) bootstrap_url token
              (unwrap_or True (ct_enable_control_plane r)) channel (is_node_artifact_url s)
              (is_node_sha256_url s) (is_release_download_mode s)\<rparr>, db'))))))))) = Inr p"
    and x: "(case p of (c, db1) \<Rightarrow> (Inr c, db1)) = (x, db')"
  obtain c where p: "p = (c, db')" and c: "x = Inr c" using x by (cases p) simp
  from r p obtain token token_id where
    t: "create_bootstrap_token cx same my random node_id (ct_created_by r) (bc_expires_at c) seen db =
        Inr (token, token_id, db')" and fields: "bc_token_id c = token_id" "bc_bootstrap_token c = token"
    by (auto simp: Let_def split: prod.splits)
  let ?row = "\<lambda>e. \<lparr>bt_id = dt_next_token db, bt_node_id = node_id,
    bt_token_hash = hash_bootstrap_token cx token, bt_expires_at = e, bt_used_at = None,
    bt_used_by_ip = None, bt_created_by = ct_created_by r\<rparr>"
  from t obtain e where "token_id = dt_next_token db" "unat (dt_next_token db) + 1 < 2 ^ 64"
    "find_node node_id db \<noteq> None" "my_from_unixtime my (bc_expires_at c) = Some e"
    "db' = db\<lparr>dt_tokens := dt_tokens db @ [?row e], dt_next_token := dt_next_token db + 1\<rparr>"
    by (auto simp: create_bootstrap_token_def Let_def split: if_splits)
  then show thesis using c fields by (intro created [of c "?row e"]) simp_all
qed (use refused in simp)

lemma exchange_token_Inr:
  assumes "exchange_bootstrap_token cx same my now random r panel_url db = Inr (token_id, response, db')"
  obtains t n secret where "t \<in> set (dt_tokens db)" "same (bt_token_hash t) (hash_bootstrap_token cx (bq_bootstrap_token r))"
    "bt_used_at t = None" "now < bt_expires_at t" "token_id = bt_id t"
    "find_node (bt_node_id t) db = Some n" "bs_node_id response = bt_node_id t"
    "bs_node_secret response = secret"
    "secret = unwrap_or (generate_node_secret cx random) (filter_option (\<lambda>s. trim s \<noteq> []) (nd_node_secret n))"
    "db' = update_node (bt_node_id t) (\<lambda>m. m\<lparr>nd_status := ''installing'', nd_node_secret := Some secret,
         nd_config_revision := max (nd_config_revision n) 1, nd_installed_at := Some (my_now my 2)\<rparr>)
       (db\<lparr>dt_tokens := update_rows (\<lambda>s. bt_id s = bt_id t)
         (\<lambda>s. s\<lparr>bt_used_at := Some (my_now my 1),
           bt_used_by_ip := (case bq_ips r of [] \<Rightarrow> None | ip # _ \<Rightarrow> Some ip)\<rparr>) (dt_tokens db)\<rparr>)"
proof -
  let ?h = "hash_bootstrap_token cx (bq_bootstrap_token r)"
  from assms obtain t n where
    t: "find (\<lambda>t. same (bt_token_hash t) ?h) (dt_tokens db) = Some t" and n: "find_node (bt_node_id t) db = Some n"
    and unused: "bt_used_at t = None" and fresh: "\<not> bt_expires_at t \<le> now"
    by (auto simp: exchange_bootstrap_token_def Let_def bind_eq_Some_conv split: if_splits)
  let ?secret = "unwrap_or (generate_node_secret cx random) (filter_option (\<lambda>s. trim s \<noteq> []) (nd_node_secret n))"
  show thesis
    using find_Some_set [OF t] assms t n unused fresh
    by (intro that [of t n ?secret]) (simp_all add: exchange_bootstrap_token_def Let_def)
qed

lemma bootstrap_cases:
  assumes "node_bootstrap cx same my now random url hs r db = (x, db')"
  obtains (refused) e where "db' = db" "x = Inl e"
  | (exchanged) token_id response panel_url where "x = Inr (token_id, response)"
      "exchange_bootstrap_token cx same my now random r panel_url db = Inr (token_id, response, db')"
  using assms unfolding node_bootstrap_def
proof (rule handler_cases)
  fix p assume r: "bind_result (validate_bootstrap_request r) (\<lambda>_. bind_result (resolve_public_base_url url hs)
      (\<lambda>panel_url. exchange_bootstrap_token cx same my now random r panel_url db)) = Inr p"
    and x: "(case p of (token_id, response, db1) \<Rightarrow> (Inr (token_id, response), db1)) = (x, db')"
  obtain token_id response where p: "p = (token_id, response, db')" and "x = Inr (token_id, response)"
    using x by (cases p) simp
  then show thesis using r exchanged by auto
qed (use refused in simp)

definition shaken :: "mysql \<Rightarrow> node_handshake_request \<Rightarrow> node_row \<Rightarrow> node_row" where
  "shaken my h n = n\<lparr>nd_status := (if nd_status n \<in> {''disabled'', ''draining''} then nd_status n else ''online''),
     nd_kernel_version := Some (qh_node_version h),
     nd_config_revision := max (nd_config_revision n) (max (qh_config_revision h) 1),
     nd_last_seen_at := my_from_unixtime my (max (qh_timestamp h) 1)\<rparr>"

lemma handshake_cases:
  assumes "node_handshake cx my my' of_json now server_time hs body seen later db = (x, db')"
  obtains (refused) e where "db' = db" "x = Inl e"
  | (shaken) h where "authenticated cx my now seen hs ''POST'' node_handshake_path body = Inr (qh_node_id h)"
      "of_json body = Some h" "db' = update_node (qh_node_id h) (shaken my' h) db"
      "(\<exists>e. x = Inl e) \<or> (\<exists>reply. x = Inr reply \<and> ha_node_id reply = qh_node_id h)"
  using assms unfolding node_handshake_def
proof (rule handler_cases)
  fix h assume r: "bind_result (authenticated cx my now seen hs ''POST'' node_handshake_path body) (\<lambda>node_id.
          bind_result (required_header_u64 hs ''X-Node-Timestamp'') (\<lambda>timestamp.
          bind_result (required_header hs ''X-Node-Nonce'') (\<lambda>nonce.
          bind_result (ok_or (bad_request ''invalid_handshake'' ''invalid handshake body'') (of_json body))
            (\<lambda>request.
          bind_result (validate_node_handshake_request node_id timestamp nonce request) (\<lambda>_.
          Inr request))))) = Inr h"
    and x: "(case persist_node_handshake my' h later db of
             (Inl e, db') \<Rightarrow> (Inl e, db')
           | (Inr config_revision, db') \<Rightarrow>
               (Inr \<lparr>ha_node_id = qh_node_id h, ha_server_time = server_time,
                     ha_config_revision = config_revision, ha_min_node_version = ''0.1.0''\<rparr>, db')) = (x, db')"
  obtain node_id where a: "authenticated cx my now seen hs ''POST'' node_handshake_path body = Inr node_id"
    "of_json body = Some h" "qh_node_id h = node_id"
    using r by (auto simp: validate_node_handshake_request_def split: if_splits)
  obtain y where p: "persist_node_handshake my' h later db = (y, db')" and
    y: "(\<exists>e. x = Inl e) \<or> (\<exists>reply. x = Inr reply \<and> ha_node_id reply = qh_node_id h)"
    using x by (auto split: prod.splits sum.splits)
  show thesis
  proof (cases "my_fault my' 0")
    case (Inl e)
    then have "persist_node_handshake my' h later db = (Inl e, db)"
      by (simp add: persist_node_handshake_def stmt_def)
    then show thesis using x refused [of e] by auto
  next
    case (Inr u)
    then have "db' = update_node (qh_node_id h) (shaken my' h) db"
      using p by (simp add: persist_node_handshake_def stmt_def shaken_def [abs_def] Let_def)
    then show thesis using shaken a y by blast
  qed
qed (use refused in simp)

definition reported :: "mysql \<Rightarrow> node_report_request \<Rightarrow> node_row \<Rightarrow> node_row" where
  "reported my r n = (if nd_status n \<in> {''disabled'', ''draining''} then n
     else n\<lparr>nd_status := report_database_status r, nd_kernel_version := Some (qr_node_version r),
            nd_config_revision := max (nd_config_revision n) (qr_config_revision r),
            nd_last_seen_at := my_from_unixtime my (max (qr_timestamp r) 1),
            nd_last_report_at := Some (my_now my 1)\<rparr>)"

lemma report_cases:
  assumes "node_report cx my my' of_json now hs body seen db = (x, db')"
  obtains (refused) e where "db' = db" "x = Inl e"
  | (stored) r raw row where "authenticated cx my now seen hs ''POST'' node_report_path body = Inr (qr_node_id r)"
      "of_json body = Some (r, Inr raw)" "find_node (qr_node_id r) db \<noteq> None" "rr_node_id row = qr_node_id r"
      "db' = update_node (qr_node_id r) (reported my' r) (db\<lparr>dt_reports := dt_reports db @ [row]\<rparr>)"
      "x = Inr (qr_node_id r)"
  using assms unfolding node_report_def
proof (rule handler_cases)
  fix p assume r: "bind_result (authenticated cx my now seen hs ''POST'' node_report_path body) (\<lambda>node_id.
          bind_result (ok_or (bad_request ''invalid_report'' ''invalid report body'') (of_json body))
            (\<lambda>(report, raw_json).
          bind_result (validate_node_report_request node_id report) (\<lambda>_.
          bind_result (persist_node_report my' report raw_json db) (\<lambda>db'.
          Inr (qr_node_id report, db'))))) = Inr p"
    and x: "(case p of (node_id, db1) \<Rightarrow> (Inr node_id, db1)) = (x, db')"
  obtain node_id where p: "p = (node_id, db')" and y: "x = Inr node_id" using x by (cases p) simp
  from r p obtain r raw_json where a: "authenticated cx my now seen hs ''POST'' node_report_path body = Inr node_id"
    "of_json body = Some (r, raw_json)" "qr_node_id r = node_id"
    and s: "persist_node_report my' r raw_json db = Inr db'"
    by (auto simp: validate_node_report_request_def split: if_splits)
  let ?udp = "clamp_u32 (sn_active_udp_sessions (hn_sessions (qr_health r)))"
  let ?tcp = "clamp_u32 (sn_active_tcp_connections (hn_sessions (qr_health r)))"
  let ?row = "\<lambda>raw t. \<lparr>rr_node_id = qr_node_id r, rr_config_revision = qr_config_revision r,
              rr_report_status = qr_status r, rr_active_sessions = saturating_add_u32 ?udp ?tcp,
              rr_udp_sessions = ?udp, rr_tcp_sessions = ?tcp, rr_raw_json = raw,
              rr_reported_at = Some t\<rparr>"
  from s obtain raw t where "raw_json = Inr raw" "find_node (qr_node_id r) db \<noteq> None"
    "db' = update_node (qr_node_id r) (reported my' r) (db\<lparr>dt_reports := dt_reports db @ [?row raw t]\<rparr>)"
    by (auto simp: persist_node_report_def Let_def reported_def [abs_def])
  then show thesis using a y by (intro stored [of r raw "?row raw t"]) simp_all
qed (use refused in simp)

lemma task_frames:
  "insert_admin_node_task my node_id task_type message actor seen db = Inr (task, db') \<Longrightarrow>
     same_tokens db db' \<and> same_nodes db db'"
  "claim_next_node_task my node_id db = Inr (found, db') \<Longrightarrow> same_tokens db db' \<and> same_nodes db db'"
  "update_node_task_result my node_id task_id status request db = Inr db' \<Longrightarrow>
     same_tokens db db' \<and> same_nodes db db'"
  by (auto simp: insert_admin_node_task_def claim_next_node_task_def update_node_task_result_def Let_def
      insert_audit_def split: if_splits option.splits)

lemma create_task_cases:
  assumes "admin_create_node_task my admin node_id task_type message seen db = (x, db')"
  obtains (refused) e where "db' = db" "x = Inl e"
  | (created) task m actor where "x = Inr task"
      "insert_admin_node_task my node_id ''restart_node'' m actor seen db = Inr (task, db')"
  using assms unfolding admin_create_node_task_def
proof (rule handler_cases)
  fix p assume r: "bind_result admin (\<lambda>actor. bind_result (validate_admin_node_task_type task_type) (\<lambda>task_type.
      insert_admin_node_task my node_id task_type (stored_text message 512) actor seen db)) = Inr p"
    and x: "(case p of (task, db1) \<Rightarrow> (Inr task, db1)) = (x, db')"
  obtain task where p: "p = (task, db')" and y: "x = Inr task" using x by (cases p) simp
  then show thesis
    using r created by (auto simp: validate_admin_node_task_type_def word_of_def split: if_splits)
qed (use refused in simp)

lemma poll_cases:
  assumes "node_tasks cx my my' now hs seen db = (x, db')"
  obtains (refused) e where "db' = db" "x = Inl e"
  | (polled) node_id found where "authenticated cx my now seen hs ''GET'' node_tasks_path [] = Inr node_id"
      "claim_next_node_task my' node_id db = Inr (found, db')"
      "x = Inr (node_id, (case found of None \<Rightarrow> [] | Some t \<Rightarrow> [node_task_item_of t]))"
  using assms unfolding node_tasks_def
proof (rule handler_cases)
  fix p assume r: "bind_result (authenticated cx my now seen hs ''GET'' node_tasks_path []) (\<lambda>node_id.
          bind_result (claim_next_node_task my' node_id db) (\<lambda>(task, db'). Inr (node_id, task, db'))) = Inr p"
    and x: "(case p of (node_id, task, db') \<Rightarrow>
          (Inr (node_id, (case task of None \<Rightarrow> [] | Some t \<Rightarrow> [node_task_item_of t])), db')) = (x, db')"
  obtain node_id found where "p = (node_id, found, db')" using x by (cases p) simp
  then show thesis using r x by (intro polled [of node_id found]) auto
qed (use refused in simp)

lemma task_result_cases:
  assumes "node_task_result cx my my' of_json now hs task_id body seen db = (x, db')"
  obtains (refused) e where "db' = db" "x = Inl e"
  | (stored) node_id status request where
      "authenticated cx my now seen hs ''POST'' (''/api/node/v1/tasks/'' @ show_u64 task_id @ ''/result'') body = Inr node_id"
      "of_json body = Some request" "status = ''succeeded'' \<or> status = ''failed''"
      "update_node_task_result my' node_id task_id status request db = Inr db'" "x = Inr node_id"
  using assms unfolding node_task_result_def Let_def
proof (rule handler_cases)
  fix p assume r: "bind_result (authenticated cx my now seen hs ''POST''
         (''/api/node/v1/tasks/'' @ show_u64 task_id @ ''/result'') body) (\<lambda>node_id.
          bind_result (ok_or (bad_request ''invalid_task_result'' ''invalid node task result body'')
            (of_json body)) (\<lambda>request.
          bind_result (validate_node_task_result node_id task_id request) (\<lambda>_.
          bind_result (validate_node_task_result_status (nq_status request)) (\<lambda>status.
          bind_result (update_node_task_result my' node_id task_id status request db) (\<lambda>db'.
          Inr (node_id, db')))))) = Inr p"
    and x: "(case p of (node_id, db') \<Rightarrow> (Inr node_id, db')) = (x, db')"
  obtain node_id where p: "p = (node_id, db')" and y: "x = Inr node_id" using x by (cases p) simp
  from r p obtain request status where "authenticated cx my now seen hs ''POST''
         (''/api/node/v1/tasks/'' @ show_u64 task_id @ ''/result'') body = Inr node_id"
    "of_json body = Some request" "validate_node_task_result_status (nq_status request) = Inr status"
    "update_node_task_result my' node_id task_id status request db = Inr db'" by auto
  then show thesis
    using y by (intro stored) (auto simp: validate_node_task_result_status_def word_of_def split: if_splits)
qed (use refused in simp)

end
