(* ===== verification/Api_Task_Log.thy ===== *)
theory Api_Task_Log
  imports Api_Service
begin

text \<open>
  What the tasks of the nodes go through while requests are served: a request changes the tasks in
  one of five ways, the pending tasks of a node are a queue, and the log of a run has every task
  claimed at most once, in the order of creation, and finished at most once.
\<close>

section \<open>An invariant of tables and log\<close>

text \<open>What holds of no rows and an empty log, and is kept by every request, holds in every run.\<close>

locale log_invariant =
  fixes inv :: "api_event list \<Rightarrow> database \<Rightarrow> bool"
  assumes empty: "inv [] no_rows"
    and keep: "inv log db \<Longrightarrow> serve env mo r db = (ev, db') \<Longrightarrow> inv (log @ event_list ev) db'"
begin

lemma holds: "served env no_rows log db \<Longrightarrow> inv log db"
  by (induction rule: served.induct) (auto intro: empty keep)

end

lemma event_list_simps [simp]: "event_list None = []" "event_list (Some e) = [e]"
  by (simp_all add: event_list_def)

section \<open>The changes of one request\<close>

lemma serve_tasks_cases:
  assumes "serve env mo r db = (ev, db')" "tasks_ok db"
  obtains (quiet) "same_tasks db db'"
      "\<And>n i. ev \<noteq> Some (TaskCreated n i)" "\<And>n i. ev \<noteq> Some (TaskFinished n i)"
      "\<And>n i. ev \<noteq> Some (TasksPolled n (Some i))" "\<And>n. ev \<noteq> Some (NodeDeleted n)"
      "\<And>n. ev = Some (TasksPolled n None) \<Longrightarrow> next_pending n (dt_tasks db) = None"
  | (deleted) n where "ev = Some (NodeDeleted n)" "dt_next_task db' = dt_next_task db"
      "dt_tasks db' = filter (\<lambda>t. nt_node_id t \<noteq> n) (dt_tasks db)"
  | (created) n t where "ev = Some (TaskCreated n (nt_id t))" "nt_node_id t = n" "nt_id t = dt_next_task db"
      "nt_status t = ''pending''" "nt_task_type t = ''restart_node''" "dt_tasks db' = dt_tasks db @ [t]"
      "dt_next_task db' = dt_next_task db + 1" "unat (dt_next_task db) + 1 < 2 ^ 64"
  | (claimed) n i now where "ev = Some (TasksPolled n (Some i))" "next_pending n (dt_tasks db) = Some i"
      "dt_next_task db' = dt_next_task db"
      "dt_tasks db' = update_rows (\<lambda>t. nt_id t = i \<and> nt_node_id t = n)
         (\<lambda>t. t\<lparr>nt_status := ''running'', nt_claimed_at := Some now, nt_started_at := Some now\<rparr>) (dt_tasks db)"
  | (finished) n i f status where "ev = Some (TaskFinished n i)" "dt_next_task db' = dt_next_task db"
      "status = ''succeeded'' \<or> status = ''failed''"
      "\<And>t. nt_id (f t) = nt_id t" "\<And>t. nt_node_id (f t) = nt_node_id t"
      "\<And>t. nt_task_type (f t) = nt_task_type t" "\<And>t. nt_status (f t) = status"
      "\<exists>t \<in> set (dt_tasks db). nt_id t = i \<and> nt_node_id t = n \<and> unfinished t"
      "dt_tasks db' = update_rows (\<lambda>t. nt_id t = i \<and> nt_node_id t = n \<and> unfinished t) f (dt_tasks db)"
proof (cases r)
  case (CreateNode admin q)
  show thesis
    using assms(1) unfolding CreateNode serve.simps event_of_eq
    by (intro quiet; cases "admin_create_node (ae_same env) (mo_mysql mo) admin q (mo_seen mo) db")
      (auto elim!: create_node_cases split: sum.splits)
next
  case (UpdateNode admin n q)
  show thesis
    using assms(1) unfolding UpdateNode serve.simps event_of_eq
    by (intro quiet; cases "admin_update_node (ae_same env) (mo_mysql mo) admin n q (mo_seen mo) db")
      (auto elim!: update_node_cases split: sum.splits)
next
  case (DeleteNode admin n)
  obtain x where x: "admin_delete_node (mo_mysql mo) admin n db = (x, db')"
    and ev: "ev = (case x of Inl _ \<Rightarrow> None | Inr _ \<Rightarrow> Some (NodeDeleted n))"
    using assms(1) unfolding DeleteNode serve.simps event_of_eq
    by (cases "admin_delete_node (mo_mysql mo) admin n db") simp
  show thesis using x
  proof (cases rule: delete_node_cases)
    case refused
    then show thesis using quiet ev by simp
  next
    case d: deleted
    then show thesis using deleted [of n] ev by simp
  qed
next
  case (SetNodeStatus admin n s reason)
  show thesis
    using assms(1) unfolding SetNodeStatus serve.simps event_of_eq
    by (intro quiet; cases "admin_update_node_status (mo_mysql mo) admin n s reason (mo_seen mo) db")
      (auto elim!: node_status_cases split: sum.splits)
next
  case (CreateToken admin settings hs n q)
  show thesis
    using assms(1) unfolding CreateToken serve.simps event_of_eq
    by (intro quiet; cases "admin_create_bootstrap_token (ae_crypto env) (ae_same env) (mo_mysql mo)
        (mo_random mo) (mo_now mo) admin settings (ae_public_base_url env) hs n q (mo_seen mo) db")
      (auto elim!: create_token_cases split: sum.splits)
next
  case (Bootstrap hs q)
  show thesis
    using assms(1) unfolding Bootstrap serve.simps event_of_eq
    by (intro quiet; cases "node_bootstrap (ae_crypto env) (ae_same env) (mo_mysql mo) (mo_now mo)
        (mo_random mo) (ae_public_base_url env) hs q db")
      (auto elim!: bootstrap_cases exchange_token_Inr split: sum.splits)
next
  case (Handshake hs body)
  show thesis
    using assms(1) unfolding Handshake serve.simps event_of_eq
    by (intro quiet; cases "node_handshake (ae_crypto env) (mo_mysql mo) (mo_mysql2 mo) (ae_handshake_json env)
        (mo_now mo) (mo_now mo) hs body (mo_seen mo) (mo_later mo) db")
      (auto elim!: handshake_cases split: sum.splits)
next
  case (Report hs body)
  show thesis
    using assms(1) unfolding Report serve.simps event_of_eq
    by (intro quiet; cases "node_report (ae_crypto env) (mo_mysql mo) (mo_mysql2 mo) (ae_report_json env)
        (mo_now mo) hs body (mo_seen mo) db")
      (auto elim!: report_cases split: sum.splits)
next
  case (CreateTask admin n ty message)
  obtain x where x: "admin_create_node_task (mo_mysql mo) admin n ty message (mo_seen mo) db = (x, db')"
    and ev: "ev = (case x of Inl _ \<Rightarrow> None | Inr t \<Rightarrow> Some (TaskCreated n (nt_id t)))"
    using assms(1) unfolding CreateTask serve.simps event_of_eq
    by (cases "admin_create_node_task (mo_mysql mo) admin n ty message (mo_seen mo) db") simp
  show thesis using x
  proof (cases rule: create_task_cases)
    case refused
    then show thesis using quiet ev by simp
  next
    case c: (created task m actor)
    note t = insert_task [OF c(2) assms(2)]
    show thesis
      using t c ev by (intro created [of n task]) simp_all
  qed
next
  case (PollTasks hs)
  obtain x where x: "node_tasks (ae_crypto env) (mo_mysql mo) (mo_mysql2 mo) (mo_now mo) hs (mo_seen mo) db = (x, db')"
    and ev: "ev = (case x of Inl _ \<Rightarrow> None | Inr p \<Rightarrow> Some (polled p))"
    using assms(1) unfolding PollTasks serve.simps event_of_eq
    by (cases "node_tasks (ae_crypto env) (mo_mysql mo) (mo_mysql2 mo) (mo_now mo) hs (mo_seen mo) db") simp
  show thesis using x
  proof (cases rule: poll_cases)
    case refused
    then show thesis using quiet ev by simp
  next
    case (polled n found)
    from polled(2) show thesis
    proof (cases rule: claim_update)
      case none
      then show thesis using quiet ev polled(3) by (simp add: polled_def)
    next
      case c: (claimed i t)
      then show thesis
        using ev polled(3) by (intro claimed [of n i]) (simp_all add: polled_def node_task_item_of_def)
    qed
  qed
next
  case (PostTaskResult hs i body)
  obtain x where x: "node_task_result (ae_crypto env) (mo_mysql mo) (mo_mysql2 mo) (ae_result_json env)
      (mo_now mo) hs i body (mo_seen mo) db = (x, db')"
    and ev: "ev = (case x of Inl _ \<Rightarrow> None | Inr n \<Rightarrow> Some (TaskFinished n i))"
    using assms(1) unfolding PostTaskResult serve.simps event_of_eq
    by (cases "node_task_result (ae_crypto env) (mo_mysql mo) (mo_mysql2 mo) (ae_result_json env)
      (mo_now mo) hs i body (mo_seen mo) db") simp
  show thesis using x
  proof (cases rule: task_result_cases)
    case refused
    then show thesis using quiet ev by simp
  next
    case (stored n status request)
    from stored(4) show thesis
    proof (rule result_update)
      fix f :: "node_task_row \<Rightarrow> node_task_row"
      assume "\<And>t. nt_id (f t) = nt_id t" "\<And>t. nt_node_id (f t) = nt_node_id t"
        "\<And>t. nt_task_type (f t) = nt_task_type t" "\<And>t. nt_status (f t) = status"
        "\<exists>t \<in> set (dt_tasks db). nt_id t = i \<and> nt_node_id t = n \<and> unfinished t"
        "dt_tasks db' = update_rows (\<lambda>t. nt_id t = i \<and> nt_node_id t = n \<and> unfinished t) f (dt_tasks db)"
        "dt_next_task db' = dt_next_task db"
      then show thesis
        using ev stored(3,5) by (intro finished [of n i status f]) simp_all
    qed
  qed
qed

section \<open>The pending tasks are a queue\<close>

fun queue_step :: "u64 \<Rightarrow> api_event \<Rightarrow> u64 list \<Rightarrow> u64 list" where
  "queue_step m (TaskCreated n i) q = (if n = m then q @ [i] else q)"
| "queue_step m (TasksPolled n (Some i)) q = (if n = m then tl q else q)"
| "queue_step m (TaskFinished n i) q = (if n = m then remove1 i q else q)"
| "queue_step m (NodeDeleted n) q = (if n = m then [] else q)"
| "queue_step m _ q = q"

fun answers :: "u64 \<Rightarrow> api_event \<Rightarrow> u64 list \<Rightarrow> bool" where
  "answers m (TasksPolled n x) q \<longleftrightarrow> (n = m \<longrightarrow> x = first_id q)"
| "answers m _ q \<longleftrightarrow> True"

text \<open>The queue after a log, if every poll in it was answered with the head of the queue.\<close>

fun queue_after :: "u64 \<Rightarrow> api_event list \<Rightarrow> u64 list \<Rightarrow> u64 list option" where
  "queue_after m [] q = Some q"
| "queue_after m (e # es) q = (if answers m e q then queue_after m es (queue_step m e q) else None)"

lemma queue_after_append:
  "queue_after m (es @ fs) q = Option.bind (queue_after m es q) (queue_after m fs)"
  by (induction es arbitrary: q) auto

lemma pending_ids_update:
  assumes "dt_tasks db' = update_rows (\<lambda>t. nt_id t = i \<and> nt_node_id t = n \<and> p t) f (dt_tasks db)"
    "\<And>t. nt_id (f t) = nt_id t" "\<And>t. nt_node_id (f t) = nt_node_id t" "\<And>t. nt_status (f t) \<noteq> ''pending''"
    "\<And>t. nt_status t = ''pending'' \<Longrightarrow> p t"
  shows "pending_ids m db' = (if n = m then filter (\<lambda>j. j \<noteq> i) (pending_ids m db) else pending_ids m db)"
proof -
  let ?p = "\<lambda>t. nt_id t = i \<and> nt_node_id t = n \<and> p t"
  let ?mine = "\<lambda>t. nt_node_id t = m \<and> nt_status t = ''pending''"
  let ?g = "\<lambda>t. if ?p t then f t else t"
  have mine: "?mine \<circ> ?g = (\<lambda>t. ?mine t \<and> \<not> (n = m \<and> nt_id t = i))"
  proof
    fix t
    show "(?mine \<circ> ?g) t = (?mine t \<and> \<not> (n = m \<and> nt_id t = i))"
      using assms(3-5) by (cases "?p t") auto
  qed
  have "pending_ids m db' = map nt_id (map ?g (filter (?mine \<circ> ?g) (dt_tasks db)))"
    by (simp add: pending_ids_def assms(1) update_rows_def filter_map)
  also have "\<dots> = map nt_id (filter (?mine \<circ> ?g) (dt_tasks db))"
    using assms(2) by simp
  also have "filter (?mine \<circ> ?g) (dt_tasks db) = filter (\<lambda>t. \<not> (n = m \<and> nt_id t = i)) (filter ?mine (dt_tasks db))"
    unfolding mine filter_filter ..
  also have "map nt_id \<dots> = filter (\<lambda>j. \<not> (n = m \<and> j = i)) (pending_ids m db)"
    by (simp add: pending_ids_def filter_map o_def)
  finally show ?thesis by simp
qed

lemma serve_keeps_tasks_ok:
  assumes "serve env mo r db = (ev, db')" "tasks_ok db"
  shows "tasks_ok db'"
  using assms(1,2)
proof (cases rule: serve_tasks_cases)
  case (deleted n)
  then show ?thesis using assms(2) by (simp add: tasks_ok_def rows_ok_filter)
next
  case (created n t)
  then show ?thesis using assms(2) by (simp add: tasks_ok_def rows_ok_append)
next
  case (claimed n i now)
  then show ?thesis using assms(2) by (simp add: tasks_ok_def rows_ok_update)
next
  case (finished n i f status)
  then show ?thesis using assms(2) by (simp add: tasks_ok_def rows_ok_update)
qed (use assms(2) in \<open>simp add: tasks_ok_def\<close>)

lemma filter_head: "sorted_wrt (<) (x # xs :: u64 list) \<Longrightarrow> filter (\<lambda>j. j \<noteq> x) (x # xs) = xs"
  by (auto simp: filter_id_conv)

lemma queue_quiet:
  assumes "\<And>n i. e \<noteq> TaskCreated n i" "\<And>n i. e \<noteq> TaskFinished n i"
    "\<And>n i. e \<noteq> TasksPolled n (Some i)" "\<And>n. e \<noteq> NodeDeleted n"
    "e = TasksPolled m None \<Longrightarrow> first_id q = None"
  shows "queue_after m [e] q = Some q"
proof (cases e)
  case (TasksPolled n x)
  then show ?thesis using assms(3,5) by (cases x) auto
qed (use assms in auto)

lemma serve_queue:
  assumes "serve env mo r db = (ev, db')" "tasks_ok db"
  shows "queue_after m (event_list ev) (pending_ids m db) = Some (pending_ids m db')"
  using assms(1,2)
proof (cases rule: serve_tasks_cases)
  case quiet
  have "pending_ids m db' = pending_ids m db" using quiet(1) by (simp add: pending_ids_def)
  moreover have "queue_after m [e] (pending_ids m db) = Some (pending_ids m db)" if "ev = Some e" for e
    by (rule queue_quiet) (use quiet(2-6) that next_pending_first [OF assms(2)] in auto)
  ultimately show ?thesis by (cases ev) simp_all
next
  case (deleted n)
  then have "pending_ids m db' = (if n = m then [] else pending_ids m db)"
    by (auto simp: pending_ids_def filter_empty_conv intro!: arg_cong [where f = "map nt_id"] filter_cong)
  then show ?thesis using deleted by simp
next
  case (created n t)
  then show ?thesis by (simp add: pending_ids_def)
next
  case (claimed n i now)
  have "pending_ids m db' = (if n = m then filter (\<lambda>j. j \<noteq> i) (pending_ids m db) else pending_ids m db)"
    by (rule pending_ids_update [where p = "\<lambda>_. True" and f = "\<lambda>t. t\<lparr>nt_status := ''running'',
        nt_claimed_at := Some now, nt_started_at := Some now\<rparr>"]) (simp_all add: claimed(4))
  moreover have "first_id (pending_ids n db) = Some i"
    using claimed(2) next_pending_first [OF assms(2)] by simp
  ultimately show ?thesis
    using claimed(1) pending_ids_sorted [OF assms(2), of m] filter_head
    by (auto simp: first_id_def split: list.splits)
next
  case (finished n i f status)
  have "pending_ids m db' = (if n = m then filter (\<lambda>j. j \<noteq> i) (pending_ids m db) else pending_ids m db)"
    by (rule pending_ids_update [where p = unfinished and f = f])
      (use finished(3) in \<open>auto simp: finished(4,5,7,9) unfinished_def\<close>)
  moreover have "distinct (pending_ids m db)"
    using pending_ids_sorted [OF assms(2), of m] by (simp add: strict_sorted_iff)
  ultimately show ?thesis using finished(1) 
    by (auto simp: distinct_remove1_removeAll removeAll_filter_not_eq intro: filter_cong)
qed

interpretation task_queues: log_invariant
  "\<lambda>log db. tasks_ok db \<and> (\<forall>m. queue_after m log [] = Some (pending_ids m db))"
proof
  fix log db env mo r ev db'
  assume "tasks_ok db \<and> (\<forall>m. queue_after m log [] = Some (pending_ids m db))" "serve env mo r db = (ev, db')"
  then show "tasks_ok db' \<and> (\<forall>m. queue_after m (log @ event_list ev) [] = Some (pending_ids m db'))"
    using serve_keeps_tasks_ok serve_queue by (simp add: queue_after_append)
qed (simp add: tasks_ok_def pending_ids_def no_rows_def)

section \<open>Claims and results\<close>

fun claims :: "u64 \<Rightarrow> api_event list \<Rightarrow> u64 list" where
  "claims m [] = []"
| "claims m (TasksPolled n (Some i) # es) = (if n = m then i # claims m es else claims m es)"
| "claims m (e # es) = claims m es"

fun results :: "api_event list \<Rightarrow> u64 list" where
  "results [] = []"
| "results (TaskFinished n i # es) = i # results es"
| "results (e # es) = results es"

lemma claims_append: "claims m (es @ fs) = claims m es @ claims m fs"
  by (induction m es rule: claims.induct) simp_all

lemma results_append: "results (es @ fs) = results es @ results fs"
  by (induction es rule: results.induct) simp_all

definition task_log_ok :: "api_event list \<Rightarrow> database \<Rightarrow> bool" where
  "task_log_ok log db \<longleftrightarrow> tasks_ok db \<and>
     (\<forall>t \<in> set (dt_tasks db). TaskCreated (nt_node_id t) (nt_id t) \<in> set log) \<and>
     (\<forall>m. sorted_wrt (<) (claims m log)) \<and>
     (\<forall>m. \<forall>i \<in> set (claims m log). TaskCreated m i \<in> set log \<and> i < dt_next_task db \<and>
        (\<forall>j \<in> set (pending_ids m db). i < j)) \<and>
     distinct (results log) \<and>
     (\<forall>i \<in> set (results log). i < dt_next_task db \<and>
        (\<forall>t \<in> set (dt_tasks db). nt_id t = i \<longrightarrow> \<not> unfinished t))"

lemma quiet_claims:
  assumes "\<And>n i. ev \<noteq> Some (TaskFinished n i)" "\<And>n i. ev \<noteq> Some (TasksPolled n (Some i))"
  shows "claims m (event_list ev) = []" "results (event_list ev) = []"
proof -
  have "claims m [e] = [] \<and> results [e] = []" if "ev = Some e" for e
  proof (cases e)
    case (TasksPolled n x)
    then show ?thesis using assms(2) that by (cases x) auto
  qed (use assms(1) that in auto)
  then show "claims m (event_list ev) = []" "results (event_list ev) = []" by (cases ev; simp)+
qed

lemma pending_ids_mem:
  "i \<in> set (pending_ids m db) \<longleftrightarrow>
     (\<exists>t \<in> set (dt_tasks db). nt_id t = i \<and> nt_node_id t = m \<and> nt_status t = ''pending'')"
  by (auto simp: pending_ids_def)

lemma task_log_okD:
  assumes "task_log_ok log db"
  shows "tasks_ok db"
    "\<And>t. t \<in> set (dt_tasks db) \<Longrightarrow> TaskCreated (nt_node_id t) (nt_id t) \<in> set log"
    "\<And>m. sorted_wrt (<) (claims m log)"
    "\<And>m i. i \<in> set (claims m log) \<Longrightarrow> TaskCreated m i \<in> set log \<and> i < dt_next_task db \<and>
       (\<forall>j \<in> set (pending_ids m db). i < j)"
    "distinct (results log)"
    "\<And>i. i \<in> set (results log) \<Longrightarrow> i < dt_next_task db \<and>
       (\<forall>t \<in> set (dt_tasks db). nt_id t = i \<longrightarrow> \<not> unfinished t)"
  using assms unfolding task_log_ok_def by blast+

lemma task_log_created:
  assumes inv: "task_log_ok log db" and ok': "tasks_ok db'"
    and new: "nt_node_id t = n" "nt_id t = dt_next_task db" "dt_tasks db' = dt_tasks db @ [t]"
      "dt_next_task db' = dt_next_task db + 1" "unat (dt_next_task db) + 1 < 2 ^ 64" "nt_status t = ''pending''"
  shows "task_log_ok (log @ [TaskCreated n (nt_id t)]) db'"
proof -
  note ok = task_log_okD(1) [OF inv] and made = task_log_okD(2) [OF inv] and sorted = task_log_okD(3) [OF inv]
    and past = task_log_okD(4) [OF inv] and once = task_log_okD(5) [OF inv] and over = task_log_okD(6) [OF inv]
  have p: "pending_ids m db' = (if m = n then pending_ids m db @ [nt_id t] else pending_ids m db)" for m
    using new by (auto simp: pending_ids_def)
  have up: "i < dt_next_task db'" if "i < dt_next_task db" for i
    using that less_next_id [OF new(5)] new(4) by auto
  have fresh: "nt_id t \<notin> set (results log)"
    using over new(2) by auto
  have below: "\<forall>j \<in> set (pending_ids m db'). i < j" if "i \<in> set (claims m log)" for m i
    using past [OF that] new(2) unfolding p by simp
  have over_yet: "j < dt_next_task db' \<and> (\<forall>s \<in> set (dt_tasks db @ [t]). nt_id s = j \<longrightarrow> \<not> unfinished s)"
    if "j \<in> set (results log)" for j
    using over [OF that] up fresh that by auto
  have log: "claims m [TaskCreated n (nt_id t)] = []" "results [TaskCreated n (nt_id t)] = []" for m
    by simp_all
  show ?thesis
    unfolding task_log_ok_def claims_append results_append new(3) log append_Nil2
  proof (intro conjI allI)
    show "\<forall>s \<in> set (dt_tasks db @ [t]). TaskCreated (nt_node_id s) (nt_id s) \<in> set (log @ [TaskCreated n (nt_id t)])"
      using made new(1) by auto
    show "\<forall>i \<in> set (claims m log). TaskCreated m i \<in> set (log @ [TaskCreated n (nt_id t)]) \<and>
        i < dt_next_task db' \<and> (\<forall>j \<in> set (pending_ids m db'). i < j)" for m
      using past up below by simp
    show "\<forall>i \<in> set (results log). i < dt_next_task db' \<and>
        (\<forall>s \<in> set (dt_tasks db @ [t]). nt_id s = i \<longrightarrow> \<not> unfinished s)"
      using over_yet by blast
  qed (use ok' sorted once in simp_all)
qed

lemma task_log_claimed:
  assumes inv: "task_log_ok log db" and ok': "tasks_ok db'"
    and new: "next_pending n (dt_tasks db) = Some i" "dt_next_task db' = dt_next_task db"
      "dt_tasks db' = update_rows (\<lambda>t. nt_id t = i \<and> nt_node_id t = n)
         (\<lambda>t. t\<lparr>nt_status := ''running'', nt_claimed_at := Some now, nt_started_at := Some now\<rparr>) (dt_tasks db)"
  shows "task_log_ok (log @ [TasksPolled n (Some i)]) db'"
proof -
  note ok = task_log_okD(1) [OF inv] and made = task_log_okD(2) [OF inv] and sorted = task_log_okD(3) [OF inv]
    and past = task_log_okD(4) [OF inv] and once = task_log_okD(5) [OF inv] and over = task_log_okD(6) [OF inv]
  let ?f = "\<lambda>t. t\<lparr>nt_status := ''running'', nt_claimed_at := Some now, nt_started_at := Some now\<rparr>"
  have p: "pending_ids m db' = (if n = m then filter (\<lambda>j. j \<noteq> i) (pending_ids m db) else pending_ids m db)" for m
    by (rule pending_ids_update [where p = "\<lambda>_. True" and f = ?f]) (simp_all add: new(3))
  obtain rest where head: "pending_ids n db = i # rest"
    using new(1) next_pending_first [OF ok, of n] by (auto simp: first_id_def split: list.splits)
  then have later: "\<And>j. j \<in> set (pending_ids n db) \<Longrightarrow> j \<noteq> i \<Longrightarrow> i < j"
    using pending_ids_sorted [OF ok, of n] by auto
  have row: "\<exists>t \<in> set (dt_tasks db). nt_id t = i \<and> nt_node_id t = n \<and> nt_status t = ''pending''"
    using head pending_ids_mem [of i n db] by simp
  have i: "TaskCreated n i \<in> set log" "i < dt_next_task db"
    using row made ok by (auto simp: tasks_ok_def rows_ok_def)
  have rows: "\<exists>t0 \<in> set (dt_tasks db). nt_id t = nt_id t0 \<and> nt_node_id t = nt_node_id t0 \<and>
      (t = t0 \<or> unfinished t0 \<and> nt_id t0 = i)" if mem: "t \<in> set (dt_tasks db')" for t
  proof -
    obtain s where s: "s \<in> set (dt_tasks db)" "t = (if nt_id s = i \<and> nt_node_id s = n then ?f s else s)"
      using mem unfolding new(3) set_update_rows by (elim bexE)
    have "unfinished s" if "nt_id s = i"
    proof -
      obtain t0 where "t0 \<in> set (dt_tasks db)" "nt_id t0 = i" "nt_status t0 = ''pending''" using row by blast
      then show ?thesis using task_unique [OF ok s(1)] that by (auto simp: unfinished_def)
    qed
    then show ?thesis using s by (intro bexI [OF _ s(1)]) auto
  qed
  have old: "j < i" if "j \<in> set (claims n log)" for j
    using past [OF that] head by simp
  show ?thesis
    unfolding task_log_ok_def claims_append results_append new(2) p
  proof (intro conjI allI ballI)
    show "tasks_ok db'" by (rule ok')
  next
    fix t assume "t \<in> set (dt_tasks db')"
    then show "TaskCreated (nt_node_id t) (nt_id t) \<in> set (log @ [TasksPolled n (Some i)])"
      using rows made by fastforce
  next
    fix m show "sorted_wrt (<) (claims m log @ claims m [TasksPolled n (Some i)])"
      using sorted old by (simp add: sorted_wrt_append)
  next
    fix m j assume "j \<in> set (claims m log @ claims m [TasksPolled n (Some i)])"
    then show "TaskCreated m j \<in> set (log @ [TasksPolled n (Some i)])" "j < dt_next_task db"
      using past i by (auto split: if_splits)
  next
    fix m j k assume "j \<in> set (claims m log @ claims m [TasksPolled n (Some i)])"
      "k \<in> set (if n = m then filter (\<lambda>j. j \<noteq> i) (pending_ids m db) else pending_ids m db)"
    then show "j < k" using past later by (auto split: if_splits)
  next
    show "distinct (results log @ results [TasksPolled n (Some i)])" using once by simp
  next
    fix j assume "j \<in> set (results log @ results [TasksPolled n (Some i)])"
    then show "j < dt_next_task db" using over by simp
  next
    fix j t assume "j \<in> set (results log @ results [TasksPolled n (Some i)])" "t \<in> set (dt_tasks db')"
    then show "nt_id t = j \<longrightarrow> \<not> unfinished t" using rows over by fastforce
  qed
qed

lemma task_log_finished:
  assumes inv: "task_log_ok log db" and ok': "tasks_ok db'"
    and fin: "dt_next_task db' = dt_next_task db" "status = ''succeeded'' \<or> status = ''failed''"
      "\<And>t. nt_id (f t) = nt_id t" "\<And>t. nt_node_id (f t) = nt_node_id t" "\<And>t. nt_status (f t) = status"
      "\<exists>t \<in> set (dt_tasks db). nt_id t = i \<and> nt_node_id t = n \<and> unfinished t"
      "dt_tasks db' = update_rows (\<lambda>t. nt_id t = i \<and> nt_node_id t = n \<and> unfinished t) f (dt_tasks db)"
  shows "task_log_ok (log @ [TaskFinished n i]) db'"
proof -
  note ok = task_log_okD(1) [OF inv] and made = task_log_okD(2) [OF inv] and sorted = task_log_okD(3) [OF inv]
    and past = task_log_okD(4) [OF inv] and once = task_log_okD(5) [OF inv] and over = task_log_okD(6) [OF inv]
  let ?p = "\<lambda>t. nt_id t = i \<and> nt_node_id t = n \<and> unfinished t"
  have p: "set (pending_ids m db') \<subseteq> set (pending_ids m db)" for m
    using pending_ids_update [where p = unfinished and f = f, OF fin(7,3,4)] fin(2,5)
    by (auto simp: unfinished_def split: if_splits)
  obtain t0 where t0: "t0 \<in> set (dt_tasks db)" "?p t0" using fin(6) by blast
  have new: "i \<notin> set (results log)" "i < dt_next_task db"
    using t0 over ok by (auto simp: tasks_ok_def rows_ok_def)
  have rows: "(\<exists>s \<in> set (dt_tasks db). nt_id t = nt_id s \<and> nt_node_id t = nt_node_id s \<and>
      (unfinished t \<longrightarrow> unfinished s)) \<and> (nt_id t = i \<longrightarrow> \<not> unfinished t)"
    if mem: "t \<in> set (dt_tasks db')" for t
  proof -
    obtain s where s: "s \<in> set (dt_tasks db)" "t = (if ?p s then f s else s)"
      using mem unfolding fin(7) set_update_rows by (elim bexE)
    have "nt_id s = i \<Longrightarrow> s = t0" using s t0 task_unique [OF ok] by blast
    then show ?thesis using s t0 fin(2-5) by (auto simp: unfinished_def)
  qed
  have log: "claims m [TaskFinished n i] = []" "results [TaskFinished n i] = [i]" for m
    by simp_all
  show ?thesis
    unfolding task_log_ok_def claims_append results_append fin(1) log append_Nil2
  proof (intro conjI ballI allI)
    fix t assume "t \<in> set (dt_tasks db')"
    then show "TaskCreated (nt_node_id t) (nt_id t) \<in> set (log @ [TaskFinished n i])"
      using rows made by fastforce
  next
    fix m j assume "j \<in> set (claims m log)"
    then show "TaskCreated m j \<in> set (log @ [TaskFinished n i])" "j < dt_next_task db"
      using past by auto
  next
    fix m j k assume "j \<in> set (claims m log)" "k \<in> set (pending_ids m db')"
    then show "j < k" using past p by blast
  next
    fix j assume "j \<in> set (results log @ [i])"
    then show "j < dt_next_task db" using over new(2) by auto
  next
    fix j t assume "j \<in> set (results log @ [i])" "t \<in> set (dt_tasks db')"
    then show "nt_id t = j \<longrightarrow> \<not> unfinished t" using rows over by fastforce
  qed (use ok' sorted once new(1) in simp_all)
qed

lemma serve_task_log:
  assumes "serve env mo r db = (ev, db')" "task_log_ok log db"
  shows "task_log_ok (log @ event_list ev) db'"
proof -
  note inv = task_log_okD [OF assms(2)]
  note ok' = serve_keeps_tasks_ok [OF assms(1) inv(1)]
  show ?thesis
    using assms(1) inv(1)
  proof (cases rule: serve_tasks_cases)
    case quiet
    have p: "pending_ids m db' = pending_ids m db" for m using quiet(1) by (simp add: pending_ids_def)
    show ?thesis
      unfolding task_log_ok_def claims_append results_append quiet_claims [OF quiet(3,4)] append_Nil2 p
      using ok' inv quiet(1) by auto
  next
    case (deleted n)
    have p: "set (pending_ids m db') \<subseteq> set (pending_ids m db)" for m
      unfolding pending_ids_def deleted by auto
    show ?thesis
      unfolding task_log_ok_def claims_append results_append deleted event_list_simps
      using ok' inv p by fastforce
  next
    case (created n t)
    then show ?thesis using task_log_created [OF assms(2) ok' created(2,3,6,7,8,4)] by simp
  next
    case (claimed n i now)
    then show ?thesis using task_log_claimed [OF assms(2) ok'] by simp
  next
    case (finished n i f status)
    then show ?thesis using task_log_finished [OF assms(2) ok' finished(2-5,7-9)] by simp
  qed
qed

interpretation task_log: log_invariant task_log_ok
proof
  show "task_log_ok [] no_rows"
    by (simp add: task_log_ok_def tasks_ok_def no_rows_def pending_ids_def)
qed (rule serve_task_log)

text \<open>
  C16. The remote tasks of every node are a first-in first-out queue, whatever requests are served
  in whatever order: the pending tasks are those an administrator created, less those handed out,
  reported on or deleted with their node, and every poll the node made was answered with the task
  at the head of its queue, or with none when the queue was empty.
\<close>

theorem tasks_are_queues:
  assumes "served env no_rows log db"
  shows "queue_after m log [] = Some (pending_ids m db)"
  using task_queues.holds [OF assms] by blast

text \<open>
  C17. A node is handed its tasks in the order of their creation and no task twice, even where
  requests overlap; only tasks that an administrator created for this node are handed to it; and a
  result is stored at most once for a task, after which the task is no longer open.
\<close>

theorem tasks_claimed_once:
  assumes "served env no_rows log db"
  shows "sorted_wrt (<) (claims m log) \<and> (\<forall>i \<in> set (claims m log). TaskCreated m i \<in> set log) \<and>
    distinct (results log) \<and>
    (\<forall>t \<in> set (dt_tasks db). nt_id t \<in> set (results log) \<longrightarrow> \<not> unfinished t)"
proof -
  note ok = task_log_okD [OF task_log.holds [OF assms]]
  show ?thesis using ok(3) [of m] ok(4) [of _ m] ok(5) ok(6) by blast
qed

end
