(* ===== verification/Api_Node_Log.thy ===== *)
theory Api_Node_Log
  imports Api_Task_Log
begin

text \<open>
  What bootstrap tokens and nodes go through while requests are served: a token is exchanged at
  most once, a node's configuration revisions only grow, its secret is never replaced, and an
  administrator's draining or disabling outlasts the node's own requests.
\<close>

section \<open>Bootstrap tokens\<close>

definition tokens_ok :: "database \<Rightarrow> bool" where
  "tokens_ok db \<longleftrightarrow> rows_ok bt_id (dt_tokens db) (dt_next_token db)"

lemma serve_tokens_cases:
  assumes "serve env mo r db = (ev, db')"
  obtains (quiet) "same_tokens db db'" "\<And>i n. ev \<noteq> Some (TokenCreated i n)" "\<And>i n. ev \<noteq> Some (TokenExchanged i n)"
  | (deleted) n where "ev = Some (NodeDeleted n)" "dt_next_token db' = dt_next_token db"
      "dt_tokens db' = filter (\<lambda>t. bt_node_id t \<noteq> n) (dt_tokens db)"
  | (created) n t where "ev = Some (TokenCreated (bt_id t) n)" "bt_node_id t = n" "bt_id t = dt_next_token db"
      "bt_used_at t = None" "dt_tokens db' = dt_tokens db @ [t]"
      "dt_next_token db' = dt_next_token db + 1" "unat (dt_next_token db) + 1 < 2 ^ 64"
  | (exchanged) t at ip where "ev = Some (TokenExchanged (bt_id t) (bt_node_id t))" "t \<in> set (dt_tokens db)"
      "bt_used_at t = None" "mo_now mo < bt_expires_at t" "dt_next_token db' = dt_next_token db"
      "dt_tokens db' = update_rows (\<lambda>s. bt_id s = bt_id t)
         (\<lambda>s. s\<lparr>bt_used_at := Some at, bt_used_by_ip := ip\<rparr>) (dt_tokens db)"
proof (cases r)
  case (CreateNode admin q)
  show thesis
    using assms(1) unfolding CreateNode serve.simps event_of_eq
    by (intro quiet; cases "admin_create_node (ae_same env) (mo_mysql mo) admin q (mo_seen mo) db")
      (auto elim!: create_node_cases split: sum.splits)
next
  case (UpdateNode admin n q)
  show thesis
    using assms(1) unfolding UpdateNode serve.simps event_of_eq
    by (intro quiet; cases "admin_update_node (ae_same env) (mo_mysql mo) admin n q (mo_seen mo) db")
      (auto elim!: update_node_cases split: sum.splits)
next
  case (DeleteNode admin n)
  obtain x where x: "admin_delete_node (mo_mysql mo) admin n db = (x, db')"
    and ev: "ev = (case x of Inl _ \<Rightarrow> None | Inr _ \<Rightarrow> Some (NodeDeleted n))"
    using assms(1) unfolding DeleteNode serve.simps event_of_eq
    by (cases "admin_delete_node (mo_mysql mo) admin n db") simp
  show thesis using x
  proof (cases rule: delete_node_cases)
    case refused
    then show thesis using quiet ev by simp
  next
    case d: deleted
    then show thesis using deleted [of n] ev by simp
  qed
next
  case (SetNodeStatus admin n s reason)
  show thesis
    using assms(1) unfolding SetNodeStatus serve.simps event_of_eq
    by (intro quiet; cases "admin_update_node_status (mo_mysql mo) admin n s reason (mo_seen mo) db")
      (auto elim!: node_status_cases simp: insert_audit_def update_node_def split: sum.splits)
next
  case (CreateToken admin settings hs n q)
  obtain x where x: "admin_create_bootstrap_token (ae_crypto env) (ae_same env) (mo_mysql mo)
        (mo_random mo) (mo_now mo) admin settings (ae_public_base_url env) hs n q (mo_seen mo) db = (x, db')"
    and ev: "ev = (case x of Inl _ \<Rightarrow> None | Inr c \<Rightarrow> Some (TokenCreated (bc_token_id c) n))"
    using assms(1) unfolding CreateToken serve.simps event_of_eq
    by (cases "admin_create_bootstrap_token (ae_crypto env) (ae_same env) (mo_mysql mo)
        (mo_random mo) (mo_now mo) admin settings (ae_public_base_url env) hs n q (mo_seen mo) db") simp
  show thesis using x
  proof (cases rule: create_token_cases)
    case refused
    then show thesis using quiet ev by simp
  next
    case c: (created c row)
    show thesis by (intro created [of row n]) (use c(1-6,10) ev in simp_all)
  qed
next
  case (Bootstrap hs q)
  obtain x where x: "node_bootstrap (ae_crypto env) (ae_same env) (mo_mysql mo) (mo_now mo)
        (mo_random mo) (ae_public_base_url env) hs q db = (x, db')"
    and ev: "ev = (case x of Inl _ \<Rightarrow> None | Inr (i, response) \<Rightarrow> Some (TokenExchanged i (bs_node_id response)))"
    using assms(1) unfolding Bootstrap serve.simps event_of_eq
    by (cases "node_bootstrap (ae_crypto env) (ae_same env) (mo_mysql mo) (mo_now mo)
        (mo_random mo) (ae_public_base_url env) hs q db") (auto split: sum.splits)
  show thesis using x
  proof (cases rule: bootstrap_cases)
    case refused
    then show thesis using quiet ev by simp
  next
    case e: (exchanged i response panel_url)
    from e(2) show thesis
    proof (rule exchange_token_Inr)
      fix t n secret
      assume "t \<in> set (dt_tokens db)" "bt_used_at t = None" "mo_now mo < bt_expires_at t" "i = bt_id t"
        "bs_node_id response = bt_node_id t"
        "db' = update_node (bt_node_id t) (\<lambda>m. m\<lparr>nd_status := ''installing'', nd_node_secret := Some secret,
             nd_config_revision := max (nd_config_revision n) 1, nd_installed_at := Some (my_now (mo_mysql mo) 2)\<rparr>)
           (db\<lparr>dt_tokens := update_rows (\<lambda>s. bt_id s = bt_id t)
             (\<lambda>s. s\<lparr>bt_used_at := Some (my_now (mo_mysql mo) 1),
               bt_used_by_ip := (case bq_ips q of [] \<Rightarrow> None | ip # _ \<Rightarrow> Some ip)\<rparr>) (dt_tokens db)\<rparr>)"
      then show thesis
        using e(1) ev by (intro exchanged [of t "case bq_ips q of [] \<Rightarrow> None | ip # _ \<Rightarrow> Some ip"
            "my_now (mo_mysql mo) 1"]) (simp_all add: update_node_def)
    qed
  qed
next
  case (Handshake hs body)
  show thesis
    using assms(1) unfolding Handshake serve.simps event_of_eq
    by (intro quiet; cases "node_handshake (ae_crypto env) (mo_mysql mo) (mo_mysql2 mo) (ae_handshake_json env)
        (mo_now mo) (mo_now mo) hs body (mo_seen mo) (mo_later mo) db")
      (auto elim!: handshake_cases simp: update_node_def split: sum.splits)
next
  case (Report hs body)
  show thesis
    using assms(1) unfolding Report serve.simps event_of_eq
    by (intro quiet; cases "node_report (ae_crypto env) (mo_mysql mo) (mo_mysql2 mo) (ae_report_json env)
        (mo_now mo) hs body (mo_seen mo) db")
      (auto elim!: report_cases simp: update_node_def split: sum.splits)
next
  case (CreateTask admin n ty message)
  show thesis
    using assms(1) task_frames(1) unfolding CreateTask serve.simps event_of_eq
    by (intro quiet; cases "admin_create_node_task (mo_mysql mo) admin n ty message (mo_seen mo) db")
      (auto elim!: create_task_cases split: sum.splits)
next
  case (PollTasks hs)
  show thesis
    using assms(1) task_frames(2) unfolding PollTasks serve.simps event_of_eq
    by (intro quiet; cases "node_tasks (ae_crypto env) (mo_mysql mo) (mo_mysql2 mo) (mo_now mo) hs (mo_seen mo) db")
      (auto elim!: poll_cases simp: polled_def split: sum.splits)
next
  case (PostTaskResult hs i body)
  show thesis
    using assms(1) task_frames(3) unfolding PostTaskResult serve.simps event_of_eq
    by (intro quiet; cases "node_task_result (ae_crypto env) (mo_mysql mo) (mo_mysql2 mo) (ae_result_json env)
        (mo_now mo) hs i body (mo_seen mo) db")
      (auto elim!: task_result_cases split: sum.splits)
qed

fun exchanges :: "api_event list \<Rightarrow> u64 list" where
  "exchanges [] = []"
| "exchanges (TokenExchanged i n # es) = i # exchanges es"
| "exchanges (e # es) = exchanges es"

lemma exchanges_append: "exchanges (es @ fs) = exchanges es @ exchanges fs"
  by (induction es rule: exchanges.induct) simp_all

lemma exchanges_mem: "i \<in> set (exchanges log) \<longleftrightarrow> (\<exists>n. TokenExchanged i n \<in> set log)"
  by (induction log rule: exchanges.induct) auto

lemma quiet_exchanges: "(\<And>i n. ev \<noteq> Some (TokenExchanged i n)) \<Longrightarrow> exchanges (event_list ev) = []"
  by (cases ev; cases "the ev") auto

definition token_log_ok :: "api_event list \<Rightarrow> database \<Rightarrow> bool" where
  "token_log_ok log db \<longleftrightarrow> tokens_ok db \<and>
     (\<forall>t \<in> set (dt_tokens db). TokenCreated (bt_id t) (bt_node_id t) \<in> set log) \<and>
     distinct (exchanges log) \<and>
     (\<forall>i n. TokenExchanged i n \<in> set log \<longrightarrow> TokenCreated i n \<in> set log) \<and>
     (\<forall>i \<in> set (exchanges log). i < dt_next_token db \<and>
        (\<forall>t \<in> set (dt_tokens db). bt_id t = i \<longrightarrow> bt_used_at t \<noteq> None))"

lemma token_log_okD:
  assumes "token_log_ok log db"
  shows "rows_ok bt_id (dt_tokens db) (dt_next_token db)"
    "\<And>t. t \<in> set (dt_tokens db) \<Longrightarrow> TokenCreated (bt_id t) (bt_node_id t) \<in> set log"
    "distinct (exchanges log)"
    "\<And>i n. TokenExchanged i n \<in> set log \<Longrightarrow> TokenCreated i n \<in> set log"
    "\<And>i. i \<in> set (exchanges log) \<Longrightarrow> i < dt_next_token db \<and>
       (\<forall>t \<in> set (dt_tokens db). bt_id t = i \<longrightarrow> bt_used_at t \<noteq> None)"
  using assms unfolding token_log_ok_def tokens_ok_def by blast+

lemma token_log_exchanged:
  assumes inv: "token_log_ok log db" and t: "t \<in> set (dt_tokens db)" "bt_used_at t = None"
    and db': "dt_next_token db' = dt_next_token db"
      "dt_tokens db' = update_rows (\<lambda>s. bt_id s = bt_id t)
         (\<lambda>s. s\<lparr>bt_used_at := Some at, bt_used_by_ip := ip\<rparr>) (dt_tokens db)"
  shows "token_log_ok (log @ [TokenExchanged (bt_id t) (bt_node_id t)]) db'"
proof -
  note old = token_log_okD [OF inv]
  have new: "bt_id t \<notin> set (exchanges log)" "bt_id t < dt_next_token db"
    using t old(5) old(1) unfolding rows_ok_def by blast+
  have rows: "\<exists>s0 \<in> set (dt_tokens db). bt_id s = bt_id s0 \<and> bt_node_id s = bt_node_id s0 \<and>
      (bt_used_at s0 \<noteq> None \<or> bt_id s = bt_id t \<longrightarrow> bt_used_at s \<noteq> None)" if mem: "s \<in> set (dt_tokens db')" for s
  proof -
    obtain s0 where s0: "s0 \<in> set (dt_tokens db)"
      "s = (if bt_id s0 = bt_id t then s0\<lparr>bt_used_at := Some at, bt_used_by_ip := ip\<rparr> else s0)"
      using mem unfolding db'(2) set_update_rows by (elim bexE)
    then show ?thesis by (intro bexI [OF _ s0(1)]) auto
  qed
  have log: "exchanges [TokenExchanged (bt_id t) (bt_node_id t)] = [bt_id t]" by simp
  show ?thesis
    unfolding token_log_ok_def exchanges_append log tokens_ok_def db'(1)
  proof (intro conjI ballI allI)
    show "rows_ok bt_id (dt_tokens db') (dt_next_token db)"
      unfolding db'(2) by (rule rows_ok_update [OF old(1)]) simp
  next
    fix s assume "s \<in> set (dt_tokens db')"
    then show "TokenCreated (bt_id s) (bt_node_id s) \<in> set (log @ [TokenExchanged (bt_id t) (bt_node_id t)])"
      using rows old(2) by fastforce
  next
    fix i n
    show "TokenExchanged i n \<in> set (log @ [TokenExchanged (bt_id t) (bt_node_id t)]) \<longrightarrow>
        TokenCreated i n \<in> set (log @ [TokenExchanged (bt_id t) (bt_node_id t)])"
      using old(4) old(2) [OF t(1)] by auto
  next
    fix i assume "i \<in> set (exchanges log @ [bt_id t])"
    then show "i < dt_next_token db" using old(5) new(2) by auto
  next
    fix i s assume "i \<in> set (exchanges log @ [bt_id t])" "s \<in> set (dt_tokens db')"
    then show "bt_id s = i \<longrightarrow> bt_used_at s \<noteq> None" using rows old(5) by fastforce
  qed (use old(3) new(1) in simp)
qed

lemma serve_token_log:
  assumes "serve env mo r db = (ev, db')" "token_log_ok log db"
  shows "token_log_ok (log @ event_list ev) db'"
proof -
  note old = token_log_okD [OF assms(2)]
  show ?thesis
    using assms(1)
  proof (cases rule: serve_tokens_cases)
    case quiet
    have "TokenExchanged i n \<notin> set (event_list ev)" for i n using quiet(3) by (cases ev) auto
    then show ?thesis
      unfolding token_log_ok_def exchanges_append quiet_exchanges [OF quiet(3)] append_Nil2 tokens_ok_def
      using old quiet(1) by auto
  next
    case (deleted n)
    then show ?thesis
      using old rows_ok_filter [OF old(1)] by (auto simp: token_log_ok_def exchanges_append tokens_ok_def)
  next
    case (created n t)
    have up: "i < dt_next_token db + 1" if "i < dt_next_token db" for i
      using that less_next_id [OF created(7)] by auto
    have "bt_id t \<notin> set (exchanges log)" using old(5) created(3) by auto
    then show ?thesis
      using old rows_ok_append [OF old(1) created(7,3)] created up
      by (auto simp: token_log_ok_def exchanges_append tokens_ok_def)
  next
    case (exchanged t at ip)
    then show ?thesis using token_log_exchanged [OF assms(2) exchanged(2,3,5,6)] by simp
  qed
qed

interpretation token_log: log_invariant token_log_ok
proof
  show "token_log_ok [] no_rows" by (simp add: token_log_ok_def tokens_ok_def no_rows_def)
qed (rule serve_token_log)

text \<open>
  C18. A bootstrap token gives out a node's secret at most once, only for the node it was created
  for, and never after it was used or when it has expired, whatever other requests are served.
\<close>

theorem bootstrap_token_used_once:
  assumes "served env no_rows log db" "serve env mo r db = (Some (TokenExchanged i n), db')"
  shows "TokenExchanged i m \<notin> set log \<and> TokenCreated i n \<in> set log \<and>
    (\<exists>t \<in> set (dt_tokens db). bt_id t = i \<and> bt_node_id t = n \<and> bt_used_at t = None \<and>
       mo_now mo < bt_expires_at t)"
proof -
  note ok = token_log_okD [OF token_log.holds [OF assms(1)]]
  have "distinct (exchanges (log @ [TokenExchanged i n]))"
    using token_log_okD(3) [OF serve_token_log [OF assms(2) token_log.holds [OF assms(1)]]] by simp
  then have "TokenExchanged i m \<notin> set log" by (auto simp: exchanges_append exchanges_mem)
  moreover have "\<exists>t \<in> set (dt_tokens db). bt_id t = i \<and> bt_node_id t = n \<and> bt_used_at t = None \<and>
       mo_now mo < bt_expires_at t"
    using assms(2) by (rule serve_tokens_cases) auto
  ultimately show ?thesis using ok(2) by blast
qed

section \<open>Nodes\<close>

definition held :: "node_row \<Rightarrow> bool" where
  "held n \<longleftrightarrow> nd_status n = ''disabled'' \<or> nd_status n = ''draining''"

text \<open>What one request may do to the row of a node.\<close>

definition node_evolves :: "api_event option \<Rightarrow> node_row \<Rightarrow> node_row \<Rightarrow> bool" where
  "node_evolves ev n n' \<longleftrightarrow> nd_id n' = nd_id n \<and> nd_config_revision n \<le> nd_config_revision n' \<and>
     (\<forall>s. nd_node_secret n = Some s \<longrightarrow> trim s \<noteq> [] \<longrightarrow> nd_node_secret n' = Some s) \<and>
     (held n \<longrightarrow> nd_status n' = nd_status n \<or> ev = Some (NodeStatusSet (nd_id n)) \<or>
       (\<exists>i. ev = Some (TokenExchanged i (nd_id n))))"

lemma node_evolves_refl [simp]: "node_evolves ev n n"
  by (simp add: node_evolves_def)

lemma word_le_add_1:
  assumes "(r :: u64) \<noteq> - 1"
  shows "r < r + 1"
proof -
  have "auto_id r = Inr r" using assms by (simp add: auto_id_def)
  then have "unat r + 1 < 2 ^ 64" unfolding auto_id_Inr by simp
  then show ?thesis using less_next_id by blast
qed

lemma evolves_update_network:
  "nd_config_revision n \<noteq> - 1 \<Longrightarrow>
   node_evolves ev n ((set_node_network node n)\<lparr>nd_config_revision := nd_config_revision n + 1\<rparr>)"
  by (simp add: node_evolves_def set_node_network_def held_def less_imp_le word_le_add_1)

lemma evolves_shaken: "node_evolves ev n (shaken my h n)"
  by (simp add: node_evolves_def shaken_def held_def)

lemma evolves_reported: "node_evolves ev n (reported my r n)"
  by (simp add: node_evolves_def reported_def held_def)

lemma evolves_status: "node_evolves (Some (NodeStatusSet (nd_id n))) n (n\<lparr>nd_status := s\<rparr>)"
  by (simp add: node_evolves_def)

lemma evolves_exchange:
  "secret = unwrap_or fresh (filter_option (\<lambda>s. trim s \<noteq> []) (nd_node_secret n)) \<Longrightarrow>
   node_evolves (Some (TokenExchanged i (nd_id n))) n
     (n\<lparr>nd_status := ''installing'', nd_node_secret := Some secret,
        nd_config_revision := max (nd_config_revision n) 1, nd_installed_at := Some at\<rparr>)"
  by (simp add: node_evolves_def)

lemma update_node_rows:
  "dt_nodes (update_node k f db) = update_rows (\<lambda>n. nd_id n = k) f (dt_nodes db)"
  "dt_next_node (update_node k f db) = dt_next_node db"
  by (simp_all add: update_node_def)

abbreviation nodes_ok :: "database \<Rightarrow> bool" where
  "nodes_ok db \<equiv> rows_ok nd_id (dt_nodes db) (dt_next_node db)"

lemma find_node_iff: "nodes_ok db \<Longrightarrow> find_node k db = Some n \<longleftrightarrow> n \<in> set (dt_nodes db) \<and> nd_id n = k"
  unfolding find_node_def by (rule rows_ok_find)

lemma serve_nodes_cases:
  assumes "serve env mo r db = (ev, db')" "nodes_ok db"
  obtains (evolved) k f where "dt_nodes db' = update_rows (\<lambda>n. nd_id n = k) f (dt_nodes db)"
      "\<And>n. n \<in> set (dt_nodes db) \<Longrightarrow> nd_id n = k \<Longrightarrow> node_evolves ev n (f n)"
      "\<And>n. nd_id (f n) = nd_id n"
      "dt_next_node db' = dt_next_node db" "dt_revisions db' = dt_revisions db"
      "\<And>k i. ev \<noteq> Some (NodeUpdated k i)"
  | (updated) k old node where "ev = None \<or> ev = Some (NodeUpdated k (nd_config_revision old + 1))"
      "old \<in> set (dt_nodes db)" "nd_id old = k" "nd_config_revision old \<noteq> - 1"
      "dt_nodes db' = update_rows (\<lambda>n. nd_id n = k)
         (\<lambda>n. (set_node_network node n)\<lparr>nd_config_revision := nd_config_revision n + 1\<rparr>) (dt_nodes db)"
      "dt_next_node db' = dt_next_node db"
      "dt_revisions db' = dt_revisions db @ [\<lparr>cv_node_id = k, cv_revision = nd_config_revision old + 1,
         cv_config = config_json node\<rparr>]"
  | (created) node where "dt_nodes db' = dt_nodes db @ [new_node_row (dt_next_node db) node]"
      "dt_next_node db' = dt_next_node db + 1" "unat (dt_next_node db) + 1 < 2 ^ 64"
      "dt_revisions db' = dt_revisions db" "\<And>k i. ev \<noteq> Some (NodeUpdated k i)"
  | (deleted) k where "dt_nodes db' = filter (\<lambda>n. nd_id n \<noteq> k) (dt_nodes db)"
      "dt_next_node db' = dt_next_node db"
      "dt_revisions db' = filter (\<lambda>v. cv_node_id v \<noteq> k) (dt_revisions db)" "ev = Some (NodeDeleted k)"
proof -
  have same: thesis if "same_nodes db db'" "\<And>k i. ev \<noteq> Some (NodeUpdated k i)"
  proof (rule evolved [of 0 "\<lambda>n. n"])
    show "dt_nodes db' = update_rows (\<lambda>n. nd_id n = 0) (\<lambda>n. n) (dt_nodes db)"
      using that(1) by (simp add: update_rows_def)
  qed (use that in auto)
  show thesis
  proof (cases r)
    case (CreateNode admin q)
    obtain x where x: "admin_create_node (ae_same env) (mo_mysql mo) admin q (mo_seen mo) db = (x, db')"
      and ev: "ev = (case x of Inl _ \<Rightarrow> None | Inr i \<Rightarrow> Some (NodeCreated i))"
      using assms(1) unfolding CreateNode serve.simps event_of_eq
      by (cases "admin_create_node (ae_same env) (mo_mysql mo) admin q (mo_seen mo) db") simp
    show thesis using x
    proof (cases rule: create_node_cases)
      case refused
      then show thesis using same ev by simp
    next
      case c: (created node)
      show thesis by (intro created [of node]) (use c(2,3) ev in \<open>auto split: sum.splits\<close>)
    qed
  next
    case (UpdateNode admin n q)
    obtain x where x: "admin_update_node (ae_same env) (mo_mysql mo) admin n q (mo_seen mo) db = (x, db')"
      and ev: "ev = (case x of Inl _ \<Rightarrow> None | Inr m \<Rightarrow> Some (NodeUpdated n (nd_config_revision m)))"
      using assms(1) unfolding UpdateNode serve.simps event_of_eq
      by (cases "admin_update_node (ae_same env) (mo_mysql mo) admin n q (mo_seen mo) db") simp
    show thesis using x
    proof (cases rule: update_node_cases)
      case refused
      then show thesis using same ev by simp
    next
      case u: (updated node old)
      have old: "old \<in> set (dt_nodes db)" "nd_id old = n" using u(2) find_node_iff [OF assms(2)] by simp_all
      have "find_node n db' = Some ((set_node_network node old)\<lparr>nd_config_revision := nd_config_revision old + 1\<rparr>)"
        using u(2,5) find_node_update [of "\<lambda>n. (set_node_network node n)\<lparr>nd_config_revision := nd_config_revision n + 1\<rparr>" n n db]
        by (simp add: find_node_def set_node_network_def)
      then have e: "ev = None \<or> ev = Some (NodeUpdated n (nd_config_revision old + 1))"
        using u(6) ev by auto
      show thesis by (rule updated [OF e old u(3)]) (simp_all add: u(5) update_node_rows)
    qed
  next
    case (DeleteNode admin n)
    obtain x where x: "admin_delete_node (mo_mysql mo) admin n db = (x, db')"
      and ev: "ev = (case x of Inl _ \<Rightarrow> None | Inr _ \<Rightarrow> Some (NodeDeleted n))"
      using assms(1) unfolding DeleteNode serve.simps event_of_eq
      by (cases "admin_delete_node (mo_mysql mo) admin n db") simp
    show thesis using x
    proof (cases rule: delete_node_cases)
      case refused
      then show thesis using same ev by simp
    next
      case d: (deleted b)
      then show thesis using deleted [of n] ev by simp
    qed
  next
    case (SetNodeStatus admin n s reason)
    obtain x where x: "admin_update_node_status (mo_mysql mo) admin n s reason (mo_seen mo) db = (x, db')"
      and ev: "ev = (case x of Inl _ \<Rightarrow> None | Inr _ \<Rightarrow> Some (NodeStatusSet n))"
      using assms(1) unfolding SetNodeStatus serve.simps event_of_eq
      by (cases "admin_update_node_status (mo_mysql mo) admin n s reason (mo_seen mo) db") simp
    show thesis using x
    proof (cases rule: node_status_cases)
      case refused
      then show thesis using same ev by simp
    next
      case c: (changed t audit y)
      show thesis
        by (rule evolved [of n "\<lambda>m. m\<lparr>nd_status := t\<rparr>"])
          (use c(2,3) ev evolves_status in \<open>auto simp: update_node_rows insert_audit_def\<close>)
    qed
  next
    case (CreateToken admin settings hs n q)
    show thesis
      using assms(1) unfolding CreateToken serve.simps event_of_eq
      by (intro same; cases "admin_create_bootstrap_token (ae_crypto env) (ae_same env) (mo_mysql mo)
          (mo_random mo) (mo_now mo) admin settings (ae_public_base_url env) hs n q (mo_seen mo) db")
        (auto elim!: create_token_cases split: sum.splits)
  next
    case (Bootstrap hs q)
    obtain x where x: "node_bootstrap (ae_crypto env) (ae_same env) (mo_mysql mo) (mo_now mo)
          (mo_random mo) (ae_public_base_url env) hs q db = (x, db')"
      and ev: "ev = (case x of Inl _ \<Rightarrow> None | Inr (i, response) \<Rightarrow> Some (TokenExchanged i (bs_node_id response)))"
      using assms(1) unfolding Bootstrap serve.simps event_of_eq
      by (cases "node_bootstrap (ae_crypto env) (ae_same env) (mo_mysql mo) (mo_now mo)
          (mo_random mo) (ae_public_base_url env) hs q db") (auto split: sum.splits)
    show thesis using x
    proof (cases rule: bootstrap_cases)
      case refused
      then show thesis using same ev by simp
    next
      case e: (exchanged i response panel_url)
      from e(2) show thesis
      proof (rule exchange_token_Inr)
        fix t :: bootstrap_token_row and n :: node_row and secret
        let ?f = "\<lambda>m. m\<lparr>nd_status := ''installing'', nd_node_secret := Some secret,
               nd_config_revision := max (nd_config_revision n) 1, nd_installed_at := Some (my_now (mo_mysql mo) 2)\<rparr>"
        let ?db = "db\<lparr>dt_tokens := update_rows (\<lambda>s. bt_id s = bt_id t)
               (\<lambda>s. s\<lparr>bt_used_at := Some (my_now (mo_mysql mo) 1),
                 bt_used_by_ip := (case bq_ips q of [] \<Rightarrow> None | ip # _ \<Rightarrow> Some ip)\<rparr>) (dt_tokens db)\<rparr>"
        assume "find_node (bt_node_id t) db = Some n" and i: "i = bt_id t" "bs_node_id response = bt_node_id t"
          and secret: "secret = unwrap_or (generate_node_secret (ae_crypto env) (mo_random mo))
            (filter_option (\<lambda>s. trim s \<noteq> []) (nd_node_secret n))"
          and db': "db' = update_node (bt_node_id t) ?f ?db"
        then have n: "n \<in> set (dt_nodes db)" "nd_id n = bt_node_id t" using find_node_iff [OF assms(2)] by simp_all
        have one: "m = n" if "m \<in> set (dt_nodes db)" "nd_id m = bt_node_id t" for m
          using rows_ok_unique [OF assms(2) that(1) n(1)] that n by simp
        have eq: "ev = Some (TokenExchanged (bt_id t) (bt_node_id t))" using e(1) ev i by simp
        show thesis
        proof (rule evolved [of "bt_node_id t" ?f])
          fix m assume "m \<in> set (dt_nodes db)" "nd_id m = bt_node_id t"
          then show "node_evolves ev m (?f m)"
            using one evolves_exchange [OF secret, of "bt_id t"] n eq by auto
        qed (use db' eq in \<open>simp_all add: update_node_rows\<close>)
      qed
    qed
  next
    case (Handshake hs body)
    obtain x where x: "node_handshake (ae_crypto env) (mo_mysql mo) (mo_mysql2 mo) (ae_handshake_json env)
          (mo_now mo) (mo_now mo) hs body (mo_seen mo) (mo_later mo) db = (x, db')"
      and ev: "ev = (case x of Inl _ \<Rightarrow> None | Inr a \<Rightarrow> Some (ShookHands (ha_node_id a)))"
      using assms(1) unfolding Handshake serve.simps event_of_eq
      by (cases "node_handshake (ae_crypto env) (mo_mysql mo) (mo_mysql2 mo) (ae_handshake_json env)
          (mo_now mo) (mo_now mo) hs body (mo_seen mo) (mo_later mo) db") simp
    show thesis using x
    proof (cases rule: handshake_cases)
      case refused
      then show thesis using same ev by simp
    next
      case h: (shaken h)
      show thesis
        by (rule evolved [of "qh_node_id h" "shaken (mo_mysql2 mo) h"])
          (use h(3) ev evolves_shaken in \<open>auto simp: update_node_rows shaken_def split: sum.splits\<close>)
    qed
  next
    case (Report hs body)
    obtain x where x: "node_report (ae_crypto env) (mo_mysql mo) (mo_mysql2 mo) (ae_report_json env)
          (mo_now mo) hs body (mo_seen mo) db = (x, db')"
      and ev: "ev = (case x of Inl _ \<Rightarrow> None | Inr a \<Rightarrow> Some (Reported a))"
      using assms(1) unfolding Report serve.simps event_of_eq
      by (cases "node_report (ae_crypto env) (mo_mysql mo) (mo_mysql2 mo) (ae_report_json env)
          (mo_now mo) hs body (mo_seen mo) db") simp
    show thesis using x
    proof (cases rule: report_cases)
      case refused
      then show thesis using same ev by simp
    next
      case s: (stored q raw row)
      show thesis
        by (rule evolved [of "qr_node_id q" "reported (mo_mysql2 mo) q"])
          (use s(5) ev evolves_reported in \<open>auto simp: update_node_rows reported_def split: sum.splits\<close>)
    qed
  next
    case (CreateTask admin n ty message)
    show thesis
      using assms(1) task_frames(1) unfolding CreateTask serve.simps event_of_eq
      by (intro same; cases "admin_create_node_task (mo_mysql mo) admin n ty message (mo_seen mo) db")
        (auto elim!: create_task_cases split: sum.splits)
  next
    case (PollTasks hs)
    show thesis
      using assms(1) task_frames(2) unfolding PollTasks serve.simps event_of_eq
      by (intro same; cases "node_tasks (ae_crypto env) (mo_mysql mo) (mo_mysql2 mo) (mo_now mo) hs (mo_seen mo) db")
        (auto elim!: poll_cases simp: polled_def split: sum.splits)
  next
    case (PostTaskResult hs i body)
    show thesis
      using assms(1) task_frames(3) unfolding PostTaskResult serve.simps event_of_eq
      by (intro same; cases "node_task_result (ae_crypto env) (mo_mysql mo) (mo_mysql2 mo) (ae_result_json env)
          (mo_now mo) hs i body (mo_seen mo) db")
        (auto elim!: task_result_cases split: sum.splits)
  qed
qed

section \<open>Revisions\<close>

fun updates :: "u64 \<Rightarrow> api_event list \<Rightarrow> u64 list" where
  "updates m [] = []"
| "updates m (NodeUpdated n r # es) = (if n = m then r # updates m es else updates m es)"
| "updates m (e # es) = updates m es"

lemma updates_append: "updates m (es @ fs) = updates m es @ updates m fs"
  by (induction m es rule: updates.induct) simp_all

lemma quiet_updates: "(\<And>n r. ev \<noteq> Some (NodeUpdated n r)) \<Longrightarrow> updates m (event_list ev) = []"
  by (cases ev; cases "the ev") auto

definition node_log_ok :: "api_event list \<Rightarrow> database \<Rightarrow> bool" where
  "node_log_ok log db \<longleftrightarrow> nodes_ok db \<and>
     (\<forall>v \<in> set (dt_revisions db). \<exists>n \<in> set (dt_nodes db).
        nd_id n = cv_node_id v \<and> cv_revision v \<le> nd_config_revision n) \<and>
     (\<forall>m. sorted_wrt (<) (updates m log)) \<and>
     (\<forall>m. \<forall>r \<in> set (updates m log). m < dt_next_node db \<and>
        (\<forall>n \<in> set (dt_nodes db). nd_id n = m \<longrightarrow> r \<le> nd_config_revision n))"

lemma node_log_okD:
  assumes "node_log_ok log db"
  shows "nodes_ok db"
    "\<And>v. v \<in> set (dt_revisions db) \<Longrightarrow> \<exists>n \<in> set (dt_nodes db).
       nd_id n = cv_node_id v \<and> cv_revision v \<le> nd_config_revision n"
    "\<And>m. sorted_wrt (<) (updates m log)"
    "\<And>m r. r \<in> set (updates m log) \<Longrightarrow> m < dt_next_node db \<and>
       (\<forall>n \<in> set (dt_nodes db). nd_id n = m \<longrightarrow> r \<le> nd_config_revision n)"
  using assms unfolding node_log_ok_def by blast+

text \<open>Rows that grow keep what the tables have.\<close>

lemma grown_rows:
  assumes "node_log_ok log db" "dt_nodes db' = update_rows (\<lambda>n. nd_id n = k) f (dt_nodes db)"
    and f: "\<And>n. nd_id (f n) = nd_id n"
      "\<And>n. n \<in> set (dt_nodes db) \<Longrightarrow> nd_id n = k \<Longrightarrow> nd_config_revision n \<le> nd_config_revision (f n)"
    and "dt_next_node db' = dt_next_node db"
  shows "nodes_ok db'"
    "v \<in> set (dt_revisions db) \<Longrightarrow> \<exists>n \<in> set (dt_nodes db').
       nd_id n = cv_node_id v \<and> cv_revision v \<le> nd_config_revision n"
    "r \<in> set (updates m log) \<Longrightarrow> m < dt_next_node db' \<and>
       (\<forall>n \<in> set (dt_nodes db'). nd_id n = m \<longrightarrow> r \<le> nd_config_revision n)"
proof -
  note old = node_log_okD [OF assms(1)]
  show "nodes_ok db'"
    unfolding assms(2,5) by (rule rows_ok_update [OF old(1) f(1)])
  show "\<exists>n \<in> set (dt_nodes db'). nd_id n = cv_node_id v \<and> cv_revision v \<le> nd_config_revision n"
    if v: "v \<in> set (dt_revisions db)"
  proof -
    obtain n where n: "n \<in> set (dt_nodes db)" "nd_id n = cv_node_id v" "cv_revision v \<le> nd_config_revision n"
      using old(2) [OF v] by blast
    let ?n = "if nd_id n = k then f n else n"
    have "?n \<in> set (dt_nodes db')"
      unfolding assms(2) set_update_rows using n(1) by blast
    moreover have "nd_id ?n = cv_node_id v" using n(2) f(1) by simp
    moreover have "cv_revision v \<le> nd_config_revision ?n"
      using n(3) f(2) [OF n(1)] by (simp add: order_trans)
    ultimately show ?thesis by blast
  qed
  show "m < dt_next_node db' \<and> (\<forall>n \<in> set (dt_nodes db'). nd_id n = m \<longrightarrow> r \<le> nd_config_revision n)"
    if r: "r \<in> set (updates m log)"
  proof (intro conjI ballI impI)
    show "m < dt_next_node db'" using old(4) [OF r] assms(5) by simp
    fix n assume "n \<in> set (dt_nodes db')" "nd_id n = m"
    then obtain n0 where n0: "n0 \<in> set (dt_nodes db)" "n = (if nd_id n0 = k then f n0 else n0)"
      unfolding assms(2) set_update_rows by (elim bexE)
    then have "nd_id n0 = m" using \<open>nd_id n = m\<close> f(1) by (simp split: if_splits)
    then have "r \<le> nd_config_revision n0" using old(4) [OF r] n0(1) by blast
    then show "r \<le> nd_config_revision n" using n0 f(2) [OF n0(1)] by (auto intro: order_trans)
  qed
qed

lemma node_log_updated:
  assumes inv: "node_log_ok log db" and ev: "ev = None \<or> ev = Some (NodeUpdated k (nd_config_revision old + 1))"
    and old: "old \<in> set (dt_nodes db)" "nd_id old = k" "nd_config_revision old \<noteq> - 1"
    and nodes: "dt_nodes db' = update_rows (\<lambda>n. nd_id n = k)
         (\<lambda>n. (set_node_network node n)\<lparr>nd_config_revision := nd_config_revision n + 1\<rparr>) (dt_nodes db)"
      "dt_next_node db' = dt_next_node db"
      "dt_revisions db' = dt_revisions db @ [\<lparr>cv_node_id = k, cv_revision = nd_config_revision old + 1,
         cv_config = config_json node\<rparr>]"
  shows "node_log_ok (log @ event_list ev) db'"
proof -
  let ?f = "\<lambda>n. (set_node_network node n)\<lparr>nd_config_revision := nd_config_revision n + 1\<rparr>"
  note was = node_log_okD [OF inv]
  have one: "m = old" if "m \<in> set (dt_nodes db)" "nd_id m = k" for m
    using rows_ok_unique [OF was(1) that(1) old(1)] that old(2) by simp
  have id: "nd_id (?f n) = nd_id n" for n by (simp add: set_node_network_def)
  have grow: "nd_config_revision n \<le> nd_config_revision (?f n)" if "n \<in> set (dt_nodes db)" "nd_id n = k" for n
    using one [OF that] word_le_add_1 [OF old(3)] by (simp add: less_imp_le)
  note rows = grown_rows [OF inv nodes(1) id grow nodes(2)]
  have new: "?f old \<in> set (dt_nodes db')"
    unfolding nodes(1) set_update_rows using old by (intro bexI [OF _ old(1)]) simp
  have only: "n = ?f old" if "n \<in> set (dt_nodes db')" "nd_id n = k" for n
    using rows_ok_unique [OF rows(1) that(1) new] that(2) id old(2) by simp
  have past: "r < nd_config_revision old + 1" if "r \<in> set (updates k log)" for r
    using was(4) [OF that] old word_le_add_1 [OF old(3)] by auto
  have below: "k < dt_next_node db" using was(1) old by (auto simp: rows_ok_def)
  have e: "updates m (event_list ev) = [] \<or> m = k \<and> updates m (event_list ev) = [nd_config_revision old + 1]" for m
    using ev by (cases "m = k") auto
  show ?thesis
    unfolding node_log_ok_def updates_append
  proof (intro conjI allI ballI impI)
    fix v assume "v \<in> set (dt_revisions db')"
    then consider "v \<in> set (dt_revisions db)" | "cv_node_id v = k" "cv_revision v = nd_config_revision old + 1"
      using nodes(3) by auto
    then show "\<exists>n \<in> set (dt_nodes db'). nd_id n = cv_node_id v \<and> cv_revision v \<le> nd_config_revision n"
    proof cases
      case 2
      then show ?thesis by (intro bexI [OF _ new]) (simp add: id old(2))
    qed (rule rows(2))
  next
    fix m show "sorted_wrt (<) (updates m log @ updates m (event_list ev))"
      using e [of m] was(3) [of m] past by (auto simp: sorted_wrt_append)
  next
    fix m r assume "r \<in> set (updates m log @ updates m (event_list ev))"
    then consider "r \<in> set (updates m log)" | "m = k" "r = nd_config_revision old + 1"
      using e [of m] by auto
    then show "m < dt_next_node db'" using rows(3) below nodes(2) by cases auto
  next
    fix m r n assume "r \<in> set (updates m log @ updates m (event_list ev))"
      and n: "n \<in> set (dt_nodes db')" "nd_id n = m"
    then consider "r \<in> set (updates m log)" | "m = k" "r = nd_config_revision old + 1"
      using e [of m] by auto
    then show "r \<le> nd_config_revision n"
    proof cases
      case 1 then show ?thesis using rows(3) n by blast
    next
      case 2
      then have "n = ?f old" using only n by blast
      then show ?thesis using 2 by simp
    qed
  qed (rule rows(1))
qed

lemma serve_node_log:
  assumes "serve env mo r db = (ev, db')" "node_log_ok log db"
  shows "node_log_ok (log @ event_list ev) db'"
proof -
  note was = node_log_okD [OF assms(2)]
  show ?thesis
    using assms(1) was(1)
  proof (cases rule: serve_nodes_cases)
    case (evolved k f)
    have "nd_config_revision n \<le> nd_config_revision (f n)" if "n \<in> set (dt_nodes db)" "nd_id n = k" for n
      using evolved(2) [OF that] by (simp add: node_evolves_def)
    note rows = grown_rows [OF assms(2) evolved(1,3) this evolved(4)]
    show ?thesis
      unfolding node_log_ok_def updates_append quiet_updates [OF evolved(6)] append_Nil2 evolved(5)
      using rows was(3) by blast
  next
    case (updated k old node)
    then show ?thesis by (intro node_log_updated [OF assms(2)]) simp_all
  next
    case (created node)
    have up: "k < dt_next_node db + 1" if "k < dt_next_node db" for k
      using that less_next_id [OF created(3)] by auto
    have id: "nd_id (new_node_row (dt_next_node db) node) = dt_next_node db" by (simp add: new_node_row_def)
    have fresh: "m \<noteq> dt_next_node db" if "r \<in> set (updates m log)" for m r using was(4) [OF that] by auto
    show ?thesis
      unfolding node_log_ok_def updates_append quiet_updates [OF created(5)] append_Nil2 created(1,2,4)
      using rows_ok_append [OF was(1) created(3) id] was(2,3,4) up id fresh by auto
  next
    case (deleted k)
    have "updates m [NodeDeleted k] = []" for m by simp
    then show ?thesis
      unfolding node_log_ok_def updates_append deleted event_list_simps
      using rows_ok_filter [OF was(1)] was(2,3,4) by fastforce
  qed
qed

interpretation node_log: log_invariant node_log_ok
proof
  show "node_log_ok [] no_rows" by (simp add: node_log_ok_def no_rows_def)
qed (rule serve_node_log)

text \<open>
  Each accepted edit of a node gets a revision above those of all edits before it, the node's
  row is never below the last of them, and no stored revision of the node is above its row, so
  the unique key of the revision table never refuses an edit; this holds whatever revisions the
  node claims in its handshakes and reports.
\<close>

theorem config_revisions_grow:
  assumes "served env no_rows log db"
  shows "sorted_wrt (<) (updates m log) \<and>
    (\<forall>n \<in> set (dt_nodes db). nd_id n = m \<longrightarrow>
       (\<forall>r \<in> set (updates m log). r \<le> nd_config_revision n) \<and>
       (\<forall>v \<in> set (dt_revisions db). cv_node_id v = m \<longrightarrow> cv_revision v \<le> nd_config_revision n))"
proof -
  note ok = node_log_okD [OF node_log.holds [OF assms]]
  have "cv_revision v \<le> nd_config_revision n"
    if v: "v \<in> set (dt_revisions db)" "cv_node_id v = m" and n: "n \<in> set (dt_nodes db)" "nd_id n = m" for n v
  proof -
    obtain n' where n': "n' \<in> set (dt_nodes db)" "nd_id n' = cv_node_id v" "cv_revision v \<le> nd_config_revision n'"
      using ok(2) [OF v(1)] by blast
    then have "n' = n" using rows_ok_unique [OF ok(1) n'(1) n(1)] v(2) n(2) by simp
    then show ?thesis using n'(3) by simp
  qed
  then show ?thesis using ok(3,4) by blast
qed

lemma serve_evolves:
  assumes "served env no_rows log db" "serve env mo r db = (ev, db')"
    and "n \<in> set (dt_nodes db)" "n' \<in> set (dt_nodes db')" "nd_id n' = nd_id n"
  shows "node_evolves ev n n'"
proof -
  note ok = node_log_okD [OF node_log.holds [OF assms(1)]]
  have one: "s = n" if "s \<in> set (dt_nodes db)" "nd_id s = nd_id n" for s
    using rows_ok_unique [OF ok(1) that(1) assms(3)] that(2) by simp
  show "node_evolves ev n n'"
    using assms(2) ok(1)
  proof (cases rule: serve_nodes_cases)
    case (evolved k f)
    obtain s where s: "s \<in> set (dt_nodes db)" "n' = (if nd_id s = k then f s else s)"
      using assms(4) unfolding evolved(1) set_update_rows by (elim bexE)
    then have "s = n" using one assms(5) evolved(3) by (simp split: if_splits)
    then show ?thesis using s evolved(2) by simp
  next
    case (updated k old node)
    obtain s where s: "s \<in> set (dt_nodes db)"
      "n' = (if nd_id s = k then (set_node_network node s)\<lparr>nd_config_revision := nd_config_revision s + 1\<rparr> else s)"
      using assms(4) unfolding updated(5) set_update_rows by (elim bexE)
    then have "nd_id n' = nd_id s" by (simp add: set_node_network_def)
    then have n: "s = n" using one s(1) assms(5) by simp
    have "nd_id n = k \<Longrightarrow> n = old" using rows_ok_unique [OF ok(1) assms(3) updated(2)] updated(3) by simp
    then show ?thesis using s n updated(4) evolves_update_network by auto
  next
    case (created node)
    have "nd_id n \<noteq> dt_next_node db" by (rule rows_ok_fresh [OF ok(1) assms(3)])
    then have "n' \<in> set (dt_nodes db)"
      using assms(4,5) unfolding created(1) by (auto simp: new_node_row_def)
    then have "n' = n" using one assms(5) by blast
    then show ?thesis by simp
  next
    case (deleted k)
    have "n' \<in> set (dt_nodes db)" using assms(4) unfolding deleted(1) by simp
    then have "n' = n" using one assms(5) by blast
    then show ?thesis by simp
  qed
qed

text \<open>
  C19. No request lowers a node's configuration revision or replaces its secret once it has one,
  so its signatures stay good; and a node that an administrator has disabled or is draining stays
  so, whatever the node itself sends, until an administrator sets another status or the node is
  installed again with a bootstrap token.
\<close>

theorem node_rows_evolve:
  assumes "served env no_rows log db" "serve env mo r db = (ev, db')"
    and "n \<in> set (dt_nodes db)" "n' \<in> set (dt_nodes db')" "nd_id n' = nd_id n"
  shows "nd_config_revision n \<le> nd_config_revision n' \<and>
    (\<forall>s. nd_node_secret n = Some s \<longrightarrow> trim s \<noteq> [] \<longrightarrow> nd_node_secret n' = Some s) \<and>
    (nd_status n = ''disabled'' \<or> nd_status n = ''draining'' \<longrightarrow> nd_status n' = nd_status n \<or>
       ev = Some (NodeStatusSet (nd_id n)) \<or> (\<exists>i. ev = Some (TokenExchanged i (nd_id n))))"
  using serve_evolves [OF assms] unfolding node_evolves_def held_def by blast

end
