(* ===== verification/Interop_Nodes.thy ===== *)
theory Interop_Nodes
  imports Api_Node_Log Interop
begin

text \<open>
  The node and the control API over the life of a node: the secret a bootstrap token gives out
  authenticates the node for as long as it exists, and an edit by an administrator is a
  configuration that the node reads, validates and takes over.
\<close>

section \<open>Runs that continue\<close>

lemma served_append:
  "served env b log' c \<Longrightarrow> served env a log b \<Longrightarrow> served env a (log @ log') c"
proof (induction rule: served.induct)
  case (request log' db mo r ev db')
  then show ?case using served.request [OF request.IH [OF request.prems] request.hyps(2)] by simp
qed simp

definition secret_is :: "u64 \<Rightarrow> string \<Rightarrow> database \<Rightarrow> bool" where
  "secret_is k s db \<longleftrightarrow> k < dt_next_node db \<and>
     (\<forall>n \<in> set (dt_nodes db). nd_id n = k \<longrightarrow> nd_node_secret n = Some s)"

lemma serve_next_node:
  assumes "serve env mo r db = (ev, db')" "nodes_ok db"
  shows "dt_next_node db \<le> dt_next_node db'"
    and "n' \<in> set (dt_nodes db') \<Longrightarrow> nd_id n' < dt_next_node db \<Longrightarrow>
      \<exists>n \<in> set (dt_nodes db). nd_id n = nd_id n'"
proof -
  show "dt_next_node db \<le> dt_next_node db'"
    using assms less_next_id by (cases rule: serve_nodes_cases) (auto simp: less_imp_le)
  assume n': "n' \<in> set (dt_nodes db')" "nd_id n' < dt_next_node db"
  show "\<exists>n \<in> set (dt_nodes db). nd_id n = nd_id n'"
    using assms
  proof (cases rule: serve_nodes_cases)
    case (evolved k f)
    then show ?thesis using n'(1) unfolding evolved(1) set_update_rows by fastforce
  next
    case (updated k old node)
    then show ?thesis using n'(1) unfolding updated(5) set_update_rows
      by (fastforce simp: set_node_network_def)
  next
    case (created node)
    then show ?thesis using n' by (auto simp: new_node_row_def)
  next
    case (deleted k)
    then show ?thesis using n'(1) by auto
  qed
qed

lemma serve_secret:
  assumes "served env no_rows log db" "serve env mo r db = (ev, db')" "secret_is k s db" "trim s \<noteq> []"
  shows "secret_is k s db'"
  unfolding secret_is_def
proof (intro conjI ballI impI)
  note ok = node_log_okD(1) [OF node_log.holds [OF assms(1)]]
  show "k < dt_next_node db'"
    using serve_next_node(1) [OF assms(2) ok] assms(3) by (auto simp: secret_is_def)
  fix n' assume n': "n' \<in> set (dt_nodes db')" "nd_id n' = k"
  then obtain n where n: "n \<in> set (dt_nodes db)" "nd_id n = nd_id n'"
    using serve_next_node(2) [OF assms(2) ok] assms(3) by (auto simp: secret_is_def)
  have "node_evolves ev n n'" by (rule serve_evolves [OF assms(1,2) n(1) n'(1)]) (simp add: n(2))
  then show "nd_node_secret n' = Some s"
    using n n'(2) assms(3,4) by (auto simp: node_evolves_def secret_is_def)
qed

lemma served_secret:
  "served env db0 log' db \<Longrightarrow> served env no_rows log db0 \<Longrightarrow> secret_is k s db0 \<Longrightarrow> trim s \<noteq> [] \<Longrightarrow>
   secret_is k s db"
proof (induction rule: served.induct)
  case (request log' db mo r ev db')
  then show ?case using serve_secret [OF served_append [OF request.hyps(1) request.prems(1)]] by blast
qed

lemma bootstrap_secret:
  assumes "node_bootstrap cx same my now random url hs r db = (Inr (i, response), db')" "nodes_ok db"
  shows "secret_is (bs_node_id response) (bs_node_secret response) db'" "find_node (bs_node_id response) db' \<noteq> None"
proof -
  obtain panel_url where "exchange_bootstrap_token cx same my now random r panel_url db = Inr (i, response, db')"
    using assms(1) by (auto elim: bootstrap_cases)
  then obtain t :: bootstrap_token_row and n :: node_row and secret where f: "find_node (bt_node_id t) db = Some n" "bs_node_id response = bt_node_id t"
    "bs_node_secret response = secret" and
    db': "db' = update_node (bt_node_id t) (\<lambda>m. m\<lparr>nd_status := ''installing'', nd_node_secret := Some secret,
         nd_config_revision := max (nd_config_revision n) 1, nd_installed_at := Some (my_now my 2)\<rparr>)
       (db\<lparr>dt_tokens := update_rows (\<lambda>s. bt_id s = bt_id t)
         (\<lambda>s. s\<lparr>bt_used_at := Some (my_now my 1),
           bt_used_by_ip := (case bq_ips r of [] \<Rightarrow> None | ip # _ \<Rightarrow> Some ip)\<rparr>) (dt_tokens db)\<rparr>)"
    by (elim exchange_token_Inr) (rule that; assumption)
  have n: "n \<in> set (dt_nodes db)" "nd_id n = bt_node_id t" using f(1) find_node_iff [OF assms(2)] by simp_all
  then have below: "bt_node_id t < dt_next_node db" using assms(2) by (auto simp: rows_ok_def)
  have "nd_node_secret m = Some secret" if m: "m \<in> set (dt_nodes db')" "nd_id m = bt_node_id t" for m
  proof -
    let ?f = "\<lambda>m. m\<lparr>nd_status := ''installing'', nd_node_secret := Some secret,
         nd_config_revision := max (nd_config_revision n) 1, nd_installed_at := Some (my_now my 2)\<rparr>"
    obtain m0 where m0: "m = (if nd_id m0 = bt_node_id t then ?f m0 else m0)"
      using m(1) unfolding db' update_node_rows set_update_rows by (elim bexE)
    show ?thesis
    proof (cases "nd_id m0 = bt_node_id t")
      case True
      then have m: "m = ?f m0" using m0 by simp
      have "nd_node_secret (?f m0) = Some secret" by simp
      then show ?thesis unfolding m .
    next
      case False
      then show ?thesis using m0 m(2) by simp
    qed
  qed
  then show "secret_is (bs_node_id response) (bs_node_secret response) db'"
    using below by (simp add: secret_is_def f(2,3) db' update_node_rows)
  show "find_node (bs_node_id response) db' \<noteq> None"
    unfolding f(2) db' using f(1) by (simp add: find_node_update) (simp add: find_node_def)
qed

text \<open>
  C14. The secret a bootstrap token gives out stays the node's credential: whatever requests were
  served before and are served after the exchange, as long as the node is not deleted, a request
  that the node signs with that secret is authenticated as that node's.
\<close>

theorem bootstrapped_node_authenticates:
  assumes "served env no_rows log db"
    and "serve env mo (Bootstrap hs r) db = (ev, db1)" "served env db1 log' db2"
    and "node_bootstrap (ae_crypto env) (ae_same env) (mo_mysql mo) (mo_now mo) (mo_random mo)
      (ae_public_base_url env) hs r db = (Inr (i, response), db1)" "trim (bs_node_secret response) \<noteq> []"
    and "find_node (bs_node_id response) db2 \<noteq> None" "my_fault my 0 = Inr ()"
    and "ca_crypto c = ae_crypto env" "ca_node_id c = bs_node_id response" "ca_secret c = bs_node_secret response"
    and "b64_roundtrip (ca_crypto c)" "next_nonce (ca_process_id c) ts ctr = (nonce, ctr')"
    and "sign_request (ca_crypto c) verb path ts nonce body (ca_secret c) = Inr s"
    and "ts \<noteq> 0" "abs_diff ts now \<le> 300"
  shows "authenticated (ae_crypto env) my now db2
      (received_headers (signed_http_request c verb path json_body ts nonce body s)) verb path body =
    Inr (bs_node_id response)"
proof -
  note ok = node_log_okD(1) [OF node_log.holds [OF assms(1)]]
  have "served env no_rows (log @ event_list ev) db1" using assms(1,2) by (rule served.request)
  then have "secret_is (bs_node_id response) (bs_node_secret response) db2"
    using served_secret [OF assms(3)] bootstrap_secret(1) [OF assms(4) ok] assms(5) by blast
  moreover obtain n where n: "find_node (bs_node_id response) db2 = Some n" using assms(6) by blast
  moreover have "n \<in> set (dt_nodes db2) \<and> nd_id n = bs_node_id response"
    using find_Some_set n unfolding find_node_def by fast
  ultimately have "nd_node_secret n = Some (bs_node_secret response)" by (simp add: secret_is_def)
  moreover have "bs_node_secret response \<noteq> []" using assms(5) by auto
  ultimately have "select_node_secret db2 (ca_node_id c) = Some (ca_secret c)"
    using n assms(9,10) by (simp add: select_node_secret_def)
  then have "stmt my 0 (select_node_secret db2 (ca_node_id c)) = Inr (Some (ca_secret c))"
    using assms(7) by simp
  then have "authenticate_node_request (ca_crypto c) (\<lambda>node_id. stmt my 0 (select_node_secret db2 node_id)) now
      (received_headers (signed_http_request c verb path json_body ts nonce body s)) verb path body =
    Inr (ca_node_id c)"
    using next_nonce_printable [OF assms(12)] by (intro signed_request_authenticates_aux assms) simp_all
  then show ?thesis by (simp add: authenticated_def assms(8,9))
qed

section \<open>Configurations\<close>

text \<open>
  What the node's \<open>RemoteNetworkConfig\<close> reads from the network of a reply: ports must fit 16
  bits and the quality must be one of its three; the node then copies the fields.
\<close>

definition quality_of_text :: "string \<Rightarrow> bandwidth_quality option" where
  "quality_of_text q = (if q = ''fast'' then Some Fast else if q = ''normal'' then Some Normal
     else if q = ''slow'' then Some Slow else None)"

definition port_16 :: "u32 \<Rightarrow> u16 option" where
  "port_16 p = (if p \<le> 65535 then Some (ucast p) else None)"

definition decoded_network :: "network_response \<Rightarrow> network_config option" where
  "decoded_network w =
     Option.bind (port_16 (nw_server_port w)) (\<lambda>port.
     Option.bind (case nw_relay_server_port w of None \<Rightarrow> Some None | Some p \<Rightarrow> map_option Some (port_16 p))
       (\<lambda>relay_port.
     Option.bind (quality_of_text (nw_bandwidth_quality w)) (\<lambda>quality.
     Some \<lparr>server_ip = nw_server_ip w, listen_ip = Some (nw_listen_ip w), server_port = port,
           relay_server_ip = nw_relay_server_ip w, relay_server_port = relay_port,
           is_support_ipv6 = nw_is_support_ipv6 w, disable_quic = nw_disable_quic w, area = nw_area w,
           bandwidth_quality = quality, tag = nw_tag w,
           operator_ips = Some \<lparr>telecom_ip = oq_telecom_ip (nw_operator_ips w),
             mobile_ip = oq_mobile_ip (nw_operator_ips w), unicom_ip = oq_unicom_ip (nw_operator_ips w)\<rparr>\<rparr>)))"

lemma validate_port_Inr: "validate_port p field = Inr q \<longleftrightarrow> q = p \<and> 1 \<le> p \<and> p \<le> 65535"
  by (auto simp: validate_port_def)

lemma normalized_node:
  assumes "normalize_create_node_request r = Inr node"
  shows "nn_server_ip node = trim (an_server_ip r)" "trim (nn_server_ip node) \<noteq> []"
    "nn_server_port node = an_server_port r" "1 \<le> nn_server_port node" "nn_server_port node \<le> 65535"
    "nn_bandwidth_quality node \<in> {''fast'', ''normal'', ''slow''}"
    "nn_relay_server_port node = Some p \<Longrightarrow> p \<le> 65535"
proof -
  from assms obtain ip relay where n: "normalize_ip_text (an_server_ip r) ''server_ip'' = Inr ip"
    "validate_port (an_server_port r) ''server_port'' = Inr (nn_server_port node)"
    "optional_port (an_relay_server_port r) ''relay_server_port'' = Inr relay"
    "nn_server_ip node = ip" "nn_relay_server_port node = relay"
    "nn_bandwidth_quality node \<in> {''fast'', ''normal'', ''slow''}"
    unfolding normalize_create_node_request_def Let_def by (auto split: if_splits)
  then show "nn_server_ip node = trim (an_server_ip r)" "trim (nn_server_ip node) \<noteq> []"
    "nn_server_port node = an_server_port r" "1 \<le> nn_server_port node" "nn_server_port node \<le> 65535"
    "nn_bandwidth_quality node \<in> {''fast'', ''normal'', ''slow''}"
    using ip_text.norm_value [OF n(1)] ip_text.accepted_trimmed [OF n(1)]
    by (auto simp: validate_port_Inr)
  show "nn_relay_server_port node = Some p \<Longrightarrow> p \<le> 65535"
    using n(3,5) by (auto simp: optional_port_def validate_port_Inr split: option.splits)
qed

lemma listen_any: "trim ''0.0.0.0'' = ''0.0.0.0''" "parse_ip_addr ''0.0.0.0'' = Some (V4 0)"
proof -
  have "printable ''0.0.0.0''" by (simp add: code_of_def)
  then show "trim ''0.0.0.0'' = ''0.0.0.0''" by simp
  have "show_nat 0 = ''0''" by (simp add: show_radix.simps digit_char_def char_of_def bit_Suc_0_iff)
  then show "parse_ip_addr ''0.0.0.0'' = Some (V4 0)"
    using parse_ip_addr_show_ipv4 [of 0] by (simp add: show_ipv4_def Let_def)
qed

text \<open>A text of a request as it is stored: without surrounding white space, and nothing if empty.\<close>

definition request_text :: "string option \<Rightarrow> string option" where
  "request_text t = (case t of None \<Rightarrow> None | Some s \<Rightarrow> if trim s = [] then None else Some (trim s))"

lemma nonempty_stored: "nonempty_text t = request_text t"
  by (cases t) (simp_all add: nonempty_text_def request_text_def)

lemma optional_text_Inr: "normalize_optional_text t n = Inr x \<Longrightarrow> x = request_text t"
  by (auto simp: normalize_optional_text_def nonempty_stored split: option.splits if_splits)

lemma optional_ip_Inr: "normalize_optional_ip_text t field = Inr x \<Longrightarrow> x = request_text t"
  by (auto simp: normalize_optional_ip_text_def split: option.splits dest!: optional_text_Inr)

text \<open>The network of an edit, field by field, as the API stores and sends it.\<close>

definition network_of_edit :: "admin_create_node_request \<Rightarrow> network_response" where
  "network_of_edit r =
     \<lparr>nw_server_ip = trim (an_server_ip r), nw_listen_ip = ''0.0.0.0'', nw_server_port = an_server_port r,
      nw_relay_server_ip = request_text (an_relay_server_ip r),
      nw_relay_server_port = an_relay_server_port r,
      nw_is_support_ipv6 = (an_is_support_ipv6 r = Some True),
      nw_disable_quic = (an_disable_quic r = Some True),
      nw_area = (case request_text (an_area r) of None \<Rightarrow> ''UNKNOWN'' | Some a \<Rightarrow> a),
      nw_bandwidth_quality = (case request_text (an_bandwidth_quality r) of None \<Rightarrow> ''normal'' | Some q \<Rightarrow> q),
      nw_tag = request_text (an_tag r),
      nw_operator_ips = \<lparr>oq_telecom_ip = request_text (an_telecom_ip r),
        oq_mobile_ip = request_text (an_mobile_ip r), oq_unicom_ip = request_text (an_unicom_ip r)\<rparr>\<rparr>"

lemma unwrap_or_False: "(case b of None \<Rightarrow> False | Some y \<Rightarrow> y) \<longleftrightarrow> b = Some True"
  by (cases b) auto

lemma unwrap_or_case: "unwrap_or d x = (case x of None \<Rightarrow> d | Some y \<Rightarrow> y)"
  by (cases x) simp_all

lemma edit_stored:
  assumes "normalize_create_node_request r = Inr node"
  shows "network_response_of (set_node_network node old) = network_of_edit r"
proof -
  from assms obtain relay_ip relay_port area telecom mobile unicom tag where
    norm: "normalize_optional_ip_text (an_relay_server_ip r) ''relay_server_ip'' = Inr relay_ip"
      "optional_port (an_relay_server_port r) ''relay_server_port'' = Inr relay_port"
      "normalize_optional_text (an_area r) 32 = Inr area"
      "normalize_optional_ip_text (an_telecom_ip r) ''telecom_ip'' = Inr telecom"
      "normalize_optional_ip_text (an_mobile_ip r) ''mobile_ip'' = Inr mobile"
      "normalize_optional_ip_text (an_unicom_ip r) ''unicom_ip'' = Inr unicom"
      "normalize_optional_text (an_tag r) 64 = Inr tag"
    and fields: "nn_relay_server_ip node = relay_ip" "nn_relay_server_port node = relay_port"
      "nn_is_support_ipv6 node = unwrap_or False (an_is_support_ipv6 r)"
      "nn_bandwidth_quality node = unwrap_or ''normal'' (nonempty_text (an_bandwidth_quality r))"
      "nn_disable_quic node = unwrap_or False (an_disable_quic r)" "nn_area node = unwrap_or ''UNKNOWN'' area"
      "nn_telecom_ip node = telecom" "nn_mobile_ip node = mobile" "nn_unicom_ip node = unicom" "nn_tag node = tag"
    unfolding normalize_create_node_request_def Let_def by (auto split: if_splits)
  have relay: "relay_port = an_relay_server_port r"
    using norm(2) by (auto simp: optional_port_def validate_port_Inr split: option.splits)
  note texts = norm(1) [THEN optional_ip_Inr] norm(3) [THEN optional_text_Inr]
    norm(4-6) [THEN optional_ip_Inr] norm(7) [THEN optional_text_Inr]
  show ?thesis
    by (simp add: network_response_of_def set_node_network_def network_of_edit_def fields texts relay
        normalized_node(1,3) [OF assms] unwrap_or_False unwrap_or_case nonempty_stored)
qed

text \<open>What the node makes of it.\<close>

definition network_read_by_node :: "admin_create_node_request \<Rightarrow> network_config \<Rightarrow> bool" where
  "network_read_by_node r n \<longleftrightarrow>
     server_ip n = trim (an_server_ip r) \<and> listen_ip n = Some ''0.0.0.0'' \<and>
     unat (server_port n) = unat (an_server_port r) \<and>
     relay_server_ip n = request_text (an_relay_server_ip r) \<and>
     map_option unat (relay_server_port n) = map_option unat (an_relay_server_port r) \<and>
     (is_support_ipv6 n \<longleftrightarrow> an_is_support_ipv6 r = Some True) \<and>
     (disable_quic n \<longleftrightarrow> an_disable_quic r = Some True) \<and>
     area n = (case request_text (an_area r) of None \<Rightarrow> ''UNKNOWN'' | Some a \<Rightarrow> a) \<and>
     bandwidth_quality n = (case request_text (an_bandwidth_quality r) of
         None \<Rightarrow> Normal
       | Some q \<Rightarrow> if q = ''fast'' then Fast else if q = ''slow'' then Slow else Normal) \<and>
     tag n = request_text (an_tag r) \<and>
     operator_ips n = Some \<lparr>telecom_ip = request_text (an_telecom_ip r),
       mobile_ip = request_text (an_mobile_ip r), unicom_ip = request_text (an_unicom_ip r)\<rparr>"

lemma small_port: "unat (ucast p :: u16) = unat p" if "p \<le> 65535" for p :: u32
  using that by (simp add: unsigned_ucast_eq word_le_nat_alt take_bit_nat_eq_self)

lemma edited_network:
  assumes "normalize_create_node_request r = Inr node"
  obtains n where "decoded_network (network_of_edit r) = Some n" "validate_network n = Inr ()"
    "network_read_by_node r n"
proof -
  note n = normalized_node [OF assms]
  have sent: "nw_server_ip (network_of_edit r) = nn_server_ip node"
    "nw_relay_server_port (network_of_edit r) = nn_relay_server_port node"
    "nw_bandwidth_quality (network_of_edit r) = nn_bandwidth_quality node"
    using edit_stored [OF assms, of undefined, symmetric]
    by (simp_all add: network_response_of_def set_node_network_def)
  have port: "port_16 (an_server_port r) = Some (ucast (an_server_port r))"
    using n(3,5) by (simp add: port_16_def)
  have small: "unat (ucast (an_server_port r) :: u16) = unat (an_server_port r)"
    using n(3,5) by (simp add: small_port)
  then have nonzero: "(ucast (an_server_port r) :: u16) \<noteq> 0"
    using n(3,4) by (auto simp: word_le_nat_alt word_unat_eq_iff)
  have quality: "quality_of_text (nw_bandwidth_quality (network_of_edit r)) =
      Some (case request_text (an_bandwidth_quality r) of None \<Rightarrow> Normal
        | Some q \<Rightarrow> if q = ''fast'' then Fast else if q = ''slow'' then Slow else Normal)"
    using n(6) unfolding sent(3) [symmetric]
    by (auto simp: quality_of_text_def network_of_edit_def split: option.splits)
  have low: "p \<le> 65535" if "an_relay_server_port r = Some p" for p
    using n(7) [of p] sent(2) that by (simp add: network_of_edit_def)
  have relay: "(case an_relay_server_port r of None \<Rightarrow> Some None | Some p \<Rightarrow> map_option Some (port_16 p)) =
      Some (map_option ucast (an_relay_server_port r))"
    "map_option unat (map_option ucast (an_relay_server_port r) :: u16 option) =
      map_option unat (an_relay_server_port r)"
    using low by (cases "an_relay_server_port r"; simp add: port_16_def small_port)+
  have sent_port: "nw_server_port (network_of_edit r) = an_server_port r"
    "nw_relay_server_port (network_of_edit r) = an_relay_server_port r"
    by (simp_all add: network_of_edit_def)
  define n where "n = the (decoded_network (network_of_edit r))"
  have n_is: "decoded_network (network_of_edit r) = Some n"
    unfolding n_def decoded_network_def sent_port port relay(1) quality by simp
  note read = n_is [unfolded decoded_network_def sent_port port relay(1) quality Option.bind.simps option.inject, symmetric]
  have fields: "network_read_by_node r n"
    unfolding network_read_by_node_def read using small relay(2) by (simp add: network_of_edit_def)
  moreover have "validate_network n = Inr ()"
    unfolding validate_network_iff using fields nonzero n(1,2)
    by (simp add: network_read_by_node_def listen_any) (simp add: read)
  ultimately have "decoded_network (network_of_edit r) = Some n \<and> validate_network n = Inr () \<and>
      network_read_by_node r n" using n_is by simp
  then show thesis using that by blast
qed

text \<open>
  C15. An edit reaches the node. Once an administrator's edit is accepted, the configuration the
  node fetches has the revision after the one the node had, and every field of its network is the
  edit's: addresses, ports, the relay, IPv6, QUIC, area, quality, tag and the three operators'
  addresses, without surrounding white space and with the defaults where the edit leaves one out.
  The node can read it, field by field as it was sent, its own validation accepts it, and if the
  revision is newer than the node's it takes it over: either all of it at once, or, when the
  listener's address changes, all but that, with a restart marked as required.
\<close>

theorem edit_reaches_node:
  assumes "served env no_rows log db"
    and "admin_update_node same my admin k r seen db = (Inr row, db')"
    and "node_config cx my1 my2 now time hs seen' db' = Inr reply" "cr_node_id reply = k"
    and "lock_value (rs_runtime_config st) = Some c" "rcs_config_revision c < cr_config_revision reply"
  shows "\<exists>old n c' m. find_node k db = Some old \<and>
    unat (cr_config_revision reply) = unat (nd_config_revision old) + 1 \<and>
    cr_config_revision reply = nd_config_revision row \<and> cr_network reply = network_of_edit r \<and>
    decoded_network (cr_network reply) = Some n \<and> validate_network n = Inr () \<and> network_read_by_node r n \<and>
    lock_value (rs_runtime_config (snd (apply_remote_network_config (cr_config_revision reply) n st))) = Some c' \<and>
    rcs_config_revision c' = cr_config_revision reply \<and> rcs_network c' = Some m \<and>
    (m = n \<or> rcs_restart_required c' \<and>
       m\<lparr>server_ip := server_ip n, listen_ip := listen_ip n, server_port := server_port n\<rparr> = n)"
proof -
  note ok = node_log_okD(1) [OF node_log.holds [OF assms(1)]]
  from assms(2) obtain node old where e: "normalize_create_node_request r = Inr node" "find_node k db = Some old"
    "nd_config_revision old \<noteq> - 1" "find_node k db' = Some row" and
    db': "db' = (update_node k
          (\<lambda>n. (set_node_network node n)\<lparr>nd_config_revision := nd_config_revision n + 1\<rparr>) db)
        \<lparr>dt_revisions := dt_revisions db @ [\<lparr>cv_node_id = k, cv_revision = nd_config_revision old + 1,
           cv_config = config_json node\<rparr>]\<rparr>"
    by (auto elim: update_node_cases)
  let ?f = "\<lambda>n. (set_node_network node n)\<lparr>nd_config_revision := nd_config_revision n + 1\<rparr>"
  have "find_node k db' = map_option ?f (find_node k db)"
    unfolding db' using find_node_update [of ?f k k db] by (simp add: find_node_def set_node_network_def)
  then have row: "row = ?f old" using e(2,4) by simp
  have id: "nd_id old = k" using e(2) find_node_iff [OF ok] by simp
  from assms(3,4) obtain x where x: "find_node (nd_id x) db' = Some x" "reply = node_config_reply_of time x" "nd_id x = k"
    using find_Some_set unfolding node_config_def find_node_def
    by (fastforce simp: node_config_reply_of_def)
  then have reply: "reply = node_config_reply_of time row" using e(4) by simp
  have "1 \<le> nd_config_revision row"
    using word_le_add_1 [OF e(3)] unfolding row by (simp add: word_less_nat_alt word_le_nat_alt)
  then have revision: "cr_config_revision reply = nd_config_revision row"
    by (simp add: reply node_config_reply_of_def max_def)
  have next_one: "unat (cr_config_revision reply) = unat (nd_config_revision old) + 1"
    using unatSuc [of "nd_config_revision old"] e(3)
    by (simp add: revision row add_eq_0_iff add.commute)
  have "cr_network reply = network_response_of (set_node_network node old)"
    by (simp add: reply row node_config_reply_of_def network_response_of_def)
  then have network: "cr_network reply = network_of_edit r"
    by (simp only: edit_stored [OF e(1)])
  from e(1) obtain n where n: "decoded_network (cr_network reply) = Some n" "validate_network n = Inr ()"
    "network_read_by_node r n"
    unfolding network by (rule edited_network)
  let ?c = "next_config (cr_config_revision reply) n c"
  let ?m = "merge_network (unwrap_or n (rcs_network c)) n"
  have "lock_value (rs_runtime_config (snd (apply_remote_network_config (cr_config_revision reply) n st))) = Some ?c"
    by (rule apply_locked [OF assms(5)])
  moreover have "rcs_config_revision ?c = cr_config_revision reply" "rcs_network ?c = Some ?m"
    "rcs_restart_required ?c = (rcs_restart_required c \<or> network_listener_changed (unwrap_or n (rcs_network c)) n)"
    using assms(6) unfolding next_config_def by (simp_all add: not_le [symmetric])
  moreover have "?m = n \<or> network_listener_changed (unwrap_or n (rcs_network c)) n \<and>
      ?m\<lparr>server_ip := server_ip n, listen_ip := listen_ip n, server_port := server_port n\<rparr> = n"
    by (simp add: merge_network_def Let_def)
  ultimately show ?thesis using e(2) next_one revision network n by blast
qed

end
