(* ===== verification/Example_Service.thy ===== *)
theory Example_Service
  imports Interop_Nodes
begin

text \<open>
  A concrete run of the node endpoints for the instances of their properties: an administrator
  registers a node and hands out a token, the installer exchanges it, the administrator orders a
  restart, the node polls for it with a signed request, and the administrator edits the node.
\<close>

definition run_mysql :: mysql where
  "run_mysql = \<lparr>my_fault = (\<lambda>_. Inr ()), my_now = (\<lambda>_. 1000), my_from_unixtime = Some\<rparr>"

lemma run_mysql_simps [simp]:
  "my_fault run_mysql i = Inr ()" "my_now run_mysql i = 1000" "my_from_unixtime run_mysql t = Some t"
  by (simp_all add: run_mysql_def)

definition run_env :: api_env where
  "run_env = \<lparr>ae_crypto = demo_crypto, ae_same = (=), ae_public_base_url = Some ''https://panel'',
     ae_handshake_json = (\<lambda>_. None), ae_report_json = (\<lambda>_. None), ae_result_json = (\<lambda>_. None)\<rparr>"

lemma run_env_simps [simp]:
  "ae_crypto run_env = demo_crypto" "ae_same run_env = (=)" "ae_public_base_url run_env = Some ''https://panel''"
  by (simp_all add: run_env_def)

text \<open>Requests that see the tables they change.\<close>

definition run_moment :: "database \<Rightarrow> moment" where
  "run_moment db = \<lparr>mo_mysql = run_mysql, mo_mysql2 = run_mysql, mo_now = 1000, mo_random = ''r'',
     mo_seen = db, mo_later = id\<rparr>"

lemma run_moment_simps [simp]:
  "mo_mysql (run_moment db) = run_mysql" "mo_mysql2 (run_moment db) = run_mysql"
  "mo_now (run_moment db) = 1000" "mo_random (run_moment db) = ''r''" "mo_seen (run_moment db) = db"
  by (simp_all add: run_moment_def)

definition run_admin :: "(app_error, admin_actor) result" where
  "run_admin = Inr (bootstrap_actor ''root'')"

definition run_node :: "u32 \<Rightarrow> admin_create_node_request" where
  "run_node port = \<lparr>an_name = ''n'', an_server_ip = ''10.0.0.1'', an_server_port = port,
     an_relay_server_ip = None, an_relay_server_port = None, an_is_support_ipv6 = None,
     an_bandwidth_quality = None, an_disable_quic = None, an_area = None, an_telecom_ip = None,
     an_mobile_ip = None, an_unicom_ip = None, an_tag = None\<rparr>"

definition run_normal :: "u32 \<Rightarrow> normalized_create_node" where
  "run_normal port = \<lparr>nn_name = ''n'', nn_server_ip = ''10.0.0.1'', nn_server_port = port,
     nn_relay_server_ip = None, nn_relay_server_port = None, nn_is_support_ipv6 = False,
     nn_bandwidth_quality = ''normal'', nn_disable_quic = False, nn_area = ''UNKNOWN'',
     nn_telecom_ip = None, nn_mobile_ip = None, nn_unicom_ip = None, nn_tag = None\<rparr>"

lemma run_ip: "parse_ip_addr ''10.0.0.1'' = Some (V4 0x0A000001)"
proof -
  have "show_nat 10 = ''10''" "show_nat 1 = ''1''" "show_nat 0 = ''0''"
    by (simp_all add: show_radix.simps digit_char_def char_of_def bit_Suc_0_iff)
  then show ?thesis
    using parse_ip_addr_show_ipv4 [of "0x0A000001"] by (simp add: show_ipv4_def Let_def)
qed

lemma run_normalized:
  assumes "1 \<le> port" "port \<le> 65535"
  shows "normalize_create_node_request (run_node port) = Inr (run_normal port)"
proof -
  have "normalize_required_text ''n'' ''name'' 128 = Inr ''n''"
    by (simp add: normalize_required_text_Inr) (simp add: code_of_def char_count_def is_cont_def)
  moreover have "normalize_ip_text ''10.0.0.1'' ''server_ip'' = Inr ''10.0.0.1''"
    unfolding normalize_ip_text_def bind_result_Inr_iff normalize_required_text_Inr
    using run_ip by (simp add: code_of_def char_count_def is_cont_def)
  ultimately show ?thesis
    using assms by (simp add: normalize_create_node_request_def run_node_def run_normal_def
        validate_port_def optional_port_def normalize_optional_ip_text_def normalize_optional_text_def)
qed

section \<open>The run\<close>

definition run_row :: node_row where "run_row = new_node_row 1 (run_normal 9000)"

definition run_token :: string where "run_token = generate_bootstrap_token demo_crypto ''r''"

definition run_created :: database where
  "run_created = no_rows\<lparr>dt_nodes := [run_row], dt_next_node := 2\<rparr>"

lemma run_find [simp]: "find_node 1 run_created = Some run_row"
  by (simp add: run_created_def find_node_def run_row_def new_node_row_def)

lemma serve_create:
  "serve run_env (run_moment no_rows) (CreateNode run_admin (run_node 9000)) no_rows =
     (Some (NodeCreated 1), run_created)"
proof -
  have "admin_create_node (=) run_mysql run_admin (run_node 9000) no_rows no_rows = (Inr 1, run_created)"
    by (simp add: admin_create_node_def run_admin_def insert_admin_node_def run_normalized stmt_def
        select_node_id_by_endpoint_def no_rows_def auto_id_def run_created_def run_row_def find_node_def
        new_node_row_def)
  then show ?thesis by (simp add: event_of_def)
qed

definition run_token_row :: bootstrap_token_row where
  "run_token_row = \<lparr>bt_id = 1, bt_node_id = 1, bt_token_hash = hash_bootstrap_token demo_crypto run_token,
     bt_expires_at = 4600, bt_used_at = None, bt_used_by_ip = None, bt_created_by = None\<rparr>"

definition run_tokens :: database where
  "run_tokens = run_created\<lparr>dt_tokens := [run_token_row], dt_next_token := 2\<rparr>"

definition run_settings :: install_settings where
  "run_settings = \<lparr>is_node_install_url = ''https://i'', is_node_artifact_url = None,
     is_node_sha256_url = None, is_release_download_mode = ''standard_first''\<rparr>"

definition run_token_request :: create_bootstrap_token_request where
  "run_token_request = \<lparr>ct_expires_in_sec = None, ct_created_by = None, ct_public_base_url = None,
     ct_install_url = None, ct_enable_control_plane = None, ct_channel = None\<rparr>"

lemma serve_token:
  "serve run_env (run_moment run_created) (CreateToken run_admin (Inr run_settings) [] 1 run_token_request)
     run_created = (Some (TokenCreated 1 1), run_tokens)"
proof -
  have "create_bootstrap_token demo_crypto (=) run_mysql ''r'' 1 None 4600 run_created run_created =
      Inr (run_token, 1, run_tokens)"
    by (simp add: create_bootstrap_token_def Let_def stmt_def foreign_key_def required_time_def auto_id_def
        run_tokens_def run_token_row_def run_token_def) (simp add: run_created_def no_rows_def)
  then show ?thesis
    by (simp add: event_of_def admin_create_bootstrap_token_def run_admin_def run_token_request_def
        optional_arg_def resolve_public_base_url_def clamp_bootstrap_ttl_def Let_def)
qed

definition run_bootstrap :: bootstrap_request where
  "run_bootstrap = \<lparr>bq_bootstrap_token = run_token, bq_hostname = ''h'', bq_os = ''linux'',
     bq_arch = ''x86_64'', bq_kernel = ''6'', bq_ips = [''10.0.0.1''], bq_installer_version = ''1''\<rparr>"

definition run_secret :: string where "run_secret = generate_node_secret demo_crypto ''r''"

definition run_installed_row :: node_row where
  "run_installed_row = run_row\<lparr>nd_status := ''installing'', nd_node_secret := Some run_secret,
     nd_config_revision := 1, nd_installed_at := Some 1000\<rparr>"

definition run_installed :: database where
  "run_installed = run_created\<lparr>dt_nodes := [run_installed_row], dt_next_token := 2,
     dt_tokens := [run_token_row\<lparr>bt_used_at := Some 1000, bt_used_by_ip := Some ''10.0.0.1''\<rparr>]\<rparr>"

definition run_response :: bootstrap_response where
  "run_response = \<lparr>bs_node_id = 1, bs_node_secret = run_secret, bs_panel_url = ''https://panel'',
     bs_server_ip = ''10.0.0.1'', bs_server_port = 9000, bs_config_revision = 1,
     bs_network = network_response_of run_row\<rparr>"

lemma run_bootstrapped:
  "node_bootstrap demo_crypto (=) run_mysql 1000 ''r'' (Some ''https://panel'') [] run_bootstrap run_tokens =
     (Inr (1, run_response), run_installed)"
proof -
  have row: "nd_node_secret run_row = None" "nd_config_revision run_row = 1" "nd_id run_row = 1"
    "nd_server_ip run_row = ''10.0.0.1''" "nd_server_port run_row = 9000"
    by (simp_all add: run_row_def new_node_row_def run_normal_def)
  have "printable run_token"
    by (simp add: run_token_def generate_bootstrap_token_def demo_crypto_def code_of_def)
  then have token: "trim run_token \<noteq> []"
    by (simp add: run_token_def generate_bootstrap_token_def)
  have texts: "trim ''h'' \<noteq> []" "trim ''6'' \<noteq> []" "trim ''1'' \<noteq> []"
    by (simp_all add: code_of_def)
  have valid: "validate_bootstrap_request run_bootstrap = Inr ()"
    using token texts by (simp add: validate_bootstrap_request_def run_bootstrap_def)
  have node: "find_node 1 run_tokens = Some run_row"
    using run_find by (simp add: run_tokens_def find_node_def)
  have "exchange_bootstrap_token demo_crypto (=) run_mysql 1000 ''r'' run_bootstrap ''https://panel'' run_tokens =
      Inr (1, run_response, run_installed)"
    using node row
    by (simp add: exchange_bootstrap_token_def Let_def run_bootstrap_def run_tokens_def run_token_row_def stmt_def
        run_response_def run_installed_def run_installed_row_def run_secret_def update_node_def run_created_def
        word_less_nat_alt word_le_nat_alt)
  then show ?thesis by (simp add: node_bootstrap_def valid resolve_public_base_url_def)
qed

lemma serve_bootstrap:
  "serve run_env (run_moment run_tokens) (Bootstrap [] run_bootstrap) run_tokens =
     (Some (TokenExchanged 1 1), run_installed)"
  using run_bootstrapped by (simp add: event_of_def run_response_def)

lemma served_tokens: "served run_env no_rows [NodeCreated 1, TokenCreated 1 1] run_tokens"
proof -
  have "served run_env no_rows ([] @ event_list (Some (NodeCreated 1))) run_created"
    by (rule served.request [OF served.started serve_create])
  then have "served run_env no_rows (([] @ event_list (Some (NodeCreated 1))) @
      event_list (Some (TokenCreated 1 1))) run_tokens"
    by (rule served.request [OF _ serve_token])
  then show ?thesis by simp
qed

lemma served_installed: "served run_env no_rows [NodeCreated 1, TokenCreated 1 1, TokenExchanged 1 1] run_installed"
  using served.request [OF served_tokens serve_bootstrap] by simp

theorem bootstrap_token_used_once_witness:
  "\<exists>t \<in> set (dt_tokens run_tokens). bt_id t = 1 \<and> bt_node_id t = 1 \<and> bt_used_at t = None \<and> 1000 < bt_expires_at t"
  using bootstrap_token_used_once [OF served_tokens serve_bootstrap] by auto

section \<open>A task\<close>

definition run_task :: node_task_row where
  "run_task = \<lparr>nt_id = 1, nt_node_id = 1, nt_task_type = ''restart_node'', nt_status = ''pending'',
     nt_message = None, nt_output = None, nt_error_message = None, nt_created_at = Some 1000,
     nt_claimed_at = None, nt_started_at = None, nt_finished_at = None\<rparr>"

lemma served_task:
  "\<exists>db. served run_env no_rows [NodeCreated 1, TokenCreated 1 1, TokenExchanged 1 1, TaskCreated 1 1] db \<and>
     dt_tasks db = [run_task] \<and> dt_nodes db = [run_installed_row] \<and> dt_next_task db = 2"
proof -
  have node: "find_node 1 run_installed \<noteq> None"
    by (simp add: run_installed_def run_installed_row_def run_row_def new_node_row_def find_node_def)
  have ty: "validate_admin_node_task_type ''restart_node'' = Inr ''restart_node''"
    by (simp add: validate_admin_node_task_type_def word_of_def code_of_def)
  obtain db where i: "insert_admin_node_task run_mysql 1 ''restart_node'' None (bootstrap_actor ''root'')
      run_installed run_installed = Inr (run_task, db)" and
    db: "dt_tasks db = [run_task]" "dt_nodes db = [run_installed_row]" "dt_next_task db = 2"
  proof -
    let ?audit = "\<lparr>al_node_id = 1, al_actor_type = audit_actor_type (bootstrap_actor ''root''),
        al_actor_id = None, al_action = ''node.task.create'', al_detail = JObject
          [(''task_id'', JNumber (show_u64 1)), (''task_type'', JString ''restart_node''),
           (''message'', json_text None)]\<rparr>"
    let ?db = "insert_audit ?audit (run_installed\<lparr>dt_tasks := [run_task], dt_next_task := 2\<rparr>)"
    have tasks: "dt_tasks run_installed = []" "dt_next_task run_installed = 1"
      by (simp_all add: run_installed_def run_created_def no_rows_def)
    have "insert_admin_node_task run_mysql 1 ''restart_node'' None (bootstrap_actor ''root'')
        run_installed run_installed = Inr (run_task, ?db)"
      using node tasks
      by (simp add: insert_admin_node_task_def Let_def ensure_admin_node_exists_def stmt_def foreign_key_def
          auto_id_def insert_node_audit_def bootstrap_actor_def select_node_task_for_update_def run_task_def
          find_node_def)
    moreover have "dt_nodes ?db = [run_installed_row]" by (simp add: run_installed_def)
    ultimately show thesis using that by simp
  qed
  have "serve run_env (run_moment run_installed) (CreateTask run_admin 1 ''restart_node'' None) run_installed =
      (Some (TaskCreated 1 1), db)"
    using i ty by (simp add: event_of_def admin_create_node_task_def run_admin_def stored_text_def run_task_def)
  from served.request [OF served_installed this] db show ?thesis by auto
qed

definition run_caller :: caller where
  "run_caller = sample_caller\<lparr>ca_node_id := 1, ca_secret := run_secret\<rparr>"

lemma run_caller_simps [simp]:
  "ca_crypto run_caller = demo_crypto" "ca_node_id run_caller = 1" "ca_secret run_caller = run_secret"
  by (simp_all add: run_caller_def sample_caller_def)

lemma run_signed:
  "\<exists>s. sign_request (ca_crypto run_caller) verb path ts nonce body (ca_secret run_caller) = Inr s"
  by (simp add: sign_request_def Let_def demo_crypto_def)

lemma run_secret_text: "trim run_secret \<noteq> []"
  by (simp add: run_secret_def generate_node_secret_def demo_crypto_def) (simp add: hex_encode_def)

theorem bootstrapped_node_authenticates_witness:
  "\<exists>nonce s. authenticated demo_crypto run_mysql 1200 run_installed
     (received_headers (signed_http_request run_caller ''GET'' node_tasks_path False 1000 nonce [] s))
     ''GET'' node_tasks_path [] = Inr 1"
proof -
  obtain nonce ctr' where n: "next_nonce (ca_process_id run_caller) 1000 5 = (nonce, ctr')"
    by (rule prod.exhaust)
  obtain s where s: "sign_request (ca_crypto run_caller) ''GET'' node_tasks_path 1000 nonce [] (ca_secret run_caller) = Inr s"
    using run_signed by blast
  have found: "find_node (bs_node_id run_response) run_installed \<noteq> None"
    by (simp add: run_response_def run_installed_def run_installed_row_def run_row_def new_node_row_def find_node_def)
  have exchanged: "node_bootstrap (ae_crypto run_env) (ae_same run_env) (mo_mysql (run_moment run_tokens))
      (mo_now (run_moment run_tokens)) (mo_random (run_moment run_tokens)) (ae_public_base_url run_env) []
      run_bootstrap run_tokens = (Inr (1, run_response), run_installed)"
    using run_bootstrapped by simp
  have secret: "trim (bs_node_secret run_response) \<noteq> []" using run_secret_text by (simp add: run_response_def)
  have "abs_diff (1000 :: u64) 1200 \<le> 300"
    by (simp add: abs_diff_def word_less_nat_alt word_le_nat_alt)
  then show ?thesis
    using bootstrapped_node_authenticates [OF served_tokens serve_bootstrap served.started exchanged secret found
      _ _ _ _ _ n s, of run_mysql 1200 False]
    by (auto simp: run_response_def)
qed

text \<open>The poll of the installed node.\<close>

lemma served_poll:
  "\<exists>db. served run_env no_rows [NodeCreated 1, TokenCreated 1 1, TokenExchanged 1 1, TaskCreated 1 1,
       TasksPolled 1 (Some 1)] db"
proof -
  obtain db where run: "served run_env no_rows [NodeCreated 1, TokenCreated 1 1, TokenExchanged 1 1, TaskCreated 1 1] db"
    and db: "dt_tasks db = [run_task]" "dt_nodes db = [run_installed_row]"
    using served_task by blast
  obtain nonce ctr' where n: "next_nonce (ca_process_id run_caller) 1000 5 = (nonce, ctr')"
    by (rule prod.exhaust)
  obtain s where s: "sign_request (ca_crypto run_caller) ''GET'' node_tasks_path 1000 nonce [] (ca_secret run_caller) = Inr s"
    using run_signed by blast
  let ?hs = "received_headers (signed_http_request run_caller ''GET'' node_tasks_path False 1000 nonce [] s)"
  have "run_secret \<noteq> []" using run_secret_text by auto
  then have "stmt run_mysql 0 (select_node_secret db (ca_node_id run_caller)) = Inr (Some (ca_secret run_caller))"
    by (simp add: select_node_secret_def find_node_def db run_installed_row_def run_row_def new_node_row_def)
  then have auth: "authenticated demo_crypto run_mysql 1000 db ?hs ''GET'' node_tasks_path [] = Inr 1"
    using signed_request_authenticates_aux [OF _ s, where now = 1000 and json_body = False and
        select_secret = "\<lambda>k. stmt run_mysql 0 (select_node_secret db k)"] next_nonce_printable [OF n]
    by (simp add: authenticated_def abs_diff_def)
  have pending: "next_pending 1 (dt_tasks db) = Some 1"
    by (simp add: next_pending_def db run_task_def)
  obtain task db' where claim: "claim_next_node_task run_mysql 1 db = Inr (Some task, db')" "nt_id task = 1"
    unfolding claim_next_node_task_def pending
    by (simp add: stmt_def select_node_task_for_update_def db run_task_def)
  have "serve run_env (run_moment db) (PollTasks ?hs) db = (Some (TasksPolled 1 (Some 1)), db')"
    using auth claim by (simp add: event_of_def node_tasks_def polled_def node_task_item_of_def)
  from served.request [OF run this] show ?thesis by auto
qed

theorem tasks_are_queues_witness:
  "\<exists>db. served run_env no_rows [NodeCreated 1, TokenCreated 1 1, TokenExchanged 1 1, TaskCreated 1 1,
       TasksPolled 1 (Some 1)] db \<and> pending_ids 1 db = []"
proof -
  obtain db where run: "served run_env no_rows [NodeCreated 1, TokenCreated 1 1, TokenExchanged 1 1, TaskCreated 1 1,
       TasksPolled 1 (Some 1)] db"
    using served_poll by blast
  from tasks_are_queues [OF run, of 1] run show ?thesis by (auto simp: first_id_def)
qed

theorem tasks_claimed_once_witness:
  "\<exists>log db. served run_env no_rows log db \<and> claims 1 log = [1] \<and> TaskCreated 1 1 \<in> set log"
proof -
  let ?log = "[NodeCreated 1, TokenCreated 1 1, TokenExchanged 1 1, TaskCreated 1 1, TasksPolled 1 (Some 1)]"
  obtain db where run: "served run_env no_rows ?log db" using served_poll by blast
  have "claims 1 ?log = [1]" by simp
  with tasks_claimed_once [OF run, of 1] run show ?thesis by (intro exI [of _ ?log] exI [of _ db]) auto
qed

section \<open>An edit\<close>

definition run_edited_row :: node_row where
  "run_edited_row = (set_node_network (run_normal 9001) run_installed_row)\<lparr>nd_config_revision := 2\<rparr>"

definition run_edited :: database where
  "run_edited = run_installed\<lparr>dt_nodes := [run_edited_row], dt_revisions :=
     [\<lparr>cv_node_id = 1, cv_revision = 2, cv_config = config_json (run_normal 9001)\<rparr>]\<rparr>"

lemma run_edit:
  "admin_update_node (=) run_mysql run_admin 1 (run_node 9001) run_installed run_installed =
     (Inr run_edited_row, run_edited)"
proof -
  have row: "nd_id run_installed_row = 1" "nd_config_revision run_installed_row = 1"
    by (simp_all add: run_installed_row_def run_row_def new_node_row_def)
  have db: "dt_nodes run_installed = [run_installed_row]" "dt_revisions run_installed = []"
    by (simp_all add: run_installed_def run_created_def no_rows_def)
  have edited: "nd_id run_edited_row = 1"
    by (simp add: run_edited_row_def set_node_network_def row)
  have "update_admin_node_config (=) run_mysql 1 (run_node 9001) run_installed run_installed = Inr run_edited"
    using row db
    by (simp add: update_admin_node_config_def run_normalized stmt_def select_node_id_by_endpoint_def
        find_node_def update_node_def Let_def run_edited_def run_edited_row_def)
  moreover have "find_node 1 run_edited = Some run_edited_row"
    using edited by (simp add: find_node_def run_edited_def)
  ultimately show ?thesis by (simp add: admin_update_node_def run_admin_def stmt_def)
qed

lemma serve_edit:
  "serve run_env (run_moment run_installed) (UpdateNode run_admin 1 (run_node 9001)) run_installed =
     (Some (NodeUpdated 1 2), run_edited)"
  using run_edit by (simp add: event_of_def run_edited_row_def)

lemma served_edited:
  "served run_env no_rows [NodeCreated 1, TokenCreated 1 1, TokenExchanged 1 1, NodeUpdated 1 2] run_edited"
  using served.request [OF served_installed serve_edit] by simp

lemma run_rows:
  "run_installed_row \<in> set (dt_nodes run_installed)" "run_edited_row \<in> set (dt_nodes run_edited)"
  "nd_id run_edited_row = 1" "nd_id run_installed_row = 1"
  by (simp_all add: run_installed_def run_edited_def run_edited_row_def set_node_network_def run_installed_row_def
      run_row_def new_node_row_def)

theorem config_revisions_grow_witness:
  "2 \<le> nd_config_revision run_edited_row"
  using config_revisions_grow [OF served_edited, of 1] run_rows by auto

theorem node_rows_evolve_witness:
  "nd_node_secret run_edited_row = Some run_secret"
proof -
  have "nd_id run_edited_row = nd_id run_installed_row" by (simp add: run_rows)
  from node_rows_evolve [OF served_installed serve_edit run_rows(1,2) this] show ?thesis
    using run_secret_text by (simp add: run_installed_row_def)
qed

theorem edit_reaches_node_witness:
  "\<exists>hs reply n c'. node_config demo_crypto run_mysql run_mysql 1000 1000 hs run_edited run_edited = Inr reply \<and>
     decoded_network (cr_network reply) = Some n \<and> unat (server_port n) = 9001 \<and>
     lock_value (rs_runtime_config (snd (apply_remote_network_config 2 n sample_state))) = Some c' \<and>
     rcs_config_revision c' = 2"
proof -
  obtain nonce ctr' where n: "next_nonce (ca_process_id run_caller) 1000 5 = (nonce, ctr')"
    by (rule prod.exhaust)
  obtain s where s: "sign_request (ca_crypto run_caller) ''GET'' node_config_path 1000 nonce [] (ca_secret run_caller) = Inr s"
    using run_signed by blast
  let ?hs = "received_headers (signed_http_request run_caller ''GET'' node_config_path False 1000 nonce [] s)"
  let ?reply = "node_config_reply_of 1000 run_edited_row"
  have found: "find_node 1 run_edited = Some run_edited_row"
    using run_rows(3) by (simp add: find_node_def run_edited_def)
  have "run_secret \<noteq> []" using run_secret_text by auto
  moreover have "nd_node_secret run_edited_row = Some run_secret"
    by (simp add: run_edited_row_def set_node_network_def run_installed_row_def)
  ultimately have "stmt run_mysql 0 (select_node_secret run_edited (ca_node_id run_caller)) = Inr (Some (ca_secret run_caller))"
    by (simp add: select_node_secret_def found)
  then have "authenticated demo_crypto run_mysql 1000 run_edited ?hs ''GET'' node_config_path [] = Inr 1"
    using signed_request_authenticates_aux [OF _ s, where now = 1000 and json_body = False and
        select_secret = "\<lambda>k. stmt run_mysql 0 (select_node_secret run_edited k)"] next_nonce_printable [OF n]
    by (simp add: authenticated_def abs_diff_def)
  then have fetched: "node_config demo_crypto run_mysql run_mysql 1000 1000 ?hs run_edited run_edited = Inr ?reply"
    by (simp add: node_config_def found)
  have id: "cr_node_id ?reply = 1" using run_rows(3) by (simp add: node_config_reply_of_def)
  have revision: "cr_config_revision ?reply = 2"
    by (simp add: node_config_reply_of_def run_edited_row_def max_def word_le_nat_alt)
  have older: "rcs_config_revision \<lparr>rcs_config_revision = 1, rcs_network = Some (sample_network 9000),
      rcs_restart_required = False\<rparr> < cr_config_revision ?reply"
    unfolding revision by (simp add: word_less_nat_alt)
  have port: "unat (an_server_port (run_node 9001)) = 9001" by (simp add: run_node_def)
  from edit_reaches_node [OF served_installed run_edit fetched id sample_state_config older]
  obtain n c' where "decoded_network (cr_network ?reply) = Some n" "network_read_by_node (run_node 9001) n"
    "lock_value (rs_runtime_config (snd (apply_remote_network_config 2 n sample_state))) = Some c'"
    "rcs_config_revision c' = 2"
    unfolding revision by blast
  with fetched port show ?thesis by (auto simp: network_read_by_node_def)
qed

end
