(* ===== verification/Api_Operations.thy ===== *)
theory Api_Operations
  imports Api_Ssh
begin

text \<open>
  The operation tasks of \<open>control-api/src/main.rs\<close>: one row for every action an administrator runs
  on a node, the wait for the node's report after an upgrade, and the handlers that run an action
  or deploy a node. A handler that waits returns an option: \<open>None\<close> would be a wait without end.
\<close>

section \<open>Operation tasks\<close>

definition operation_row_shown :: "operations \<Rightarrow> operation_task_row \<Rightarrow> (operation_task_row \<times> node_row) option" where
  "operation_row_shown ops t = map_option (Pair t) (find_node (ot_node_id t) (op_db ops))"

text \<open>The select joins the node of the task.\<close>

definition select_operation_task ::
  "mysql \<Rightarrow> nat \<Rightarrow> operations \<Rightarrow> u64 \<Rightarrow> (app_error, (operation_task_row \<times> node_row) option) result"
where
  "select_operation_task my i ops task_id =
     stmt my i (Option.bind (find (\<lambda>t. ot_id t = task_id) (op_tasks ops)) (operation_row_shown ops))"

definition select_operation_tasks ::
  "mysql \<Rightarrow> nat \<Rightarrow> operations \<Rightarrow> u64 option \<Rightarrow> string option \<Rightarrow> u32 \<Rightarrow>
   (app_error, (operation_task_row \<times> node_row) list) result"
where
  "select_operation_tasks my i ops node_id status limit =
     stmt my i (take (unat limit) (filter (\<lambda>(t, n).
         (case node_id of None \<Rightarrow> True | Some m \<Rightarrow> ot_node_id t = m) \<and>
         (case status of None \<Rightarrow> True | Some s \<Rightarrow> ot_status t = s))
       (List.map_filter (operation_row_shown ops) (rev (op_tasks ops)))))"

definition insert_operation_task ::
  "mysql \<Rightarrow> nat \<Rightarrow> u64 \<Rightarrow> string \<Rightarrow> string \<Rightarrow> operations \<Rightarrow> (app_error, u64 \<times> operations) result"
where
  "insert_operation_task my i node_id action command_label ops =
     bind_result (stmt my i ()) (\<lambda>_.
     bind_result (foreign_key node_id (op_db ops)) (\<lambda>_.
     bind_result (auto_id (op_next_task ops)) (\<lambda>task_id.
     Inr (task_id, ops\<lparr>op_tasks := op_tasks ops @
       [\<lparr>ot_id = task_id, ot_node_id = node_id, ot_action = action, ot_executor = ''control_ssh'',
         ot_status = ''running'', ot_command_label = command_label, ot_exit_code = None,
         ot_duration_ms = None, ot_output = None, ot_error_message = None, ot_version_check = None,
         ot_created_at = my_now my i, ot_started_at = Some (my_now my i), ot_finished_at = None\<rparr>],
       op_next_task := task_id + 1\<rparr>))))"

definition finish_operation_task ::
  "mysql \<Rightarrow> nat \<Rightarrow> u64 \<Rightarrow> string \<Rightarrow> int option \<Rightarrow> u64 \<Rightarrow> string option \<Rightarrow> string option \<Rightarrow>
   upgrade_version_check option \<Rightarrow> operations \<Rightarrow> (app_error, operations) result"
where
  "finish_operation_task my i task_id status exit_code duration_ms output error_message version_check ops =
     stmt my i (ops\<lparr>op_tasks := update_rows (\<lambda>t. ot_id t = task_id)
       (\<lambda>t. t\<lparr>ot_status := status, ot_exit_code := exit_code, ot_duration_ms := Some duration_ms,
              ot_output := output, ot_error_message := error_message, ot_version_check := version_check,
              ot_finished_at := Some (my_now my i)\<rparr>) (op_tasks ops)\<rparr>)"

record operation_task_summary =
  os_task :: operation_task_row
  os_node_name :: string
  os_node_endpoint :: string
  os_action_label :: string

definition operation_task_summary_of :: "operation_task_row \<times> node_row \<Rightarrow> operation_task_summary" where
  "operation_task_summary_of row =
     (case row of (t, n) \<Rightarrow>
     \<lparr>os_task = t, os_node_name = nd_name n, os_node_endpoint = node_endpoint n,
      os_action_label = operation_action_label (ot_action t)\<rparr>)"

definition admin_list_operation_tasks ::
  "mysql \<Rightarrow> (app_error, admin_actor) result \<Rightarrow> u64 option \<Rightarrow> string option \<Rightarrow> u32 option \<Rightarrow> operations \<Rightarrow>
   (app_error, operation_task_summary list) result"
where
  "admin_list_operation_tasks my admin node_id status limit ops =
     bind_result admin (\<lambda>_.
     bind_result (case nonempty_text status of
         None \<Rightarrow> Inr None
       | Some s \<Rightarrow> bind_result (validate_operation_task_status s) (\<lambda>v. Inr (Some v))) (\<lambda>status.
     bind_result (select_operation_tasks my 0 ops node_id status (clamp_limit limit 100 300)) (\<lambda>rows.
     Inr (map operation_task_summary_of rows))))"

definition admin_get_operation_task ::
  "mysql \<Rightarrow> (app_error, admin_actor) result \<Rightarrow> u64 \<Rightarrow> operations \<Rightarrow> (app_error, operation_task_summary) result"
where
  "admin_get_operation_task my admin task_id ops =
     bind_result admin (\<lambda>_.
     bind_result (select_operation_task my 0 ops task_id) (\<lambda>found.
     bind_result (ok_or (not_found ''operation_task_not_found'' ''operation task does not exist'') found) (\<lambda>row.
     Inr (operation_task_summary_of row))))"

section \<open>Waiting for an upgraded node\<close>

definition report_refreshed :: "u64 option \<Rightarrow> u64 option \<Rightarrow> bool" where
  "report_refreshed before_report_at after_report_at =
     (case (before_report_at, after_report_at) of
        (Some before, Some after) \<Rightarrow> before < after
      | (None, Some _) \<Rightarrow> True
      | _ \<Rightarrow> False)"

definition build_upgrade_version_check :: "node_row \<Rightarrow> node_row \<Rightarrow> nat \<Rightarrow> upgrade_version_check" where
  "build_upgrade_version_check before after waited_ms =
     (let refreshed = report_refreshed (nd_last_report_at before) (nd_last_report_at after);
          before_version = nd_kernel_version before;
          after_version = nd_kernel_version after;
          version_changed = before_version \<noteq> after_version \<and> after_version \<noteq> None
      in \<lparr>vc_before_version = before_version, vc_after_version = after_version,
          vc_version_changed = version_changed, vc_report_refreshed = refreshed,
          vc_before_report_at = nd_last_report_at before, vc_after_report_at = nd_last_report_at after,
          vc_waited_ms = of_nat waited_ms,
          vc_message =
            if version_changed then
              (utf8 [0x8282, 0x70B9, 0x7248, 0x672C, 0x5DF2,
                0x4ECE] @ '' '') @ version_label before_version @ ('' '' @ utf8 [0x53D8,
                  0x4E3A] @ '' '') @ version_label after_version
            else if refreshed then
              (utf8 [0x8282, 0x70B9, 0x5DF2, 0x91CD, 0x65B0, 0x4E0A, 0x62A5, 0xFF0C, 0x4F46, 0x7248, 0x672C,
                0x4ECD, 0x662F] @ '' '') @ version_label after_version @
              utf8 [0xFF0C, 0x53EF, 0x80FD, 0x5F53, 0x524D, 0x8282, 0x70B9, 0x5185, 0x6838, 0x5DF2, 0x7ECF,
                0x662F, 0x6700, 0x65B0, 0x7248, 0x672C]
            else (utf8 [0x5347, 0x7EA7, 0x547D, 0x4EE4, 0x5DF2, 0x6267, 0x884C, 0xFF0C, 0x4F46, 0x7B49,
              0x5F85] @ '' 45 '' @ utf8 [0x79D2, 0x5185, 0x8FD8, 0x6CA1, 0x6709, 0x770B, 0x5230, 0x65B0,
                0x7684, 0x8282, 0x70B9, 0x4E0A, 0x62A5])\<rparr>)"

text \<open>
  The \<open>k\<close>-th turn of the loop reads the node (\<open>look k\<close>) and the clock twice: \<open>waited k\<close>, in
  milliseconds, for the answer and \<open>elapsed k\<close> for the deadline of 45 seconds. Then it sleeps.
\<close>

partial_function (option) wait_for_upgrade_version_check ::
  "(nat \<Rightarrow> (app_error, admin_node_row option) result) \<Rightarrow> (nat \<Rightarrow> nat) \<Rightarrow> (nat \<Rightarrow> nat) \<Rightarrow> node_row \<Rightarrow> nat \<Rightarrow>
   (app_error, upgrade_version_check) result option"
where
  "wait_for_upgrade_version_check look waited elapsed before k =
     (case look k of
        Inl e \<Rightarrow> Some (Inl e)
      | Inr None \<Rightarrow> Some (Inl (not_found ''node_not_found'' ''node disappeared after upgrade''))
      | Inr (Some after) \<Rightarrow>
          if vc_report_refreshed (build_upgrade_version_check before (ar_node after) (waited k)) \<or>
             45000 \<le> elapsed k
          then Some (Inr (build_upgrade_version_check before (ar_node after) (waited k)))
          else wait_for_upgrade_version_check look waited elapsed before (Suc k))"

section \<open>Running an action\<close>

text \<open>\<open>duration_ms_to_u64\<close>.\<close>

definition duration_ms_to_u64 :: "nat \<Rightarrow> u64" where
  "duration_ms_to_u64 value = (if value < 2 ^ 64 then of_nat value else - 1)"

definition json_exit_code :: "int option \<Rightarrow> json" where
  "json_exit_code code = (case code of
       None \<Rightarrow> JNull
     | Some c \<Rightarrow> JNumber ((if c < 0 then ''-'' else []) @ show_nat (nat \<bar>c\<bar>)))"

definition json_u64_option :: "u64 option \<Rightarrow> json" where
  "json_u64_option x = (case x of None \<Rightarrow> JNull | Some n \<Rightarrow> JNumber (show_u64 n))"

definition version_check_json :: "upgrade_version_check option \<Rightarrow> json" where
  "version_check_json check = (case check of
       None \<Rightarrow> JNull
     | Some c \<Rightarrow> JObject
         [(''before_version'', json_text (vc_before_version c)), (''after_version'', json_text (vc_after_version c)),
          (''version_changed'', JBool (vc_version_changed c)), (''report_refreshed'', JBool (vc_report_refreshed c)),
          (''before_report_at'', json_u64_option (vc_before_report_at c)),
          (''after_report_at'', json_u64_option (vc_after_report_at c)),
          (''waited_ms'', JNumber (show_nat (unat (vc_waited_ms c)))), (''message'', JString (vc_message c))])"

record ssh_action_response =
  sa_status :: string
  sa_action :: string
  sa_command_label :: string
  sa_exit_code :: "int option"
  sa_output :: string
  sa_duration_ms :: nat
  sa_version_check :: "upgrade_version_check option"
  sa_task :: operation_task_summary

text \<open>
  What follows the command: the task is finished, the credential's status set when it is kept, and
  the result audited. Statements \<open>0\<close> to \<open>3\<close> of \<open>my\<close>; an error keeps what was written before it.
\<close>

definition record_outcome ::
  "mysql \<Rightarrow> u64 \<Rightarrow> u64 \<Rightarrow> bool \<Rightarrow> string \<Rightarrow> int option \<Rightarrow> nat \<Rightarrow> string option \<Rightarrow> string option \<Rightarrow>
   upgrade_version_check option \<Rightarrow> audit_row \<Rightarrow> operations \<Rightarrow>
   (app_error, operation_task_summary) result \<times> operations"
where
  "record_outcome my node_id task_id keep status exit_code duration_ms output error_message check audit ops =
     (case finish_operation_task my 0 task_id status exit_code (duration_ms_to_u64 duration_ms) output
            error_message check ops of
        Inl e \<Rightarrow> (Inl e, ops)
      | Inr ops1 \<Rightarrow>
          (case bind_result (select_operation_task my 1 ops1 task_id) (ok_or internal_error) of
             Inl e \<Rightarrow> (Inl e, ops1)
           | Inr row \<Rightarrow>
               (case (if keep then update_ssh_credential_status my 2 node_id
                        (if status = ''succeeded'' then ''ok'' else ''failed'') error_message ops1
                      else Inr ops1) of
                  Inl e \<Rightarrow> (Inl e, ops1)
                | Inr ops2 \<Rightarrow>
                    (case bind_result (stmt my 3 ()) (\<lambda>_. insert_node_audit audit (op_db ops2)) of
                       Inl e \<Rightarrow> (Inl e, ops2)
                     | Inr db \<Rightarrow> (Inr (operation_task_summary_of row), ops2\<lparr>op_db := db\<rparr>)))))"

text \<open>
  What comes from outside while the command runs: its outcome and duration, what the wait sees, and
  the tables when both are over, which a bootstrapped node and other requests change.
\<close>

record ssh_run =
  sr_outcome :: ssh_outcome
  sr_duration_ms :: nat
  sr_later :: "operations \<Rightarrow> operations"
  sr_look :: "nat \<Rightarrow> (app_error, admin_node_row option) result"
  sr_waited :: "nat \<Rightarrow> nat"
  sr_elapsed :: "nat \<Rightarrow> nat"

text \<open>The arguments of \<open>sshpass\<close>, its variable \<open>SSHPASS\<close> and its standard input determine the run.\<close>

type_synonym ssh_process = "string list \<Rightarrow> string \<Rightarrow> bytes option \<Rightarrow> ssh_run"

definition upgrade_check :: "ssh_run \<Rightarrow> node_row \<Rightarrow> (app_error, upgrade_version_check) result option" where
  "upgrade_check run before =
     wait_for_upgrade_version_check (sr_look run) (sr_waited run) (sr_elapsed run) before 0"

definition ssh_action_audit ::
  "admin_actor \<Rightarrow> u64 \<Rightarrow> string \<Rightarrow> (string \<times> json) list \<Rightarrow> audit_row"
where
  "ssh_action_audit actor node_id action detail =
     \<lparr>al_node_id = node_id, al_actor_type = audit_actor_type actor, al_actor_id = aa_id actor,
      al_action = action, al_detail = JObject detail\<rparr>"

text \<open>
  \<open>my\<close> answers the statements before the command, \<open>my2\<close> those of the plan, \<open>my3\<close> those after the
  command. \<open>seen\<close> is what the node and the credential were read from.
\<close>

definition prepare_ssh_action ::
  "crypto \<Rightarrow> aead \<Rightarrow> mysql \<Rightarrow> string option \<Rightarrow> string option \<Rightarrow> headers \<Rightarrow> (app_error, admin_actor) result \<Rightarrow> u64 \<Rightarrow>
   string \<Rightarrow> operations \<Rightarrow>
   (app_error, admin_actor \<times> string \<times> admin_node_row \<times> ssh_credential_row \<times> string \<times> string option) result"
where
  "prepare_ssh_action cx ae my configured public_base_url hs admin node_id action seen =
     bind_result admin (\<lambda>actor.
     bind_result (validate_ssh_action action) (\<lambda>act.
     bind_result (select_admin_node my 0 seen node_id) (\<lambda>found.
     bind_result (ok_or (not_found ''node_not_found'' ''node does not exist'') found) (\<lambda>before.
     bind_result (stmt my 1 (select_ssh_credential seen node_id)) (\<lambda>found.
     bind_result (ok_or (bad_request ''ssh_not_configured'' ''node ssh credential is not configured'') found)
       (\<lambda>credential.
     bind_result (credential_key cx configured) (\<lambda>key.
     bind_result (decrypt_credential_secret cx ae key (sc_password_ciphertext credential)
       (sc_password_nonce credential)) (\<lambda>password.
     bind_result (if act = ''upgrade_node''
         then bind_result (resolve_public_base_url public_base_url hs) (\<lambda>u. Inr (Some u)) else Inr None) (\<lambda>base.
     Inr (actor, act, before, credential, password, base))))))))))"

definition start_operation ::
  "mysql \<Rightarrow> nat \<Rightarrow> u64 \<Rightarrow> string \<Rightarrow> string \<Rightarrow> operations \<Rightarrow> (app_error, u64) result \<times> operations"
where
  "start_operation my i node_id action label ops =
     (case insert_operation_task my i node_id action label ops of
        Inl e \<Rightarrow> (Inl e, ops)
      | Inr (task_id, ops1) \<Rightarrow>
          (bind_result (select_operation_task my (Suc i) ops1 task_id) (\<lambda>found.
             bind_result (ok_or internal_error found) (\<lambda>_. Inr task_id)), ops1))"

definition map_ok :: "('a \<Rightarrow> 'b) \<Rightarrow> ('e, 'a) result \<Rightarrow> ('e, 'b) result" where
  "map_ok f r = bind_result r (\<lambda>x. Inr (f x))"

text \<open>
  After the command: \<open>ok_audit\<close> and \<open>err_audit\<close> make the audit row, \<open>keep\<close> tells whether the
  credential is stored, and \<open>checked\<close> is the version check, which may fail or not return.
\<close>

definition finish_command ::
  "mysql \<Rightarrow> ssh_run \<Rightarrow> u64 \<Rightarrow> string \<Rightarrow> string \<Rightarrow> bool \<Rightarrow>
   (ssh_command_output \<Rightarrow> upgrade_version_check option \<Rightarrow> audit_row) \<Rightarrow>
   (ssh_command_error \<Rightarrow> string \<Rightarrow> audit_row) \<Rightarrow>
   (app_error, upgrade_version_check option) result option \<Rightarrow> u64 \<Rightarrow> operations \<Rightarrow>
   ((app_error, ssh_action_response) result \<times> operations) option"
where
  "finish_command my run node_id act label keep ok_audit err_audit checked task_id ops =
     (let duration_ms = sr_duration_ms run;
          ops1 = sr_later run ops;
          respond = (\<lambda>status exit_code output check answer.
            (map_ok (\<lambda>task. \<lparr>sa_status = status, sa_action = act, sa_command_label = label,
               sa_exit_code = exit_code, sa_output = output, sa_duration_ms = duration_ms,
               sa_version_check = check, sa_task = task\<rparr>) (fst answer), snd answer))
      in (case run_ssh_command (sr_outcome run) of
            Inr out \<Rightarrow>
              map_option (\<lambda>checked.
                case checked of
                  Inl e \<Rightarrow> (Inl e, ops1)
                | Inr check \<Rightarrow>
                    respond ''ok'' (sx_exit_code out) (sx_combined out) check
                      (record_outcome my node_id task_id keep ''succeeded'' (sx_exit_code out) duration_ms
                        (Some (sx_combined out)) None check (ok_audit out check) ops1))
                checked
          | Inl err \<Rightarrow>
              let message = api_trim_for_log (se_message err) 512
              in Some (respond ''failed'' (se_exit_code err) message None
                   (record_outcome my node_id task_id keep ''failed'' (se_exit_code err) duration_ms
                     None (Some message) None (err_audit err message) ops1))))"

definition admin_run_ssh_action ::
  "crypto \<Rightarrow> aead \<Rightarrow> (string \<Rightarrow> string \<Rightarrow> bool) \<Rightarrow> mysql \<Rightarrow> mysql \<Rightarrow> mysql \<Rightarrow> bytes \<Rightarrow> u64 \<Rightarrow> string option \<Rightarrow>
   string option \<Rightarrow> headers \<Rightarrow> ssh_process \<Rightarrow> (app_error, admin_actor) result \<Rightarrow> u64 \<Rightarrow> string \<Rightarrow> operations \<Rightarrow>
   operations \<Rightarrow> ((app_error, ssh_action_response) result \<times> operations) option"
where
  "admin_run_ssh_action cx ae same my my2 my3 random now configured public_base_url hs ssh admin node_id
     action seen ops =
     (case prepare_ssh_action cx ae my configured public_base_url hs admin node_id action seen of
        Inl e \<Rightarrow> Some (Inl e, ops)
      | Inr (actor, act, before, credential, password, base) \<Rightarrow>
          (case build_ssh_action_plan cx same my2 random now node_id act credential base (op_db seen) ops of
             (Inl e, ops1) \<Rightarrow> Some (Inl e, ops1)
           | (Inr plan, ops1) \<Rightarrow>
               let label = pl_command_label plan
               in (case start_operation my 2 node_id act label ops1 of
                     (Inl e, ops2) \<Rightarrow> Some (Inl e, ops2)
                   | (Inr task_id, ops2) \<Rightarrow>
                       let run = ssh (ssh_arguments credential plan) password (ssh_stdin password plan);
                           duration = (''duration_ms'', JNumber (show_nat (sr_duration_ms run)));
                           common = [(''operation_task_id'', JNumber (show_u64 task_id)),
                             (''action'', JString act), (''command_label'', JString label)]
                       in finish_command my3 run node_id act label True
                            (\<lambda>out check. ssh_action_audit actor node_id ''node.ssh_action''
                              (common @ [(''exit_code'', json_exit_code (sx_exit_code out)), duration,
                                (''version_check'', version_check_json check)]))
                            (\<lambda>err message. ssh_action_audit actor node_id ''node.ssh_action_failed''
                              (common @ [(''exit_code'', json_exit_code (se_exit_code err)),
                                (''error'', JString message), duration]))
                            (if act = ''upgrade_node''
                             then map_option (map_ok Some) (upgrade_check run (ar_node before))
                             else Some (Inr None))
                            task_id ops2)))"

section \<open>Deploying a node\<close>

record deploy_node_request =
  dq_public_base_url :: "string option"
  dq_install_url :: "string option"
  dq_expires_in_sec :: "u64 option"
  dq_enable_control_plane :: "bool option"
  dq_channel :: "string option"
  dq_ssh :: ssh_credential_request
  dq_save_credential :: "bool option"

record deploy_settings =
  dy_base :: string
  dy_install_url :: string
  dy_channel :: "string option"
  dy_ttl :: u64
  dy_settings :: system_settings
  dy_before :: admin_node_row
  dy_credential :: normalized_ssh_credential

text \<open>The base URL is derived from the headers even where the request gives one.\<close>

definition prepare_deploy ::
  "mysql \<Rightarrow> string option \<Rightarrow> headers \<Rightarrow> u64 \<Rightarrow> deploy_node_request \<Rightarrow> operations \<Rightarrow> (app_error, deploy_settings) result"
where
  "prepare_deploy my public_base_url hs node_id r seen =
     bind_result (select_system_settings my 0 (op_settings seen)) (\<lambda>s.
     bind_result (select_admin_node my 1 seen node_id) (\<lambda>found.
     bind_result (ok_or (not_found ''node_not_found'' ''node does not exist'') found) (\<lambda>before.
     bind_result (optional_arg normalize_url_arg (dq_public_base_url r)) (\<lambda>given.
     bind_result (resolve_public_base_url public_base_url hs) (\<lambda>resolved.
     bind_result (optional_arg normalize_url_arg (dq_install_url r)) (\<lambda>install_url.
     bind_result (optional_arg normalize_command_arg (dq_channel r)) (\<lambda>channel.
     bind_result (clamp_bootstrap_ttl (dq_expires_in_sec r)) (\<lambda>ttl.
     bind_result (normalize_ssh_credential_request before (dq_ssh r)) (\<lambda>credential.
     Inr \<lparr>dy_base = unwrap_or resolved given, dy_install_url = unwrap_or (ss_node_install_url s) install_url,
          dy_channel = channel, dy_ttl = ttl, dy_settings = s, dy_before = before,
          dy_credential = credential\<rparr>)))))))))"

text \<open>A credential that is not saved is used as a row that is in no table.\<close>

definition store_deploy_credential ::
  "crypto \<Rightarrow> aead \<Rightarrow> mysql \<Rightarrow> bytes \<Rightarrow> string option \<Rightarrow> bool \<Rightarrow> u64 \<Rightarrow> normalized_ssh_credential \<Rightarrow> admin_actor \<Rightarrow>
   operations \<Rightarrow> (app_error, ssh_credential_row) result \<times> operations"
where
  "store_deploy_credential cx ae my nonce configured save node_id credential actor ops =
     (if save then
        (case bind_result (credential_key cx configured) (\<lambda>key.
             encrypt_credential_secret cx ae nonce key (nc_password credential)) of
           Inl e \<Rightarrow> (Inl e, ops)
         | Inr (ciphertext, sealed_nonce) \<Rightarrow>
             upsert_ssh_credential my node_id credential ciphertext sealed_nonce actor ops)
      else (Inr (new_credential_row node_id credential [] []), ops))"

definition deploy_plan ::
  "deploy_node_request \<Rightarrow> deploy_settings \<Rightarrow> ssh_credential_row \<Rightarrow> string \<Rightarrow> ssh_action_plan"
where
  "deploy_plan r d credential token =
     (let is_root = sc_username credential = ''root''
      in \<lparr>pl_command_label = (utf8 [0x4E00, 0x952E, 0x90E8, 0x7F72] @ '' / '' @ utf8 [0x5347, 0x7EA7,
        0x8282, 0x70B9]),
          pl_remote_command = build_remote_bootstrap_install_command (dy_install_url d)
            (dy_base d @ ''/api/node/v1/bootstrap'') token (\<not> is_root)
            (unwrap_or True (dq_enable_control_plane r)) (dy_channel d)
            (ss_node_artifact_url (dy_settings d)) (ss_node_sha256_url (dy_settings d))
            (ss_release_download_mode (dy_settings d)),
          pl_send_password = \<not> is_root\<rparr>)"

text \<open>Unlike an upgrade, a deployment that cannot check the version succeeds without the check.\<close>

definition deploy_check :: "ssh_run \<Rightarrow> node_row \<Rightarrow> (app_error, upgrade_version_check option) result option" where
  "deploy_check run before =
     map_option (\<lambda>c. case c of Inl e \<Rightarrow> Inr None | Inr check \<Rightarrow> Inr (Some check)) (upgrade_check run before)"

definition admin_deploy_node ::
  "crypto \<Rightarrow> aead \<Rightarrow> (string \<Rightarrow> string \<Rightarrow> bool) \<Rightarrow> mysql \<Rightarrow> mysql \<Rightarrow> mysql \<Rightarrow> mysql \<Rightarrow> bytes \<Rightarrow> bytes \<Rightarrow> u64 \<Rightarrow>
   string option \<Rightarrow> string option \<Rightarrow> headers \<Rightarrow> ssh_process \<Rightarrow> (app_error, admin_actor) result \<Rightarrow> u64 \<Rightarrow>
   deploy_node_request \<Rightarrow> operations \<Rightarrow> operations \<Rightarrow>
   ((app_error, ssh_action_response) result \<times> operations) option"
where
  "admin_deploy_node cx ae same my my1 my2 my3 nonce random now configured public_base_url hs ssh admin node_id
     r seen ops =
     (case bind_result admin (\<lambda>actor.
          bind_result (prepare_deploy my public_base_url hs node_id r seen) (\<lambda>d. Inr (actor, d))) of
        Inl e \<Rightarrow> Some (Inl e, ops)
      | Inr (actor, d) \<Rightarrow>
          let save = unwrap_or True (dq_save_credential r)
          in (case store_deploy_credential cx ae my1 nonce configured save node_id (dy_credential d) actor ops of
                (Inl e, ops1) \<Rightarrow> Some (Inl e, ops1)
              | (Inr credential, ops1) \<Rightarrow>
                  (case create_bootstrap_token cx same my2 random node_id None (now + dy_ttl d)
                         (op_db ops1) (op_db ops1) of
                     Inl e \<Rightarrow> Some (Inl e, ops1)
                   | Inr (token, token_id, db) \<Rightarrow>
                       let label = pl_command_label (deploy_plan r d credential token)
                       in (case start_operation my 2 node_id ''deploy_node'' label (ops1\<lparr>op_db := db\<rparr>) of
                             (Inl e, ops2) \<Rightarrow> Some (Inl e, ops2)
                           | (Inr task_id, ops2) \<Rightarrow>
                               let plan = deploy_plan r d credential token;
                                   password = nc_password (dy_credential d);
                                   run = ssh (ssh_arguments credential plan) password (ssh_stdin password plan);
                                   duration = (''duration_ms'', JNumber (show_nat (sr_duration_ms run)));
                                   common = [(''operation_task_id'', JNumber (show_u64 task_id)),
                                     (''command_label'', JString label),
                                     (''ssh_host'', JString (sc_host credential)),
                                     (''ssh_port'', JNumber (show_nat (unat (sc_port credential)))),
                                     (''ssh_username'', JString (sc_username credential))]
                               in finish_command my3 run node_id ''deploy_node'' label save
                                    (\<lambda>out check. ssh_action_audit actor node_id ''node.deploy''
                                      (common @ [duration, (''version_check'', version_check_json check),
                                        (''credential_saved'', JBool save)]))
                                    (\<lambda>err message. ssh_action_audit actor node_id ''node.deploy_failed''
                                      (common @ [(''exit_code'', json_exit_code (se_exit_code err)),
                                        (''error'', JString message), duration,
                                        (''credential_saved'', JBool save)]))
                                    (deploy_check run (ar_node (dy_before d))) task_id ops2))))"

section \<open>The wait ends\<close>

text \<open>The turn at which the loop stops, and what it answers there.\<close>

definition upgrade_turn_stops ::
  "(nat \<Rightarrow> (app_error, admin_node_row option) result) \<Rightarrow> (nat \<Rightarrow> nat) \<Rightarrow> node_row \<Rightarrow> nat \<Rightarrow> bool"
where
  "upgrade_turn_stops look elapsed before k =
     (case look k of
        Inr (Some after) \<Rightarrow>
          report_refreshed (nd_last_report_at before) (nd_last_report_at (ar_node after)) \<or> 45000 \<le> elapsed k
      | _ \<Rightarrow> True)"

definition upgrade_turn_answer ::
  "(nat \<Rightarrow> (app_error, admin_node_row option) result) \<Rightarrow> (nat \<Rightarrow> nat) \<Rightarrow> node_row \<Rightarrow> nat \<Rightarrow>
   (app_error, upgrade_version_check) result"
where
  "upgrade_turn_answer look waited before k =
     bind_result (look k) (\<lambda>found.
     bind_result (ok_or (not_found ''node_not_found'' ''node disappeared after upgrade'') found) (\<lambda>after.
     Inr (build_upgrade_version_check before (ar_node after) (waited k))))"

lemma refreshed_of_check [simp]:
  "vc_report_refreshed (build_upgrade_version_check before after w) \<longleftrightarrow>
     report_refreshed (nd_last_report_at before) (nd_last_report_at after)"
  by (simp add: build_upgrade_version_check_def Let_def)

lemma wait_turn:
  "wait_for_upgrade_version_check look waited elapsed before k =
     (if upgrade_turn_stops look elapsed before k then Some (upgrade_turn_answer look waited before k)
      else wait_for_upgrade_version_check look waited elapsed before (Suc k))"
  by (subst wait_for_upgrade_version_check.simps)
    (auto simp: upgrade_turn_stops_def upgrade_turn_answer_def split: sum.splits option.splits)

lemma wait_until:
  assumes "upgrade_turn_stops look elapsed before n" "k \<le> n"
  shows "\<exists>m \<in> {k..n}. upgrade_turn_stops look elapsed before m \<and>
    (\<forall>j \<in> {k..<m}. \<not> upgrade_turn_stops look elapsed before j) \<and>
    wait_for_upgrade_version_check look waited elapsed before k = Some (upgrade_turn_answer look waited before m)"
  using assms(2)
proof (induction "n - k" arbitrary: k)
  case 0
  then have "k = n" by simp
  with assms(1) show ?case by (subst wait_turn) auto
next
  case (Suc d)
  show ?case
  proof (cases "upgrade_turn_stops look elapsed before k")
    case True
    with Suc.prems show ?thesis by (subst wait_turn) auto
  next
    case False
    have "d = n - Suc k" "Suc k \<le> n" using Suc.hyps(2) by simp_all
    from Suc.hyps(1) [OF this] obtain m where m: "m \<in> {Suc k..n}" "upgrade_turn_stops look elapsed before m"
        "\<forall>j \<in> {Suc k..<m}. \<not> upgrade_turn_stops look elapsed before j"
        "wait_for_upgrade_version_check look waited elapsed before (Suc k) =
           Some (upgrade_turn_answer look waited before m)" by blast
    have "\<not> upgrade_turn_stops look elapsed before j" if "j \<in> {k..<m}" for j
      using that False m(3) by (cases "j = k") auto
    moreover have "wait_for_upgrade_version_check look waited elapsed before k =
        Some (upgrade_turn_answer look waited before m)"
      using False m(4) by (subst wait_turn) simp
    ultimately show ?thesis using m(1,2) by (intro bexI [of _ m]) auto
  qed
qed

text \<open>
  C37. The wait after an upgrade ends: with sleeps of at least three seconds it looks at most sixteen
  times, and answers what the first look finds that shows a newer report, no node, an error of the
  database or the end of the 45 seconds.
\<close>

theorem upgrade_wait_ends:
  assumes "\<And>k. 3000 * k \<le> elapsed k"
  shows "\<exists>m \<le> 15. upgrade_turn_stops look elapsed before m \<and>
    (\<forall>j < m. \<not> upgrade_turn_stops look elapsed before j) \<and>
    wait_for_upgrade_version_check look waited elapsed before 0 = Some (upgrade_turn_answer look waited before m)"
proof -
  have "upgrade_turn_stops look elapsed before 15"
    using assms [of 15] by (auto simp: upgrade_turn_stops_def split: sum.splits option.splits)
  from wait_until [OF this] show ?thesis by fastforce
qed

section \<open>What an answered action leaves behind\<close>

lemma map_ok_Inr [simp]: "map_ok f r = Inr y \<longleftrightarrow> (\<exists>x. r = Inr x \<and> y = f x)"
  by (auto simp: map_ok_def)

lemma select_operation_task_Inr:
  assumes "select_operation_task my i ops task_id = Inr (Some (t, n))"
  shows "find (\<lambda>t. ot_id t = task_id) (op_tasks ops) = Some t \<and> find_node (ot_node_id t) (op_db ops) = Some n"
  using assms by (auto simp: select_operation_task_def stmt_def operation_row_shown_def split: bind_splits)

lemma find_updated:
  assumes "find (\<lambda>r. key r = k) (update_rows (\<lambda>r. key r = k) f rows) = Some r" "\<And>r. key (f r) = key r"
  shows "\<exists>s. r = f s \<and> key s = k"
proof -
  have "r \<in> set (update_rows (\<lambda>r. key r = k) f rows)" "key r = k"
    using find_Some_set [OF assms(1)] by simp_all
  then show ?thesis using assms(2) by (auto simp: update_rows_def split: if_splits)
qed

text \<open>The three tables that say how an action ended.\<close>

definition outcome_recorded :: "u64 \<Rightarrow> bool \<Rightarrow> string \<Rightarrow> operation_task_summary \<Rightarrow> audit_row \<Rightarrow> operations \<Rightarrow> bool" where
  "outcome_recorded node_id keep status task audit ops \<longleftrightarrow>
     find (\<lambda>t. ot_id t = ot_id (os_task task)) (op_tasks ops) = Some (os_task task) \<and>
     ot_status (os_task task) = status \<and>
     (keep \<longrightarrow> list_all (\<lambda>c. sc_node_id c = node_id \<longrightarrow>
        sc_auth_status c = (if status = ''succeeded'' then ''ok'' else ''failed'')) (op_credentials ops)) \<and>
     dt_audit (op_db ops) \<noteq> [] \<and> last (dt_audit (op_db ops)) = audit"

lemma update_rows_all:
  assumes "\<And>r. p r \<Longrightarrow> q (f r)" "\<And>r. \<not> p r \<Longrightarrow> q r"
  shows "list_all q (update_rows p f rows)"
  using assms by (induction rows) (simp_all add: update_rows_def)

lemma credential_status_set:
  assumes "update_ssh_credential_status my i node_id auth_status err ops = Inr ops'"
  shows "list_all (\<lambda>c. sc_node_id c = node_id \<longrightarrow> sc_auth_status c = auth_status) (op_credentials ops')"
proof -
  from assms have creds: "op_credentials ops' = update_rows (\<lambda>c. sc_node_id c = node_id)
      (\<lambda>c. c\<lparr>sc_auth_status := auth_status, sc_last_error := map_option (\<lambda>e. truncate_chars e 4096) err,
        sc_last_checked_at := Some (my_now my i)\<rparr>) (op_credentials ops)"
    by (auto simp: update_ssh_credential_status_def stmt_def split: if_splits)
  show ?thesis unfolding creds by (rule update_rows_all) simp_all
qed

lemma record_outcome_Inr:
  assumes "record_outcome my node_id task_id keep status exit_code duration output err check audit ops = (Inr task, ops')"
  shows "ot_id (os_task task) = task_id \<and> outcome_recorded node_id keep status task audit ops'"
proof -
  from assms obtain ops1 t n ops2 db where
    fin: "finish_operation_task my 0 task_id status exit_code (duration_ms_to_u64 duration) output err check ops = Inr ops1" and
    row: "select_operation_task my 1 ops1 task_id = Inr (Some (t, n))" and
    cred: "(if keep then update_ssh_credential_status my 2 node_id
        (if status = ''succeeded'' then ''ok'' else ''failed'') err ops1 else Inr ops1) = Inr ops2" and
    audit: "insert_node_audit audit (op_db ops2) = Inr db" and
    out: "task = operation_task_summary_of (t, n)" "ops' = ops2\<lparr>op_db := db\<rparr>"
    by (auto simp: record_outcome_def split: sum.splits)
  note found = select_operation_task_Inr [OF row]
  have tasks: "op_tasks ops' = op_tasks ops1"
    using cred out by (auto simp: update_ssh_credential_status_def stmt_def split: if_splits)
  have tasks1: "op_tasks ops1 = update_rows (\<lambda>t. ot_id t = task_id) (\<lambda>t. t\<lparr>ot_status := status,
      ot_exit_code := exit_code, ot_duration_ms := Some (duration_ms_to_u64 duration), ot_output := output,
      ot_error_message := err, ot_version_check := check, ot_finished_at := Some (my_now my 0)\<rparr>) (op_tasks ops)"
    using fin by (auto simp: finish_operation_task_def stmt_def)
  have "\<exists>s. t = s\<lparr>ot_status := status, ot_exit_code := exit_code,
      ot_duration_ms := Some (duration_ms_to_u64 duration), ot_output := output, ot_error_message := err,
      ot_version_check := check, ot_finished_at := Some (my_now my 0)\<rparr> \<and> ot_id s = task_id"
    using found unfolding tasks1
    by (intro find_updated [where key = ot_id and k = task_id and rows = "op_tasks ops"]) simp_all
  then have status: "ot_status t = status" by auto
  have id: "ot_id t = task_id" using conjunct1 [OF found, THEN find_Some_set] by simp
  have task: "os_task task = t" by (simp add: out operation_task_summary_of_def)
  have found_there: "find (\<lambda>x. ot_id x = ot_id (os_task task)) (op_tasks ops') = Some (os_task task)"
    unfolding task tasks id by (rule conjunct1 [OF found])
  have audited: "dt_audit (op_db ops') \<noteq> [] \<and> last (dt_audit (op_db ops')) = audit"
    using audit by (auto simp: out insert_node_audit_def insert_audit_def)
  have kept: "keep \<longrightarrow> list_all (\<lambda>c. sc_node_id c = node_id \<longrightarrow>
        sc_auth_status c = (if status = ''succeeded'' then ''ok'' else ''failed'')) (op_credentials ops')"
  proof
    assume keep
    with cred have "update_ssh_credential_status my 2 node_id
        (if status = ''succeeded'' then ''ok'' else ''failed'') err ops1 = Inr ops2" by (simp only: if_True)
    from credential_status_set [OF this]
    show "list_all (\<lambda>c. sc_node_id c = node_id \<longrightarrow>
        sc_auth_status c = (if status = ''succeeded'' then ''ok'' else ''failed'')) (op_credentials ops')"
      unfolding out(2) by simp
  qed
  show ?thesis
    unfolding outcome_recorded_def using id found_there status kept audited unfolding task
    by (elim conjE) (intro conjI, assumption+)
qed

lemma finish_command_Inr:
  assumes "finish_command my run node_id act label keep ok_audit err_audit checked task_id ops = Some (Inr a, ops')"
  shows "outcome_recorded node_id keep (if sa_status a = ''ok'' then ''succeeded'' else ''failed'') (sa_task a)
      (case run_ssh_command (sr_outcome run) of
         Inr out \<Rightarrow> ok_audit out (sa_version_check a)
       | Inl err \<Rightarrow> err_audit err (api_trim_for_log (se_message err) 512)) ops' \<and>
    (sa_status a = ''ok'' \<longleftrightarrow> (\<exists>out. run_ssh_command (sr_outcome run) = Inr out))"
proof (cases "run_ssh_command (sr_outcome run)")
  case (Inl err)
  then obtain task where
    "record_outcome my node_id task_id keep ''failed'' (se_exit_code err) (sr_duration_ms run) None
       (Some (api_trim_for_log (se_message err) 512)) None (err_audit err (api_trim_for_log (se_message err) 512))
       (sr_later run ops) = (Inr task, ops')" and "sa_status a = ''failed''" "sa_task a = task"
    using assms by (auto simp: finish_command_def Let_def prod_eq_iff)
  with Inl show ?thesis using record_outcome_Inr by fastforce
next
  case (Inr out)
  then obtain check where "checked = Some (Inr check)"
    using assms by (cases checked; cases "the checked") (auto simp: finish_command_def Let_def)
  with Inr obtain task where
    "record_outcome my node_id task_id keep ''succeeded'' (sx_exit_code out) (sr_duration_ms run)
       (Some (sx_combined out)) None check (ok_audit out check) (sr_later run ops) = (Inr task, ops')"
    and "sa_status a = ''ok''" "sa_task a = task" "sa_version_check a = check"
    using assms by (auto simp: finish_command_def Let_def prod_eq_iff)
  with Inr show ?thesis using record_outcome_Inr by fastforce
qed

text \<open>
  C38. A request to run an action that is answered has recorded how it ended: its task is over with the
  status of the answer, the node's credential is marked as working or failed, and the last audit
  row names the action's success or failure.
\<close>

theorem answered_action_recorded:
  assumes "admin_run_ssh_action cx ae same my my2 my3 random now configured base hs ssh admin node_id action seen ops =
      Some (Inr a, ops')"
  shows "\<exists>audit. outcome_recorded node_id True (if sa_status a = ''ok'' then ''succeeded'' else ''failed'')
      (sa_task a) audit ops' \<and>
    al_node_id audit = node_id \<and>
    al_action audit = (if sa_status a = ''ok'' then ''node.ssh_action'' else ''node.ssh_action_failed'')"
proof -
  from assms obtain actor act before credential password url plan ops1 task_id ops2 ok_audit err_audit checked where
    fin: "finish_command my3 (ssh (ssh_arguments credential plan) password (ssh_stdin password plan)) node_id act
        (pl_command_label plan) True ok_audit err_audit checked task_id ops2 = Some (Inr a, ops')" and
    audits: "\<And>out check. al_node_id (ok_audit out check) = node_id \<and> al_action (ok_audit out check) = ''node.ssh_action''"
      "\<And>err m. al_node_id (err_audit err m) = node_id \<and> al_action (err_audit err m) = ''node.ssh_action_failed''"
    by (fastforce simp: admin_run_ssh_action_def ssh_action_audit_def Let_def split: sum.splits prod.splits)
  from finish_command_Inr [OF fin] audits show ?thesis
    by (auto split: sum.splits)
qed

section \<open>The stored password is the one ssh is given\<close>

text \<open>What AES-GCM promises: a sealed text opens under its key and nonce to what was sealed.\<close>

definition aead_roundtrip :: "aead \<Rightarrow> bool" where
  "aead_roundtrip ae \<longleftrightarrow> (\<forall>k n p c. length k = 32 \<longrightarrow> length n = 12 \<longrightarrow>
     aead_seal ae k n p = Some c \<longrightarrow> aead_open ae k n c = Some p)"

lemma sealed_opens:
  assumes "b64_roundtrip cx" "aead_roundtrip ae" "length nonce = 12" "length key = 32" "utf8_valid password"
    and "encrypt_credential_secret cx ae nonce key password = Inr (ciphertext, sealed_nonce)"
  shows "decrypt_credential_secret cx ae key ciphertext sealed_nonce = Inr password"
proof -
  from assms(6) obtain c where c: "aead_seal ae key nonce password = Some c"
    and texts: "ciphertext = b64_encode cx c" "sealed_nonce = b64_encode cx nonce"
    by (auto simp: encrypt_credential_secret_def)
  have "aead_open ae key nonce c = Some password"
    using assms(2-4) c unfolding aead_roundtrip_def by blast
  with assms(1,3,5) show ?thesis
    by (simp add: decrypt_credential_secret_def texts b64_roundtrip_def from_utf8_def)
qed

lemma select_put_credential:
  "find (\<lambda>c. sc_node_id c = sc_node_id row) (put_credential row rows) = Some row"
proof (cases "list_ex (\<lambda>c. sc_node_id c = sc_node_id row) rows")
  case True
  then show ?thesis
    by (simp add: put_credential_def update_rows_def) (induction rows, auto)
next
  case False
  then have "find (\<lambda>c. sc_node_id c = sc_node_id row) rows = None"
    by (auto simp: find_None_iff list_ex_iff)
  with False show ?thesis
    by (simp add: put_credential_def) (induction rows, auto split: if_splits)
qed

lemma upsert_ssh_credential_Inr:
  assumes "upsert_ssh_credential my node_id credential ciphertext nonce actor ops = (Inr row, ops')"
  shows "row = new_credential_row node_id credential ciphertext nonce \<and>
    select_ssh_credential ops' node_id = Some row"
  using assms unfolding upsert_ssh_credential_def
proof (rule handler_cases)
  let ?row = "new_credential_row node_id credential ciphertext nonce"
  fix p
  assume "bind_result (ensure_admin_node_exists my 0 (op_db ops) node_id) (\<lambda>_.
          bind_result (stmt my 1 ()) (\<lambda>_.
          bind_result (foreign_key node_id (op_db ops)) (\<lambda>_.
          bind_result (stmt my 2 ()) (\<lambda>_.
          bind_result (insert_node_audit
            \<lparr>al_node_id = node_id, al_actor_type = audit_actor_type actor, al_actor_id = aa_id actor,
             al_action = ''node.ssh_credential.upsert'',
             al_detail = JObject [(''host'', JString (nc_host credential)),
               (''port'', JNumber (show_u16 (nc_port credential))),
               (''username'', JString (nc_username credential))]\<rparr> (op_db ops)) (\<lambda>db.
          stmt my 3 (ops\<lparr>op_db := db, op_credentials := put_credential ?row (op_credentials ops)\<rparr>)))))) = Inr p"
    and out: "(bind_result (stmt my 4 (select_ssh_credential p node_id))
        (ok_or (not_found ''ssh_not_found'' ''ssh credential was not stored'')), p) = (Inr row, ops')"
  then have "op_credentials p = put_credential ?row (op_credentials ops)"
    by (auto simp: stmt_def)
  then have "select_ssh_credential p node_id = Some ?row"
    using select_put_credential [of ?row "op_credentials ops"]
    by (simp add: select_ssh_credential_def new_credential_row_def)
  with out show ?thesis by (auto simp: stmt_def)
qed simp

lemma admin_upsert_Inr:
  assumes "admin_upsert_ssh_credential cx ae my my' nonce configured admin node_id request seen ops = (Inr row, ops')"
  obtains normalized node key ciphertext sealed_nonce where
    "normalize_ssh_credential_request node request = Inr normalized" "credential_key cx configured = Inr key"
    "encrypt_credential_secret cx ae nonce key (nc_password normalized) = Inr (ciphertext, sealed_nonce)"
    "row = new_credential_row node_id normalized ciphertext sealed_nonce"
    "select_ssh_credential ops' node_id = Some row"
  using assms
  by (auto simp: admin_upsert_ssh_credential_def split: sum.splits dest!: upsert_ssh_credential_Inr)

lemma normalized_password:
  "normalize_ssh_credential_request node request = Inr n \<Longrightarrow> nc_password n = trim (cq_password request)"
  by (auto simp: normalize_ssh_credential_request_def normalize_required_text_def Let_def split: if_splits)

lemma stored_credential:
  assumes "b64_roundtrip cx" "aead_roundtrip ae" "length nonce = 12" "utf8_valid (trim (cq_password request))"
    and "admin_upsert_ssh_credential cx ae my my' nonce configured admin node_id request seen ops = (Inr row, ops')"
  obtains key where "credential_key cx configured = Inr key" "select_ssh_credential ops' node_id = Some row"
    "decrypt_credential_secret cx ae key (sc_password_ciphertext row) (sc_password_nonce row) =
       Inr (trim (cq_password request))"
    "sc_username row = trim (cq_username request)"
    "sc_port row = (case cq_port request of None \<Rightarrow> 22 | Some p \<Rightarrow> ucast p)"
proof -
  from assms(5) show thesis
  proof (rule admin_upsert_Inr)
    fix normalized node key ciphertext sealed_nonce
    assume n: "normalize_ssh_credential_request node request = Inr normalized"
      and key: "credential_key cx configured = Inr key"
      and enc: "encrypt_credential_secret cx ae nonce key (nc_password normalized) = Inr (ciphertext, sealed_nonce)"
      and row: "row = new_credential_row node_id normalized ciphertext sealed_nonce"
      and sel: "select_ssh_credential ops' node_id = Some row"
    have "length key = 32" using key by (auto simp: credential_key_def split: if_splits)
    from sealed_opens [OF assms(1-3) this _ enc] assms(4) normalized_password [OF n]
    have "decrypt_credential_secret cx ae key ciphertext sealed_nonce = Inr (trim (cq_password request))"
      by simp
    moreover have "sc_username row = trim (cq_username request)"
      "sc_port row = (case cq_port request of None \<Rightarrow> 22 | Some p \<Rightarrow> ucast p)"
      using n by (auto simp: row new_credential_row_def normalize_ssh_credential_request_def Let_def
          normalize_ssh_username_def normalize_required_text_def unwrap_or_def split: if_splits option.splits)
    ultimately show thesis
      using that [OF key sel] by (simp add: row new_credential_row_def)
  qed
qed

lemma prepared_with_stored:
  assumes "select_ssh_credential seen node_id = Some row" "credential_key cx configured = Inr key"
    and "decrypt_credential_secret cx ae key (sc_password_ciphertext row) (sc_password_nonce row) = Inr word"
    and "prepare_ssh_action cx ae my configured base hs admin node_id action seen =
      Inr (actor, act, before, credential, password, url)"
  shows "credential = row \<and> password = word"
  using assms by (auto simp: prepare_ssh_action_def stmt_def)

text \<open>The answer to an action is made of what its process gave.\<close>

lemma finish_command_answer:
  assumes "finish_command my run node_id act label keep ok_audit err_audit checked task_id ops = Some (Inr a, ops')"
  shows "sa_duration_ms a = sr_duration_ms run \<and>
    (case run_ssh_command (sr_outcome run) of
       Inr out \<Rightarrow> sa_status a = ''ok'' \<and> sa_exit_code a = sx_exit_code out \<and> sa_output a = sx_combined out
     | Inl err \<Rightarrow> sa_status a = ''failed'' \<and> sa_exit_code a = se_exit_code err \<and>
         sa_output a = api_trim_for_log (se_message err) 512)"
proof (cases "run_ssh_command (sr_outcome run)")
  case (Inl err)
  with assms show ?thesis by (auto simp: finish_command_def Let_def map_ok_def)
next
  case (Inr out)
  then obtain check where "checked = Some (Inr check)"
    using assms by (cases checked) (auto simp: finish_command_def Let_def split: sum.splits)
  with Inr assms show ?thesis by (auto simp: finish_command_def Let_def map_ok_def)
qed

text \<open>
  C39. After an administrator has stored a credential, an action on the node logs in with it: the only
  process that is started is one for the user and port stored, with the password that was sent, less
  the white space around it, in \<open>SSHPASS\<close> (and, when the command asks for it, on three lines of the
  standard input). An answered action reports the duration, exit code and output of that process, and
  whatever a process would do with another password or another destination makes no difference to it.
\<close>

theorem stored_password_used:
  assumes "b64_roundtrip cx" "aead_roundtrip ae" "length nonce = 12" "utf8_valid (trim (cq_password request))"
    and "admin_upsert_ssh_credential cx ae my my' nonce configured admin node_id request seen ops = (Inr row, ops')"
    and "password = trim (cq_password request)"
    and "destination = [''-p'', show_nat (case cq_port request of None \<Rightarrow> 22 | Some p \<Rightarrow> unat p),
      trim (cq_username request) @ ''@'' @ sc_host row]"
    and "process = (\<lambda>ssh command send. ssh ([''-e'', ''ssh'', ''-o'', ''BatchMode=no'', ''-o'', ''ConnectTimeout=10'',
        ''-o'', ''StrictHostKeyChecking=accept-new'', ''-o'',
        ''UserKnownHostsFile=/var/lib/xaccel-control-api/known_hosts''] @ destination @ [command]) password
      (if send then Some (concat (replicate 3 (password @ [line_feed]))) else None))"
    and "action_run = (\<lambda>ssh. admin_run_ssh_action cx ae same my1 my2 my3 random now configured base hs ssh admin2
      node_id action ops' ops2)"
  shows "(\<forall>a ops3. action_run ssh = Some (Inr a, ops3) \<longrightarrow>
      (\<exists>command send. sa_duration_ms a = sr_duration_ms (process ssh command send) \<and>
        (case run_ssh_command (sr_outcome (process ssh command send)) of
           Inr out \<Rightarrow> sa_status a = ''ok'' \<and> sa_exit_code a = sx_exit_code out \<and> sa_output a = sx_combined out
         | Inl err \<Rightarrow> sa_status a = ''failed'' \<and> sa_exit_code a = se_exit_code err \<and>
             sa_output a = api_trim_for_log (se_message err) 512))) \<and>
    ((\<forall>command send. process ssh command send = process ssh' command send) \<longrightarrow> action_run ssh = action_run ssh')"
proof -
  obtain key where stored: "select_ssh_credential ops' node_id = Some row" "credential_key cx configured = Inr key"
    "decrypt_credential_secret cx ae key (sc_password_ciphertext row) (sc_password_nonce row) =
       Inr (trim (cq_password request))"
    and user: "sc_username row = trim (cq_username request)"
      "sc_port row = (case cq_port request of None \<Rightarrow> 22 | Some p \<Rightarrow> ucast p)"
    by (rule stored_credential [OF assms(1-5)])
  have port: "show_nat (unat (sc_port row)) = show_nat (case cq_port request of None \<Rightarrow> 22 | Some p \<Rightarrow> unat p)"
  proof -
    have "unat (ucast p :: u32) = unat p" for p :: u16
      using unsigned_less [of p, where 'a = nat] by (simp add: unsigned_ucast_eq take_bit_nat_eq_self)
    then show ?thesis by (simp add: user(2) split: option.split)
  qed
  have call: "s (ssh_arguments row plan) password (ssh_stdin password plan) =
      process s (pl_remote_command plan) (pl_send_password plan)" for s plan
    by (simp add: assms(7,8) ssh_arguments_def ssh_stdin_def port user(1) line_feed_def numeral_3_eq_3)
  note same_login = prepared_with_stored [OF stored]
  have answered: "\<exists>command send. sa_duration_ms a = sr_duration_ms (process ssh command send) \<and>
        (case run_ssh_command (sr_outcome (process ssh command send)) of
           Inr out \<Rightarrow> sa_status a = ''ok'' \<and> sa_exit_code a = sx_exit_code out \<and> sa_output a = sx_combined out
         | Inl err \<Rightarrow> sa_status a = ''failed'' \<and> sa_exit_code a = se_exit_code err \<and>
             sa_output a = api_trim_for_log (se_message err) 512)"
    if "action_run ssh = Some (Inr a, ops3)" for a ops3
  proof -
    from that obtain actor act before credential word url plan ok_audit err_audit checked task_id ops4 where
      prep: "prepare_ssh_action cx ae my1 configured base hs admin2 node_id action ops' =
        Inr (actor, act, before, credential, word, url)" and
      fin: "finish_command my3 (ssh (ssh_arguments credential plan) word (ssh_stdin word plan)) node_id act
        (pl_command_label plan) True ok_audit err_audit checked task_id ops4 = Some (Inr a, ops3)"
      unfolding assms(9)
      by (fastforce simp: admin_run_ssh_action_def Let_def split: sum.splits prod.splits)
    from same_login [OF prep] have login: "credential = row" "word = password"
      by (simp_all add: assms(6))
    show ?thesis
      using finish_command_answer [OF fin] unfolding login call by blast
  qed
  have "action_run ssh = action_run ssh'" if "\<forall>command send. process ssh command send = process ssh' command send"
  proof (cases "prepare_ssh_action cx ae my1 configured base hs admin2 node_id action ops'")
    case (Inl e)
    then show ?thesis by (simp add: assms(9) admin_run_ssh_action_def)
  next
    case (Inr p)
    obtain actor act before credential word url where p: "p = (actor, act, before, credential, word, url)"
      by (cases p) auto
    from same_login [OF Inr [unfolded p]] have login: "credential = row" "word = password"
      by (simp_all add: assms(6))
    have "ssh (ssh_arguments row plan) password (ssh_stdin password plan) =
        ssh' (ssh_arguments row plan) password (ssh_stdin password plan)" for plan
      using that by (simp add: call)
    then show ?thesis
      unfolding assms(9) admin_run_ssh_action_def Inr p login sum.case prod.case by presburger
  qed
  with answered show ?thesis by blast
qed

section \<open>The destination is no option\<close>

definition destination_char :: "byte \<Rightarrow> bool" where
  "destination_char c \<longleftrightarrow> command_char c \<or> c = CHR '':'' \<or> c = CHR ''@''"

lemma normalized_destination:
  assumes "normalize_ssh_credential_request node request = Inr n"
  shows "nc_username n \<noteq> [] \<and> \<not> starts_with (nc_username n) ''-'' \<and>
    list_all destination_char (nc_username n @ ''@'' @ nc_host n)"
  using assms
  by (auto simp: normalize_ssh_credential_request_def normalize_ssh_username_def normalize_ssh_host_def
      normalize_required_text_def Let_def list_all_iff destination_char_def split: if_splits)

text \<open>
  Whatever host and name an administrator stores, the destination that \<open>ssh\<close> is called with is one
  argument of letters, digits and \<open>. _ - : @\<close> that does not begin with a dash, so it is read as a
  destination and never as an option.
\<close>

theorem ssh_destination_is_no_option:
  assumes "admin_upsert_ssh_credential cx ae my my' nonce configured admin node_id request seen ops = (Inr row, ops')"
  shows "\<exists>destination. ssh_arguments row plan ! 12 = destination \<and> destination \<noteq> [] \<and>
    \<not> starts_with destination ''-'' \<and> list_all destination_char destination"
  using assms
proof (rule admin_upsert_Inr)
  fix normalized node ciphertext sealed_nonce
  assume n: "normalize_ssh_credential_request node request = Inr normalized"
    and row: "row = new_credential_row node_id normalized ciphertext sealed_nonce"
  note ok = normalized_destination [OF n]
  then obtain c u where "nc_username normalized = c # u" by (cases "nc_username normalized") auto
  with ok show ?thesis
    by (simp add: ssh_arguments_def row new_credential_row_def)
qed

end
