(* ===== verification/Example_Operations.thy ===== *)
theory Example_Operations
  imports Api_Operations Example_Service
begin

text \<open>
  A concrete run of the operations over SSH for the instances of their properties: an administrator
  stores the password of the registered node and tests the connection with it.
\<close>

definition plain_aead :: aead where
  "plain_aead = \<lparr>aead_seal = (\<lambda>_ _ p. Some p), aead_open = (\<lambda>_ _ c. Some c)\<rparr>"

definition key_text :: string where "key_text = hex_encode (replicate 32 (CHR ''k''))"

definition run_nonce :: bytes where "run_nonce = replicate 12 (CHR ''n'')"

definition run_ops :: operations where
  "run_ops = \<lparr>op_db = run_created, op_settings = [], op_credentials = [], op_tasks = [], op_next_task = 1\<rparr>"

definition run_credential :: ssh_credential_request where
  "run_credential = \<lparr>cq_host = None, cq_port = None, cq_username = ''root'', cq_password = '' pw ''\<rparr>"

definition run_stored :: "(app_error, ssh_credential_row) result \<times> operations" where
  "run_stored = admin_upsert_ssh_credential demo_crypto plain_aead run_mysql run_mysql run_nonce (Some key_text)
     run_admin 1 run_credential run_ops run_ops"

definition run_credential_row :: ssh_credential_row where
  "run_credential_row = \<lparr>sc_node_id = 1, sc_host = ''10.0.0.1'', sc_port = 22, sc_username = ''root'',
     sc_password_ciphertext = ''7077'', sc_password_nonce = hex_encode run_nonce, sc_auth_status = ''untested'',
     sc_last_error = None, sc_last_checked_at = None\<rparr>"

definition run_kept :: operations where
  "run_kept = run_ops\<lparr>op_db := run_created\<lparr>dt_audit := dt_audit run_created @
     [\<lparr>al_node_id = 1, al_actor_type = ''admin_api'', al_actor_id = None,
       al_action = ''node.ssh_credential.upsert'',
       al_detail = JObject [(''host'', JString ''10.0.0.1''), (''port'', JNumber ''22''),
         (''username'', JString ''root'')]\<rparr>]\<rparr>, op_credentials := [run_credential_row]\<rparr>"

lemma run_key: "credential_key demo_crypto (Some key_text) = Inr (replicate 32 (CHR ''k''))"
  by (simp add: credential_key_def key_text_def demo_crypto_def)

lemma run_encrypted:
  "encrypt_credential_secret demo_crypto plain_aead run_nonce key ''pw'' = Inr (''7077'', hex_encode run_nonce)"
  by (simp add: encrypt_credential_secret_def plain_aead_def demo_crypto_def) code_simp

lemma run_normalized_credential:
  "normalize_ssh_credential_request (admin_node_of run_ops run_row) run_credential =
     Inr \<lparr>nc_host = ''10.0.0.1'', nc_port = 22, nc_username = ''root'', nc_password = ''pw''\<rparr>"
  by code_simp

lemma run_stored: "run_stored = (Inr run_credential_row, run_kept)"
proof -
  have "show_u16 22 = ''22''" by code_simp
  then show ?thesis
    by (simp add: run_stored_def admin_upsert_ssh_credential_def run_admin_def select_admin_node_def stmt_def
        run_ops_def [THEN arg_cong [where f = op_db]] run_normalized_credential run_key run_encrypted
        upsert_ssh_credential_def ensure_admin_node_exists_def foreign_key_def insert_node_audit_def
        insert_audit_def audit_actor_type_def bootstrap_actor_def new_credential_row_def put_credential_def
        run_ops_def [THEN arg_cong [where f = op_credentials]] run_kept_def run_credential_row_def
        select_ssh_credential_def)
qed

text \<open>A process that connects when it is given the password.\<close>

definition run_process :: ssh_process where
  "run_process args password stdin = \<lparr>sr_outcome =
       (if password = ''pw'' then Ssh_exited (Some 0) True ''xaccel-ssh-ok'' [] ''exit status: 0''
        else Ssh_exited (Some 5) False [] [] ''exit status: 5''),
     sr_duration_ms = 20, sr_later = id, sr_look = (\<lambda>_. Inr None), sr_waited = (\<lambda>_. 0), sr_elapsed = (\<lambda>k. 3000 * k)\<rparr>"

lemma run_find_kept [simp]: "find_node 1 (op_db run_kept) = Some run_row"
  by (simp add: run_kept_def find_node_def run_created_def run_row_def new_node_row_def)

lemma run_decrypted:
  "decrypt_credential_secret demo_crypto plain_aead key ''7077'' (hex_encode run_nonce) = Inr ''pw''"
proof -
  have "hex_decode ''7077'' = Some ''pw''" "from_utf8 ''pw'' = Some ''pw''" by code_simp+
  then show ?thesis
    by (simp add: decrypt_credential_secret_def plain_aead_def demo_crypto_def run_nonce_def)
qed

lemma run_prepared:
  "prepare_ssh_action demo_crypto plain_aead run_mysql (Some key_text) None [] run_admin 1 ''test_connection'' run_kept =
     Inr (bootstrap_actor ''root'', ''test_connection'', admin_node_of run_kept run_row, run_credential_row, ''pw'', None)"
proof -
  have "validate_ssh_action ''test_connection'' = Inr ''test_connection''" by code_simp
  moreover have "select_ssh_credential run_kept 1 = Some run_credential_row"
    by (simp add: select_ssh_credential_def run_kept_def run_credential_row_def)
  moreover have "sc_password_ciphertext run_credential_row = ''7077''"
    "sc_password_nonce run_credential_row = hex_encode run_nonce"
    by (simp_all add: run_credential_row_def)
  ultimately show ?thesis
    by (simp add: prepare_ssh_action_def run_admin_def select_admin_node_def stmt_def run_key run_decrypted)
qed

theorem ssh_destination_is_no_option_witness:
  "\<exists>destination. ssh_arguments run_credential_row
      \<lparr>pl_command_label = [], pl_remote_command = [], pl_send_password = False\<rparr> ! 12 = destination \<and>
    destination \<noteq> [] \<and> \<not> starts_with destination ''-'' \<and> list_all destination_char destination"
  by (rule ssh_destination_is_no_option [OF run_stored [unfolded run_stored_def]])

theorem upgrade_wait_ends_witness:
  "\<exists>m \<le> 15. wait_for_upgrade_version_check (\<lambda>k. Inr (Some (admin_node_of run_kept run_row))) (\<lambda>k. 3000 * k)
     (\<lambda>k. 3000 * k) run_row 0 =
     Some (Inr (build_upgrade_version_check run_row run_row (3000 * m)))"
proof -
  let ?look = "\<lambda>k. Inr (Some (admin_node_of run_kept run_row)) :: (app_error, admin_node_row option) result"
  obtain m where "m \<le> 15" "wait_for_upgrade_version_check ?look (\<lambda>k. 3000 * k) (\<lambda>k. 3000 * k) run_row 0 =
      Some (upgrade_turn_answer ?look (\<lambda>k. 3000 * k) run_row m)"
    using upgrade_wait_ends [of "\<lambda>k. 3000 * k" ?look run_row "\<lambda>k. 3000 * k"] by auto
  then show ?thesis by (auto simp: upgrade_turn_answer_def admin_node_of_def)
qed

definition run_action :: "((app_error, ssh_action_response) result \<times> operations) option" where
  "run_action = admin_run_ssh_action demo_crypto plain_aead (=) run_mysql run_mysql run_mysql ''r'' 1000
     (Some key_text) None [] run_process run_admin 1 ''test_connection'' run_kept run_kept"

lemma run_action: "\<exists>a ops. run_action = Some (Inr a, ops) \<and> sa_status a = ''ok''"
proof -
  obtain plan where plan: "build_ssh_action_plan demo_crypto (=) run_mysql ''r'' 1000 1 ''test_connection''
      run_credential_row None (op_db run_kept) run_kept = (Inr plan, run_kept)"
    by (simp add: build_ssh_action_plan_def Let_def)
  have "op_tasks run_kept = []" "op_next_task run_kept = 1"
    by (simp_all add: run_kept_def run_ops_def)
  then show ?thesis
    by (simp add: run_action_def admin_run_ssh_action_def run_prepared plan Let_def start_operation_def
        insert_operation_task_def foreign_key_def stmt_def auto_id_def select_operation_task_def
        operation_row_shown_def finish_command_def run_process_def record_outcome_def
        finish_operation_task_def update_rows_def update_ssh_credential_status_def insert_node_audit_def
        insert_audit_def ssh_action_audit_def map_ok_def)
qed

theorem stored_password_used_witness:
  "\<exists>a ops. run_action = Some (Inr a, ops) \<and> sa_status a = ''ok'' \<and> sa_exit_code a = Some 0 \<and>
     sa_duration_ms a = 20 \<and> trim (cq_password run_credential) = ''pw'' \<and>
     (\<exists>args stdin. run_process args ''wrong'' stdin \<noteq> run_process args ''pw'' stdin)"
proof -
  have laws: "b64_roundtrip demo_crypto" "aead_roundtrip plain_aead" "length run_nonce = 12"
    by (simp_all add: b64_roundtrip_def demo_crypto_def aead_roundtrip_def plain_aead_def run_nonce_def)
  have valid: "utf8_valid (trim (cq_password run_credential))" by code_simp
  have pw: "''pw'' = trim (cq_password run_credential)" by code_simp
  obtain a ops where ran: "run_action = Some (Inr a, ops)" using run_action by blast
  note used = stored_password_used [OF laws valid run_stored [unfolded run_stored_def] pw refl refl refl,
      where same = "(=)" and ?my1.0 = run_mysql and ?my2.0 = run_mysql and ?my3.0 = run_mysql and random = "''r''"
        and now = 1000 and base = None and hs = "[]" and ?admin2.0 = run_admin and action = "''test_connection''"
        and ?ops2.0 = run_kept and ssh = run_process and ssh' = run_process]
  from used ran have "sa_duration_ms a = 20 \<and> sa_status a = ''ok'' \<and> sa_exit_code a = Some 0"
    by (auto simp: run_action_def run_process_def Let_def)
  moreover have "run_process [] ''wrong'' None \<noteq> run_process [] ''pw'' None"
    by (simp add: run_process_def)
  ultimately show ?thesis using ran pw [symmetric] by blast
qed

theorem answered_action_recorded_witness:
  "\<exists>a ops' audit. run_action = Some (Inr a, ops') \<and> ot_status (os_task (sa_task a)) = ''succeeded'' \<and>
     dt_audit (op_db ops') \<noteq> [] \<and> last (dt_audit (op_db ops')) = audit \<and> al_action audit = ''node.ssh_action''"
proof -
  obtain a ops' where run: "run_action = Some (Inr a, ops')" and ok: "sa_status a = ''ok''"
    using run_action by blast
  from answered_action_recorded [OF run [unfolded run_action_def]] run ok show ?thesis
    by (auto simp: outcome_recorded_def)
qed

end
