(* ===== verification/Api_Health.thy ===== *)
theory Api_Health
  imports Api_Ssh Api_Catalog_Store
begin

text \<open>
  The health alerts of \<open>control-api/src/main.rs\<close>: what is wrong with a node, the reconciliation of
  these facts with the table \<open>node_health_alerts\<close>, and the administrators' edits of an alert. Every
  statement of the reconciliation is its own transaction, so other requests may run in between.
\<close>

section \<open>The table\<close>

record health_alert_row =
  hl_id :: u64
  hl_node_id :: u64
  hl_alert_key :: string
  hl_severity :: string
  hl_title :: string
  hl_message :: string
  hl_status :: string
  hl_first_seen_at :: u64
  hl_last_seen_at :: u64
  hl_acknowledged_at :: "u64 option"
  hl_acknowledged_by :: "u64 option"
  hl_resolved_at :: "u64 option"
  hl_updated_at :: u64

record alert_table =
  ht_alerts :: "health_alert_row list"
  ht_next_alert :: u64

section \<open>What is wrong with a node\<close>

record health_alert_spec =
  hs_key :: string
  hs_severity :: string
  hs_title :: string
  hs_message :: string

text \<open>\<open>Value::get\<close> with a name, and \<open>Value::as_bool\<close>.\<close>

definition json_member :: "string \<Rightarrow> json \<Rightarrow> json option" where
  "json_member name j = (case j of JObject ms \<Rightarrow> map_of ms name | _ \<Rightarrow> None)"

definition json_bool :: "json \<Rightarrow> bool option" where
  "json_bool j = (case j of JBool b \<Rightarrow> Some b | _ \<Rightarrow> None)"

definition latest_listener_flags ::
  "(bytes \<Rightarrow> json option) \<Rightarrow> admin_node_row \<Rightarrow> (bool option \<times> bool option) option"
where
  "latest_listener_flags value_of node =
     Option.bind (ar_report node) (\<lambda>report.
     Option.bind (value_of (rr_raw_json report)) (\<lambda>v.
     Option.bind (json_member ''health'' v) (\<lambda>health.
     Option.bind (json_member ''listeners'' health) (\<lambda>listeners.
     Some (Option.bind (json_member ''udp_listening'' listeners) json_bool,
       Option.bind (json_member ''tcp_listening'' listeners) json_bool)))))"

definition planned_status :: "string \<Rightarrow> bool" where
  "planned_status status \<longleftrightarrow> status \<in> {''pending_install'', ''disabled'', ''draining''}"

definition status_alert :: "admin_node_row \<Rightarrow> health_alert_spec list" where
  "status_alert node =
     (let status = nd_status (ar_node node)
      in if status \<noteq> ''online'' then
           [\<lparr>hs_key = ''node_status'', hs_severity = if planned_status status then ''warning'' else ''critical'',
             hs_title = utf8 [0x8282, 0x70B9, 0x672A, 0x5728,
               0x7EBF], hs_message = node_status_value_text status @ utf8 [0xFF0C, 0x8C03, 0x5EA6, 0x4F1A,
                 0x907F, 0x5F00, 0x8FD9, 0x4E2A, 0x8282, 0x70B9, 0x3002]\<rparr>]
         else [])"

definition report_alert :: "admin_node_row \<Rightarrow> u64 \<Rightarrow> health_alert_spec list" where
  "report_alert node now =
     (case nd_last_report_at (ar_node node) of
        None \<Rightarrow>
          [\<lparr>hs_key = ''report_missing'',
            hs_severity = if planned_status (nd_status (ar_node node)) then ''warning'' else ''critical'',
            hs_title = utf8 [0x8FD8, 0x6CA1, 0x6709, 0x5065, 0x5EB7, 0x4E0A,
              0x62A5], hs_message = utf8 [0x8282, 0x70B9, 0x6CA1, 0x6709, 0x4E0A, 0x62A5, 0x8FD0, 0x884C,
                0x6570, 0x636E, 0xFF0C, 0x5148, 0x786E, 0x8BA4, 0x5185, 0x6838, 0x670D, 0x52A1, 0x548C,
                  0x63A7, 0x5236, 0x9762, 0x5730, 0x5740, 0x3002]\<rparr>]
      | Some reported_at \<Rightarrow>
          let age = saturating_sub now reported_at
          in if 180 < age then
               [\<lparr>hs_key = ''report_stale'', hs_severity = ''critical'', hs_title = utf8 [0x5065,
                 0x5EB7, 0x4E0A, 0x62A5, 0x4E2D, 0x65AD],
                 hs_message = (utf8 [0x6700, 0x8FD1, 0x4E00, 0x6B21, 0x4E0A, 0x62A5,
                   0x5728] @ '' '') @ age_label age @ ('' '' @ utf8 [0x524D, 0xFF0C, 0x53EF, 0x80FD, 0x662F,
                     0x8282, 0x70B9, 0x6389, 0x7EBF, 0x6216, 0x63A7, 0x5236, 0x9762, 0x4E0D, 0x53EF, 0x8FBE,
                       0x3002])\<rparr>]
             else if 90 < age then
               [\<lparr>hs_key = ''report_slow'', hs_severity = ''warning'', hs_title = utf8 [0x5065, 0x5EB7,
                 0x4E0A, 0x62A5, 0x5EF6, 0x8FDF],
                 hs_message = (utf8 [0x6700, 0x8FD1, 0x4E00, 0x6B21, 0x4E0A, 0x62A5,
                   0x5728] @ '' '') @ age_label age @ ('' '' @ utf8 [0x524D, 0xFF0C, 0x5EFA, 0x8BAE, 0x89C2,
                     0x5BDF, 0x7F51, 0x7EDC, 0x548C, 0x8282, 0x70B9, 0x8D1F, 0x8F7D, 0x3002])\<rparr>]
             else [])"

definition report_status_alert :: "admin_node_row \<Rightarrow> health_alert_spec list" where
  "report_status_alert node =
     (case map_option rr_report_status (ar_report node) of
        None \<Rightarrow> []
      | Some status \<Rightarrow>
          if status \<noteq> ''ready'' then
            [\<lparr>hs_key = ''report_status'', hs_severity = if status = ''degraded'' then ''warning'' else ''critical'',
              hs_title = utf8 [0x5065, 0x5EB7, 0x4E0A, 0x62A5, 0x72B6, 0x6001, 0x5F02, 0x5E38],
              hs_message = (utf8 [0x6700, 0x65B0, 0x4E0A, 0x62A5, 0x72B6, 0x6001,
                0x662F] @ '' '') @ report_status_value_text status @ utf8 [0xFF0C, 0x9700, 0x8981, 0x67E5,
                  0x770B, 0x8282, 0x70B9, 0x65E5, 0x5FD7, 0x3002]\<rparr>]
          else [])"

definition listener_alert :: "(bytes \<Rightarrow> json option) \<Rightarrow> admin_node_row \<Rightarrow> health_alert_spec list" where
  "listener_alert value_of node =
     (if nd_status (ar_node node) = ''online'' then
        (case latest_listener_flags value_of node of
           None \<Rightarrow> []
         | Some (udp, tcp) \<Rightarrow>
             if udp = Some False \<or> tcp = Some False then
               [\<lparr>hs_key = ''listener_down'', hs_severity = ''critical'', hs_title = utf8 [0x76D1,
                 0x542C, 0x5F02, 0x5E38],
                 hs_message = node_endpoint (ar_node node) @ ('' '' @ utf8 [0x7684, 0x76D1, 0x542C, 0x4E0D,
                   0x5B8C, 0x6574, 0xFF1A]) @ listener_flags_label udp tcp @
                   utf8 [0xFF0C, 0x5BA2, 0x6237, 0x7AEF, 0x53EF, 0x80FD, 0x65E0, 0x6CD5, 0x63A5, 0x5165,
                     0x3002]\<rparr>]
             else [])
      else [])"

definition ssh_alert :: "admin_node_row \<Rightarrow> health_alert_spec list" where
  "ssh_alert node =
     (case ar_credential node of
        None \<Rightarrow> []
      | Some c \<Rightarrow>
          if sc_auth_status c = ''failed'' then
            [\<lparr>hs_key = ''ssh_failed'', hs_severity = ''warning'', hs_title = (''SSH '' @ utf8 [0x8FDE,
              0x63A5, 0x5931, 0x8D25]),
              hs_message = unwrap_or (utf8 [0x670D, 0x52A1, 0x5668, 0x8D26, 0x53F7, 0x5BC6, 0x7801, 0x6216,
                0x7AEF, 0x53E3, 0x53EF, 0x80FD, 0x4E0D, 0x5BF9, 0xFF0C, 0x4E00, 0x952E, 0x5347, 0x7EA7,
                  0x4F1A, 0x5931, 0x8D25, 0x3002]) (sc_last_error c)\<rparr>]
          else [])"

definition build_node_health_alert_specs ::
  "(bytes \<Rightarrow> json option) \<Rightarrow> admin_node_row \<Rightarrow> u64 \<Rightarrow> health_alert_spec list"
where
  "build_node_health_alert_specs value_of node now =
     status_alert node @ report_alert node now @ report_status_alert node @
     listener_alert value_of node @ ssh_alert node"

section \<open>The statements\<close>

text \<open>The row of \<open>uk_node_health_alert\<close>. The keys are constants of the program.\<close>

definition alert_dup :: "u64 \<times> u64 \<times> health_alert_spec \<Rightarrow> health_alert_row \<Rightarrow> bool" where
  "alert_dup x r \<longleftrightarrow> hl_node_id r = fst (snd x) \<and> hl_alert_key r = hs_key (snd (snd x))"

definition new_alert :: "u64 \<Rightarrow> u64 \<times> u64 \<times> health_alert_spec \<Rightarrow> health_alert_row" where
  "new_alert alert_id x =
     (case x of (now, node_id, spec) \<Rightarrow>
     \<lparr>hl_id = alert_id, hl_node_id = node_id, hl_alert_key = hs_key spec, hl_severity = hs_severity spec,
      hl_title = hs_title spec, hl_message = hs_message spec, hl_status = ''open'', hl_first_seen_at = now,
      hl_last_seen_at = now, hl_acknowledged_at = None, hl_acknowledged_by = None, hl_resolved_at = None,
      hl_updated_at = now\<rparr>)"

text \<open>
  \<open>ON DUPLICATE KEY UPDATE\<close> assigns from left to right, and the condition of \<open>resolved_at\<close> reads the
  status that the assignment before it has just written.
\<close>

definition alert_over :: "u64 \<times> u64 \<times> health_alert_spec \<Rightarrow> health_alert_row \<Rightarrow> health_alert_row" where
  "alert_over x r =
     (case x of (now, node_id, spec) \<Rightarrow>
     let r1 = r\<lparr>hl_severity := hs_severity spec, hl_title := hs_title spec, hl_message := hs_message spec,
                hl_last_seen_at := now\<rparr>;
         r2 = r1\<lparr>hl_status := if hl_status r1 = ''resolved'' then ''open'' else hl_status r1\<rparr>
     in r2\<lparr>hl_resolved_at := if hl_status r2 = ''resolved'' then None else hl_resolved_at r2,
           hl_updated_at := now\<rparr>)"

definition upsert_health_alert ::
  "mysql \<Rightarrow> nat \<Rightarrow> database \<Rightarrow> u64 \<Rightarrow> health_alert_spec \<Rightarrow> alert_table \<Rightarrow> (app_error, alert_table) result"
where
  "upsert_health_alert my i db node_id spec t =
     bind_result (stmt my i ()) (\<lambda>_.
     bind_result (foreign_key node_id db) (\<lambda>_.
     let x = (my_now my i, node_id, spec)
     in if list_ex (alert_dup x) (ht_alerts t) then
          Inr (t\<lparr>ht_alerts := update_rows (alert_dup x) (alert_over x) (ht_alerts t)\<rparr>)
        else
          bind_result (auto_id (ht_next_alert t)) (\<lambda>alert_id.
          Inr (t\<lparr>ht_alerts := ht_alerts t @ [new_alert alert_id x], ht_next_alert := alert_id + 1\<rparr>))))"

definition resolve_missing_health_alerts ::
  "mysql \<Rightarrow> nat \<Rightarrow> u64 \<Rightarrow> health_alert_spec list \<Rightarrow> alert_table \<Rightarrow> (app_error, alert_table) result"
where
  "resolve_missing_health_alerts my i node_id active_specs t =
     stmt my i (t\<lparr>ht_alerts := update_rows
       (\<lambda>r. hl_node_id r = node_id \<and> hl_status r \<in> {''open'', ''acknowledged'', ''ignored''} \<and>
          hl_alert_key r \<notin> hs_key ` set active_specs)
       (\<lambda>r. r\<lparr>hl_status := ''resolved'', hl_resolved_at := Some (unwrap_or (my_now my i) (hl_resolved_at r)),
              hl_updated_at := my_now my i\<rparr>) (ht_alerts t)\<rparr>)"

text \<open>
  A sequence of transactions: before the \<open>i\<close>-th, the requests of others run (\<open>between i\<close>), and an
  error leaves what was written before it. The last number is that of the next statement.
\<close>

primrec run_statements ::
  "(nat \<Rightarrow> 's \<Rightarrow> 's) \<Rightarrow> (nat \<Rightarrow> 's \<Rightarrow> ('e, 's) result) list \<Rightarrow> nat \<Rightarrow> 's \<Rightarrow> ('e, nat) result \<times> 's"
where
  "run_statements between [] i s = (Inr i, s)"
| "run_statements between (f # fs) i s =
     (case f i (between i s) of
        Inl e \<Rightarrow> (Inl e, between i s)
      | Inr s' \<Rightarrow> run_statements between fs (Suc i) s')"

definition node_statements ::
  "mysql \<Rightarrow> (nat \<Rightarrow> database) \<Rightarrow> (bytes \<Rightarrow> json option) \<Rightarrow> u64 \<Rightarrow> admin_node_row \<Rightarrow>
   (nat \<Rightarrow> alert_table \<Rightarrow> (app_error, alert_table) result) list"
where
  "node_statements my dbs value_of now node =
     (let specs = build_node_health_alert_specs value_of node now;
          node_id = nd_id (ar_node node)
      in map (\<lambda>spec i. upsert_health_alert my i (dbs i) node_id spec) specs @
         [\<lambda>i. resolve_missing_health_alerts my i node_id specs])"

definition reconcile_node_health_alerts ::
  "mysql \<Rightarrow> (nat \<Rightarrow> database) \<Rightarrow> (nat \<Rightarrow> alert_table \<Rightarrow> alert_table) \<Rightarrow> (bytes \<Rightarrow> json option) \<Rightarrow> u64 \<Rightarrow>
   operations \<Rightarrow> alert_table \<Rightarrow> (app_error, nat) result \<times> alert_table"
where
  "reconcile_node_health_alerts my dbs between value_of now seen t =
     (case select_admin_nodes my 0 seen 500 of
        Inl e \<Rightarrow> (Inl e, t)
      | Inr nodes \<Rightarrow>
          run_statements between (concat (map (node_statements my dbs value_of now) nodes)) 1 t)"

section \<open>Lists and edits\<close>

definition validate_health_alert_status :: "string \<Rightarrow> (app_error, string) result" where
  "validate_health_alert_status =
     word_of [''open'', ''acknowledged'', ''ignored'']
       (bad_request ''invalid_health_alert_status''
         ''health alert status must be open, acknowledged, or ignored'')"

definition validate_health_alert_filter_status :: "string \<Rightarrow> (app_error, unit) result" where
  "validate_health_alert_filter_status status =
     (if status \<in> {''open'', ''acknowledged'', ''resolved'', ''ignored''} then Inr ()
      else Inl (bad_request ''invalid_health_alert_status'' ''health alert status filter is invalid''))"

definition validate_health_alert_severity :: "string \<Rightarrow> (app_error, unit) result" where
  "validate_health_alert_severity severity =
     (if severity \<in> {''critical'', ''warning''} then Inr ()
      else Inl (bad_request ''invalid_health_alert_severity''
        ''health alert severity must be critical or warning''))"

record health_alert_summary =
  hy_alert :: health_alert_row
  hy_node_name :: string
  hy_node_endpoint :: string

definition health_alert_summary_of :: "database \<Rightarrow> health_alert_row \<Rightarrow> health_alert_summary option" where
  "health_alert_summary_of db r =
     map_option (\<lambda>n. \<lparr>hy_alert = r, hy_node_name = nd_name n, hy_node_endpoint = node_endpoint n\<rparr>)
       (find_node (hl_node_id r) db)"

text \<open>\<open>FIELD\<close>: the position in the list, and \<open>0\<close> for a value that is not in it.\<close>

definition field_position :: "string list \<Rightarrow> string \<Rightarrow> nat" where
  "field_position words w = (if w \<in> set words then Suc (length (takeWhile (\<lambda>v. v \<noteq> w) words)) else 0)"

definition status_filter :: "string option \<Rightarrow> (app_error, health_alert_row \<Rightarrow> bool) result" where
  "status_filter status =
     (case status of
        None \<Rightarrow> Inr (\<lambda>_. True)
      | Some s \<Rightarrow>
          if s = ''active'' then Inr (\<lambda>r. hl_status r \<in> {''open'', ''acknowledged''})
          else if s = ''all'' then Inr (\<lambda>_. True)
          else bind_result (validate_health_alert_filter_status s) (\<lambda>_. Inr (\<lambda>r. hl_status r = s)))"

definition severity_filter :: "string option \<Rightarrow> (app_error, health_alert_row \<Rightarrow> bool) result" where
  "severity_filter severity =
     (case severity of
        None \<Rightarrow> Inr (\<lambda>_. True)
      | Some s \<Rightarrow> bind_result (validate_health_alert_severity s) (\<lambda>_. Inr (\<lambda>r. hl_severity r = s)))"

text \<open>Rows stand in the order of their ids; the sorts are stable, the first key last.\<close>

definition alert_order :: "health_alert_row list \<Rightarrow> health_alert_row list" where
  "alert_order rows =
     sort_key (\<lambda>r. field_position [''open'', ''acknowledged'', ''ignored'', ''resolved''] (hl_status r))
       (sort_key (\<lambda>r. field_position [''critical'', ''warning''] (hl_severity r))
         (sort_key (\<lambda>r. 2 ^ 64 - unat (hl_last_seen_at r)) (rev rows)))"

definition select_health_alerts ::
  "mysql \<Rightarrow> nat \<Rightarrow> database \<Rightarrow> u64 option \<Rightarrow> string option \<Rightarrow> string option \<Rightarrow> u32 \<Rightarrow> alert_table \<Rightarrow>
   (app_error, health_alert_summary list) result"
where
  "select_health_alerts my i db node_id status severity limit t =
     bind_result (status_filter status) (\<lambda>by_status.
     bind_result (severity_filter severity) (\<lambda>by_severity.
     stmt my i (take (unat limit) (List.map_filter (health_alert_summary_of db)
       (alert_order (filter (\<lambda>r. (case node_id of None \<Rightarrow> True | Some m \<Rightarrow> hl_node_id r = m) \<and>
         by_status r \<and> by_severity r) (ht_alerts t)))))))"

record health_alert_counts =
  hc_open :: nat
  hc_acknowledged :: nat
  hc_ignored :: nat
  hc_resolved :: nat
  hc_critical :: nat
  hc_warning :: nat

definition count_alert :: "health_alert_summary \<Rightarrow> health_alert_counts \<Rightarrow> health_alert_counts" where
  "count_alert a c =
     (let s = hl_status (hy_alert a);
          v = hl_severity (hy_alert a);
          c1 = (if s = ''open'' then c\<lparr>hc_open := hc_open c + 1\<rparr>
            else if s = ''acknowledged'' then c\<lparr>hc_acknowledged := hc_acknowledged c + 1\<rparr>
            else if s = ''ignored'' then c\<lparr>hc_ignored := hc_ignored c + 1\<rparr>
            else if s = ''resolved'' then c\<lparr>hc_resolved := hc_resolved c + 1\<rparr> else c)
      in if v = ''critical'' then c1\<lparr>hc_critical := hc_critical c1 + 1\<rparr>
         else if v = ''warning'' then c1\<lparr>hc_warning := hc_warning c1 + 1\<rparr> else c1)"

definition health_alert_counts_of :: "health_alert_summary list \<Rightarrow> health_alert_counts" where
  "health_alert_counts_of alerts =
     fold count_alert alerts \<lparr>hc_open = 0, hc_acknowledged = 0, hc_ignored = 0, hc_resolved = 0,
       hc_critical = 0, hc_warning = 0\<rparr>"

definition admin_list_health_alerts ::
  "mysql \<Rightarrow> (nat \<Rightarrow> database) \<Rightarrow> (nat \<Rightarrow> alert_table \<Rightarrow> alert_table) \<Rightarrow> (bytes \<Rightarrow> json option) \<Rightarrow> u64 \<Rightarrow>
   (app_error, admin_actor) result \<Rightarrow> u64 option \<Rightarrow> string option \<Rightarrow> string option \<Rightarrow> u32 option \<Rightarrow>
   operations \<Rightarrow> alert_table \<Rightarrow>
   (app_error, health_alert_summary list \<times> health_alert_counts) result \<times> alert_table"
where
  "admin_list_health_alerts my dbs between value_of now admin node_id status severity limit seen t =
     (case admin of
        Inl e \<Rightarrow> (Inl e, t)
      | Inr actor \<Rightarrow>
          (case reconcile_node_health_alerts my dbs between value_of now seen t of
             (Inl e, t1) \<Rightarrow> (Inl e, t1)
           | (Inr i, t1) \<Rightarrow>
               (bind_result (select_health_alerts my i (dbs i) node_id (nonempty_text status)
                    (nonempty_text severity) (clamp_limit limit 200 500) (between i t1)) (\<lambda>alerts.
                  Inr (alerts, health_alert_counts_of alerts)), between i t1)))"

definition set_alert_status ::
  "u64 \<Rightarrow> string \<Rightarrow> u64 option \<Rightarrow> health_alert_row \<Rightarrow> health_alert_row"
where
  "set_alert_status now status actor_id r =
     (if status = ''open'' then
        r\<lparr>hl_status := ''open'', hl_acknowledged_at := None, hl_acknowledged_by := None,
          hl_resolved_at := None, hl_updated_at := now\<rparr>
      else
        r\<lparr>hl_status := status, hl_acknowledged_at := Some now, hl_acknowledged_by := actor_id,
          hl_updated_at := now\<rparr>)"

text \<open>The update and the row read after it.\<close>

definition update_health_alert_status ::
  "mysql \<Rightarrow> database \<Rightarrow> u64 \<Rightarrow> string \<Rightarrow> admin_actor \<Rightarrow> alert_table \<Rightarrow>
   (app_error, health_alert_summary) result \<times> alert_table"
where
  "update_health_alert_status my db alert_id status actor t =
     (case stmt my 0 (t\<lparr>ht_alerts := update_rows (\<lambda>r. hl_id r = alert_id)
         (set_alert_status (my_now my 0) status (aa_id actor)) (ht_alerts t)\<rparr>) of
        Inl e \<Rightarrow> (Inl e, t)
      | Inr t' \<Rightarrow>
          (bind_result (stmt my 1 (Option.bind (find (\<lambda>r. hl_id r = alert_id) (ht_alerts t'))
             (health_alert_summary_of db)))
             (ok_or (not_found ''health_alert_not_found'' ''health alert does not exist'')), t'))"

definition admin_update_health_alert ::
  "mysql \<Rightarrow> (app_error, admin_actor) result \<Rightarrow> u64 \<Rightarrow> string \<Rightarrow> alert_table \<Rightarrow> database \<Rightarrow>
   (app_error, health_alert_summary) result \<times> alert_table \<times> database"
where
  "admin_update_health_alert my admin alert_id status t db =
     (case bind_result admin (\<lambda>actor.
          bind_result (validate_health_alert_status status) (\<lambda>s. Inr (actor, s))) of
        Inl e \<Rightarrow> (Inl e, t, db)
      | Inr (actor, s) \<Rightarrow>
          (case update_health_alert_status my db alert_id s actor t of
             (Inl e, t') \<Rightarrow> (Inl e, t', db)
           | (Inr alert, t') \<Rightarrow>
               let r = hy_alert alert
               in (case bind_result (stmt my 2 ()) (\<lambda>_. insert_node_audit
                     \<lparr>al_node_id = hl_node_id r, al_actor_type = audit_actor_type actor, al_actor_id = aa_id actor,
                      al_action = ''node.health_alert.update'',
                      al_detail = JObject [(''alert_id'', JNumber (show_u64 (hl_id r))),
                        (''alert_key'', JString (hl_alert_key r)), (''severity'', JString (hl_severity r)),
                        (''status'', JString (hl_status r)), (''title'', JString (hl_title r))]\<rparr> db) of
                     Inl e \<Rightarrow> (Inl e, t', db)
                   | Inr db' \<Rightarrow> (Inr alert, t', db'))))"

end
