(* ===== verification/Api_Health_Log.thy ===== *)
theory Api_Health_Log
  imports Api_Health
begin

text \<open>
  What holds of the health alerts over all runs: the table stays well formed whatever statements are
  interleaved, a reconciliation leaves exactly the alerts of what is wrong, and it respects what the
  administrators decided.
\<close>

section \<open>Runs\<close>

text \<open>
  One step of the table: a problem is raised, the missing ones of a node are resolved, an
  administrator edits an alert, or a node is deleted with its alerts.
\<close>

inductive alert_step :: "alert_table \<Rightarrow> alert_table \<Rightarrow> bool" where
  raise: "upsert_health_alert my i db node_id spec t = Inr t' \<Longrightarrow>
    spec \<in> set (build_node_health_alert_specs value_of node now) \<Longrightarrow> alert_step t t'"
| resolve: "resolve_missing_health_alerts my i node_id specs t = Inr t' \<Longrightarrow> alert_step t t'"
| edit: "validate_health_alert_status status = Inr s \<Longrightarrow>
    update_health_alert_status my db alert_id s actor t = (x, t') \<Longrightarrow> alert_step t t'"
| delete_node: "alert_step t (t\<lparr>ht_alerts := filter (\<lambda>r. hl_node_id r \<noteq> node_id) (ht_alerts t)\<rparr>)"

abbreviation alert_run :: "alert_table \<Rightarrow> alert_table \<Rightarrow> bool" where
  "alert_run \<equiv> alert_step\<^sup>*\<^sup>*"

interpretation alerts: upsert_table alert_dup alert_over
  by unfold_locales (auto simp: alert_dup_def alert_over_def Let_def split: prod.splits)

lemma alert_over_simps [simp]:
  "hl_id (alert_over x r) = hl_id r" "hl_node_id (alert_over x r) = hl_node_id r"
  "hl_alert_key (alert_over x r) = hl_alert_key r"
  "hl_severity (alert_over x r) = hs_severity (snd (snd x))" "hl_title (alert_over x r) = hs_title (snd (snd x))"
  "hl_message (alert_over x r) = hs_message (snd (snd x))"
  "hl_status (alert_over x r) = (if hl_status r = ''resolved'' then ''open'' else hl_status r)"
  "hl_acknowledged_at (alert_over x r) = hl_acknowledged_at r"
  "hl_acknowledged_by (alert_over x r) = hl_acknowledged_by r"
  "hl_resolved_at (alert_over x r) = hl_resolved_at r"
  by (simp_all add: alert_over_def Let_def split: prod.splits)

lemma new_alert_simps [simp]:
  "hl_id (new_alert n x) = n" "hl_node_id (new_alert n x) = fst (snd x)"
  "hl_alert_key (new_alert n x) = hs_key (snd (snd x))" "hl_status (new_alert n x) = ''open''"
  "hl_severity (new_alert n x) = hs_severity (snd (snd x))" "alert_over x (new_alert n x) = new_alert n x"
  "hl_acknowledged_at (new_alert n x) = None" "hl_acknowledged_by (new_alert n x) = None"
  "alert_dup x (new_alert n x)"
  by (simp_all add: new_alert_def alert_over_def alert_dup_def Let_def split: prod.splits)

lemma set_alert_status_simps [simp]:
  "hl_id (set_alert_status now s a r) = hl_id r" "hl_node_id (set_alert_status now s a r) = hl_node_id r"
  "hl_alert_key (set_alert_status now s a r) = hl_alert_key r"
  "hl_severity (set_alert_status now s a r) = hl_severity r" "hl_status (set_alert_status now s a r) = s"
  "hl_acknowledged_at (set_alert_status now s a r) = (if s = ''open'' then None else Some now)"
  "hl_acknowledged_by (set_alert_status now s a r) = (if s = ''open'' then None else a)"
  by (simp_all add: set_alert_status_def)

text \<open>The upsert is one of the table with this key.\<close>

lemma upsert_health_alert_Inr:
  assumes "upsert_health_alert my i db node_id spec t = Inr t'"
  obtains alert_id where
    "ht_alerts t' = upsert_rows (alert_dup (my_now my i, node_id, spec)) (alert_over (my_now my i, node_id, spec))
       (new_alert alert_id (my_now my i, node_id, spec)) (ht_alerts t)"
    "rows_ok hl_id (ht_alerts t) (ht_next_alert t) \<longrightarrow> rows_ok hl_id (ht_alerts t') (ht_next_alert t')"
proof (cases "list_ex (alert_dup (my_now my i, node_id, spec)) (ht_alerts t)")
  case True
  with assms have t': "t' = t\<lparr>ht_alerts := update_rows (alert_dup (my_now my i, node_id, spec))
      (alert_over (my_now my i, node_id, spec)) (ht_alerts t)\<rparr>"
    by (simp add: upsert_health_alert_def stmt_def Let_def)
  show ?thesis
    by (rule that [where alert_id = 0])
      (simp_all add: t' upsert_rows_def True rows_ok_update)
next
  case False
  with assms obtain alert_id where id: "auto_id (ht_next_alert t) = Inr alert_id"
    and t': "t' = t\<lparr>ht_alerts := ht_alerts t @ [new_alert alert_id (my_now my i, node_id, spec)],
      ht_next_alert := alert_id + 1\<rparr>"
    by (auto simp: upsert_health_alert_def stmt_def Let_def)
  show ?thesis
    by (rule that [where alert_id = alert_id])
      (use id in \<open>simp_all add: t' upsert_rows_def False rows_ok_append\<close>)
qed

section \<open>Well-formed tables\<close>

definition alert_row_ok :: "health_alert_row \<Rightarrow> bool" where
  "alert_row_ok r \<longleftrightarrow>
     hl_status r \<in> {''open'', ''acknowledged'', ''ignored'', ''resolved''} \<and>
     hl_severity r \<in> {''critical'', ''warning''} \<and>
     (hl_status r = ''resolved'' \<longrightarrow> hl_resolved_at r \<noteq> None) \<and>
     (hl_status r \<in> {''acknowledged'', ''ignored''} \<longrightarrow> hl_acknowledged_at r \<noteq> None) \<and>
     (hl_acknowledged_by r \<noteq> None \<longrightarrow> hl_acknowledged_at r \<noteq> None)"

definition alerts_ok :: "alert_table \<Rightarrow> bool" where
  "alerts_ok t \<longleftrightarrow> rows_ok hl_id (ht_alerts t) (ht_next_alert t) \<and> unique_rows alert_dup (ht_alerts t) \<and>
     list_all alert_row_ok (ht_alerts t)"

lemma specs_severity:
  "list_all (\<lambda>spec. hs_severity spec \<in> {''critical'', ''warning''}) (build_node_health_alert_specs value_of node now)"
  unfolding build_node_health_alert_specs_def list_all_append
  by (intro conjI)
    (simp_all add: status_alert_def report_alert_def report_status_alert_def listener_alert_def ssh_alert_def
      Let_def split: option.split)

lemma alert_clash:
  "(\<forall>x. \<not> (alert_dup x r \<and> alert_dup x s)) \<longleftrightarrow>
    \<not> (hl_node_id r = hl_node_id s \<and> hl_alert_key r = hl_alert_key s)"
proof -
  have "alert_dup (0, hl_node_id r, \<lparr>hs_key = hl_alert_key r, hs_severity = [], hs_title = [], hs_message = []\<rparr>) u
      \<longleftrightarrow> hl_node_id u = hl_node_id r \<and> hl_alert_key u = hl_alert_key r" for u
    by (simp add: alert_dup_def)
  note dup = this
  show ?thesis
  proof
    assume none: "\<forall>x. \<not> (alert_dup x r \<and> alert_dup x s)"
    show "\<not> (hl_node_id r = hl_node_id s \<and> hl_alert_key r = hl_alert_key s)"
      using none [THEN spec, of "(0, hl_node_id r, \<lparr>hs_key = hl_alert_key r, hs_severity = [],
        hs_title = [], hs_message = []\<rparr>)"] unfolding dup by auto
  qed (auto simp: alert_dup_def)
qed

lemma unique_rows_key:
  "unique_rows alert_dup rows \<longleftrightarrow>
     sorted_wrt (\<lambda>r s. \<not> (hl_node_id r = hl_node_id s \<and> hl_alert_key r = hl_alert_key s)) rows"
  by (simp only: unique_rows_def alert_clash)

lemma unique_update_rows:
  assumes "unique_rows alert_dup rows" "\<And>r. hl_node_id (f r) = hl_node_id r" "\<And>r. hl_alert_key (f r) = hl_alert_key r"
  shows "unique_rows alert_dup (update_rows p f rows)"
proof -
  have "hl_node_id (if p r then f r else r) = hl_node_id r" "hl_alert_key (if p r then f r else r) = hl_alert_key r"
    for r by (simp_all add: assms(2,3))
  with assms(1) show ?thesis unfolding unique_rows_key update_rows_def sorted_wrt_map by simp
qed

lemma set_upsert:
  "r \<in> set (upsert_rows p f new rows) \<Longrightarrow> r = new \<or> r \<in> set rows \<or> (\<exists>s \<in> set rows. r = f s)"
  by (auto simp: upsert_rows_def update_rows_def split: if_splits)

lemma alerts_ok_changed:
  assumes "alerts_ok t" "\<And>r. hl_id (f r) = hl_id r" "\<And>r. hl_node_id (f r) = hl_node_id r"
    "\<And>r. hl_alert_key (f r) = hl_alert_key r" "\<And>r. alert_row_ok r \<Longrightarrow> alert_row_ok (f r)"
  shows "alerts_ok (t\<lparr>ht_alerts := update_rows p f (ht_alerts t)\<rparr>)"
  using assms unfolding alerts_ok_def
  by (simp add: rows_ok_update unique_update_rows) (auto simp: list_all_iff update_rows_def)

lemma alert_row_ok_written:
  assumes "hs_severity (snd (snd x)) \<in> {''critical'', ''warning''}"
  shows "alert_row_ok (new_alert n x)" and "alert_row_ok r \<Longrightarrow> alert_row_ok (alert_over x r)"
  using assms by (auto simp: alert_row_ok_def)

lemma alert_step_ok:
  assumes "alert_step t t'" "alerts_ok t"
  shows "alerts_ok t'"
  using assms
proof cases
  case (raise my i db node_id spec value_of node now)
  let ?x = "(my_now my i, node_id, spec)"
  obtain n where
    t': "ht_alerts t' = upsert_rows (alert_dup ?x) (alert_over ?x) (new_alert n ?x) (ht_alerts t)" and
    rows: "rows_ok hl_id (ht_alerts t) (ht_next_alert t) \<longrightarrow> rows_ok hl_id (ht_alerts t') (ht_next_alert t')"
    by (rule upsert_health_alert_Inr [OF raise(1)])
  have "unique_rows alert_dup (ht_alerts t')"
    unfolding t' by (rule alerts.unique_upsert) (use assms(2) in \<open>simp_all add: alerts_ok_def\<close>)
  moreover have "alert_row_ok r" if "r \<in> set (ht_alerts t')" for r
  proof -
    have "hs_severity (snd (snd ?x)) \<in> {''critical'', ''warning''}"
      using specs_severity [of value_of node now] raise(2) by (simp add: list_all_iff)
    note written = alert_row_ok_written [OF this]
    have "\<forall>s \<in> set (ht_alerts t). alert_row_ok s" using assms(2) by (simp add: alerts_ok_def list_all_iff)
    with set_upsert [OF that [unfolded t']] written show ?thesis by blast
  qed
  ultimately show ?thesis using rows assms(2) by (simp add: alerts_ok_def list_all_iff)
next
  case (resolve my i node_id specs)
  then have t': "t' = t\<lparr>ht_alerts := update_rows
       (\<lambda>r. hl_node_id r = node_id \<and> hl_status r \<in> {''open'', ''acknowledged'', ''ignored''} \<and>
          hl_alert_key r \<notin> hs_key ` set specs)
       (\<lambda>r. r\<lparr>hl_status := ''resolved'', hl_resolved_at := Some (unwrap_or (my_now my i) (hl_resolved_at r)),
              hl_updated_at := my_now my i\<rparr>) (ht_alerts t)\<rparr>"
    by (auto simp: resolve_missing_health_alerts_def stmt_def)
  show ?thesis unfolding t' by (rule alerts_ok_changed) (use assms(2) in \<open>simp_all add: alert_row_ok_def\<close>)
next
  case (edit status s my db alert_id actor x)
  from edit(1) have s: "s \<in> {''open'', ''acknowledged'', ''ignored''}"
    by (auto simp: validate_health_alert_status_def word_of_def split: if_splits)
  from edit(2) have "t' = t \<or> t' = t\<lparr>ht_alerts := update_rows (\<lambda>r. hl_id r = alert_id)
      (set_alert_status (my_now my 0) s (aa_id actor)) (ht_alerts t)\<rparr>"
    unfolding update_health_alert_status_def by (rule handler_cases) (auto simp: stmt_def)
  moreover have "alerts_ok (t\<lparr>ht_alerts := update_rows (\<lambda>r. hl_id r = alert_id)
      (set_alert_status (my_now my 0) s (aa_id actor)) (ht_alerts t)\<rparr>)"
    by (rule alerts_ok_changed) (use assms(2) s in \<open>auto simp: alert_row_ok_def\<close>)
  ultimately show ?thesis using assms(2) by auto
next
  case (delete_node node_id)
  with assms(2) show ?thesis
    by (simp add: alerts_ok_def rows_ok_filter unique_rows_def sorted_wrt_filter) (auto simp: list_all_iff)
qed

section \<open>The handlers are runs\<close>

lemma run_statements_run:
  assumes "\<And>i s. step\<^sup>*\<^sup>* s (between i s)"
    and "\<And>f i s s'. f \<in> set fs \<Longrightarrow> f i s = Inr s' \<Longrightarrow> step\<^sup>*\<^sup>* s s'"
    and "run_statements between fs i s = (x, s')"
  shows "step\<^sup>*\<^sup>* s s'"
  using assms(2,3)
proof (induction fs arbitrary: i s)
  case (Cons f fs)
  show ?case
  proof (cases "f i (between i s)")
    case Inl
    with Cons.prems(2) assms(1) show ?thesis by auto
  next
    case (Inr u)
    with Cons.prems(2) have rest: "run_statements between fs (Suc i) u = (x, s')" by simp
    have "step\<^sup>*\<^sup>* (between i s) u" by (rule Cons.prems(1) [where f = f and i = i]) (simp_all add: Inr)
    moreover have "step\<^sup>*\<^sup>* u s'"
    proof (rule Cons.IH [OF _ rest])
      fix g i s s'
      assume "g \<in> set fs" "g i s = Inr s'"
      then show "step\<^sup>*\<^sup>* s s'" by (intro Cons.prems(1) [where f = g and i = i]) simp_all
    qed
    ultimately show ?thesis using assms(1) [of s i] by (meson rtranclp_trans)
  qed
qed simp

lemma node_statements_step:
  assumes "f \<in> set (node_statements my dbs value_of now node)" "f i t = Inr t'"
  shows "alert_step t t'"
  using assms
  by (auto simp: node_statements_def Let_def intro: alert_step.raise alert_step.resolve)

lemma reconcile_run:
  assumes "\<And>i t. alert_run t (between i t)"
    and "reconcile_node_health_alerts my dbs between value_of now seen t = (x, t')"
  shows "alert_run t t'"
  using assms(2) unfolding reconcile_node_health_alerts_def
proof (rule handler_cases)
  fix nodes
  assume "run_statements between (concat (map (node_statements my dbs value_of now) nodes)) 1 t = (x, t')"
  then show "alert_run t t'"
    by (rule run_statements_run [OF assms(1), rotated]) (auto dest: node_statements_step)
qed simp

text \<open>
  The table stays well formed: whatever an administrator's list writes while other requests run
  between its statements, ids stay distinct, a node has one alert of each kind, a resolved alert has
  a time of resolution, and one that was acknowledged or ignored says when.
\<close>

theorem alert_table_stays_well_formed:
  assumes "\<And>i t. alert_run t (between i t)"
    and "admin_list_health_alerts my dbs between value_of now admin node_id status severity limit seen t = (x, t')"
    and "alerts_ok t"
  shows "alerts_ok t'"
proof -
  have "alert_run t t'"
    using assms(2) unfolding admin_list_health_alerts_def
  proof (rule handler_cases)
    fix actor
    assume "(case reconcile_node_health_alerts my dbs between value_of now seen t of
        (Inl e, t1) \<Rightarrow> (Inl e, t1)
      | (Inr i, t1) \<Rightarrow>
          (bind_result (select_health_alerts my i (dbs i) node_id (nonempty_text status)
               (nonempty_text severity) (clamp_limit limit 200 500) (between i t1)) (\<lambda>alerts.
             Inr (alerts, health_alert_counts_of alerts)), between i t1)) = (x, t')"
    then show "alert_run t t'"
      by (auto split: prod.splits sum.splits intro: rtranclp_trans [OF reconcile_run [OF assms(1)] assms(1)]
          reconcile_run [OF assms(1)])
  qed simp
  then show ?thesis
    by (induction rule: rtranclp_induct) (auto intro: alert_step_ok assms(3))
qed

section \<open>What a reconciliation leaves\<close>

text \<open>No request runs between the statements.\<close>

abbreviation idle :: "nat \<Rightarrow> 's \<Rightarrow> 's" where
  "idle \<equiv> \<lambda>_ s. s"

lemma run_statements_append:
  "run_statements idle (fs @ gs) i s =
     (case run_statements idle fs i s of
        (Inl e, s') \<Rightarrow> (Inl e, s')
      | (Inr j, s') \<Rightarrow> run_statements idle gs j s')"
  by (induction fs arbitrary: i s) (auto split: sum.split)

lemma run_statements_append_Inr:
  assumes "run_statements idle (fs @ gs) i s = (Inr j, s')"
  obtains k u where "run_statements idle fs i s = (Inr k, u)" "run_statements idle gs k u = (Inr j, s')"
  using assms by (auto simp: run_statements_append split: prod.splits sum.splits)

lemma run_statements_keep:
  assumes "\<And>f i s s'. f \<in> set fs \<Longrightarrow> f i s = Inr s' \<Longrightarrow> P s \<Longrightarrow> P s'"
    and "run_statements idle fs i s = (x, s')" "P s"
  shows "P s'"
proof -
  have "(\<lambda>s s'. P s \<longrightarrow> P s')\<^sup>*\<^sup>* s s'"
    by (rule run_statements_run [OF _ _ assms(2)]) (use assms(1) in blast)+
  then show ?thesis by (induction rule: rtranclp_induct) (simp_all add: assms(3))
qed

lemma specs_keys:
  "map hs_key (status_alert node) \<in> {[], [''node_status'']}"
  "map hs_key (report_alert node now) \<in> {[], [''report_missing''], [''report_stale''], [''report_slow'']}"
  "map hs_key (report_status_alert node) \<in> {[], [''report_status'']}"
  "map hs_key (listener_alert value_of node) \<in> {[], [''listener_down'']}"
  "map hs_key (ssh_alert node) \<in> {[], [''ssh_failed'']}"
  by (simp_all add: status_alert_def report_alert_def report_status_alert_def listener_alert_def ssh_alert_def
      Let_def split: option.split)

lemma specs_distinct: "distinct (map hs_key (build_node_health_alert_specs value_of node now))"
  using specs_keys(1) [of node] specs_keys(2) [of node now] specs_keys(3) [of node]
    specs_keys(4) [of value_of node] specs_keys(5) [of node]
  unfolding build_node_health_alert_specs_def map_append by (elim insertE emptyE) simp_all

definition alerts_of :: "u64 \<Rightarrow> alert_table \<Rightarrow> health_alert_row set" where
  "alerts_of node_id t = {r \<in> set (ht_alerts t). hl_node_id r = node_id}"

lemma upsert_other_node:
  assumes "\<And>r. dup r \<Longrightarrow> hl_node_id r \<noteq> n" "\<And>r. hl_node_id (f r) = hl_node_id r" "hl_node_id new \<noteq> n"
  shows "{r \<in> set (upsert_rows dup f new rows). hl_node_id r = n} = {r \<in> set rows. hl_node_id r = n}"
  using assms by (force simp: upsert_rows_def update_rows_def image_iff)

lemma other_node_kept:
  assumes "f \<in> set (node_statements my dbs value_of now node)" "nd_id (ar_node node) \<noteq> n" "f i t = Inr t'"
  shows "alerts_of n t' = alerts_of n t"
proof -
  let ?m = "nd_id (ar_node node)" and ?specs = "build_node_health_alert_specs value_of node now"
  consider (raise) spec where "upsert_health_alert my i (dbs i) ?m spec t = Inr t'"
    | (resolve) "resolve_missing_health_alerts my i ?m ?specs t = Inr t'"
    using assms(1,3) by (auto simp: node_statements_def Let_def)
  then show ?thesis
  proof cases
    case raise
    show ?thesis
    proof (rule upsert_health_alert_Inr [OF raise])
      fix a
      assume t': "ht_alerts t' = upsert_rows (alert_dup (my_now my i, ?m, spec)) (alert_over (my_now my i, ?m, spec))
          (new_alert a (my_now my i, ?m, spec)) (ht_alerts t)"
      show ?thesis unfolding alerts_of_def t'
        by (rule upsert_other_node) (use assms(2) in \<open>simp_all add: alert_dup_def\<close>)
    qed
  next
    case resolve
    with assms(2) show ?thesis
      by (force simp: alerts_of_def resolve_missing_health_alerts_def stmt_def update_rows_def image_iff)
  qed
qed

lemma upserts_settled:
  assumes "run_statements idle (map (\<lambda>spec i. upsert_health_alert my i (dbs i) n spec) specs) i t = (Inr j, u)"
    and "settled alert_dup alert_over xs (ht_alerts t)"
  shows "\<exists>ys. map snd ys = map (Pair n) specs \<and> settled alert_dup alert_over (xs @ ys) (ht_alerts u)"
  using assms
proof (induction specs arbitrary: i t xs)
  case (Cons spec specs)
  from Cons.prems(1) obtain t1 where one: "upsert_health_alert my i (dbs i) n spec t = Inr t1"
    and rest: "run_statements idle (map (\<lambda>spec i. upsert_health_alert my i (dbs i) n spec) specs) (Suc i) t1 = (Inr j, u)"
    by (auto split: sum.splits)
  have "settled alert_dup alert_over (xs @ [(my_now my i, n, spec)]) (ht_alerts t1)"
    by (rule upsert_health_alert_Inr [OF one]) (simp add: alerts.settled_upsert [OF Cons.prems(2)])
  from Cons.IH [OF rest this] obtain ys where
    "map snd ys = map (Pair n) specs" "settled alert_dup alert_over (xs @ [(my_now my i, n, spec)] @ ys) (ht_alerts u)"
    by auto
  then show ?case by (intro exI [of _ "(my_now my i, n, spec) # ys"]) simp
qed (intro exI [of _ "[]"], simp)

definition alerts_match :: "health_alert_spec list \<Rightarrow> health_alert_row set \<Rightarrow> bool" where
  "alerts_match specs rows \<longleftrightarrow>
     (\<forall>spec \<in> set specs. \<exists>r \<in> rows. hl_alert_key r = hs_key spec \<and> hl_status r \<noteq> ''resolved'' \<and>
        hl_severity r = hs_severity spec \<and> hl_title r = hs_title spec \<and> hl_message r = hs_message spec) \<and>
     (\<forall>r \<in> rows. hl_status r \<noteq> ''resolved'' \<longrightarrow> hl_alert_key r \<in> hs_key ` set specs)"

text \<open>Statements of node \<open>n\<close> that all succeed leave the alerts of its specs.\<close>

lemma node_alerts_match:
  assumes "run_statements idle (node_statements my dbs value_of now node) i t = (Inr j, t')" "alerts_ok t'"
  shows "alerts_match (build_node_health_alert_specs value_of node now) (alerts_of (nd_id (ar_node node)) t')"
proof -
  let ?n = "nd_id (ar_node node)" and ?specs = "build_node_health_alert_specs value_of node now"
  from assms(1) obtain k u where
    raise: "run_statements idle (map (\<lambda>spec i. upsert_health_alert my i (dbs i) ?n spec) ?specs) i t = (Inr k, u)" and
    resolve: "resolve_missing_health_alerts my k ?n ?specs u = Inr t'"
    unfolding node_statements_def Let_def by (rule run_statements_append_Inr) (auto split: sum.splits)
  have "settled alert_dup alert_over [] (ht_alerts t)" by (simp add: settled_def)
  from upserts_settled [OF raise this] obtain ys where
    ys: "map snd ys = map (Pair ?n) ?specs" and settled: "settled alert_dup alert_over ys (ht_alerts u)" by auto
  have "map (hs_key \<circ> snd \<circ> snd) ys = map hs_key ?specs"
    using arg_cong [OF ys, of "map (hs_key \<circ> snd)"] by (simp add: comp_assoc comp_def)
  then have distinct: "distinct (map (hs_key \<circ> snd \<circ> snd) ys)" using specs_distinct by simp
  have t': "ht_alerts t' = update_rows
       (\<lambda>r. hl_node_id r = ?n \<and> hl_status r \<in> {''open'', ''acknowledged'', ''ignored''} \<and>
          hl_alert_key r \<notin> hs_key ` set ?specs)
       (\<lambda>r. r\<lparr>hl_status := ''resolved'', hl_resolved_at := Some (unwrap_or (my_now my k) (hl_resolved_at r)),
              hl_updated_at := my_now my k\<rparr>) (ht_alerts u)"
    using resolve by (auto simp: resolve_missing_health_alerts_def stmt_def)
  show ?thesis
    unfolding alerts_match_def
  proof (intro conjI ballI impI)
    fix spec
    assume spec: "spec \<in> set ?specs"
    then have "(?n, spec) \<in> set (map snd ys)" unfolding ys by simp
    then obtain y where y: "y \<in> set ys" "snd y = (?n, spec)" by auto
    then obtain r where r: "r \<in> set (ht_alerts u)" "alert_dup y r"
      using settled by (auto simp: settled_def)
    have "x = y" if x: "x \<in> set ys" "alert_dup x r" for x
    proof -
      have "(hs_key \<circ> snd \<circ> snd) x = (hs_key \<circ> snd \<circ> snd) y" using x(2) r(2) by (simp add: alert_dup_def)
      with x(1) y(1) distinct show ?thesis by (metis distinct_map inj_onD)
    qed
    note same = alerts.settled_row [OF settled y(1) r this]
    have "r \<in> set (ht_alerts t')"
      using r spec by (auto simp: t' update_rows_def alert_dup_def y(2) image_iff intro!: bexI [of _ r])
    moreover have "hl_status r \<noteq> ''resolved''" "hl_severity r = hs_severity spec" "hl_title r = hs_title spec"
      "hl_message r = hs_message spec"
      using arg_cong [OF same, of hl_status] arg_cong [OF same, of hl_severity] arg_cong [OF same, of hl_title]
        arg_cong [OF same, of hl_message] by (auto simp: y(2) split: if_splits)
    ultimately show "\<exists>r \<in> alerts_of ?n t'. hl_alert_key r = hs_key spec \<and> hl_status r \<noteq> ''resolved'' \<and>
        hl_severity r = hs_severity spec \<and> hl_title r = hs_title spec \<and> hl_message r = hs_message spec"
      using r(2) by (intro bexI [of _ r]) (simp_all add: alerts_of_def alert_dup_def y(2))
  next
    fix r
    assume r: "r \<in> alerts_of ?n t'" "hl_status r \<noteq> ''resolved''"
    then have "hl_status r \<in> {''open'', ''acknowledged'', ''ignored''}"
      using assms(2) by (auto simp: alerts_of_def alerts_ok_def list_all_iff alert_row_ok_def)
    with r show "hl_alert_key r \<in> hs_key ` set ?specs"
      by (auto simp: alerts_of_def t' update_rows_def split: if_splits)
  qed
qed

text \<open>
  C35. A reconciliation that is not disturbed leaves, for each of up to 500 nodes, exactly the alerts of
  what is wrong with it now: every problem has an active alert with its severity and texts, and
  every active alert is one of these problems.
\<close>

theorem reconcile_exact:
  assumes "reconcile_node_health_alerts my dbs idle value_of now seen t = (Inr i, t')"
    and "distinct (map nd_id (dt_nodes (op_db seen)))" "length (dt_nodes (op_db seen)) \<le> 500"
    and "n \<in> set (dt_nodes (op_db seen))" "alerts_ok t"
  shows "alerts_match (build_node_health_alert_specs value_of (admin_node_of seen n) now) (alerts_of (nd_id n) t')"
proof -
  let ?sorted = "sort_key report_order (dt_nodes (op_db seen))"
  have "take (unat (500 :: u32)) ?sorted = ?sorted" using assms(3) by simp
  then have run: "run_statements idle (concat (map (node_statements my dbs value_of now)
      (map (admin_node_of seen) ?sorted))) 1 t = (Inr i, t')"
    using assms(1) by (auto simp: reconcile_node_health_alerts_def select_admin_nodes_def stmt_def split: sum.splits)
  obtain before after where sorted: "?sorted = before @ n # after"
    using assms(4) by (metis in_set_conv_decomp set_sort)
  have others: "nd_id m \<noteq> nd_id n" if "m \<in> set after" for m
  proof -
    have "distinct (map nd_id ?sorted)"
      using assms(2) by (simp add: distinct_map)
    with that show ?thesis by (force simp: sorted image_iff)
  qed
  let ?stmts = "\<lambda>ns. concat (map (node_statements my dbs value_of now) (map (admin_node_of seen) ns))"
  have "?stmts ?sorted = ?stmts before @ node_statements my dbs value_of now (admin_node_of seen n) @ ?stmts after"
    by (simp add: sorted)
  with run obtain k u where first: "run_statements idle (?stmts before) 1 t = (Inr k, u)" and
    later: "run_statements idle (node_statements my dbs value_of now (admin_node_of seen n) @ ?stmts after) k u = (Inr i, t')"
    by (metis run_statements_append_Inr)
  from later obtain l v where
    mine: "run_statements idle (node_statements my dbs value_of now (admin_node_of seen n)) k u = (Inr l, v)" and
    rest: "run_statements idle (?stmts after) l v = (Inr i, t')"
    by (rule run_statements_append_Inr)
  have "alerts_ok u"
    by (rule run_statements_keep [where P = alerts_ok, OF _ first assms(5)]) (auto dest: node_statements_step alert_step_ok)
  then have ok: "alerts_ok v"
    by (rule run_statements_keep [where P = alerts_ok, OF _ mine, rotated]) (blast dest: node_statements_step alert_step_ok)
  have "alerts_of (nd_id n) t' = alerts_of (nd_id n) v"
  proof (rule run_statements_keep [OF _ rest, where P = "\<lambda>s. alerts_of (nd_id n) s = alerts_of (nd_id n) v"])
    fix f i s s'
    assume f: "f \<in> set (?stmts after)" "f i s = Inr s'" and kept: "alerts_of (nd_id n) s = alerts_of (nd_id n) v"
    from f(1) obtain m where m: "m \<in> set after" "f \<in> set (node_statements my dbs value_of now (admin_node_of seen m))"
      by auto
    have "nd_id (ar_node (admin_node_of seen m)) \<noteq> nd_id n" using others [OF m(1)] by (simp add: admin_node_of_def)
    from other_node_kept [OF m(2) this f(2)] kept show "alerts_of (nd_id n) s' = alerts_of (nd_id n) v" by simp
  qed simp
  with node_alerts_match [OF mine ok] show ?thesis by (simp add: admin_node_of_def)
qed

section \<open>What administrators decided\<close>

definition decision_in :: "health_alert_row \<Rightarrow> alert_table \<Rightarrow> bool" where
  "decision_in r t \<longleftrightarrow> (\<exists>s \<in> set (ht_alerts t). hl_id s = hl_id r \<and> hl_node_id s = hl_node_id r \<and>
     hl_alert_key s = hl_alert_key r \<and> hl_status s = hl_status r \<and>
     hl_acknowledged_at s = hl_acknowledged_at r \<and> hl_acknowledged_by s = hl_acknowledged_by r)"

lemma decision_updated:
  assumes "decision_in r t" "hl_status r \<noteq> ''resolved''"
    and "ht_alerts t' = update_rows p f (ht_alerts t) @ new"
    and "\<And>s. p s \<Longrightarrow> hl_alert_key s = hl_alert_key r \<Longrightarrow> hl_node_id s = hl_node_id r \<Longrightarrow> hl_status s = hl_status r \<Longrightarrow>
      hl_id (f s) = hl_id s \<and> hl_node_id (f s) = hl_node_id s \<and> hl_alert_key (f s) = hl_alert_key s \<and>
      hl_status (f s) = hl_status s \<and> hl_acknowledged_at (f s) = hl_acknowledged_at s \<and>
      hl_acknowledged_by (f s) = hl_acknowledged_by s"
  shows "decision_in r t'"
proof -
  from assms(1) obtain s where s: "s \<in> set (ht_alerts t)" "hl_id s = hl_id r" "hl_node_id s = hl_node_id r"
     "hl_alert_key s = hl_alert_key r" "hl_status s = hl_status r"
     "hl_acknowledged_at s = hl_acknowledged_at r" "hl_acknowledged_by s = hl_acknowledged_by r"
    by (auto simp: decision_in_def)
  have "(if p s then f s else s) \<in> set (ht_alerts t')" using s(1) by (auto simp: assms(3) update_rows_def)
  moreover have "hl_id (if p s then f s else s) = hl_id r \<and> hl_node_id (if p s then f s else s) = hl_node_id r \<and>
      hl_alert_key (if p s then f s else s) = hl_alert_key r \<and> hl_status (if p s then f s else s) = hl_status r \<and>
      hl_acknowledged_at (if p s then f s else s) = hl_acknowledged_at r \<and>
      hl_acknowledged_by (if p s then f s else s) = hl_acknowledged_by r"
    using s assms(4) [of s] by (cases "p s") simp_all
  ultimately show ?thesis unfolding decision_in_def by blast
qed

lemma decision_kept:
  assumes "f \<in> set (node_statements my dbs value_of now node)" "f i t = Inr t'" "decision_in r t"
    and "hl_status r \<noteq> ''resolved''"
    and "nd_id (ar_node node) = hl_node_id r \<Longrightarrow>
      hl_alert_key r \<in> hs_key ` set (build_node_health_alert_specs value_of node now)"
  shows "decision_in r t'"
proof -
  let ?m = "nd_id (ar_node node)" and ?specs = "build_node_health_alert_specs value_of node now"
  consider (raise) spec where "upsert_health_alert my i (dbs i) ?m spec t = Inr t'"
    | (resolve) "resolve_missing_health_alerts my i ?m ?specs t = Inr t'"
    using assms(1,2) by (auto simp: node_statements_def Let_def)
  then show ?thesis
  proof cases
    case raise
    show ?thesis
    proof (rule upsert_health_alert_Inr [OF raise])
      fix a
      let ?x = "(my_now my i, ?m, spec)"
      assume t': "ht_alerts t' = upsert_rows (alert_dup ?x) (alert_over ?x) (new_alert a ?x) (ht_alerts t)"
      have "ht_alerts t' = update_rows (alert_dup ?x) (alert_over ?x) (ht_alerts t) @
          (if list_ex (alert_dup ?x) (ht_alerts t) then [] else [new_alert a ?x])"
        unfolding t' upsert_rows_def by (auto simp: update_rows_def list_ex_iff intro: map_idI [symmetric])
      then show ?thesis by (rule decision_updated [OF assms(3,4)]) (simp add: assms(4))
    qed
  next
    case resolve
    then have t': "ht_alerts t' = update_rows
         (\<lambda>r. hl_node_id r = ?m \<and> hl_status r \<in> {''open'', ''acknowledged'', ''ignored''} \<and>
            hl_alert_key r \<notin> hs_key ` set ?specs)
         (\<lambda>r. r\<lparr>hl_status := ''resolved'', hl_resolved_at := Some (unwrap_or (my_now my i) (hl_resolved_at r)),
                hl_updated_at := my_now my i\<rparr>) (ht_alerts t) @ []"
      by (auto simp: resolve_missing_health_alerts_def stmt_def)
    show ?thesis by (rule decision_updated [OF assms(3,4) t']) (use assms(5) in auto)
  qed
qed

text \<open>
  C36. A reconciliation respects the administrators: an alert they acknowledged or ignored keeps its
  status, its time and its author as long as the problem lasts, even when the reconciliation ends
  with an error.
\<close>

theorem decisions_respected:
  assumes "reconcile_node_health_alerts my dbs idle value_of now seen t = (x, t')"
    and "r \<in> set (ht_alerts t)" "hl_status r \<in> {''acknowledged'', ''ignored''}"
    and "\<And>n. n \<in> set (dt_nodes (op_db seen)) \<Longrightarrow> nd_id n = hl_node_id r \<Longrightarrow>
      hl_alert_key r \<in> hs_key ` set (build_node_health_alert_specs value_of (admin_node_of seen n) now)"
  shows "decision_in r t'"
  using assms(1) unfolding reconcile_node_health_alerts_def
proof (rule handler_cases)
  have "decision_in r t" using assms(2) by (auto simp: decision_in_def)
  then show "decision_in r t'" if "t' = t" using that by simp
  fix nodes
  assume nodes: "select_admin_nodes my 0 seen 500 = Inr nodes"
    and run: "run_statements idle (concat (map (node_statements my dbs value_of now) nodes)) 1 t = (x, t')"
  show "decision_in r t'"
  proof (rule run_statements_keep [OF _ run, where P = "decision_in r"])
    fix f i s s'
    assume f: "f \<in> set (concat (map (node_statements my dbs value_of now) nodes))" "f i s = Inr s'" "decision_in r s"
    then obtain node where node: "node \<in> set nodes" "f \<in> set (node_statements my dbs value_of now node)" by auto
    then obtain n where n: "n \<in> set (dt_nodes (op_db seen))" "node = admin_node_of seen n"
      using nodes by (auto simp: select_admin_nodes_def stmt_def dest!: in_set_takeD)
    show "decision_in r s'"
      by (rule decision_kept [OF node(2) f(2,3)]) (use assms(3,4) n in \<open>auto simp: admin_node_of_def\<close>)
  qed (use assms(2) in \<open>auto simp: decision_in_def\<close>)
qed

text \<open>
  An alert whose problem comes back is open again, and keeps the time at which it was resolved
  before: the statement that clears it never finds the status it looks for.
\<close>

lemma reopened_alert_keeps_resolution:
  assumes "upsert_health_alert my i db node_id spec t = Inr t'" "r \<in> set (ht_alerts t)"
    and "hl_node_id r = node_id" "hl_alert_key r = hs_key spec" "hl_status r = ''resolved''"
  shows "\<exists>s \<in> set (ht_alerts t'). hl_id s = hl_id r \<and> hl_status s = ''open'' \<and> hl_resolved_at s = hl_resolved_at r"
proof (rule upsert_health_alert_Inr [OF assms(1)])
  fix a
  let ?x = "(my_now my i, node_id, spec)"
  assume t': "ht_alerts t' = upsert_rows (alert_dup ?x) (alert_over ?x) (new_alert a ?x) (ht_alerts t)"
  have "alert_dup ?x r" using assms(3,4) by (simp add: alert_dup_def)
  then have "alert_over ?x r \<in> set (ht_alerts t')"
    using assms(2) by (auto simp: t' upsert_rows_def update_rows_def list_ex_iff image_iff)
  then show ?thesis using assms(5) by (intro bexI [of _ "alert_over ?x r"]) simp_all
qed

end
