(* ===== verification/Example_Health.thy ===== *)
theory Example_Health
  imports Api_Health_Log Example_Service
begin

text \<open>
  The registered node before its installation, for the instances of the properties of health alerts:
  it is not online and has never reported.
\<close>

definition new_node_ops :: operations where
  "new_node_ops = \<lparr>op_db = run_created, op_settings = [], op_credentials = [], op_tasks = [], op_next_task = 1\<rparr>"

definition no_alerts :: alert_table where "no_alerts = \<lparr>ht_alerts = [], ht_next_alert = 1\<rparr>"

definition seen_alert :: health_alert_row where
  "seen_alert = \<lparr>hl_id = 1, hl_node_id = 1, hl_alert_key = ''node_status'', hl_severity = ''critical'',
     hl_title = [], hl_message = [], hl_status = ''acknowledged'', hl_first_seen_at = 1, hl_last_seen_at = 2,
     hl_acknowledged_at = Some 3, hl_acknowledged_by = Some 7, hl_resolved_at = None, hl_updated_at = 3\<rparr>"

definition new_node_specs :: "health_alert_spec list" where
  "new_node_specs = build_node_health_alert_specs (\<lambda>_. None) (admin_node_of new_node_ops run_row) 1000"

lemma new_node_row [simp]: "nd_id run_row = 1" "dt_nodes (op_db new_node_ops) = [run_row]"
  by (simp_all add: run_row_def new_node_row_def new_node_ops_def run_created_def)

lemma new_node_keys: "map hs_key new_node_specs = [''node_status'', ''report_missing'']"
proof -
  have "nd_status run_row = ''pending_install''" "nd_last_report_at run_row = None"
    by (simp_all add: run_row_def new_node_row_def)
  moreover have "newest_report run_created 1 = None"
    by (simp add: newest_report_def run_created_def no_rows_def)
  ultimately show ?thesis
    by (simp add: new_node_specs_def build_node_health_alert_specs_def status_alert_def report_alert_def
        report_status_alert_def listener_alert_def ssh_alert_def admin_node_of_def new_node_ops_def
        select_ssh_credential_def Let_def)
qed

lemma no_alerts_ok: "alerts_ok no_alerts"
  by (simp add: alerts_ok_def no_alerts_def unique_rows_def)

lemma reconciled:
  "\<exists>i t. reconcile_node_health_alerts run_mysql (\<lambda>_. run_created) idle (\<lambda>_. None) 1000 new_node_ops no_alerts =
     (Inr i, t)"
proof -
  obtain a b where specs: "new_node_specs = [a, b]" "hs_key a = ''node_status''" "hs_key b = ''report_missing''"
    using new_node_keys by auto
  have "node_statements run_mysql (\<lambda>_. run_created) (\<lambda>_. None) 1000 (admin_node_of new_node_ops run_row) =
      [\<lambda>i. upsert_health_alert run_mysql i run_created 1 a, \<lambda>i. upsert_health_alert run_mysql i run_created 1 b,
       \<lambda>i. resolve_missing_health_alerts run_mysql i 1 [a, b]]"
    unfolding node_statements_def new_node_specs_def [symmetric] specs(1) Let_def by (simp add: admin_node_of_def)
  moreover have "select_admin_nodes run_mysql 0 new_node_ops 500 = Inr [admin_node_of new_node_ops run_row]"
    by (simp add: select_admin_nodes_def stmt_def)
  ultimately show ?thesis
    using specs(2,3)
    by (simp add: reconcile_node_health_alerts_def upsert_health_alert_def resolve_missing_health_alerts_def
        stmt_def foreign_key_def no_alerts_def alert_dup_def auto_id_def)
qed

theorem reconcile_exact_witness:
  "\<exists>i t. reconcile_node_health_alerts run_mysql (\<lambda>_. run_created) idle (\<lambda>_. None) 1000 new_node_ops no_alerts =
     (Inr i, t) \<and> alerts_match new_node_specs (alerts_of 1 t) \<and> map hs_key new_node_specs = [''node_status'', ''report_missing'']"
proof -
  obtain i t where run: "reconcile_node_health_alerts run_mysql (\<lambda>_. run_created) idle (\<lambda>_. None) 1000
      new_node_ops no_alerts = (Inr i, t)" using reconciled by blast
  from reconcile_exact [OF run, of run_row] no_alerts_ok run show ?thesis
    by (auto simp: new_node_specs_def [symmetric] new_node_keys)
qed

theorem alert_table_stays_well_formed_witness:
  "\<exists>x t. admin_list_health_alerts run_mysql (\<lambda>_. run_created) idle (\<lambda>_. None) 1000 run_admin None None None None
     new_node_ops no_alerts = (x, t) \<and> alerts_ok t"
proof -
  obtain x t where run: "admin_list_health_alerts run_mysql (\<lambda>_. run_created) idle (\<lambda>_. None) 1000 run_admin None
      None None None new_node_ops no_alerts = (x, t)" by (rule prod.exhaust)
  have "alerts_ok t" by (rule alert_table_stays_well_formed [OF _ run no_alerts_ok]) simp
  with run show ?thesis by blast
qed

theorem decisions_respected_witness:
  "\<exists>x t. reconcile_node_health_alerts run_mysql (\<lambda>_. run_created) idle (\<lambda>_. None) 1000 new_node_ops
     \<lparr>ht_alerts = [seen_alert], ht_next_alert = 2\<rparr> = (x, t) \<and> decision_in seen_alert t"
proof -
  let ?t = "\<lparr>ht_alerts = [seen_alert], ht_next_alert = 2\<rparr>"
  obtain x t where run: "reconcile_node_health_alerts run_mysql (\<lambda>_. run_created) idle (\<lambda>_. None) 1000 new_node_ops
      ?t = (x, t)" by (rule prod.exhaust)
  have "hl_alert_key seen_alert \<in> set (map hs_key new_node_specs)"
    unfolding new_node_keys by (simp add: seen_alert_def)
  then have "decision_in seen_alert t"
    by (intro decisions_respected [OF run]) (simp_all add: seen_alert_def new_node_specs_def)
  with run show ?thesis by blast
qed

end
