(* ===== verification/Api_Users.thy ===== *)
theory Api_Users
  imports Api_Labels Api_Database
begin

text \<open>
  The administrators of \<open>control-api/src/main.rs\<close>: the table \<open>admin_users\<close>, the login that trades a
  password for a session token, and the accounts a super administrator creates, edits and
  disables. \<open>same\<close> compares user names as the collation of the table does.
\<close>

record admin_account_row = admin_user_row +
  ac_password_hash :: string
  ac_status :: string
  ac_last_login_at :: "u64 option"
  ac_created_at :: u64
  ac_updated_at :: u64

record account_table =
  at_users :: "admin_account_row list"
  at_next_user :: u64

record admin_create_user_request =
  cu_username :: string
  cu_display_name :: "string option"
  cu_password :: string
  cu_role :: string
  cu_status :: "string option"

record admin_update_user_request =
  uu_display_name :: "string option"
  uu_password :: "string option"
  uu_role :: "string option"
  uu_status :: "string option"

section \<open>Names\<close>

text \<open>
  \<open>str::to_lowercase\<close> as far as the check after it can tell: the Kelvin sign is the one character
  outside ASCII whose lower case is ASCII, and any other character outside ASCII is refused.
\<close>

fun lower_text :: "string \<Rightarrow> string" where
  "lower_text (a # b # c # s) =
     (if a # b # [c] = utf8 [0x212A] then CHR ''k'' # lower_text s
      else ascii_lower a # lower_text (b # c # s))"
| "lower_text s = map ascii_lower s"

definition normalize_admin_username :: "string \<Rightarrow> (app_error, string) result" where
  "normalize_admin_username value =
     bind_result (normalize_required_text value ''username'' 64) (\<lambda>v.
     let name = lower_text v
     in if length name < 3 \<or> \<not> list_all command_char name then
          Inl (bad_request ''invalid_username''
            ''username must be 3-64 characters and may only contain letters, numbers, dot, underscore, or dash'')
        else Inr name)"

definition normalize_admin_display_name :: "string option \<Rightarrow> (app_error, string option) result" where
  "normalize_admin_display_name value = normalize_optional_text value 128"

section \<open>Statements\<close>

definition select_admin_user :: "account_table \<Rightarrow> u64 \<Rightarrow> admin_account_row option" where
  "select_admin_user t user_id = find (\<lambda>u. au_id u = user_id) (at_users t)"

definition select_admin_user_by_username ::
  "(string \<Rightarrow> string \<Rightarrow> bool) \<Rightarrow> account_table \<Rightarrow> string \<Rightarrow> admin_account_row option"
where
  "select_admin_user_by_username same t username = find (\<lambda>u. same (au_username u) username) (at_users t)"

definition update_user ::
  "u64 \<Rightarrow> (admin_account_row \<Rightarrow> admin_account_row) \<Rightarrow> account_table \<Rightarrow> account_table"
where
  "update_user user_id f t = t\<lparr>at_users := update_rows (\<lambda>u. au_id u = user_id) f (at_users t)\<rparr>"

text \<open>\<open>my_now my i\<close> is \<open>CURRENT_TIMESTAMP\<close> of the \<open>i\<close>-th statement.\<close>

definition insert_admin_user ::
  "crypto \<Rightarrow> (string \<Rightarrow> string \<Rightarrow> bool) \<Rightarrow> mysql \<Rightarrow> bytes \<Rightarrow> admin_create_user_request \<Rightarrow>
   account_table \<Rightarrow> (app_error, u64 \<times> account_table) result"
where
  "insert_admin_user cx same my salt request t =
     bind_result (normalize_admin_username (cu_username request)) (\<lambda>username.
     bind_result (normalize_admin_display_name (cu_display_name request)) (\<lambda>display_name.
     bind_result (validate_admin_role (cu_role request)) (\<lambda>role.
     bind_result (case cu_status request of None \<Rightarrow> Inr ''active'' | Some s \<Rightarrow> validate_admin_user_status s)
       (\<lambda>status.
     bind_result (hash_admin_password cx salt (cu_password request)) (\<lambda>password_hash.
     bind_result (stmt my 0 ()) (\<lambda>_.
     if select_admin_user_by_username same t username \<noteq> None then
       Inl (conflict ''admin_user_exists'' ''admin username already exists'')
     else
       bind_result (auto_id (at_next_user t)) (\<lambda>user_id.
       Inr (user_id, t\<lparr>at_users := at_users t @
             [\<lparr>au_id = user_id, au_username = username, au_display_name = display_name, au_role = role,
               ac_password_hash = password_hash, ac_status = status, ac_last_login_at = None,
               ac_created_at = my_now my 0, ac_updated_at = my_now my 0\<rparr>],
             at_next_user := user_id + 1\<rparr>))))))))"

text \<open>A field that the request leaves out keeps the value that was read.\<close>

definition given_or :: "('a \<Rightarrow> ('e, 'b) result) \<Rightarrow> 'b \<Rightarrow> 'a option \<Rightarrow> ('e, 'b) result" where
  "given_or f old value = (case value of None \<Rightarrow> Inr old | Some v \<Rightarrow> f v)"

definition update_admin_user ::
  "crypto \<Rightarrow> mysql \<Rightarrow> bytes \<Rightarrow> u64 \<Rightarrow> admin_update_user_request \<Rightarrow> account_table \<Rightarrow> account_table \<Rightarrow>
   (app_error, account_table) result"
where
  "update_admin_user cx my salt user_id request seen t =
     bind_result (stmt my 0 (select_admin_user seen user_id)) (\<lambda>found.
     bind_result (ok_or (not_found ''admin_user_not_found'' ''admin user does not exist'') found) (\<lambda>existing.
     bind_result (given_or (\<lambda>v. normalize_admin_display_name (Some v)) (au_display_name existing)
       (uu_display_name request)) (\<lambda>display_name.
     bind_result (given_or validate_admin_role (au_role existing) (uu_role request)) (\<lambda>role.
     bind_result (given_or validate_admin_user_status (ac_status existing) (uu_status request)) (\<lambda>status.
     bind_result (given_or (hash_admin_password cx salt) (ac_password_hash existing)
       (filter_option (\<lambda>p. trim p \<noteq> []) (uu_password request))) (\<lambda>password_hash.
     stmt my 1 (update_user user_id (\<lambda>u. u\<lparr>au_display_name := display_name, au_role := role,
       ac_password_hash := password_hash, ac_status := status, ac_updated_at := my_now my 1\<rparr>) t)))))))"

definition disable_admin_user :: "mysql \<Rightarrow> u64 \<Rightarrow> account_table \<Rightarrow> (app_error, account_table) result" where
  "disable_admin_user my user_id t =
     stmt my 0 (update_user user_id (\<lambda>u. u\<lparr>ac_status := ''disabled'', ac_updated_at := my_now my 0\<rparr>) t)"

definition mark_admin_user_login ::
  "mysql \<Rightarrow> nat \<Rightarrow> u64 \<Rightarrow> account_table \<Rightarrow> (app_error, account_table) result"
where
  "mark_admin_user_login my i user_id t =
     stmt my i (update_user user_id
       (\<lambda>u. u\<lparr>ac_last_login_at := Some (my_now my i), ac_updated_at := my_now my i\<rparr>) t)"

section \<open>Login\<close>

text \<open>
  \<open>seen\<close> is the table the name was looked up in. The result holds the token, its expiry and the
  actor that \<open>current_user\<close> shows; the table is marked only once the token is made.
\<close>

definition wrong_password :: app_error where
  "wrong_password = unauthorized ''admin_auth_failed'' ''username or password is invalid''"

definition logged_in_actor :: "admin_account_row \<Rightarrow> admin_actor" where
  "logged_in_actor u = \<lparr>aa_id = Some (au_id u), aa_username = au_username u,
     aa_display_name = au_display_name u, aa_role = au_role u, aa_auth_type = ''password''\<rparr>"

definition admin_login ::
  "crypto \<Rightarrow> (admin_session_claims \<Rightarrow> bytes option) \<Rightarrow> (string \<Rightarrow> string \<Rightarrow> bool) \<Rightarrow> mysql \<Rightarrow> u64 \<Rightarrow> bytes \<Rightarrow>
   string option \<Rightarrow> string \<Rightarrow> string \<Rightarrow> account_table \<Rightarrow> account_table \<Rightarrow>
   (app_error, string \<times> u64 \<times> admin_actor) result \<times> account_table"
where
  "admin_login cx to_json same my now random admin_token username password seen t =
     (case bind_result (ok_or (service_unavailable ''admin_disabled''
            ''admin login is disabled because XACCEL_ADMIN_TOKEN is not configured'') admin_token)
            (\<lambda>signing_secret.
          bind_result (normalize_admin_username username) (\<lambda>name.
          bind_result (stmt my 0 (select_admin_user_by_username same seen name)) (\<lambda>found.
          bind_result (ok_or wrong_password found) (\<lambda>u.
          if ac_status u \<noteq> ''active'' then
            Inl (unauthorized ''admin_user_disabled'' ''admin user is disabled'')
          else
            bind_result (verify_admin_password cx password (ac_password_hash u)) (\<lambda>valid.
            if \<not> valid then Inl wrong_password
            else
              bind_result (create_admin_session_token cx to_json now random signing_secret
                (admin_user_row.truncate u)) (\<lambda>(token, expires_at).
              bind_result (mark_admin_user_login my 1 (au_id u) t) (\<lambda>t'.
              Inr ((token, expires_at, logged_in_actor u), t')))))))) of
        Inl e \<Rightarrow> (Inl e, t)
      | Inr (answer, t') \<Rightarrow> (Inr answer, t'))"

section \<open>Accounts\<close>

text \<open>\<open>admin\<close> is the answer of \<open>require_admin_super\<close>.\<close>

definition cannot_disable_self :: app_error where
  "cannot_disable_self = bad_request ''cannot_disable_self'' ''current admin user cannot disable itself''"

definition admin_list_users ::
  "mysql \<Rightarrow> (app_error, admin_actor) result \<Rightarrow> account_table \<Rightarrow> (app_error, admin_account_row list) result"
where
  "admin_list_users my admin t = bind_result admin (\<lambda>_. stmt my 0 (at_users t))"

definition admin_create_user ::
  "crypto \<Rightarrow> (string \<Rightarrow> string \<Rightarrow> bool) \<Rightarrow> mysql \<Rightarrow> bytes \<Rightarrow> (app_error, admin_actor) result \<Rightarrow>
   admin_create_user_request \<Rightarrow> account_table \<Rightarrow> (app_error, admin_account_row) result \<times> account_table"
where
  "admin_create_user cx same my salt admin request t =
     (case bind_result admin (\<lambda>_. insert_admin_user cx same my salt request t) of
        Inl e \<Rightarrow> (Inl e, t)
      | Inr (user_id, t') \<Rightarrow>
          (bind_result (stmt my 1 (select_admin_user t' user_id)) (ok_or internal_error), t'))"

definition admin_update_user ::
  "crypto \<Rightarrow> mysql \<Rightarrow> bytes \<Rightarrow> (app_error, admin_actor) result \<Rightarrow> u64 \<Rightarrow> admin_update_user_request \<Rightarrow>
   account_table \<Rightarrow> account_table \<Rightarrow> (app_error, admin_account_row) result \<times> account_table"
where
  "admin_update_user cx my salt admin user_id request seen t =
     (case bind_result admin (\<lambda>actor.
          bind_result
            (if aa_id actor = Some user_id then
               bind_result (ensure (uu_status request \<noteq> Some ''disabled'') cannot_disable_self) (\<lambda>_.
               ensure (\<not> is_some_and (\<lambda>role. role \<noteq> ''super_admin'') (uu_role request))
                 (bad_request ''cannot_downgrade_self'' ''current admin user cannot downgrade itself''))
             else Inr ()) (\<lambda>_.
          update_admin_user cx my salt user_id request seen t)) of
        Inl e \<Rightarrow> (Inl e, t)
      | Inr t' \<Rightarrow> (bind_result (stmt my 2 (select_admin_user t' user_id)) (ok_or internal_error), t'))"

text \<open>The request's handler: the guard on its headers, then the update.\<close>

definition admin_update_user_handler ::
  "crypto \<Rightarrow> (bytes \<Rightarrow> admin_session_claims option) \<Rightarrow> string \<Rightarrow> mysql \<Rightarrow> bytes \<Rightarrow> u64 \<Rightarrow> string option \<Rightarrow>
   headers \<Rightarrow> u64 \<Rightarrow> admin_update_user_request \<Rightarrow> account_table \<Rightarrow> account_table \<Rightarrow>
   (app_error, admin_account_row) result \<times> account_table"
where
  "admin_update_user_handler cx of_json bootstrap_name my salt now admin_token hs user_id request seen t =
     admin_update_user cx my salt (require_admin_super cx of_json bootstrap_name now admin_token hs)
       user_id request seen t"

definition admin_delete_user ::
  "mysql \<Rightarrow> (app_error, admin_actor) result \<Rightarrow> u64 \<Rightarrow> account_table \<Rightarrow>
   (app_error, admin_account_row) result \<times> account_table"
where
  "admin_delete_user my admin user_id t =
     (case bind_result admin (\<lambda>actor.
          bind_result (ensure (aa_id actor \<noteq> Some user_id) cannot_disable_self) (\<lambda>_.
          disable_admin_user my user_id t)) of
        Inl e \<Rightarrow> (Inl e, t)
      | Inr t' \<Rightarrow>
          (bind_result (stmt my 1 (select_admin_user t' user_id))
             (ok_or (not_found ''admin_user_not_found'' ''admin user does not exist'')), t'))"

section \<open>A well-formed table\<close>

definition user_name_ok :: "string \<Rightarrow> bool" where
  "user_name_ok name \<longleftrightarrow> 3 \<le> length name \<and> list_all command_char name"

definition account_row_ok :: "admin_account_row \<Rightarrow> bool" where
  "account_row_ok u \<longleftrightarrow> user_name_ok (au_username u) \<and>
     au_role u \<in> {''super_admin'', ''operator'', ''viewer''} \<and> ac_status u \<in> {''active'', ''disabled''}"

text \<open>Ids grow and are below the next one, no two names are the same, every column has its type.\<close>

definition accounts_ok :: "(string \<Rightarrow> string \<Rightarrow> bool) \<Rightarrow> account_table \<Rightarrow> bool" where
  "accounts_ok same t \<longleftrightarrow>
     rows_ok au_id (at_users t) (at_next_user t) \<and>
     sorted_wrt (\<lambda>u v. \<not> same (au_username u) (au_username v)) (at_users t) \<and>
     list_all account_row_ok (at_users t)"

lemma normalize_admin_username_ok:
  "normalize_admin_username value = Inr name \<Longrightarrow> user_name_ok name"
  by (auto simp: normalize_admin_username_def user_name_ok_def Let_def split: if_splits)

lemma word_of_Inr: "word_of ws e v = Inr w \<longleftrightarrow> trim v \<in> set ws \<and> w = trim v"
  by (auto simp: word_of_def)

lemma validate_admin_role_Inr:
  "validate_admin_role v = Inr w \<longleftrightarrow> trim v \<in> {''super_admin'', ''operator'', ''viewer''} \<and> w = trim v"
  by (simp add: validate_admin_role_def word_of_Inr)

lemma validate_admin_user_status_Inr:
  "validate_admin_user_status v = Inr w \<longleftrightarrow> trim v \<in> {''active'', ''disabled''} \<and> w = trim v"
  by (simp add: validate_admin_user_status_def word_of_Inr)

lemma given_or_Inr: "given_or f old x = Inr v \<longleftrightarrow> x = None \<and> v = old \<or> (\<exists>a. x = Some a \<and> f a = Inr v)"
  by (auto simp: given_or_def split: option.splits)

lemma select_admin_user_Some:
  "select_admin_user t i = Some u \<Longrightarrow> u \<in> set (at_users t) \<and> au_id u = i"
  unfolding select_admin_user_def by (rule find_Some_set)

lemma insert_admin_user_Inr:
  assumes "insert_admin_user cx same my salt r t = Inr (user_id, t')"
  obtains u where "t' = t\<lparr>at_users := at_users t @ [u], at_next_user := at_next_user t + 1\<rparr>"
    "au_id u = at_next_user t" "user_id = at_next_user t" "unat (at_next_user t) + 1 < 2 ^ 64"
    "normalize_admin_username (cu_username r) = Inr (au_username u)" "account_row_ok u"
    "hash_admin_password cx salt (cu_password r) = Inr (ac_password_hash u)"
    "\<forall>v \<in> set (at_users t). \<not> same (au_username v) (au_username u)"
proof -
  from assms obtain name shown role status hashed where
    name: "normalize_admin_username (cu_username r) = Inr name" and
    role: "validate_admin_role (cu_role r) = Inr role" and
    status: "(case cu_status r of None \<Rightarrow> Inr ''active'' | Some s \<Rightarrow> validate_admin_user_status s) = Inr status" and
    hashed: "hash_admin_password cx salt (cu_password r) = Inr hashed" and
    free: "select_admin_user_by_username same t name = None" and
    id: "auto_id (at_next_user t) = Inr user_id" and
    t': "t' = t\<lparr>at_users := at_users t @
             [\<lparr>au_id = user_id, au_username = name, au_display_name = shown, au_role = role,
               ac_password_hash = hashed, ac_status = status, ac_last_login_at = None,
               ac_created_at = my_now my 0, ac_updated_at = my_now my 0\<rparr>],
             at_next_user := user_id + 1\<rparr>"
    by (auto simp: insert_admin_user_def split: if_splits)
  have next_id: "user_id = at_next_user t" "unat (at_next_user t) + 1 < 2 ^ 64"
    using id auto_id_Inr by blast+
  have "status \<in> {''active'', ''disabled''}"
    using status by (auto simp: validate_admin_user_status_Inr split: option.splits)
  moreover have "\<forall>v \<in> set (at_users t). \<not> same (au_username v) name"
    using free by (simp add: select_admin_user_by_username_def find_None_iff)
  ultimately show thesis
    using that [of "\<lparr>au_id = user_id, au_username = name, au_display_name = shown, au_role = role,
               ac_password_hash = hashed, ac_status = status, ac_last_login_at = None,
               ac_created_at = my_now my 0, ac_updated_at = my_now my 0\<rparr>"]
      t' next_id name hashed role normalize_admin_username_ok [OF name]
    by (auto simp: account_row_ok_def validate_admin_role_Inr)
qed

text \<open>What \<open>UPDATE ... WHERE id = ?\<close> keeps when it writes neither id nor name.\<close>

lemma update_user_ok:
  assumes ok: "accounts_ok same t"
    and keys: "\<And>u. au_id (f u) = au_id u \<and> au_username (f u) = au_username u"
    and row: "\<And>u. account_row_ok u \<Longrightarrow> account_row_ok (f u)"
  shows "accounts_ok same (update_user user_id f t)"
proof -
  have names: "au_username (if au_id u = user_id then f u else u) = au_username u" for u
    using keys by simp
  have "rows_ok au_id (update_rows (\<lambda>u. au_id u = user_id) f (at_users t)) (at_next_user t)"
    using ok keys by (intro rows_ok_update) (simp_all add: accounts_ok_def)
  then show ?thesis
    using ok row
    by (auto simp: accounts_ok_def update_user_def update_rows_def sorted_wrt_map names list_all_iff)
qed

lemma accounts_ok_row: "accounts_ok same t \<Longrightarrow> select_admin_user t i = Some u \<Longrightarrow> account_row_ok u"
  using select_admin_user_Some by (fastforce simp: accounts_ok_def list_all_iff)

lemma create_ok:
  assumes "admin_create_user cx same my salt admin r t = (x, t')" "accounts_ok same t"
  shows "accounts_ok same t'"
proof (cases "bind_result admin (\<lambda>_. insert_admin_user cx same my salt r t)")
  case (Inl e)
  with assms show ?thesis by (simp add: admin_create_user_def)
next
  case (Inr p)
  then obtain user_id where "insert_admin_user cx same my salt r t = Inr (user_id, t')"
    using assms(1) by (cases p) (auto simp: admin_create_user_def)
  then show ?thesis
  proof (rule insert_admin_user_Inr)
    fix u assume t': "t' = t\<lparr>at_users := at_users t @ [u], at_next_user := at_next_user t + 1\<rparr>"
      and u: "au_id u = at_next_user t" "unat (at_next_user t) + 1 < 2 ^ 64" "account_row_ok u"
        "\<forall>v \<in> set (at_users t). \<not> same (au_username v) (au_username u)"
    from assms(2) u show ?thesis
      by (simp add: t' accounts_ok_def rows_ok_append sorted_wrt_append)
  qed
qed

lemma update_admin_user_Inr:
  assumes "update_admin_user cx my salt user_id r seen t = Inr t'"
  obtains existing shown role status hashed where
    "select_admin_user seen user_id = Some existing"
    "given_or validate_admin_role (au_role existing) (uu_role r) = Inr role"
    "given_or validate_admin_user_status (ac_status existing) (uu_status r) = Inr status"
    "t' = update_user user_id (\<lambda>u. u\<lparr>au_display_name := shown, au_role := role,
       ac_password_hash := hashed, ac_status := status, ac_updated_at := my_now my 1\<rparr>) t"
  using assms by (auto simp: update_admin_user_def stmt_def)

lemma updated_row_ok:
  assumes "account_row_ok existing"
    and "given_or validate_admin_role (au_role existing) role0 = Inr role"
    and "given_or validate_admin_user_status (ac_status existing) status0 = Inr status"
    and "account_row_ok u"
  shows "account_row_ok (u\<lparr>au_display_name := shown, au_role := role, ac_password_hash := hashed,
      ac_status := status, ac_updated_at := at\<rparr>)"
  using assms
  by (auto simp: account_row_ok_def given_or_Inr validate_admin_role_Inr validate_admin_user_status_Inr)

lemma update_ok:
  assumes "admin_update_user cx my salt admin user_id r seen t = (x, t')"
    and "accounts_ok same seen" "accounts_ok same t"
  shows "accounts_ok same t'"
  using assms(1) unfolding admin_update_user_def
proof (rule handler_cases)
  fix p assume r: "bind_result admin (\<lambda>actor.
          bind_result
            (if aa_id actor = Some user_id then
               bind_result (ensure (uu_status r \<noteq> Some ''disabled'') cannot_disable_self) (\<lambda>_.
               ensure (\<not> is_some_and (\<lambda>role. role \<noteq> ''super_admin'') (uu_role r))
                 (bad_request ''cannot_downgrade_self'' ''current admin user cannot downgrade itself''))
             else Inr ()) (\<lambda>_.
          update_admin_user cx my salt user_id r seen t)) = Inr p"
    and "(bind_result (stmt my 2 (select_admin_user p user_id)) (ok_or internal_error), p) = (x, t')"
  then have "update_admin_user cx my salt user_id r seen t = Inr t'" by auto
  then show ?thesis
  proof (rule update_admin_user_Inr)
    fix existing shown role status hashed
    assume row: "select_admin_user seen user_id = Some existing"
        "given_or validate_admin_role (au_role existing) (uu_role r) = Inr role"
        "given_or validate_admin_user_status (ac_status existing) (uu_status r) = Inr status"
      and t': "t' = update_user user_id (\<lambda>u. u\<lparr>au_display_name := shown, au_role := role,
           ac_password_hash := hashed, ac_status := status, ac_updated_at := my_now my 1\<rparr>) t"
    show ?thesis
      unfolding t'
      by (rule update_user_ok [OF assms(3)])
        (simp, rule updated_row_ok [OF accounts_ok_row [OF assms(2) row(1)] row(2,3)])
  qed
qed (use assms(3) in simp)

lemma disable_ok:
  assumes "admin_delete_user my admin user_id t = (x, t')" "accounts_ok same t"
  shows "accounts_ok same t'"
  using assms(1) unfolding admin_delete_user_def
proof (rule handler_cases)
  fix p assume "bind_result admin (\<lambda>actor. bind_result (ensure (aa_id actor \<noteq> Some user_id) cannot_disable_self)
        (\<lambda>_. disable_admin_user my user_id t)) = Inr p"
    and "(bind_result (stmt my 1 (select_admin_user p user_id))
           (ok_or (not_found ''admin_user_not_found'' ''admin user does not exist'')), p) = (x, t')"
  then have "t' = update_user user_id (\<lambda>u. u\<lparr>ac_status := ''disabled'', ac_updated_at := my_now my 0\<rparr>) t"
    by (auto simp: disable_admin_user_def stmt_def)
  then show ?thesis
    using update_user_ok [OF assms(2)] by (simp add: account_row_ok_def)
qed (use assms(2) in simp)

lemma login_table:
  assumes "admin_login cx to_json same my now random secret username password seen t = (x, t')"
  shows "t' = t \<or> (\<exists>user_id at. t' = update_user user_id (\<lambda>u. u\<lparr>ac_last_login_at := Some at, ac_updated_at := at\<rparr>) t)"
  using assms
  by (force simp: admin_login_def mark_admin_user_login_def stmt_def split: sum.splits if_splits
      elim!: bind_result_Inr_iff [THEN iffD1, elim_format])

lemma login_ok:
  assumes "admin_login cx to_json same my now random secret username password seen t = (x, t')"
    and "accounts_ok same t"
  shows "accounts_ok same t'"
  using login_table [OF assms(1)] assms(2) update_user_ok [OF assms(2)]
  by (auto simp: account_row_ok_def)

section \<open>Runs\<close>

text \<open>
  The endpoints in any order. \<open>seen\<close>, the table a call read before it wrote, is an earlier table of
  the run.
\<close>

inductive account_run :: "crypto \<Rightarrow> (string \<Rightarrow> string \<Rightarrow> bool) \<Rightarrow> account_table \<Rightarrow> account_table \<Rightarrow> bool"
  for cx same where
  start: "account_run cx same t t"
| login: "account_run cx same t0 t \<Longrightarrow>
    admin_login cx to_json same my now random secret username password seen t = (a, t') \<Longrightarrow>
    account_run cx same t0 t'"
| create: "account_run cx same t0 t \<Longrightarrow> admin_create_user cx same my salt admin r t = (x, t') \<Longrightarrow>
    account_run cx same t0 t'"
| update: "account_run cx same t0 seen \<Longrightarrow> account_run cx same seen t \<Longrightarrow>
    admin_update_user cx my salt admin user_id q seen t = (x, t') \<Longrightarrow> account_run cx same t0 t'"
| disable: "account_run cx same t0 t \<Longrightarrow> admin_delete_user my admin user_id t = (x, t') \<Longrightarrow>
    account_run cx same t0 t'"

text \<open>
  C33. The table \<open>admin_users\<close> stays well formed, whatever requests are served: ids are
  distinct, no two names are equal for the table's collation, and every name, role and status is
  one the code can read.
\<close>

theorem accounts_stay_well_formed:
  assumes "account_run cx same t0 t" "accounts_ok same t0"
  shows "accounts_ok same t"
  using assms
proof (induction rule: account_run.induct)
  case login
  then show ?case using login_ok by blast
next
  case create
  then show ?case using create_ok by blast
next
  case update
  then show ?case using update_ok by blast
next
  case disable
  then show ?case using disable_ok by blast
qed

section \<open>Logging in\<close>

lemma create_admin_session_token_Inr:
  assumes "hmac_32 cx" "\<And>c. to_json c \<noteq> None"
  obtains token where
    "create_admin_session_token cx to_json now random secret user = Inr (token, now + 28800)"
proof -
  obtain json where json: "to_json \<lparr>as_user_id = au_id user, as_username = au_username user,
      as_display_name = au_display_name user, as_role = au_role user,
      as_exp = now + 28800, as_nonce = random_url_token cx random\<rparr> = Some json"
    using assms(2) by blast
  obtain mac where "hmac_sha256 cx secret (session_signed_part (b64url_encode cx json)) = Some mac"
    using assms(1) unfolding hmac_32_def by blast
  with json show thesis
    using that by (simp add: create_admin_session_token_def Let_def admin_session_ttl_sec_def
        hmac_sha256_base64_def admin_session_prefix_def admin_session_version_def session_signed_part_def)
qed

lemma find_last:
  "\<forall>v \<in> set xs. \<not> P v \<Longrightarrow> P x \<Longrightarrow> find P (xs @ [x]) = Some x"
  by (induction xs) auto

lemma created_account:
  assumes "admin_create_user cx same my salt admin r t = (Inr u, t')" "accounts_ok same t"
  shows "t' = t\<lparr>at_users := at_users t @ [u], at_next_user := at_next_user t + 1\<rparr> \<and>
    normalize_admin_username (cu_username r) = Inr (au_username u) \<and>
    hash_admin_password cx salt (cu_password r) = Inr (ac_password_hash u) \<and>
    (\<forall>v \<in> set (at_users t). \<not> same (au_username v) (au_username u))"
  using assms(1) unfolding admin_create_user_def
proof (rule handler_cases)
  fix p assume p: "bind_result admin (\<lambda>_. insert_admin_user cx same my salt r t) = Inr p"
    and x: "(case p of (user_id, t1) \<Rightarrow>
      (bind_result (stmt my 1 (select_admin_user t1 user_id)) (ok_or internal_error), t1)) = (Inr u, t')"
  then obtain user_id where ins: "insert_admin_user cx same my salt r t = Inr (user_id, t')"
    and sel: "select_admin_user t' user_id = Some u"
    by (cases p) (auto simp: stmt_def)
  from ins show ?thesis
  proof (rule insert_admin_user_Inr)
    fix v
    assume t': "t' = t\<lparr>at_users := at_users t @ [v], at_next_user := at_next_user t + 1\<rparr>"
      and v: "au_id v = at_next_user t" "user_id = at_next_user t"
      and rest: "normalize_admin_username (cu_username r) = Inr (au_username v)"
        "hash_admin_password cx salt (cu_password r) = Inr (ac_password_hash v)"
        "\<forall>w \<in> set (at_users t). \<not> same (au_username w) (au_username v)"
    have "\<forall>w \<in> set (at_users t). au_id w \<noteq> user_id"
      using assms(2) v(2) by (auto simp: accounts_ok_def dest: rows_ok_fresh)
    then have "find (\<lambda>w. au_id w = user_id) (at_users t @ [v]) = Some v"
      using v by (intro find_last) simp_all
    then have "v = u" using sel by (simp add: select_admin_user_def t')
    with t' rest show ?thesis by blast
  qed
qed simp

text \<open>What a login does with an active account it has found.\<close>

lemma admin_login_found:
  assumes "normalize_admin_username name = Inr nm" "select_admin_user_by_username same seen nm = Some u"
    and "ac_status u = ''active''" "\<And>i. my_fault my i = Inr ()"
    and "create_admin_session_token cx to_json now random secret (admin_user_row.truncate u) = Inr (token, expires)"
  shows "admin_login cx to_json same my now random (Some secret) name password seen t =
    (case verify_admin_password cx password (ac_password_hash u) of
       Inl e \<Rightarrow> (Inl e, t)
     | Inr valid \<Rightarrow>
         if valid then
           (Inr (token, expires, logged_in_actor u), update_user (au_id u)
             (\<lambda>v. v\<lparr>ac_last_login_at := Some (my_now my 1), ac_updated_at := my_now my 1\<rparr>) t)
         else (Inl wrong_password, t))"
proof -
  have fine: "stmt my i v = Inr v" for i and v :: 'v
    by (simp add: stmt_def assms(4))
  show ?thesis
    unfolding admin_login_def mark_admin_user_login_def assms(1) fine ok_or_simps bind_result.simps
      assms(2) assms(3)
    by (cases "verify_admin_password cx password (ac_password_hash u)") (simp_all add: assms(5) fine)
qed

text \<open>
  C32. An account that was created active is opened by its password and by no text from which PBKDF2
  derives another key, under any spelling of the name that normalises to the stored one.
\<close>

theorem created_account_login:
  assumes "b64url_roundtrip cx" "b64url_no_dollar cx" "hmac_32 cx"
    and "accounts_ok same t" "admin_create_user cx same my salt admin r t = (Inr u, t')"
    and "ac_status u = ''active''" "same (au_username u) (au_username u)"
    and "normalize_admin_username name = normalize_admin_username (cu_username r)"
    and "\<And>i. my_fault my' i = Inr ()" "\<And>c. to_json c \<noteq> None"
  shows "(\<exists>answer t''. admin_login cx to_json same my' now random (Some secret) name attempt t' t' =
      (Inr answer, t'')) \<longleftrightarrow>
    pbkdf2_hmac_sha256 cx attempt salt 120000 32 = pbkdf2_hmac_sha256 cx (cu_password r) salt 120000 32"
proof -
  note made = created_account [OF assms(5,4)]
  have found: "select_admin_user_by_username same t' (au_username u) = Some u"
    using made assms(7) find_last [of "at_users t" "\<lambda>v. same (au_username v) (au_username u)" u]
    by (simp add: select_admin_user_by_username_def)
  have check: "verify_admin_password cx attempt (ac_password_hash u) = Inr True \<longleftrightarrow>
      pbkdf2_hmac_sha256 cx attempt salt 120000 32 = pbkdf2_hmac_sha256 cx (cu_password r) salt 120000 32"
    using password_round_trip [OF assms(1-3)] made by blast
  obtain token where token: "create_admin_session_token cx to_json now random secret
      (admin_user_row.truncate u) = Inr (token, now + 28800)"
    by (rule create_admin_session_token_Inr [OF assms(3,10)])
  have name: "normalize_admin_username name = Inr (au_username u)"
    unfolding assms(8) using made by blast
  have "(\<exists>answer t''. admin_login cx to_json same my' now random (Some secret) name attempt t' t' =
      (Inr answer, t'')) \<longleftrightarrow> verify_admin_password cx attempt (ac_password_hash u) = Inr True"
    unfolding admin_login_found [OF name found assms(6,9) token]
    by (simp split: sum.split)
  with check show ?thesis by blast
qed

text \<open>
  C31. The session a login hands out is the administrator's for eight hours: \<open>require_admin\<close> takes its
  token for the actor that logged in until the expiry the login announced, and refuses it after.
  The configured token is assumed not to look like a session token.
\<close>

theorem login_session_accepted:
  assumes "b64url_roundtrip cx" "mac_text_ok cx"
    and "\<And>c body. to_json c = Some body \<Longrightarrow> of_json body = Some c"
    and "admin_login cx to_json same my now random (Some secret) name password seen t =
      (Inr (token, expires, actor), t')"
    and "length token < 2 ^ 64" "length secret < 2 ^ 64" "\<not> starts_with secret ''xas.v1.''"
    and "admin_token_from_headers hs = Some token"
  shows "require_admin cx of_json display at (Some secret) hs =
    (if at \<le> now + 28800 then Inr actor
     else Inl (unauthorized ''admin_session_expired'' ''admin session has expired''))"
proof -
  from assms(4) obtain u where
    made: "create_admin_session_token cx to_json now random secret (admin_user_row.truncate u) = Inr (token, expires)"
    and actor: "actor = logged_in_actor u"
    by (auto simp: admin_login_def split: sum.splits if_splits)
  from made obtain rest where "token = ''xas.v1.'' @ rest"
    by (auto simp: create_admin_session_token_def Let_def admin_session_prefix_def admin_session_version_def)
  then have start: "starts_with token ''xas.v1.''" by (simp add: starts_with_append)
  then have "\<not> constant_time_eq secret token"
    using constant_time_eq_correct [OF assms(6,5)] assms(7) by blast
  then have "require_admin cx of_json display at (Some secret) hs =
      verify_admin_session_token cx of_json at secret token"
    using start assms(8) by (simp add: require_admin_def admin_session_prefix_def admin_session_version_def)
  also have "\<dots> = (if at \<le> now + 28800 then Inr actor
      else Inl (unauthorized ''admin_session_expired'' ''admin session has expired''))"
    using created_session_verifies [OF assms(1,2,5) made assms(3), where at = at] actor
    by (simp add: logged_in_actor_def admin_user_row.truncate_def)
  finally show ?thesis .
qed

section \<open>Editing one's own account\<close>

lemma selected_after_update:
  assumes "select_admin_user (update_user i f t) i = Some row" "\<And>u. au_id (f u) = au_id u"
  shows "\<exists>u. row = f u \<and> au_id u = i"
proof -
  have "row \<in> (\<lambda>u. if au_id u = i then f u else u) ` set (at_users t)" "au_id row = i"
    using select_admin_user_Some [OF assms(1)] by (auto simp: update_user_def update_rows_def)
  then show ?thesis using assms(2) by (auto split: if_splits)
qed

lemma trim_super_admin: "trim ''super_admin'' = ''super_admin''"
  by code_simp

text \<open>An edit of one's own account that the guards of \<open>admin_update_user\<close> let through.\<close>

lemma own_edit_row:
  assumes "update_admin_user cx my salt user_id r seen t = Inr t'"
    and "select_admin_user t' user_id = Some row" "select_admin_user seen user_id = Some before"
    and "\<not> is_some_and (\<lambda>role. role \<noteq> ''super_admin'') (uu_role r)"
  shows "au_role row = (case uu_role r of None \<Rightarrow> au_role before | Some _ \<Rightarrow> ''super_admin'')"
    and "ac_status row = (case uu_status r of None \<Rightarrow> ac_status before | Some s \<Rightarrow> trim s)"
proof -
  from assms(1) have "au_role row = (case uu_role r of None \<Rightarrow> au_role before | Some _ \<Rightarrow> ''super_admin'') \<and>
      ac_status row = (case uu_status r of None \<Rightarrow> ac_status before | Some s \<Rightarrow> trim s)"
  proof (rule update_admin_user_Inr)
    fix existing shown role status hashed
    assume "select_admin_user seen user_id = Some existing"
      and role: "given_or validate_admin_role (au_role existing) (uu_role r) = Inr role"
      and status: "given_or validate_admin_user_status (ac_status existing) (uu_status r) = Inr status"
      and t': "t' = update_user user_id (\<lambda>u. u\<lparr>au_display_name := shown, au_role := role,
           ac_password_hash := hashed, ac_status := status, ac_updated_at := my_now my 1\<rparr>) t"
    then have before: "existing = before" using assms(3) by simp
    obtain u where "row = u\<lparr>au_display_name := shown, au_role := role,
           ac_password_hash := hashed, ac_status := status, ac_updated_at := my_now my 1\<rparr>"
      using selected_after_update [OF assms(2) [unfolded t']] by auto
    then have "au_role row = role" "ac_status row = status" by simp_all
    then show ?thesis
      using role status before assms(4) trim_super_admin
      by (auto simp: given_or_Inr validate_admin_role_Inr validate_admin_user_status_Inr)
  qed
  then show "au_role row = (case uu_role r of None \<Rightarrow> au_role before | Some _ \<Rightarrow> ''super_admin'')"
    and "ac_status row = (case uu_status r of None \<Rightarrow> ac_status before | Some s \<Rightarrow> trim s)" by simp_all
qed

text \<open>
  C34. A request whose headers \<open>require_admin\<close> accepts as those of the account it edits changes no
  account when the accepted role is not the super administrator's, when it asks for the status
  \<open>disabled\<close>, or when it asks for another role than the super administrator's; each is answered with
  its error. Otherwise a request answered with a row leaves the role as it was read, or makes it the
  super administrator's when the request names a role, and leaves the status as it was read or makes
  it the one asked for, without surrounding white space. The role that decides is the one in the
  caller's session token and not the one in the table, so an account demoted since its login keeps
  the role it was demoted to.
\<close>

theorem own_account_kept:
  assumes "admin_update_user_handler cx of_json bootstrap_name my salt now admin_token hs user_id r seen t =
      (answer, t')"
    and "require_admin cx of_json bootstrap_name now admin_token hs = Inr actor"
    and "aa_id actor = Some user_id" "select_admin_user seen user_id = Some before"
  shows "(aa_role actor \<noteq> ''super_admin'' \<longrightarrow> t' = t \<and> answer =
       Inl (forbidden ''permission_denied'' ''this operation requires super admin role'')) \<and>
    (aa_role actor = ''super_admin'' \<and> uu_status r = Some ''disabled'' \<longrightarrow> t' = t \<and> answer =
       Inl (bad_request ''cannot_disable_self'' ''current admin user cannot disable itself'')) \<and>
    (aa_role actor = ''super_admin'' \<and> uu_status r \<noteq> Some ''disabled'' \<and>
     uu_role r \<notin> {None, Some ''super_admin''} \<longrightarrow> t' = t \<and> answer =
       Inl (bad_request ''cannot_downgrade_self'' ''current admin user cannot downgrade itself'')) \<and>
    (\<forall>row. answer = Inr row \<longrightarrow>
       au_role row = (case uu_role r of None \<Rightarrow> au_role before | Some _ \<Rightarrow> ''super_admin'') \<and>
       ac_status row = (case uu_status r of None \<Rightarrow> ac_status before | Some s \<Rightarrow> trim s))"
proof (cases "aa_role actor = ''super_admin'' \<and> uu_status r \<noteq> Some ''disabled'' \<and>
    uu_role r \<in> {None, Some ''super_admin''}")
  case False
  then show ?thesis
    using assms(1-3) by (cases "uu_role r") (auto simp: admin_update_user_handler_def admin_update_user_def
      require_admin_super_def is_super_admin_def cannot_disable_self_def ensure_def split: if_splits)
next
  case True
  then have allowed: "\<not> is_some_and (\<lambda>role. role \<noteq> ''super_admin'') (uu_role r)" by auto
  have "au_role row = (case uu_role r of None \<Rightarrow> au_role before | Some _ \<Rightarrow> ''super_admin'') \<and>
      ac_status row = (case uu_status r of None \<Rightarrow> ac_status before | Some s \<Rightarrow> trim s)"
    if "answer = Inr row" for row
  proof (cases "update_admin_user cx my salt user_id r seen t")
    case (Inl e)
    then show ?thesis
      using assms(1-3) True allowed that by (auto simp: admin_update_user_handler_def admin_update_user_def
        require_admin_super_def is_super_admin_def ensure_def)
  next
    case (Inr p)
    then have "p = t'" "select_admin_user t' user_id = Some row"
      using assms(1-3) True allowed that by (auto simp: admin_update_user_handler_def admin_update_user_def
        require_admin_super_def is_super_admin_def ensure_def stmt_def)
    then show ?thesis using own_edit_row [OF _ _ assms(4) allowed] Inr by blast
  qed
  with True show ?thesis by auto
qed

text \<open>
  The status can still become \<open>disabled\<close>: the handler compares the text as it was sent, the update
  trims it, and so the guard lets a padded \<open>disabled\<close> pass.
\<close>

lemma padded_status_disables_self:
  "\<exists>my t row t'. aa_id (logged_in_actor row) = Some 1 \<and>
     admin_update_user demo_crypto my [] (Inr (logged_in_actor row)) 1
       \<lparr>uu_display_name = None, uu_password = None, uu_role = None, uu_status = Some '' disabled''\<rparr> t t =
     (Inr (row\<lparr>ac_status := ''disabled''\<rparr>), t') \<and> ac_status row = ''active''"
proof -
  let ?my = "\<lparr>my_fault = \<lambda>_. Inr (), my_now = \<lambda>_. 5, my_from_unixtime = Some\<rparr> :: mysql"
  let ?row = "\<lparr>au_id = 1, au_username = ''root'', au_display_name = None, au_role = ''super_admin'',
     ac_password_hash = [], ac_status = ''active'', ac_last_login_at = None, ac_created_at = 5,
     ac_updated_at = 5\<rparr> :: admin_account_row"
  let ?t = "\<lparr>at_users = [?row], at_next_user = 2\<rparr> :: account_table"
  have "trim '' disabled'' = ''disabled''" by code_simp
  then have "admin_update_user demo_crypto ?my [] (Inr (logged_in_actor ?row)) 1
       \<lparr>uu_display_name = None, uu_password = None, uu_role = None, uu_status = Some '' disabled''\<rparr> ?t ?t =
     (Inr (?row\<lparr>ac_status := ''disabled''\<rparr>), \<lparr>at_users = [?row\<lparr>ac_status := ''disabled''\<rparr>], at_next_user = 2\<rparr>)"
    by (simp add: admin_update_user_def update_admin_user_def stmt_def select_admin_user_def
        logged_in_actor_def given_or_def validate_admin_user_status_def word_of_def update_user_def
        update_rows_def)
  moreover have "aa_id (logged_in_actor ?row) = Some 1" "ac_status ?row = ''active''"
    by (simp_all add: logged_in_actor_def)
  ultimately show ?thesis by blast
qed

section \<open>An example\<close>

definition no_accounts :: account_table where
  "no_accounts = \<lparr>at_users = [], at_next_user = 1\<rparr>"

definition plain_mysql :: mysql where
  "plain_mysql = \<lparr>my_fault = \<lambda>_. Inr (), my_now = \<lambda>_. 5, my_from_unixtime = Some\<rparr>"

text \<open>An encoder of hexadecimal digits and a MAC of 32 equal bytes satisfy the laws.\<close>

definition mac_crypto :: crypto where
  "mac_crypto = demo_crypto\<lparr>hmac_sha256 := \<lambda>_ _. Some (replicate 32 (CHR ''d''))\<rparr>"

lemma length_hex: "length (hex_encode b) = 2 * length b"
  by (induction b) (simp_all add: hex_encode_def)

lemma hex_encode_Nil: "hex_encode b = [] \<longleftrightarrow> b = []"
  by (cases b) (simp_all add: hex_encode_def)

definition root_request :: admin_create_user_request where
  "root_request = \<lparr>cu_username = ''Root'', cu_display_name = None, cu_password = ''correct horse'',
     cu_role = ''super_admin'', cu_status = None\<rparr>"

lemma mac_crypto_laws:
  "b64url_roundtrip mac_crypto" "b64url_no_dollar mac_crypto" "hmac_32 mac_crypto" "mac_text_ok mac_crypto"
proof -
  have digit: "digit_char d \<noteq> CHR ''$''" if "d < 16" for d
    using that code_of_digit_char [of d] by (auto simp: code_of_def split: if_splits)
  have half: "code_of c div 16 < 16" for c
    using code_of_less [of c] by (simp add: div_less_iff_less_mult)
  have "CHR ''$'' \<notin> set (hex_encode b)" for b
    using digit half by (auto simp: hex_encode_def eq_commute [of "CHR ''$''"])
  then show "b64url_roundtrip mac_crypto" "b64url_no_dollar mac_crypto" "hmac_32 mac_crypto"
      "mac_text_ok mac_crypto"
    by (simp_all add: b64url_roundtrip_def b64url_no_dollar_def hmac_32_def mac_text_ok_def mac_crypto_def
        demo_crypto_def hex_no_dot length_hex hex_encode_Nil)
qed

lemma root_name: "normalize_admin_username ''Root'' = Inr ''root''" "normalize_admin_username '' ROOT '' = Inr ''root''"
proof -
  have "trim ''Root'' = ''Root''" "trim '' ROOT '' = ''ROOT''" by code_simp+
  then show "normalize_admin_username ''Root'' = Inr ''root''" "normalize_admin_username '' ROOT '' = Inr ''root''"
    by (simp_all add: normalize_admin_username_def normalize_required_text_def char_count_def is_cont_def
        utf8_def utf8_char_def code_of_def char_of_def ascii_lower_def command_char_def is_ascii_alphanumeric_def
        bit_Suc_0_iff)
qed

lemma root_created:
  "\<exists>u t. admin_create_user mac_crypto (=) plain_mysql ''salt'' (Inr (bootstrap_actor [])) root_request no_accounts =
     (Inr u, t) \<and> u = \<lparr>au_id = 1, au_username = ''root'', au_display_name = None, au_role = ''super_admin'',
       ac_password_hash = ac_password_hash u, ac_status = ''active'', ac_last_login_at = None,
       ac_created_at = 5, ac_updated_at = 5\<rparr>"
proof -
  obtain derived where derived: "pbkdf2_hmac_sha256 mac_crypto ''correct horse'' ''salt'' 120000 32 = Inr derived"
    using pbkdf2_total [OF mac_crypto_laws(3), of 120000 32] by auto
  have "validate_admin_password ''correct horse'' = Inr ()"
    by (simp add: validate_admin_password_def char_count_def is_cont_def code_of_def)
  with derived obtain hashed where "hash_admin_password mac_crypto ''salt'' ''correct horse'' = Inr hashed"
    by (auto simp: hash_admin_password_def hash_admin_password_with_def admin_password_iterations_def)
  moreover have "validate_admin_role ''super_admin'' = Inr ''super_admin''"
    by (simp add: validate_admin_role_Inr trim_super_admin)
  ultimately show ?thesis
    by (simp add: admin_create_user_def insert_admin_user_def root_request_def root_name plain_mysql_def
        normalize_admin_display_name_def normalize_optional_text_def nonempty_text_def stmt_def
        no_accounts_def select_admin_user_def select_admin_user_by_username_def auto_id_def)
qed

lemma no_accounts_ok: "accounts_ok same no_accounts"
  by (simp add: accounts_ok_def no_accounts_def)

theorem accounts_stay_well_formed_witness:
  "\<exists>u t. fst (admin_create_user mac_crypto (=) plain_mysql ''salt'' (Inr (bootstrap_actor [])) root_request
     no_accounts) = Inr u \<and> at_users t = [u] \<and> accounts_ok (=) t"
proof -
  obtain u t where made: "admin_create_user mac_crypto (=) plain_mysql ''salt'' (Inr (bootstrap_actor []))
      root_request no_accounts = (Inr u, t)"
    using root_created by blast
  have "accounts_ok (=) t"
    by (rule accounts_stay_well_formed [OF account_run.create [OF account_run.start made] no_accounts_ok])
  moreover have "at_users t = [u]"
    using created_account [OF made no_accounts_ok] by (simp add: no_accounts_def)
  ultimately show ?thesis using made by auto
qed

theorem created_account_login_witness:
  "\<exists>u t answer t'. admin_create_user mac_crypto (=) plain_mysql ''salt'' (Inr (bootstrap_actor [])) root_request
     no_accounts = (Inr u, t) \<and>
   admin_login mac_crypto (\<lambda>_. Some []) (=) plain_mysql 100 ''r'' (Some ''key'') '' ROOT '' ''correct horse'' t t =
     (Inr answer, t')"
proof -
  obtain u t where made: "admin_create_user mac_crypto (=) plain_mysql ''salt'' (Inr (bootstrap_actor []))
      root_request no_accounts = (Inr u, t)" and "ac_status u = ''active''"
    using root_created by (metis admin_account_row.select_convs(2))
  then show ?thesis
    using created_account_login [OF mac_crypto_laws(1-3) no_accounts_ok made, where name = "'' ROOT ''"
        and my' = plain_mysql and to_json = "\<lambda>_. Some []" and attempt = "''correct horse''"
        and now = 100 and random = "''r''" and secret = "''key''"]
    by (auto simp: root_request_def root_name plain_mysql_def)
qed

text \<open>The session token of the account 1, signed with the key ''key'' at the time 100, in its header.\<close>

definition root_claims :: admin_session_claims where
  "root_claims = \<lparr>as_user_id = 1, as_username = ''root'', as_display_name = None,
     as_role = ''super_admin'', as_exp = 28900, as_nonce = hex_encode ''r''\<rparr>"

definition root_to_json :: "admin_session_claims \<Rightarrow> bytes option" where
  "root_to_json c = (if c = root_claims then Some ''{}'' else None)"

definition root_token :: string where
  "root_token = ''xas.v1.'' @ hex_encode ''{}'' @ ''.'' @ hex_encode (replicate 32 (CHR ''d''))"

definition root_headers :: headers where
  "root_headers = [(''x-admin-token'', Some root_token)]"

definition root_actor :: admin_actor where
  "root_actor = \<lparr>aa_id = Some 1, aa_username = ''root'', aa_display_name = None,
     aa_role = ''super_admin'', aa_auth_type = ''password''\<rparr>"

lemma root_json: "root_to_json c = Some body \<Longrightarrow> (\<lambda>_. Some root_claims) body = Some c"
  by (simp add: root_to_json_def split: if_splits)

lemma root_token_made:
  "create_admin_session_token mac_crypto root_to_json 100 ''r'' ''key''
     \<lparr>au_id = 1, au_username = ''root'', au_display_name = None, au_role = ''super_admin''\<rparr> =
   Inr (root_token, 28900)"
  by (simp add: create_admin_session_token_def admin_session_ttl_sec_def random_url_token_def
      hmac_sha256_base64_def mac_crypto_def demo_crypto_def admin_session_prefix_def
      admin_session_version_def root_to_json_def root_claims_def root_token_def)

lemma length_root_token: "length root_token = 76"
  by (simp add: root_token_def length_hex)

lemma root_token_sent: "admin_token_from_headers root_headers = Some root_token"
proof -
  have "printable root_token" by (simp add: root_token_def printable_hex code_of_def)
  moreover have "\<not> eq_ignore_ascii_case ''x-admin-token'' ''authorization''"
    "eq_ignore_ascii_case ''x-admin-token'' ''X-Admin-Token''"
    by (simp_all add: eq_ignore_ascii_case_def ascii_lower_def code_of_def char_of_def bit_Suc_0_iff)
  moreover have "root_token \<noteq> []" by (simp add: root_token_def)
  ultimately show ?thesis
    by (simp add: admin_token_from_headers_def bearer_or_def header_text_def root_headers_def)
qed

lemma root_admitted:
  "require_admin mac_crypto (\<lambda>_. Some root_claims) [] 200 (Some ''key'') root_headers = Inr root_actor"
proof -
  have "starts_with root_token ''xas.v1.''" "root_token \<noteq> ''key''"
    by (simp_all add: root_token_def starts_with_append)
  moreover from this have "\<not> constant_time_eq ''key'' root_token"
    using constant_time_eq_correct [of "''key''" root_token] by (simp add: length_root_token)
  moreover have "verify_admin_session_token mac_crypto (\<lambda>_. Some root_claims) 200 ''key'' root_token =
      Inr root_actor"
    using created_session_verifies [OF mac_crypto_laws(1,4) _ root_token_made root_json, where at = 200]
    by (simp add: length_root_token root_actor_def word_le_nat_alt)
  ultimately show ?thesis
    by (simp add: require_admin_def root_token_sent admin_session_prefix_def admin_session_version_def)
qed

theorem own_account_kept_witness:
  "\<exists>row. fst (admin_update_user_handler mac_crypto (\<lambda>_. Some root_claims) [] plain_mysql [] 200 (Some ''key'')
      root_headers 1
      \<lparr>uu_display_name = None, uu_password = None, uu_role = None, uu_status = Some ''active''\<rparr>
      \<lparr>at_users = [row], at_next_user = 2\<rparr> \<lparr>at_users = [row], at_next_user = 2\<rparr>) = Inr row \<and>
    au_role row = ''super_admin'' \<and> ac_status row = ''active''"
proof -
  let ?row = "\<lparr>au_id = 1, au_username = ''root'', au_display_name = None, au_role = ''super_admin'',
     ac_password_hash = [], ac_status = ''active'', ac_last_login_at = None, ac_created_at = 5,
     ac_updated_at = 5\<rparr> :: admin_account_row"
  let ?t = "\<lparr>at_users = [?row], at_next_user = 2\<rparr> :: account_table"
  let ?r = "\<lparr>uu_display_name = None, uu_password = None, uu_role = None, uu_status = Some ''active''\<rparr>"
  have active: "trim ''active'' = ''active''" by code_simp
  have actor: "aa_id root_actor = Some 1" by (simp add: root_actor_def)
  have before: "select_admin_user ?t 1 = Some ?row" by (simp add: select_admin_user_def)
  have edited: "admin_update_user_handler mac_crypto (\<lambda>_. Some root_claims) [] plain_mysql [] 200 (Some ''key'')
      root_headers 1 ?r ?t ?t = (Inr ?row, ?t)"
    by (simp add: admin_update_user_handler_def require_admin_super_def is_super_admin_def root_admitted
        root_actor_def admin_update_user_def update_admin_user_def stmt_def select_admin_user_def plain_mysql_def
        given_or_def validate_admin_user_status_def word_of_def update_user_def update_rows_def active)
  have "au_role ?row = ''super_admin'' \<and> ac_status ?row = ''active''"
    using own_account_kept [OF edited root_admitted actor before] active by simp
  with edited show ?thesis by (intro exI [of _ ?row]) simp
qed

theorem login_session_accepted_witness:
  "\<exists>token. require_admin mac_crypto (\<lambda>_. Some root_claims) [] 200 (Some ''key'')
     [(''x-admin-token'', Some token)] = Inr root_actor"
proof -
  obtain u t where made: "admin_create_user mac_crypto (=) plain_mysql ''salt'' (Inr (bootstrap_actor []))
      root_request no_accounts = (Inr u, t)"
    and u: "u = \<lparr>au_id = 1, au_username = ''root'', au_display_name = None, au_role = ''super_admin'',
       ac_password_hash = ac_password_hash u, ac_status = ''active'', ac_last_login_at = None,
       ac_created_at = 5, ac_updated_at = 5\<rparr>"
    using root_created by blast
  have fields: "ac_status u = ''active''" "admin_user_row.truncate u = \<lparr>au_id = 1, au_username = ''root'',
        au_display_name = None, au_role = ''super_admin''\<rparr>" "logged_in_actor u = root_actor"
    by (subst u, simp add: admin_user_row.truncate_def logged_in_actor_def root_actor_def)+
  have token: "create_admin_session_token mac_crypto root_to_json 100 ''r'' ''key''
      (admin_user_row.truncate u) = Inr (root_token, 28900)"
    unfolding fields by (rule root_token_made)
  have hashed: "hash_admin_password mac_crypto ''salt'' ''correct horse'' = Inr (ac_password_hash u)"
    using created_account [OF made no_accounts_ok] by (simp add: root_request_def)
  have "at_users t = [u]" using created_account [OF made no_accounts_ok] by (simp add: no_accounts_def)
  then have found: "select_admin_user_by_username (=) t ''root'' = Some u"
    by (simp add: select_admin_user_by_username_def) (subst u, simp)
  have valid: "verify_admin_password mac_crypto ''correct horse'' (ac_password_hash u) = Inr True"
    using password_round_trip [OF mac_crypto_laws(1-3) hashed] by blast
  obtain t' where login: "admin_login mac_crypto root_to_json (=) plain_mysql 100 ''r'' (Some ''key'') '' ROOT ''
      ''correct horse'' t t = (Inr (root_token, 28900, logged_in_actor u), t')"
    using admin_login_found [OF root_name(2) found fields(1) _ token, where my = plain_mysql and t = t] valid
    by (auto simp: plain_mysql_def)
  have "require_admin mac_crypto (\<lambda>_. Some root_claims) [] 200 (Some ''key'') root_headers =
    (if (200 :: u64) \<le> 100 + 28800 then Inr (logged_in_actor u)
     else Inl (unauthorized ''admin_session_expired'' ''admin session has expired''))"
    by (rule login_session_accepted [OF mac_crypto_laws(1,4) root_json login _ _ _ root_token_sent])
      (simp_all add: length_root_token)
  then show ?thesis
    by (intro exI [of _ root_token]) (simp add: fields root_headers_def word_le_nat_alt)
qed

end
