(* ===== verification/Backend_Mock.thy ===== *)
theory Backend_Mock
  imports Interop
begin

text \<open>
  \<open>backend-mock/src/main.rs\<close>: the development backend, a small HTTP/1.1 server over a TCP stream that
  issues connect intents for one node. A stream is the list of what its reads give; behind the
  list the stream is at its end. JSON is read and written by parameters.
\<close>

section \<open>Words\<close>

text \<open>\<open>str::split_whitespace\<close>; the first argument is the word begun.\<close>

definition end_word :: "string \<Rightarrow> string list \<Rightarrow> string list" where
  "end_word w ws = (if w = [] then ws else w # ws)"

fun split_words :: "string \<Rightarrow> string \<Rightarrow> string list" where
  "split_words w (a # b # c # s) =
     (if ws1 a then end_word w (split_words [] (b # c # s))
      else if ws2 a b then end_word w (split_words [] (c # s))
      else if ws3 a b c then end_word w (split_words [] s)
      else split_words (w @ [a]) (b # c # s))"
| "split_words w [a, b] =
     (if ws1 a then end_word w (split_words [] [b])
      else if ws2 a b then end_word w [] else split_words (w @ [a]) [b])"
| "split_words w [a] = (if ws1 a then end_word w [] else [w @ [a]])"
| "split_words w [] = end_word w []"

definition split_whitespace :: "string \<Rightarrow> string list" where
  "split_whitespace s = split_words [] s"

lemma split_words_printable:
  "33 \<le> code_of a \<Longrightarrow> code_of a \<le> 126 \<Longrightarrow> split_words w (a # s) = split_words (w @ [a]) s"
  by (cases s rule: remdups_adj.cases) (auto simp: ws1_def ws2_def ws3_def end_word_def)

lemma split_words_space: "split_words w (CHR '' '' # s) = end_word w (split_words [] s)"
  by (cases s rule: remdups_adj.cases) (auto simp: ws1_def code_of_def end_word_def)

lemma split_words_word:
  "printable v \<Longrightarrow> split_words w (v @ CHR '' '' # s) = end_word (w @ v) (split_words [] s)"
  by (induction v arbitrary: w) (simp_all add: split_words_space split_words_printable)

section \<open>State and messages\<close>

record mock_state =
  mk_node_id :: u64
  mk_node_secret :: string
  mk_node_host :: string
  mk_node_port :: u16
  mk_target_addr :: string
  mk_area :: string
  mk_tag :: string
  mk_ttl_sec :: u64

record mock_cli = mock_state +
  mk_listen :: socket_addr

definition mock_validate_cli :: "mock_cli \<Rightarrow> (string, unit) result" where
  "mock_validate_cli c =
     (if trim (mk_node_secret c) = [] then Inl ''--node-secret or XACCEL_NODE_SECRET is required''
      else if trim (mk_node_host c) = [] then Inl ''--node-host is required''
      else if trim (mk_target_addr c) = [] then Inl ''--target-addr is required''
      else Inr ())"

definition mock_start :: "mock_cli \<Rightarrow> (string, mock_state) result" where
  "mock_start c =
     bind_result (mock_validate_cli c) (\<lambda>_.
     Inr \<lparr>mk_node_id = mk_node_id c, mk_node_secret = mk_node_secret c, mk_node_host = mk_node_host c,
          mk_node_port = mk_node_port c, mk_target_addr = mk_target_addr c, mk_area = mk_area c,
          mk_tag = mk_tag c, mk_ttl_sec = max (mk_ttl_sec c) 1\<rparr>)"

record mock_request =
  mr_user_id :: u64
  mr_device_id :: string
  mr_game_id :: u64
  mr_platform :: "string option"
  mr_client_isp :: "string option"
  mr_client_ip :: "string option"
  mr_bandwidth_quality :: "string option"

record mock_claims =
  mq_node_id :: u64
  mq_user_id :: u64
  mq_device_id :: string
  mq_game_id :: u64
  mq_business :: "business_auth_context option"
  mq_intent_id :: "string option"
  mq_route :: "client_route_claims option"
  mq_expires_at :: u64
  mq_issued_at :: "u64 option"
  mq_nonce :: "string option"

record mock_credential =
  mc_token :: string
  mc_expires_at :: u64
  mc_intent_id :: string
  mc_route :: client_route_claims

record mock_probe_info =
  mf_udp :: bool
  mf_tcp :: bool
  mf_protocol :: string

record mock_candidate =
  mn_node_id :: u64
  mn_area :: string
  mn_tag :: string
  mn_host :: string
  mn_port :: u16
  mn_transports :: "string list"
  mn_bandwidth_quality :: string
  mn_probe :: mock_probe_info
  mn_route :: client_route_claims
  mn_credential :: mock_credential

record mock_intent =
  mi_intent_id :: string
  mi_ttl_sec :: u64
  mi_platform :: "string option"
  mi_client_isp :: "string option"
  mi_client_ip :: "string option"
  mi_bandwidth_quality :: string
  mi_candidates :: "mock_candidate list"

section \<open>Intents\<close>

definition mock_validate_request :: "mock_request \<Rightarrow> (string, unit) result" where
  "mock_validate_request r =
     (if mr_user_id r = 0 then Inl ''user_id must be positive''
      else if trim (mr_device_id r) = [] then Inl ''device_id is required''
      else if mr_game_id r = 0 then Inl ''game_id must be positive''
      else Inr ())"

definition mock_intent_id :: "mock_request \<Rightarrow> u64 \<Rightarrow> mock_state \<Rightarrow> string" where
  "mock_intent_id r issued_at st =
     ''intent-'' @ show_u64 (mr_user_id r) @ ''-'' @ show_u64 (mr_game_id r) @ ''-'' @ show_u64 issued_at @ ''-'' @
     show_u64 (mk_node_id st)"

definition mock_route :: "mock_state \<Rightarrow> client_route_claims" where
  "mock_route st = \<lparr>cr_target_addr = mk_target_addr st, cr_protocol = ''udp''\<rparr>"

definition mock_claims_of :: "mock_request \<Rightarrow> u64 \<Rightarrow> mock_state \<Rightarrow> mock_claims" where
  "mock_claims_of r issued_at st =
     \<lparr>mq_node_id = mk_node_id st, mq_user_id = mr_user_id r, mq_device_id = mr_device_id r,
      mq_game_id = mr_game_id r, mq_business = None, mq_intent_id = Some (mock_intent_id r issued_at st),
      mq_route = Some (mock_route st), mq_expires_at = issued_at + mk_ttl_sec st, mq_issued_at = Some issued_at,
      mq_nonce = Some (show_u64 issued_at @ ''-'' @ mr_device_id r)\<rparr>"

text \<open>\<open>sign_client_token\<close> is the function of \<open>node-core/src/auth.rs\<close> once more.\<close>

definition build_connect_intent ::
  "crypto \<Rightarrow> (mock_claims \<Rightarrow> (string, bytes) result) \<Rightarrow> u64 \<Rightarrow> mock_request \<Rightarrow> mock_state \<Rightarrow>
   (string, mock_intent) result"
where
  "build_connect_intent cx to_json issued_at r st =
     bind_result (mock_validate_request r) (\<lambda>_.
     let intent_id = mock_intent_id r issued_at st;
         quality = unwrap_or ''normal'' (mr_bandwidth_quality r)
     in bind_result (sign_client_token cx to_json (mock_claims_of r issued_at st) (mk_node_secret st)) (\<lambda>token.
     Inr \<lparr>mi_intent_id = intent_id, mi_ttl_sec = mk_ttl_sec st, mi_platform = mr_platform r,
          mi_client_isp = mr_client_isp r, mi_client_ip = mr_client_ip r, mi_bandwidth_quality = quality,
          mi_candidates =
            [\<lparr>mn_node_id = mk_node_id st, mn_area = mk_area st, mn_tag = mk_tag st, mn_host = mk_node_host st,
              mn_port = mk_node_port st, mn_transports = [''udp''], mn_bandwidth_quality = quality,
              mn_probe = \<lparr>mf_udp = True, mf_tcp = True, mf_protocol = ''xaccel/1''\<rparr>, mn_route = mock_route st,
              mn_credential =
                \<lparr>mc_token = token, mc_expires_at = issued_at + mk_ttl_sec st, mc_intent_id = intent_id,
                 mc_route = mock_route st\<rparr>\<rparr>]\<rparr>))"

section \<open>Reading a request\<close>

record mock_http_request =
  mh_method :: string
  mh_path :: string
  mh_body :: bytes

lemma crlf_bytes: "crlf = [carriage_return, line_feed]"
  by (simp add: crlf_def carriage_return_def newline_line_feed)

definition max_request_bytes :: nat where "max_request_bytes = 16 * 1024"

fun find_header_end :: "bytes \<Rightarrow> nat option" where
  "find_header_end [] = None"
| "find_header_end (c # b) =
     (if starts_with (c # b) (crlf @ crlf) then Some 0 else map_option Suc (find_header_end b))"

fun content_length_of :: "string list \<Rightarrow> (string, nat) result" where
  "content_length_of [] = Inr 0"
| "content_length_of (line # ls) =
     (case split_once (CHR '':'') line of
        None \<Rightarrow> content_length_of ls
      | Some (name, v) \<Rightarrow>
          if eq_ignore_ascii_case name ''content-length'' then
            ok_or ''invalid Content-Length'' (parse_uint (2 ^ 64) (trim v))
          else content_length_of ls)"

definition parse_content_length :: "bytes \<Rightarrow> (string, nat) result" where
  "parse_content_length headers =
     bind_result (ok_or ''headers must be UTF-8'' (from_utf8 headers)) (\<lambda>s.
     content_length_of (drop 1 (text_lines s)))"

text \<open>
  Additions of \<open>usize\<close> wrap, as in the release build. An index out of range is a panic, which ends the
  task of the connection.
\<close>

definition usize_add :: "nat \<Rightarrow> nat \<Rightarrow> nat" where "usize_add a b = (a + b) mod 2 ^ 64"

definition parse_http_request :: "bytes \<Rightarrow> nat \<Rightarrow> nat \<Rightarrow> (string, mock_http_request) result" where
  "parse_http_request buffer header_end content_length =
     bind_result (ok_or slice_panic (get_range 0 header_end buffer)) (\<lambda>head.
     bind_result (ok_or ''headers must be UTF-8'' (from_utf8 head)) (\<lambda>headers.
     bind_result (case text_lines headers of [] \<Rightarrow> Inl ''missing request line'' | l # _ \<Rightarrow> Inr l) (\<lambda>request_line.
     bind_result (case split_whitespace request_line of
         [] \<Rightarrow> Inl ''missing HTTP method''
       | [m] \<Rightarrow> Inl ''missing HTTP path''
       | m # p # _ \<Rightarrow> Inr (m, hd (split_on (CHR ''?'') p))) (\<lambda>(meth, path).
     let body_start = usize_add header_end 4
     in bind_result (ok_or slice_panic (get_range body_start (usize_add body_start content_length) buffer)) (\<lambda>body.
     Inr \<lparr>mh_method = meth, mh_path = path, mh_body = body\<rparr>)))))"

type_synonym reads = "(string, bytes) result list"

fun read_rest :: "nat \<Rightarrow> bytes \<Rightarrow> reads \<Rightarrow> (string, bytes) result" where
  "read_rest total_len buffer [] = Inr buffer"
| "read_rest total_len buffer (r # rs) =
     (if total_len \<le> length buffer then Inr buffer
      else bind_result r (\<lambda>c.
        if c = [] then Inr buffer
        else if max_request_bytes < length (buffer @ c) then Inl ''request too large''
        else read_rest total_len (buffer @ c) rs))"

definition finish_request :: "bytes \<Rightarrow> nat \<Rightarrow> reads \<Rightarrow> (string, mock_http_request) result" where
  "finish_request buffer header_end rs =
     bind_result (ok_or slice_panic (get_range 0 header_end buffer)) (\<lambda>head.
     bind_result (parse_content_length head) (\<lambda>n.
     let total_len = usize_add (usize_add header_end 4) n
     in bind_result (read_rest total_len buffer rs) (\<lambda>b.
        bind_result (ok_or slice_panic (get_range 0 total_len b)) (\<lambda>message.
        parse_http_request message header_end n))))"

fun read_http_request :: "bytes \<Rightarrow> reads \<Rightarrow> (string, mock_http_request) result" where
  "read_http_request buffer [] = Inl ''empty or incomplete HTTP request''"
| "read_http_request buffer (r # rs) =
     bind_result r (\<lambda>c.
       if c = [] then Inl ''empty or incomplete HTTP request''
       else if max_request_bytes < length (buffer @ c) then Inl ''request too large''
       else (case find_header_end (buffer @ c) of
           None \<Rightarrow> read_http_request (buffer @ c) rs
         | Some header_end \<Rightarrow> finish_request (buffer @ c) header_end rs))"

section \<open>Answers\<close>

datatype mock_reply = MockHealth mock_state | MockIntent mock_intent | MockError string string

definition mock_json_response ::
  "(mock_reply \<Rightarrow> (string, string) result) \<Rightarrow> string \<Rightarrow> mock_reply \<Rightarrow> (string, string) result"
where
  "mock_json_response pretty status reply =
     bind_result (pretty reply) (\<lambda>body.
     Inr (''HTTP/1.1 '' @ status @ crlf @ ''Content-Type: application/json'' @ crlf @ ''Content-Length: '' @
          show_nat (length body) @ crlf @ ''Connection: close'' @ crlf @ crlf @ body))"

definition route_request ::
  "crypto \<Rightarrow> (mock_claims \<Rightarrow> (string, bytes) result) \<Rightarrow> (bytes \<Rightarrow> mock_request option) \<Rightarrow>
   (mock_reply \<Rightarrow> (string, string) result) \<Rightarrow> u64 \<Rightarrow> mock_http_request \<Rightarrow> mock_state \<Rightarrow> (string, string) result"
where
  "route_request cx to_json of_json pretty now h st =
     (if mh_method h = ''GET'' \<and> mh_path h = ''/health'' then mock_json_response pretty ''200 OK'' (MockHealth st)
      else if mh_method h = ''POST'' \<and> mh_path h = ''/api/client/v1/connect-intent'' then
        bind_result (ok_or ''invalid connect-intent JSON'' (of_json (mh_body h))) (\<lambda>r.
        bind_result (build_connect_intent cx to_json now r st) (\<lambda>i.
        mock_json_response pretty ''200 OK'' (MockIntent i)))
      else mock_json_response pretty ''404 Not Found'' (MockError ''not_found'' ''route not found''))"

definition mock_error_response :: "(mock_reply \<Rightarrow> (string, string) result) \<Rightarrow> string \<Rightarrow> (string, string) result" where
  "mock_error_response pretty e =
     map_err (\<lambda>_. ''panic: error response serializes'')
       (mock_json_response pretty ''400 Bad Request'' (MockError ''bad_request'' e))"

text \<open>What is written to the stream; a request that cannot be read is not answered.\<close>

definition handle_mock_connection ::
  "crypto \<Rightarrow> (mock_claims \<Rightarrow> (string, bytes) result) \<Rightarrow> (bytes \<Rightarrow> mock_request option) \<Rightarrow>
   (mock_reply \<Rightarrow> (string, string) result) \<Rightarrow> u64 \<Rightarrow> reads \<Rightarrow> mock_state \<Rightarrow> (string, string) result"
where
  "handle_mock_connection cx to_json of_json pretty now rs st =
     bind_result (read_http_request [] rs) (\<lambda>h.
     case route_request cx to_json of_json pretty now h st of
       Inr response \<Rightarrow> Inr response
     | Inl e \<Rightarrow> mock_error_response pretty e)"

section \<open>The end of the headers\<close>

lemma starts_with_take: "starts_with b p \<longleftrightarrow> take (length p) b = p"
  by (auto simp: starts_with_iff) (metis append_take_drop_id)

lemma find_header_end_iff:
  "find_header_end b = Some h \<longleftrightarrow>
     take 4 (drop h b) = crlf @ crlf \<and> (\<forall>k < h. take 4 (drop k b) \<noteq> crlf @ crlf)"
proof (induction b arbitrary: h)
  case Nil
  then show ?case by (simp add: crlf_bytes)
next
  case (Cons c b)
  have here: "starts_with (c # b) (crlf @ crlf) \<longleftrightarrow> take 4 (drop 0 (c # b)) = crlf @ crlf"
    by (simp only: starts_with_take drop_0) (simp add: crlf_bytes numeral_eq_Suc)
  show ?case
  proof (cases h)
    case 0
    then show ?thesis using here by auto
  next
    case (Suc k)
    then show ?thesis using here Cons by (auto simp: less_Suc_eq_0_disj)
  qed
qed

lemma find_header_end_bound: "find_header_end b = Some h \<Longrightarrow> h + 4 \<le> length b"
proof -
  assume "find_header_end b = Some h"
  then have "length (take 4 (drop h b)) = 4" by (simp add: find_header_end_iff crlf_bytes)
  then show ?thesis by (auto simp: min_def split: if_splits)
qed

lemma find_header_end_prefix:
  assumes "find_header_end (xs @ ys) = Some h"
  shows "find_header_end xs = (if h + 4 \<le> length xs then Some h else None)"
proof -
  have window: "take 4 (drop k (xs @ ys)) = take 4 (drop k xs)" if "k + 4 \<le> length xs" for k
    using that by simp
  show ?thesis
  proof (cases "h + 4 \<le> length xs")
    case True
    then have "find_header_end xs = Some h"
      using assms window unfolding find_header_end_iff by (metis add_le_mono1 le_trans less_imp_le)
    with True show ?thesis by simp
  next
    case False
    have "find_header_end xs = None"
    proof (cases "find_header_end xs")
      case (Some k)
      then have "k + 4 \<le> length xs" by (rule find_header_end_bound)
      then have "take 4 (drop k (xs @ ys)) = crlf @ crlf" "k < h"
        using Some window False by (auto simp: find_header_end_iff)
      with assms show ?thesis by (simp add: find_header_end_iff)
    qed
    with False show ?thesis by simp
  qed
qed

section \<open>Reading does not depend on the chunks\<close>

lemma get_range_prefix: "n \<le> length b \<Longrightarrow> get_range 0 n b = Some (take n b)"
  by (simp add: get_range_def)

lemma read_rest_complete:
  assumes "buffer @ concat cs = m" "[] \<notin> set cs" "length m \<le> max_request_bytes"
  shows "read_rest (length m) buffer (map Inr cs @ rs) = Inr m"
  using assms
proof (induction cs arbitrary: buffer)
  case Nil
  then show ?case by (cases rs) auto
next
  case (Cons c cs)
  then have "length buffer < length m" by auto
  moreover have "length (buffer @ c) \<le> max_request_bytes" using Cons.prems by auto
  moreover have "c \<noteq> []" using Cons.prems(2) by auto
  ultimately show ?case using Cons by simp
qed

text \<open>The message \<open>m\<close> has \<open>n\<close> bytes behind the headers, which end at \<open>h\<close>.\<close>

definition framed :: "bytes \<Rightarrow> nat \<Rightarrow> nat \<Rightarrow> bool" where
  "framed m h n \<longleftrightarrow> find_header_end m = Some h \<and> parse_content_length (take h m) = Inr n \<and> h + 4 + n = length m \<and>
     length m \<le> max_request_bytes"

lemma framed_lengths:
  assumes "framed m h n"
  shows "usize_add (usize_add h 4) n = length m" "h \<le> length m"
  using assms by (auto simp: framed_def usize_add_def max_request_bytes_def)

lemma read_framed:
  assumes "framed m h n" "buffer @ concat cs = m" "[] \<notin> set cs" "find_header_end buffer = None"
  shows "read_http_request buffer (map Inr cs @ rs) = parse_http_request m h n"
  using assms(2-)
proof (induction cs arbitrary: buffer)
  case Nil
  then show ?case using assms(1) by (simp add: framed_def)
next
  case (Cons c cs)
  have m: "m = (buffer @ c) @ concat cs" using Cons.prems(1) by simp
  then have short: "length (buffer @ c) \<le> max_request_bytes" using assms(1) by (auto simp: framed_def)
  have headers_end: "find_header_end (buffer @ c) = (if h + 4 \<le> length (buffer @ c) then Some h else None)"
    by (rule find_header_end_prefix [of _ "concat cs"]) (use assms(1) in \<open>simp only: framed_def flip: m\<close>)
  show ?case
  proof (cases "h + 4 \<le> length (buffer @ c)")
    case True
    then have "take h (buffer @ c) = take h m" "h \<le> length (buffer @ c)" by (simp_all add: m)
    then have "get_range 0 h (buffer @ c) = Some (take h m)" by (simp add: get_range_prefix)
    moreover have "read_rest (length m) (buffer @ c) (map Inr cs @ rs) = Inr m"
      using Cons.prems assms(1) by (intro read_rest_complete) (auto simp: framed_def)
    moreover have "parse_content_length (take h m) = Inr n" using assms(1) by (simp add: framed_def)
    ultimately have "finish_request (buffer @ c) h (map Inr cs @ rs) = parse_http_request m h n"
      by (simp add: finish_request_def framed_lengths(1) [OF assms(1)] get_range_prefix del: One_nat_def)
    moreover have "c \<noteq> []" using Cons.prems(2) by auto
    ultimately show ?thesis using Cons.prems short headers_end True by simp
  next
    case False
    moreover have "c \<noteq> []" using Cons.prems(2) by auto
    ultimately show ?thesis using Cons.prems short headers_end by (simp add: Cons.IH)
  qed
qed

text \<open>A stream that ends inside the body: the slice behind the bytes that arrived panics.\<close>

lemma read_rest_cut:
  assumes "length (buffer @ concat cs) < len" "length (buffer @ concat cs) \<le> max_request_bytes" "[] \<notin> set cs"
  shows "read_rest len buffer (map Inr cs) = Inr (buffer @ concat cs)"
  using assms by (induction cs arbitrary: buffer) auto

lemma read_cut:
  assumes "framed m h n" "m = (buffer @ concat cs) @ missing" "missing \<noteq> []" "h + 4 \<le> length (buffer @ concat cs)"
    "[] \<notin> set cs" "find_header_end buffer = None"
  shows "read_http_request buffer (map Inr cs) = Inl slice_panic"
  using assms(2-)
proof (induction cs arbitrary: buffer)
  case Nil
  have "find_header_end (buffer @ missing) = Some h" using assms(1) Nil.prems(1) by (simp add: framed_def)
  from find_header_end_prefix [OF this] show ?case using Nil.prems by simp
next
  case (Cons c cs)
  have m: "m = (buffer @ c) @ concat cs @ missing" using Cons.prems(1) by simp
  then have short: "length (buffer @ c @ concat cs) < length m" "length m \<le> max_request_bytes"
    using assms(1) Cons.prems(2) by (auto simp: framed_def)
  have headers_end: "find_header_end (buffer @ c) = (if h + 4 \<le> length (buffer @ c) then Some h else None)"
    by (rule find_header_end_prefix [of _ "concat cs @ missing"]) (use assms(1) in \<open>simp only: framed_def flip: m\<close>)
  have c: "c \<noteq> []" using Cons.prems(4) by auto
  show ?case
  proof (cases "h + 4 \<le> length (buffer @ c)")
    case True
    then have "take h (buffer @ c) = take h m" "h \<le> length (buffer @ c)" by (simp_all add: m)
    then have "get_range 0 h (buffer @ c) = Some (take h m)" by (simp add: get_range_prefix)
    moreover have "read_rest (length m) (buffer @ c) (map Inr cs) = Inr ((buffer @ c) @ concat cs)"
      using Cons.prems short by (intro read_rest_cut) auto
    moreover have "get_range 0 (length m) ((buffer @ c) @ concat cs) = None"
      using short by (simp add: get_range_def)
    moreover have "parse_content_length (take h m) = Inr n" using assms(1) by (simp add: framed_def)
    ultimately have "finish_request (buffer @ c) h (map Inr cs) = Inl slice_panic"
      by (simp add: finish_request_def framed_lengths(1) [OF assms(1)])
    then show ?thesis using short headers_end True c by simp
  next
    case False
    moreover have "read_http_request (buffer @ c) (map Inr cs) = Inl slice_panic"
      using Cons.prems headers_end False by (intro Cons.IH) (auto simp: m)
    ultimately show ?thesis using short headers_end c by simp
  qed
qed

section \<open>A request as a client sends it\<close>

fun http_head :: "string list \<Rightarrow> string" where
  "http_head [] = []"
| "http_head [l] = l"
| "http_head (l # m # ls) = l @ crlf @ http_head (m # ls)"

definition http_lines :: "string \<Rightarrow> string \<Rightarrow> (string \<times> string) list \<Rightarrow> string list" where
  "http_lines meth path hs =
     (meth @ '' '' @ path @ '' HTTP/1.1'') # map (\<lambda>(name, v). name @ '': '' @ v) hs"

definition http_message :: "string \<Rightarrow> string \<Rightarrow> (string \<times> string) list \<Rightarrow> bytes \<Rightarrow> bytes" where
  "http_message meth path hs body = http_head (http_lines meth path hs) @ crlf @ crlf @ body"

text \<open>
  What a client sends: printable words, no line ends in a header, and the length of the body in the
  first header of that name (or no body).
\<close>

definition sendable :: "string \<Rightarrow> string \<Rightarrow> (string \<times> string) list \<Rightarrow> bytes \<Rightarrow> bool" where
  "sendable meth path hs body \<longleftrightarrow>
     printable meth \<and> meth \<noteq> [] \<and> printable path \<and> path \<noteq> [] \<and> CHR ''?'' \<notin> set path \<and>
     list_all (\<lambda>(name, v). printable name \<and> CHR '':'' \<notin> set name \<and> is_ascii v \<and>
       line_feed \<notin> set v \<and> carriage_return \<notin> set v) hs \<and>
     (case find (\<lambda>(name, v). eq_ignore_ascii_case name ''content-length'') hs of
        None \<Rightarrow> body = []
      | Some (name, v) \<Rightarrow> v = show_nat (length body))"

definition plain_line :: "string \<Rightarrow> bool" where
  "plain_line l \<longleftrightarrow> l \<noteq> [] \<and> carriage_return \<notin> set l \<and> line_feed \<notin> set l"

lemma printable_no_line_end:
  "printable s \<Longrightarrow> carriage_return \<notin> set s \<and> line_feed \<notin> set s"
  by (auto simp: printable_def carriage_return_def line_feed_def)

lemma http_lines_plain:
  assumes "sendable meth path hs body"
  shows "list_all plain_line (http_lines meth path hs)"
proof -
  have "carriage_return \<notin> set '' HTTP/1.1''" "line_feed \<notin> set '' HTTP/1.1''"
    "carriage_return \<notin> set '': ''" "line_feed \<notin> set '': ''"
    by (simp_all add: carriage_return_def line_feed_def char_of_def)
  then show ?thesis
    using assms printable_no_line_end
    by (auto simp: sendable_def http_lines_def list_all_iff plain_line_def)
qed

lemma crlf_length: "length crlf = 2"
  by (simp add: crlf_bytes)

lemma find_header_end_skip:
  "carriage_return \<notin> set l \<Longrightarrow> find_header_end (l @ r) = map_option ((+) (length l)) (find_header_end r)"
proof (induction l)
  case (Cons c l)
  then have "\<not> starts_with (c # l @ r) (crlf @ crlf)" by (auto simp: crlf_bytes)
  with Cons show ?case by (simp add: option.map_comp comp_def)
qed (cases "find_header_end r"; simp)

lemma find_header_end_line:
  assumes "c \<noteq> carriage_return"
  shows "find_header_end (crlf @ c # r) = map_option ((+) 2) (find_header_end (c # r))"
proof -
  have "carriage_return \<noteq> line_feed" by (simp add: carriage_return_def line_feed_def)
  then have "\<not> starts_with (crlf @ c # r) (crlf @ crlf)" "\<not> starts_with (line_feed # c # r) (crlf @ crlf)"
    using assms by (auto simp: crlf_bytes)
  then show ?thesis by (simp add: crlf_bytes option.map_comp comp_def del: starts_with.simps)
qed

lemma find_header_end_head:
  "ls \<noteq> [] \<Longrightarrow> list_all plain_line ls \<Longrightarrow> find_header_end (http_head ls @ crlf @ crlf @ body) = Some (length (http_head ls))"
proof (induction ls rule: http_head.induct)
  case (2 l)
  then have "carriage_return \<notin> set l" by (simp add: plain_line_def)
  moreover have "find_header_end (crlf @ crlf @ body) = Some 0" by (simp add: crlf_bytes)
  ultimately show ?case by (simp add: find_header_end_skip)
next
  case (3 l m ls)
  then obtain c r where "http_head (m # ls) @ crlf @ crlf @ body = c # r" "c \<noteq> carriage_return"
    by (cases m; cases ls) (auto simp: plain_line_def)
  moreover have "carriage_return \<notin> set l" using 3 by (simp add: plain_line_def)
  ultimately show ?case using 3 by (simp add: find_header_end_skip find_header_end_line crlf_length del: find_header_end.simps)
qed simp

lemma split_lines_head:
  "ls \<noteq> [] \<Longrightarrow> list_all plain_line ls \<Longrightarrow>
   split_on line_feed (http_head ls) = map (\<lambda>l. l @ [carriage_return]) (butlast ls) @ [last ls]"
proof (induction ls rule: http_head.induct)
  case (3 l m ls)
  have "carriage_return \<noteq> line_feed" by (simp add: carriage_return_def line_feed_def)
  with 3 have "line_feed \<notin> set (l @ [carriage_return])" by (simp add: plain_line_def)
  then have "split_on line_feed ((l @ [carriage_return]) @ line_feed # http_head (m # ls)) =
      (l @ [carriage_return]) # split_on line_feed (http_head (m # ls))" by (rule split_on_append)
  with 3 show ?case by (simp add: crlf_bytes)
qed (simp_all add: plain_line_def split_on_plain)

lemma text_lines_head:
  assumes "ls \<noteq> []" "list_all plain_line ls"
  shows "text_lines (http_head ls) = ls"
proof -
  have "last ls \<noteq> []" using assms by (simp add: list_all_iff plain_line_def)
  moreover have "map strip_return (map (\<lambda>l. l @ [carriage_return]) xs) = xs" for xs
    by (simp add: strip_return_def comp_def)
  ultimately show ?thesis
    using assms by (simp add: text_lines_def split_lines_head Let_def del: map_map)
qed

lemma content_length_headers:
  assumes "list_all (\<lambda>(name, v). CHR '':'' \<notin> set name) hs"
  shows "content_length_of (map (\<lambda>(name, v). name @ '': '' @ v) hs) =
    (case find (\<lambda>(name, v). eq_ignore_ascii_case name ''content-length'') hs of
       None \<Rightarrow> Inr 0
     | Some (name, v) \<Rightarrow> ok_or ''invalid Content-Length'' (parse_uint (2 ^ 64) (trim ('' '' @ v))))"
  using assms
proof (induction hs)
  case (Cons h hs)
  obtain name v where h: "h = (name, v)" by (cases h)
  then have "split_once (CHR '':'') (name @ '': '' @ v) = Some (name, '' '' @ v)"
    using Cons.prems by (simp add: split_once_Some_iff)
  then show ?case using Cons by (simp add: h)
qed simp

lemma trim_space: "trim (CHR '' '' # s) = trim s"
proof -
  have "trim_start (CHR '' '' # s) = trim_start s"
    by (cases s rule: remdups_adj.cases) (auto simp: trim_start_def ws1_def code_of_def)
  then show ?thesis by (simp add: trim_def)
qed

lemma sendable_content_length:
  assumes "sendable meth path hs body" "length body < 2 ^ 64"
  shows "parse_content_length (http_head (http_lines meth path hs)) = Inr (length body)"
proof -
  let ?ls = "http_lines meth path hs"
  have "is_ascii '' HTTP/1.1''" "is_ascii '' ''" "is_ascii '': ''" "is_ascii crlf"
    by (simp_all add: crlf_bytes carriage_return_def line_feed_def code_of_def)
  moreover from this have "is_ascii (http_head ls)" if "list_all is_ascii ls" for ls
    using that by (induction ls rule: http_head.induct) simp_all
  moreover have "list_all is_ascii ?ls"
    using assms(1) calculation
    by (auto simp: http_lines_def sendable_def list_all_iff printable_ascii)
  ultimately have utf8: "from_utf8 (http_head ?ls) = Some (http_head ?ls)"
    by (simp add: from_utf8_Some_iff utf8_valid_ascii)
  have "text_lines (http_head ?ls) = ?ls"
    using http_lines_plain [OF assms(1)] by (intro text_lines_head) (simp_all add: http_lines_def)
  then have "parse_content_length (http_head ?ls) = content_length_of (map (\<lambda>(name, v). name @ '': '' @ v) hs)"
  proof -
    assume lines: "text_lines (http_head ?ls) = ?ls"
    have "parse_content_length (http_head ?ls) = content_length_of (drop 1 ?ls)"
      unfolding parse_content_length_def utf8 ok_or_simps bind_result.simps lines ..
    then show ?thesis by (simp add: http_lines_def)
  qed
  also have "\<dots> = Inr (length body)"
  proof -
    have "list_all (\<lambda>(name, v). CHR '':'' \<notin> set name) hs"
      using assms(1) by (auto simp: sendable_def list_all_iff)
    from content_length_headers [OF this] show ?thesis
      using assms by (auto simp: sendable_def trim_space split: option.splits)
  qed
  finally show ?thesis .
qed

lemma sendable_framed:
  assumes "sendable meth path hs body" "length (http_message meth path hs body) \<le> max_request_bytes"
  shows "framed (http_message meth path hs body) (length (http_head (http_lines meth path hs))) (length body)"
proof -
  let ?ls = "http_lines meth path hs"
  have "length body < 2 ^ 64" using assms(2) by (simp add: http_message_def max_request_bytes_def)
  then have "parse_content_length (http_head ?ls) = Inr (length body)"
    by (rule sendable_content_length [OF assms(1)])
  moreover have "find_header_end (http_head ?ls @ crlf @ crlf @ body) = Some (length (http_head ?ls))"
    using http_lines_plain [OF assms(1)] by (intro find_header_end_head) (simp_all add: http_lines_def)
  ultimately show ?thesis using assms(2) by (simp add: framed_def http_message_def crlf_length)
qed

lemma parse_sendable:
  assumes "sendable meth path hs body" "length (http_message meth path hs body) \<le> max_request_bytes"
  shows "parse_http_request (http_message meth path hs body) (length (http_head (http_lines meth path hs)))
      (length body) = Inr \<lparr>mh_method = meth, mh_path = path, mh_body = body\<rparr>"
proof -
  let ?ls = "http_lines meth path hs"
  let ?h = "http_head ?ls"
  have "utf8_valid ?h \<and> text_lines ?h = ?ls"
  proof -
    have "parse_content_length ?h = Inr (length body)"
      using assms by (intro sendable_content_length) (auto simp: http_message_def max_request_bytes_def)
    then have "utf8_valid ?h" by (auto simp: parse_content_length_def from_utf8_Some_iff)
    moreover have "text_lines ?h = ?ls"
      using http_lines_plain [OF assms(1)] by (intro text_lines_head) (simp_all add: http_lines_def)
    ultimately show ?thesis by blast
  qed
  moreover have "\<exists>rest. split_whitespace (meth @ '' '' @ path @ '' HTTP/1.1'') = meth # path # rest"
    using assms(1) split_words_word [of meth "[]" "path @ '' HTTP/1.1''"] split_words_word [of path "[]" "''HTTP/1.1''"]
    by (simp add: split_whitespace_def sendable_def end_word_def)
  moreover have "split_on (CHR ''?'') path = [path]" using assms(1) by (simp add: sendable_def split_on_plain)
  moreover have "usize_add (length ?h) 4 = length ?h + 4" "usize_add (length ?h + 4) (length body) = length ?h + 4 + length body"
    using assms(2) by (simp_all add: usize_add_def http_message_def max_request_bytes_def crlf_length)
  moreover have "get_range (length ?h + 4) (length ?h + 4 + length body) (http_message meth path hs body) = Some body"
    by (simp add: get_range_def http_message_def crlf_bytes)
  moreover have "get_range 0 (length ?h) (http_message meth path hs body) = Some ?h"
    by (simp add: get_range_def http_message_def)
  moreover have "?ls = (meth @ '' '' @ path @ '' HTTP/1.1'') # map (\<lambda>(name, v). name @ '': '' @ v) hs"
    by (simp add: http_lines_def)
  ultimately show ?thesis
    by (auto simp: parse_http_request_def from_utf8_Some_iff Let_def simp del: append_Cons append_Nil)
qed

text \<open>
  C29. However a request is cut into the pieces that arrive, the development backend reads the method, the
  path and the body that were sent, and what follows on the stream is not read. The request must fit in 16
  KiB, announce the length of its body and have printable words and names.
\<close>

theorem http_request_read:
  assumes "sendable meth path hs body" "concat chunks = http_message meth path hs body" "[] \<notin> set chunks"
    "length (http_message meth path hs body) \<le> 16384"
  shows "read_http_request [] (map Inr chunks @ later) = Inr \<lparr>mh_method = meth, mh_path = path, mh_body = body\<rparr>"
proof -
  have short: "length (http_message meth path hs body) \<le> max_request_bytes"
    using assms(4) by (simp add: max_request_bytes_def)
  show ?thesis
    by (subst read_framed [OF sendable_framed [OF assms(1) short] _ assms(3)])
      (simp_all add: assms(2) parse_sendable [OF assms(1) short])
qed

definition mock_headers :: "(string \<times> string) list" where
  "mock_headers = [(''Host'', ''mock''), (''content-length'', ''2'')]"

lemma mock_headers_sendable:
  assumes "printable meth" "meth \<noteq> []" "printable path" "path \<noteq> []" "CHR ''?'' \<notin> set path"
  shows "sendable meth path mock_headers ''ab''"
proof -
  have two: "show_nat (Suc (Suc 0)) = ''2''" by code_simp
  have "eq_ignore_ascii_case ''content-length'' ''content-length''" "\<not> eq_ignore_ascii_case ''Host'' ''content-length''"
    by (simp_all add: eq_ignore_ascii_case_def)
  with assms show ?thesis
    by (simp add: sendable_def mock_headers_def code_of_def carriage_return_def line_feed_def two)
      (simp add: char_of_def)
qed

lemma mock_message_length:
  "length (http_message meth path mock_headers ''ab'') = length meth + length path + 47"
  by (simp add: http_message_def http_lines_def mock_headers_def crlf_length)

theorem http_request_read_witness:
  "\<exists>first second. first \<noteq> [] \<and> second \<noteq> [] \<and>
     first @ second = http_message ''POST'' ''/x'' mock_headers ''ab'' \<and>
     read_http_request [] [Inr first, Inr second, Inl ''reset''] = Inr \<lparr>mh_method = ''POST'', mh_path = ''/x'', mh_body = ''ab''\<rparr>"
proof -
  let ?m = "http_message ''POST'' ''/x'' mock_headers ''ab''"
  have size: "length ?m = 53" by (simp add: mock_message_length)
  then have "take 20 ?m \<noteq> []" "drop 20 ?m \<noteq> []" by auto
  moreover have "sendable ''POST'' ''/x'' mock_headers ''ab''"
    by (rule mock_headers_sendable) (simp_all add: code_of_def)
  ultimately have "read_http_request [] (map Inr [take 20 ?m, drop 20 ?m] @ [Inl ''reset'']) =
      Inr \<lparr>mh_method = ''POST'', mh_path = ''/x'', mh_body = ''ab''\<rparr>"
    by (intro http_request_read [where hs = mock_headers]) (simp_all add: size)
  then show ?thesis using \<open>take 20 ?m \<noteq> []\<close> \<open>drop 20 ?m \<noteq> []\<close>
    by (intro exI [of _ "take 20 ?m"] exI [of _ "drop 20 ?m"]) simp
qed

lemma cut_body_panics:
  assumes "sendable meth path hs body" "concat chunks @ missing = http_message meth path hs body" "missing \<noteq> []"
    "length missing \<le> length body" "[] \<notin> set chunks" "length (http_message meth path hs body) \<le> 16384"
  shows "read_http_request [] (map Inr chunks) = Inl slice_panic"
proof (rule read_cut)
  show "framed (http_message meth path hs body) (length (http_head (http_lines meth path hs))) (length body)"
    using assms(1,6) by (intro sendable_framed) (simp_all add: max_request_bytes_def)
  have "length (concat chunks) + length missing = length (http_message meth path hs body)"
    using arg_cong [OF assms(2), of length] by simp
  then show "length (http_head (http_lines meth path hs)) + 4 \<le> length ([] @ concat chunks)"
    using assms(4) by (simp add: http_message_def crlf_length)
qed (use assms in simp_all)

section \<open>The node admits what the mock issues\<close>

text \<open>The claims as \<open>node-core\<close> reads them: the fields that the mock does not write are absent.\<close>

definition node_claims_of_mock :: "mock_claims \<Rightarrow> client_token_claims" where
  "node_claims_of_mock c =
     \<lparr>ct_node_id = mq_node_id c, ct_user_id = mq_user_id c, ct_device_id = mq_device_id c,
      ct_game_id = mq_game_id c, ct_game_key = None, ct_region_id = None, ct_business = mq_business c,
      ct_intent_id = mq_intent_id c, ct_route_policy_hash = None, ct_route_policy_id = None, ct_route = mq_route c,
      ct_expires_at = mq_expires_at c, ct_issued_at = mq_issued_at c, ct_nonce = mq_nonce c\<rparr>"

definition mock_claims_readable ::
  "(mock_claims \<Rightarrow> (string, bytes) result) \<Rightarrow> (bytes \<Rightarrow> client_token_claims option) \<Rightarrow> bool"
where
  "mock_claims_readable to_json read_claims \<longleftrightarrow>
     (\<forall>c body. to_json c = Inr body \<longrightarrow> read_claims body = Some (node_claims_of_mock c))"

text \<open>The probe that shows the token of a candidate.\<close>

definition mock_probe :: "mock_request \<Rightarrow> mock_candidate \<Rightarrow> client_probe_request" where
  "mock_probe r k =
     \<lparr>pq_client_nonce = None, pq_user_id = Some (mr_user_id r), pq_device_id = Some (mr_device_id r),
      pq_game_id = Some (mr_game_id r), pq_region_id = None, pq_transport = Some ''udp'',
      pq_token = Some (mc_token (mn_credential k)), pq_route_policy = None\<rparr>"

lemma mock_start_Inr:
  assumes "mock_start c = Inr st"
  shows "trim (mk_node_secret st) \<noteq> []" "trim (mk_target_addr st) \<noteq> []" "1 \<le> mk_ttl_sec st"
  using assms by (auto simp: mock_start_def mock_validate_cli_def split: if_splits)

lemma sign_client_token_total:
  assumes "to_json c = Inr body" "hmac_total cx"
  shows "\<exists>token. sign_client_token cx to_json c secret = Inr token"
proof -
  have "\<exists>mac. hmac_sha256 cx secret m = Some mac" for m
    using assms(2) by (simp add: hmac_total_def)
  then show ?thesis using assms(1) by (simp add: sign_client_token_def Let_def)
qed

lemma mock_token_admitted:
  assumes "mock_start c = Inr st" "b64url_roundtrip cx" "b64url_printable cx"
    "mock_claims_readable to_json read_claims"
    "sign_client_token cx to_json (mock_claims_of r issued st) (mk_node_secret st) = Inr token"
    "mock_validate_request r = Inr ()" "now < issued + mk_ttl_sec st" "mc_token (mn_credential k) = token"
  shows "verify_probe_token cx read_claims (mock_probe r k) (Some (mk_node_id st)) (Some (mk_node_secret st)) now =
    AuthValid (node_claims_of_mock (mock_claims_of r issued st))"
proof -
  let ?claims = "node_claims_of_mock (mock_claims_of r issued st)"
  have "trim (mr_device_id r) \<noteq> []"
    using assms(6) by (auto simp: mock_validate_request_def split: if_splits)
  then have "acceptable_claims (Some (mk_node_id st)) now ?claims"
    using assms(7) mock_start_Inr(2) [OF assms(1)]
    by (simp add: acceptable_claims_def node_claims_of_mock_def mock_claims_of_def mock_route_def)
  then have "verify_token cx read_claims token (Some (mk_node_id st)) (mk_node_secret st) now = Inr ?claims"
    using assms(4) by (intro verify_signed [OF assms(2,5)]) (auto simp: mock_claims_readable_def)
  moreover have "trim token = token" "token \<noteq> []"
    using trim_token [OF assms(3,5)] by simp_all
  ultimately show ?thesis
    using mock_start_Inr(1) [OF assms(1)] assms(8)
    by (simp add: verify_probe_token_def mock_probe_def match_request_claims_def node_claims_of_mock_def
        mock_claims_of_def)
qed

text \<open>
  C30. The development backend serves a node: a well-formed request for an intent, however it is cut on the
  wire, is answered with status 200 and one candidate, and while the intent lasts the node with the id and
  the secret of the command line admits the probe that shows the candidate's token.
\<close>

theorem mock_serves_admitted_intent:
  assumes "mock_start c = Inr st" "b64url_roundtrip cx" "b64url_printable cx" "hmac_total cx"
    "mock_claims_readable to_json read_claims" "to_json (mock_claims_of r issued st) = Inr written"
    "sendable ''POST'' ''/api/client/v1/connect-intent'' hs body"
    "concat chunks = http_message ''POST'' ''/api/client/v1/connect-intent'' hs body" "[] \<notin> set chunks"
    "length (http_message ''POST'' ''/api/client/v1/connect-intent'' hs body) \<le> 16384"
    "of_json body = Some r" "mock_validate_request r = Inr ()" "\<And>reply. \<exists>written. pretty reply = Inr written"
    "now < issued + mk_ttl_sec st"
  shows "\<exists>i k. handle_mock_connection cx to_json of_json pretty issued (map Inr chunks @ later) st =
      mock_json_response pretty ''200 OK'' (MockIntent i) \<and>
    mi_candidates i = [k] \<and> mn_node_id k = mk_node_id st \<and> mn_host k = mk_node_host st \<and>
    verify_probe_token cx read_claims (mock_probe r k) (Some (mk_node_id st)) (Some (mk_node_secret st)) now =
      AuthValid (node_claims_of_mock (mock_claims_of r issued st))"
proof -
  have "length (http_message ''POST'' ''/api/client/v1/connect-intent'' hs body) \<le> max_request_bytes"
    using assms(10) by (simp add: max_request_bytes_def)
  then have reading: "read_http_request [] (map Inr chunks @ later) =
      Inr \<lparr>mh_method = ''POST'', mh_path = ''/api/client/v1/connect-intent'', mh_body = body\<rparr>"
    by (subst read_framed [OF sendable_framed [OF assms(7)] _ assms(9)])
      (simp_all add: assms(8) parse_sendable [OF assms(7)])
  obtain token where token: "sign_client_token cx to_json (mock_claims_of r issued st) (mk_node_secret st) = Inr token"
    using sign_client_token_total [where to_json = to_json, OF assms(6,4)] by blast
  obtain i k where i: "build_connect_intent cx to_json issued r st = Inr i" "mi_candidates i = [k]"
    "mn_node_id k = mk_node_id st" "mn_host k = mk_node_host st" "mc_token (mn_credential k) = token"
    using assms(12) token by (simp add: build_connect_intent_def Let_def)
  obtain answer where answer: "mock_json_response pretty ''200 OK'' (MockIntent i) = Inr answer"
  proof -
    obtain json_text where "pretty (MockIntent i) = Inr json_text" using assms(13) by blast
    then show ?thesis using that by (simp add: mock_json_response_def)
  qed
  have "handle_mock_connection cx to_json of_json pretty issued (map Inr chunks @ later) st =
      mock_json_response pretty ''200 OK'' (MockIntent i)"
    unfolding handle_mock_connection_def reading
    using assms(11) i(1) answer by (simp add: route_request_def)
  with i mock_token_admitted [OF assms(1-3,5) token assms(12,14) i(5)] show ?thesis by blast
qed

definition mock_demo_cli :: mock_cli where
  "mock_demo_cli =
     \<lparr>mk_node_id = 7, mk_node_secret = ''key'', mk_node_host = ''h'', mk_node_port = 9, mk_target_addr = ''h:1'',
      mk_area = ''a'', mk_tag = ''t'', mk_ttl_sec = 60, mk_listen = SockV4 0 18080\<rparr>"

definition mock_demo_state :: mock_state where
  "mock_demo_state =
     \<lparr>mk_node_id = 7, mk_node_secret = ''key'', mk_node_host = ''h'', mk_node_port = 9, mk_target_addr = ''h:1'',
      mk_area = ''a'', mk_tag = ''t'', mk_ttl_sec = 60\<rparr>"

definition mock_demo_request :: mock_request where
  "mock_demo_request =
     \<lparr>mr_user_id = 5, mr_device_id = ''d'', mr_game_id = 1, mr_platform = None, mr_client_isp = None,
      mr_client_ip = None, mr_bandwidth_quality = None\<rparr>"

definition mock_demo_json :: "mock_claims \<Rightarrow> (string, bytes) result" where
  "mock_demo_json c = (if c = mock_claims_of mock_demo_request 100 mock_demo_state then Inr ''{}'' else Inl ''unwritable'')"

definition mock_demo_claims :: "bytes \<Rightarrow> client_token_claims option" where
  "mock_demo_claims b = Some (node_claims_of_mock (mock_claims_of mock_demo_request 100 mock_demo_state))"

theorem mock_serves_admitted_intent_witness:
  "\<exists>i k. handle_mock_connection demo_crypto mock_demo_json (\<lambda>_. Some mock_demo_request) (\<lambda>_. Inr ''[]'') 100
      [Inr (http_message ''POST'' ''/api/client/v1/connect-intent'' mock_headers ''ab'')] mock_demo_state =
      mock_json_response (\<lambda>_. Inr ''[]'') ''200 OK'' (MockIntent i) \<and>
    mi_candidates i = [k] \<and>
    verify_probe_token demo_crypto mock_demo_claims (mock_probe mock_demo_request k) (Some 7) (Some ''key'') 120 =
      AuthValid (node_claims_of_mock (mock_claims_of mock_demo_request 100 mock_demo_state))"
proof -
  let ?path = "''/api/client/v1/connect-intent''"
  have printables: "printable ''key''" "printable ''h''" "printable ''h:1''" "printable ''d''"
    by (simp_all add: code_of_def)
  have started: "mock_start mock_demo_cli = Inr mock_demo_state"
    using printables
    by (simp add: mock_start_def mock_validate_cli_def mock_demo_cli_def mock_demo_state_def max_def word_le_nat_alt)
  have "mock_claims_readable mock_demo_json mock_demo_claims"
    by (simp add: mock_claims_readable_def mock_demo_json_def mock_demo_claims_def)
  moreover have "mock_demo_json (mock_claims_of mock_demo_request 100 mock_demo_state) = Inr ''{}''"
    by (simp add: mock_demo_json_def)
  moreover have "sendable ''POST'' ?path mock_headers ''ab''"
    by (rule mock_headers_sendable) (simp_all add: code_of_def)
  moreover have "mock_validate_request mock_demo_request = Inr ()"
    using printables(4) by (simp add: mock_validate_request_def mock_demo_request_def)
  moreover have "http_message ''POST'' ?path mock_headers ''ab'' \<noteq> []"
    using mock_message_length [of "''POST''" ?path] by auto
  moreover have "b64url_printable demo_crypto"
    by (simp add: b64url_printable_def demo_crypto_def)
  ultimately show ?thesis
    using mock_serves_admitted_intent [where chunks = "[http_message ''POST'' ?path mock_headers ''ab'']" and
        body = "''ab''" and hs = mock_headers and later = "[]" and of_json = "\<lambda>_. Some mock_demo_request" and
        pretty = "\<lambda>_. Inr ''[]''" and now = 120 and issued = 100 and r = mock_demo_request and
        cx = demo_crypto and to_json = mock_demo_json and read_claims = mock_demo_claims, OF started]
    by (simp add: mock_message_length mock_demo_state_def word_less_nat_alt) blast
qed

end
