(* ===== verification/Spec2Isabelle.thy ===== *)
theory Spec2Isabelle
  imports Example_Ticket Example_Catalog Example_Business Example_Service Example_Operations Example_Health
    Api_Users Backend_Mock
begin

text \<open>
  xaccel is a game accelerator. Its \<open>node-core\<close> runs on relay nodes: clients send it probes,
  session data and binary tunnel frames over UDP, TCP and QUIC, and it relays their payloads to
  the upstream a route policy allows. Its \<open>control-api\<close> issues the tokens and policies, and a
  node fetches configuration and tasks from it. A small \<open>backend-mock\<close> stands in for the API in
  development. This library models the programs, and how they work together.

  \<^bold>\<open>How the programs are modelled.\<close> A Rust struct is a record, an enum a datatype, \<open>u16\<close> to
  \<open>u128\<close> are words and wrap as the code does, a \<open>HashMap\<close> is an association list with distinct
  keys, a \<open>String\<close> or \<open>Vec<u8>\<close> a list of bytes, and \<open>Result\<close> is \<open>result\<close>, with every early
  return a branch. A handler takes the state it locks and returns it updated; each reading of
  the clock is a separate argument (\<open>clk 0\<close>, \<open>clk 1\<close>, in the order the code reads it), so no
  property assumes that time stands still or runs forward. Loops are structural recursions, or
  have a termination proof; the one loop that waits for others is a \<open>partial_function\<close> whose
  \<open>None\<close> is a wait without end, which \<open>upgrade_wait_ends\<close> excludes. What a handler sends
  upstream is a trace of relays, which the properties speak about.

  \<^bold>\<open>Parameters.\<close> Code that is not in the repository is an argument: HMAC, SHA-256 and base64
  (\<open>crypto\<close>), the JSON and TOML codecs, DNS, sockets, the HTTP client, the shell, the file
  system and MySQL. What is assumed of them is named (\<open>b64url_roundtrip\<close>,
  \<open>hmac_32\<close>, \<open>claims_readable\<close>, ...) and \<open>demo_crypto\<close> satisfies it.

  \<^bold>\<open>The standard library.\<close> \<open>Prelude\<close> has the result type, the mutex and the lemma collections.
  \<open>Rust_Text\<close>, \<open>Rust_Numbers\<close> and \<open>Rust_Net\<close> model what the source uses of \<open>str\<close>, of number
  parsing and printing, and of \<open>std::net\<close>'s address grammar; \<open>Codecs\<close> has the parameters.

  \<^bold>\<open>node-core.\<close> \<open>Route_Policy\<close> (\<open>route_policy.rs\<close>): which target a policy admits.
  \<open>Session_Store\<close> (\<open>session_store.rs\<close>): the session table, as a map behind the locale
  \<open>session_table\<close>. \<open>Runtime_Stats\<close> and \<open>Runtime_State\<close> (\<open>state.rs\<close>): counters, snapshots and
  the revisioned network configuration. \<open>Node_Config\<close> (\<open>config.rs\<close>), \<open>Identity\<close>
  (\<open>identity.rs\<close>), \<open>Auth\<close> (\<open>auth.rs\<close>). \<open>Tunnel_Frame\<close>, \<open>Session_Target\<close> and \<open>Session\<close>
  (\<open>session.rs\<close>): the frame codec, targets and relays, and the handlers; \<open>Session_Safety\<close> has
  their invariants. \<open>Listener\<close> (\<open>listener.rs\<close>, \<open>quic_tunnel.rs\<close>, \<open>health.rs\<close>): one packet, TCP
  connection, QUIC stream or health request. \<open>Node\<close>: the step relation \<open>node_step\<close> of all of
  these and its runs. \<open>Control_Plane\<close> (\<open>control_plane.rs\<close>): the signed exchanges. \<open>Node_Main\<close>
  (\<open>main.rs\<close>, \<open>cli.rs\<close>): the start of the process.

  \<^bold>\<open>control-api\<close> (\<open>src/main.rs\<close>, with the tables of \<open>db/schema.sql\<close>). \<open>Api_Text\<close>: errors, the
  normalisers of request fields, closed sets of words, quoting for the shell. \<open>Api_Auth\<close>: admin
  sessions and roles, bearer tokens, signed node requests, passwords, install commands.
  \<open>Api_Connect\<close>: route policies and the issue of tokens and tickets, over any database.
  \<open>Api_Database\<close>: tables as lists of rows, and the statements on them; MySQL's faults, its clock
  and its collation are parameters. \<open>Api_Tasks\<close>, \<open>Api_Nodes\<close>, \<open>Api_Node_Sync\<close>: remote tasks, the
  administration of nodes, and bootstrap, handshake, report and configuration. \<open>Api_Service\<close>
  puts the node endpoints together: \<open>serve\<close> answers one request and \<open>served\<close> is a run of any
  requests; \<open>Api_Task_Log\<close> and \<open>Api_Node_Log\<close> have what holds of all runs. \<open>Api_Catalog\<close> and
  \<open>Api_Catalog_Store\<close>: games, categories, regions and route rules, their normal forms and the
  statements that write them; \<open>Api_Catalog_Log\<close>: what each of their operations keeps, and
  synchronisation and deletion as a whole. \<open>Api_Catalog_List\<close>: their lists and the snapshot the business
  backend reads. \<open>Api_Business\<close>: the endpoints of the business backend with the log they write, and
  \<open>Api_Business_Log\<close>, what it shows. \<open>Api_Catalog_Run\<close>: what a start of the service seeds, and the
  runs of everything that writes the catalogue, the deletions of nodes included. \<open>Api_Candidates\<close>: the scheduler's query and the record of intents on these tables. \<open>Api_Labels\<close>:
  the Chinese texts shown to administrators, as their UTF-8 bytes. \<open>Api_Users\<close>: accounts and
  login. \<open>Api_Settings\<close>: download sources and the business token. \<open>Api_Ssh\<close> and
  \<open>Api_Operations\<close>: the actions run on a node over SSH, from the stored credential to the task that
  records the outcome. \<open>Api_Health\<close>: the alerts about nodes, the
  statements that reconcile them with what is wrong, and \<open>Api_Health_Log\<close>, their runs.

  \<^bold>\<open>backend-mock.\<close> \<open>Backend_Mock\<close> (\<open>backend-mock/src/main.rs\<close>): a development backend that issues
  intents for one node, from the bytes of an HTTP request to the answer.

  \<^bold>\<open>The two together.\<close> \<open>Interop\<close> composes them: what a node signs the API authenticates, and
  what the API issues a node admits. \<open>Interop_Nodes\<close> follows a node from its bootstrap to a
  configuration edited for it. The theories named \<open>Example\<close> hold a concrete node, sale,
  catalogue, log and runs of the API, at which the properties are instantiated.

  \<^bold>\<open>What is shown.\<close> Of node-core: a relay is for the live session its message names, whose token the node verified, and goes where
  its policy allows, which is stated without the functions that decide it; a relay waits and reads no
  more than its bounds; sessions rest on tokens and are never replaced; the frame parser
  never reads outside the datagram and inverts the encoder; the session store refines a map;
  remote configurations converge and are persisted before they take effect; a task can only
  restart the node. Of control-api: exactly which requests are authenticated; no ticket without
  every gate, and each for a node in service and on record; the scheduler takes the best
  candidate; a node's task queue is served in order and no task twice; a bootstrap token is used
  once; revisions grow; the catalogue stays well-formed, synchronising twice is synchronising
  once, what was synchronised is what the snapshot shows, and a deletion removes what it names;
  every authorised request for a ticket is logged as it ended; accounts stay well formed and an administrator
  that asks to disable or demote
  its own account is refused; an SSH action is run with the password stored last, its wait ends, and its
  outcome is recorded; a reconciliation of alerts leaves exactly what is wrong and respects what
  administrators decided. Of both: what a node signs the API authenticates,
  a ticket is admitted by its node, an edit of a node reaches it; the development backend reads a
  request however it is cut on the wire, and its node admits the token it answers with.

  \<^bold>\<open>Interfaces.\<close> \<open>session_table\<close> (registering and accounting sessions), \<open>counter\<close>,
  \<open>volume_counter\<close> and \<open>outcome_log\<close> (statistics), \<open>frame_codec\<close> (an encoder and its decoder),
  \<open>normaliser\<close> (request fields), \<open>bearer_gate\<close> (token checks), \<open>log_invariant\<close> (facts of all runs of the node endpoints) and \<open>upsert_table\<close> (a table with a unique
  key, written by upserts) are locales, each
  interpreted on the model's own definitions.

  \<^bold>\<open>Not modelled.\<close> A handler of a node is one atomic step, although node-core awaits between counting
  a packet and relaying it. In control-api a transaction is one step and other requests may run
  between the transactions of a request; left out are the HTTP router, the dashboards, the
  connectivity and system diagnostics, columns that only record times
  (\<open>created_at\<close>, \<open>updated_at\<close>), the inside of the SSH and curl processes. Not modelled
  at all: TLS, sockets and the loops that spawn tasks, clap and logging, the JSON and TOML
  syntax, and the command line of \<open>client-probe\<close> beyond its frame codec.
\<close>

section \<open>Runs of a node\<close>

text \<open>
  C1. Every relay a node performs, in a step from any state of any run, serves a message that asks
  for it: the message names a session of the node's table, at that moment unexpired and
  authenticated, and carries the payload that is relayed. The session rests on a token the node
  verified against its own secret: it has the identity of the token's claims and, where they fix a
  policy hash, a policy with that hash. The relay goes to the target of the message, which the
  session's policy must allow, or to the address the session is bound to. The run may
  interleave packets, TCP lines, QUIC streams, health requests, listeners and remote
  configurations in any order.
\<close>

theorem relays_are_authorised:
  assumes "node_run w (runtime_state_new config identity t0) n es st"
    and "node_step w st es' st'" and "(dns, now, message, p, a, payload, ms) \<in> set es'"
  shows "\<exists>sid request u token key claims at.
    relay_asked w message = Some (sid, payload, request) \<and>
    lookup_session (rs_sessions st) sid = Some u \<and> us_session_id u = sid \<and>
    now < us_expires_at u \<and> us_authenticated u \<and>
    id_node_secret identity = Some key \<and>
    verify_token (w_crypto w) (claims_of_json (w_readers w)) token (id_node_id identity) key at =
      Inr claims \<and> bound_by w claims (snapshot u) \<and>
    relay_permitted dns request (snapshot u) (p, a, payload, ms)"
proof -
  obtain sid request u where asked: "relay_asked w message = Some (sid, payload, request)"
    and u: "lookup_session (rs_sessions st) sid = Some u" "now < us_expires_at u"
    and permitted: "relay_permitted dns request (snapshot u) (p, a, payload, ms)"
    using node_step_relays [OF assms(2,3)] by (auto simp: relayed_for_def)
  have "node_inv w st" "rs_identity st = identity" using node_run_inv [OF assms(1)] by simp_all
  then have justified: "session_justified w identity (snapshot u)" "us_session_id u = sid"
    using u(1) by (auto simp: node_inv_def store_usable_def store_ok_def)
  have auth: "sn_authenticated (snapshot u)"
    using permitted unfolding relay_permitted_def by blast
  then obtain token key claims at where "id_node_secret identity = Some key"
    "verify_token (w_crypto w) (claims_of_json (w_readers w)) token (id_node_id identity) key at =
      Inr claims" "bound_by w claims (snapshot u)"
    using justified(1) unfolding session_justified_def by (simp only: if_True) blast
  moreover have "us_authenticated u" using auth by (simp add: snapshot_def)
  ultimately show ?thesis using asked u permitted justified(2) by blast
qed

theorem relays_are_authorised_witness:
  "\<exists>st request token key claims at.
     node_run example_world example_start 1 [] st \<and>
     relay_asked example_world example_frame = Some (example_session_id, ''hi'', request) \<and>
     lookup_session (rs_sessions st) example_session_id = Some example_session \<and>
     id_node_secret example_identity = Some key \<and>
     verify_token demo_crypto (\<lambda>_. Some example_claims) token (Some 7) key at = Inr claims \<and>
     bound_by example_world claims (snapshot example_session) \<and>
     relay_permitted example_dns request (snapshot example_session) example_relay"
proof -
  obtain st es st' where run: "node_run example_world example_start 1 [] st"
    and found: "lookup_session (rs_sessions st) example_session_id = Some example_session"
    and step: "node_step example_world st es st'"
    and es: "es = [(example_dns, 1000, example_frame, example_relay)]"
    using example_run_relay by blast
  have mem: "(example_dns, 1000, example_frame, RelayUdp, example_upstream, ''hi'', 200) \<in> set es"
    by (simp add: es example_relay_def)
  obtain sid request u token key claims at where
    asked: "relay_asked example_world example_frame = Some (sid, ''hi'', request)"
    and u: "lookup_session (rs_sessions st) sid = Some u"
    and token: "id_node_secret example_identity = Some key"
      "verify_token demo_crypto (\<lambda>_. Some example_claims) token (Some 7) key at = Inr claims"
      "bound_by example_world claims (snapshot u)"
      "relay_permitted example_dns request (snapshot u) (RelayUdp, example_upstream, ''hi'', 200)"
    using relays_are_authorised [OF run [unfolded example_start_def] step mem] by auto
  have "sid = example_session_id"
    using asked by (simp add: relay_asked_def example_frame_message) (simp add: example_frame_request_def)
  then have sid: "sid = example_session_id" "u = example_session" using u found by simp_all
  show ?thesis
    unfolding example_relay_def using run asked [unfolded sid] token [unfolded sid] found by blast
qed

text \<open>
  C2. Every session a node holds after any run was either admitted on a token verified against
  the node's own secret, whose identity and policy it carries, or is unauthenticated and then
  has neither a bound address nor a policy.
\<close>

theorem sessions_rest_on_tokens:
  assumes "node_run w (runtime_state_new config identity t0) n es st"
    and "lookup_session (rs_sessions st) sid = Some s"
  shows "us_session_id s = sid \<and> session_justified w identity (snapshot s)"
proof -
  have "node_inv w st" "rs_identity st = identity" using node_run_inv [OF assms(1)] by simp_all
  then show ?thesis
    using assms(2) by (auto simp: node_inv_def store_usable_def store_ok_def)
qed

theorem sessions_rest_on_tokens_witness:
  "session_justified example_world example_identity (snapshot example_session)"
proof -
  obtain st where "node_run example_world example_start 1 [] st"
    "lookup_session (rs_sessions st) example_session_id = Some example_session"
    by (rule example_run_open)
  then show ?thesis
    unfolding example_start_def using sessions_rest_on_tokens by blast
qed

text \<open>
  C3. Session ids are fresh: as long as fewer than \<open>2 ^ 64\<close> steps were made, no step, a new probe
  included, replaces a session under an id in use by a different one; it may only expire or
  account traffic. So a client cannot be handed another client's session.
\<close>

theorem sessions_never_replaced:
  assumes "node_run w (runtime_state_new config identity t0) n es st" "n + 1 < 2 ^ 64"
    and "node_step w st es' st'" "lookup_session (rs_sessions st) sid = Some s"
    and "lookup_session (rs_sessions st') sid = Some s'"
  shows "snapshot s' = snapshot s"
proof -
  have inv: "node_inv w st" using node_run_inv [OF assms(1)] by simp
  have n: "n < 2 ^ 64" using assms(2) by simp
  note numbers = node_run_numbers [OF assms(1) n]
  have u: "store_usable (rs_sessions st)" using inv by (simp add: node_inv_def)
  show ?thesis
    by (rule effect_keeps_session [OF inv _ _ node_step_effect [OF assms(3)] assms(4,5)])
      (use numbers assms(2) in simp_all)
qed

theorem sessions_never_replaced_witness:
  "\<exists>st st' s'. node_step example_world st [] st' \<and>
     lookup_session (rs_sessions st') example_session_id = Some s' \<and>
     snapshot s' = snapshot example_session"
proof -
  obtain st where st: "node_run example_world (runtime_state_new example_config example_identity 900) 1 [] st"
    "lookup_session (rs_sessions st) example_session_id = Some example_session"
    unfolding example_start_def [symmetric] by (rule example_run_open)
  let ?st = "update_stats record_tcp_open (update_stats record_tcp_accept st)"
  have step: "node_step example_world st [] ?st" by (rule node_step.tcp_open)
  have found: "lookup_session (rs_sessions ?st) example_session_id = Some example_session"
    using st(2) by simp
  have "snapshot example_session = snapshot example_session"
    by (rule sessions_never_replaced [OF st(1) _ step st(2) found]) simp
  with step found show ?thesis by blast
qed

section \<open>The two programs\<close>

text \<open>
  C4. A ticket is worth what it says. A ticket the control API issues for a business request with a
  route policy opens an authenticated session on the node it names, for the user and device of
  the request, bound to exactly the normal form of the policy of the request: while the ticket
  lasts, the node accepts its token and finds that the policy has the hash the token carries.
\<close>

theorem ticket_admitted:
  assumes "fst (business_connect_intent cx policy_json to_json (intent_tables same my tie seen cat db) intents
      sync checked_at now ttl hs r) = Inr k"
    and "bi_route_policy r = Some p"
    and "b64url_roundtrip cx" "b64url_printable cx"
      "claims_readable to_json (claims_of_json (w_readers w))"
    and "w_crypto w = cx" "json_of_policy (w_writers w) = policy_json"
    and "node_of_ticket (table_secret seen) k (rs_identity st)" "now_unix (clk 0) < now + ttl"
    and "build_probe_response w clk st transport peer (ticket_probe k nonce) = (reply, st', relays)"
  shows "\<exists>s policy. rs_sessions st' = register_udp_session (now_unix (clk 3)) s (rs_sessions st) \<and>
    us_authenticated s \<and> us_user_id s = Some (bi_user_id r) \<and> us_device_id s = Some (bi_device_id r) \<and>
    normalize_route_policy p = Inr policy \<and> us_route_policy s = Some policy \<and> us_route_target_addr s = None"
  by (rule ticket_admitted_aux [OF assms(1-5) tables_per_session_rows assms(6-10)]) blast

theorem ticket_admitted_witness:
  "\<exists>k reply st' relays s. build_probe_response sale_world example_clock example_start Udp example_peer
      (ticket_probe k None) = (reply, st', relays) \<and>
    rs_sessions st' = register_udp_session 1000 s empty_store \<and>
    us_authenticated s \<and> us_user_id s = Some 42 \<and> us_route_policy s = Some example_policy"
proof -
  obtain k where k: "fst (business_connect_intent demo_crypto (\<lambda>_. Inr ''policy'') sale_to_json sale_database []
      (Some ''sync'') 1000 1000 60 sale_headers sale_request) = Inr k"
    "node_of_ticket (table_secret sale_db) k example_identity"
    by (rule sale_issued)
  obtain reply st' relays where p: "build_probe_response sale_world example_clock example_start Udp example_peer
      (ticket_probe k None) = (reply, st', relays)" by (rule prod_cases3)
  have r: "bi_route_policy sale_request = Some example_policy" "bi_user_id sale_request = 42"
    by (simp_all add: sale_request_def)
  have "node_of_ticket (table_secret sale_db) k (rs_identity example_start)"
    "now_unix (example_clock 0) < 1000 + 60"
    using k(2) by (simp_all add: word_less_nat_alt)
  from ticket_admitted [OF k(1) r(1) sale_laws(1,2) _ _ _ this p] obtain s policy where
    "rs_sessions st' = register_udp_session 1000 s empty_store" "us_authenticated s"
    "us_user_id s = Some 42" "normalize_route_policy example_policy = Inr policy"
    "us_route_policy s = Some policy"
    using sale_laws(3) r(2) by auto
  with p sale_policy show ?thesis by auto
qed

text \<open>
  No ticket without the gates. Whenever the business endpoint issues a ticket, the caller showed
  the sync token, the entitlement and the device were confirmed, the entitlement had not
  expired, the risk was not blocked, user, device and game were given, and the ticket is for a
  row of the database, signed with that node's secret, with the requested life time.
\<close>

theorem ticket_needs_every_gate:
  assumes "fst (business_connect_intent cx policy_json to_json db store sync checked_at now ttl hs r) = Inr k"
  shows "require_business_sync sync hs = Inr () \<and> bi_entitlement_verified r = Some True \<and>
    bi_device_verified r = Some True \<and> (\<forall>e. bi_entitlement_expires_at r = Some e \<longrightarrow> checked_at < e) \<and>
    (\<forall>risk. bi_risk_level r = Some risk \<longrightarrow> trim risk \<noteq> ''blocked'') \<and>
    bi_user_id r \<noteq> 0 \<and> trim (bi_device_id r) \<noteq> [] \<and> bi_game_id r \<noteq> 0 \<and>
    ck_expires_at (ak_credential k) = now + ttl \<and>
    (\<exists>(row :: candidate_row) (claims :: api_token_claims). ak_node_id k = cw_node_id row \<and> at_node_id claims = cw_node_id row \<and>
       at_user_id claims = bi_user_id r \<and> at_expires_at claims = now + ttl \<and>
       sign_client_token cx to_json claims (cw_node_secret row) = Inr (ck_token (ak_credential k)))"
  using assms
proof (rule business_ticket_cases)
  fix route_opt row
  assume gates: "require_business_sync sync hs = Inr ()"
      "validate_business_connect_intent_request cx policy_json checked_at r = Inr ()"
    and row: "sign_client_token cx to_json
       (token_claims_of now ttl (to_connect_intent_request r) (Some (auth_context r)) row
          (Option.bind route_opt br_route_policy)) (cw_node_secret row) =
       Inr (ck_token (ak_credential k))" "ak_node_id k = cw_node_id row"
      "ck_expires_at (ak_credential k) = now + ttl"
  have "\<exists>claims. at_node_id claims = cw_node_id row \<and>
       at_user_id claims = bi_user_id r \<and> at_expires_at claims = now + ttl \<and>
       sign_client_token cx to_json claims (cw_node_secret row) = Inr (ck_token (ak_credential k))"
    by (rule exI [where x = "token_claims_of now ttl (to_connect_intent_request r) (Some (auth_context r)) row
          (Option.bind route_opt br_route_policy)"])
      (use row in \<open>simp add: token_claims_of_def to_connect_intent_request_def\<close>)
  then obtain claims where c: "at_node_id claims = cw_node_id row" "at_user_id claims = bi_user_id r"
    "at_expires_at claims = now + ttl"
    "sign_client_token cx to_json claims (cw_node_secret row) = Inr (ck_token (ak_credential k))"
    by blast
  show ?thesis
    by (intro conjI exI [where x = row] exI [where x = claims])
      (use gates(1) row business_request_valid [OF gates(2)] c in simp_all)
qed

theorem ticket_needs_every_gate_witness:
  "\<exists>k. fst (business_connect_intent demo_crypto (\<lambda>_. Inr ''policy'') sale_to_json sale_database []
      (Some ''sync'') 1000 1000 60 sale_headers sale_request) = Inr k \<and>
    ck_expires_at (ak_credential k) = 1060 \<and> bi_entitlement_verified sale_request = Some True"
proof -
  obtain k where k: "fst (business_connect_intent demo_crypto (\<lambda>_. Inr ''policy'') sale_to_json sale_database []
      (Some ''sync'') 1000 1000 60 sale_headers sale_request) = Inr k"
    by (rule sale_issued)
  from k ticket_needs_every_gate [OF k] show ?thesis by auto
qed

text \<open>
  C20. What a node signs, the control API authenticates: any request of any of the node's exchanges,
  with the nonce and the headers the node makes, is authenticated as that node's for the same
  verb, path and body, while the clocks differ by at most five minutes.
\<close>

theorem signed_request_authenticates:
  assumes "b64_roundtrip (ca_crypto c)"
    and "next_nonce (ca_process_id c) ts ctr = (nonce, ctr')"
    and "sign_request (ca_crypto c) verb path ts nonce body (ca_secret c) = Inr s"
    and "ts \<noteq> 0" "abs_diff ts now \<le> 300"
    and "select_secret (ca_node_id c) = Inr (Some (ca_secret c))"
  shows "authenticate_node_request (ca_crypto c) select_secret now
      (received_headers (signed_http_request c verb path json_body ts nonce body s)) verb path body =
    Inr (ca_node_id c)"
proof -
  have "trim nonce \<noteq> []" using next_nonce_printable [OF assms(2)] by simp
  then show ?thesis
    by (intro signed_request_authenticates_aux assms)
qed

theorem signed_request_authenticates_witness:
  "\<exists>nonce s. authenticate_node_request demo_crypto (\<lambda>_. Inr (Some ''key'')) 1200
      (received_headers (signed_http_request sample_caller ''GET'' tasks_path False 1000 nonce [] s))
      ''GET'' tasks_path [] = Inr 7"
proof -
  obtain nonce ctr' where n: "next_nonce (ca_process_id sample_caller) 1000 5 = (nonce, ctr')"
    by (rule prod.exhaust)
  obtain s where s: "sign_request (ca_crypto sample_caller) ''GET'' tasks_path 1000 nonce []
      (ca_secret sample_caller) = Inr s"
    using sample_call(3) by blast
  have parts: "ca_crypto sample_caller = demo_crypto" "ca_node_id sample_caller = 7"
    "ca_secret sample_caller = ''key''"
    by (simp_all add: sample_caller_def)
  have "b64_roundtrip (ca_crypto sample_caller)" using parts by simp
  moreover have "abs_diff (1000 :: u64) 1200 \<le> 300"
    by (simp add: abs_diff_def word_less_nat_alt word_le_nat_alt)
  ultimately show ?thesis
    using signed_request_authenticates [OF _ n s, where now = 1200 and select_secret = "\<lambda>_. Inr (Some ''key'')"] parts
    by auto
qed

text \<open>
  A signature covers the whole request. If two signed requests of one node carry the same
  signature, they have the same verb, path, timestamp, nonce and body hash; so a recorded
  signature is of no use for another request, as long as the MAC tells its inputs apart.
\<close>

theorem signature_covers_request:
  assumes "sign_request cx verb path ts nonce body key = Inr s"
    and "sign_request cx verb' path' ts' nonce' body' key = Inr s'"
    and "sr_signature s = sr_signature s'"
    and "b64_roundtrip cx" "inj (hmac_sha256 cx key)"
    and "line_feed \<notin> set (verb @ verb' @ path @ path' @ nonce @ nonce')"
  shows "verb = verb' \<and> path = path' \<and> ts = ts' \<and> nonce = nonce' \<and> sr_body_sha256 s = sr_body_sha256 s'"
proof -
  obtain mac mac' where
    m: "hmac_sha256 cx key (node_canonical verb path ts nonce (sr_body_sha256 s)) = Some mac"
      "sr_signature s = b64_encode cx mac" and
    m': "hmac_sha256 cx key (node_canonical verb' path' ts' nonce' (sr_body_sha256 s')) = Some mac'"
      "sr_signature s' = b64_encode cx mac'"
    using assms(1,2)
    by (auto simp: sign_request_def Let_def canonical_request_def node_canonical_def newline_line_feed)
  have "mac = mac'"
    using m(2) m'(2) assms(3,4) by (metis b64_roundtrip_def option.inject)
  then have "node_canonical verb path ts nonce (sr_body_sha256 s) =
      node_canonical verb' path' ts' nonce' (sr_body_sha256 s')"
    using m(1) m'(1) assms(5) by (auto simp: inj_def)
  then show ?thesis
    by (rule node_canonical_injective) (use assms(6) in simp_all)
qed

theorem signature_covers_request_witness:
  "\<exists>s s'. sign_request (demo_crypto\<lparr>hmac_sha256 := \<lambda>k m. Some m\<rparr>) ''GET'' ''/a'' 5 ''n'' [] ''key'' = Inr s \<and>
     sign_request (demo_crypto\<lparr>hmac_sha256 := \<lambda>k m. Some m\<rparr>) ''GET'' ''/b'' 5 ''n'' [] ''key'' = Inr s' \<and>
     sr_signature s \<noteq> sr_signature s'"
proof -
  let ?cx = "demo_crypto\<lparr>hmac_sha256 := \<lambda>k m. Some m\<rparr>"
  obtain s s' where s: "sign_request ?cx ''GET'' ''/a'' 5 ''n'' [] ''key'' = Inr s"
    "sign_request ?cx ''GET'' ''/b'' 5 ''n'' [] ''key'' = Inr s'"
    by (simp add: sign_request_def Let_def)
  have "b64_roundtrip ?cx" "inj (hmac_sha256 ?cx ''key'')"
    by (simp_all add: b64_roundtrip_def demo_crypto_def inj_def)
  moreover have "line_feed \<notin> set (''GET'' @ ''GET'' @ ''/a'' @ ''/b'' @ ''n'' @ ''n'')"
    by (simp add: line_feed_def char_of_def bit_Suc_0_iff)
  ultimately have "sr_signature s \<noteq> sr_signature s'"
    using signature_covers_request [OF s] by auto
  with s show ?thesis by blast
qed

text \<open>
  The policy the control API stores and signs is in normal form: ids trimmed and not blank, the
  mode and host types known, 1 to 128 rules with 1 to 32 port ranges each, every range for udp
  or tcp with a positive lower end not above its upper one; and normalising it again changes
  nothing, so its hash is stable.
\<close>

theorem stored_policy_normal:
  assumes "normalize_route_policy p = Inr q"
  shows "route_policy_ok q \<and> normalize_route_policy q = Inr q"
  using assms by (rule normalize_route_policy_Inr)

theorem stored_policy_normal_witness: "route_policy_ok example_policy"
  using stored_policy_normal [OF sale_policy] by simp

end
